(* ===== verification/Prelude.thy ===== *)
theory Prelude
  imports Main "HOL-Library.Char_ord" "HOL-Library.List_Lexorder"
begin

text \<open>Shared vocabulary of the development: results with explicit errors, the JavaScript
  notions of text the program relies on, and the generic lemmas about them.

  A JavaScript string is modelled by the list of its UTF-8 bytes (well-formed Unicode is
  assumed), so that Buffer.byteLength is the length of the list and SQLite's bytewise
  text order is the lexicographic order of the lists.  A Uint8Array is the list of
  its bytes too.  The SHA-256 of node:crypto is a parameter of every definition that uses it.\<close>

named_theorems success_simps \<open>inversion of successful results\<close>
named_theorems frame_simps \<open>what an update leaves unchanged\<close>

type_synonym bytes = string
type_synonym sha256 = "bytes \<Rightarrow> string"

section \<open>Results\<close>

definition bindE :: "'e + 'a \<Rightarrow> ('a \<Rightarrow> 'e + 'b) \<Rightarrow> 'e + 'b" where
  "bindE m k = (case m of Inl e \<Rightarrow> Inl e | Inr x \<Rightarrow> k x)"

fun mapE :: "('a \<Rightarrow> 'e + 'b) \<Rightarrow> 'a list \<Rightarrow> 'e + 'b list" where
  "mapE f [] = Inr []"
| "mapE f (x # xs) = bindE (f x) (\<lambda>y. bindE (mapE f xs) (\<lambda>ys. Inr (y # ys)))"

fun foldE :: "('s \<Rightarrow> 'a \<Rightarrow> 'e + 's) \<Rightarrow> 's \<Rightarrow> 'a list \<Rightarrow> 'e + 's" where
  "foldE f s [] = Inr s"
| "foldE f s (x # xs) = bindE (f s x) (\<lambda>s'. foldE f s' xs)"

definition fromOption :: "'e \<Rightarrow> 'a option \<Rightarrow> 'e + 'a" where
  "fromOption e m = (case m of None \<Rightarrow> Inl e | Some x \<Rightarrow> Inr x)"

lemma bindE_simps [simp]:
  "bindE (Inl e) k = Inl e"
  "bindE (Inr x) k = k x"
  by (simp_all add: bindE_def)

lemma bindE_Inr_iff [success_simps]:
  "bindE m k = Inr y \<longleftrightarrow> (\<exists>x. m = Inr x \<and> k x = Inr y)"
  by (cases m) simp_all

lemma bindE_Inl_iff:
  "bindE m k = Inl e \<longleftrightarrow> m = Inl e \<or> (\<exists>x. m = Inr x \<and> k x = Inl e)"
  by (cases m) auto

lemma if_Inl_else_Inr_iff [success_simps]:
  "(if c then Inl e else m) = Inr y \<longleftrightarrow> \<not> c \<and> m = Inr y"
  by simp

lemma if_then_else_Inl_iff [success_simps]:
  "(if c then m else Inl e) = Inr y \<longleftrightarrow> c \<and> m = Inr y"
  by simp

lemma fromOption_Inr_iff [success_simps]:
  "fromOption e m = Inr y \<longleftrightarrow> m = Some y"
  by (cases m) (simp_all add: fromOption_def)

lemma fromOption_simps [simp]:
  "fromOption e None = Inl e"
  "fromOption e (Some x) = Inr x"
  by (simp_all add: fromOption_def)

lemma bindE_cong [fundef_cong]:
  "m = m' \<Longrightarrow> (\<And>x. m' = Inr x \<Longrightarrow> k x = k' x) \<Longrightarrow> bindE m k = bindE m' k'"
  by (cases m') simp_all

lemma mapE_length: "mapE f xs = Inr ys \<Longrightarrow> length ys = length xs"
  by (induction xs arbitrary: ys) (auto simp: success_simps)

lemma mapE_Inr_iff:
  "mapE f xs = Inr ys \<longleftrightarrow> list_all2 (\<lambda>x y. f x = Inr y) xs ys"
  by (induction xs arbitrary: ys) (auto simp: success_simps list_all2_Cons1)

lemma foldE_invariant:
  assumes "foldE f s xs = Inr s'" and "P s"
    and "\<And>s x t. x \<in> set xs \<Longrightarrow> P s \<Longrightarrow> f s x = Inr t \<Longrightarrow> P t"
  shows "P s'"
  using assms
proof (induction xs arbitrary: s)
  case (Cons x xs)
  then obtain t where t: "f s x = Inr t" "foldE f t xs = Inr s'"
    by (auto simp: success_simps)
  then show ?case using Cons.prems Cons.IH[OF t(2)] by auto
qed simp

lemma foldE_append:
  "foldE f s (xs @ ys) = bindE (foldE f s xs) (\<lambda>t. foldE f t ys)"
proof (induction xs arbitrary: s)
  case (Cons x xs)
  then show ?case by (cases "f s x") simp_all
qed simp

section \<open>Text\<close>

definition max_safe_integer :: int where
  "max_safe_integer = 9007199254740991"

definition safe_integer :: "int \<Rightarrow> bool" where
  "safe_integer n \<longleftrightarrow> - max_safe_integer \<le> n \<and> n \<le> max_safe_integer"

definition byte :: "nat \<Rightarrow> char" where
  "byte n = char_of n"

definition code :: "char \<Rightarrow> nat" where
  "code c = of_char c"

text \<open>UTF-16 code units of a text: one for every byte that starts a code point, one more
  for the four-byte forms, none for continuation bytes.\<close>

definition utf16_units :: "char \<Rightarrow> nat" where
  "utf16_units c = (let n = code c in if n < 128 then 1 else if n < 192 then 0 else if n < 240 then 1 else 2)"

definition utf16_length :: "string \<Rightarrow> nat" where
  "utf16_length s = sum_list (map utf16_units s)"

definition isHexDigit :: "char \<Rightarrow> bool" where
  "isHexDigit c \<longleftrightarrow> (48 \<le> code c \<and> code c \<le> 57) \<or> (97 \<le> code c \<and> code c \<le> 102)"

definition isSha256Hex :: "string \<Rightarrow> bool" where
  "isSha256Hex s \<longleftrightarrow> length s = 64 \<and> list_all isHexDigit s"

definition isDigit :: "char \<Rightarrow> bool" where
  "isDigit c \<longleftrightarrow> 48 \<le> code c \<and> code c \<le> 57"

definition startsWith :: "string \<Rightarrow> string \<Rightarrow> bool" where
  "startsWith p s \<longleftrightarrow> take (length p) s = p"

definition endsWith :: "string \<Rightarrow> string \<Rightarrow> bool" where
  "endsWith p s \<longleftrightarrow> startsWith (rev p) (rev s)"

fun containsText :: "string \<Rightarrow> string \<Rightarrow> bool" where
  "containsText p [] = (p = [])"
| "containsText p (c # s) = (startsWith p (c # s) \<or> containsText p s)"

text \<open>The white space of String.prototype.trim, as UTF-8 sequences.\<close>

definition js_spaces :: "string list" where
  "js_spaces = map (\<lambda>c. [byte c]) [9, 10, 11, 12, 13, 32] @
     map (map byte) [[0xC2, 0xA0], [0xE1, 0x9A, 0x80], [0xE2, 0x80, 0xA8], [0xE2, 0x80, 0xA9],
       [0xE2, 0x80, 0xAF], [0xE2, 0x81, 0x9F], [0xE3, 0x80, 0x80], [0xEF, 0xBB, 0xBF]] @
     map (\<lambda>n. [byte 0xE2, byte 0x80, byte n]) [0x80..<0x8B]"

lemma js_spaces_literal [code]: "js_spaces = [[CHR 0x09], [CHR 0x0A], [CHR 0x0B], [CHR 0x0C], [CHR 0x0D], [CHR 0x20],
   [CHR 0xC2, CHR 0xA0], [CHR 0xE1, CHR 0x9A, CHR 0x80], [CHR 0xE2, CHR 0x80, CHR 0xA8], [CHR 0xE2, CHR 0x80, CHR 0xA9],
   [CHR 0xE2, CHR 0x80, CHR 0xAF], [CHR 0xE2, CHR 0x81, CHR 0x9F], [CHR 0xE3, CHR 0x80, CHR 0x80], [CHR 0xEF, CHR 0xBB, CHR 0xBF],
   [CHR 0xE2, CHR 0x80, CHR 0x80], [CHR 0xE2, CHR 0x80, CHR 0x81], [CHR 0xE2, CHR 0x80, CHR 0x82], [CHR 0xE2, CHR 0x80, CHR 0x83],
   [CHR 0xE2, CHR 0x80, CHR 0x84], [CHR 0xE2, CHR 0x80, CHR 0x85], [CHR 0xE2, CHR 0x80, CHR 0x86], [CHR 0xE2, CHR 0x80, CHR 0x87],
   [CHR 0xE2, CHR 0x80, CHR 0x88], [CHR 0xE2, CHR 0x80, CHR 0x89], [CHR 0xE2, CHR 0x80, CHR 0x8A]]"
  by code_simp

function drop_prefixes :: "string list \<Rightarrow> string \<Rightarrow> string" where
  "drop_prefixes ps s =
     (case find (\<lambda>p. p \<noteq> [] \<and> startsWith p s) ps of
        None \<Rightarrow> s
      | Some p \<Rightarrow> if s = [] then [] else drop_prefixes ps (drop (length p) s))"
  by pat_completeness auto
termination
  by (relation "measure (\<lambda>(ps, s). length s)") (auto simp: find_Some_iff)

declare drop_prefixes.simps [simp del]

definition js_trim :: "string \<Rightarrow> string" where
  "js_trim s = rev (drop_prefixes (map rev js_spaces) (rev (drop_prefixes js_spaces s)))"

lemma startsWith_iff: "startsWith p s \<longleftrightarrow> (\<exists>r. s = p @ r)"
  by (metis append_eq_conv_conj append_take_drop_id startsWith_def)

lemma startsWith_self [simp]: "startsWith p (p @ r)"
  by (simp add: startsWith_def)

lemma endsWith_iff: "endsWith p s \<longleftrightarrow> (\<exists>r. s = r @ p)"
proof
  assume "endsWith p s"
  then obtain r where "rev s = rev p @ r" by (auto simp: endsWith_def startsWith_iff)
  then have "s = rev r @ p" by (metis rev_append rev_rev_ident)
  then show "\<exists>r. s = r @ p" by blast
qed (auto simp: endsWith_def startsWith_def)

lemma containsText_iff: "containsText p s \<longleftrightarrow> (\<exists>a b. s = a @ p @ b)"
proof (induction s)
  case (Cons c s)
  have "(\<exists>a b. c # s = a @ p @ b) \<longleftrightarrow> (\<exists>b. c # s = p @ b) \<or> (\<exists>a b. s = a @ p @ b)"
    by (metis append_Cons append_Nil append_eq_Cons_conv)
  then show ?case using Cons by (simp add: startsWith_iff)
qed auto

section \<open>Lists\<close>

lemma sum_list_filter_le:
  "sum_list (map f (filter P xs)) \<le> (sum_list (map f xs) :: nat)"
  by (induction xs) auto

lemma find_Some_in: "find P xs = Some x \<Longrightarrow> x \<in> set xs \<and> P x"
  by (auto simp: find_Some_iff)

lemma find_eq_filter: "find P xs = (case filter P xs of [] \<Rightarrow> None | x # _ \<Rightarrow> Some x)"
  by (induction xs) auto

end
