(* ===== verification/Table.thy ===== *)
theory Table
  imports Prelude
begin

text \<open>The fragment of SQL the capture journal uses, over tables that are lists of rows:
  SELECT by key is a find, UPDATE ... WHERE a conditional map, INSERT an append, ORDER BY a
  sort by key and LIMIT a take.  The lemmas say how the queries and the sums an accounting
  column stands for react to those updates when the key is unique.\<close>

definition updateWhere :: "('r \<Rightarrow> bool) \<Rightarrow> ('r \<Rightarrow> 'r) \<Rightarrow> 'r list \<Rightarrow> 'r list" where
  "updateWhere P f rows = map (\<lambda>r. if P r then f r else r) rows"

definition selectAll :: "('r \<Rightarrow> bool) \<Rightarrow> ('r \<Rightarrow> 'k::linorder) \<Rightarrow> nat \<Rightarrow> 'r list \<Rightarrow> 'r list" where
  "selectAll P key limit rows = take limit (sort_key key (filter P rows))"

definition existsRow :: "('r \<Rightarrow> bool) \<Rightarrow> 'r list \<Rightarrow> bool" where
  "existsRow P rows = list_ex P rows"

definition countRows :: "('r \<Rightarrow> bool) \<Rightarrow> 'r list \<Rightarrow> nat" where
  "countRows P rows = length (filter P rows)"

lemma existsRow_iff: "existsRow P rows \<longleftrightarrow> (\<exists>r\<in>set rows. P r)"
  by (simp add: existsRow_def list_ex_iff)

lemma updateWhere_simps [simp]:
  "updateWhere P f [] = []"
  "updateWhere P f (r # rows) = (if P r then f r else r) # updateWhere P f rows"
  "updateWhere P f (xs @ ys) = updateWhere P f xs @ updateWhere P f ys"
  by (simp_all add: updateWhere_def)

lemma length_updateWhere [simp]: "length (updateWhere P f rows) = length rows"
  by (simp add: updateWhere_def)

lemma set_updateWhere: "r \<in> set (updateWhere P f rows) \<longleftrightarrow> (\<exists>s\<in>set rows. r = (if P s then f s else s))"
  by (auto simp: updateWhere_def)

lemma updateWhere_in:
  assumes "r \<in> set (updateWhere P f rows)"
  obtains s where "s \<in> set rows" "r = (if P s then f s else s)"
  using assms by (auto simp: set_updateWhere)

lemma map_updateWhere_same:
  assumes "\<And>r. r \<in> set rows \<Longrightarrow> P r \<Longrightarrow> key (f r) = key r"
  shows "map key (updateWhere P f rows) = map key rows"
  using assms by (induction rows) auto

lemma updateWhere_none: "(\<And>r. r \<in> set rows \<Longrightarrow> \<not> P r) \<Longrightarrow> updateWhere P f rows = rows"
  by (induction rows) simp_all

lemma find_updateWhere:
  assumes "\<And>r. r \<in> set rows \<Longrightarrow> P r \<Longrightarrow> Q (f r) = Q r"
  shows "find Q (updateWhere P f rows) = map_option (\<lambda>r. if P r then f r else r) (find Q rows)"
  using assms by (induction rows) auto

lemma filter_updateWhere:
  assumes "\<And>r. r \<in> set rows \<Longrightarrow> P r \<Longrightarrow> Q (f r) = Q r"
  shows "filter Q (updateWhere P f rows) = updateWhere P f (filter Q rows)"
  using assms by (induction rows) auto

lemma filter_updateWhere_disjoint:
  assumes "\<And>r. P r \<Longrightarrow> \<not> Q r" "\<And>r. P r \<Longrightarrow> \<not> Q (f r)"
  shows "filter Q (updateWhere P f rows) = filter Q rows"
  using assms by (induction rows) auto

lemma find_append: "find P (xs @ ys) = (case find P xs of None \<Rightarrow> find P ys | Some x \<Rightarrow> Some x)"
  by (induction xs) simp_all

lemma find_None_all: "find P xs = None \<longleftrightarrow> (\<forall>x\<in>set xs. \<not> P x)"
  by (induction xs) simp_all

lemma find_unique_key:
  assumes "distinct (map key rows)" "r \<in> set rows" "key r = k"
  shows "find (\<lambda>x. key x = k) rows = Some r"
  using assms by (induction rows) (auto simp: image_iff)

lemma find_key_Some:
  assumes "distinct (map key rows)"
  shows "find (\<lambda>x. key x = k) rows = Some r \<longleftrightarrow> r \<in> set rows \<and> key r = k"
  using find_unique_key[OF assms, of r k] find_Some_in[of "\<lambda>x. key x = k" rows r] by blast

text \<open>A sum over a column after the update of the single row with a key.\<close>

lemma sum_updateWhere_key:
  fixes g :: "'r \<Rightarrow> int"
  assumes "distinct (map key rows)" "r \<in> set rows" "key r = k"
  shows "sum_list (map g (updateWhere (\<lambda>x. key x = k) f rows)) = sum_list (map g rows) - g r + g (f r)"
  using assms
proof (induction rows)
  case (Cons a rows)
  show ?case
  proof (cases "key a = k")
    case True
    then have "updateWhere (\<lambda>x. key x = k) f rows = rows"
      using Cons.prems(1) by (intro updateWhere_none) (auto simp: image_iff)
    moreover have "a = r"
      using True Cons.prems by (auto simp: image_iff)
    ultimately show ?thesis using True by simp
  next
    case False
    with Cons show ?thesis by auto
  qed
qed simp

lemma sum_updateWhere_same:
  assumes "\<And>r. r \<in> set rows \<Longrightarrow> P r \<Longrightarrow> g (f r) = g r"
  shows "sum_list (map g (updateWhere P f rows)) = sum_list (map g rows)"
  using assms by (induction rows) auto

lemma sum_updateWhere_general:
  fixes g :: "'r \<Rightarrow> int"
  shows "sum_list (map g (updateWhere P f rows)) =
         sum_list (map g rows) + sum_list (map (\<lambda>r. g (f r) - g r) (filter P rows))"
  by (induction rows) auto

lemma countRows_simps [simp]:
  "countRows P [] = 0"
  "countRows P (r # rows) = (if P r then Suc (countRows P rows) else countRows P rows)"
  "countRows P (xs @ ys) = countRows P xs + countRows P ys"
  by (simp_all add: countRows_def)

lemma countRows_False [simp]: "countRows (\<lambda>r. False) rows = 0"
  by (simp add: countRows_def)

lemma countRows_zero_iff: "countRows P rows = 0 \<longleftrightarrow> (\<forall>r\<in>set rows. \<not> P r)"
  by (induction rows) auto

lemma countRows_le_one_iff:
  "countRows P rows \<le> 1 \<Longrightarrow> r \<in> set rows \<Longrightarrow> s \<in> set rows \<Longrightarrow> P r \<Longrightarrow> P s \<Longrightarrow> r = s"
proof (induction rows)
  case (Cons a rows)
  show ?case
  proof (cases "P a")
    case True
    then have "countRows P rows = 0" using Cons.prems(1) by simp
    then show ?thesis using Cons.prems by (auto simp: countRows_zero_iff)
  qed (use Cons in auto)
qed simp

lemma countRows_updateWhere:
  assumes "\<And>r. r \<in> set rows \<Longrightarrow> P r \<Longrightarrow> Q (f r) = Q r"
  shows "countRows Q (updateWhere P f rows) = countRows Q rows"
  using assms by (induction rows) auto

lemma countRows_updateWhere_le:
  assumes "\<And>r. r \<in> set rows \<Longrightarrow> P r \<Longrightarrow> Q (f r) \<Longrightarrow> Q r"
  shows "countRows Q (updateWhere P f rows) \<le> countRows Q rows"
  using assms by (induction rows) (auto simp: le_SucI)

lemma set_selectAll: "r \<in> set (selectAll P key n rows) \<Longrightarrow> r \<in> set rows \<and> P r"
  unfolding selectAll_def by (auto dest: in_set_takeD)

lemma length_selectAll: "length (selectAll P key n rows) \<le> n"
  by (simp add: selectAll_def)

lemma sorted_selectAll: "sorted (map key (selectAll P key n rows))"
  unfolding selectAll_def take_map[symmetric] by (intro sorted_wrt_take) simp

lemma distinct_map_snoc [simp]:
  "distinct (map key (rows @ [r])) \<longleftrightarrow> distinct (map key rows) \<and> (\<forall>x\<in>set rows. key x \<noteq> key r)"
  by (auto simp: image_iff)

text \<open>A page is a sublist of distinct rows, and deleting its rows removes exactly them.\<close>

lemma distinct_selectAll: "distinct rows \<Longrightarrow> distinct (selectAll P key n rows)"
  by (simp add: selectAll_def)

lemma sum_in_sublist:
  fixes g :: "'r \<Rightarrow> int"
  assumes "distinct rows" "distinct sub" "set sub \<subseteq> set rows"
  shows "sum_list (map g (filter (\<lambda>r. r \<in> set sub) rows)) = sum_list (map g sub)"
proof -
  have "set (filter (\<lambda>r. r \<in> set sub) rows) = set sub" using assms(3) by auto
  then show ?thesis
    using assms by (simp add: sum_list_distinct_conv_sum_set)
qed

lemma distinct_map_updateWhere:
  assumes "\<And>r. r \<in> set rows \<Longrightarrow> P r \<Longrightarrow> key (f r) = key r"
  shows "distinct (map key (updateWhere P f rows)) = distinct (map key rows)"
  using map_updateWhere_same[of rows P key f] assms by simp

lemma image_updateWhere:
  assumes "\<And>r. r \<in> set rows \<Longrightarrow> P r \<Longrightarrow> key (f r) = key r"
  shows "key ` set (updateWhere P f rows) = key ` set rows"
proof -
  have "set (map key (updateWhere P f rows)) = set (map key rows)"
    using map_updateWhere_same[of rows P key f] assms by metis
  then show ?thesis by simp
qed

lemma ball_updateWhere:
  "(\<forall>r\<in>set (updateWhere P f rows). Q r) \<longleftrightarrow> (\<forall>r\<in>set rows. if P r then Q (f r) else Q r)"
  by (induction rows) auto

end
