(* ===== verification/Json.thy ===== *)
theory Json
  imports Prelude
begin

text \<open>The JSON of the JavaScript standard library: values, JSON.stringify, JSON.parse, and
  the round trip between them.  A number is kept as a decimal mantissa and exponent; the
  program only prints integers (exponent 0).  The parser is recursive descent with fuel;
  twice the length of the text is enough for everything the printer produces.\<close>

datatype json =
    JNull
  | JBool bool
  | JNum int int
  | JStr string
  | JArr "json list"
  | JObj "(string \<times> json) list"

abbreviation JInt :: "int \<Rightarrow> json" where
  "JInt n \<equiv> JNum n 0"

section \<open>Printing\<close>

definition digitChar :: "nat \<Rightarrow> char" where
  "digitChar n = byte (48 + n)"

fun showNat :: "nat \<Rightarrow> string" where
  "showNat n = (if n < 10 then [digitChar n] else showNat (n div 10) @ [digitChar (n mod 10)])"

declare showNat.simps [simp del]

definition showInt :: "int \<Rightarrow> string" where
  "showInt n = (if n < 0 then CHR ''-'' # showNat (nat (- n)) else showNat (nat n))"

definition hexChar :: "nat \<Rightarrow> char" where
  "hexChar n = (if n < 10 then byte (48 + n) else byte (87 + n))"

definition escapeChar :: "char \<Rightarrow> string" where
  "escapeChar c =
     (if c = CHR 0x22 then [CHR 0x5C, CHR 0x22]
      else if c = CHR 0x5C then [CHR 0x5C, CHR 0x5C]
      else if c = CHR 0x08 then [CHR 0x5C, CHR ''b'']
      else if c = CHR 0x09 then [CHR 0x5C, CHR ''t'']
      else if c = CHR 0x0A then [CHR 0x5C, CHR ''n'']
      else if c = CHR 0x0C then [CHR 0x5C, CHR ''f'']
      else if c = CHR 0x0D then [CHR 0x5C, CHR ''r'']
      else if code c < 32 then [CHR 0x5C, CHR ''u'', CHR ''0'', CHR ''0'', hexChar (code c div 16), hexChar (code c mod 16)]
      else [c])"

text \<open>A character is read bit by bit when a text is evaluated.\<close>

lemma control_bits: "code (Char b0 b1 b2 b3 b4 b5 b6 b7) < 32 \<longleftrightarrow> \<not> b5 \<and> \<not> b6 \<and> \<not> b7"
  by (cases b0; cases b1; cases b2; cases b3; cases b4; cases b5; cases b6; cases b7; simp add: code_def)

lemma escapeChar_code [code]:
  "escapeChar (Char b0 b1 b2 b3 b4 b5 b6 b7) = (let c = Char b0 b1 b2 b3 b4 b5 b6 b7 in
     if b5 \<or> b6 \<or> b7 then
       (if \<not> b0 \<and> b1 \<and> \<not> b2 \<and> \<not> b3 \<and> \<not> b4 \<and> b5 \<and> \<not> b6 \<and> \<not> b7 then [CHR 0x5C, CHR 0x22]
        else if \<not> b0 \<and> \<not> b1 \<and> b2 \<and> b3 \<and> b4 \<and> \<not> b5 \<and> b6 \<and> \<not> b7 then [CHR 0x5C, CHR 0x5C] else [c])
     else if c = CHR 0x08 then [CHR 0x5C, CHR ''b''] else if c = CHR 0x09 then [CHR 0x5C, CHR ''t'']
     else if c = CHR 0x0A then [CHR 0x5C, CHR ''n''] else if c = CHR 0x0C then [CHR 0x5C, CHR ''f'']
     else if c = CHR 0x0D then [CHR 0x5C, CHR ''r'']
     else [CHR 0x5C, CHR ''u'', CHR ''0'', CHR ''0'', hexChar (code c div 16), hexChar (code c mod 16)])"
  by (auto simp: escapeChar_def control_bits Let_def)

definition showString :: "string \<Rightarrow> string" where
  "showString s = CHR 0x22 # concat (map escapeChar s) @ [CHR 0x22]"

fun stringify :: "json \<Rightarrow> string"
  and stringifyItems :: "json list \<Rightarrow> string"
  and stringifyMembers :: "(string \<times> json) list \<Rightarrow> string" where
  "stringify JNull = ''null''"
| "stringify (JBool b) = (if b then ''true'' else ''false'')"
| "stringify (JNum m e) = showInt m @ (if e = 0 then [] else CHR ''e'' # showInt e)"
| "stringify (JStr s) = showString s"
| "stringify (JArr xs) = CHR ''['' # stringifyItems xs @ '']''"
| "stringify (JObj ms) = CHR ''{'' # stringifyMembers ms @ ''}''"
| "stringifyItems [] = []"
| "stringifyItems (x # xs) = stringify x @ (if xs = [] then [] else CHR '','' # stringifyItems xs)"
| "stringifyMembers [] = []"
| "stringifyMembers ((k, v) # ms) =
     showString k @ CHR '':'' # stringify v @ (if ms = [] then [] else CHR '','' # stringifyMembers ms)"

section \<open>Parsing\<close>

fun skipWs :: "string \<Rightarrow> string" where
  "skipWs [] = []"
| "skipWs (c # r) = (if code c \<in> {9, 10, 13, 32} then skipWs r else c # r)"

definition hexVal :: "char \<Rightarrow> nat option" where
  "hexVal c = (let n = code c in
     if 48 \<le> n \<and> n \<le> 57 then Some (n - 48)
     else if 97 \<le> n \<and> n \<le> 102 then Some (n - 87)
     else if 65 \<le> n \<and> n \<le> 70 then Some (n - 55)
     else None)"

fun hex4 :: "string \<Rightarrow> (nat \<times> string) option" where
  "hex4 (a # b # c # d # r) =
     (case (hexVal a, hexVal b, hexVal c, hexVal d) of
        (Some w, Some x, Some y, Some z) \<Rightarrow> Some (((w * 16 + x) * 16 + y) * 16 + z, r)
      | _ \<Rightarrow> None)"
| "hex4 _ = None"

definition utf8Encode :: "nat \<Rightarrow> string" where
  "utf8Encode n =
     (if n < 0x80 then [byte n]
      else if n < 0x800 then [byte (0xC0 + n div 64), byte (0x80 + n mod 64)]
      else if n < 0x10000 then [byte (0xE0 + n div 4096), byte (0x80 + n div 64 mod 64), byte (0x80 + n mod 64)]
      else [byte (0xF0 + n div 262144), byte (0x80 + n div 4096 mod 64), byte (0x80 + n div 64 mod 64), byte (0x80 + n mod 64)])"

text \<open>The escape after a backslash and u, joining a surrogate pair into one code point.\<close>

definition unicodeEscape :: "string \<Rightarrow> (string \<times> string) option" where
  "unicodeEscape s = (case hex4 s of
       None \<Rightarrow> None
     | Some (hi, r) \<Rightarrow>
         (case r of
            p # q # r1 \<Rightarrow>
              (if 0xD800 \<le> hi \<and> hi < 0xDC00 \<and> p = CHR 0x5C \<and> q = CHR ''u'' then
                 (case hex4 r1 of
                    Some (lo, r2) \<Rightarrow>
                      (if 0xDC00 \<le> lo \<and> lo < 0xE000
                       then Some (utf8Encode (0x10000 + (hi - 0xD800) * 1024 + (lo - 0xDC00)), r2)
                       else Some (utf8Encode hi, r))
                  | None \<Rightarrow> Some (utf8Encode hi, r))
               else Some (utf8Encode hi, r))
          | _ \<Rightarrow> Some (utf8Encode hi, r)))"

definition simpleEscape :: "char \<Rightarrow> char option" where
  "simpleEscape e =
     (if e \<in> {CHR 0x22, CHR 0x5C, CHR ''/''} then Some e
      else if e = CHR ''b'' then Some (CHR 0x08)
      else if e = CHR ''f'' then Some (CHR 0x0C)
      else if e = CHR ''n'' then Some (CHR 0x0A)
      else if e = CHR ''r'' then Some (CHR 0x0D)
      else if e = CHR ''t'' then Some (CHR 0x09)
      else None)"

lemma hex4_shorter [termination_simp]: "hex4 s = Some (n, r) \<Longrightarrow> length r < length s"
  by (cases s rule: hex4.cases) (auto split: option.splits)

lemma unicodeEscape_shorter [termination_simp]:
  "unicodeEscape s = Some (u, r) \<Longrightarrow> length r < length s"
  unfolding unicodeEscape_def
  by (auto split: option.splits list.splits if_splits dest!: hex4_shorter)

fun parseString :: "string \<Rightarrow> (string \<times> string) option" where
  "parseString [] = None"
| "parseString (c # r) =
     (if c = CHR 0x22 then Some ([], r)
      else if c = CHR 0x5C then
        (case r of
           [] \<Rightarrow> None
         | e # r1 \<Rightarrow>
             (if e = CHR ''u'' then
                (case unicodeEscape r1 of
                   None \<Rightarrow> None
                 | Some (u, r2) \<Rightarrow> map_option (\<lambda>(t, q). (u @ t, q)) (parseString r2))
              else
                (case simpleEscape e of
                   None \<Rightarrow> None
                 | Some x \<Rightarrow> map_option (\<lambda>(t, q). (x # t, q)) (parseString r1))))
      else if code c < 32 then None
      else map_option (\<lambda>(t, q). (c # t, q)) (parseString r))"

fun spanDigits :: "string \<Rightarrow> string \<times> string" where
  "spanDigits [] = ([], [])"
| "spanDigits (c # r) = (if isDigit c then (let (d, q) = spanDigits r in (c # d, q)) else ([], c # r))"

definition digitsVal :: "string \<Rightarrow> nat" where
  "digitsVal ds = foldl (\<lambda>n c. n * 10 + (code c - 48)) 0 ds"

definition parseFraction :: "string \<Rightarrow> (string \<times> string) option" where
  "parseFraction s = (case s of
       c # r \<Rightarrow> (if c = CHR ''.'' then (let (d, q) = spanDigits r in if d = [] then None else Some (d, q)) else Some ([], s))
     | [] \<Rightarrow> Some ([], s))"

definition parseExponent :: "string \<Rightarrow> (int \<times> string) option" where
  "parseExponent s = (case s of
       [] \<Rightarrow> Some (0, s)
     | c # r \<Rightarrow>
        (if c = CHR ''e'' \<or> c = CHR ''E'' then
           (let neg = (r \<noteq> [] \<and> hd r = CHR ''-'');
                r1 = (if r \<noteq> [] \<and> (hd r = CHR ''-'' \<or> hd r = CHR ''+'') then tl r else r);
                (d, q) = spanDigits r1
            in if d = [] then None else Some (if neg then - int (digitsVal d) else int (digitsVal d), q))
         else Some (0, s)))"

definition parseNumber :: "string \<Rightarrow> (json \<times> string) option" where
  "parseNumber s =
     (let neg = (s \<noteq> [] \<and> hd s = CHR ''-'');
          (d, r) = spanDigits (if neg then tl s else s)
      in if d = [] \<or> (hd d = CHR ''0'' \<and> length d > 1) then None
         else case parseFraction r of
           None \<Rightarrow> None
         | Some (f, r1) \<Rightarrow>
            (case parseExponent r1 of
               None \<Rightarrow> None
             | Some (e, r2) \<Rightarrow>
                 Some (JNum ((if neg then -1 else 1) * int (digitsVal (d @ f))) (e - int (length f)), r2)))"

definition literal :: "string \<Rightarrow> json \<Rightarrow> string \<Rightarrow> (json \<times> string) option" where
  "literal w v s = (if startsWith w s then Some (v, drop (length w) s) else None)"

fun parseValue :: "nat \<Rightarrow> string \<Rightarrow> (json \<times> string) option"
  and parseItems :: "nat \<Rightarrow> string \<Rightarrow> (json list \<times> string) option"
  and parseMembers :: "nat \<Rightarrow> string \<Rightarrow> ((string \<times> json) list \<times> string) option" where
  "parseValue 0 s = None"
| "parseValue (Suc n) s =
     (case skipWs s of
        [] \<Rightarrow> None
      | c # r \<Rightarrow>
         (if c = CHR 0x22 then map_option (\<lambda>(t, q). (JStr t, q)) (parseString r)
          else if c = CHR ''['' then
            (case skipWs r of
               [] \<Rightarrow> None
             | d # q \<Rightarrow> (if d = CHR '']'' then Some (JArr [], q)
                        else map_option (\<lambda>(xs, q). (JArr xs, q)) (parseItems n r)))
          else if c = CHR ''{'' then
            (case skipWs r of
               [] \<Rightarrow> None
             | d # q \<Rightarrow> (if d = CHR ''}'' then Some (JObj [], q)
                        else map_option (\<lambda>(ms, q). (JObj ms, q)) (parseMembers n r)))
          else if c = CHR ''t'' then literal ''true'' (JBool True) (c # r)
          else if c = CHR ''f'' then literal ''false'' (JBool False) (c # r)
          else if c = CHR ''n'' then literal ''null'' JNull (c # r)
          else parseNumber (c # r)))"
| "parseItems 0 s = None"
| "parseItems (Suc n) s =
     (case parseValue n s of
        None \<Rightarrow> None
      | Some (v, r) \<Rightarrow>
         (case skipWs r of
            [] \<Rightarrow> None
          | c # q \<Rightarrow>
             (if c = CHR '','' then map_option (\<lambda>(vs, q). (v # vs, q)) (parseItems n q)
              else if c = CHR '']'' then Some ([v], q) else None)))"
| "parseMembers 0 s = None"
| "parseMembers (Suc n) s =
     (case skipWs s of
        [] \<Rightarrow> None
      | a # s1 \<Rightarrow>
        (if a \<noteq> CHR 0x22 then None
         else case parseString s1 of
           None \<Rightarrow> None
         | Some (k, s2) \<Rightarrow>
           (case skipWs s2 of
              [] \<Rightarrow> None
            | b # s3 \<Rightarrow>
              (if b \<noteq> CHR '':'' then None
               else case parseValue n s3 of
                 None \<Rightarrow> None
               | Some (v, r) \<Rightarrow>
                 (case skipWs r of
                    [] \<Rightarrow> None
                  | c # q \<Rightarrow>
                     (if c = CHR '','' then map_option (\<lambda>(ms, q). ((k, v) # ms, q)) (parseMembers n q)
                      else if c = CHR ''}'' then Some ([(k, v)], q) else None))))))"

definition parseJson :: "string \<Rightarrow> json option" where
  "parseJson s = (case parseValue (Suc (2 * length s)) s of
       Some (v, r) \<Rightarrow> (if skipWs r = [] then Some v else None)
     | None \<Rightarrow> None)"

section \<open>Reading values\<close>

text \<open>A repeated key of an object denotes its last value.\<close>

definition field :: "string \<Rightarrow> json \<Rightarrow> json option" where
  "field k j = (case j of JObj ms \<Rightarrow> map_of (rev ms) k | _ \<Rightarrow> None)"

definition asString :: "json \<Rightarrow> string option" where
  "asString j = (case j of JStr s \<Rightarrow> Some s | _ \<Rightarrow> None)"

definition asBool :: "json \<Rightarrow> bool option" where
  "asBool j = (case j of JBool b \<Rightarrow> Some b | _ \<Rightarrow> None)"

definition asInt :: "json \<Rightarrow> int option" where
  "asInt j = (case j of
       JNum m e \<Rightarrow> (if 0 \<le> e then Some (m * 10 ^ nat e)
                    else if m mod 10 ^ nat (- e) = 0 then Some (m div 10 ^ nat (- e)) else None)
     | _ \<Rightarrow> None)"

lemma as_simps [simp]:
  "asString (JStr s) = Some s" "asBool (JBool b) = Some b" "asInt (JInt n) = Some n"
  by (simp_all add: asString_def asBool_def asInt_def)

section \<open>The round trip\<close>

lemma code_byte [simp]: "n < 256 \<Longrightarrow> code (byte n) = n"
  by (simp add: code_def byte_def)

lemma byte_code [simp]: "byte (code c) = c"
  by (simp add: code_def byte_def)

lemma code_less [simp]: "code c < 256"
  using nat_of_char_less_256[of c] by (simp add: code_def)

lemma code_inject [simp]: "code c = code d \<longleftrightarrow> c = d"
  by (metis byte_code)

lemma isDigit_digitChar [simp]: "n < 10 \<Longrightarrow> isDigit (digitChar n)"
  by (simp add: isDigit_def digitChar_def)

lemma showNat_digits: "list_all isDigit (showNat n)"
  by (induction n rule: showNat.induct) (subst showNat.simps, simp)

lemma showNat_nonempty [simp]: "showNat n \<noteq> []"
  by (subst showNat.simps) simp

lemma digitsVal_snoc [simp]: "digitsVal (ds @ [c]) = digitsVal ds * 10 + (code c - 48)"
  by (simp add: digitsVal_def)

lemma digitsVal_showNat [simp]: "digitsVal (showNat n) = n"
proof (induction n rule: showNat.induct)
  case (1 n)
  have "digitsVal [digitChar m] = m" if "m < 10" for m
    using that by (simp add: digitsVal_def digitChar_def)
  with 1 show ?case by (subst showNat.simps) (auto simp: digitChar_def)
qed

lemma showNat_hd: "n \<noteq> 0 \<Longrightarrow> code (hd (showNat n)) \<noteq> 48"
proof (induction n rule: showNat.induct)
  case (1 n)
  then show ?case by (subst showNat.simps) (auto simp: digitChar_def hd_append)
qed

lemma showNat_0 [simp]: "showNat 0 = ''0''"
  by code_simp

lemma spanDigits_append:
  "list_all isDigit d \<Longrightarrow> r = [] \<or> \<not> isDigit (hd r) \<Longrightarrow> spanDigits (d @ r) = (d, r)"
proof (induction d)
  case Nil
  then show ?case by (cases r) simp_all
qed simp

lemma showNat_hd_digit: "isDigit (hd (showNat n))"
  using showNat_digits[of n] by (cases "showNat n") simp_all

definition delimited :: "string \<Rightarrow> bool" where
  "delimited r \<longleftrightarrow> r = [] \<or> hd r \<in> {CHR '','', CHR '']'', CHR ''}''}"

lemma delimited_stops:
  "delimited r \<Longrightarrow> (r = [] \<or> \<not> isDigit (hd r)) \<and> parseFraction r = Some ([], r) \<and> parseExponent r = Some (0, r)"
  unfolding delimited_def parseFraction_def parseExponent_def isDigit_def
  by (cases r) (auto simp: code_def)

lemma leading_zero_showNat: "hd (showNat n) = CHR ''0'' \<Longrightarrow> length (showNat n) \<le> 1"
  using showNat_hd[of n] by (cases "n = 0") (auto simp: code_def)

lemma parseExponent_shown:
  assumes "delimited r"
  shows "parseExponent (CHR ''e'' # showInt e @ r) = Some (e, r)"
proof -
  have span: "spanDigits (showNat k @ r) = (showNat k, r)" for k
    using spanDigits_append[OF showNat_digits] delimited_stops[OF assms] by blast
  have hd1: "hd (showNat k @ r) = hd (showNat k)" for k by (simp add: hd_append)
  have nd: "hd (showNat k) \<noteq> CHR ''-''" "hd (showNat k) \<noteq> CHR ''+''" for k
    using showNat_hd_digit[of k] by (auto simp: isDigit_def code_def)
  show ?thesis
    by (auto simp: parseExponent_def showInt_def span Let_def hd1 nd)
qed

lemma parseNumber_shown:
  assumes "delimited r"
  shows "parseNumber (stringify (JNum m e) @ r) = Some (JNum m e, r)"
proof -
  define q where "q = (if e = 0 then [] else CHR ''e'' # showInt e) @ r"
  have stop: "q = [] \<or> \<not> isDigit (hd q)"
    using delimited_stops[OF assms] by (auto simp: q_def isDigit_def code_def)
  have span: "spanDigits (showNat k @ q) = (showNat k, q)" for k
    using spanDigits_append[OF showNat_digits stop] .
  have frac: "parseFraction q = Some ([], q)"
  proof (cases "e = 0")
    case True
    then show ?thesis using delimited_stops[OF assms] by (simp add: q_def)
  qed (simp add: q_def parseFraction_def)
  have ex: "parseExponent q = Some (e, r)"
    using delimited_stops[OF assms] parseExponent_shown[OF assms] by (auto simp: q_def)
  have nd: "hd (showNat k) \<noteq> CHR ''-''" for k
    using showNat_hd_digit[of k] by (auto simp: isDigit_def code_def)
  have lead: "\<not> (hd (showNat k) = CHR ''0'' \<and> 1 < length (showNat k))" for k
    using leading_zero_showNat[of k] by auto
  have str: "stringify (JNum m e) @ r = showInt m @ q" by (simp add: q_def)
  show ?thesis unfolding str
  proof (cases "m < 0")
    case True
    then show "parseNumber (showInt m @ q) = Some (JNum m e, r)"
      using lead[of "nat (- m)"]
      by (simp add: parseNumber_def showInt_def span frac ex)
  next
    case False
    then show "parseNumber (showInt m @ q) = Some (JNum m e, r)"
      using lead[of "nat m"] nd[of "nat m"]
      by (simp add: parseNumber_def showInt_def span frac ex hd_append)
  qed
qed

lemma hexVal_hexChar: "d < 16 \<Longrightarrow> hexVal (hexChar d) = Some d"
  by (simp add: hexVal_def hexChar_def)

lemma hex4_control:
  "n < 32 \<Longrightarrow> hex4 (CHR ''0'' # CHR ''0'' # hexChar (n div 16) # hexChar (n mod 16) # t) = Some (n, t)"
proof -
  assume "n < 32"
  moreover have "hexVal (CHR ''0'') = Some 0" by (simp add: hexVal_def code_def)
  ultimately show ?thesis by (simp add: hexVal_hexChar)
qed

lemma unicodeEscape_control:
  "n < 32 \<Longrightarrow> unicodeEscape (CHR ''0'' # CHR ''0'' # hexChar (n div 16) # hexChar (n mod 16) # t) = Some ([byte n], t)"
  unfolding unicodeEscape_def using hex4_control[of n t]
  by (auto simp: utf8Encode_def split: list.splits)

lemma parseString_escaped:
  "parseString (escapeChar c @ t) = map_option (\<lambda>(u, q). (c # u, q)) (parseString t)"
proof (cases "c \<in> {CHR 0x22, CHR 0x5C, CHR 0x08, CHR 0x09, CHR 0x0A, CHR 0x0C, CHR 0x0D}")
  case True
  then show ?thesis by (auto simp: escapeChar_def simpleEscape_def)
next
  case False
  show ?thesis
  proof (cases "code c < 32")
    case True
    with False show ?thesis
      by (simp add: escapeChar_def unicodeEscape_control)
  next
    case no: False
    with False show ?thesis by (simp add: escapeChar_def)
  qed
qed

lemma parseString_shown: "parseString (concat (map escapeChar s) @ CHR 0x22 # r) = Some (s, r)"
  by (induction s) (simp_all add: parseString_escaped)

fun fuelNeeded :: "json \<Rightarrow> nat"
  and fuelItems :: "json list \<Rightarrow> nat"
  and fuelMembers :: "(string \<times> json) list \<Rightarrow> nat" where
  "fuelNeeded (JArr xs) = Suc (fuelItems xs)"
| "fuelNeeded (JObj ms) = Suc (fuelMembers ms)"
| "fuelNeeded _ = 1"
| "fuelItems [] = 0"
| "fuelItems (x # xs) = Suc (fuelNeeded x + fuelItems xs)"
| "fuelMembers [] = 0"
| "fuelMembers ((k, v) # ms) = Suc (fuelNeeded v + fuelMembers ms)"

definition valueStart :: "string \<Rightarrow> bool" where
  "valueStart s \<longleftrightarrow> s \<noteq> [] \<and> code (hd s) \<notin> {9, 10, 13, 32} \<and> hd s \<notin> {CHR '']'', CHR ''}'', CHR '',''}"

lemma showInt_start: "valueStart (showInt n @ r)"
proof -
  have "valueStart (showNat k @ r)" for k
    using showNat_hd_digit[of k]
    by (auto simp: valueStart_def isDigit_def hd_append code_def)
  then show ?thesis by (auto simp: showInt_def valueStart_def code_def)
qed

lemma stringify_start: "valueStart (stringify v @ r)"
proof (cases v)
  case (JNum m e)
  then show ?thesis using showInt_start[of m "(if e = 0 then [] else CHR ''e'' # showInt e) @ r"] by simp
qed (auto simp: valueStart_def showString_def code_def)

lemma skipWs_start: "valueStart s \<Longrightarrow> skipWs s = s"
  by (cases s) (auto simp: valueStart_def)

lemma skipWs_delimited: "delimited r \<Longrightarrow> skipWs r = r"
  by (cases r) (auto simp: delimited_def code_def)

lemma parseValue_scalarNum:
  assumes "delimited r"
  shows "parseValue (Suc n) (stringify (JNum m e) @ r) = Some (JNum m e, r)"
proof -
  obtain c t where ct: "stringify (JNum m e) @ r = c # t" "c = CHR ''-'' \<or> isDigit c"
  proof -
    have hd1: "hd (showInt m @ t) = CHR ''-'' \<or> isDigit (hd (showInt m @ t))" for t
      using showNat_hd_digit by (auto simp: showInt_def hd_append)
    show ?thesis
    proof (rule that)
      show "stringify (JNum m e) @ r = hd (stringify (JNum m e) @ r) # tl (stringify (JNum m e) @ r)"
        by (simp add: showInt_def)
      show "hd (stringify (JNum m e) @ r) = CHR ''-'' \<or> isDigit (hd (stringify (JNum m e) @ r))"
        using hd1 by simp
    qed
  qed
  have "skipWs (c # t) = c # t"
    using skipWs_start[OF stringify_start, of "JNum m e" r] ct by simp
  moreover have "c \<notin> {CHR 0x22, CHR ''['', CHR ''{'', CHR ''t'', CHR ''f'', CHR ''n''}"
    using ct(2) by (auto simp: isDigit_def code_def)
  ultimately show ?thesis
    using parseNumber_shown[OF assms, of m e] ct(1) by simp
qed

text \<open>Enough fuel, a delimiter after the value, and the printed text is read back.\<close>

lemma skipWs_cons: "code c \<notin> {9, 10, 13, 32} \<Longrightarrow> skipWs (c # r) = c # r"
  by simp

lemma code_punctuation [simp]:
  "code CHR ''['' = 91" "code CHR '']'' = 93" "code CHR ''{'' = 123" "code CHR ''}'' = 125"
  "code CHR '','' = 44" "code CHR '':'' = 58" "code CHR 0x22 = 34" "code CHR 0x5C = 92"
  by (simp_all add: code_def)

lemma stringify_items_start:
  "xs \<noteq> [] \<Longrightarrow> valueStart (stringifyItems xs @ r)"
  using stringify_start by (cases xs) simp_all

lemma parse_stringify:
  "fuelNeeded v \<le> n \<Longrightarrow> delimited r \<Longrightarrow> parseValue n (stringify v @ r) = Some (v, r)"
  "xs \<noteq> [] \<Longrightarrow> fuelItems xs \<le> n \<Longrightarrow> parseItems n (stringifyItems xs @ CHR '']'' # r) = Some (xs, r)"
  "ms \<noteq> [] \<Longrightarrow> fuelMembers ms \<le> n \<Longrightarrow> parseMembers n (stringifyMembers ms @ CHR ''}'' # r) = Some (ms, r)"
proof (induction v and xs and ms arbitrary: n r and n r and n r rule: stringify_stringifyItems_stringifyMembers.induct)
  case 1
  then show ?case by (cases n) (auto simp: literal_def code_def startsWith_def)
next
  case (2 b)
  then show ?case by (cases n) (auto simp: literal_def code_def startsWith_def)
next
  case (3 m e)
  then show ?case using parseValue_scalarNum by (cases n) auto
next
  case (4 s)
  then show ?case by (cases n) (auto simp: showString_def parseString_shown)
next
  case (5 xs)
  then obtain k where n: "n = Suc k" by (cases n) auto
  show ?case
  proof (cases "xs = []")
    case False
    obtain c t where ct: "stringifyItems xs @ CHR '']'' # r = c # t" "c \<noteq> CHR '']''" "skipWs (c # t) = c # t"
      using stringify_items_start[OF False, of "CHR '']'' # r"] skipWs_start
      by (cases "stringifyItems xs @ CHR '']'' # r") (auto simp: valueStart_def)
    have "parseItems k (c # t) = Some (xs, r)" using 5(1)[OF False, of k r] 5(2) n ct(1) by simp
    with ct n show ?thesis by simp
  qed (simp add: n)
next
  case (6 ms)
  then obtain k where n: "n = Suc k" by (cases n) auto
  show ?case
  proof (cases "ms = []")
    case False
    obtain c t where ct: "stringifyMembers ms @ CHR ''}'' # r = c # t" "c \<noteq> CHR ''}''" "skipWs (c # t) = c # t"
      using False by (cases ms) (auto simp: showString_def)
    have "parseMembers k (c # t) = Some (ms, r)" using 6(1)[OF False, of k r] 6(2) n ct(1) by simp
    with ct n show ?thesis by simp
  qed (simp add: n)
next
  case 7
  then show ?case by simp
next
  case (8 x xs)
  then obtain k where n: "n = Suc k" "fuelNeeded x \<le> k" "fuelItems xs \<le> k" by (cases n) auto
  show ?case
  proof (cases "xs = []")
    case True
    then show ?thesis using 8(1)[OF n(2), of "CHR '']'' # r"] n by (simp add: delimited_def)
  next
    case False
    then show ?thesis
      using 8(1)[OF n(2), of "CHR '','' # stringifyItems xs @ CHR '']'' # r"] 8(2)[OF False False n(3)] n
      by (simp add: delimited_def)
  qed
next
  case 9
  then show ?case by simp
next
  case (10 k v ms)
  then obtain f where n: "n = Suc f" "fuelNeeded v \<le> f" "fuelMembers ms \<le> f" by (cases n) auto
  show ?case
  proof (cases "ms = []")
    case True
    then show ?thesis using 10(1)[OF n(2), of "CHR ''}'' # r"] n
      by (simp add: delimited_def showString_def parseString_shown)
  next
    case False
    then show ?thesis
      using 10(1)[OF n(2), of "CHR '','' # stringifyMembers ms @ CHR ''}'' # r"] 10(2)[OF False False n(3)] n
      by (simp add: delimited_def showString_def parseString_shown)
  qed
qed

lemma escapeChar_nonempty [simp]: "escapeChar c \<noteq> []"
  by (simp add: escapeChar_def)

lemma stringify_nonempty [simp]: "stringify v \<noteq> []"
  using stringify_start[of v "[]"] by (simp add: valueStart_def)

lemma fuel_bound:
  "fuelNeeded v \<le> 2 * length (stringify v)"
  "fuelItems xs \<le> 2 * length (stringifyItems xs) + 1"
  "fuelMembers ms \<le> 2 * length (stringifyMembers ms) + 1"
proof (induction v and xs and ms rule: stringify_stringifyItems_stringifyMembers.induct)
  case (3 m e)
  have "showInt m \<noteq> []" by (simp add: showInt_def)
  then show ?case by (cases "showInt m") auto
qed (auto simp: showString_def)

theorem parseJson_stringify: "parseJson (stringify v) = Some v"
  using parse_stringify(1)[of v "Suc (2 * length (stringify v))" "[]"] fuel_bound(1)[of v]
  by (simp add: parseJson_def delimited_def)

lemma stringify_inject [simp]: "stringify v = stringify w \<longleftrightarrow> v = w"
  by (metis option.inject parseJson_stringify)

end
