(* ===== verification/CaptureTypes.thy ===== *)
theory CaptureTypes
  imports Table Json "HOL-Library.Product_Lexorder"
begin

text \<open>The data of the capture journal: the public types of
  packages/application/src/captureJournal.ts and the tables of
  apps/cli/src/runtime/captureJournal.ts, one record per row type.  The prefix of a field
  names its record: ow owner, bd binding, lim limits, ri record input, rv record version, rm
  and rc and rw manifests, sl seal, sc, cp, un, rr, vr, mb, mg the rows of the tables scopes,
  captures, units, (records), source_record_versions, capture_records, legacy_migrations.\<close>

datatype journal_reason = JInvalid | JBinding | JMissing | JConflict | JState | JCapacity | JCorrupt | JIo

record capture_scope =
  cs_projectId :: string
  cs_adapterId :: string
  cs_sourceSessionId :: string
  cs_originKey :: string

record capture_owner =
  ow_scope :: capture_scope
  ow_epoch :: int

record capture_claim = capture_owner +
  cl_checkpoint :: "string option"

record capture_binding =
  bd_instanceOrigin :: string
  bd_userId :: string
  bd_installationId :: string

record capture_legacy_migration =
  lg_checkpointJson :: string
  lg_checkpointDigest :: string

record journal_limits =
  lim_unitBytes :: int
  lim_targetBytes :: int
  lim_pendingBytes :: int
  lim_unitsPerTarget :: int
  lim_recordsPerTarget :: "int option"
  lim_metadataEntries :: int

datatype unit_kind = Canonical | Raw
datatype capture_purpose = Publication | RawObservation
datatype record_kind = EventRecord | RawRecord | SessionRecord | ThreadRecord | UsageRecord

text \<open>The order of the stored texts canonical < raw and event < raw < session < thread < usage.\<close>

fun unitKindRank :: "unit_kind \<Rightarrow> nat" where
  "unitKindRank Canonical = 0"
| "unitKindRank Raw = 1"

fun recordKindRank :: "record_kind \<Rightarrow> nat" where
  "recordKindRank EventRecord = 0"
| "recordKindRank RawRecord = 1"
| "recordKindRank SessionRecord = 2"
| "recordKindRank ThreadRecord = 3"
| "recordKindRank UsageRecord = 4"

lemma unitKindRank_inject: "unitKindRank a = unitKindRank b \<Longrightarrow> a = b"
  by (cases a; cases b) simp_all

lemma recordKindRank_inject: "recordKindRank a = recordKindRank b \<Longrightarrow> a = b"
  by (cases a; cases b) simp_all

instantiation unit_kind :: linorder
begin
definition less_eq_unit_kind where "less_eq a b = (unitKindRank a \<le> unitKindRank b)" for a b :: unit_kind
definition less_unit_kind where "less a b = (unitKindRank a < unitKindRank b)" for a b :: unit_kind
instance by standard (auto simp: less_eq_unit_kind_def less_unit_kind_def intro: unitKindRank_inject)
end

instantiation record_kind :: linorder
begin
definition less_eq_record_kind where "less_eq a b = (recordKindRank a \<le> recordKindRank b)" for a b :: record_kind
definition less_record_kind where "less a b = (recordKindRank a < recordKindRank b)" for a b :: record_kind
instance by standard (auto simp: less_eq_record_kind_def less_record_kind_def intro: recordKindRank_inject)
end

datatype raw_reference =
    RawUnavailable (unavailableReason: string)
  | RawObject (sourceObjectId: string) (fragment: "string option")

record record_key =
  rk_kind :: record_kind
  rk_key :: string

record record_input = record_key +
  ri_fingerprint :: string
  ri_projectionVersion :: string
  ri_rawReference :: "raw_reference option"

record record_version = record_input +
  rv_revision :: int

datatype gap_reason = GapLimit | GapRedaction

datatype record_binding =
    BindUnit int "string option"
  | BindUnavailable gap_reason

record record_counts =
  rc_session :: int
  rc_thread :: int
  rc_event :: int
  rc_usage :: int

record raw_manifest =
  rw_records :: int
  rw_scopeComplete :: bool
  rw_admission :: "string option"

record record_manifest =
  rm_canonical :: "record_counts option"
  rm_raw :: "raw_manifest option"

datatype record_disposition =
    RecUnbound | RecPending | RecPublished | RecAcknowledged | RecCanceled | RecUnavailable | RecAbandoned

record record_summary = record_version +
  rs_disposition :: record_disposition
  rs_unit :: "(string \<times> int) option"
  rs_unavailableReason :: "gap_reason option"

record capture_coverage =
  cv_canonicalCaptureId :: "string option"
  cv_observedCanonicalCaptureId :: "string option"
  cv_observedRawCaptureId :: "string option"

record capture_reservation =
  rsv_trackRecords :: "bool option"
  rsv_purpose :: "capture_purpose option"
  rsv_id :: string
  rsv_expectedCheckpoint :: "string option"
  rsv_beginJson :: string
  rsv_rawEnabled :: bool

record capture_seal =
  sl_records :: "record_manifest option"
  sl_canonicalUnits :: int
  sl_rawUnits :: int
  sl_nextCheckpoint :: string
  sl_manifestJson :: string

datatype capture_state = Preparing | Sealed | Activated | Completed | Abandoned
datatype unit_disposition = Pending | Acknowledged | Canceled

record capture_summary =
  sm_recordsRetired :: bool
  sm_trackRecords :: bool
  sm_purpose :: capture_purpose
  sm_id :: string
  sm_expectedCheckpoint :: "string option"
  sm_beginJson :: string
  sm_rawEnabled :: bool
  sm_state :: capture_state
  sm_seal :: "capture_seal option"
  sm_activationReceipt :: "string option"
  sm_retainedBytes :: int
  sm_rawCancelReason :: "string option"
  sm_rejectionReceipt :: "string option"

record unit_summary =
  us_ordinal :: int
  us_byteCount :: int
  us_digest :: string
  us_disposition :: unit_disposition
  us_receiptJson :: "string option"
  us_retained :: bool

datatype capture_settlement =
    SettleActivated string
  | CanonicalAcknowledged int string
  | RawAcknowledged int string
  | RawCancellationStarted string
  | RawUnitCanceled int
  | RawCanceled string
  | AbandonUnsealed
  | Rejected string

section \<open>Tables\<close>

record scope_row =
  sc_key :: string
  sc_originKey :: string
  sc_epoch :: int
  sc_checkpoint :: "string option"
  sc_recordsInitialized :: bool
  sc_canonicalCoverage :: "string option"
  sc_observedCanonical :: "string option"
  sc_observedRaw :: "string option"
  sc_revisionFloor :: int
  sc_adoptionMetadata :: "string option"
  sc_adoptionMetadataSha :: "string option"
  sc_adoptionMetadataBytes :: int

record capture_row =
  cp_scope :: string
  cp_id :: string
  cp_expectedCheckpoint :: "string option"
  cp_beginJson :: string
  cp_rawEnabled :: bool
  cp_state :: capture_state
  cp_sealJson :: "string option"
  cp_activationReceipt :: "string option"
  cp_rawCancelReason :: "string option"
  cp_rejectionReceipt :: "string option"
  cp_retainedBytes :: int
  cp_purpose :: capture_purpose
  cp_trackRecords :: bool
  cp_recordCount :: int
  cp_recordsRetired :: bool
  cp_retainedRecords :: int
  cp_sourceMetadata :: "string option"
  cp_sourceMetadataSha :: "string option"
  cp_sourceMetadataBytes :: int

record unit_row =
  un_scope :: string
  un_capture :: string
  un_kind :: unit_kind
  un_ordinal :: int
  un_byteCount :: int
  un_digest :: string
  un_body :: "bytes option"
  un_disposition :: unit_disposition
  un_receiptJson :: "string option"

record record_row =
  rr_kind :: record_kind
  rr_key :: string
  rr_fingerprint :: string
  rr_projectionVersion :: string
  rr_revision :: int
  rr_rawReference :: "string option"
  rr_versionCapture :: string

record version_row = record_row +
  vr_scope :: string
  vr_comparisonCapture :: "string option"

record member_row = record_row +
  mb_scope :: string
  mb_capture :: string
  mb_unitCapture :: "string option"
  mb_unitKind :: "unit_kind option"
  mb_unitOrdinal :: "int option"
  mb_unavailableReason :: "gap_reason option"

record migration_row =
  mg_key :: string
  mg_checkpointJson :: string
  mg_checkpointSha :: string
  mg_byteCount :: int

record journal_db =
  db_identity :: string
  db_retainedBytes :: int
  db_metadataEntries :: int
  db_metadataBytes :: int
  db_scopes :: "scope_row list"
  db_captures :: "capture_row list"
  db_units :: "unit_row list"
  db_versions :: "version_row list"
  db_members :: "member_row list"
  db_migrations :: "migration_row list"

section \<open>Statements\<close>

text \<open>The INSERT, UPDATE and DELETE statements of the journal with the effect of the triggers
  on the accounting row: every inserted row of a metadata table counts one entry, the
  lengths of adoption, source and migration metadata are summed up.\<close>

definition insertScope :: "scope_row \<Rightarrow> journal_db \<Rightarrow> journal_db" where
  "insertScope r db = db\<lparr>db_scopes := db_scopes db @ [r], db_metadataEntries := db_metadataEntries db + 1\<rparr>"

definition insertCapture :: "capture_row \<Rightarrow> journal_db \<Rightarrow> journal_db" where
  "insertCapture r db = db\<lparr>db_captures := db_captures db @ [r], db_metadataEntries := db_metadataEntries db + 1\<rparr>"

definition insertUnit :: "unit_row \<Rightarrow> journal_db \<Rightarrow> journal_db" where
  "insertUnit r db = db\<lparr>db_units := db_units db @ [r], db_metadataEntries := db_metadataEntries db + 1\<rparr>"

definition insertMember :: "member_row \<Rightarrow> journal_db \<Rightarrow> journal_db" where
  "insertMember r db = db\<lparr>db_members := db_members db @ [r], db_metadataEntries := db_metadataEntries db + 1\<rparr>"

definition insertMigration :: "migration_row \<Rightarrow> journal_db \<Rightarrow> journal_db" where
  "insertMigration r db = db\<lparr>db_migrations := db_migrations db @ [r],
     db_metadataEntries := db_metadataEntries db + 1,
     db_metadataBytes := db_metadataBytes db + mg_byteCount r\<rparr>"

definition versionKey :: "version_row \<Rightarrow> string \<times> record_kind \<times> string" where
  "versionKey r = (vr_scope r, rr_kind r, rr_key r)"

text \<open>INSERT ... ON CONFLICT(scope_key,kind,record_key) DO UPDATE fires the insert trigger only
  for a new key.\<close>

definition upsertVersion :: "version_row \<Rightarrow> journal_db \<Rightarrow> journal_db" where
  "upsertVersion r db =
     (if existsRow (\<lambda>v. versionKey v = versionKey r) (db_versions db)
      then db\<lparr>db_versions := updateWhere (\<lambda>v. versionKey v = versionKey r) (\<lambda>_. r) (db_versions db)\<rparr>
      else db\<lparr>db_versions := db_versions db @ [r], db_metadataEntries := db_metadataEntries db + 1\<rparr>)"

definition updateScopes :: "(scope_row \<Rightarrow> bool) \<Rightarrow> (scope_row \<Rightarrow> scope_row) \<Rightarrow> journal_db \<Rightarrow> journal_db" where
  "updateScopes P f db = db\<lparr>db_scopes := updateWhere P f (db_scopes db),
     db_metadataBytes := db_metadataBytes db +
       sum_list (map (\<lambda>r. sc_adoptionMetadataBytes (f r) - sc_adoptionMetadataBytes r) (filter P (db_scopes db)))\<rparr>"

definition updateCaptures :: "(capture_row \<Rightarrow> bool) \<Rightarrow> (capture_row \<Rightarrow> capture_row) \<Rightarrow> journal_db \<Rightarrow> journal_db" where
  "updateCaptures P f db = db\<lparr>db_captures := updateWhere P f (db_captures db),
     db_metadataBytes := db_metadataBytes db +
       sum_list (map (\<lambda>r. cp_sourceMetadataBytes (f r) - cp_sourceMetadataBytes r) (filter P (db_captures db)))\<rparr>"

definition updateUnits :: "(unit_row \<Rightarrow> bool) \<Rightarrow> (unit_row \<Rightarrow> unit_row) \<Rightarrow> journal_db \<Rightarrow> journal_db" where
  "updateUnits P f db = db\<lparr>db_units := updateWhere P f (db_units db)\<rparr>"

definition updateMembers :: "(member_row \<Rightarrow> bool) \<Rightarrow> (member_row \<Rightarrow> member_row) \<Rightarrow> journal_db \<Rightarrow> journal_db" where
  "updateMembers P f db = db\<lparr>db_members := updateWhere P f (db_members db)\<rparr>"

definition deleteMembers :: "member_row list \<Rightarrow> journal_db \<Rightarrow> journal_db" where
  "deleteMembers rows db = db\<lparr>db_members := filter (\<lambda>r. r \<notin> set rows) (db_members db),
     db_metadataEntries := db_metadataEntries db - int (countRows (\<lambda>r. r \<in> set rows) (db_members db))\<rparr>"

definition addRetained :: "int \<Rightarrow> journal_db \<Rightarrow> journal_db" where
  "addRetained n db = db\<lparr>db_retainedBytes := db_retainedBytes db + n\<rparr>"

section \<open>Keys\<close>

definition scopeIs :: "string \<Rightarrow> scope_row \<Rightarrow> bool" where
  "scopeIs key r \<longleftrightarrow> sc_key r = key"

definition captureKey :: "capture_row \<Rightarrow> string \<times> string" where
  "captureKey r = (cp_scope r, cp_id r)"

definition captureIs :: "string \<Rightarrow> string \<Rightarrow> capture_row \<Rightarrow> bool" where
  "captureIs key cid r \<longleftrightarrow> captureKey r = (key, cid)"

definition unitKey :: "unit_row \<Rightarrow> string \<times> string \<times> unit_kind \<times> int" where
  "unitKey r = (un_scope r, un_capture r, un_kind r, un_ordinal r)"

definition unitIs :: "string \<Rightarrow> string \<Rightarrow> unit_kind \<Rightarrow> int \<Rightarrow> unit_row \<Rightarrow> bool" where
  "unitIs key cid k n r \<longleftrightarrow> unitKey r = (key, cid, k, n)"

definition memberKey :: "member_row \<Rightarrow> string \<times> string \<times> record_kind \<times> string" where
  "memberKey r = (mb_scope r, mb_capture r, rr_kind r, rr_key r)"

definition memberIs :: "string \<Rightarrow> string \<Rightarrow> record_kind \<Rightarrow> string \<Rightarrow> member_row \<Rightarrow> bool" where
  "memberIs key cid k rk r \<longleftrightarrow> memberKey r = (key, cid, k, rk)"

definition unitOf :: "string \<Rightarrow> string \<Rightarrow> unit_row \<Rightarrow> bool" where
  "unitOf key cid r \<longleftrightarrow> un_scope r = key \<and> un_capture r = cid"

definition unactivatedIn :: "string \<Rightarrow> capture_row \<Rightarrow> bool" where
  "unactivatedIn key r \<longleftrightarrow> cp_scope r = key \<and> cp_state r \<in> {Preparing, Sealed}"

end
