(* ===== verification/CaptureJournal.thy ===== *)
theory CaptureJournal
  imports CaptureTypes
begin

text \<open>The SQLite capture journal of apps/cli/src/runtime/captureJournal.ts: every operation of
  its implementation function as a function from the database to a reason of failure or the
  changed database with the result.  The transaction wrapper discards the changes of a failed
  operation.  Rows read from the database are typed, so the row decoders always succeed here;
  the length and digest checks of stored content are kept.\<close>

definition MetadataBytes :: int where
  "MetadataBytes = 32 * 1024"

definition SourceMetadataBytes :: int where
  "SourceMetadataBytes = 2 * 1024 * 1024"

type_synonym 'a checked = "journal_reason + 'a"
type_synonym 'a work = "journal_reason + (journal_db \<times> 'a)"

section \<open>Input checks\<close>

definition boundedText :: "int \<Rightarrow> string \<Rightarrow> string checked" where
  "boundedText maximum v =
     (if v = [] \<or> int (length v) > maximum \<or> CHR 0x00 \<in> set v then Inl JInvalid else Inr v)"

definition journalText :: "string \<Rightarrow> string checked" where
  "journalText v = boundedText 500 v"

definition journalInteger :: "int \<Rightarrow> int \<Rightarrow> int \<Rightarrow> int checked" where
  "journalInteger v low high = (if \<not> safe_integer v \<or> v < low \<or> v > high then Inl JInvalid else Inr v)"

definition journalJson :: "string \<Rightarrow> string checked" where
  "journalJson v = bindE (boundedText MetadataBytes v) (\<lambda>_. if parseJson v = None then Inl JInvalid else Inr v)"

definition sourceJson :: "string \<Rightarrow> string checked" where
  "sourceJson v = bindE (boundedText SourceMetadataBytes v) (\<lambda>_. if parseJson v = None then Inl JInvalid else Inr v)"

definition scopeKey :: "capture_scope \<Rightarrow> string checked" where
  "scopeKey s =
     bindE (journalText (cs_projectId s)) (\<lambda>p.
     bindE (journalText (cs_adapterId s)) (\<lambda>a.
     bindE (journalText (cs_sourceSessionId s)) (\<lambda>t.
       Inr (stringify (JArr [JStr p, JStr a, JStr t])))))"

section \<open>Stored JSON\<close>

definition optMember :: "string \<Rightarrow> ('a \<Rightarrow> json) \<Rightarrow> 'a option \<Rightarrow> (string \<times> json) list" where
  "optMember k enc v = (case v of None \<Rightarrow> [] | Some x \<Rightarrow> [(k, enc x)])"

definition countsJson :: "record_counts \<Rightarrow> json" where
  "countsJson c = JObj [(''session'', JInt (rc_session c)), (''thread'', JInt (rc_thread c)),
     (''event'', JInt (rc_event c)), (''usage'', JInt (rc_usage c))]"

definition rawManifestJson :: "raw_manifest \<Rightarrow> json" where
  "rawManifestJson r = JObj ([(''records'', JInt (rw_records r)), (''scopeComplete'', JBool (rw_scopeComplete r))] @
     optMember ''admission'' JStr (rw_admission r))"

definition recordManifestJson :: "record_manifest \<Rightarrow> json" where
  "recordManifestJson m = JObj (optMember ''canonical'' countsJson (rm_canonical m) @ optMember ''raw'' rawManifestJson (rm_raw m))"

definition sealJson :: "capture_seal \<Rightarrow> json" where
  "sealJson s = JObj ([(''canonicalUnits'', JInt (sl_canonicalUnits s)), (''rawUnits'', JInt (sl_rawUnits s)),
     (''nextCheckpoint'', JStr (sl_nextCheckpoint s)), (''manifestJson'', JStr (sl_manifestJson s))] @
     optMember ''records'' recordManifestJson (sl_records s))"

definition reqField :: "string \<Rightarrow> (json \<Rightarrow> 'a option) \<Rightarrow> json \<Rightarrow> 'a option" where
  "reqField k dec j = Option.bind (field k j) dec"

definition optField :: "string \<Rightarrow> (json \<Rightarrow> 'a option) \<Rightarrow> json \<Rightarrow> 'a option option" where
  "optField k dec j = (case field k j of None \<Rightarrow> Some None | Some v \<Rightarrow> map_option Some (dec v))"

definition decodeCounts :: "json \<Rightarrow> record_counts option" where
  "decodeCounts j =
     Option.bind (reqField ''session'' asInt j) (\<lambda>s.
     Option.bind (reqField ''thread'' asInt j) (\<lambda>t.
     Option.bind (reqField ''event'' asInt j) (\<lambda>e.
     Option.bind (reqField ''usage'' asInt j) (\<lambda>u.
       Some \<lparr>rc_session = s, rc_thread = t, rc_event = e, rc_usage = u\<rparr>))))"

definition asAdmission :: "json \<Rightarrow> string option" where
  "asAdmission j = Option.bind (asString j) (\<lambda>s. if isSha256Hex s then Some s else None)"

definition decodeRawManifest :: "json \<Rightarrow> raw_manifest option" where
  "decodeRawManifest j =
     Option.bind (reqField ''records'' asInt j) (\<lambda>n.
     Option.bind (reqField ''scopeComplete'' asBool j) (\<lambda>c.
     Option.bind (optField ''admission'' asAdmission j) (\<lambda>a.
       Some \<lparr>rw_records = n, rw_scopeComplete = c, rw_admission = a\<rparr>)))"

definition isObject :: "json \<Rightarrow> bool" where
  "isObject j = (case j of JObj _ \<Rightarrow> True | _ \<Rightarrow> False)"

definition decodeRecordManifest :: "json \<Rightarrow> record_manifest option" where
  "decodeRecordManifest j = (if \<not> isObject j then None else
     Option.bind (optField ''canonical'' decodeCounts j) (\<lambda>c.
     Option.bind (optField ''raw'' decodeRawManifest j) (\<lambda>r.
       Some \<lparr>rm_canonical = c, rm_raw = r\<rparr>)))"

definition decodeSeal :: "json \<Rightarrow> capture_seal option" where
  "decodeSeal j =
     Option.bind (optField ''records'' decodeRecordManifest j) (\<lambda>r.
     Option.bind (reqField ''canonicalUnits'' asInt j) (\<lambda>c.
     Option.bind (reqField ''rawUnits'' asInt j) (\<lambda>w.
     Option.bind (reqField ''nextCheckpoint'' asString j) (\<lambda>n.
     Option.bind (reqField ''manifestJson'' asString j) (\<lambda>m.
       Some \<lparr>sl_records = r, sl_canonicalUnits = c, sl_rawUnits = w, sl_nextCheckpoint = n, sl_manifestJson = m\<rparr>)))))"

definition parsedSeal :: "string \<Rightarrow> capture_seal checked" where
  "parsedSeal v = fromOption JCorrupt (Option.bind (parseJson v) decodeSeal)"

text \<open>Schema decoding of an already typed manifest checks the admission pattern only.\<close>

definition checkedManifest :: "record_manifest \<Rightarrow> record_manifest checked" where
  "checkedManifest m =
     (case rm_raw m of
        Some r \<Rightarrow> (case rw_admission r of
            Some a \<Rightarrow> (if isSha256Hex a then Inr m else Inl JCorrupt)
          | None \<Rightarrow> Inr m)
      | None \<Rightarrow> Inr m)"

definition rawReferenceJson :: "raw_reference \<Rightarrow> json" where
  "rawReferenceJson r = (case r of
       RawUnavailable reason \<Rightarrow> JObj [(''_tag'', JStr ''unavailable''), (''reason'', JStr reason)]
     | RawObject i f \<Rightarrow> JObj ([(''_tag'', JStr ''object''), (''sourceObjectId'', JStr i)] @ optMember ''fragment'' JStr f))"

definition reference :: "raw_reference option \<Rightarrow> string option checked" where
  "reference v = (case v of
       None \<Rightarrow> Inr None
     | Some (RawUnavailable reason) \<Rightarrow>
         bindE (journalText reason) (\<lambda>_. Inr (Some (stringify (rawReferenceJson (RawUnavailable reason)))))
     | Some (RawObject i f) \<Rightarrow>
         bindE (journalText i) (\<lambda>_.
           case f of None \<Rightarrow> Inr (Some (stringify (rawReferenceJson (RawObject i None))))
           | Some g \<Rightarrow> bindE (journalText g) (\<lambda>_. Inr (Some (stringify (rawReferenceJson (RawObject i (Some g))))))))"

definition decodeRawReference :: "json \<Rightarrow> raw_reference option" where
  "decodeRawReference j =
     Option.bind (reqField ''_tag'' asString j) (\<lambda>t.
       if t = ''unavailable'' then map_option RawUnavailable (reqField ''reason'' asString j)
       else if t = ''object'' then
         Option.bind (reqField ''sourceObjectId'' asString j) (\<lambda>i.
         Option.bind (optField ''fragment'' asString j) (\<lambda>f. Some (RawObject i f)))
       else None)"

definition recordVersion :: "'a record_row_scheme \<Rightarrow> record_version checked" where
  "recordVersion row =
     bindE (case rr_rawReference row of
              None \<Rightarrow> Inr None
            | Some s \<Rightarrow>
                (case Option.bind (parseJson s) decodeRawReference of
                   None \<Rightarrow> Inl JCorrupt
                 | Some r \<Rightarrow> (case reference (Some r) of Inl _ \<Rightarrow> Inl JCorrupt | Inr _ \<Rightarrow> Inr (Some r))))
       (\<lambda>ref. Inr \<lparr>rk_kind = rr_kind row, rk_key = rr_key row, ri_fingerprint = rr_fingerprint row,
          ri_projectionVersion = rr_projectionVersion row, ri_rawReference = ref, rv_revision = rr_revision row\<rparr>)"

section \<open>Shared steps\<close>

definition admitMetadata :: "journal_limits \<Rightarrow> int \<Rightarrow> journal_db \<Rightarrow> unit checked" where
  "admitMetadata lim entries db =
     (let used = db_metadataEntries db in
      if \<not> safe_integer used \<or> used < 0 then Inl JCorrupt
      else if entries > lim_metadataEntries lim - used then Inl JCapacity
      else Inr ())"

definition storedMetadata :: "sha256 \<Rightarrow> string option \<Rightarrow> string option \<Rightarrow> int \<Rightarrow> string option checked" where
  "storedMetadata sha v digest byteCount =
     (case v of
        None \<Rightarrow> (if byteCount \<noteq> 0 then Inl JCorrupt else Inr None)
      | Some s \<Rightarrow>
          (if int (length s) \<noteq> byteCount \<or> byteCount > SourceMetadataBytes \<or> Some (sha s) \<noteq> digest then Inl JCorrupt
           else if parseJson s = None then Inl JCorrupt
           else Inr (Some s)))"

definition metadataCapacity :: "journal_limits \<Rightarrow> int \<Rightarrow> journal_db \<Rightarrow> unit checked" where
  "metadataCapacity lim additional db =
     (let retained = db_retainedBytes db; metadata = db_metadataBytes db in
      if \<not> (safe_integer retained \<and> 0 \<le> retained \<and> safe_integer metadata \<and> 0 \<le> metadata) then Inl JCorrupt
      else if additional > lim_pendingBytes lim - retained - metadata then Inl JCapacity
      else Inr ())"

text \<open>BEGIN IMMEDIATE, the work, COMMIT; a thrown failure rolls every change back.\<close>

definition transaction :: "(journal_db \<Rightarrow> 'a work) \<Rightarrow> journal_db \<Rightarrow> journal_db \<times> 'a checked" where
  "transaction work db = (case work db of Inl e \<Rightarrow> (db, Inl e) | Inr (db', x) \<Rightarrow> (db', Inr x))"

definition ownerScope :: "journal_db \<Rightarrow> capture_owner \<Rightarrow> scope_row checked" where
  "ownerScope db owner =
     bindE (scopeKey (ow_scope owner)) (\<lambda>key.
       case find (scopeIs key) (db_scopes db) of
         None \<Rightarrow> Inl JMissing
       | Some sc \<Rightarrow>
           (if sc_originKey sc \<noteq> cs_originKey (ow_scope owner) then Inl JBinding
            else if sc_epoch sc \<noteq> ow_epoch owner then Inl JConflict
            else Inr sc))"

definition captureRow :: "journal_db \<Rightarrow> string \<Rightarrow> string \<Rightarrow> capture_row checked" where
  "captureRow db key cid =
     bindE (journalText cid) (\<lambda>_. fromOption JMissing (find (captureIs key cid) (db_captures db)))"

definition captureSummary :: "capture_row \<Rightarrow> capture_summary checked" where
  "captureSummary row =
     bindE (case cp_sealJson row of None \<Rightarrow> Inr None | Some s \<Rightarrow> bindE (parsedSeal s) (\<lambda>x. Inr (Some x)))
       (\<lambda>sl. Inr \<lparr>sm_recordsRetired = cp_recordsRetired row, sm_trackRecords = cp_trackRecords row,
          sm_purpose = cp_purpose row, sm_id = cp_id row, sm_expectedCheckpoint = cp_expectedCheckpoint row,
          sm_beginJson = cp_beginJson row, sm_rawEnabled = cp_rawEnabled row, sm_state = cp_state row,
          sm_seal = sl, sm_activationReceipt = cp_activationReceipt row, sm_retainedBytes = cp_retainedBytes row,
          sm_rawCancelReason = cp_rawCancelReason row, sm_rejectionReceipt = cp_rejectionReceipt row\<rparr>)"

definition pendingRaw :: "journal_db \<Rightarrow> string \<Rightarrow> string \<Rightarrow> bool" where
  "pendingRaw db key cid =
     existsRow (\<lambda>u. unitOf key cid u \<and> un_kind u = Raw \<and> un_disposition u = Pending) (db_units db)"

definition complete :: "string \<Rightarrow> string \<Rightarrow> journal_db \<Rightarrow> journal_db" where
  "complete key cid db =
     (if pendingRaw db key cid then db
      else updateCaptures (\<lambda>r. captureIs key cid r \<and> cp_activationReceipt r \<noteq> None)
             (\<lambda>r. r\<lparr>cp_state := Completed\<rparr>) db)"

definition retainedMembership :: "capture_row \<Rightarrow> unit checked" where
  "retainedMembership row = (if cp_recordsRetired row then Inl JState else Inr ())"

definition getRecord :: "journal_db \<Rightarrow> string \<Rightarrow> string \<Rightarrow> record_kind \<Rightarrow> string \<Rightarrow> member_row checked" where
  "getRecord db key cid k rk =
     bindE (captureRow db key cid) (\<lambda>row.
     bindE (retainedMembership row) (\<lambda>_.
     bindE (journalText rk) (\<lambda>_.
       fromOption JMissing (find (memberIs key cid k rk) (db_members db)))))"

definition unitDispositionOf :: "journal_db \<Rightarrow> member_row \<Rightarrow> unit_disposition option" where
  "unitDispositionOf db m =
     (case (mb_unitCapture m, mb_unitKind m, mb_unitOrdinal m) of
        (Some c, Some k, Some n) \<Rightarrow> map_option un_disposition (find (unitIs (mb_scope m) c k n) (db_units db))
      | _ \<Rightarrow> None)"

definition recordDisposition :: "journal_db \<Rightarrow> capture_row \<Rightarrow> member_row \<Rightarrow> record_disposition checked" where
  "recordDisposition db row m =
     (if cp_state row = Abandoned then Inr RecAbandoned
      else if mb_unavailableReason m \<noteq> None then Inr RecUnavailable
      else if mb_unitCapture m = None then Inr RecUnbound
      else if rr_kind m \<noteq> RawRecord then
        (if cp_activationReceipt row = None then Inr RecPending else Inr RecPublished)
      else (case unitDispositionOf db m of
              None \<Rightarrow> Inl JCorrupt
            | Some Pending \<Rightarrow> Inr RecPending
            | Some Acknowledged \<Rightarrow> Inr RecAcknowledged
            | Some Canceled \<Rightarrow> Inr RecCanceled))"

definition recordSummary :: "journal_db \<Rightarrow> capture_row \<Rightarrow> member_row \<Rightarrow> record_summary checked" where
  "recordSummary db row m =
     bindE (recordDisposition db row m) (\<lambda>d.
     bindE (recordVersion m) (\<lambda>v.
       Inr (record_version.extend v
         (record_summary.fields d
           (case mb_unitCapture m of None \<Rightarrow> None | Some c \<Rightarrow> Some (c, case mb_unitOrdinal m of None \<Rightarrow> 0 | Some n \<Rightarrow> n))
           (mb_unavailableReason m)))))"

definition memberCount :: "journal_db \<Rightarrow> string \<Rightarrow> string \<Rightarrow> record_kind \<Rightarrow> int" where
  "memberCount db key cid k =
     int (countRows (\<lambda>m. mb_scope m = key \<and> mb_capture m = cid \<and> rr_kind m = k) (db_members db))"

definition expectedCount :: "record_manifest \<Rightarrow> (record_counts \<Rightarrow> int) \<Rightarrow> int" where
  "expectedCount m f = (case rm_canonical m of None \<Rightarrow> 0 | Some c \<Rightarrow> f c)"

definition unboundMember :: "string \<Rightarrow> string \<Rightarrow> member_row \<Rightarrow> bool" where
  "unboundMember key cid m \<longleftrightarrow>
     mb_scope m = key \<and> mb_capture m = cid \<and> mb_unitCapture m = None \<and> mb_unavailableReason m = None"

definition manifestCounts :: "record_manifest \<Rightarrow> (record_kind \<times> int) list" where
  "manifestCounts m = [(SessionRecord, expectedCount m rc_session), (ThreadRecord, expectedCount m rc_thread),
     (EventRecord, expectedCount m rc_event), (UsageRecord, expectedCount m rc_usage)]"

definition rawCount :: "record_manifest \<Rightarrow> int" where
  "rawCount m = (case rm_raw m of None \<Rightarrow> 0 | Some r \<Rightarrow> rw_records r)"

definition rawComplete :: "record_manifest \<Rightarrow> bool" where
  "rawComplete m = (case rm_raw m of None \<Rightarrow> False | Some r \<Rightarrow> rw_scopeComplete r)"

definition recordManifest ::
    "journal_limits \<Rightarrow> journal_db \<Rightarrow> string \<Rightarrow> string \<Rightarrow> capture_row \<Rightarrow> record_manifest option \<Rightarrow> record_manifest option checked" where
  "recordManifest lim db key cid row v =
     (if \<not> cp_trackRecords row then (if v \<noteq> None then Inl JState else Inr None)
      else case (v, lim_recordsPerTarget lim) of
        (Some value, Some recordsPerTarget) \<Rightarrow>
          bindE (checkedManifest value) (\<lambda>m.
            if (cp_purpose row = Publication \<and> rm_canonical m = None) \<or>
               (cp_purpose row = RawObservation \<and> rm_canonical m \<noteq> None) then Inl JState
            else if (rm_raw m \<noteq> None \<and> \<not> cp_rawEnabled row) \<or>
                    (cp_purpose row = RawObservation \<and> rm_raw m = None) then Inl JState
            else
              bindE (foldE (\<lambda>_ (k, expected).
                       bindE (journalInteger expected 0 recordsPerTarget) (\<lambda>_.
                         if expected \<noteq> memberCount db key cid k then Inl JState else Inr ()))
                     () (manifestCounts m)) (\<lambda>_.
              if rm_canonical m \<noteq> None \<and> (expectedCount m rc_session \<noteq> 1 \<or> expectedCount m rc_thread < 1) then Inl JState
              else
                bindE (journalInteger (rawCount m) 0 recordsPerTarget) (\<lambda>_.
                if cp_purpose row = RawObservation \<and> rawCount m = 0 \<and> \<not> rawComplete m then Inl JState
                else if rawCount m \<noteq> memberCount db key cid RawRecord then Inl JState
                else if existsRow (unboundMember key cid) (db_members db) then Inl JState
                else Inr (Some m))))
      | _ \<Rightarrow> Inl JState)"

end
