(* ===== verification/JournalOperations.thy ===== *)
theory JournalOperations
  imports CaptureJournal
begin

text \<open>The operations of the capture journal, in the order of the implementation object of
  apps/cli/src/runtime/captureJournal.ts.  Each is the work of one transaction.\<close>

section \<open>Opening\<close>

definition validateJournalOptions :: "capture_binding \<Rightarrow> journal_limits \<Rightarrow> unit checked" where
  "validateJournalOptions b lim =
     bindE (journalText (bd_instanceOrigin b)) (\<lambda>_.
     bindE (journalText (bd_userId b)) (\<lambda>_.
     bindE (journalText (bd_installationId b)) (\<lambda>_.
     bindE (journalInteger (lim_unitBytes lim) 1 (16 * 1024 * 1024)) (\<lambda>_.
     bindE (journalInteger (lim_targetBytes lim) (lim_unitBytes lim) max_safe_integer) (\<lambda>_.
     bindE (journalInteger (lim_pendingBytes lim) (lim_targetBytes lim) max_safe_integer) (\<lambda>_.
     bindE (journalInteger (lim_unitsPerTarget lim) 1 1000000) (\<lambda>_.
     bindE (journalInteger (lim_metadataEntries lim) 1 1000000) (\<lambda>_.
       case lim_recordsPerTarget lim of
         None \<Rightarrow> Inr ()
       | Some n \<Rightarrow> bindE (journalInteger n 1 1000000) (\<lambda>_. Inr ())))))))))"

definition journalIdentity :: "capture_binding \<Rightarrow> string" where
  "journalIdentity b = stringify (JArr [JStr (bd_instanceOrigin b), JStr (bd_userId b), JStr (bd_installationId b)])"

text \<open>The tables of a newly created journal, after the format upgrades of the empty database.\<close>

definition emptyJournal :: "capture_binding \<Rightarrow> journal_db" where
  "emptyJournal b = \<lparr>db_identity = journalIdentity b, db_retainedBytes = 0, db_metadataEntries = 0,
     db_metadataBytes = 0, db_scopes = [], db_captures = [], db_units = [], db_versions = [],
     db_members = [], db_migrations = []\<rparr>"

definition openExisting :: "capture_binding \<Rightarrow> journal_limits \<Rightarrow> journal_db \<Rightarrow> journal_db checked" where
  "openExisting b lim db =
     bindE (validateJournalOptions b lim) (\<lambda>_.
       if db_identity db \<noteq> journalIdentity b then Inl JBinding else Inr db)"

definition createJournal :: "capture_binding \<Rightarrow> journal_limits \<Rightarrow> journal_db checked" where
  "createJournal b lim = bindE (validateJournalOptions b lim) (\<lambda>_. openExisting b lim (emptyJournal b))"

section \<open>Legacy migrations\<close>

definition migrationKey :: "string \<Rightarrow> string \<Rightarrow> string \<Rightarrow> string checked" where
  "migrationKey p a d =
     bindE (journalText p) (\<lambda>_. bindE (journalText a) (\<lambda>_. Inr (stringify (JArr [JStr p, JStr a, JStr d]))))"

definition legacyMigration ::
    "sha256 \<Rightarrow> string \<Rightarrow> string \<Rightarrow> string \<Rightarrow> journal_db \<Rightarrow> capture_legacy_migration option work" where
  "legacyMigration sha p a d db =
     (if \<not> isSha256Hex d then Inl JInvalid
      else bindE (migrationKey p a d) (\<lambda>key.
        case find (\<lambda>r. mg_key r = key) (db_migrations db) of
          None \<Rightarrow> Inr (db, None)
        | Some r \<Rightarrow>
            bindE (storedMetadata sha (Some (mg_checkpointJson r)) (Some (mg_checkpointSha r)) (mg_byteCount r)) (\<lambda>_.
              Inr (db, Some \<lparr>lg_checkpointJson = mg_checkpointJson r, lg_checkpointDigest = mg_checkpointSha r\<rparr>))))"

definition freezeLegacyMigration ::
    "sha256 \<Rightarrow> journal_limits \<Rightarrow> string \<Rightarrow> string \<Rightarrow> capture_legacy_migration \<Rightarrow> journal_db \<Rightarrow> capture_legacy_migration work" where
  "freezeLegacyMigration sha lim p a input db =
     bindE (migrationKey p a (lg_checkpointDigest input)) (\<lambda>key.
     bindE (sourceJson (lg_checkpointJson input)) (\<lambda>v.
       if sha v \<noteq> lg_checkpointDigest input then Inl JInvalid
       else case find (\<lambda>r. mg_key r = key) (db_migrations db) of
         Some old \<Rightarrow>
           bindE (storedMetadata sha (Some (mg_checkpointJson old)) (Some (mg_checkpointSha old)) (mg_byteCount old)) (\<lambda>_.
             if mg_checkpointSha old \<noteq> lg_checkpointDigest input \<or> mg_checkpointJson old \<noteq> v then Inl JConflict
             else Inr (db, input))
       | None \<Rightarrow>
           bindE (admitMetadata lim 1 db) (\<lambda>_.
           bindE (metadataCapacity lim (int (length v)) db) (\<lambda>_.
             Inr (insertMigration \<lparr>mg_key = key, mg_checkpointJson = v,
                    mg_checkpointSha = lg_checkpointDigest input, mg_byteCount = int (length v)\<rparr> db, input)))))"

section \<open>Ownership and source metadata\<close>

definition newScope :: "string \<Rightarrow> string \<Rightarrow> scope_row" where
  "newScope key origin = \<lparr>sc_key = key, sc_originKey = origin, sc_epoch = 1, sc_checkpoint = None,
     sc_recordsInitialized = False, sc_canonicalCoverage = None, sc_observedCanonical = None,
     sc_observedRaw = None, sc_revisionFloor = 0, sc_adoptionMetadata = None,
     sc_adoptionMetadataSha = None, sc_adoptionMetadataBytes = 0\<rparr>"

definition claim :: "journal_limits \<Rightarrow> capture_scope \<Rightarrow> journal_db \<Rightarrow> capture_claim work" where
  "claim lim scope db =
     bindE (scopeKey scope) (\<lambda>key.
     bindE (journalText (cs_originKey scope)) (\<lambda>_.
       case find (scopeIs key) (db_scopes db) of
         Some old \<Rightarrow>
           (if sc_originKey old \<noteq> cs_originKey scope then Inl JBinding
            else bindE (journalInteger (sc_epoch old + 1) 1 max_safe_integer) (\<lambda>_.
              Inr (updateScopes (scopeIs key) (\<lambda>r. r\<lparr>sc_epoch := sc_epoch r + 1\<rparr>) db,
                   \<lparr>ow_scope = scope, ow_epoch = sc_epoch old + 1, cl_checkpoint = sc_checkpoint old\<rparr>)))
       | None \<Rightarrow>
           bindE (admitMetadata lim 1 db) (\<lambda>_.
             Inr (insertScope (newScope key (cs_originKey scope)) db,
                  \<lparr>ow_scope = scope, ow_epoch = 1, cl_checkpoint = None\<rparr>))))"

definition recordFloor :: "capture_owner \<Rightarrow> journal_db \<Rightarrow> int work" where
  "recordFloor owner db = bindE (ownerScope db owner) (\<lambda>sc. Inr (db, sc_revisionFloor sc))"

definition adoptBaseline ::
    "sha256 \<Rightarrow> journal_limits \<Rightarrow> capture_owner \<Rightarrow> int \<Rightarrow> string \<Rightarrow> journal_db \<Rightarrow> unit work" where
  "adoptBaseline sha lim owner revisionFloor metadataJson db =
     bindE (ownerScope db owner) (\<lambda>scope.
     bindE (sourceJson metadataJson) (\<lambda>v.
     bindE (journalInteger revisionFloor 0 (max_safe_integer - 1)) (\<lambda>_.
       if sc_adoptionMetadataSha scope \<noteq> None then
         (if sc_revisionFloor scope \<noteq> revisionFloor \<or> sc_adoptionMetadataSha scope \<noteq> Some (sha v) then Inl JConflict
          else bindE (storedMetadata sha (sc_adoptionMetadata scope) (sc_adoptionMetadataSha scope) (sc_adoptionMetadataBytes scope))
                 (\<lambda>_. Inr (db, ())))
       else if sc_recordsInitialized scope \<or> existsRow (\<lambda>c. cp_scope c = sc_key scope) (db_captures db) then Inl JState
       else bindE (metadataCapacity lim (int (length v)) db) (\<lambda>_.
         Inr (updateScopes (scopeIs (sc_key scope))
                (\<lambda>r. r\<lparr>sc_revisionFloor := revisionFloor, sc_adoptionMetadata := Some v,
                       sc_adoptionMetadataSha := Some (sha v), sc_adoptionMetadataBytes := int (length v)\<rparr>) db, ())))))"

definition sourceMetadata :: "sha256 \<Rightarrow> capture_owner \<Rightarrow> string option \<Rightarrow> journal_db \<Rightarrow> string option work" where
  "sourceMetadata sha owner cid db =
     bindE (ownerScope db owner) (\<lambda>scope.
       case cid of
         None \<Rightarrow> bindE (storedMetadata sha (sc_adoptionMetadata scope) (sc_adoptionMetadataSha scope) (sc_adoptionMetadataBytes scope))
                   (\<lambda>v. Inr (db, v))
       | Some i \<Rightarrow>
           bindE (captureRow db (sc_key scope) i) (\<lambda>row.
           bindE (storedMetadata sha (cp_sourceMetadata row) (cp_sourceMetadataSha row) (cp_sourceMetadataBytes row))
             (\<lambda>v. Inr (db, v))))"

definition setSourceMetadata ::
    "sha256 \<Rightarrow> journal_limits \<Rightarrow> capture_owner \<Rightarrow> string \<Rightarrow> string \<Rightarrow> journal_db \<Rightarrow> unit work" where
  "setSourceMetadata sha lim owner cid v db =
     bindE (ownerScope db owner) (\<lambda>scope.
     bindE (captureRow db (sc_key scope) cid) (\<lambda>row.
     bindE (sourceJson v) (\<lambda>encoded.
       if cp_sourceMetadata row \<noteq> None then
         bindE (storedMetadata sha (cp_sourceMetadata row) (cp_sourceMetadataSha row) (cp_sourceMetadataBytes row)) (\<lambda>_.
           if cp_sourceMetadata row \<noteq> Some encoded then Inl JConflict else Inr (db, ()))
       else if cp_state row \<noteq> Preparing \<or> cp_recordCount row > 0 \<or> existsRow (unitOf (sc_key scope) cid) (db_units db) then Inl JState
       else if int (length encoded) > lim_targetBytes lim - cp_retainedBytes row then Inl JCapacity
       else bindE (metadataCapacity lim (int (length encoded)) db) (\<lambda>_.
         Inr (updateCaptures (captureIs (sc_key scope) cid)
                (\<lambda>r. r\<lparr>cp_sourceMetadata := Some encoded, cp_sourceMetadataSha := Some (sha encoded),
                       cp_sourceMetadataBytes := int (length encoded)\<rparr>) db, ())))))"

definition scopePart :: "nat \<Rightarrow> scope_row \<Rightarrow> string option" where
  "scopePart n r = (case parseJson (sc_key r) of
       Some (JArr xs) \<Rightarrow> (if n < length xs then asString (xs ! n) else None)
     | _ \<Rightarrow> None)"

definition sourceOfRow :: "scope_row \<Rightarrow> capture_scope checked" where
  "sourceOfRow r = (case parseJson (sc_key r) of
       Some (JArr [JStr p, JStr a, JStr t]) \<Rightarrow>
         bindE (journalText p) (\<lambda>p. bindE (journalText a) (\<lambda>a. bindE (journalText t) (\<lambda>t.
         bindE (journalText (sc_originKey r)) (\<lambda>g.
           Inr \<lparr>cs_projectId = p, cs_adapterId = a, cs_sourceSessionId = t, cs_originKey = g\<rparr>))))
     | _ \<Rightarrow> Inl JCorrupt)"

definition sources :: "string \<Rightarrow> string \<Rightarrow> string option \<Rightarrow> int option \<Rightarrow> journal_db \<Rightarrow> capture_scope list work" where
  "sources p a afterSessionId limit db =
     bindE (journalText p) (\<lambda>_.
     bindE (journalText a) (\<lambda>_.
     bindE (journalInteger (case limit of None \<Rightarrow> 20 | Some n \<Rightarrow> n) 1 100) (\<lambda>n.
     bindE (case afterSessionId of None \<Rightarrow> Inr [] | Some t \<Rightarrow> journalText t) (\<lambda>after.
     bindE (mapE sourceOfRow
              (selectAll (\<lambda>r. scopePart 0 r = Some p \<and> scopePart 1 r = Some a \<and>
                              (case scopePart 2 r of None \<Rightarrow> False | Some t \<Rightarrow> after < t))
                (\<lambda>r. case scopePart 2 r of None \<Rightarrow> [] | Some t \<Rightarrow> t) (nat n) (db_scopes db)))
       (\<lambda>ss. Inr (db, ss))))))"

section \<open>Reserving and filling a capture\<close>

definition newCapture :: "string \<Rightarrow> capture_reservation \<Rightarrow> capture_purpose \<Rightarrow> bool \<Rightarrow> capture_row" where
  "newCapture key input purpose track = \<lparr>cp_scope = key, cp_id = rsv_id input,
     cp_expectedCheckpoint = rsv_expectedCheckpoint input, cp_beginJson = rsv_beginJson input,
     cp_rawEnabled = rsv_rawEnabled input, cp_state = Preparing, cp_sealJson = None,
     cp_activationReceipt = None, cp_rawCancelReason = None, cp_rejectionReceipt = None,
     cp_retainedBytes = 0, cp_purpose = purpose, cp_trackRecords = track, cp_recordCount = 0,
     cp_recordsRetired = False, cp_retainedRecords = 0, cp_sourceMetadata = None,
     cp_sourceMetadataSha = None, cp_sourceMetadataBytes = 0\<rparr>"

definition reserve :: "journal_limits \<Rightarrow> capture_owner \<Rightarrow> capture_reservation \<Rightarrow> journal_db \<Rightarrow> unit work" where
  "reserve lim owner input db =
     bindE (ownerScope db owner) (\<lambda>scope.
     bindE (journalText (rsv_id input)) (\<lambda>_.
     bindE (journalJson (rsv_beginJson input)) (\<lambda>_.
     bindE (case rsv_expectedCheckpoint input of None \<Rightarrow> Inr [] | Some c \<Rightarrow> boundedText MetadataBytes c) (\<lambda>_.
       let purpose = (case rsv_purpose input of None \<Rightarrow> Publication | Some p \<Rightarrow> p);
           track = (case rsv_trackRecords input of None \<Rightarrow> False | Some t \<Rightarrow> t);
           key = sc_key scope
       in
       if purpose = RawObservation \<and> (\<not> rsv_rawEnabled input \<or> rsv_expectedCheckpoint input = None) then Inl JState
       else if track \<and> lim_recordsPerTarget lim = None then Inl JCapacity
       else case find (captureIs key (rsv_id input)) (db_captures db) of
         Some previous \<Rightarrow>
           (if cp_trackRecords previous \<noteq> track \<or> cp_purpose previous \<noteq> purpose \<or>
               cp_expectedCheckpoint previous \<noteq> rsv_expectedCheckpoint input \<or>
               cp_beginJson previous \<noteq> rsv_beginJson input \<or> cp_rawEnabled previous \<noteq> rsv_rawEnabled input
            then Inl JConflict else Inr (db, ()))
       | None \<Rightarrow>
           if sc_checkpoint scope \<noteq> rsv_expectedCheckpoint input then Inl JConflict
           else if track \<and> \<not> sc_recordsInitialized scope \<and> sc_checkpoint scope \<noteq> None then Inl JState
           else if \<not> track \<and> purpose = Publication \<and> sc_recordsInitialized scope then Inl JState
           else
             let db1 = (if track then updateScopes (scopeIs key) (\<lambda>r. r\<lparr>sc_recordsInitialized := True\<rparr>) db else db) in
             if existsRow (unactivatedIn key) (db_captures db1) then Inl JConflict
             else bindE (admitMetadata lim 1 db1) (\<lambda>_.
               Inr (insertCapture (newCapture key input purpose track) db1, ()))))))"

definition nextOrdinal :: "journal_db \<Rightarrow> string \<Rightarrow> string \<Rightarrow> unit_kind \<Rightarrow> int" where
  "nextOrdinal db key cid k =
     (case rev (sort (map un_ordinal (filter (\<lambda>u. unitOf key cid u \<and> un_kind u = k) (db_units db)))) of
        [] \<Rightarrow> 0
      | n # _ \<Rightarrow> n + 1)"

definition newUnit :: "sha256 \<Rightarrow> string \<Rightarrow> string \<Rightarrow> unit_kind \<Rightarrow> int \<Rightarrow> bytes \<Rightarrow> unit_row" where
  "newUnit sha key cid k n content = \<lparr>un_scope = key, un_capture = cid, un_kind = k, un_ordinal = n,
     un_byteCount = int (length content), un_digest = sha content, un_body = Some content,
     un_disposition = Pending, un_receiptJson = None\<rparr>"

definition appendUnit ::
    "sha256 \<Rightarrow> journal_limits \<Rightarrow> capture_owner \<Rightarrow> string \<Rightarrow> unit_kind \<Rightarrow> int \<Rightarrow> bytes \<Rightarrow> journal_db \<Rightarrow> unit work" where
  "appendUnit sha lim owner cid k ordinal content db =
     bindE (ownerScope db owner) (\<lambda>scope.
     let key = sc_key scope in
     bindE (captureRow db key cid) (\<lambda>row.
     bindE (journalInteger ordinal 0 (lim_unitsPerTarget lim - 1)) (\<lambda>_.
       if cp_purpose row = RawObservation \<and> k \<noteq> Raw then Inl JState
       else bindE (journalInteger (int (length content)) 1 (lim_unitBytes lim)) (\<lambda>size.
       if k = Raw \<and> \<not> cp_rawEnabled row then Inl JState
       else case find (unitIs key cid k ordinal) (db_units db) of
         Some previous \<Rightarrow>
           (if un_digest previous \<noteq> sha content \<or> un_byteCount previous \<noteq> size then Inl JConflict else Inr (db, ()))
       | None \<Rightarrow>
           if cp_state row \<noteq> Preparing then Inl JState
           else if k = Raw \<and> cp_rawCancelReason row \<noteq> None then Inl JState
           else
             let canonicalCount = nextOrdinal db key cid Canonical;
                 rawUnits = nextOrdinal db key cid Raw;
                 channel = (if k = Canonical then canonicalCount else rawUnits);
                 total = db_retainedBytes db + db_metadataBytes db
             in
             if channel \<noteq> ordinal then Inl JState
             else if total < 0 \<or> \<not> safe_integer total then Inl JCorrupt
             else if canonicalCount + rawUnits \<ge> lim_unitsPerTarget lim \<or>
                     size > lim_targetBytes lim - cp_retainedBytes row - cp_sourceMetadataBytes row \<or>
                     size > lim_pendingBytes lim - total then Inl JCapacity
             else bindE (admitMetadata lim 1 db) (\<lambda>_.
               Inr (addRetained size
                     (updateCaptures (captureIs key cid) (\<lambda>r. r\<lparr>cp_retainedBytes := cp_retainedBytes r + size\<rparr>)
                       (insertUnit (newUnit sha key cid k ordinal content) db)), ()))))))"

end
