(* ===== verification/JournalRecords.thy ===== *)
theory JournalRecords
  imports JournalOperations
begin

text \<open>Source records, their bindings to units, coverage and the seal: record, bindRecord,
  recordStatus, records, coverage and seal of apps/cli/src/runtime/captureJournal.ts.\<close>

section \<open>Versions\<close>

definition findVersion :: "journal_db \<Rightarrow> string \<Rightarrow> record_kind \<Rightarrow> string \<Rightarrow> version_row option" where
  "findVersion db key k rk = find (\<lambda>v. versionKey v = (key, k, rk)) (db_versions db)"

definition lastComplete :: "scope_row \<Rightarrow> record_kind \<Rightarrow> string option" where
  "lastComplete scope k = (if k = RawRecord then sc_observedRaw scope else sc_observedCanonical scope)"

text \<open>The record was missing from the last complete observation of its channel.\<close>

definition wasAbsent :: "journal_db \<Rightarrow> scope_row \<Rightarrow> record_kind \<Rightarrow> string \<Rightarrow> version_row option \<Rightarrow> bool" where
  "wasAbsent db scope k rk old =
     (case lastComplete scope k of
        None \<Rightarrow> False
      | Some prior \<Rightarrow>
          Some prior \<noteq> Option.bind old vr_comparisonCapture \<and>
          find (memberIs (sc_key scope) prior k rk) (db_members db) = None)"

text \<open>A Raw object reference frozen by a capture that never activated.\<close>

definition orphanedReference :: "journal_db \<Rightarrow> scope_row \<Rightarrow> version_row option \<Rightarrow> bool checked" where
  "orphanedReference db scope old =
     (case old of
        None \<Rightarrow> Inr False
      | Some v \<Rightarrow>
          if rr_rawReference v = None then Inr False
          else bindE (recordVersion v) (\<lambda>rv.
            case ri_rawReference rv of
              Some (RawObject i f) \<Rightarrow>
                bindE (captureRow db (sc_key scope) (rr_versionCapture v)) (\<lambda>c. Inr (cp_activationReceipt c = None))
            | _ \<Rightarrow> Inr False))"

definition versionChanged :: "record_input \<Rightarrow> version_row option \<Rightarrow> bool \<Rightarrow> bool \<Rightarrow> bool" where
  "versionChanged input old absent orphaned =
     (case old of
        None \<Rightarrow> True
      | Some v \<Rightarrow> rr_fingerprint v \<noteq> ri_fingerprint input \<or>
                  rr_projectionVersion v \<noteq> ri_projectionVersion input \<or> absent \<or> orphaned)"

definition recordRow :: "record_input \<Rightarrow> int \<Rightarrow> string option \<Rightarrow> string \<Rightarrow> record_row" where
  "recordRow input revision ref versionCapture = \<lparr>rr_kind = rk_kind input, rr_key = rk_key input,
     rr_fingerprint = ri_fingerprint input, rr_projectionVersion = ri_projectionVersion input,
     rr_revision = revision, rr_rawReference = ref, rr_versionCapture = versionCapture\<rparr>"

definition versionRowOf :: "string \<Rightarrow> string option \<Rightarrow> record_row \<Rightarrow> version_row" where
  "versionRowOf key comparison r = record_row.extend r (version_row.fields key comparison)"

definition memberRowOf :: "string \<Rightarrow> string \<Rightarrow> record_row \<Rightarrow> member_row" where
  "memberRowOf key cid r = record_row.extend r (member_row.fields key cid None None None None)"

text \<open>The version a new observation takes: a changed one gets the next revision and is stored
  as the current version, an unchanged one keeps revision, provenance and capture.\<close>

definition chooseVersion ::
    "scope_row \<Rightarrow> string \<Rightarrow> bool \<Rightarrow> record_input \<Rightarrow> string option \<Rightarrow> version_row option \<Rightarrow> bool \<Rightarrow> record_row checked" where
  "chooseVersion scope cid rawEnabled input proposed old changed =
     bindE (case old of
              Some v \<Rightarrow> (if changed then journalInteger (rr_revision v + 1) 1 max_safe_integer else Inr (rr_revision v))
            | None \<Rightarrow> journalInteger (sc_revisionFloor scope + 1) 1 max_safe_integer) (\<lambda>revision.
       if changed \<and> \<not> rawEnabled \<and> (case ri_rawReference input of Some (RawObject i f) \<Rightarrow> True | _ \<Rightarrow> False)
       then Inl JState
       else case (changed, old) of
              (False, Some v) \<Rightarrow> Inr (recordRow input revision (rr_rawReference v) (rr_versionCapture v))
            | _ \<Rightarrow> Inr (recordRow input revision proposed cid))"

definition storeObservation ::
    "scope_row \<Rightarrow> string \<Rightarrow> bool \<Rightarrow> record_row \<Rightarrow> journal_db \<Rightarrow> journal_db" where
  "storeObservation scope cid changed r db =
     (let key = sc_key scope;
          db1 = (if changed then upsertVersion (versionRowOf key (lastComplete scope (rr_kind r)) r) db else db)
      in updateCaptures (captureIs key cid)
           (\<lambda>c. c\<lparr>cp_recordCount := cp_recordCount c + 1, cp_retainedRecords := cp_retainedRecords c + 1\<rparr>)
           (insertMember (memberRowOf key cid r) db1))"

definition recordObservation ::
    "journal_limits \<Rightarrow> capture_owner \<Rightarrow> string \<Rightarrow> record_input \<Rightarrow> journal_db \<Rightarrow> record_version work" where
  "recordObservation lim owner cid input db =
     bindE (ownerScope db owner) (\<lambda>scope.
     let key = sc_key scope; k = rk_kind input in
     bindE (captureRow db key cid) (\<lambda>row.
     bindE (retainedMembership row) (\<lambda>_.
     bindE (journalText (rk_key input)) (\<lambda>_.
     bindE (journalText (ri_projectionVersion input)) (\<lambda>_.
       if \<not> isSha256Hex (ri_fingerprint input) then Inl JInvalid
       else bindE (reference (ri_rawReference input)) (\<lambda>proposed.
       if (k = EventRecord) \<noteq> (proposed \<noteq> None) then Inl JInvalid
       else case (if cp_trackRecords row then lim_recordsPerTarget lim else None) of
         None \<Rightarrow> Inl JState
       | Some recordsPerTarget \<Rightarrow>
         if (cp_purpose row = RawObservation \<and> k \<noteq> RawRecord) \<or> (k = RawRecord \<and> \<not> cp_rawEnabled row) then Inl JState
         else case find (memberIs key cid k (rk_key input)) (db_members db) of
           Some previous \<Rightarrow>
             (if rr_fingerprint previous \<noteq> ri_fingerprint input \<or> rr_projectionVersion previous \<noteq> ri_projectionVersion input
              then Inl JConflict
              else bindE (recordVersion previous) (\<lambda>v. Inr (db, v)))
         | None \<Rightarrow>
             if cp_state row \<noteq> Preparing then Inl JState
             else if cp_recordCount row \<ge> recordsPerTarget then Inl JCapacity
             else
               let old = findVersion db key k (rk_key input) in
               bindE (admitMetadata lim (if old = None then 2 else 1) db) (\<lambda>_.
               bindE (orphanedReference db scope old) (\<lambda>orphaned.
               let changed = versionChanged input old (wasAbsent db scope k (rk_key input) old) orphaned in
               bindE (chooseVersion scope cid (cp_rawEnabled row) input proposed old changed) (\<lambda>r.
               bindE (recordVersion r) (\<lambda>v.
                 Inr (storeObservation scope cid changed r db, v)))))))))))"

section \<open>Bindings\<close>

definition unitKindFor :: "record_kind \<Rightarrow> unit_kind" where
  "unitKindFor k = (if k = RawRecord then Raw else Canonical)"

text \<open>The unit a binding resolves to: its own capture's unit, or for Raw the unit of an earlier
  activated capture that holds the same version.\<close>

definition resolveUnit ::
    "journal_db \<Rightarrow> string \<Rightarrow> string \<Rightarrow> member_row \<Rightarrow> int \<Rightarrow> string option \<Rightarrow> (string \<times> int) checked" where
  "resolveUnit db key cid record ordinal captureId =
     (let k = rr_kind record; unitKind = unitKindFor k;
          unitCapture = (case captureId of None \<Rightarrow> cid | Some c \<Rightarrow> c) in
      bindE (journalInteger ordinal 0 1000000) (\<lambda>_.
      bindE (if unitCapture = cid then Inr (cid, ordinal)
             else if k \<noteq> RawRecord then Inl JState
             else bindE (getRecord db key unitCapture RawRecord (rr_key record)) (\<lambda>previous.
               if rr_revision previous \<noteq> rr_revision record \<or> rr_fingerprint previous \<noteq> rr_fingerprint record \<or>
                  rr_projectionVersion previous \<noteq> rr_projectionVersion record then Inl JConflict
               else case (mb_unitCapture previous, mb_unitOrdinal previous) of
                 (Some c, Some n) \<Rightarrow>
                   if n \<noteq> ordinal then Inl JConflict
                   else bindE (captureRow db key unitCapture) (\<lambda>owner.
                     if cp_activationReceipt owner = None then Inl JConflict else Inr (c, n))
               | _ \<Rightarrow> Inl JConflict)) (\<lambda>(c, n).
      case find (unitIs key c unitKind n) (db_units db) of
        None \<Rightarrow> Inl JMissing
      | Some u \<Rightarrow>
          if c \<noteq> cid then
            bindE (captureRow db key c) (\<lambda>owner.
              if cp_activationReceipt owner = None \<or> un_disposition u = Canceled \<or>
                 (un_disposition u = Pending \<and> un_body u = None) then Inl JState
              else Inr (c, n))
          else Inr (c, n))))"

type_synonym binding_target = "string option \<times> unit_kind option \<times> int option \<times> gap_reason option"

definition bindingTarget ::
    "journal_db \<Rightarrow> string \<Rightarrow> string \<Rightarrow> member_row \<Rightarrow> record_binding \<Rightarrow> binding_target checked" where
  "bindingTarget db key cid record binding =
     (case binding of
        BindUnavailable reason \<Rightarrow>
          (if rr_kind record \<noteq> RawRecord then Inl JInvalid else Inr (None, None, None, Some reason))
      | BindUnit ordinal captureId \<Rightarrow>
          bindE (resolveUnit db key cid record ordinal captureId) (\<lambda>(c, n).
            Inr (Some c, Some (unitKindFor (rr_kind record)), Some n, None)))"

definition bindRecord ::
    "capture_owner \<Rightarrow> string \<Rightarrow> record_key \<Rightarrow> record_binding \<Rightarrow> journal_db \<Rightarrow> unit work" where
  "bindRecord owner cid ident binding db =
     bindE (ownerScope db owner) (\<lambda>scope.
     let key = sc_key scope in
     bindE (captureRow db key cid) (\<lambda>row.
     bindE (getRecord db key cid (rk_kind ident) (rk_key ident)) (\<lambda>record.
     bindE (bindingTarget db key cid record binding) (\<lambda>(c, uk, n, gap).
         if mb_unitCapture record \<noteq> None \<or> mb_unavailableReason record \<noteq> None then
           (if mb_unitCapture record \<noteq> c \<or> mb_unitOrdinal record \<noteq> n \<or> mb_unitKind record \<noteq> uk \<or>
               mb_unavailableReason record \<noteq> gap then Inl JConflict
            else Inr (db, ()))
         else if cp_state row \<noteq> Preparing then Inl JState
         else Inr (updateMembers (memberIs key cid (rk_kind ident) (rk_key ident))
                (\<lambda>m. m\<lparr>mb_unitCapture := c, mb_unitKind := uk, mb_unitOrdinal := n, mb_unavailableReason := gap\<rparr>) db, ())))))"

definition recordStatus :: "capture_owner \<Rightarrow> string \<Rightarrow> record_key \<Rightarrow> journal_db \<Rightarrow> record_summary option work" where
  "recordStatus owner cid ident db =
     bindE (ownerScope db owner) (\<lambda>scope.
     bindE (captureRow db (sc_key scope) cid) (\<lambda>row.
     bindE (retainedMembership row) (\<lambda>_.
     bindE (journalText (rk_key ident)) (\<lambda>_.
       case find (memberIs (sc_key scope) cid (rk_kind ident) (rk_key ident)) (db_members db) of
         None \<Rightarrow> Inr (db, None)
       | Some m \<Rightarrow> bindE (recordSummary db row m) (\<lambda>s. Inr (db, Some s))))))"

definition records ::
    "capture_owner \<Rightarrow> string \<Rightarrow> record_kind \<Rightarrow> string option \<Rightarrow> int option \<Rightarrow> journal_db \<Rightarrow> record_summary list work" where
  "records owner cid k afterKey limit db =
     bindE (ownerScope db owner) (\<lambda>scope.
     bindE (captureRow db (sc_key scope) cid) (\<lambda>row.
     bindE (retainedMembership row) (\<lambda>_.
     bindE (journalInteger (case limit of None \<Rightarrow> 32 | Some n \<Rightarrow> n) 1 100) (\<lambda>n.
     bindE (case afterKey of None \<Rightarrow> Inr [] | Some t \<Rightarrow> journalText t) (\<lambda>after.
     bindE (mapE (recordSummary db row)
              (selectAll (\<lambda>m. mb_scope m = sc_key scope \<and> mb_capture m = cid \<and> rr_kind m = k \<and> after < rr_key m)
                 rr_key (nat n) (db_members db)))
       (\<lambda>ss. Inr (db, ss)))))))"

definition coverage :: "capture_owner \<Rightarrow> journal_db \<Rightarrow> capture_coverage work" where
  "coverage owner db =
     bindE (ownerScope db owner) (\<lambda>scope.
       Inr (db, \<lparr>cv_canonicalCaptureId = sc_canonicalCoverage scope,
                 cv_observedCanonicalCaptureId = sc_observedCanonical scope,
                 cv_observedRawCaptureId = sc_observedRaw scope\<rparr>))"

section \<open>Sealing\<close>

definition sealWork :: "string \<Rightarrow> string \<Rightarrow> string \<Rightarrow> record_manifest option \<Rightarrow> journal_db \<Rightarrow> journal_db" where
  "sealWork key cid encoded recs db =
     (let db1 = updateCaptures (captureIs key cid) (\<lambda>r. r\<lparr>cp_state := Sealed, cp_sealJson := Some encoded\<rparr>) db;
          db2 = (case recs of
                   Some m \<Rightarrow> (if rm_canonical m \<noteq> None
                      then updateScopes (scopeIs key) (\<lambda>r. r\<lparr>sc_observedCanonical := Some cid\<rparr>) db1 else db1)
                 | None \<Rightarrow> db1)
      in (case recs of
            Some m \<Rightarrow> (if rawComplete m
               then updateScopes (scopeIs key) (\<lambda>r. r\<lparr>sc_observedRaw := Some cid\<rparr>) db2 else db2)
          | None \<Rightarrow> db2))"

definition unitCount :: "journal_db \<Rightarrow> string \<Rightarrow> string \<Rightarrow> unit_kind \<Rightarrow> int" where
  "unitCount db key cid k = int (countRows (\<lambda>u. unitOf key cid u \<and> un_kind u = k) (db_units db))"

definition seal :: "journal_limits \<Rightarrow> capture_owner \<Rightarrow> string \<Rightarrow> capture_seal \<Rightarrow> journal_db \<Rightarrow> unit work" where
  "seal lim owner cid manifest db =
     bindE (ownerScope db owner) (\<lambda>scope.
     let key = sc_key scope in
     bindE (captureRow db key cid) (\<lambda>row.
     bindE (journalInteger (sl_canonicalUnits manifest) (if cp_purpose row = Publication then 1 else 0)
              (if cp_purpose row = Publication then lim_unitsPerTarget lim else 0)) (\<lambda>_.
     bindE (journalInteger (sl_rawUnits manifest)
              (if cp_purpose row = RawObservation \<and> \<not> cp_trackRecords row then 1 else 0) (lim_unitsPerTarget lim)) (\<lambda>_.
       if cp_purpose row = RawObservation \<and> Some (sl_nextCheckpoint manifest) \<noteq> cp_expectedCheckpoint row then Inl JState
       else
         bindE (boundedText MetadataBytes (sl_nextCheckpoint manifest)) (\<lambda>_.
         bindE (journalJson (sl_manifestJson manifest)) (\<lambda>_.
         bindE (if \<not> cp_recordsRetired row then recordManifest lim db key cid row (sl_records manifest)
                else (case sl_records manifest of
                        None \<Rightarrow> Inr None
                      | Some m \<Rightarrow> bindE (checkedManifest m) (\<lambda>m'. Inr (Some m')))) (\<lambda>recs.
         let encoded = stringify (sealJson (manifest\<lparr>sl_records := recs\<rparr>)) in
         case cp_sealJson row of
           Some old \<Rightarrow> (if old \<noteq> encoded then Inl JConflict else Inr (db, ()))
         | None \<Rightarrow>
             if cp_state row \<noteq> Preparing then Inl JState
             else if unitCount db key cid Canonical \<noteq> sl_canonicalUnits manifest \<or>
                     unitCount db key cid Raw \<noteq> sl_rawUnits manifest then Inl JState
             else Inr (sealWork key cid encoded recs db, ())))))))) "

end
