(* ===== verification/JournalDelivery.thy ===== *)
theory JournalDelivery
  imports JournalRecords
begin

text \<open>Reading and settling sealed captures: unactivated, pending, inspect, read, settle,
  pruneRecords and reclaim of apps/cli/src/runtime/captureJournal.ts.\<close>

section \<open>Reading\<close>

definition unactivated :: "capture_owner \<Rightarrow> journal_db \<Rightarrow> capture_summary option work" where
  "unactivated owner db =
     bindE (ownerScope db owner) (\<lambda>scope.
       case find (unactivatedIn (sc_key scope)) (db_captures db) of
         None \<Rightarrow> Inr (db, None)
       | Some row \<Rightarrow> bindE (captureSummary row) (\<lambda>s. Inr (db, Some s)))"

definition pending :: "capture_owner \<Rightarrow> string option \<Rightarrow> int \<Rightarrow> journal_db \<Rightarrow> capture_summary list work" where
  "pending owner afterId limit db =
     bindE (ownerScope db owner) (\<lambda>scope.
     bindE (journalInteger limit 1 100) (\<lambda>n.
     bindE (case afterId of None \<Rightarrow> Inr [] | Some t \<Rightarrow> journalText t) (\<lambda>after.
     bindE (mapE captureSummary
              (selectAll (\<lambda>r. cp_scope r = sc_key scope \<and> after < cp_id r \<and>
                   (cp_state r \<in> {Preparing, Sealed, Activated} \<or> cp_retainedBytes r > 0))
                 cp_id (nat n) (db_captures db)))
       (\<lambda>ss. Inr (db, ss)))))"

definition unitSummary :: "unit_row \<Rightarrow> unit_summary" where
  "unitSummary u = \<lparr>us_ordinal = un_ordinal u, us_byteCount = un_byteCount u, us_digest = un_digest u,
     us_disposition = un_disposition u, us_receiptJson = un_receiptJson u, us_retained = (un_body u \<noteq> None)\<rparr>"

definition inspect ::
    "capture_owner \<Rightarrow> string \<Rightarrow> unit_kind \<Rightarrow> int option \<Rightarrow> int option \<Rightarrow> bool \<Rightarrow> journal_db \<Rightarrow> (capture_summary \<times> unit_summary list) work" where
  "inspect owner cid k afterOrdinal limit pendingOnly db =
     bindE (ownerScope db owner) (\<lambda>scope.
     bindE (captureRow db (sc_key scope) cid) (\<lambda>row.
     bindE (journalInteger (case afterOrdinal of None \<Rightarrow> -1 | Some n \<Rightarrow> n) (-1) 1000000) (\<lambda>after.
     bindE (journalInteger (case limit of None \<Rightarrow> 32 | Some n \<Rightarrow> n) 1 100) (\<lambda>n.
     bindE (captureSummary row) (\<lambda>s.
       Inr (db, (s, map unitSummary
         (selectAll (\<lambda>u. unitOf (sc_key scope) cid u \<and> un_kind u = k \<and> after < un_ordinal u \<and>
                        (pendingOnly \<longrightarrow> un_disposition u = Pending))
            un_ordinal (nat n) (db_units db)))))))))"

definition readUnit ::
    "sha256 \<Rightarrow> journal_limits \<Rightarrow> capture_owner \<Rightarrow> string \<Rightarrow> unit_kind \<Rightarrow> int \<Rightarrow> journal_db \<Rightarrow> bytes work" where
  "readUnit sha lim owner cid k ordinal db =
     bindE (ownerScope db owner) (\<lambda>scope.
     bindE (captureRow db (sc_key scope) cid) (\<lambda>row.
     bindE (journalInteger ordinal 0 1000000) (\<lambda>_.
       if cp_state row \<noteq> Sealed \<and> cp_state row \<noteq> Activated then Inl JState
       else if k = Raw \<and> cp_activationReceipt row = None then Inl JState
       else case find (unitIs (sc_key scope) cid k ordinal) (db_units db) of
         None \<Rightarrow> Inl JMissing
       | Some u \<Rightarrow>
           if k = Raw \<and> un_disposition u \<noteq> Pending then Inl JState
           else if \<not> safe_integer (un_byteCount u) \<or> un_byteCount u < 1 \<or> un_byteCount u > lim_unitBytes lim then Inl JCapacity
           else case un_body u of
             None \<Rightarrow> Inl JState
           | Some content \<Rightarrow>
               if int (length content) \<noteq> un_byteCount u \<or> sha content \<noteq> un_digest u then Inl JCorrupt
               else Inr (db, content))))"

section \<open>Settlement\<close>

definition dropSourceMetadata :: "capture_row \<Rightarrow> capture_row" where
  "dropSourceMetadata r = r\<lparr>cp_sourceMetadata := None, cp_sourceMetadataSha := None, cp_sourceMetadataBytes := 0\<rparr>"

definition settleCanonical :: "string \<Rightarrow> capture_row \<Rightarrow> int \<Rightarrow> string \<Rightarrow> journal_db \<Rightarrow> unit work" where
  "settleCanonical key row ordinal receipt db =
     bindE (journalJson receipt) (\<lambda>_.
     bindE (journalInteger ordinal 0 1000000) (\<lambda>_.
       case find (unitIs key (cp_id row) Canonical ordinal) (db_units db) of
         None \<Rightarrow> Inl JMissing
       | Some u \<Rightarrow>
           (case un_receiptJson u of
              Some old \<Rightarrow> (if old \<noteq> receipt then Inl JConflict else Inr (db, ()))
            | None \<Rightarrow>
                if cp_state row \<noteq> Sealed then Inl JState
                else Inr (updateUnits (unitIs key (cp_id row) Canonical ordinal)
                       (\<lambda>u. u\<lparr>un_disposition := Acknowledged, un_receiptJson := Some receipt\<rparr>) db, ()))))"

definition activatePublication :: "string \<Rightarrow> capture_row \<Rightarrow> string \<Rightarrow> journal_db \<Rightarrow> journal_db" where
  "activatePublication key row nextCheckpoint db =
     (let db1 = updateScopes (scopeIs key) (\<lambda>s. s\<lparr>sc_checkpoint := Some nextCheckpoint\<rparr>) db;
          db2 = (if cp_trackRecords row
                 then updateScopes (scopeIs key) (\<lambda>s. s\<lparr>sc_canonicalCoverage := Some (cp_id row)\<rparr>) db1 else db1);
          db3 = updateScopes (scopeIs key) (\<lambda>s. s\<lparr>sc_adoptionMetadata := None, sc_adoptionMetadataBytes := 0\<rparr>) db2
      in updateCaptures (\<lambda>r. cp_scope r = key \<and> cp_id r \<noteq> cp_id row \<and> cp_sourceMetadata r \<noteq> None \<and>
                             cp_activationReceipt r \<noteq> None) dropSourceMetadata db3)"

definition settleActivated :: "scope_row \<Rightarrow> capture_row \<Rightarrow> string \<Rightarrow> journal_db \<Rightarrow> unit work" where
  "settleActivated scope row receipt db =
     bindE (journalJson receipt) (\<lambda>_.
       case cp_activationReceipt row of
         Some old \<Rightarrow> (if old \<noteq> receipt then Inl JConflict else Inr (db, ()))
       | None \<Rightarrow>
           (case cp_sealJson row of
              None \<Rightarrow> Inl JState
            | Some sealed \<Rightarrow>
                if cp_state row \<noteq> Sealed then Inl JState
                else if sc_checkpoint scope \<noteq> cp_expectedCheckpoint row then Inl JConflict
                else bindE (parsedSeal sealed) (\<lambda>manifest.
                  let key = sc_key scope;
                      db1 = updateCaptures (captureIs key (cp_id row))
                              (\<lambda>r. r\<lparr>cp_state := Activated, cp_activationReceipt := Some receipt\<rparr>) db;
                      db2 = (if cp_purpose row = Publication
                             then activatePublication key row (sl_nextCheckpoint manifest) db1 else db1)
                  in Inr (complete key (cp_id row) db2, ()))))"

definition settleRaw :: "string \<Rightarrow> capture_row \<Rightarrow> int \<Rightarrow> string \<Rightarrow> journal_db \<Rightarrow> unit work" where
  "settleRaw key row ordinal receipt db =
     bindE (journalJson receipt) (\<lambda>_.
     bindE (journalInteger ordinal 0 1000000) (\<lambda>_.
       if cp_activationReceipt row = None then Inl JState
       else case find (unitIs key (cp_id row) Raw ordinal) (db_units db) of
         None \<Rightarrow> Inl JMissing
       | Some u \<Rightarrow>
           if un_receiptJson u \<noteq> None \<and> un_receiptJson u \<noteq> Some receipt then Inl JConflict
           else Inr (complete key (cp_id row)
                  (updateUnits (unitIs key (cp_id row) Raw ordinal)
                     (\<lambda>u. u\<lparr>un_disposition := Acknowledged, un_receiptJson := Some receipt\<rparr>) db), ())))"

definition settleRawUnitCanceled :: "string \<Rightarrow> capture_row \<Rightarrow> int \<Rightarrow> journal_db \<Rightarrow> unit work" where
  "settleRawUnitCanceled key row ordinal db =
     bindE (journalInteger ordinal 0 1000000) (\<lambda>_.
       if cp_activationReceipt row = None \<or> cp_rawCancelReason row = None then Inl JState
       else if find (unitIs key (cp_id row) Raw ordinal) (db_units db) = None then Inl JMissing
       else Inr (complete key (cp_id row)
              (updateUnits (\<lambda>u. unitIs key (cp_id row) Raw ordinal u \<and> un_disposition u = Pending)
                 (\<lambda>u. u\<lparr>un_disposition := Canceled\<rparr>) db), ()))"

definition settleRawCancellation :: "bool \<Rightarrow> string \<Rightarrow> capture_row \<Rightarrow> string \<Rightarrow> journal_db \<Rightarrow> unit work" where
  "settleRawCancellation finished key row reason db =
     bindE (boundedText MetadataBytes reason) (\<lambda>_.
       let db1 = updateCaptures (captureIs key (cp_id row))
                   (\<lambda>r. r\<lparr>cp_rawCancelReason := (case cp_rawCancelReason r of None \<Rightarrow> Some reason | Some old \<Rightarrow> Some old)\<rparr>) db;
           db2 = (if finished
                  then updateUnits (\<lambda>u. unitOf key (cp_id row) u \<and> un_kind u = Raw \<and> un_disposition u = Pending)
                         (\<lambda>u. u\<lparr>un_disposition := Canceled\<rparr>) db1
                  else db1)
       in Inr (complete key (cp_id row) db2, ()))"

definition settleRejected :: "string \<Rightarrow> capture_row \<Rightarrow> string \<Rightarrow> journal_db \<Rightarrow> unit work" where
  "settleRejected key row receipt db =
     bindE (journalJson receipt) (\<lambda>_.
       case cp_rejectionReceipt row of
         Some old \<Rightarrow> (if old \<noteq> receipt then Inl JConflict else Inr (db, ()))
       | None \<Rightarrow>
           if cp_state row \<noteq> Sealed then Inl JState
           else Inr (updateCaptures (captureIs key (cp_id row)) dropSourceMetadata
                  (updateCaptures (captureIs key (cp_id row))
                     (\<lambda>r. r\<lparr>cp_state := Abandoned, cp_rejectionReceipt := Some receipt\<rparr>) db), ()))"

definition settleAbandon :: "string \<Rightarrow> capture_row \<Rightarrow> journal_db \<Rightarrow> unit work" where
  "settleAbandon key row db =
     (if cp_state row = Abandoned then Inr (db, ())
      else if cp_state row \<noteq> Preparing then Inl JState
      else Inr (updateCaptures (captureIs key (cp_id row)) dropSourceMetadata
             (updateCaptures (captureIs key (cp_id row)) (\<lambda>r. r\<lparr>cp_state := Abandoned\<rparr>) db), ()))"

definition settle :: "capture_owner \<Rightarrow> string \<Rightarrow> capture_settlement \<Rightarrow> journal_db \<Rightarrow> unit work" where
  "settle owner cid settlement db =
     bindE (ownerScope db owner) (\<lambda>scope.
     bindE (captureRow db (sc_key scope) cid) (\<lambda>row.
       case settlement of
         CanonicalAcknowledged n receipt \<Rightarrow> settleCanonical (sc_key scope) row n receipt db
       | SettleActivated receipt \<Rightarrow> settleActivated scope row receipt db
       | RawAcknowledged n receipt \<Rightarrow> settleRaw (sc_key scope) row n receipt db
       | RawUnitCanceled n \<Rightarrow> settleRawUnitCanceled (sc_key scope) row n db
       | RawCancellationStarted reason \<Rightarrow> settleRawCancellation False (sc_key scope) row reason db
       | RawCanceled reason \<Rightarrow> settleRawCancellation True (sc_key scope) row reason db
       | Rejected receipt \<Rightarrow> settleRejected (sc_key scope) row receipt db
       | AbandonUnsealed \<Rightarrow> settleAbandon (sc_key scope) row db))"

section \<open>Retirement\<close>

definition prunable :: "scope_row \<Rightarrow> capture_row \<Rightarrow> bool" where
  "prunable scope r \<longleftrightarrow> cp_scope r = sc_key scope \<and> cp_state r \<in> {Completed, Abandoned} \<and> cp_retainedRecords r > 0 \<and>
     Some (cp_id r) \<noteq> sc_canonicalCoverage scope \<and> Some (cp_id r) \<noteq> sc_observedCanonical scope \<and>
     Some (cp_id r) \<noteq> sc_observedRaw scope"

definition pruneRecords :: "capture_owner \<Rightarrow> int \<Rightarrow> journal_db \<Rightarrow> int work" where
  "pruneRecords owner limit db =
     bindE (ownerScope db owner) (\<lambda>scope.
     bindE (journalInteger limit 1 100) (\<lambda>n.
       case selectAll (prunable scope) cp_id 1 (db_captures db) of
         [] \<Rightarrow> Inr (db, 0)
       | row # _ \<Rightarrow>
           let rows = selectAll (\<lambda>m. mb_scope m = sc_key scope \<and> mb_capture m = cp_id row)
                        (\<lambda>m. (rr_kind m, rr_key m)) (nat n) (db_members db);
               removed = int (countRows (\<lambda>m. m \<in> set rows) (db_members db))
           in if removed < 1 \<or> removed > cp_retainedRecords row then Inl JCorrupt
              else Inr (updateCaptures (captureIs (sc_key scope) (cp_id row))
                          (\<lambda>c. c\<lparr>cp_recordsRetired := True, cp_retainedRecords := cp_retainedRecords c - removed\<rparr>)
                          (deleteMembers rows db), removed)))"

definition reclaimable :: "string \<Rightarrow> capture_row \<Rightarrow> unit_row \<Rightarrow> bool" where
  "reclaimable key row u \<longleftrightarrow> unitOf key (cp_id row) u \<and> un_body u \<noteq> None \<and>
     (cp_state row = Abandoned \<or> (un_kind u = Canonical \<and> cp_activationReceipt row \<noteq> None) \<or>
      (un_kind u = Raw \<and> un_disposition u \<noteq> Pending))"

definition dropBody :: "string \<Rightarrow> string \<Rightarrow> journal_db \<times> int \<Rightarrow> unit_row \<Rightarrow> (journal_db \<times> int) checked" where
  "dropBody key cid acc u =
     (let (db, removed) = acc in
      if \<not> safe_integer (un_byteCount u) \<or> un_byteCount u < 1 then Inl JCorrupt
      else Inr (updateUnits (unitIs key cid (un_kind u) (un_ordinal u)) (\<lambda>r. r\<lparr>un_body := None\<rparr>) db,
                removed + un_byteCount u))"

definition reclaim :: "capture_owner \<Rightarrow> string \<Rightarrow> int \<Rightarrow> journal_db \<Rightarrow> int work" where
  "reclaim owner cid limit db =
     bindE (ownerScope db owner) (\<lambda>scope.
     let key = sc_key scope in
     bindE (captureRow db key cid) (\<lambda>row.
     bindE (journalInteger limit 1 32) (\<lambda>n.
       let eligible = selectAll (reclaimable key row) (\<lambda>u. (un_kind u, un_ordinal u)) (nat n) (db_units db) in
       bindE (foldE (dropBody key cid) (db, 0) eligible) (\<lambda>(db1, removed).
         if removed > cp_retainedBytes row then Inl JCorrupt
         else Inr (addRetained (- removed)
                (updateCaptures (captureIs key cid) (\<lambda>r. r\<lparr>cp_retainedBytes := cp_retainedBytes r - removed\<rparr>) db1),
              int (length eligible))))))"

end
