(* ===== verification/JournalEffects.thy ===== *)
theory JournalEffects
  imports JournalDelivery
begin

text \<open>What a successful operation of the capture journal has checked and how it has changed
  the database: one inversion lemma per state-changing operation.  Every invariant proof
  starts from these.\<close>

lemma if_Inr_then [success_simps]:
  "(if c then Inr x else m) = Inr y \<longleftrightarrow> (c \<and> x = y) \<or> (\<not> c \<and> m = Inr y)"
  by simp

lemma journalText_Inr [success_simps]:
  "journalText v = Inr w \<longleftrightarrow> w = v \<and> v \<noteq> [] \<and> int (length v) \<le> 500 \<and> CHR 0x00 \<notin> set v"
  by (auto simp: journalText_def boundedText_def)

lemma journalInteger_Inr [success_simps]:
  "journalInteger v low high = Inr w \<longleftrightarrow> w = v \<and> safe_integer v \<and> low \<le> v \<and> v \<le> high"
  by (auto simp: journalInteger_def)

lemma sourceJson_Inr [success_simps]:
  "sourceJson v = Inr w \<longleftrightarrow> w = v \<and> v \<noteq> [] \<and> int (length v) \<le> SourceMetadataBytes \<and> CHR 0x00 \<notin> set v \<and> parseJson v \<noteq> None"
  by (auto simp: sourceJson_def boundedText_def bindE_def)

lemma journalJson_Inr [success_simps]:
  "journalJson v = Inr w \<longleftrightarrow> w = v \<and> v \<noteq> [] \<and> int (length v) \<le> MetadataBytes \<and> CHR 0x00 \<notin> set v \<and> parseJson v \<noteq> None"
  by (auto simp: journalJson_def boundedText_def bindE_def)

lemma admitMetadata_Inr [success_simps]:
  "admitMetadata lim n db = Inr u \<longleftrightarrow>
     safe_integer (db_metadataEntries db) \<and> 0 \<le> db_metadataEntries db \<and> n + db_metadataEntries db \<le> lim_metadataEntries lim"
  by (auto simp: admitMetadata_def Let_def)

lemma metadataCapacity_Inr [success_simps]:
  "metadataCapacity lim n db = Inr u \<longleftrightarrow>
     safe_integer (db_retainedBytes db) \<and> 0 \<le> db_retainedBytes db \<and>
     safe_integer (db_metadataBytes db) \<and> 0 \<le> db_metadataBytes db \<and>
     n + db_retainedBytes db + db_metadataBytes db \<le> lim_pendingBytes lim"
  by (auto simp: metadataCapacity_def Let_def)

lemma captureRow_Inr [success_simps]:
  "captureRow db key cid = Inr row \<longleftrightarrow>
     cid \<noteq> [] \<and> int (length cid) \<le> 500 \<and> CHR 0x00 \<notin> set cid \<and> find (captureIs key cid) (db_captures db) = Some row"
  by (auto simp: captureRow_def success_simps)

lemma ownerScope_Inr:
  "ownerScope db owner = Inr sc \<longleftrightarrow>
     scopeKey (ow_scope owner) = Inr (sc_key sc) \<and> find (scopeIs (sc_key sc)) (db_scopes db) = Some sc \<and>
     sc_originKey sc = cs_originKey (ow_scope owner) \<and> sc_epoch sc = ow_epoch owner"
proof (cases "scopeKey (ow_scope owner)")
  case (Inr key)
  show ?thesis
  proof (cases "find (scopeIs key) (db_scopes db)")
    case None
    then show ?thesis by (auto simp: ownerScope_def Inr)
  next
    case (Some row)
    then have k: "sc_key row = key" using find_Some_in[of "scopeIs key" "db_scopes db" row] by (simp add: scopeIs_def)
    have "ownerScope db owner = Inr sc \<longleftrightarrow>
        row = sc \<and> sc_originKey row = cs_originKey (ow_scope owner) \<and> sc_epoch row = ow_epoch owner"
      by (simp add: ownerScope_def Inr Some)
    moreover have "key = sc_key sc \<and> find (scopeIs (sc_key sc)) (db_scopes db) = Some sc \<longleftrightarrow> row = sc"
      using Some k by (metis option.inject)
    ultimately show ?thesis unfolding Inr sum.inject by blast
  qed
qed (simp add: ownerScope_def)

lemma retainedMembership_Inr [success_simps]:
  "retainedMembership row = Inr u \<longleftrightarrow> \<not> cp_recordsRetired row"
  by (simp add: retainedMembership_def)

lemma captureRow_id: "find (captureIs key cid) rows = Some row \<Longrightarrow> cp_id row = cid \<and> cp_scope row = key \<and> row \<in> set rows"
  using find_Some_in[of "captureIs key cid" rows row] by (simp add: captureIs_def captureKey_def)

lemma freezeLegacyMigration_effect:
  assumes "freezeLegacyMigration sha lim p a input db = Inr (db', r)"
  shows "db' = db \<or>
    (\<exists>row. mg_key row \<notin> set (map mg_key (db_migrations db)) \<and> 0 < mg_byteCount row \<and>
       mg_checkpointJson row = lg_checkpointJson input \<and> mg_checkpointSha row = sha (lg_checkpointJson input) \<and>
       mg_byteCount row = int (length (lg_checkpointJson input)) \<and>
       1 + db_metadataEntries db \<le> lim_metadataEntries lim \<and>
       mg_byteCount row + db_retainedBytes db + db_metadataBytes db \<le> lim_pendingBytes lim \<and>
       db' = insertMigration row db)"
proof -
  obtain key where key: "migrationKey p a (lg_checkpointDigest input) = Inr key"
    using assms by (auto simp: freezeLegacyMigration_def success_simps)
  show ?thesis
  proof (cases "find (\<lambda>r. mg_key r = key) (db_migrations db)")
    case None
    let ?row = "\<lparr>mg_key = key, mg_checkpointJson = lg_checkpointJson input,
                  mg_checkpointSha = lg_checkpointDigest input, mg_byteCount = int (length (lg_checkpointJson input))\<rparr>"
    have "mg_key ?row \<notin> set (map mg_key (db_migrations db))"
      using None by (auto simp: find_None_all)
    with None key assms show ?thesis
      unfolding freezeLegacyMigration_def
      by (intro disjI2 exI[of _ ?row]) (auto simp: success_simps)
  qed (use key assms in \<open>auto simp: freezeLegacyMigration_def success_simps\<close>)
qed

lemma claim_effect:
  assumes "claim lim scope db = Inr (db', r)"
  shows "\<exists>key. scopeKey scope = Inr key \<and>
     ((\<exists>old. find (scopeIs key) (db_scopes db) = Some old \<and> sc_originKey old = cs_originKey scope \<and>
         ow_epoch r = sc_epoch old + 1 \<and> cl_checkpoint r = sc_checkpoint old \<and>
         db' = updateScopes (scopeIs key) (\<lambda>r. r\<lparr>sc_epoch := sc_epoch r + 1\<rparr>) db) \<or>
      (find (scopeIs key) (db_scopes db) = None \<and> ow_epoch r = 1 \<and> cl_checkpoint r = None \<and>
         1 + db_metadataEntries db \<le> lim_metadataEntries lim \<and>
         db' = insertScope (newScope key (cs_originKey scope)) db)) \<and> ow_scope r = scope"
proof -
  obtain key where key: "scopeKey scope = Inr key"
    using assms by (auto simp: claim_def success_simps)
  show ?thesis
    using assms key by (cases "find (scopeIs key) (db_scopes db)") (auto simp: claim_def success_simps)
qed

lemma adoptBaseline_effect:
  assumes "adoptBaseline sha lim owner floor v db = Inr (db', r)"
  shows "\<exists>scope. ownerScope db owner = Inr scope \<and>
    (db' = db \<or>
      (sc_adoptionMetadataSha scope = None \<and> \<not> sc_recordsInitialized scope \<and> 0 \<le> floor \<and>
       (\<forall>c\<in>set (db_captures db). cp_scope c \<noteq> sc_key scope) \<and>
       int (length v) + db_retainedBytes db + db_metadataBytes db \<le> lim_pendingBytes lim \<and>
       db' = updateScopes (scopeIs (sc_key scope))
               (\<lambda>r. r\<lparr>sc_revisionFloor := floor, sc_adoptionMetadata := Some v,
                      sc_adoptionMetadataSha := Some (sha v), sc_adoptionMetadataBytes := int (length v)\<rparr>) db))"
  using assms unfolding adoptBaseline_def
  by (auto simp: success_simps existsRow_iff split: option.splits if_splits)

lemma setSourceMetadata_effect:
  assumes "setSourceMetadata sha lim owner cid v db = Inr (db', r)"
  shows "\<exists>scope row. ownerScope db owner = Inr scope \<and> find (captureIs (sc_key scope) cid) (db_captures db) = Some row \<and>
    (db' = db \<or>
      (cp_sourceMetadata row = None \<and> cp_state row = Preparing \<and> cp_recordCount row \<le> 0 \<and>
       int (length v) + cp_retainedBytes row \<le> lim_targetBytes lim \<and>
       (\<forall>u\<in>set (db_units db). \<not> unitOf (sc_key scope) cid u) \<and>
       int (length v) + db_retainedBytes db + db_metadataBytes db \<le> lim_pendingBytes lim \<and>
       db' = updateCaptures (captureIs (sc_key scope) cid)
               (\<lambda>r. r\<lparr>cp_sourceMetadata := Some v, cp_sourceMetadataSha := Some (sha v),
                      cp_sourceMetadataBytes := int (length v)\<rparr>) db))"
  using assms unfolding setSourceMetadata_def
  by (auto simp: success_simps existsRow_iff split: option.splits if_splits)

lemma reserve_effect:
  assumes "reserve lim owner input db = Inr (db', r)"
  shows "\<exists>scope. ownerScope db owner = Inr scope \<and>
    (db' = db \<or>
      (\<exists>purpose track db1. find (captureIs (sc_key scope) (rsv_id input)) (db_captures db) = None \<and>
         sc_checkpoint scope = rsv_expectedCheckpoint input \<and>
         (purpose = RawObservation \<longrightarrow> rsv_rawEnabled input \<and> sc_checkpoint scope \<noteq> None) \<and>
         (track \<longrightarrow> lim_recordsPerTarget lim \<noteq> None) \<and>
         (\<forall>c\<in>set (db_captures db). \<not> unactivatedIn (sc_key scope) c) \<and>
         db1 = (if track then updateScopes (scopeIs (sc_key scope)) (\<lambda>r. r\<lparr>sc_recordsInitialized := True\<rparr>) db else db) \<and>
         1 + db_metadataEntries db1 \<le> lim_metadataEntries lim \<and>
         db' = insertCapture (newCapture (sc_key scope) input purpose track) db1))"
proof -
  obtain scope where sc: "ownerScope db owner = Inr scope"
    using assms by (auto simp: reserve_def success_simps)
  let ?track = "case rsv_trackRecords input of None \<Rightarrow> False | Some t \<Rightarrow> t"
  let ?purpose = "case rsv_purpose input of None \<Rightarrow> Publication | Some p \<Rightarrow> p"
  have caps: "db_captures (if t then updateScopes P f db else db) = db_captures db" for t P f
    by (simp add: updateScopes_def)
  show ?thesis
  proof (cases "find (captureIs (sc_key scope) (rsv_id input)) (db_captures db)")
    case None
    with assms sc show ?thesis
      unfolding reserve_def Let_def
      by (intro exI[of _ scope] conjI sc disjI2 exI[of _ ?purpose] exI[of _ ?track])
         (auto simp: success_simps existsRow_iff caps)
  next
    case (Some a)
    with assms sc show ?thesis
      unfolding reserve_def Let_def by (auto simp: success_simps)
  qed
qed

lemma appendUnit_effect:
  assumes "appendUnit sha lim owner cid k n content db = Inr (db', r)"
  shows "\<exists>scope row. ownerScope db owner = Inr scope \<and> find (captureIs (sc_key scope) cid) (db_captures db) = Some row \<and>
    1 \<le> length content \<and> int (length content) \<le> lim_unitBytes lim \<and>
    ((db' = db \<and> (\<exists>u. find (unitIs (sc_key scope) cid k n) (db_units db) = Some u \<and>
                    un_digest u = sha content \<and> un_byteCount u = int (length content))) \<or>
      (find (unitIs (sc_key scope) cid k n) (db_units db) = None \<and>
       cp_state row = Preparing \<and> nextOrdinal db (sc_key scope) cid k = n \<and> 0 \<le> n \<and>
       (cp_purpose row = RawObservation \<longrightarrow> k = Raw) \<and>
       (k = Raw \<longrightarrow> cp_rawEnabled row \<and> cp_rawCancelReason row = None) \<and>
       int (length content) + cp_retainedBytes row + cp_sourceMetadataBytes row \<le> lim_targetBytes lim \<and>
       int (length content) + db_retainedBytes db + db_metadataBytes db \<le> lim_pendingBytes lim \<and>
       1 + db_metadataEntries db \<le> lim_metadataEntries lim \<and>
       db' = addRetained (int (length content))
               (updateCaptures (captureIs (sc_key scope) cid)
                  (\<lambda>r. r\<lparr>cp_retainedBytes := cp_retainedBytes r + int (length content)\<rparr>)
                  (insertUnit (newUnit sha (sc_key scope) cid k n content) db))))"
proof -
  obtain scope where sc: "ownerScope db owner = Inr scope"
    using assms by (auto simp: appendUnit_def success_simps)
  obtain row where row: "captureRow db (sc_key scope) cid = Inr row"
    using assms sc by (auto simp: appendUnit_def Let_def bindE_Inr_iff)
  have k: "k \<noteq> Canonical \<longleftrightarrow> k = Raw" by (cases k) auto
  have found: "find (captureIs (sc_key scope) cid) (db_captures db) = Some row"
    using row by (simp add: captureRow_Inr)
  show ?thesis
  proof (cases "find (unitIs (sc_key scope) cid k n) (db_units db)")
    case None
    with assms sc row found show ?thesis
      unfolding appendUnit_def Let_def
      by (intro exI[of _ scope] exI[of _ row] conjI sc found)
         (auto simp: success_simps k split: if_splits )
  next
    case (Some u)
    with assms sc row found show ?thesis
      unfolding appendUnit_def Let_def
      by (intro exI[of _ scope] exI[of _ row] conjI sc found)
         (auto simp: success_simps )
  qed
qed

lemma recordObservation_effect:
  assumes "recordObservation lim owner cid input db = Inr (db', v)"
  shows "\<exists>scope row. ownerScope db owner = Inr scope \<and> find (captureIs (sc_key scope) cid) (db_captures db) = Some row \<and>
    ((db' = db \<and> (\<exists>m. find (memberIs (sc_key scope) cid (rk_kind input) (rk_key input)) (db_members db) = Some m \<and>
         rr_fingerprint m = ri_fingerprint input \<and> rr_projectionVersion m = ri_projectionVersion input \<and> recordVersion m = Inr v)) \<or>
     (\<exists>old orphaned changed proposed r.
        find (memberIs (sc_key scope) cid (rk_kind input) (rk_key input)) (db_members db) = None \<and>
        \<not> cp_recordsRetired row \<and> cp_trackRecords row \<and> cp_state row = Preparing \<and>
        old = findVersion db (sc_key scope) (rk_kind input) (rk_key input) \<and>
        (if old = None then 2 else 1) + db_metadataEntries db \<le> lim_metadataEntries lim \<and>
        changed = versionChanged input old (wasAbsent db scope (rk_kind input) (rk_key input) old) orphaned \<and>
        orphanedReference db scope old = Inr orphaned \<and>
        reference (ri_rawReference input) = Inr proposed \<and>
        chooseVersion scope cid (cp_rawEnabled row) input proposed old changed = Inr r \<and>
        recordVersion r = Inr v \<and>
        db' = storeObservation scope cid changed r db))"
proof -
  obtain scope where sc: "ownerScope db owner = Inr scope"
    using assms by (auto simp: recordObservation_def bindE_Inr_iff)
  obtain row where row: "captureRow db (sc_key scope) cid = Inr row"
    using assms sc by (auto simp: recordObservation_def Let_def bindE_Inr_iff)
  have found: "find (captureIs (sc_key scope) cid) (db_captures db) = Some row"
    using row by (simp add: captureRow_Inr)
  obtain proposed where prp: "reference (ri_rawReference input) = Inr proposed"
    using assms sc row by (auto simp: recordObservation_def Let_def bindE_Inr_iff split: if_splits)
  show ?thesis
  proof (cases "find (memberIs (sc_key scope) cid (rk_kind input) (rk_key input)) (db_members db)")
    case None
    let ?old = "findVersion db (sc_key scope) (rk_kind input) (rk_key input)"
    obtain orphaned where orphaned: "orphanedReference db scope ?old = Inr orphaned"
      using assms sc row prp None
      by (auto simp: recordObservation_def Let_def bindE_Inr_iff split: if_splits option.splits)
    show ?thesis
      using assms sc row found prp None orphaned
      unfolding recordObservation_def Let_def
      by (intro exI[of _ scope] exI[of _ row] conjI sc found disjI2 exI[of _ ?old] exI[of _ orphaned]
            exI[of _ "versionChanged input ?old (wasAbsent db scope (rk_kind input) (rk_key input) ?old) orphaned"]
            exI[of _ proposed])
         (auto simp: success_simps split: if_split_asm option.split_asm)
  next
    case (Some m)
    with assms sc row found prp show ?thesis
      unfolding recordObservation_def Let_def
      by (intro exI[of _ scope] exI[of _ row] conjI sc found)
         (auto simp: success_simps split: if_split_asm option.split_asm)
  qed
qed

lemma resolveUnit_found:
  assumes "resolveUnit db key cid m ordinal captureId = Inr (c, n)"
  shows "\<exists>u. find (unitIs key c (unitKindFor (rr_kind m)) n) (db_units db) = Some u \<and>
      (c \<noteq> cid \<longrightarrow> rr_kind m = RawRecord \<and> un_disposition u \<noteq> Canceled \<and>
         (un_disposition u = Pending \<longrightarrow> un_body u \<noteq> None))"
  using assms
  by (auto simp: resolveUnit_def Let_def bindE_Inr_iff success_simps split: if_split_asm option.split_asm)

lemma bindRecord_effect:
  assumes "bindRecord owner cid ident b db = Inr (db', r)"
  shows "\<exists>scope row m c uk n gap. ownerScope db owner = Inr scope \<and>
     find (captureIs (sc_key scope) cid) (db_captures db) = Some row \<and>
     find (memberIs (sc_key scope) cid (rk_kind ident) (rk_key ident)) (db_members db) = Some m \<and>
     \<not> cp_recordsRetired row \<and>
     bindingTarget db (sc_key scope) cid m b = Inr (c, uk, n, gap) \<and>
    (db' = db \<or>
     (cp_state row = Preparing \<and> mb_unitCapture m = None \<and> mb_unavailableReason m = None \<and>
      db' = updateMembers (memberIs (sc_key scope) cid (rk_kind ident) (rk_key ident))
                (\<lambda>m. m\<lparr>mb_unitCapture := c, mb_unitKind := uk, mb_unitOrdinal := n, mb_unavailableReason := gap\<rparr>) db))"
proof -
  obtain scope where sc: "ownerScope db owner = Inr scope"
    using assms by (auto simp: bindRecord_def bindE_Inr_iff)
  obtain row where row: "captureRow db (sc_key scope) cid = Inr row"
    using assms sc by (auto simp: bindRecord_def Let_def bindE_Inr_iff)
  obtain m where m: "getRecord db (sc_key scope) cid (rk_kind ident) (rk_key ident) = Inr m"
    using assms sc row by (auto simp: bindRecord_def Let_def bindE_Inr_iff)
  obtain c uk n gap where target: "bindingTarget db (sc_key scope) cid m b = Inr (c, uk, n, gap)"
    using assms sc row m by (auto simp: bindRecord_def Let_def bindE_Inr_iff)
  from m row have found: "find (captureIs (sc_key scope) cid) (db_captures db) = Some row" "\<not> cp_recordsRetired row"
      "find (memberIs (sc_key scope) cid (rk_kind ident) (rk_key ident)) (db_members db) = Some m"
    by (auto simp: getRecord_def success_simps)
  have "db' = db \<or>
     (cp_state row = Preparing \<and> mb_unitCapture m = None \<and> mb_unavailableReason m = None \<and>
      db' = updateMembers (memberIs (sc_key scope) cid (rk_kind ident) (rk_key ident))
                (\<lambda>m. m\<lparr>mb_unitCapture := c, mb_unitKind := uk, mb_unitOrdinal := n, mb_unavailableReason := gap\<rparr>) db)"
    using assms sc row m target by (auto simp: bindRecord_def Let_def split: if_split_asm)
  with sc found target show ?thesis by blast
qed

lemma seal_effect:
  assumes "seal lim owner cid manifest db = Inr (db', r)"
  shows "\<exists>scope row recs. ownerScope db owner = Inr scope \<and> find (captureIs (sc_key scope) cid) (db_captures db) = Some row \<and>
    ((db' = db \<and> cp_sealJson row = Some (stringify (sealJson (manifest\<lparr>sl_records := recs\<rparr>)))) \<or>
     (cp_state row = Preparing \<and> cp_sealJson row = None \<and>
      (cp_purpose row = RawObservation \<longrightarrow> cp_expectedCheckpoint row = Some (sl_nextCheckpoint manifest)) \<and>
      (\<not> cp_recordsRetired row \<longrightarrow> recordManifest lim db (sc_key scope) cid row (sl_records manifest) = Inr recs) \<and>
      unitCount db (sc_key scope) cid Canonical = sl_canonicalUnits manifest \<and>
      unitCount db (sc_key scope) cid Raw = sl_rawUnits manifest \<and>
      db' = sealWork (sc_key scope) cid (stringify (sealJson (manifest\<lparr>sl_records := recs\<rparr>))) recs db))"
proof -
  obtain scope where sc: "ownerScope db owner = Inr scope"
    using assms by (auto simp: seal_def bindE_Inr_iff)
  obtain row where row: "captureRow db (sc_key scope) cid = Inr row"
    using assms sc by (auto simp: seal_def Let_def bindE_Inr_iff)
  have found: "find (captureIs (sc_key scope) cid) (db_captures db) = Some row"
    using row by (simp add: captureRow_Inr)
  show ?thesis
    using assms sc row
    by (intro exI[of _ scope] exI[of _ row])
       (auto simp: seal_def Let_def bindE_Inr_iff found success_simps split: if_split_asm option.split_asm)
qed

lemma settle_effect:
  assumes "settle owner cid s db = Inr (db', r)"
  shows "\<exists>scope row. ownerScope db owner = Inr scope \<and> find (captureIs (sc_key scope) cid) (db_captures db) = Some row \<and>
     cp_id row = cid \<and> cp_scope row = sc_key scope \<and> row \<in> set (db_captures db) \<and>
     (case s of
         CanonicalAcknowledged n receipt \<Rightarrow> settleCanonical (sc_key scope) row n receipt db = Inr (db', r)
       | SettleActivated receipt \<Rightarrow> settleActivated scope row receipt db = Inr (db', r)
       | RawAcknowledged n receipt \<Rightarrow> settleRaw (sc_key scope) row n receipt db = Inr (db', r)
       | RawUnitCanceled n \<Rightarrow> settleRawUnitCanceled (sc_key scope) row n db = Inr (db', r)
       | RawCancellationStarted reason \<Rightarrow> settleRawCancellation False (sc_key scope) row reason db = Inr (db', r)
       | RawCanceled reason \<Rightarrow> settleRawCancellation True (sc_key scope) row reason db = Inr (db', r)
       | Rejected receipt \<Rightarrow> settleRejected (sc_key scope) row receipt db = Inr (db', r)
       | AbandonUnsealed \<Rightarrow> settleAbandon (sc_key scope) row db = Inr (db', r))"
proof -
  obtain scope where sc: "ownerScope db owner = Inr scope"
    using assms by (auto simp: settle_def bindE_Inr_iff)
  obtain row where row: "captureRow db (sc_key scope) cid = Inr row"
    using assms sc by (auto simp: settle_def bindE_Inr_iff)
  have found: "find (captureIs (sc_key scope) cid) (db_captures db) = Some row"
    using row by (simp add: captureRow_Inr)
  show ?thesis
    using assms sc row captureRow_id[OF found]
    by (intro exI[of _ scope] exI[of _ row]) (auto simp: settle_def found split: capture_settlement.splits)
qed

lemma pruneRecords_effect:
  assumes "pruneRecords owner limit db = Inr (db', n)"
  shows "\<exists>scope. ownerScope db owner = Inr scope \<and>
    (db' = db \<or>
     (\<exists>row rows. row \<in> set (db_captures db) \<and> prunable scope row \<and> rows \<noteq> [] \<and>
        rows = selectAll (\<lambda>m. mb_scope m = sc_key scope \<and> mb_capture m = cp_id row)
                 (\<lambda>m. (rr_kind m, rr_key m)) (nat limit) (db_members db) \<and>
        n = int (countRows (\<lambda>m. m \<in> set rows) (db_members db)) \<and> 1 \<le> n \<and> n \<le> cp_retainedRecords row \<and>
        db' = updateCaptures (captureIs (sc_key scope) (cp_id row))
                (\<lambda>c. c\<lparr>cp_recordsRetired := True, cp_retainedRecords := cp_retainedRecords c - n\<rparr>)
                (deleteMembers rows db)))"
proof -
  obtain scope where sc: "ownerScope db owner = Inr scope"
    using assms by (auto simp: pruneRecords_def bindE_Inr_iff)
  show ?thesis
  proof (cases "selectAll (prunable scope) cp_id 1 (db_captures db)")
    case Nil
    with assms sc show ?thesis by (auto simp: pruneRecords_def success_simps)
  next
    case (Cons row rest)
    then have "row \<in> set (db_captures db)" "prunable scope row"
      using set_selectAll[of row "prunable scope" cp_id 1 "db_captures db"] by auto
    with assms sc Cons show ?thesis
      by (intro exI[of _ scope] conjI sc disjI2 exI[of _ row])
         (auto simp: pruneRecords_def Let_def success_simps)
  qed
qed

lemma reclaim_effect:
  assumes "reclaim owner cid limit db = Inr (db', n)"
  shows "\<exists>scope row eligible db1 removed. ownerScope db owner = Inr scope \<and>
    find (captureIs (sc_key scope) cid) (db_captures db) = Some row \<and>
    eligible = selectAll (reclaimable (sc_key scope) row) (\<lambda>u. (un_kind u, un_ordinal u)) (nat limit) (db_units db) \<and>
    foldE (dropBody (sc_key scope) cid) (db, 0) eligible = Inr (db1, removed) \<and>
    n = int (length eligible) \<and> removed \<le> cp_retainedBytes row \<and> limit \<le> 32 \<and>
    db' = addRetained (- removed)
            (updateCaptures (captureIs (sc_key scope) cid) (\<lambda>r. r\<lparr>cp_retainedBytes := cp_retainedBytes r - removed\<rparr>) db1)"
  using assms unfolding reclaim_def Let_def
  by (auto simp: success_simps)

end
