(* ===== verification/JournalInvariant.thy ===== *)
theory JournalInvariant
  imports JournalEffects
begin

text \<open>The invariant of the capture journal and the primitive changes every operation is made
  of.  An operation is first shown to be a sequence of primitive changes; the invariant and
  the growth relation (what no operation may ever undo) are proved for the primitives.\<close>

section \<open>The invariant\<close>

definition uniqueKeys :: "journal_db \<Rightarrow> bool" where
  "uniqueKeys db \<longleftrightarrow> distinct (map sc_key (db_scopes db)) \<and> distinct (map captureKey (db_captures db)) \<and>
     distinct (map unitKey (db_units db)) \<and> distinct (map versionKey (db_versions db)) \<and>
     distinct (map memberKey (db_members db)) \<and> distinct (map mg_key (db_migrations db))"

definition oneUnactivated :: "journal_db \<Rightarrow> bool" where
  "oneUnactivated db \<longleftrightarrow> (\<forall>key. countRows (unactivatedIn key) (db_captures db) \<le> 1)"

definition metadataRows :: "journal_db \<Rightarrow> nat" where
  "metadataRows db = length (db_scopes db) + length (db_captures db) + length (db_units db) +
     length (db_versions db) + length (db_members db) + length (db_migrations db)"

definition entriesCounted :: "journal_db \<Rightarrow> bool" where
  "entriesCounted db \<longleftrightarrow> db_metadataEntries db = int (metadataRows db)"

definition bytesAccounted :: "journal_db \<Rightarrow> bool" where
  "bytesAccounted db \<longleftrightarrow> db_metadataBytes db =
     sum_list (map sc_adoptionMetadataBytes (db_scopes db)) +
     sum_list (map cp_sourceMetadataBytes (db_captures db)) +
     sum_list (map mg_byteCount (db_migrations db))"

definition heldBytes :: "unit_row \<Rightarrow> int" where
  "heldBytes u = (if un_body u = None then 0 else un_byteCount u)"

definition capturedBytes :: "string \<Rightarrow> string \<Rightarrow> unit_row list \<Rightarrow> int" where
  "capturedBytes key cid units = sum_list (map heldBytes (filter (unitOf key cid) units))"

definition retainedAccounted :: "journal_db \<Rightarrow> bool" where
  "retainedAccounted db \<longleftrightarrow> db_retainedBytes db = sum_list (map cp_retainedBytes (db_captures db)) \<and>
     (\<forall>c\<in>set (db_captures db). cp_retainedBytes c = capturedBytes (cp_scope c) (cp_id c) (db_units db))"

definition unitSound :: "sha256 \<Rightarrow> unit_row \<Rightarrow> bool" where
  "unitSound sha u \<longleftrightarrow> 1 \<le> un_byteCount u \<and>
     (case un_body u of None \<Rightarrow> True | Some b \<Rightarrow> int (length b) = un_byteCount u \<and> sha b = un_digest u)"

definition unitsSound :: "sha256 \<Rightarrow> journal_db \<Rightarrow> bool" where
  "unitsSound sha db \<longleftrightarrow> (\<forall>u\<in>set (db_units db). unitSound sha u \<and>
     (un_scope u, un_capture u) \<in> captureKey ` set (db_captures db))"

definition ordinalsOf :: "string \<Rightarrow> string \<Rightarrow> unit_kind \<Rightarrow> unit_row list \<Rightarrow> int list" where
  "ordinalsOf key cid k units = map un_ordinal (filter (\<lambda>u. unitOf key cid u \<and> un_kind u = k) units)"

definition contiguous :: "journal_db \<Rightarrow> bool" where
  "contiguous db \<longleftrightarrow> (\<forall>key cid k. ordinalsOf key cid k (db_units db) =
     map int [0..<length (ordinalsOf key cid k (db_units db))])"

definition stateSound :: "capture_row \<Rightarrow> bool" where
  "stateSound c \<longleftrightarrow>
     (cp_activationReceipt c \<noteq> None \<longleftrightarrow> cp_state c \<in> {Activated, Completed}) \<and>
     (cp_state c \<in> {Sealed, Activated, Completed} \<longrightarrow> cp_sealJson c \<noteq> None) \<and>
     (cp_state c = Preparing \<longrightarrow> cp_sealJson c = None) \<and>
     (cp_rejectionReceipt c \<noteq> None \<longrightarrow> cp_state c = Abandoned)"

definition statesSound :: "journal_db \<Rightarrow> bool" where
  "statesSound db \<longleftrightarrow> (\<forall>c\<in>set (db_captures db). stateSound c \<and> cp_scope c \<in> sc_key ` set (db_scopes db))"

definition memberTotal :: "string \<Rightarrow> string \<Rightarrow> member_row list \<Rightarrow> int" where
  "memberTotal key cid rows = int (countRows (\<lambda>m. mb_scope m = key \<and> mb_capture m = cid) rows)"

definition membersCounted :: "journal_db \<Rightarrow> bool" where
  "membersCounted db \<longleftrightarrow> (\<forall>c\<in>set (db_captures db).
     cp_retainedRecords c = memberTotal (cp_scope c) (cp_id c) (db_members db) \<and>
     (\<not> cp_recordsRetired c \<longrightarrow> cp_recordCount c = cp_retainedRecords c)) \<and>
     (\<forall>m\<in>set (db_members db). (mb_scope m, mb_capture m) \<in> captureKey ` set (db_captures db))"

definition metadataFits :: "sha256 \<Rightarrow> string option \<Rightarrow> string option \<Rightarrow> int \<Rightarrow> bool" where
  "metadataFits sha v digest n \<longleftrightarrow> (case v of None \<Rightarrow> n = 0 | Some s \<Rightarrow> n = int (length s) \<and> digest = Some (sha s))"

definition metadataSound :: "sha256 \<Rightarrow> journal_db \<Rightarrow> bool" where
  "metadataSound sha db \<longleftrightarrow>
     (\<forall>s\<in>set (db_scopes db). metadataFits sha (sc_adoptionMetadata s) (sc_adoptionMetadataSha s) (sc_adoptionMetadataBytes s)) \<and>
     (\<forall>c\<in>set (db_captures db). metadataFits sha (cp_sourceMetadata c) (cp_sourceMetadataSha c) (cp_sourceMetadataBytes c)) \<and>
     (\<forall>m\<in>set (db_migrations db). metadataFits sha (Some (mg_checkpointJson m)) (Some (mg_checkpointSha m)) (mg_byteCount m))"

definition withinBudget :: "journal_limits \<Rightarrow> journal_db \<Rightarrow> bool" where
  "withinBudget lim db \<longleftrightarrow> db_retainedBytes db + db_metadataBytes db \<le> lim_pendingBytes lim \<and>
     db_metadataEntries db \<le> lim_metadataEntries lim"

definition versionsCurrent :: "journal_db \<Rightarrow> bool" where
  "versionsCurrent db \<longleftrightarrow> (\<forall>v\<in>set (db_versions db). 0 < rr_revision v) \<and> (\<forall>m\<in>set (db_members db). 0 < rr_revision m \<and>
     (\<exists>v\<in>set (db_versions db). versionKey v = (mb_scope m, rr_kind m, rr_key m) \<and> rr_revision m \<le> rr_revision v))"

definition bindingFound :: "unit_row list \<Rightarrow> member_row \<Rightarrow> bool" where
  "bindingFound units m \<longleftrightarrow>
     (case (mb_unitCapture m, mb_unitKind m, mb_unitOrdinal m) of
        (Some c, Some k, Some n) \<Rightarrow> mb_unavailableReason m = None \<and> k = unitKindFor (rr_kind m) \<and>
           (mb_scope m, c, k, n) \<in> unitKey ` set units
      | (None, None, None) \<Rightarrow> mb_unavailableReason m \<noteq> None \<longrightarrow> rr_kind m = RawRecord
      | _ \<Rightarrow> False)"

definition bindingsFound :: "journal_db \<Rightarrow> bool" where
  "bindingsFound db \<longleftrightarrow> (\<forall>m\<in>set (db_members db). bindingFound (db_units db) m)"

definition journalInv :: "sha256 \<Rightarrow> journal_limits \<Rightarrow> journal_db \<Rightarrow> bool" where
  "journalInv sha lim db \<longleftrightarrow> uniqueKeys db \<and> oneUnactivated db \<and> entriesCounted db \<and> bytesAccounted db \<and>
     retainedAccounted db \<and> unitsSound sha db \<and> contiguous db \<and> statesSound db \<and> membersCounted db \<and>
     metadataSound sha db \<and> withinBudget lim db \<and> versionsCurrent db \<and> bindingsFound db"

section \<open>Primitive changes\<close>

definition scopeFrame :: "scope_row \<Rightarrow> scope_row \<Rightarrow> bool" where
  "scopeFrame r s \<longleftrightarrow> sc_key s = sc_key r \<and> sc_originKey s = sc_originKey r \<and> sc_epoch r \<le> sc_epoch s \<and>
     sc_revisionFloor s = sc_revisionFloor r \<and> sc_adoptionMetadata s = sc_adoptionMetadata r \<and>
     sc_adoptionMetadataSha s = sc_adoptionMetadataSha r \<and> sc_adoptionMetadataBytes s = sc_adoptionMetadataBytes r"

text \<open>What is once set stays: a seal, a receipt, the reason of a cancellation.\<close>

definition kept :: "'a option \<Rightarrow> 'a option \<Rightarrow> bool" where
  "kept x y \<longleftrightarrow> x = None \<or> y = x"

definition captureFrame :: "capture_row \<Rightarrow> capture_row \<Rightarrow> bool" where
  "captureFrame r s \<longleftrightarrow> captureKey s = captureKey r \<and> cp_expectedCheckpoint s = cp_expectedCheckpoint r \<and>
     cp_beginJson s = cp_beginJson r \<and> cp_rawEnabled s = cp_rawEnabled r \<and> cp_purpose s = cp_purpose r \<and>
     cp_trackRecords s = cp_trackRecords r \<and> cp_retainedBytes s = cp_retainedBytes r \<and>
     cp_recordCount s = cp_recordCount r \<and> cp_recordsRetired s = cp_recordsRetired r \<and>
     cp_retainedRecords s = cp_retainedRecords r \<and> cp_sourceMetadata s = cp_sourceMetadata r \<and>
     cp_sourceMetadataSha s = cp_sourceMetadataSha r \<and> cp_sourceMetadataBytes s = cp_sourceMetadataBytes r \<and>
     kept (cp_sealJson r) (cp_sealJson s) \<and> kept (cp_activationReceipt r) (cp_activationReceipt s) \<and>
     kept (cp_rawCancelReason r) (cp_rawCancelReason s) \<and> kept (cp_rejectionReceipt r) (cp_rejectionReceipt s) \<and>
     (cp_state s \<in> {Preparing, Sealed} \<longrightarrow> cp_state r \<in> {Preparing, Sealed}) \<and>
     (stateSound r \<longrightarrow> stateSound s)"

definition unitFrame :: "unit_row \<Rightarrow> unit_row \<Rightarrow> bool" where
  "unitFrame r s \<longleftrightarrow> unitKey s = unitKey r \<and> un_byteCount s = un_byteCount r \<and> un_digest s = un_digest r \<and>
     un_body s = un_body r \<and> kept (un_receiptJson r) (un_receiptJson s) \<and>
     (un_disposition r = Acknowledged \<longrightarrow> un_disposition s = Acknowledged)"

inductive journalChange :: "sha256 \<Rightarrow> journal_limits \<Rightarrow> journal_db \<Rightarrow> journal_db \<Rightarrow> bool"
  for sha lim where
  scopeFields: "(\<And>r. r \<in> set (db_scopes db) \<Longrightarrow> P r \<Longrightarrow> scopeFrame r (f r)) \<Longrightarrow>
     journalChange sha lim db (updateScopes P f db)"
| captureFields: "(\<And>r. r \<in> set (db_captures db) \<Longrightarrow> P r \<Longrightarrow> captureFrame r (f r)) \<Longrightarrow>
     journalChange sha lim db (updateCaptures P f db)"
| unitFields: "(\<And>r. r \<in> set (db_units db) \<Longrightarrow> P r \<Longrightarrow> unitFrame r (f r)) \<Longrightarrow>
     journalChange sha lim db (updateUnits P f db)"
| addMigration: "mg_key row \<notin> set (map mg_key (db_migrations db)) \<Longrightarrow>
     metadataFits sha (Some (mg_checkpointJson row)) (Some (mg_checkpointSha row)) (mg_byteCount row) \<Longrightarrow>
     1 + db_metadataEntries db \<le> lim_metadataEntries lim \<Longrightarrow>
     mg_byteCount row + db_retainedBytes db + db_metadataBytes db \<le> lim_pendingBytes lim \<Longrightarrow>
     journalChange sha lim db (insertMigration row db)"
| addScope: "find (scopeIs key) (db_scopes db) = None \<Longrightarrow> 1 + db_metadataEntries db \<le> lim_metadataEntries lim \<Longrightarrow>
     journalChange sha lim db (insertScope (newScope key origin) db)"
| adopt: "find (scopeIs key) (db_scopes db) = Some scope \<Longrightarrow> sc_adoptionMetadataSha scope = None \<Longrightarrow>
     (\<forall>c\<in>set (db_captures db). cp_scope c \<noteq> key) \<Longrightarrow>
     int (length v) + db_retainedBytes db + db_metadataBytes db \<le> lim_pendingBytes lim \<Longrightarrow>
     journalChange sha lim db (updateScopes (scopeIs key)
       (\<lambda>r. r\<lparr>sc_revisionFloor := floor, sc_adoptionMetadata := Some v,
              sc_adoptionMetadataSha := Some (sha v), sc_adoptionMetadataBytes := int (length v)\<rparr>) db)"
| dropAdoption: "journalChange sha lim db
     (updateScopes P (\<lambda>s. s\<lparr>sc_adoptionMetadata := None, sc_adoptionMetadataBytes := 0\<rparr>) db)"
| setSource: "find (captureIs key cid) (db_captures db) = Some row \<Longrightarrow> cp_sourceMetadata row = None \<Longrightarrow>
     int (length v) + db_retainedBytes db + db_metadataBytes db \<le> lim_pendingBytes lim \<Longrightarrow>
     journalChange sha lim db (updateCaptures (captureIs key cid)
       (\<lambda>r. r\<lparr>cp_sourceMetadata := Some v, cp_sourceMetadataSha := Some (sha v),
              cp_sourceMetadataBytes := int (length v)\<rparr>) db)"
| dropSource: "journalChange sha lim db (updateCaptures P dropSourceMetadata db)"
| addCapture: "find (captureIs key (rsv_id input)) (db_captures db) = None \<Longrightarrow> key \<in> sc_key ` set (db_scopes db) \<Longrightarrow>
     (\<forall>c\<in>set (db_captures db). \<not> unactivatedIn key c) \<Longrightarrow>
     1 + db_metadataEntries db \<le> lim_metadataEntries lim \<Longrightarrow>
     journalChange sha lim db (insertCapture (newCapture key input purpose track) db)"
| addUnit: "find (captureIs key cid) (db_captures db) = Some row \<Longrightarrow> cp_state row = Preparing \<Longrightarrow>
     find (unitIs key cid k n) (db_units db) = None \<Longrightarrow> nextOrdinal db key cid k = n \<Longrightarrow> 1 \<le> length content \<Longrightarrow>
     int (length content) + db_retainedBytes db + db_metadataBytes db \<le> lim_pendingBytes lim \<Longrightarrow>
     1 + db_metadataEntries db \<le> lim_metadataEntries lim \<Longrightarrow>
     journalChange sha lim db (addRetained (int (length content))
       (updateCaptures (captureIs key cid) (\<lambda>r. r\<lparr>cp_retainedBytes := cp_retainedBytes r + int (length content)\<rparr>)
         (insertUnit (newUnit sha key cid k n content) db)))"
| addRecord: "find (captureIs (sc_key scope) cid) (db_captures db) = Some row \<Longrightarrow> cp_state row = Preparing \<Longrightarrow>
     \<not> cp_recordsRetired row \<Longrightarrow>
     find (memberIs (sc_key scope) cid (rr_kind r) (rr_key r)) (db_members db) = None \<Longrightarrow>
     old = findVersion db (sc_key scope) (rr_kind r) (rr_key r) \<Longrightarrow>
     (if old = None then 2 else 1) + db_metadataEntries db \<le> lim_metadataEntries lim \<Longrightarrow>
     0 < rr_revision r \<or> old \<noteq> None \<Longrightarrow> (old = None \<Longrightarrow> changed) \<Longrightarrow>
     (\<And>v. old = Some v \<Longrightarrow> if changed then rr_revision r = rr_revision v + 1 else rr_revision r = rr_revision v) \<Longrightarrow>
     journalChange sha lim db (storeObservation scope cid changed r db)"
| bindMember: "find (memberIs key cid k rk) (db_members db) = Some m \<Longrightarrow>
     mb_unitCapture m = None \<Longrightarrow> mb_unavailableReason m = None \<Longrightarrow>
     bindingTarget db key cid m b = Inr (c, uk, n, gap) \<Longrightarrow>
     journalChange sha lim db (updateMembers (memberIs key cid k rk)
       (\<lambda>m. m\<lparr>mb_unitCapture := c, mb_unitKind := uk, mb_unitOrdinal := n, mb_unavailableReason := gap\<rparr>) db)"
| retire: "row \<in> set (db_captures db) \<Longrightarrow> prunable scope row \<Longrightarrow>
     rows = selectAll (\<lambda>m. mb_scope m = sc_key scope \<and> mb_capture m = cp_id row) (\<lambda>m. (rr_kind m, rr_key m)) limit (db_members db) \<Longrightarrow>
     n = int (countRows (\<lambda>m. m \<in> set rows) (db_members db)) \<Longrightarrow>
     journalChange sha lim db (updateCaptures (captureIs (sc_key scope) (cp_id row))
       (\<lambda>c. c\<lparr>cp_recordsRetired := True, cp_retainedRecords := cp_retainedRecords c - n\<rparr>) (deleteMembers rows db))"
| drop: "find (captureIs key cid) (db_captures db) = Some row \<Longrightarrow>
     eligible = selectAll (reclaimable key row) (\<lambda>u. (un_kind u, un_ordinal u)) limit (db_units db) \<Longrightarrow>
     foldE (dropBody key cid) (db, 0) eligible = Inr (db1, removed) \<Longrightarrow>
     journalChange sha lim db (addRetained (- removed)
       (updateCaptures (captureIs key cid) (\<lambda>r. r\<lparr>cp_retainedBytes := cp_retainedBytes r - removed\<rparr>) db1))"

section \<open>Preservation\<close>

lemmas statement_defs = insertScope_def insertCapture_def insertUnit_def insertMember_def insertMigration_def
  updateScopes_def updateCaptures_def updateUnits_def updateMembers_def deleteMembers_def addRetained_def

lemmas key_defs = scopeIs_def captureIs_def captureKey_def unitIs_def unitKey_def memberIs_def memberKey_def unitOf_def

lemma upsertVersion_frame [simp]:
  "db_scopes (upsertVersion r db) = db_scopes db" "db_captures (upsertVersion r db) = db_captures db"
  "db_units (upsertVersion r db) = db_units db" "db_members (upsertVersion r db) = db_members db"
  "db_migrations (upsertVersion r db) = db_migrations db"
  "db_retainedBytes (upsertVersion r db) = db_retainedBytes db"
  "db_metadataBytes (upsertVersion r db) = db_metadataBytes db"
  by (simp_all add: upsertVersion_def)

lemma distinct_versions_upsert:
  "distinct (map versionKey (db_versions db)) \<Longrightarrow> distinct (map versionKey (db_versions (upsertVersion r db)))"
  by (auto simp: upsertVersion_def existsRow_iff distinct_map_updateWhere)

text \<open>The row reclaim has worked through: bodies of exactly the selected units are gone.\<close>

lemma dropBody_fold:
  assumes "foldE (dropBody key cid) (db, n) rows = Inr (db1, m)" "\<And>u. u \<in> set rows \<Longrightarrow> unitOf key cid u"
  shows "db1 = updateUnits (\<lambda>u. unitKey u \<in> unitKey ` set rows) (\<lambda>r. r\<lparr>un_body := None\<rparr>) db \<and>
         m = n + sum_list (map un_byteCount rows)"
  using assms
proof (induction rows arbitrary: db n)
  case Nil
  then show ?case by (simp add: updateUnits_def updateWhere_none)
next
  case (Cons u rows)
  let ?db = "updateUnits (unitIs key cid (un_kind u) (un_ordinal u)) (\<lambda>r. r\<lparr>un_body := None\<rparr>) db"
  have step: "foldE (dropBody key cid) (?db, n + un_byteCount u) rows = Inr (db1, m)"
    using Cons.prems(1) by (auto simp: dropBody_def[of key cid "(db, n)" u] success_simps split: if_splits)
  have u: "unitIs key cid (un_kind u) (un_ordinal u) = (\<lambda>v. unitKey v = unitKey u)"
    using Cons.prems(2)[of u] by (auto simp: unitIs_def unitKey_def unitOf_def)
  have "updateWhere (\<lambda>v. unitKey v \<in> unitKey ` set rows) (\<lambda>r. r\<lparr>un_body := None\<rparr>)
          (updateWhere (\<lambda>v. unitKey v = unitKey u) (\<lambda>r. r\<lparr>un_body := None\<rparr>) (db_units db)) =
        updateWhere (\<lambda>v. unitKey v \<in> insert (unitKey u) (unitKey ` set rows)) (\<lambda>r. r\<lparr>un_body := None\<rparr>) (db_units db)"
    by (induction "db_units db") (auto simp: updateWhere_def unitKey_def)
  with Cons.IH[OF step] Cons.prems(2) show ?case
    by (simp add: updateUnits_def u)
qed

lemma drop_fold:
  assumes "eligible = selectAll (reclaimable key row) f limit (db_units db)" "cp_id row = cid"
    and "foldE (dropBody key cid) (db, 0) eligible = Inr (db1, removed)"
  shows "db1 = updateUnits (\<lambda>u. unitKey u \<in> unitKey ` set eligible) (\<lambda>r. r\<lparr>un_body := None\<rparr>) db"
    and "removed = sum_list (map un_byteCount eligible)"
  using dropBody_fold[OF assms(3)] assms(1,2) set_selectAll[of _ "reclaimable key row" f limit "db_units db"]
  by (auto simp: reclaimable_def)

lemma uniqueKeys_change:
  assumes "journalChange sha lim db db'" "uniqueKeys db"
  shows "uniqueKeys db'"
  using assms
proof (cases rule: journalChange.cases)
  case (addUnit key cid row k n content)
  then show ?thesis using assms(2)
    by (auto simp: uniqueKeys_def statement_defs find_None_all newUnit_def unitIs_def unitKey_def captureKey_def distinct_map_updateWhere)
next
  case (addRecord scope cid row r old changed)
  then show ?thesis using assms(2) distinct_versions_upsert
    by (auto simp: uniqueKeys_def statement_defs find_None_all storeObservation_def Let_def memberIs_def memberKey_def
          memberRowOf_def record_row.defs member_row.defs captureKey_def distinct_map_updateWhere)
next
  case (retire row scope rows limit n)
  then show ?thesis using assms(2)
    by (auto simp: uniqueKeys_def statement_defs captureKey_def distinct_map_updateWhere distinct_map_filter)
next
  case (drop key cid row eligible limit db1 removed)
  note d = drop_fold(1)[OF drop(3) _ drop(4)]
  have "cp_id row = cid" using drop(2) captureRow_id by blast
  with drop d show ?thesis using assms(2)
    by (auto simp: uniqueKeys_def statement_defs captureKey_def unitKey_def distinct_map_updateWhere)
qed (auto simp: uniqueKeys_def statement_defs find_None_all newScope_def newCapture_def scopeIs_def captureIs_def
       captureKey_def memberKey_def scopeFrame_def captureFrame_def unitFrame_def dropSourceMetadata_def distinct_map_updateWhere)

lemma countRows_updateWhere_mono:
  assumes "\<And>r. r \<in> set rows \<Longrightarrow> P r \<Longrightarrow> Q (f r) \<Longrightarrow> Q r"
  shows "countRows Q rows \<le> n \<Longrightarrow> countRows Q (updateWhere P f rows) \<le> n"
  using countRows_updateWhere_le[of rows P Q f] assms by fastforce

lemma oneUnactivated_change:
  assumes "journalChange sha lim db db'" "oneUnactivated db"
  shows "oneUnactivated db'"
  using assms
proof (cases rule: journalChange.cases)
  case (captureFields P f)
  have "unactivatedIn key r" if "captureFrame r s" "unactivatedIn key s" for key r s
    using that unfolding captureFrame_def captureKey_def unactivatedIn_def by auto
  with captureFields have "countRows (unactivatedIn key) (updateWhere P f (db_captures db)) \<le> 1" for key
    using assms(2) unfolding oneUnactivated_def by (intro countRows_updateWhere_mono) blast+
  then have "countRows (unactivatedIn key) (db_captures db') \<le> 1" for key
    using captureFields by (simp add: updateCaptures_def)
  then show ?thesis by (simp add: oneUnactivated_def)
next
  case (addCapture key input purpose track)
  then have "countRows (unactivatedIn key) (db_captures db) = 0"
    by (simp add: countRows_zero_iff)
  with addCapture assms(2) show ?thesis
    by (auto simp: oneUnactivated_def statement_defs newCapture_def unactivatedIn_def)
next
  case (drop key cid row eligible limit db1 removed)
  note d = drop_fold(1)[OF drop(3) _ drop(4)]
  have "cp_id row = cid" using drop(2) captureRow_id by blast
  with drop d show ?thesis using assms(2)
    by (auto simp: oneUnactivated_def statement_defs unactivatedIn_def countRows_updateWhere)
qed (auto simp: oneUnactivated_def statement_defs unactivatedIn_def dropSourceMetadata_def storeObservation_def Let_def
       countRows_updateWhere)

lemma filter_complement_length: "length (filter (\<lambda>r. \<not> P r) rows) + countRows P rows = length rows"
  by (induction rows) simp_all

lemma findVersion_exists:
  "existsRow (\<lambda>v. versionKey v = k) (db_versions db) \<longleftrightarrow> find (\<lambda>v. versionKey v = k) (db_versions db) \<noteq> None"
  by (auto simp: existsRow_iff find_None_all)

lemma upsertVersion_entries:
  "entriesCounted db \<Longrightarrow> entriesCounted (upsertVersion r db)"
  by (auto simp: entriesCounted_def metadataRows_def upsertVersion_def)

lemma entriesCounted_change:
  assumes "journalChange sha lim db db'" "entriesCounted db"
  shows "entriesCounted db'"
  using assms
proof (cases rule: journalChange.cases)
  case (addRecord scope cid row r old changed)
  then show ?thesis using assms(2) upsertVersion_entries[OF assms(2)]
    by (auto simp: entriesCounted_def metadataRows_def statement_defs storeObservation_def Let_def)
next
  case (retire row scope rows limit n)
  then show ?thesis
    using assms(2) filter_complement_length[of "\<lambda>m. m \<in> set rows" "db_members db"]
    by (auto simp: entriesCounted_def metadataRows_def statement_defs)
next
  case (drop key cid row eligible limit db1 removed)
  note d = drop_fold(1)[OF drop(3) _ drop(4)]
  have "cp_id row = cid" using drop(2) captureRow_id by blast
  with drop d show ?thesis using assms(2)
    by (auto simp: entriesCounted_def metadataRows_def statement_defs)
qed (auto simp: entriesCounted_def metadataRows_def statement_defs)

lemma bytesAccounted_updateScopes: "bytesAccounted db \<Longrightarrow> bytesAccounted (updateScopes P f db)"
  by (simp add: bytesAccounted_def updateScopes_def sum_updateWhere_general)

lemma bytesAccounted_updateCaptures: "bytesAccounted db \<Longrightarrow> bytesAccounted (updateCaptures P f db)"
  by (simp add: bytesAccounted_def updateCaptures_def sum_updateWhere_general)

lemma bytesAccounted_change:
  assumes "journalChange sha lim db db'" "bytesAccounted db"
  shows "bytesAccounted db'"
  using assms
proof (cases rule: journalChange.cases)
  case (addRecord scope cid row r old changed)
  moreover have "bytesAccounted (insertMember m (if changed then upsertVersion v db else db))" for m v
    using assms(2) by (simp add: bytesAccounted_def insertMember_def)
  ultimately show ?thesis by (simp add: storeObservation_def Let_def bytesAccounted_updateCaptures)
next
  case (addUnit key cid row k n content)
  have "bytesAccounted (addRetained m d) = bytesAccounted d" for m d
    by (simp add: bytesAccounted_def addRetained_def)
  moreover have "bytesAccounted (insertUnit u db)" for u
    using assms(2) by (simp add: bytesAccounted_def insertUnit_def)
  ultimately show ?thesis using addUnit by (simp add: bytesAccounted_updateCaptures)
next
  case (retire row scope rows limit n)
  moreover have "bytesAccounted (deleteMembers rows db)"
    using assms(2) by (simp add: bytesAccounted_def deleteMembers_def)
  ultimately show ?thesis by (simp add: bytesAccounted_updateCaptures)
next
  case (drop key cid row eligible limit db1 removed)
  note d = drop_fold(1)[OF drop(3) _ drop(4)]
  have "cp_id row = cid" using drop(2) captureRow_id by blast
  then have "bytesAccounted db1" using d assms(2) by (simp add: bytesAccounted_def updateUnits_def)
  moreover have "bytesAccounted (addRetained m d) = bytesAccounted d" for m d
    by (simp add: bytesAccounted_def addRetained_def)
  ultimately show ?thesis using drop by (simp add: bytesAccounted_updateCaptures)
qed (auto simp: bytesAccounted_updateScopes bytesAccounted_updateCaptures,
     auto simp: bytesAccounted_def statement_defs newScope_def newCapture_def)

lemma captureIs_key: "captureIs key cid = (\<lambda>c. captureKey c = (key, cid))"
  by (simp add: captureIs_def fun_eq_iff)

lemma find_capture_in:
  "find (captureIs key cid) rows = Some row \<Longrightarrow> row \<in> set rows \<and> captureKey row = (key, cid)"
  by (auto dest: find_Some_in simp: captureIs_def)

lemma unique_capture:
  "distinct (map captureKey rows) \<Longrightarrow> find (captureIs key cid) rows = Some row \<Longrightarrow>
   c \<in> set rows \<Longrightarrow> captureKey c = (key, cid) \<Longrightarrow> c = row"
  using find_unique_key[of captureKey rows c "(key, cid)"] by (simp add: captureIs_key)

definition retainedView :: "capture_row \<Rightarrow> (string \<times> string) \<times> int" where
  "retainedView c = (captureKey c, cp_retainedBytes c)"

lemma retainedAccounted_view:
  "retainedAccounted db \<longleftrightarrow> db_retainedBytes db = sum_list (map snd (map retainedView (db_captures db))) \<and>
     (\<forall>(k, n) \<in> set (map retainedView (db_captures db)). n = capturedBytes (fst k) (snd k) (db_units db))"
  by (simp add: retainedAccounted_def retainedView_def captureKey_def comp_def)

lemma retainedAccounted_cong:
  assumes "map retainedView (db_captures db') = map retainedView (db_captures db)"
    "db_units db' = db_units db" "db_retainedBytes db' = db_retainedBytes db"
  shows "retainedAccounted db' = retainedAccounted db"
  using assms by (simp only: retainedAccounted_view)

lemma capturedBytes_snoc:
  "capturedBytes key cid (units @ [u]) = capturedBytes key cid units + (if unitOf key cid u then heldBytes u else 0)"
  by (simp add: capturedBytes_def)

lemma capturedBytes_updateWhere:
  assumes "\<And>u. u \<in> set units \<Longrightarrow> P u \<Longrightarrow> unitKey (f u) = unitKey u \<and> heldBytes (f u) = heldBytes u"
  shows "capturedBytes key cid (updateWhere P f units) = capturedBytes key cid units"
  using assms by (induction units) (auto simp: capturedBytes_def unitKey_def unitOf_def)

lemma capturedBytes_nonneg:
  "(\<And>u. u \<in> set units \<Longrightarrow> unitSound sha u) \<Longrightarrow> 0 \<le> capturedBytes key cid units"
proof -
  assume sound: "\<And>u. u \<in> set units \<Longrightarrow> unitSound sha u"
  have "unitSound sha u \<Longrightarrow> 0 \<le> heldBytes u" for u by (simp add: heldBytes_def unitSound_def)
  with sound show ?thesis unfolding capturedBytes_def by (intro sum_list_nonneg) auto
qed

lemma capturedBytes_drop:
  assumes "distinct (map unitKey units)" "distinct sub" "set sub \<subseteq> set units"
    "\<And>u. u \<in> set sub \<Longrightarrow> un_body u \<noteq> None"
  shows "capturedBytes key cid (updateWhere (\<lambda>u. unitKey u \<in> unitKey ` set sub) (\<lambda>r. r\<lparr>un_body := None\<rparr>) units) =
         capturedBytes key cid units - sum_list (map un_byteCount (filter (unitOf key cid) sub))"
proof -
  have inj: "unitKey u \<in> unitKey ` set sub \<longleftrightarrow> u \<in> set sub" if "u \<in> set units" for u
    using assms(1,3) that by (auto simp: distinct_map inj_on_def)
  have "capturedBytes key cid (updateWhere (\<lambda>u. unitKey u \<in> unitKey ` set sub) (\<lambda>r. r\<lparr>un_body := None\<rparr>) us) =
        capturedBytes key cid us - sum_list (map un_byteCount (filter (\<lambda>u. u \<in> set sub) (filter (unitOf key cid) us)))"
    if "set us \<subseteq> set units" for us
    using that
  proof (induction us)
    case (Cons u us)
    have "unitOf key cid (u\<lparr>un_body := None\<rparr>) = unitOf key cid u" by (simp add: unitOf_def)
    moreover have "u \<in> set sub \<Longrightarrow> heldBytes u = un_byteCount u" using assms(4)[of u] by (auto simp: heldBytes_def)
    moreover have "heldBytes (u\<lparr>un_body := None\<rparr>) = 0" by (simp add: heldBytes_def)
    ultimately show ?case using Cons inj[of u] by (simp add: capturedBytes_def)
  qed (simp add: capturedBytes_def)
  moreover have "sum_list (map un_byteCount (filter (\<lambda>u. u \<in> set (filter (unitOf key cid) sub)) (filter (unitOf key cid) units))) =
      sum_list (map un_byteCount (filter (unitOf key cid) sub))"
    using assms(1-3) by (intro sum_in_sublist) (auto simp: distinct_map)
  moreover have "filter (\<lambda>u. u \<in> set (filter (unitOf key cid) sub)) (filter (unitOf key cid) units) =
      filter (\<lambda>u. u \<in> set sub) (filter (unitOf key cid) units)"
    by (auto intro: filter_cong)
  ultimately show ?thesis by simp
qed

lemma retainedAccounted_addUnit:
  assumes "retainedAccounted db" "distinct (map captureKey (db_captures db))"
    "find (captureIs key cid) (db_captures db) = Some row" "un_scope u = key" "un_capture u = cid" "heldBytes u = n"
  shows "retainedAccounted (addRetained n
     (updateCaptures (captureIs key cid) (\<lambda>r. r\<lparr>cp_retainedBytes := cp_retainedBytes r + n\<rparr>) (insertUnit u db)))"
proof -
  note row = find_capture_in[OF assms(3)]
  have unit: "unitOf k c u \<longleftrightarrow> (k, c) = (key, cid)" for k c
    using assms(4,5) by (auto simp: unitOf_def)
  have "sum_list (map cp_retainedBytes (updateWhere (captureIs key cid)
      (\<lambda>r. r\<lparr>cp_retainedBytes := cp_retainedBytes r + n\<rparr>) (db_captures db))) = sum_list (map cp_retainedBytes (db_captures db)) + n"
    using sum_updateWhere_key[OF assms(2) row[THEN conjunct1] row[THEN conjunct2], of cp_retainedBytes]
    by (simp add: captureIs_key)
  then show ?thesis
    using assms(1,6) unit
    by (auto simp: retainedAccounted_def statement_defs capturedBytes_snoc captureIs_def captureKey_def ball_updateWhere)
qed

lemma retainedAccounted_drop:
  assumes "retainedAccounted db" "uniqueKeys db"
    "find (captureIs key cid) (db_captures db) = Some row"
    "eligible = selectAll (reclaimable key row) (\<lambda>u. (un_kind u, un_ordinal u)) limit (db_units db)"
    "foldE (dropBody key cid) (db, 0) eligible = Inr (db1, removed)"
  shows "retainedAccounted (addRetained (- removed)
     (updateCaptures (captureIs key cid) (\<lambda>r. r\<lparr>cp_retainedBytes := cp_retainedBytes r - removed\<rparr>) db1))"
proof -
  note row = find_capture_in[OF assms(3)]
  then have rid: "cp_id row = cid" "cp_scope row = key" by (simp_all add: captureKey_def)
  note d = drop_fold[OF assms(4) rid(1) assms(5)]
  have units: "distinct (map unitKey (db_units db))" and caps: "distinct (map captureKey (db_captures db))"
    using assms(2) by (simp_all add: uniqueKeys_def)
  have sub: "u \<in> set (db_units db) \<and> un_body u \<noteq> None \<and> unitOf key cid u" if "u \<in> set eligible" for u
    using that rid set_selectAll[of u "reclaimable key row" "\<lambda>u. (un_kind u, un_ordinal u)" limit "db_units db"]
    by (simp add: assms(4) reclaimable_def)
  then have subset: "set eligible \<subseteq> set (db_units db)" by blast
  have dist: "distinct eligible"
    using units by (auto simp: assms(4) distinct_map intro: distinct_selectAll)
  have only: "filter (unitOf k c) eligible = (if (k, c) = (key, cid) then eligible else [])" for k c
    using sub by (auto simp: filter_id_conv filter_empty_conv unitOf_def)
  have bytes: "capturedBytes k c (db_units db1) = capturedBytes k c (db_units db) - (if (k, c) = (key, cid) then removed else 0)" for k c
    using capturedBytes_drop[OF units dist subset, of k c] sub d only[of k c] by (auto simp: updateUnits_def)
  have caps1: "db_captures db1 = db_captures db" "db_retainedBytes db1 = db_retainedBytes db"
    using d(1) by (simp_all add: updateUnits_def)
  have "sum_list (map cp_retainedBytes (updateWhere (captureIs key cid)
      (\<lambda>r. r\<lparr>cp_retainedBytes := cp_retainedBytes r - removed\<rparr>) (db_captures db))) = sum_list (map cp_retainedBytes (db_captures db)) - removed"
    using sum_updateWhere_key[OF caps row[THEN conjunct1] row[THEN conjunct2], of cp_retainedBytes]
    by (simp add: captureIs_key)
  then show ?thesis
    using assms(1) bytes caps1
    by (auto simp: retainedAccounted_def addRetained_def updateCaptures_def captureIs_def captureKey_def ball_updateWhere)
qed

lemma retainedAccounted_updateCaptures:
  assumes "\<And>r. r \<in> set (db_captures db) \<Longrightarrow> P r \<Longrightarrow> retainedView (f r) = retainedView r"
  shows "retainedAccounted (updateCaptures P f db) = retainedAccounted db"
  using assms by (intro retainedAccounted_cong) (simp_all add: updateCaptures_def map_updateWhere_same)

lemma retainedAccounted_change:
  assumes "journalChange sha lim db db'" "retainedAccounted db" "uniqueKeys db" "unitsSound sha db"
  shows "retainedAccounted db'"
  using assms(1)
proof (cases rule: journalChange.cases)
  case (captureFields P f)
  then show ?thesis using assms(2)
    by (simp add: retainedAccounted_updateCaptures retainedView_def captureFrame_def)
next
  case (unitFields P f)
  then have "capturedBytes key cid (updateWhere P f (db_units db)) = capturedBytes key cid (db_units db)" for key cid
    by (intro capturedBytes_updateWhere) (simp add: unitFrame_def heldBytes_def)
  then show ?thesis using unitFields assms(2) by (simp add: retainedAccounted_def updateUnits_def)
next
  case (setSource key cid row v)
  then show ?thesis using assms(2)
    by (simp add: retainedAccounted_updateCaptures retainedView_def captureKey_def)
next
  case (dropSource P)
  then show ?thesis using assms(2)
    by (simp add: retainedAccounted_updateCaptures retainedView_def captureKey_def dropSourceMetadata_def)
next
  case (addCapture key input purpose track)
  have none: "filter (unitOf key (rsv_id input)) (db_units db) = []"
    using addCapture(2) assms(4)
    by (force simp: unitsSound_def filter_empty_conv find_None_all captureIs_def unitOf_def)
  then show ?thesis using addCapture assms(2)
    by (auto simp: retainedAccounted_def insertCapture_def newCapture_def capturedBytes_def)
next
  case (addUnit key cid row k n content)
  then show ?thesis
    using retainedAccounted_addUnit[OF assms(2) _ addUnit(2), of "newUnit sha key cid k n content"] assms(3)
    by (simp add: uniqueKeys_def newUnit_def heldBytes_def)
next
  case (addRecord scope cid row r old changed)
  have "retainedAccounted (insertMember m (if changed then upsertVersion v db else db))" for m v
    using assms(2) by (simp add: retainedAccounted_def insertMember_def)
  then show ?thesis unfolding addRecord storeObservation_def Let_def
    by (subst retainedAccounted_updateCaptures) (simp_all add: retainedView_def captureKey_def)
next
  case (retire row scope rows limit n)
  have "retainedAccounted (deleteMembers rows db)"
    using assms(2) by (simp add: retainedAccounted_def deleteMembers_def)
  then show ?thesis unfolding retire
    by (subst retainedAccounted_updateCaptures) (simp_all add: retainedView_def captureKey_def)
next
  case (drop key cid row eligible limit db1 removed)
  then show ?thesis using retainedAccounted_drop[OF assms(2,3)] by simp
qed (use assms(2) in \<open>auto simp: retainedAccounted_def statement_defs\<close>)

lemma image_captureKey_update:
  "(\<And>r. r \<in> set (db_captures db) \<Longrightarrow> P r \<Longrightarrow> captureKey (f r) = captureKey r) \<Longrightarrow>
   captureKey ` set (db_captures (updateCaptures P f db)) = captureKey ` set (db_captures db)"
  by (simp add: updateCaptures_def image_updateWhere)

lemma captureKey_field_updates [simp]:
  "captureKey (r\<lparr>cp_retainedBytes := x\<rparr>) = captureKey r"
  "captureKey (r\<lparr>cp_recordCount := n, cp_retainedRecords := k\<rparr>) = captureKey r"
  "captureKey (r\<lparr>cp_retainedRecords := k, cp_recordsRetired := b\<rparr>) = captureKey r"
  "captureKey (r\<lparr>cp_sourceMetadata := m, cp_sourceMetadataSha := d, cp_sourceMetadataBytes := l\<rparr>) = captureKey r"
  "captureKey (r\<lparr>cp_recordsRetired := b, cp_retainedRecords := k\<rparr>) = captureKey r"
  "captureKey (dropSourceMetadata r) = captureKey r"
  by (simp_all add: captureKey_def dropSourceMetadata_def)

lemma unitsSound_frame:
  assumes "unitsSound sha db" "db_units db' = db_units db"
    "captureKey ` set (db_captures db) \<subseteq> captureKey ` set (db_captures db')"
  shows "unitsSound sha db'"
  using assms unfolding unitsSound_def by auto

lemma unitsSound_change:
  assumes "journalChange sha lim db db'" "unitsSound sha db"
  shows "unitsSound sha db'"
  using assms(1)
proof (cases rule: journalChange.cases)
  case (captureFields P f)
  then have "captureKey ` set (db_captures db') = captureKey ` set (db_captures db)"
    by (simp add: image_captureKey_update captureFrame_def)
  then show ?thesis using unitsSound_frame[OF assms(2)] captureFields(1) by (simp add: updateCaptures_def)
next
  case (unitFields P f)
  have "unitSound sha s \<and> un_scope s = un_scope r \<and> un_capture s = un_capture r"
    if "unitFrame r s" "unitSound sha r" for r s
    using that by (cases "un_body r") (auto simp: unitFrame_def unitSound_def unitKey_def)
  then have "unitSound sha (f u) \<and> un_scope (f u) = un_scope u \<and> un_capture (f u) = un_capture u"
    if "u \<in> set (db_units db)" "P u" for u
    using that unitFields(2) assms(2) unfolding unitsSound_def by blast
  then show ?thesis using unitFields(1) assms(2)
    by (simp add: unitsSound_def updateUnits_def ball_updateWhere)
next
  case (addUnit key cid row k n content)
  have "(key, cid) \<in> captureKey ` set (db_captures db)"
    using find_capture_in[OF addUnit(2)] by force
  then have "unitsSound sha (insertUnit (newUnit sha key cid k n content) db)"
    using assms(2) addUnit(6) by (auto simp: unitsSound_def insertUnit_def newUnit_def unitSound_def)
  then show ?thesis
    unfolding addUnit by (rule unitsSound_frame) (simp_all add: addRetained_def updateCaptures_def image_updateWhere)
next
  case (addRecord scope cid row r old changed)
  show ?thesis unfolding addRecord storeObservation_def Let_def
    by (rule unitsSound_frame[OF assms(2)]) (simp_all add: insertMember_def updateCaptures_def image_updateWhere)
next
  case (retire row scope rows limit n)
  show ?thesis unfolding retire
    by (rule unitsSound_frame[OF assms(2)]) (simp_all add: deleteMembers_def updateCaptures_def image_updateWhere)
next
  case (drop key cid row eligible limit db1 removed)
  have rid: "cp_id row = cid" using drop(2) captureRow_id by blast
  have "unitsSound sha db1"
    using drop_fold(1)[OF drop(3) rid drop(4)] assms(2)
    by (auto simp: unitsSound_def updateUnits_def ball_updateWhere unitSound_def)
  then show ?thesis unfolding drop
    by (rule unitsSound_frame) (simp_all add: addRetained_def updateCaptures_def image_updateWhere)
next
  case (addCapture key input purpose track)
  then show ?thesis using unitsSound_frame[OF assms(2)] by (simp add: insertCapture_def subset_insertI)
qed (rule unitsSound_frame[OF assms(2)]; simp add: statement_defs image_updateWhere)+

lemma ordinalsOf_updateWhere:
  assumes "\<And>u. u \<in> set units \<Longrightarrow> P u \<Longrightarrow> unitKey (f u) = unitKey u"
  shows "ordinalsOf key cid k (updateWhere P f units) = ordinalsOf key cid k units"
  using assms by (induction units) (auto simp: ordinalsOf_def unitKey_def unitOf_def)

lemma sorted_upto_int: "sort (map int [0..<n]) = map int [0..<n]"
  by (rule sorted_sort_id) (simp add: sorted_iff_nth_mono)

lemma nextOrdinal_contiguous:
  assumes "contiguous db"
  shows "nextOrdinal db key cid k = int (length (ordinalsOf key cid k (db_units db)))"
proof -
  let ?n = "length (ordinalsOf key cid k (db_units db))"
  have list: "map un_ordinal (filter (\<lambda>u. unitOf key cid u \<and> un_kind u = k) (db_units db)) = map int [0..<?n]"
    using assms by (simp add: contiguous_def ordinalsOf_def)
  show ?thesis
    unfolding nextOrdinal_def list sorted_upto_int
    by (cases ?n) simp_all
qed

lemma contiguous_snoc:
  assumes "contiguous db" "un_ordinal u = int (length (ordinalsOf (un_scope u) (un_capture u) (un_kind u) (db_units db)))"
  shows "contiguous (insertUnit u db)"
  unfolding contiguous_def
proof (intro allI)
  fix key cid k
  let ?o = "ordinalsOf key cid k (db_units db)"
  have old: "?o = map int [0..<length ?o]" using assms(1) by (simp add: contiguous_def)
  show "ordinalsOf key cid k (db_units (insertUnit u db)) =
        map int [0..<length (ordinalsOf key cid k (db_units (insertUnit u db)))]"
  proof (cases "unitOf key cid u \<and> un_kind u = k")
    case True
    then have new: "ordinalsOf key cid k (db_units (insertUnit u db)) = ?o @ [int (length ?o)]"
      using assms(2) by (auto simp: ordinalsOf_def insertUnit_def unitOf_def)
    show ?thesis unfolding new using old by simp
  next
    case False
    then have "ordinalsOf key cid k (db_units (insertUnit u db)) = ?o"
      by (auto simp: ordinalsOf_def insertUnit_def)
    then show ?thesis using old by metis
  qed
qed

lemma contiguous_cong: "db_units db' = db_units db \<Longrightarrow> contiguous db \<Longrightarrow> contiguous db'"
  by (simp add: contiguous_def)

lemma contiguous_updateUnits:
  assumes "\<And>u. u \<in> set (db_units db) \<Longrightarrow> P u \<Longrightarrow> unitKey (f u) = unitKey u"
  shows "contiguous (updateUnits P f db) = contiguous db"
  using ordinalsOf_updateWhere[of "db_units db" P f] assms by (simp add: contiguous_def updateUnits_def)

lemma contiguous_change:
  assumes "journalChange sha lim db db'" "contiguous db"
  shows "contiguous db'"
  using assms(1)
proof (cases rule: journalChange.cases)
  case (unitFields P f)
  then show ?thesis using assms(2) by (simp add: contiguous_updateUnits unitFrame_def)
next
  case (addUnit key cid row k n content)
  have "contiguous (insertUnit (newUnit sha key cid k n content) db)"
    using addUnit(5) nextOrdinal_contiguous[OF assms(2), of key cid k]
    by (intro contiguous_snoc[OF assms(2)]) (simp add: newUnit_def)
  then show ?thesis unfolding addUnit
    by (rule contiguous_cong[rotated]) (simp add: addRetained_def updateCaptures_def)
next
  case (drop key cid row eligible limit db1 removed)
  have rid: "cp_id row = cid" using drop(2) captureRow_id by blast
  have "contiguous db1"
    using drop_fold(1)[OF drop(3) rid drop(4)] assms(2) by (simp add: contiguous_updateUnits unitKey_def)
  then show ?thesis unfolding drop
    by (rule contiguous_cong[rotated]) (simp add: addRetained_def updateCaptures_def)
qed (rule contiguous_cong[OF _ assms(2)]; simp add: statement_defs storeObservation_def Let_def)+

lemma statesSound_change:
  assumes "journalChange sha lim db db'" "statesSound db"
  shows "statesSound db'"
  using assms(1)
proof (cases rule: journalChange.cases)
  case (captureFields P f)
  have "stateSound s \<and> cp_scope s = cp_scope r" if "captureFrame r s" "stateSound r" for r s
    using that unfolding captureFrame_def captureKey_def by blast
  then have "stateSound (f c) \<and> cp_scope (f c) = cp_scope c" if "c \<in> set (db_captures db)" "P c" for c
    using that captureFields(2) assms(2) unfolding statesSound_def by blast
  then show ?thesis using captureFields(1) assms(2)
    by (simp add: statesSound_def updateCaptures_def ball_updateWhere)
next
  case (scopeFields P f)
  then have "sc_key ` set (db_scopes db') = sc_key ` set (db_scopes db)"
    by (simp add: updateScopes_def image_updateWhere scopeFrame_def)
  then show ?thesis using scopeFields(1) assms(2) by (simp add: statesSound_def updateScopes_def)
next
  case (drop key cid row eligible limit db1 removed)
  have rid: "cp_id row = cid" using drop(2) captureRow_id by blast
  then show ?thesis using drop_fold(1)[OF drop(3) rid drop(4)] drop(1) assms(2)
    by (simp add: statesSound_def statement_defs ball_updateWhere stateSound_def)
qed (use assms(2) in \<open>simp_all add: statesSound_def statement_defs ball_updateWhere stateSound_def image_updateWhere
       newCapture_def dropSourceMetadata_def storeObservation_def Let_def\<close>)

definition countsView :: "capture_row \<Rightarrow> (string \<times> string) \<times> int \<times> bool \<times> int" where
  "countsView c = (captureKey c, cp_retainedRecords c, cp_recordsRetired c, cp_recordCount c)"

definition countsOk :: "member_row list \<Rightarrow> (string \<times> string) \<times> int \<times> bool \<times> int \<Rightarrow> bool" where
  "countsOk rows v = (case v of ((k, c), n, retired, count) \<Rightarrow> n = memberTotal k c rows \<and> (\<not> retired \<longrightarrow> count = n))"

lemma membersCounted_view:
  "membersCounted db \<longleftrightarrow> (\<forall>v\<in>countsView ` set (db_captures db). countsOk (db_members db) v) \<and>
     (\<forall>m\<in>set (db_members db). (mb_scope m, mb_capture m) \<in> captureKey ` set (db_captures db))"
  by (simp add: membersCounted_def countsView_def countsOk_def captureKey_def)

lemma membersCounted_cong:
  assumes "countsView ` set (db_captures db') = countsView ` set (db_captures db)"
    "db_members db' = db_members db"
  shows "membersCounted db' = membersCounted db"
proof -
  have "fst ` countsView ` set (db_captures db') = fst ` countsView ` set (db_captures db)"
    using assms(1) by simp
  then have "captureKey ` set (db_captures db') = captureKey ` set (db_captures db)"
    by (simp add: image_image countsView_def)
  then show ?thesis unfolding membersCounted_view assms by simp
qed

lemma membersCounted_updateMembers:
  assumes "\<And>m. memberKey (f m) = memberKey m"
  shows "membersCounted (updateMembers P f db) = membersCounted db"
proof -
  have "mb_scope (f m) = mb_scope m" "mb_capture (f m) = mb_capture m" for m
    using assms[of m] by (simp_all add: memberKey_def)
  then show ?thesis
    by (auto simp: membersCounted_def memberTotal_def updateMembers_def countRows_updateWhere ball_updateWhere)
qed

lemma countRows_filter: "countRows P (filter Q rows) = countRows (\<lambda>r. P r \<and> Q r) rows"
  by (induction rows) auto

lemma countRows_split: "countRows P rows = countRows (\<lambda>r. P r \<and> \<not> Q r) rows + countRows (\<lambda>r. P r \<and> Q r) rows"
  by (induction rows) auto

lemma membersCounted_retire:
  assumes "membersCounted db" "uniqueKeys db" "row \<in> set (db_captures db)" "prunable scope row"
    "rows = selectAll (\<lambda>m. mb_scope m = sc_key scope \<and> mb_capture m = cp_id row) f limit (db_members db)"
    "n = int (countRows (\<lambda>m. m \<in> set rows) (db_members db))"
  shows "membersCounted (updateCaptures (captureIs (sc_key scope) (cp_id row))
      (\<lambda>c. c\<lparr>cp_recordsRetired := True, cp_retainedRecords := cp_retainedRecords c - n\<rparr>) (deleteMembers rows db))"
proof -
  have own: "mb_scope m = sc_key scope \<and> mb_capture m = cp_id row" if "m \<in> set rows" for m
    using that set_selectAll[of m _ f limit "db_members db"] by (auto simp: assms(5))
  have total: "memberTotal k c (filter (\<lambda>r. r \<notin> set rows) (db_members db)) =
      memberTotal k c (db_members db) - (if (k, c) = (sc_key scope, cp_id row) then n else 0)" for k c
  proof -
    have "countRows (\<lambda>m. (mb_scope m = k \<and> mb_capture m = c) \<and> m \<in> set rows) (db_members db) =
        (if (k, c) = (sc_key scope, cp_id row) then countRows (\<lambda>m. m \<in> set rows) (db_members db) else 0)"
      using own by (auto simp: countRows_zero_iff intro!: arg_cong[where f="\<lambda>P. countRows P (db_members db)"])
    then show ?thesis
      using countRows_split[of "\<lambda>m. mb_scope m = k \<and> mb_capture m = c" "db_members db" "\<lambda>m. m \<in> set rows"]
      by (simp add: memberTotal_def countRows_filter assms(6))
  qed
  then show ?thesis
    using assms(1)
    by (auto simp: membersCounted_def deleteMembers_def updateCaptures_def ball_updateWhere captureIs_def captureKey_def
        image_updateWhere)
qed

lemma membersCounted_add:
  assumes "membersCounted db" "find (captureIs key cid) (db_captures db) = Some row" "\<not> cp_recordsRetired row"
    "distinct (map captureKey (db_captures db))" "mb_scope m = key" "mb_capture m = cid"
  shows "membersCounted (updateCaptures (captureIs key cid)
      (\<lambda>c. c\<lparr>cp_recordCount := cp_recordCount c + 1, cp_retainedRecords := cp_retainedRecords c + 1\<rparr>) (insertMember m db))"
proof -
  have "\<not> cp_recordsRetired c" if "c \<in> set (db_captures db)" "captureIs key cid c" for c
    using unique_capture[OF assms(4,2) that(1)] that(2) assms(3) by (simp add: captureIs_def)
  moreover have "(key, cid) \<in> captureKey ` set (db_captures db)"
    using find_capture_in[OF assms(2)] by force
  ultimately show ?thesis
    using assms(1,5,6)
    by (auto simp: membersCounted_def insertMember_def updateCaptures_def ball_updateWhere captureIs_def captureKey_def
        image_updateWhere memberTotal_def)
qed

lemma membersCounted_change:
  assumes "journalChange sha lim db db'" "membersCounted db" "uniqueKeys db"
  shows "membersCounted db'"
  using assms(1)
proof (cases rule: journalChange.cases)
  case (captureFields P f)
  then show ?thesis using assms(2) unfolding captureFields(1)
    by (subst membersCounted_cong[of _ db]) (simp_all add: updateCaptures_def image_updateWhere countsView_def captureFrame_def)
next
  case (setSource key cid row v)
  show ?thesis using assms(2) unfolding setSource(1)
    by (subst membersCounted_cong[of _ db]) (simp_all add: updateCaptures_def image_updateWhere countsView_def)
next
  case (dropSource P)
  show ?thesis using assms(2) unfolding dropSource
    by (subst membersCounted_cong[of _ db])
      (simp_all add: updateCaptures_def image_updateWhere countsView_def captureKey_def dropSourceMetadata_def)
next
  case (addUnit key cid row k n content)
  show ?thesis using assms(2) unfolding addUnit(1)
    by (subst membersCounted_cong[of _ db]) (simp_all add: statement_defs image_updateWhere countsView_def)
next
  case (drop key cid row eligible limit db1 removed)
  have rid: "cp_id row = cid" using drop(2) captureRow_id by blast
  show ?thesis using assms(2) drop_fold(1)[OF drop(3) rid drop(4)] unfolding drop(1)
    by (subst membersCounted_cong[of _ db]) (simp_all add: statement_defs image_updateWhere countsView_def)
next
  case (addCapture key input purpose track)
  then have "countRows (\<lambda>m. mb_scope m = key \<and> mb_capture m = rsv_id input) (db_members db) = 0"
    using assms(2) by (force simp: membersCounted_def countRows_zero_iff find_None_all captureIs_def)
  then show ?thesis using assms(2) unfolding addCapture(1)
    by (auto simp: membersCounted_def insertCapture_def newCapture_def memberTotal_def)
next
  case (addRecord scope cid row r old changed)
  let ?db = "if changed then upsertVersion (versionRowOf (sc_key scope) (lastComplete scope (rr_kind r)) r) db else db"
  have "membersCounted ?db" using assms(2) by (simp add: membersCounted_def)
  then show ?thesis unfolding addRecord(1) storeObservation_def Let_def
    using addRecord(2,4) assms(3)
    by (intro membersCounted_add) (simp_all add: uniqueKeys_def memberRowOf_def record_row.defs member_row.defs)
next
  case (bindMember key cid k rk m b c uk n gap)
  then show ?thesis using assms(2) by (simp add: membersCounted_updateMembers memberKey_def)
next
  case (retire row scope rows limit n)
  then show ?thesis using membersCounted_retire[OF assms(2,3)] by blast
qed (use assms(2) in \<open>simp_all add: membersCounted_def statement_defs\<close>)

definition metadataView :: "scope_row \<Rightarrow> string option \<times> string option \<times> int" where
  "metadataView s = (sc_adoptionMetadata s, sc_adoptionMetadataSha s, sc_adoptionMetadataBytes s)"

lemma metadataFits_intros:
  "metadataFits sha None d 0"
  "metadataFits sha (Some v) (Some (sha v)) (int (length v))"
  by (simp_all add: metadataFits_def)

lemma metadataSound_change:
  assumes "journalChange sha lim db db'" "metadataSound sha db"
  shows "metadataSound sha db'"
  using assms(1)
proof (cases rule: journalChange.cases)
  case (scopeFields P f)
  then have "metadataView (f s) = metadataView s" if "s \<in> set (db_scopes db)" "P s" for s
    using that by (simp add: metadataView_def scopeFrame_def)
  then show ?thesis using scopeFields(1) assms(2)
    by (auto simp: metadataSound_def updateScopes_def ball_updateWhere metadataView_def)
next
  case (captureFields P f)
  then have "cp_sourceMetadata (f c) = cp_sourceMetadata c \<and> cp_sourceMetadataSha (f c) = cp_sourceMetadataSha c \<and>
      cp_sourceMetadataBytes (f c) = cp_sourceMetadataBytes c" if "c \<in> set (db_captures db)" "P c" for c
    using that by (simp add: captureFrame_def)
  then show ?thesis using captureFields(1) assms(2)
    by (auto simp: metadataSound_def updateCaptures_def ball_updateWhere)
next
  case (drop key cid row eligible limit db1 removed)
  have rid: "cp_id row = cid" using drop(2) captureRow_id by blast
  then show ?thesis using drop_fold(1)[OF drop(3) rid drop(4)] drop(1) assms(2)
    by (simp add: metadataSound_def statement_defs ball_updateWhere)
qed (use assms(2) in \<open>auto simp: metadataSound_def statement_defs ball_updateWhere metadataFits_intros
       newScope_def newCapture_def dropSourceMetadata_def storeObservation_def Let_def\<close>)

lemma metadataFits_nonneg: "metadataFits sha v d n \<Longrightarrow> 0 \<le> n"
  by (auto simp: metadataFits_def split: option.splits)

lemma sum_zero:
  fixes g :: "'a \<Rightarrow> int"
  shows "(\<And>r. r \<in> set rows \<Longrightarrow> P r \<Longrightarrow> g r = 0) \<Longrightarrow> sum_list (map g (filter P rows)) = 0"
  by (induction rows) auto

lemma sum_nonpos:
  fixes g :: "'a \<Rightarrow> int"
  shows "(\<And>r. r \<in> set rows \<Longrightarrow> g r \<le> 0) \<Longrightarrow> sum_list (map g (filter P rows)) \<le> 0"
proof (induction rows)
  case (Cons a rows)
  have "g a \<le> 0" "sum_list (map g (filter P rows)) \<le> 0" using Cons by simp_all
  then show ?case by simp
qed simp

lemma filter_unique_capture:
  assumes "distinct (map captureKey rows)" "find (captureIs key cid) rows = Some row"
  shows "filter (captureIs key cid) rows = [row]"
  using assms
proof (induction rows)
  case (Cons a rows)
  show ?case
  proof (cases "captureIs key cid a")
    case True
    then have "filter (captureIs key cid) rows = []"
      using Cons.prems(1) by (auto simp: filter_empty_conv captureIs_def image_iff)
    with True Cons.prems show ?thesis by simp
  qed (use Cons in simp)
qed simp

lemma filter_unique_scope:
  assumes "distinct (map sc_key rows)" "find (scopeIs key) rows = Some row"
  shows "filter (scopeIs key) rows = [row]"
  using assms
proof (induction rows)
  case (Cons a rows)
  show ?case
  proof (cases "scopeIs key a")
    case True
    then have "filter (scopeIs key) rows = []"
      using Cons.prems(1) by (auto simp: filter_empty_conv scopeIs_def image_iff)
    with True Cons.prems show ?thesis by simp
  qed (use Cons in simp)
qed simp

lemma dropped_nonneg:
  assumes "journalInv sha lim db" "find (captureIs key cid) (db_captures db) = Some row"
    "eligible = selectAll (reclaimable key row) f limit (db_units db)"
  shows "0 \<le> sum_list (map un_byteCount eligible)"
proof (rule sum_list_nonneg)
  fix x assume "x \<in> set (map un_byteCount eligible)"
  then obtain u where "u \<in> set (db_units db)" "x = un_byteCount u"
    using set_selectAll[of _ "reclaimable key row" f limit "db_units db"] assms(3) by auto
  then show "0 \<le> x" using assms(1) by (auto simp: journalInv_def unitsSound_def unitSound_def)
qed

lemma withinBudget_change:
  assumes "journalChange sha lim db db'" "journalInv sha lim db"
  shows "withinBudget lim db'"
proof -
  have old: "withinBudget lim db" and meta: "metadataSound sha db" and keys: "uniqueKeys db"
    using assms(2) by (simp_all add: journalInv_def)
  have adoption: "0 \<le> sc_adoptionMetadataBytes s" if "s \<in> set (db_scopes db)" for s
    using meta that by (auto simp: metadataSound_def intro: metadataFits_nonneg)
  have source: "0 \<le> cp_sourceMetadataBytes c" if "c \<in> set (db_captures db)" for c
    using meta that by (auto simp: metadataSound_def intro: metadataFits_nonneg)
  show ?thesis
    using assms(1)
  proof (cases rule: journalChange.cases)
    case (scopeFields P f)
    have "sum_list (map (\<lambda>r. sc_adoptionMetadataBytes (f r) - sc_adoptionMetadataBytes r) (filter P (db_scopes db))) = 0"
      using scopeFields(2) by (intro sum_zero) (auto simp: scopeFrame_def)
    then show ?thesis using scopeFields(1) old by (simp add: withinBudget_def updateScopes_def)
  next
    case (captureFields P f)
    have "sum_list (map (\<lambda>r. cp_sourceMetadataBytes (f r) - cp_sourceMetadataBytes r) (filter P (db_captures db))) = 0"
      using captureFields(2) by (intro sum_zero) (auto simp: captureFrame_def)
    then show ?thesis using captureFields(1) old by (simp add: withinBudget_def updateCaptures_def)
  next
    case (adopt key scope v floor)
    have "filter (scopeIs key) (db_scopes db) = [scope]"
      using keys adopt(2) by (simp add: uniqueKeys_def filter_unique_scope)
    moreover have "0 \<le> sc_adoptionMetadataBytes scope"
      using adoption find_Some_in[OF adopt(2)] by blast
    ultimately show ?thesis using adopt old by (simp add: withinBudget_def updateScopes_def)
  next
    case (dropAdoption P)
    have "sum_list (map (\<lambda>r. 0 - sc_adoptionMetadataBytes r) (filter P (db_scopes db))) \<le> 0"
      using adoption by (intro sum_nonpos) simp
    then show ?thesis using dropAdoption old by (simp add: withinBudget_def updateScopes_def)
  next
    case (setSource key cid row v)
    have "filter (captureIs key cid) (db_captures db) = [row]"
      using keys setSource(2) by (simp add: uniqueKeys_def filter_unique_capture)
    moreover have "0 \<le> cp_sourceMetadataBytes row"
      using source find_Some_in[OF setSource(2)] by blast
    ultimately show ?thesis using setSource old by (simp add: withinBudget_def updateCaptures_def)
  next
    case (dropSource P)
    have "sum_list (map (\<lambda>r. 0 - cp_sourceMetadataBytes r) (filter P (db_captures db))) \<le> 0"
      using source by (intro sum_nonpos) simp
    then show ?thesis using dropSource old by (simp add: withinBudget_def updateCaptures_def dropSourceMetadata_def)
  next
    case (addUnit key cid row k n content)
    have "sum_list (map (\<lambda>r. cp_sourceMetadataBytes (r\<lparr>cp_retainedBytes := cp_retainedBytes r + int (length content)\<rparr>) -
        cp_sourceMetadataBytes r) (filter Q rows)) = 0" for Q rows
      by (intro sum_zero) simp
    with addUnit show ?thesis by (simp add: withinBudget_def statement_defs)
  next
    case (addRecord scope cid row r old changed)
    let ?v = "versionRowOf (sc_key scope) (lastComplete scope (rr_kind r)) r"
    have key: "versionKey ?v = (sc_key scope, rr_kind r, rr_key r)"
      by (simp add: versionRowOf_def versionKey_def record_row.defs version_row.defs)
    have "db_metadataEntries (upsertVersion ?v db) \<le> db_metadataEntries db + (if old = None then 1 else 0)"
      using addRecord(6) by (auto simp: upsertVersion_def key findVersion_def existsRow_iff find_None_all)
    then show ?thesis using addRecord(1,6,7) old addRecord(9)
      by (auto simp: withinBudget_def storeObservation_def Let_def statement_defs split: if_splits)
  next
    case (drop key cid row eligible limit db1 removed)
    have rid: "cp_id row = cid" using drop(2) captureRow_id by blast
    note d = drop_fold[OF drop(3) rid drop(4)]
    show ?thesis using d dropped_nonneg[OF assms(2) drop(2,3)] drop(1) old
      by (simp add: withinBudget_def statement_defs)
  qed (use old in \<open>auto simp: withinBudget_def statement_defs\<close>)
qed

end
