(* ===== verification/JournalSafety.thy ===== *)
theory JournalSafety
  imports JournalInvariant
begin

text \<open>The remaining parts of the journal invariant, the operations as sequences of primitive
  changes, and reachability.\<close>

section \<open>Versions and bindings\<close>

lemma findVersion_Some:
  "findVersion db key k rk = Some v \<Longrightarrow> v \<in> set (db_versions db) \<and> versionKey v = (key, k, rk)"
  unfolding findVersion_def by (drule find_Some_in) simp

lemma versionsCurrent_frame:
  assumes "versionsCurrent db" "db_versions db' = db_versions db"
    "\<And>m. m \<in> set (db_members db') \<Longrightarrow> \<exists>m0\<in>set (db_members db). memberKey m0 = memberKey m \<and> rr_revision m0 = rr_revision m"
  shows "versionsCurrent db'"
  unfolding versionsCurrent_def assms(2)
proof (intro conjI ballI)
  show "0 < rr_revision v" if "v \<in> set (db_versions db)" for v
    using assms(1) that by (simp add: versionsCurrent_def)
next
  fix m assume "m \<in> set (db_members db')"
  then obtain m0 where m0: "m0 \<in> set (db_members db)" "memberKey m0 = memberKey m" "rr_revision m0 = rr_revision m"
    using assms(3) by blast
  then have "mb_scope m0 = mb_scope m" "rr_kind m0 = rr_kind m" "rr_key m0 = rr_key m"
    by (simp_all add: memberKey_def)
  moreover have "0 < rr_revision m0 \<and> (\<exists>v\<in>set (db_versions db).
      versionKey v = (mb_scope m0, rr_kind m0, rr_key m0) \<and> rr_revision m0 \<le> rr_revision v)"
    using assms(1) m0(1) unfolding versionsCurrent_def by blast
  ultimately show "0 < rr_revision m"
    "\<exists>v\<in>set (db_versions db). versionKey v = (mb_scope m, rr_kind m, rr_key m) \<and> rr_revision m \<le> rr_revision v"
    using m0(3) by simp_all
qed

lemma versionsCurrent_same:
  "versionsCurrent db \<Longrightarrow> db_versions db' = db_versions db \<Longrightarrow> db_members db' = db_members db \<Longrightarrow> versionsCurrent db'"
  by (simp add: versionsCurrent_def)

lemma set_upsert:
  assumes "distinct (map versionKey (db_versions db))"
  shows "set (db_versions (upsertVersion r db)) = insert r {v \<in> set (db_versions db). versionKey v \<noteq> versionKey r}"
proof (cases "existsRow (\<lambda>v. versionKey v = versionKey r) (db_versions db)")
  case True
  then show ?thesis
    by (auto simp: upsertVersion_def existsRow_iff set_updateWhere split: if_splits)
next
  case False
  then show ?thesis by (auto simp: upsertVersion_def existsRow_iff)
qed

lemma versionsCurrent_add:
  assumes "versionsCurrent db" "uniqueKeys db"
    "old = findVersion db key (rr_kind r) (rr_key r)"
    "old = None \<Longrightarrow> changed \<and> 0 < rr_revision r"
    "\<And>v. old = Some v \<Longrightarrow> if changed then rr_revision r = rr_revision v + 1 else rr_revision r = rr_revision v"
    "mb_scope m = key" "rr_kind m = rr_kind r" "rr_key m = rr_key r" "rr_revision m = rr_revision r"
    "versionKey w = (key, rr_kind r, rr_key r)" "rr_revision w = rr_revision r"
  shows "versionsCurrent (insertMember m (if changed then upsertVersion w db else db))"
proof -
  have dist: "distinct (map versionKey (db_versions db))" using assms(2) by (simp add: uniqueKeys_def)
  have pos: "0 < rr_revision r"
  proof (cases old)
    case (Some v)
    then have "0 < rr_revision v" using findVersion_Some assms(1,3) by (metis versionsCurrent_def)
    with Some assms(5) show ?thesis by (auto split: if_splits)
  qed (use assms(4) in simp)
  have below: "rr_revision v \<le> rr_revision r" if "v \<in> set (db_versions db)" "versionKey v = (key, rr_kind r, rr_key r)" for v
  proof -
    have "old = Some v"
      using find_unique_key[OF dist that] by (simp add: assms(3) findVersion_def)
    with assms(5) show ?thesis by (auto split: if_splits)
  qed
  show ?thesis
  proof (cases changed)
    case True
    have new: "set (db_versions (upsertVersion w db)) = insert w {v \<in> set (db_versions db). versionKey v \<noteq> versionKey w}"
      by (rule set_upsert[OF dist])
    have "\<exists>v\<in>set (db_versions (upsertVersion w db)).
        versionKey v = (mb_scope x, rr_kind x, rr_key x) \<and> rr_revision x \<le> rr_revision v"
      if x: "x \<in> set (db_members db)" for x
    proof -
      obtain v where v: "v \<in> set (db_versions db)" "versionKey v = (mb_scope x, rr_kind x, rr_key x)" "rr_revision x \<le> rr_revision v"
        using assms(1) x by (auto simp: versionsCurrent_def)
      show ?thesis
      proof (cases "versionKey v = versionKey w")
        case True
        then have "rr_revision x \<le> rr_revision w" using below[OF v(1)] v(3) assms(10,11) by simp
        then show ?thesis using True v(2) new by auto
      qed (use v new in auto)
    qed
    then show ?thesis
      using True assms new pos by (auto simp: versionsCurrent_def insertMember_def)
  next
    case False
    then obtain v where v: "old = Some v" "rr_revision r = rr_revision v" using assms(4,5) by (cases old) auto
    have "v \<in> set (db_versions db) \<and> versionKey v = (key, rr_kind r, rr_key r)"
      using v(1) assms(3) findVersion_Some by metis
    then show ?thesis
      using False assms pos v(2) by (auto simp: versionsCurrent_def insertMember_def)
  qed
qed

lemma versionsCurrent_change:
  assumes "journalChange sha lim db db'" "versionsCurrent db" "uniqueKeys db"
  shows "versionsCurrent db'"
  using assms(1)
proof (cases rule: journalChange.cases)
  case (addRecord scope cid row r old changed)
  let ?w = "versionRowOf (sc_key scope) (lastComplete scope (rr_kind r)) r"
  let ?m = "memberRowOf (sc_key scope) cid r"
  have "versionsCurrent (insertMember ?m (if changed then upsertVersion ?w db else db))"
    using addRecord(6,8,9) addRecord(10)
    by (intro versionsCurrent_add[OF assms(2,3), where old = old and r = r and key = "sc_key scope"])
       (auto simp: memberRowOf_def versionRowOf_def versionKey_def record_row.defs member_row.defs version_row.defs)
  then show ?thesis unfolding addRecord(1) storeObservation_def Let_def
    by (rule versionsCurrent_same) (simp_all add: updateCaptures_def)
next
  case (bindMember key cid k rk m b c uk n gap)
  show ?thesis unfolding bindMember(1)
    by (rule versionsCurrent_frame[OF assms(2)])
       (auto simp: updateMembers_def set_updateWhere memberKey_def intro: exI split: if_splits)
next
  case (retire row scope rows limit n)
  show ?thesis unfolding retire(1)
    by (rule versionsCurrent_frame[OF assms(2)]) (auto simp: updateCaptures_def deleteMembers_def)
next
  case (drop key cid row eligible limit db1 removed)
  have rid: "cp_id row = cid" using drop(2) captureRow_id by blast
  show ?thesis using drop_fold(1)[OF drop(3) rid drop(4)] unfolding drop(1)
    by (intro versionsCurrent_same[OF assms(2)]) (simp_all add: statement_defs)
qed (rule versionsCurrent_same[OF assms(2)]; simp add: statement_defs)+

lemma bindingTarget_found:
  assumes "bindingTarget db key cid m b = Inr (c, uk, n, gap)" "mb_scope m = key"
  shows "bindingFound (db_units db) (m\<lparr>mb_unitCapture := c, mb_unitKind := uk, mb_unitOrdinal := n, mb_unavailableReason := gap\<rparr>)"
proof (cases b)
  case (BindUnavailable reason)
  with assms show ?thesis by (auto simp: bindingTarget_def bindingFound_def split: if_splits)
next
  case (BindUnit ordinal captureId)
  then obtain cc nn where res: "resolveUnit db key cid m ordinal captureId = Inr (cc, nn)"
    and eqs: "c = Some cc" "uk = Some (unitKindFor (rr_kind m))" "n = Some nn" "gap = None"
    using assms(1) by (auto simp: bindingTarget_def success_simps)
  obtain u where "find (unitIs key cc (unitKindFor (rr_kind m)) nn) (db_units db) = Some u"
    using resolveUnit_found[OF res] by blast
  then have "(key, cc, unitKindFor (rr_kind m), nn) \<in> unitKey ` set (db_units db)"
    by (auto dest!: find_Some_in simp: unitIs_def intro: rev_image_eqI)
  with eqs assms(2) show ?thesis by (simp add: bindingFound_def)
qed

lemma bindingFound_mono:
  "unitKey ` set us \<subseteq> unitKey ` set vs \<Longrightarrow> bindingFound us m \<Longrightarrow> bindingFound vs m"
  by (auto simp: bindingFound_def split: option.splits)

lemma bindingsFound_frame:
  assumes "bindingsFound db" "unitKey ` set (db_units db) \<subseteq> unitKey ` set (db_units db')"
    "set (db_members db') \<subseteq> set (db_members db)"
  shows "bindingsFound db'"
  using assms bindingFound_mono unfolding bindingsFound_def by blast

lemma bindingsFound_change:
  assumes "journalChange sha lim db db'" "bindingsFound db" "uniqueKeys db"
  shows "bindingsFound db'"
  using assms(1)
proof (cases rule: journalChange.cases)
  case (unitFields P f)
  then show ?thesis
    by (intro bindingsFound_frame[OF assms(2)]) (simp_all add: updateUnits_def image_updateWhere unitFrame_def)
next
  case (addRecord scope cid row r old changed)
  have "bindingFound units (memberRowOf (sc_key scope) cid r)" for units
    by (simp add: bindingFound_def memberRowOf_def record_row.defs member_row.defs)
  then show ?thesis using assms(2) unfolding addRecord(1)
    by (simp add: bindingsFound_def storeObservation_def Let_def statement_defs)
next
  case (bindMember key cid k rk m b c uk n gap)
  have "x = m" if "x \<in> set (db_members db)" "memberIs key cid k rk x" for x
    using find_unique_key[of memberKey "db_members db" x "(key, cid, k, rk)"] that bindMember(2) assms(3)
    by (simp add: uniqueKeys_def memberIs_def[abs_def])
  moreover have "mb_scope m = key"
    using bindMember(2) by (auto dest: find_Some_in simp: memberIs_def memberKey_def)
  ultimately show ?thesis
    using assms(2) bindingTarget_found[OF bindMember(5)] unfolding bindMember(1)
    by (auto simp: bindingsFound_def updateMembers_def ball_updateWhere)
next
  case (drop key cid row eligible limit db1 removed)
  have rid: "cp_id row = cid" using drop(2) captureRow_id by blast
  have "unitKey ` set (updateWhere P (\<lambda>r. r\<lparr>un_body := None\<rparr>) units) = unitKey ` set units" for P units
    by (rule image_updateWhere) (simp add: unitKey_def)
  then show ?thesis using drop_fold(1)[OF drop(3) rid drop(4)] unfolding drop(1)
    by (intro bindingsFound_frame[OF assms(2)]) (simp_all add: statement_defs)
qed (rule bindingsFound_frame[OF assms(2)]; auto simp: statement_defs)+

theorem journalInv_change:
  assumes "journalChange sha lim db db'" "journalInv sha lim db"
  shows "journalInv sha lim db'"
  using assms unfolding journalInv_def
  by (auto intro: uniqueKeys_change oneUnactivated_change entriesCounted_change bytesAccounted_change
      retainedAccounted_change unitsSound_change contiguous_change statesSound_change membersCounted_change
      metadataSound_change versionsCurrent_change bindingsFound_change
      withinBudget_change[unfolded journalInv_def])

section \<open>Operations as changes\<close>

abbreviation journalSteps :: "sha256 \<Rightarrow> journal_limits \<Rightarrow> journal_db \<Rightarrow> journal_db \<Rightarrow> bool" where
  "journalSteps sha lim \<equiv> (journalChange sha lim)\<^sup>*\<^sup>*"

lemma steps_refl: "journalSteps sha lim db db"
  by simp

lemma steps_one: "journalChange sha lim db db' \<Longrightarrow> journalSteps sha lim db db'"
  by (rule r_into_rtranclp)

lemma steps_then: "journalSteps sha lim db db1 \<Longrightarrow> journalChange sha lim db1 db2 \<Longrightarrow> journalSteps sha lim db db2"
  by (rule rtranclp.rtrancl_into_rtrancl)

lemma scopes_then:
  "journalSteps sha lim db db1 \<Longrightarrow> (\<And>r. scopeFrame r (f r)) \<Longrightarrow> journalSteps sha lim db (updateScopes P f db1)"
  by (erule steps_then) (rule journalChange.scopeFields)

lemma captures_then:
  "journalSteps sha lim db db1 \<Longrightarrow> (\<And>r. r \<in> set (db_captures db1) \<Longrightarrow> P r \<Longrightarrow> captureFrame r (f r)) \<Longrightarrow>
   journalSteps sha lim db (updateCaptures P f db1)"
  by (erule steps_then) (rule journalChange.captureFields)

lemma units_then:
  "journalSteps sha lim db db1 \<Longrightarrow> (\<And>r. r \<in> set (db_units db1) \<Longrightarrow> P r \<Longrightarrow> unitFrame r (f r)) \<Longrightarrow>
   journalSteps sha lim db (updateUnits P f db1)"
  by (erule steps_then) (rule journalChange.unitFields)

lemma dropSource_then: "journalSteps sha lim db db1 \<Longrightarrow> journalSteps sha lim db (updateCaptures P dropSourceMetadata db1)"
  by (erule steps_then) (rule journalChange.dropSource)

lemma dropAdoption_then: "journalSteps sha lim db db1 \<Longrightarrow> journalSteps sha lim db
     (updateScopes P (\<lambda>s. s\<lparr>sc_adoptionMetadata := None, sc_adoptionMetadataBytes := 0\<rparr>) db1)"
  by (erule steps_then) (rule journalChange.dropAdoption)

lemma journalInv_steps:
  assumes "journalSteps sha lim db db'" "journalInv sha lim db"
  shows "journalInv sha lim db'"
  using assms by (induction rule: rtranclp_induct) (auto intro: journalInv_change)

lemma freezeLegacyMigration_steps:
  assumes "freezeLegacyMigration sha lim p a input db = Inr (db', r)"
  shows "journalSteps sha lim db db'"
  using freezeLegacyMigration_effect[OF assms]
  by (cases "db' = db") (auto simp: metadataFits_def intro!: steps_one journalChange.addMigration)

lemma claim_steps:
  assumes "claim lim scope db = Inr (db', r)"
  shows "journalSteps sha lim db db'"
  using claim_effect[OF assms]
  by (auto simp: scopeFrame_def intro!: steps_one journalChange.scopeFields journalChange.addScope)

lemma ownerScope_found:
  "ownerScope db owner = Inr scope \<Longrightarrow>
   find (scopeIs (sc_key scope)) (db_scopes db) = Some scope \<and> sc_key scope \<in> sc_key ` set (db_scopes db)"
  by (auto simp: ownerScope_Inr dest: find_Some_in)

lemma adoptBaseline_steps:
  assumes "adoptBaseline sha lim owner floor v db = Inr (db', r)"
  shows "journalSteps sha lim db db'"
proof -
  obtain scope where scope: "ownerScope db owner = Inr scope" and
    e: "db' = db \<or>
      (sc_adoptionMetadataSha scope = None \<and> \<not> sc_recordsInitialized scope \<and> 0 \<le> floor \<and>
       (\<forall>c\<in>set (db_captures db). cp_scope c \<noteq> sc_key scope) \<and>
       int (length v) + db_retainedBytes db + db_metadataBytes db \<le> lim_pendingBytes lim \<and>
       db' = updateScopes (scopeIs (sc_key scope))
               (\<lambda>r. r\<lparr>sc_revisionFloor := floor, sc_adoptionMetadata := Some v,
                      sc_adoptionMetadataSha := Some (sha v), sc_adoptionMetadataBytes := int (length v)\<rparr>) db)"
    using adoptBaseline_effect[OF assms] by blast
  show ?thesis
    using e journalChange.adopt[OF conjunct1[OF ownerScope_found[OF scope]]] steps_one by blast
qed

lemma setSourceMetadata_steps:
  assumes "setSourceMetadata sha lim owner cid v db = Inr (db', r)"
  shows "journalSteps sha lim db db'"
  using setSourceMetadata_effect[OF assms]
proof (cases "db' = db")
  case False
  with setSourceMetadata_effect[OF assms] show ?thesis
    by (elim exE conjE disjE) (blast intro: steps_one journalChange.setSource)+
qed simp

lemma reserve_steps:
  assumes "reserve lim owner input db = Inr (db', r)"
  shows "journalSteps sha lim db db'"
  using reserve_effect[OF assms]
proof (elim exE conjE disjE)
  fix scope purpose track db1
  assume scope: "ownerScope db owner = Inr scope"
    and none: "find (captureIs (sc_key scope) (rsv_id input)) (db_captures db) = None"
    and free: "\<forall>c\<in>set (db_captures db). \<not> unactivatedIn (sc_key scope) c"
    and db1: "db1 = (if track then updateScopes (scopeIs (sc_key scope)) (\<lambda>r. r\<lparr>sc_recordsInitialized := True\<rparr>) db else db)"
    and cap: "1 + db_metadataEntries db1 \<le> lim_metadataEntries lim"
    and db': "db' = insertCapture (newCapture (sc_key scope) input purpose track) db1"
  have key: "sc_key ` set (db_scopes db1) = sc_key ` set (db_scopes db)"
    by (simp add: db1 updateScopes_def image_updateWhere)
  have "journalSteps sha lim db db1"
    unfolding db1 by (auto simp: scopeFrame_def intro!: steps_one journalChange.scopeFields)
  moreover have "journalChange sha lim db1 db'"
    unfolding db' using none free cap key ownerScope_found[OF scope]
    by (intro journalChange.addCapture) (auto simp: db1 updateScopes_def)
  ultimately show ?thesis by (rule steps_then)
qed simp

lemma appendUnit_steps:
  assumes "appendUnit sha lim owner cid k n content db = Inr (db', r)"
  shows "journalSteps sha lim db db'"
  using appendUnit_effect[OF assms]
  by (elim exE conjE disjE) (auto intro!: steps_one journalChange.addUnit)

lemma chooseVersion_row:
  assumes "chooseVersion scope cid rawOn input proposed old changed = Inr r" "old = None \<Longrightarrow> changed"
  shows "rr_kind r = rk_kind input \<and> rr_key r = rk_key input \<and> rr_fingerprint r = ri_fingerprint input \<and>
     rr_projectionVersion r = ri_projectionVersion input \<and>
     (old = None \<longrightarrow> rr_revision r = sc_revisionFloor scope + 1 \<and> 0 < rr_revision r) \<and>
     (\<forall>v. old = Some v \<longrightarrow> (if changed then rr_revision r = rr_revision v + 1 else rr_revision r = rr_revision v))"
  using assms
  by (auto simp: chooseVersion_def success_simps recordRow_def split: option.splits if_splits bool.splits)

lemma recordObservation_steps:
  assumes "recordObservation lim owner cid input db = Inr (db', v)"
  shows "journalSteps sha lim db db'"
  using recordObservation_effect[OF assms]
proof (elim exE conjE disjE)
  fix scope row old orphaned changed proposed r
  assume scope: "ownerScope db owner = Inr scope"
    and row: "find (captureIs (sc_key scope) cid) (db_captures db) = Some row" "cp_state row = Preparing" "\<not> cp_recordsRetired row"
    and none: "find (memberIs (sc_key scope) cid (rk_kind input) (rk_key input)) (db_members db) = None"
    and old: "old = findVersion db (sc_key scope) (rk_kind input) (rk_key input)"
    and cap: "(if old = None then 2 else 1) + db_metadataEntries db \<le> lim_metadataEntries lim"
    and changed: "changed = versionChanged input old (wasAbsent db scope (rk_kind input) (rk_key input) old) orphaned"
    and choose: "chooseVersion scope cid (cp_rawEnabled row) input proposed old changed = Inr r"
    and db': "db' = storeObservation scope cid changed r db"
  have new: "old = None \<Longrightarrow> changed" by (simp add: changed versionChanged_def)
  note r = chooseVersion_row[OF choose new]
  show ?thesis unfolding db'
    by (rule steps_one, rule journalChange.addRecord[OF row(1,2,3), where old = old])
       (use r none old cap new in \<open>auto split: if_splits\<close>)
qed simp

lemma bindRecord_steps:
  assumes "bindRecord owner cid ident b db = Inr (db', r)"
  shows "journalSteps sha lim db db'"
  using bindRecord_effect[OF assms]
  by (elim exE conjE disjE) (auto intro!: steps_one journalChange.bindMember)

lemma unique_row:
  assumes "uniqueKeys db" "find (captureIs key cid) (db_captures db) = Some row"
    "r \<in> set (db_captures db)" "captureIs key cid r"
  shows "r = row"
  using unique_capture[OF _ assms(2,3)] assms(1,4) by (simp add: uniqueKeys_def captureIs_def)

lemma unique_unit:
  assumes "uniqueKeys db" "find (unitIs key cid k n) (db_units db) = Some u"
    "r \<in> set (db_units db)" "unitIs key cid k n r"
  shows "r = u"
  using find_unique_key[of unitKey "db_units db" r "(key, cid, k, n)"] assms
  by (simp add: uniqueKeys_def unitIs_def[abs_def])

lemma scopeFields_step:
  "(\<And>r. scopeFrame r (f r)) \<Longrightarrow> journalChange sha lim db (updateScopes P f db)"
  by (rule journalChange.scopeFields)

lemma complete_steps: "journalSteps sha lim db (complete key cid db)"
proof -
  have "captureFrame r (r\<lparr>cp_state := Completed\<rparr>)" if "cp_activationReceipt r \<noteq> None" for r
    using that by (auto simp: captureFrame_def captureKey_def kept_def stateSound_def)
  then show ?thesis
    unfolding complete_def by (auto intro!: steps_one journalChange.captureFields)
qed

lemma seal_steps:
  assumes "seal lim owner cid manifest db = Inr (db', r)" "uniqueKeys db"
  shows "journalSteps sha lim db db'"
  using seal_effect[OF assms(1)]
proof (elim exE conjE disjE)
  fix scope row recs
  assume row: "find (captureIs (sc_key scope) cid) (db_captures db) = Some row"
      "cp_state row = Preparing" "cp_sealJson row = None"
    and db': "db' = sealWork (sc_key scope) cid (stringify (sealJson (manifest\<lparr>sl_records := recs\<rparr>))) recs db"
  have frame: "captureFrame r (r\<lparr>cp_state := Sealed, cp_sealJson := Some e\<rparr>)"
    if "r \<in> set (db_captures db)" "captureIs (sc_key scope) cid r" for r e
    using unique_row[OF assms(2) row(1) that] row(2,3)
    by (auto simp: captureFrame_def captureKey_def kept_def stateSound_def)
  have scopes: "scopeFrame r (r\<lparr>sc_observedCanonical := x\<rparr>)" "scopeFrame r (r\<lparr>sc_observedRaw := x\<rparr>)" for r x
    by (simp_all add: scopeFrame_def)
  show ?thesis
    unfolding db' sealWork_def Let_def
    by (cases recs) (auto intro!: scopes_then captures_then frame scopes)
qed simp

lemma settleCanonical_steps:
  assumes "settleCanonical key row n receipt db = Inr (db', r)" "uniqueKeys db"
  shows "journalSteps sha lim db db'"
proof -
  have "unitFrame u (u\<lparr>un_disposition := Acknowledged, un_receiptJson := Some receipt\<rparr>)"
    if "un_receiptJson u = None" for u
    using that by (simp add: unitFrame_def unitKey_def kept_def)
  then show ?thesis
    using assms unique_unit[OF assms(2)] unfolding settleCanonical_def
    by (auto simp: success_simps intro!: steps_one journalChange.unitFields split: option.splits if_splits) metis
qed

lemma settleRaw_steps:
  assumes "settleRaw key row n receipt db = Inr (db', r)" "uniqueKeys db"
  shows "journalSteps sha lim db db'"
proof -
  obtain u where u: "find (unitIs key (cp_id row) Raw n) (db_units db) = Some u"
      "un_receiptJson u = None \<or> un_receiptJson u = Some receipt"
    and db': "db' = complete key (cp_id row) (updateUnits (unitIs key (cp_id row) Raw n)
       (\<lambda>u. u\<lparr>un_disposition := Acknowledged, un_receiptJson := Some receipt\<rparr>) db)"
    using assms(1) unfolding settleRaw_def by (auto simp: success_simps split: option.splits if_splits)
  have "unitFrame v (v\<lparr>un_disposition := Acknowledged, un_receiptJson := Some receipt\<rparr>)"
    if "v \<in> set (db_units db)" "unitIs key (cp_id row) Raw n v" for v
    using unique_unit[OF assms(2) u(1) that] u(2) by (auto simp: unitFrame_def unitKey_def kept_def)
  then show ?thesis unfolding db'
    by (intro rtranclp_trans[OF steps_one complete_steps] journalChange.unitFields)
qed

lemma unitCancel_frame: "un_disposition u = Pending \<Longrightarrow> unitFrame u (u\<lparr>un_disposition := Canceled\<rparr>)"
  by (simp add: unitFrame_def unitKey_def kept_def)

lemma settleRawUnitCanceled_steps:
  assumes "settleRawUnitCanceled key row n db = Inr (db', r)"
  shows "journalSteps sha lim db db'"
proof -
  have "journalSteps sha lim db (complete key (cp_id row)
      (updateUnits (\<lambda>u. P u \<and> un_disposition u = Pending) (\<lambda>u. u\<lparr>un_disposition := Canceled\<rparr>) db))" for P
    by (rule rtranclp_trans[OF _ complete_steps]) (auto intro: units_then unitCancel_frame)
  then show ?thesis using assms unfolding settleRawUnitCanceled_def by (auto simp: success_simps)
qed

lemma settleRawCancellation_steps:
  assumes "settleRawCancellation finished key row reason db = Inr (db', r)"
  shows "journalSteps sha lim db db'"
proof -
  let ?f = "\<lambda>r. r\<lparr>cp_rawCancelReason := (case cp_rawCancelReason r of None \<Rightarrow> Some reason | Some old \<Rightarrow> Some old)\<rparr>"
  let ?db1 = "updateCaptures (captureIs key (cp_id row)) ?f db"
  let ?db2 = "if finished then updateUnits (\<lambda>u. unitOf key (cp_id row) u \<and> un_kind u = Raw \<and> un_disposition u = Pending)
                (\<lambda>u. u\<lparr>un_disposition := Canceled\<rparr>) ?db1 else ?db1"
  have db': "db' = complete key (cp_id row) ?db2"
    using assms unfolding settleRawCancellation_def Let_def by (auto simp: bindE_Inr_iff simp del: if_split_asm)
  have "captureFrame c (?f c)" for c
    by (auto simp: captureFrame_def captureKey_def kept_def stateSound_def split: option.splits)
  then have "journalSteps sha lim db ?db1" by (intro captures_then steps_refl)
  then have "journalSteps sha lim db ?db2" by (auto intro!: units_then unitCancel_frame)
  then show ?thesis unfolding db' by (rule rtranclp_trans[OF _ complete_steps])
qed

lemma abandon_frame:
  "cp_state r \<in> {Preparing, Sealed} \<Longrightarrow> captureFrame r (r\<lparr>cp_state := Abandoned\<rparr>)"
  "cp_state r \<in> {Preparing, Sealed} \<Longrightarrow> cp_rejectionReceipt r = None \<Longrightarrow>
   captureFrame r (r\<lparr>cp_state := Abandoned, cp_rejectionReceipt := Some receipt\<rparr>)"
  by (auto simp: captureFrame_def captureKey_def kept_def stateSound_def)

lemma settleRejected_steps:
  assumes "settleRejected key row receipt db = Inr (db', r)" "uniqueKeys db"
    "find (captureIs key (cp_id row)) (db_captures db) = Some row"
  shows "journalSteps sha lim db db'"
proof (cases "cp_rejectionReceipt row")
  case None
  then have st: "cp_state row = Sealed"
    and db': "db' = updateCaptures (captureIs key (cp_id row)) dropSourceMetadata
       (updateCaptures (captureIs key (cp_id row)) (\<lambda>r. r\<lparr>cp_state := Abandoned, cp_rejectionReceipt := Some receipt\<rparr>) db)"
    using assms(1) unfolding settleRejected_def by (auto simp: success_simps split: if_splits)
  have "captureFrame c (c\<lparr>cp_state := Abandoned, cp_rejectionReceipt := Some receipt\<rparr>)"
    if "c \<in> set (db_captures db)" "captureIs key (cp_id row) c" for c
    using unique_row[OF assms(2,3) that] st None by (simp add: abandon_frame)
  then show ?thesis unfolding db'
    by (intro dropSource_then captures_then steps_refl)
qed (use assms(1) in \<open>auto simp: settleRejected_def success_simps\<close>)

lemma settleAbandon_steps:
  assumes "settleAbandon key row db = Inr (db', r)" "uniqueKeys db"
    "find (captureIs key (cp_id row)) (db_captures db) = Some row"
  shows "journalSteps sha lim db db'"
proof (cases "cp_state row = Abandoned")
  case False
  then have st: "cp_state row = Preparing"
    and db': "db' = updateCaptures (captureIs key (cp_id row)) dropSourceMetadata
       (updateCaptures (captureIs key (cp_id row)) (\<lambda>r. r\<lparr>cp_state := Abandoned\<rparr>) db)"
    using assms(1) unfolding settleAbandon_def by (auto simp: success_simps split: if_splits)
  have "captureFrame c (c\<lparr>cp_state := Abandoned\<rparr>)"
    if "c \<in> set (db_captures db)" "captureIs key (cp_id row) c" for c
    using unique_row[OF assms(2,3) that] st by (simp add: abandon_frame)
  then show ?thesis unfolding db'
    by (intro dropSource_then captures_then steps_refl)
qed (use assms(1) in \<open>simp add: settleAbandon_def\<close>)

lemma activatePublication_steps: "journalSteps sha lim db (activatePublication key row next db)"
proof -
  have scopes: "scopeFrame r (r\<lparr>sc_checkpoint := x\<rparr>)" "scopeFrame r (r\<lparr>sc_canonicalCoverage := x\<rparr>)" for r x
    by (simp_all add: scopeFrame_def)
  show ?thesis
    unfolding activatePublication_def Let_def
    by (cases "cp_trackRecords row")
       (simp_all, (rule dropSource_then dropAdoption_then, rule dropAdoption_then, (rule scopes_then)+, rule steps_refl, (rule scopes)+)+)
qed

lemma settleActivated_steps:
  assumes "settleActivated scope row receipt db = Inr (db', r)" "uniqueKeys db"
    "find (captureIs (sc_key scope) (cp_id row)) (db_captures db) = Some row"
  shows "journalSteps sha lim db db'"
proof (cases "cp_activationReceipt row")
  case None
  then obtain sealed m where st: "cp_state row = Sealed" "cp_sealJson row = Some sealed" "parsedSeal sealed = Inr m"
    and db': "db' = complete (sc_key scope) (cp_id row)
       (if cp_purpose row = Publication
        then activatePublication (sc_key scope) row (sl_nextCheckpoint m)
               (updateCaptures (captureIs (sc_key scope) (cp_id row))
                  (\<lambda>r. r\<lparr>cp_state := Activated, cp_activationReceipt := Some receipt\<rparr>) db)
        else updateCaptures (captureIs (sc_key scope) (cp_id row))
                  (\<lambda>r. r\<lparr>cp_state := Activated, cp_activationReceipt := Some receipt\<rparr>) db)"
    using assms(1) unfolding settleActivated_def
    by (auto simp: success_simps Let_def split: option.splits if_split_asm)
  have "captureFrame c (c\<lparr>cp_state := Activated, cp_activationReceipt := Some receipt\<rparr>)"
    if "c \<in> set (db_captures db)" "captureIs (sc_key scope) (cp_id row) c" for c
    using unique_row[OF assms(2,3) that] st None
    by (auto simp: captureFrame_def captureKey_def kept_def stateSound_def)
  then have one: "journalSteps sha lim db (updateCaptures (captureIs (sc_key scope) (cp_id row))
      (\<lambda>r. r\<lparr>cp_state := Activated, cp_activationReceipt := Some receipt\<rparr>) db)"
    by (intro steps_one journalChange.captureFields)
  show ?thesis unfolding db'
    by (rule rtranclp_trans[OF _ complete_steps]) (auto intro: one rtranclp_trans[OF one activatePublication_steps])
qed (use assms(1) in \<open>auto simp: settleActivated_def success_simps\<close>)

lemma settle_steps:
  assumes "settle owner cid s db = Inr (db', r)" "uniqueKeys db"
  shows "journalSteps sha lim db db'"
proof -
  obtain scope row where found: "find (captureIs (sc_key scope) cid) (db_captures db) = Some row" "cp_id row = cid"
    and work: "case s of
         CanonicalAcknowledged n receipt \<Rightarrow> settleCanonical (sc_key scope) row n receipt db = Inr (db', r)
       | SettleActivated receipt \<Rightarrow> settleActivated scope row receipt db = Inr (db', r)
       | RawAcknowledged n receipt \<Rightarrow> settleRaw (sc_key scope) row n receipt db = Inr (db', r)
       | RawUnitCanceled n \<Rightarrow> settleRawUnitCanceled (sc_key scope) row n db = Inr (db', r)
       | RawCancellationStarted reason \<Rightarrow> settleRawCancellation False (sc_key scope) row reason db = Inr (db', r)
       | RawCanceled reason \<Rightarrow> settleRawCancellation True (sc_key scope) row reason db = Inr (db', r)
       | Rejected receipt \<Rightarrow> settleRejected (sc_key scope) row receipt db = Inr (db', r)
       | AbandonUnsealed \<Rightarrow> settleAbandon (sc_key scope) row db = Inr (db', r)"
    using settle_effect[OF assms(1)] by blast
  have row: "find (captureIs (sc_key scope) (cp_id row)) (db_captures db) = Some row" using found by simp
  show ?thesis
    using work
    by (cases s) (auto intro: settleCanonical_steps[OF _ assms(2)] settleActivated_steps[OF _ assms(2) row]
        settleRaw_steps[OF _ assms(2)] settleRawUnitCanceled_steps settleRawCancellation_steps
        settleRejected_steps[OF _ assms(2) row] settleAbandon_steps[OF _ assms(2) row])
qed

lemma pruneRecords_steps:
  assumes "pruneRecords owner limit db = Inr (db', n)"
  shows "journalSteps sha lim db db'"
  using pruneRecords_effect[OF assms]
  by (elim exE conjE disjE) (auto intro: steps_one journalChange.retire)

lemma reclaim_steps:
  assumes "reclaim owner cid limit db = Inr (db', n)"
  shows "journalSteps sha lim db db'"
  using reclaim_effect[OF assms]
  by (elim exE conjE) (auto intro: steps_one journalChange.drop)

end
