(* ===== verification/JournalHistory.thy ===== *)
theory JournalHistory
  imports JournalSafety
begin

text \<open>Histories of the capture journal: the calls a client can make, the sequences of calls
  from a created journal, and the growth relation between an earlier and a later state.\<close>

section \<open>Growth\<close>

definition unitContent :: "unit_row \<Rightarrow> (string \<times> string \<times> unit_kind \<times> int) \<times> string \<times> int" where
  "unitContent u = (unitKey u, un_digest u, un_byteCount u)"

definition captureContent :: "string \<Rightarrow> string \<Rightarrow> unit_row list \<Rightarrow> ((string \<times> string \<times> unit_kind \<times> int) \<times> string \<times> int) list" where
  "captureContent key cid units = map unitContent (filter (unitOf key cid) units)"

definition scopeGrows :: "scope_row \<Rightarrow> scope_row \<Rightarrow> bool" where
  "scopeGrows s t \<longleftrightarrow> sc_key t = sc_key s \<and> sc_originKey t = sc_originKey s \<and> sc_epoch s \<le> sc_epoch t"

definition captureGrows :: "capture_row \<Rightarrow> capture_row \<Rightarrow> bool" where
  "captureGrows c d \<longleftrightarrow> captureKey d = captureKey c \<and> cp_expectedCheckpoint d = cp_expectedCheckpoint c \<and>
     cp_beginJson d = cp_beginJson c \<and> cp_rawEnabled d = cp_rawEnabled c \<and> cp_purpose d = cp_purpose c \<and>
     cp_trackRecords d = cp_trackRecords c \<and> kept (cp_sealJson c) (cp_sealJson d) \<and>
     kept (cp_activationReceipt c) (cp_activationReceipt d) \<and> kept (cp_rawCancelReason c) (cp_rawCancelReason d) \<and>
     kept (cp_rejectionReceipt c) (cp_rejectionReceipt d)"

definition unitGrows :: "unit_row \<Rightarrow> unit_row \<Rightarrow> bool" where
  "unitGrows u v \<longleftrightarrow> unitContent v = unitContent u \<and> (un_body v = None \<or> un_body v = un_body u) \<and>
     kept (un_receiptJson u) (un_receiptJson v) \<and> (un_disposition u = Acknowledged \<longrightarrow> un_disposition v = Acknowledged)"

definition grows :: "journal_db \<Rightarrow> journal_db \<Rightarrow> bool" where
  "grows db db' \<longleftrightarrow>
     (\<forall>s\<in>set (db_scopes db). \<exists>t\<in>set (db_scopes db'). scopeGrows s t) \<and>
     (\<forall>c\<in>set (db_captures db). \<exists>d\<in>set (db_captures db'). captureGrows c d \<and>
        (cp_sealJson c \<noteq> None \<longrightarrow>
           captureContent (cp_scope c) (cp_id c) (db_units db') = captureContent (cp_scope c) (cp_id c) (db_units db))) \<and>
     (\<forall>u\<in>set (db_units db). \<exists>v\<in>set (db_units db'). unitGrows u v)"

lemma kept_trans: "kept a b \<Longrightarrow> kept b c \<Longrightarrow> kept a c"
  by (auto simp: kept_def)

lemma kept_refl [simp]: "kept a a"
  by (simp add: kept_def)

lemma scopeGrows_trans: "scopeGrows a b \<Longrightarrow> scopeGrows b c \<Longrightarrow> scopeGrows a c"
  by (auto simp: scopeGrows_def)

lemma captureGrows_trans: "captureGrows a b \<Longrightarrow> captureGrows b c \<Longrightarrow> captureGrows a c"
  unfolding captureGrows_def by (auto intro: kept_trans)

lemma unitGrows_trans: "unitGrows a b \<Longrightarrow> unitGrows b c \<Longrightarrow> unitGrows a c"
  unfolding unitGrows_def by (auto intro: kept_trans)

lemma grows_refl: "grows db db"
  by (force simp: grows_def scopeGrows_def captureGrows_def unitGrows_def)

lemma grows_trans:
  assumes "grows a b" "grows b c"
  shows "grows a c"
  unfolding grows_def
proof (intro conjI ballI)
  fix s assume "s \<in> set (db_scopes a)"
  then show "\<exists>t\<in>set (db_scopes c). scopeGrows s t" using assms unfolding grows_def by (meson scopeGrows_trans)
next
  fix u assume "u \<in> set (db_units a)"
  then show "\<exists>v\<in>set (db_units c). unitGrows u v" using assms unfolding grows_def by (meson unitGrows_trans)
next
  fix x assume "x \<in> set (db_captures a)"
  then obtain y where y: "y \<in> set (db_captures b)" "captureGrows x y"
      "cp_sealJson x \<noteq> None \<longrightarrow> captureContent (cp_scope x) (cp_id x) (db_units b) = captureContent (cp_scope x) (cp_id x) (db_units a)"
    using assms(1) unfolding grows_def by blast
  then obtain z where z: "z \<in> set (db_captures c)" "captureGrows y z"
      "cp_sealJson y \<noteq> None \<longrightarrow> captureContent (cp_scope y) (cp_id y) (db_units c) = captureContent (cp_scope y) (cp_id y) (db_units b)"
    using assms(2) unfolding grows_def by blast
  have "cp_scope y = cp_scope x" "cp_id y = cp_id x" "cp_sealJson x \<noteq> None \<Longrightarrow> cp_sealJson y \<noteq> None"
    using y(2) by (auto simp: captureGrows_def captureKey_def kept_def)
  then show "\<exists>d\<in>set (db_captures c). captureGrows x d \<and> (cp_sealJson x \<noteq> None \<longrightarrow>
      captureContent (cp_scope x) (cp_id x) (db_units c) = captureContent (cp_scope x) (cp_id x) (db_units a))"
    using y z captureGrows_trans by (intro bexI[of _ z]) auto
qed

lemma grows_by_parts:
  assumes "\<And>s. s \<in> set (db_scopes db) \<Longrightarrow> \<exists>t\<in>set (db_scopes db'). scopeGrows s t"
    "\<And>c. c \<in> set (db_captures db) \<Longrightarrow> \<exists>d\<in>set (db_captures db'). captureGrows c d"
    "map unitContent (db_units db') = map unitContent (db_units db)"
    "\<And>u. u \<in> set (db_units db) \<Longrightarrow> \<exists>v\<in>set (db_units db'). unitGrows u v"
  shows "grows db db'"
proof -
  have "captureContent key cid us = filter (\<lambda>(k, _). fst k = key \<and> fst (snd k) = cid) (map unitContent us)" for key cid us
    by (induction us) (auto simp: captureContent_def unitContent_def unitKey_def unitOf_def)
  then show ?thesis unfolding grows_def using assms by simp
qed

lemma grows_updateWhere:
  "(\<And>r. r \<in> set rows \<Longrightarrow> P r \<Longrightarrow> R r (f r)) \<Longrightarrow> (\<And>r. R r r) \<Longrightarrow> r \<in> set rows \<Longrightarrow>
   \<exists>s\<in>set (updateWhere P f rows). R r s"
  by (induction rows) auto

lemma self_grows [simp]: "scopeGrows s s" "captureGrows c c" "unitGrows u u"
  by (simp_all add: scopeGrows_def captureGrows_def unitGrows_def)

lemma found_itself:
  "s \<in> A \<Longrightarrow> \<exists>t\<in>A. scopeGrows s t" "c \<in> B \<Longrightarrow> \<exists>d\<in>B. captureGrows c d" "u \<in> C \<Longrightarrow> \<exists>v\<in>C. unitGrows u v"
  by (auto intro: bexI self_grows)

lemma grows_captures:
  assumes "\<And>r. r \<in> set (db_captures db) \<Longrightarrow> P r \<Longrightarrow> captureGrows r (f r)"
  shows "grows db (updateCaptures P f db)"
  using assms by (intro grows_by_parts) (auto simp: updateCaptures_def intro: grows_updateWhere found_itself)

lemma grows_scopes:
  assumes "\<And>r. r \<in> set (db_scopes db) \<Longrightarrow> P r \<Longrightarrow> scopeGrows r (f r)"
  shows "grows db (updateScopes P f db)"
  using assms by (intro grows_by_parts) (auto simp: updateScopes_def intro: grows_updateWhere found_itself)

lemma grows_units:
  assumes "\<And>r. r \<in> set (db_units db) \<Longrightarrow> P r \<Longrightarrow> unitGrows r (f r)"
  shows "grows db (updateUnits P f db)"
proof (intro grows_by_parts)
  have "unitContent (f r) = unitContent r" if "r \<in> set (db_units db)" "P r" for r
    using assms[OF that] by (simp add: unitGrows_def)
  then show "map unitContent (db_units (updateUnits P f db)) = map unitContent (db_units db)"
    by (simp add: updateUnits_def map_updateWhere_same)
qed (use assms in \<open>auto simp: updateUnits_def intro: grows_updateWhere found_itself\<close>)

lemma grows_same:
  assumes "set (db_scopes db) \<subseteq> set (db_scopes db')" "set (db_captures db) \<subseteq> set (db_captures db')"
    "db_units db' = db_units db"
  shows "grows db db'"
  using assms by (intro grows_by_parts) (auto intro: found_itself)

lemma grows_addUnit:
  assumes "find (captureIs (un_scope u) (un_capture u)) (db_captures db) = Some row" "cp_state row = Preparing"
    "uniqueKeys db" "statesSound db"
  shows "grows db (insertUnit u db)"
proof -
  have "captureContent (cp_scope c) (cp_id c) (db_units db @ [u]) = captureContent (cp_scope c) (cp_id c) (db_units db)"
    if "c \<in> set (db_captures db)" "cp_sealJson c \<noteq> None" for c
  proof -
    have "c \<noteq> row" using that(2) assms(2) find_capture_in[OF assms(1)] assms(4)
      by (auto simp: statesSound_def stateSound_def)
    then have "\<not> captureIs (un_scope u) (un_capture u) c"
      using unique_row[OF assms(3,1) that(1)] by blast
    then show ?thesis by (auto simp: captureContent_def captureIs_def captureKey_def unitOf_def)
  qed
  then show ?thesis
    by (force simp: grows_def insertUnit_def intro: found_itself self_grows)
qed

lemma grows_change:
  assumes "journalChange sha lim db db'" "uniqueKeys db" "statesSound db"
  shows "grows db db'"
  using assms(1)
proof (cases rule: journalChange.cases)
  case (scopeFields P f)
  then show ?thesis by (simp add: grows_scopes scopeFrame_def scopeGrows_def)
next
  case (captureFields P f)
  then show ?thesis by (simp add: grows_captures captureFrame_def captureGrows_def)
next
  case (unitFields P f)
  then show ?thesis
    by (simp add: grows_units unitFrame_def unitGrows_def unitContent_def)
next
  case (addUnit key cid row k n content)
  have "grows db (insertUnit (newUnit sha key cid k n content) db)"
    using addUnit(2,3) assms(2,3) by (intro grows_addUnit) (simp_all add: newUnit_def)
  moreover have "grows d (addRetained m d)" for d m
    by (rule grows_same) (simp_all add: addRetained_def)
  moreover have "grows d (updateCaptures P (\<lambda>r. r\<lparr>cp_retainedBytes := g r\<rparr>) d)" for d P g
    by (rule grows_captures) (simp add: captureGrows_def)
  ultimately show ?thesis unfolding addUnit(1) by (meson grows_trans)
next
  case (addRecord scope cid row r old changed)
  have "grows db (insertMember m (if changed then upsertVersion v db else db))" for m v
    by (rule grows_same) (simp_all add: insertMember_def)
  moreover have "grows d (updateCaptures P (\<lambda>c. c\<lparr>cp_recordCount := g c, cp_retainedRecords := h c\<rparr>) d)" for d P g h
    by (rule grows_captures) (simp add: captureGrows_def)
  ultimately show ?thesis unfolding addRecord(1) storeObservation_def Let_def by (meson grows_trans)
next
  case (retire row scope rows limit n)
  have "grows db (deleteMembers rows db)"
    by (rule grows_same) (simp_all add: deleteMembers_def)
  moreover have "grows d (updateCaptures P (\<lambda>c. c\<lparr>cp_recordsRetired := True, cp_retainedRecords := h c\<rparr>) d)" for d P h
    by (rule grows_captures) (simp add: captureGrows_def)
  ultimately show ?thesis unfolding retire(1) by (meson grows_trans)
next
  case (drop key cid row eligible limit db1 removed)
  have rid: "cp_id row = cid" using drop(2) captureRow_id by blast
  have "grows db db1" unfolding drop_fold(1)[OF drop(3) rid drop(4)]
    by (rule grows_units) (simp add: unitGrows_def unitContent_def unitKey_def)
  moreover have "grows d (addRetained m d)" for d m
    by (rule grows_same) (simp_all add: addRetained_def)
  moreover have "grows d (updateCaptures P (\<lambda>r. r\<lparr>cp_retainedBytes := g r\<rparr>) d)" for d P g
    by (rule grows_captures) (simp add: captureGrows_def)
  ultimately show ?thesis unfolding drop(1) by (meson grows_trans)
next
  case (adopt key scope v floor)
  then show ?thesis by (simp add: grows_scopes scopeGrows_def)
next
  case (dropAdoption P)
  then show ?thesis by (simp add: grows_scopes scopeGrows_def)
next
  case (setSource key cid row v)
  show ?thesis unfolding setSource(1) by (rule grows_captures) (simp add: captureGrows_def)
next
  case (dropSource P)
  show ?thesis unfolding dropSource
    by (rule grows_captures) (simp add: captureGrows_def dropSourceMetadata_def captureKey_def)
qed (rule grows_same; auto simp: statement_defs)+

lemma grows_steps:
  assumes "journalSteps sha lim db db'" "journalInv sha lim db"
  shows "grows db db'"
  using assms
proof (induction rule: rtranclp_induct)
  case base
  then show ?case by (simp add: grows_refl)
next
  case (step b c)
  have "journalInv sha lim b" using journalInv_steps[OF step(1) assms(2)] .
  then have "grows b c" using grows_change[OF step(2)] by (simp add: journalInv_def)
  with step show ?case using grows_trans by blast
qed

section \<open>Calls\<close>

text \<open>The state-changing calls of the journal service; runCall is one call inside its
  transaction, runCalls a client's whole history.\<close>

datatype journal_call =
    CallFreeze string string capture_legacy_migration
  | CallClaim capture_scope
  | CallAdopt capture_owner int string
  | CallSetSource capture_owner string string
  | CallReserve capture_owner capture_reservation
  | CallAppend capture_owner string unit_kind int bytes
  | CallRecord capture_owner string record_input
  | CallBind capture_owner string record_key record_binding
  | CallSeal capture_owner string capture_seal
  | CallSettle capture_owner string capture_settlement
  | CallPrune capture_owner int
  | CallReclaim capture_owner string int

definition forget :: "'a work \<Rightarrow> unit work" where
  "forget m = bindE m (\<lambda>(db, x). Inr (db, ()))"

definition callWork :: "sha256 \<Rightarrow> journal_limits \<Rightarrow> journal_call \<Rightarrow> journal_db \<Rightarrow> unit work" where
  "callWork sha lim c db = (case c of
       CallFreeze p a m \<Rightarrow> forget (freezeLegacyMigration sha lim p a m db)
     | CallClaim s \<Rightarrow> forget (claim lim s db)
     | CallAdopt o' n v \<Rightarrow> adoptBaseline sha lim o' n v db
     | CallSetSource o' i v \<Rightarrow> setSourceMetadata sha lim o' i v db
     | CallReserve o' r \<Rightarrow> reserve lim o' r db
     | CallAppend o' i k n b \<Rightarrow> appendUnit sha lim o' i k n b db
     | CallRecord o' i r \<Rightarrow> forget (recordObservation lim o' i r db)
     | CallBind o' i k b \<Rightarrow> bindRecord o' i k b db
     | CallSeal o' i m \<Rightarrow> seal lim o' i m db
     | CallSettle o' i s \<Rightarrow> settle o' i s db
     | CallPrune o' n \<Rightarrow> forget (pruneRecords o' n db)
     | CallReclaim o' i n \<Rightarrow> forget (reclaim o' i n db))"

definition callOwner :: "journal_call \<Rightarrow> capture_owner option" where
  "callOwner c = (case c of
       CallFreeze p a m \<Rightarrow> None | CallClaim s \<Rightarrow> None
     | CallAdopt o' n v \<Rightarrow> Some o' | CallSetSource o' i v \<Rightarrow> Some o' | CallReserve o' r \<Rightarrow> Some o'
     | CallAppend o' i k n b \<Rightarrow> Some o' | CallRecord o' i r \<Rightarrow> Some o' | CallBind o' i k b \<Rightarrow> Some o'
     | CallSeal o' i m \<Rightarrow> Some o' | CallSettle o' i s \<Rightarrow> Some o' | CallPrune o' n \<Rightarrow> Some o' | CallReclaim o' i n \<Rightarrow> Some o')"

definition runCall :: "sha256 \<Rightarrow> journal_limits \<Rightarrow> journal_db \<Rightarrow> journal_call \<Rightarrow> journal_db" where
  "runCall sha lim db c = fst (transaction (callWork sha lim c) db)"

definition callOutcome :: "sha256 \<Rightarrow> journal_limits \<Rightarrow> journal_db \<Rightarrow> journal_call \<Rightarrow> journal_reason option" where
  "callOutcome sha lim db c = (case snd (transaction (callWork sha lim c) db) of Inl e \<Rightarrow> Some e | Inr _ \<Rightarrow> None)"

definition runCalls :: "sha256 \<Rightarrow> journal_limits \<Rightarrow> journal_db \<Rightarrow> journal_call list \<Rightarrow> journal_db" where
  "runCalls sha lim db cs = foldl (runCall sha lim) db cs"

lemma forget_Inr: "forget m = Inr (db, u) \<longleftrightarrow> (\<exists>x. m = Inr (db, x))"
  by (auto simp: forget_def success_simps)

lemma callWork_steps:
  assumes "callWork sha lim c db = Inr (db', u)" "uniqueKeys db"
  shows "journalSteps sha lim db db'"
  using assms
  by (cases c) (auto simp: callWork_def forget_Inr intro: freezeLegacyMigration_steps claim_steps adoptBaseline_steps
      setSourceMetadata_steps reserve_steps appendUnit_steps recordObservation_steps bindRecord_steps seal_steps
      settle_steps pruneRecords_steps reclaim_steps)

lemma runCall_cases:
  "(\<exists>u. callWork sha lim c db = Inr (runCall sha lim db c, u) \<and> callOutcome sha lim db c = None) \<or>
   (runCall sha lim db c = db \<and> callOutcome sha lim db c \<noteq> None)"
  by (auto simp: runCall_def callOutcome_def transaction_def split: sum.splits)

lemma runCall_steps: "journalInv sha lim db \<Longrightarrow> journalSteps sha lim db (runCall sha lim db c)"
  using runCall_cases[of sha lim c db] callWork_steps[of sha lim c db] by (auto simp: journalInv_def)

lemma runCalls_snoc: "runCalls sha lim db (cs @ [c]) = runCall sha lim (runCalls sha lim db cs) c"
  by (simp add: runCalls_def)

lemma runCalls_steps: "journalInv sha lim db \<Longrightarrow> journalSteps sha lim db (runCalls sha lim db cs)"
proof (induction cs rule: rev_induct)
  case (snoc c cs)
  then show ?case
    unfolding runCalls_snoc by (metis journalInv_steps runCall_steps rtranclp_trans)
qed (simp add: runCalls_def)

lemma runCalls_inv: "journalInv sha lim db \<Longrightarrow> journalInv sha lim (runCalls sha lim db cs)"
  using runCalls_steps journalInv_steps by blast

lemma runCalls_grows: "journalInv sha lim db \<Longrightarrow> grows db (runCalls sha lim db cs)"
  using runCalls_steps grows_steps by blast

lemma emptyJournal_inv:
  assumes "0 \<le> lim_pendingBytes lim" "0 \<le> lim_metadataEntries lim"
  shows "journalInv sha lim (emptyJournal b)"
  using assms
  by (simp add: journalInv_def emptyJournal_def uniqueKeys_def oneUnactivated_def entriesCounted_def metadataRows_def
      bytesAccounted_def retainedAccounted_def unitsSound_def contiguous_def ordinalsOf_def statesSound_def
      membersCounted_def metadataSound_def withinBudget_def versionsCurrent_def bindingsFound_def)

lemma createJournal_inv:
  assumes "createJournal b lim = Inr db"
  shows "journalInv sha lim db"
  using assms
  by (auto simp: createJournal_def openExisting_def validateJournalOptions_def success_simps intro!: emptyJournal_inv
      split: option.splits)

end
