(* ===== verification/JournalProperties.thy ===== *)
theory JournalProperties
  imports JournalHistory
begin

text \<open>What the capture journal promises its clients, over every history of calls from a newly
  created journal, with a concrete history on which each promise is exercised.\<close>

section \<open>A concrete history\<close>

definition demoSha :: sha256 where
  "demoSha s = replicate 64 (CHR ''0'')"

definition demoLimits :: journal_limits where
  "demoLimits = \<lparr>lim_unitBytes = 16, lim_targetBytes = 64, lim_pendingBytes = 128,
     lim_unitsPerTarget = 4, lim_recordsPerTarget = Some 4, lim_metadataEntries = 64\<rparr>"

definition demoBinding :: capture_binding where
  "demoBinding = \<lparr>bd_instanceOrigin = ''i'', bd_userId = ''u'', bd_installationId = ''n''\<rparr>"

definition demoScope :: capture_scope where
  "demoScope = \<lparr>cs_projectId = ''p'', cs_adapterId = ''a'', cs_sourceSessionId = ''s'', cs_originKey = ''o''\<rparr>"

definition demoOwner :: "int \<Rightarrow> capture_owner" where
  "demoOwner n = \<lparr>ow_scope = demoScope, ow_epoch = n\<rparr>"

definition demoReserve :: capture_reservation where
  "demoReserve = \<lparr>rsv_trackRecords = Some True, rsv_purpose = None, rsv_id = ''c'', rsv_expectedCheckpoint = None,
     rsv_beginJson = ''{}'', rsv_rawEnabled = True\<rparr>"

definition demoSession :: record_input where
  "demoSession = \<lparr>rk_kind = SessionRecord, rk_key = ''s'', ri_fingerprint = replicate 64 (CHR ''a''),
     ri_projectionVersion = ''1'', ri_rawReference = None\<rparr>"

definition demoThread :: record_input where
  "demoThread = \<lparr>rk_kind = ThreadRecord, rk_key = ''t'', ri_fingerprint = replicate 64 (CHR ''b''),
     ri_projectionVersion = ''1'', ri_rawReference = None\<rparr>"

definition demoSeal :: capture_seal where
  "demoSeal = \<lparr>sl_records = Some \<lparr>rm_canonical = Some \<lparr>rc_session = 1, rc_thread = 1, rc_event = 0, rc_usage = 0\<rparr>, rm_raw = None\<rparr>,
     sl_canonicalUnits = 1, sl_rawUnits = 1, sl_nextCheckpoint = ''k'', sl_manifestJson = ''{}''\<rparr>"

definition demoPrepare :: "journal_call list" where
  "demoPrepare = [CallClaim demoScope, CallReserve (demoOwner 1) demoReserve,
     CallAppend (demoOwner 1) ''c'' Canonical 0 ''AB'', CallAppend (demoOwner 1) ''c'' Raw 0 ''R'',
     CallRecord (demoOwner 1) ''c'' demoSession, CallRecord (demoOwner 1) ''c'' demoThread,
     CallBind (demoOwner 1) ''c'' \<lparr>rk_kind = SessionRecord, rk_key = ''s''\<rparr> (BindUnit 0 None),
     CallBind (demoOwner 1) ''c'' \<lparr>rk_kind = ThreadRecord, rk_key = ''t''\<rparr> (BindUnit 0 None)]"

definition demoDeliver :: "journal_call list" where
  "demoDeliver = [CallSeal (demoOwner 1) ''c'' demoSeal,
     CallSettle (demoOwner 1) ''c'' (CanonicalAcknowledged 0 ''[]''),
     CallSettle (demoOwner 1) ''c'' (SettleActivated ''{}''),
     CallSettle (demoOwner 1) ''c'' (RawAcknowledged 0 ''[]'')]"

definition demoStart :: journal_db where
  "demoStart = emptyJournal demoBinding"

definition demoPrepared :: journal_db where
  "demoPrepared = runCalls demoSha demoLimits demoStart demoPrepare"

lemma demo_created: "createJournal demoBinding demoLimits = Inr demoStart"
  by code_simp



section \<open>The invariant over histories\<close>

text \<open>C1: Every history of calls on a newly created journal keeps the journal sound: keys are
  unique, at most one capture per source is preparing or sealed, the entry and byte counters
  equal what the tables hold, stored content matches its length and digest, unit ordinals are
  contiguous, records refer to current versions and existing units, and the retained and
  metadata bytes stay within the pending budget.\<close>
theorem journal_history_sound:
  assumes "createJournal b lim = Inr db0"
  shows "journalInv sha lim (runCalls sha lim db0 cs)"
  using runCalls_inv[OF createJournal_inv[OF assms]] .

theorem journal_history_sound_witness:
  "journalInv demoSha demoLimits (runCalls demoSha demoLimits demoStart (demoPrepare @ demoDeliver))"
  by (rule journal_history_sound[OF demo_created])

lemma history_inv: "createJournal b lim = Inr db0 \<Longrightarrow> journalInv sha lim (runCalls sha lim db0 cs)"
  using runCalls_inv[OF createJournal_inv] .

section \<open>Fencing\<close>

lemma callWork_owner:
  "callOwner c = Some owner \<Longrightarrow> ownerScope db owner = Inl e \<Longrightarrow> callWork sha lim c db = Inl e"
  by (cases c) (auto simp: callOwner_def callWork_def forget_def adoptBaseline_def setSourceMetadata_def reserve_def
      appendUnit_def recordObservation_def bindRecord_def seal_def settle_def pruneRecords_def reclaim_def)

lemma claim_row:
  assumes "claim lim scope db = Inr (db', cl)"
  shows "\<exists>key. scopeKey scope = Inr key \<and>
     (\<exists>t\<in>set (db_scopes db'). sc_key t = key \<and> sc_originKey t = cs_originKey scope \<and> sc_epoch t = ow_epoch cl)"
proof -
  obtain key where key: "scopeKey scope = Inr key" and
    e: "(\<exists>old. find (scopeIs key) (db_scopes db) = Some old \<and> sc_originKey old = cs_originKey scope \<and>
         ow_epoch cl = sc_epoch old + 1 \<and>
         db' = updateScopes (scopeIs key) (\<lambda>r. r\<lparr>sc_epoch := sc_epoch r + 1\<rparr>) db) \<or>
      (ow_epoch cl = 1 \<and> db' = insertScope (newScope key (cs_originKey scope)) db)"
    using claim_effect[OF assms] by blast
  from e have "\<exists>t\<in>set (db_scopes db'). sc_key t = key \<and> sc_originKey t = cs_originKey scope \<and> sc_epoch t = ow_epoch cl"
  proof (elim disjE exE conjE)
    fix old
    assume old: "find (scopeIs key) (db_scopes db) = Some old" "sc_originKey old = cs_originKey scope"
        "ow_epoch cl = sc_epoch old + 1" "db' = updateScopes (scopeIs key) (\<lambda>r. r\<lparr>sc_epoch := sc_epoch r + 1\<rparr>) db"
    have "old \<in> set (db_scopes db)" "scopeIs key old" using find_Some_in[OF old(1)] by simp_all
    then show ?thesis using old(2-4)
      by (intro bexI[of _ "old\<lparr>sc_epoch := sc_epoch old + 1\<rparr>"])
         (auto simp: updateScopes_def set_updateWhere scopeIs_def intro!: bexI[of _ old])
  qed (simp add: insertScope_def newScope_def)
  with key show ?thesis by blast
qed

lemma scope_found:
  assumes "uniqueKeys db" "t \<in> set (db_scopes db)"
  shows "find (scopeIs (sc_key t)) (db_scopes db) = Some t"
  using find_unique_key[OF _ assms(2), of sc_key] assms(1) by (simp add: uniqueKeys_def scopeIs_def[abs_def])

text \<open>C2: A later claim fences every earlier owner of the source for good: after the claim and
  whatever calls follow it, any state-changing call of an owner with a smaller epoch is
  refused as a conflict and changes nothing.\<close>
theorem superseded_owner_fenced:
  assumes "createJournal b lim = Inr db0"
    and "claim lim scope (runCalls sha lim db0 before) = Inr (db1, cl)"
    and "callOwner c = Some owner" "ow_scope owner = scope" "ow_epoch owner < ow_epoch cl"
  shows "runCall sha lim (runCalls sha lim db1 later) c = runCalls sha lim db1 later \<and>
     callOutcome sha lim (runCalls sha lim db1 later) c = Some JConflict"
proof -
  let ?db = "runCalls sha lim db0 before" and ?db2 = "runCalls sha lim db1 later"
  have inv1: "journalInv sha lim db1"
    using journalInv_steps[OF claim_steps[OF assms(2)] history_inv[OF assms(1)]] .
  obtain key t where key: "scopeKey scope = Inr key" and t: "t \<in> set (db_scopes db1)" "sc_key t = key"
      "sc_originKey t = cs_originKey scope" "sc_epoch t = ow_epoch cl"
    using claim_row[OF assms(2)] by blast
  obtain s where s: "s \<in> set (db_scopes ?db2)" "scopeGrows t s"
    using runCalls_grows[OF inv1, of later] t(1) unfolding grows_def by blast
  have "uniqueKeys ?db2" using runCalls_inv[OF inv1, of later] by (simp add: journalInv_def)
  then have "find (scopeIs key) (db_scopes ?db2) = Some s"
    using scope_found[OF _ s(1)] s(2) t(2) by (simp add: scopeGrows_def)
  then have "ownerScope ?db2 owner = Inl JConflict"
    using key s(2) t assms(4,5) by (auto simp: ownerScope_def scopeGrows_def)
  then have "callWork sha lim c ?db2 = Inl JConflict" by (rule callWork_owner[OF assms(3)])
  then show ?thesis by (simp add: runCall_def callOutcome_def transaction_def)
qed

definition demoClaimed :: journal_db where
  "demoClaimed = updateScopes (\<lambda>r. True) (\<lambda>r. r\<lparr>sc_epoch := 2\<rparr>) demoPrepared"

lemma demo_claimed:
  "claim demoLimits demoScope (runCalls demoSha demoLimits demoStart demoPrepare) =
     Inr (demoClaimed, \<lparr>ow_scope = demoScope, ow_epoch = 2, cl_checkpoint = None\<rparr>)"
  by code_simp

theorem superseded_owner_fenced_witness:
  "callOutcome demoSha demoLimits (runCalls demoSha demoLimits demoClaimed [CallPrune (demoOwner 2) 1])
     (CallSeal (demoOwner 1) ''c'' demoSeal) = Some JConflict"
proof -
  have "callOwner (CallSeal (demoOwner 1) ''c'' demoSeal) = Some (demoOwner 1)" by (simp add: callOwner_def)
  from superseded_owner_fenced[OF demo_created demo_claimed this]
  show ?thesis by (simp add: demoOwner_def)
qed

section \<open>Frozen content\<close>

text \<open>C3: A sealed capture is frozen.  Whatever calls follow, the capture still exists with the
  same seal, begin request, expected checkpoint, purpose and policies, and with exactly the
  same units (keys, digests and lengths, in order).\<close>
theorem sealed_capture_frozen:
  assumes "createJournal b lim = Inr db0" and "db = runCalls sha lim db0 before"
    and "c \<in> set (db_captures db)" "cp_sealJson c = Some s"
  shows "\<exists>d\<in>set (db_captures (runCalls sha lim db later)).
     captureKey d = captureKey c \<and> cp_sealJson d = Some s \<and> cp_beginJson d = cp_beginJson c \<and>
     cp_expectedCheckpoint d = cp_expectedCheckpoint c \<and> cp_purpose d = cp_purpose c \<and>
     cp_rawEnabled d = cp_rawEnabled c \<and> cp_trackRecords d = cp_trackRecords c \<and>
     captureContent (cp_scope c) (cp_id c) (db_units (runCalls sha lim db later)) =
     captureContent (cp_scope c) (cp_id c) (db_units db)"
proof -
  have "grows db (runCalls sha lim db later)"
    using runCalls_grows history_inv[OF assms(1)] assms(2) by blast
  then obtain d where "d \<in> set (db_captures (runCalls sha lim db later))" "captureGrows c d"
      "captureContent (cp_scope c) (cp_id c) (db_units (runCalls sha lim db later)) =
       captureContent (cp_scope c) (cp_id c) (db_units db)"
    using assms(3,4) unfolding grows_def by blast
  then show ?thesis using assms(4) by (auto simp: captureGrows_def kept_def intro!: bexI[of _ d])
qed

definition demoSealedRow :: capture_row where
  "demoSealedRow = hd (db_captures (runCalls demoSha demoLimits demoStart (demoPrepare @ take 1 demoDeliver)))"

theorem sealed_capture_frozen_witness:
  "\<exists>d\<in>set (db_captures (runCalls demoSha demoLimits
        (runCalls demoSha demoLimits demoStart (demoPrepare @ take 1 demoDeliver)) (drop 1 demoDeliver))).
     captureKey d = captureKey demoSealedRow \<and> cp_sealJson d = Some (stringify (sealJson demoSeal))"
proof -
  have "demoSealedRow \<in> set (db_captures (runCalls demoSha demoLimits demoStart (demoPrepare @ take 1 demoDeliver)))"
    "cp_sealJson demoSealedRow = Some (stringify (sealJson demoSeal))"
    by code_simp+
  from sealed_capture_frozen[OF demo_created refl this] show ?thesis by blast
qed


section \<open>Reading back\<close>

lemma appended_unit:
  assumes "appendUnit sha lim owner cid k n content db = Inr (db1, ())"
    and "ownerScope db owner = Inr scope" "find (unitIs (sc_key scope) cid k n) (db_units db) = None"
  shows "newUnit sha (sc_key scope) cid k n content \<in> set (db_units db1)"
  using appendUnit_effect[OF assms(1)] assms(2,3) by (auto simp: statement_defs)

lemma readUnit_row:
  assumes "readUnit sha lim owner cid k n db = Inr (db', b)"
  shows "db' = db \<and> (\<exists>scope u. ownerScope db owner = Inr scope \<and> u \<in> set (db_units db) \<and>
     unitKey u = (sc_key scope, cid, k, n) \<and> un_body u = Some b)"
proof -
  obtain scope row where sc: "ownerScope db owner = Inr scope" "captureRow db (sc_key scope) cid = Inr row"
    using assms unfolding readUnit_def by (auto simp: bindE_Inr_iff)
  obtain u where u: "find (unitIs (sc_key scope) cid k n) (db_units db) = Some u"
    using assms sc unfolding readUnit_def by (auto simp: bindE_Inr_iff split: if_splits option.splits)
  have "u \<in> set (db_units db)" "unitKey u = (sc_key scope, cid, k, n)"
    using find_Some_in[OF u] by (simp_all add: unitIs_def)
  moreover have "db' = db" "un_body u = Some b"
    using assms sc u unfolding readUnit_def by (auto simp: bindE_Inr_iff split: if_split_asm option.split_asm)
  ultimately show ?thesis using sc by blast
qed

lemma unique_unit_key:
  "uniqueKeys db \<Longrightarrow> u \<in> set (db_units db) \<Longrightarrow> v \<in> set (db_units db) \<Longrightarrow> unitKey u = unitKey v \<Longrightarrow> u = v"
  unfolding uniqueKeys_def by (metis distinct_map inj_onD)

text \<open>C4: What was appended is what is delivered: bytes appended as a new unit are, after any
  further calls, exactly the bytes a successful read of that unit returns.\<close>
theorem append_read_roundtrip:
  assumes "createJournal b lim = Inr db0" and "db = runCalls sha lim db0 before"
    and "ownerScope db owner = Inr scope" "find (unitIs (sc_key scope) cid k n) (db_units db) = None"
    and "appendUnit sha lim owner cid k n content db = Inr (db1, ())"
    and "ow_scope reader = ow_scope owner"
    and "readUnit sha lim reader cid k n (runCalls sha lim db1 later) = Inr (db2, out)"
  shows "out = content"
proof -
  let ?db = "runCalls sha lim db1 later"
  have inv1: "journalInv sha lim db1"
    using journalInv_steps[OF appendUnit_steps[OF assms(5)]] history_inv[OF assms(1)] assms(2) by blast
  let ?u = "newUnit sha (sc_key scope) cid k n content"
  obtain v where v: "v \<in> set (db_units ?db)" "unitGrows ?u v"
    using runCalls_grows[OF inv1, of later] appended_unit[OF assms(5,3,4)] unfolding grows_def by blast
  obtain sc w where w: "ownerScope ?db reader = Inr sc" "w \<in> set (db_units ?db)"
      "unitKey w = (sc_key sc, cid, k, n)" "un_body w = Some out"
    using readUnit_row[OF assms(7)] by blast
  have "sc_key sc = sc_key scope"
    using w(1) assms(3,6) by (simp add: ownerScope_Inr)
  then have "unitKey w = unitKey v"
    using w(3) v(2) by (simp add: unitGrows_def unitContent_def newUnit_def unitKey_def)
  then have "w = v"
    using unique_unit_key[OF _ w(2) v(1)] runCalls_inv[OF inv1, of later] by (simp add: journalInv_def)
  then show ?thesis using w(4) v(2) by (auto simp: unitGrows_def newUnit_def)
qed

definition demoAppended :: journal_db where
  "demoAppended = runCalls demoSha demoLimits demoStart (take 3 demoPrepare)"

definition demoReadable :: journal_db where
  "demoReadable = runCalls demoSha demoLimits demoAppended (drop 3 demoPrepare @ take 1 demoDeliver)"

theorem append_read_roundtrip_witness:
  "\<exists>out. readUnit demoSha demoLimits (demoOwner 1) ''c'' Canonical 0 demoReadable = Inr (demoReadable, out) \<and> out = ''AB''"
proof -
  let ?db = "runCalls demoSha demoLimits demoStart (take 2 demoPrepare)"
  have owner: "ownerScope ?db (demoOwner 1) = Inr (hd (db_scopes ?db))" by code_simp
  have new: "find (unitIs (sc_key (hd (db_scopes ?db))) ''c'' Canonical 0) (db_units ?db) = None" by code_simp
  have app: "appendUnit demoSha demoLimits (demoOwner 1) ''c'' Canonical 0 ''AB'' ?db = Inr (demoAppended, ())" by code_simp
  have "map_sum (\<lambda>e. e) fst (readUnit demoSha demoLimits (demoOwner 1) ''c'' Canonical 0 demoReadable) = Inr demoReadable"
    by code_simp
  then obtain out where out: "readUnit demoSha demoLimits (demoOwner 1) ''c'' Canonical 0 demoReadable = Inr (demoReadable, out)"
    by (cases "readUnit demoSha demoLimits (demoOwner 1) ''c'' Canonical 0 demoReadable") auto
  have "out = ''AB''"
    by (rule append_read_roundtrip[OF demo_created refl owner new app refl, of "drop 3 demoPrepare @ take 1 demoDeliver"])
       (use out in \<open>simp add: demoReadable_def\<close>)
  with out show ?thesis by blast
qed

section \<open>Receipts\<close>

text \<open>C5: A receipt always wins over cancellation: a unit acknowledged with a receipt keeps its
  acknowledged disposition and that receipt through every later call.\<close>
theorem receipt_survives:
  assumes "createJournal b lim = Inr db0" and "db = runCalls sha lim db0 before"
    and "u \<in> set (db_units db)" "un_disposition u = Acknowledged" "un_receiptJson u = Some receipt"
  shows "\<exists>v\<in>set (db_units (runCalls sha lim db later)).
     unitKey v = unitKey u \<and> un_disposition v = Acknowledged \<and> un_receiptJson v = Some receipt"
proof -
  have "grows db (runCalls sha lim db later)"
    using runCalls_grows history_inv[OF assms(1)] assms(2) by blast
  then obtain v where "v \<in> set (db_units (runCalls sha lim db later))" "unitGrows u v"
    using assms(3) unfolding grows_def by blast
  then show ?thesis using assms(4,5) by (auto simp: unitGrows_def unitContent_def kept_def intro!: bexI[of _ v])
qed

definition demoDelivered :: journal_db where
  "demoDelivered = runCalls demoSha demoLimits demoStart (demoPrepare @ demoDeliver)"

definition demoUnit :: "unit_kind \<Rightarrow> string \<Rightarrow> unit_row" where
  "demoUnit k content = (newUnit demoSha (stringify (JArr [JStr ''p'', JStr ''a'', JStr ''s''])) ''c'' k 0 content)
     \<lparr>un_disposition := Acknowledged, un_receiptJson := Some ''[]''\<rparr>"

lemma demo_delivered_units: "db_units demoDelivered = [demoUnit Canonical ''AB'', demoUnit Raw ''R'']"
  by code_simp

theorem receipt_survives_witness:
  "\<exists>v\<in>set (db_units (runCalls demoSha demoLimits demoDelivered
       [CallSettle (demoOwner 1) ''c'' (RawCanceled ''off''), CallReclaim (demoOwner 1) ''c'' 32])).
     unitKey v = unitKey (demoUnit Raw ''R'') \<and> un_disposition v = Acknowledged \<and> un_receiptJson v = Some ''[]''"
proof -
  have "demoUnit Raw ''R'' \<in> set (db_units demoDelivered)" by (simp add: demo_delivered_units)
  moreover have "un_disposition (demoUnit Raw ''R'') = Acknowledged" "un_receiptJson (demoUnit Raw ''R'') = Some ''[]''"
    by (simp_all add: demoUnit_def)
  ultimately show ?thesis by (rule receipt_survives[OF demo_created demoDelivered_def])
qed

section \<open>Checkpoints\<close>

definition checkpoints :: "journal_db \<Rightarrow> (string \<times> string option) list" where
  "checkpoints db = map (\<lambda>s. (sc_key s, sc_checkpoint s)) (db_scopes db)"

lemma checkpoints_updateScopes:
  "(\<And>r. sc_key (f r) = sc_key r \<and> sc_checkpoint (f r) = sc_checkpoint r) \<Longrightarrow> checkpoints (updateScopes P f db) = checkpoints db"
  by (simp add: checkpoints_def updateScopes_def map_updateWhere_same)

lemma checkpoints_optional:
  "(\<And>r. sc_key (f r) = sc_key r \<and> sc_checkpoint (f r) = sc_checkpoint r) \<Longrightarrow>
   checkpoints (if t then updateScopes P f db else db) = checkpoints db"
  by (simp add: checkpoints_updateScopes)

lemma checkpoints_frame [simp]:
  "checkpoints (updateCaptures P g db) = checkpoints db" "checkpoints (updateUnits Q h db) = checkpoints db"
  "checkpoints (updateMembers R k db) = checkpoints db" "checkpoints (insertUnit u db) = checkpoints db"
  "checkpoints (insertCapture c db) = checkpoints db" "checkpoints (insertMember m db) = checkpoints db"
  "checkpoints (insertMigration g' db) = checkpoints db" "checkpoints (deleteMembers rows db) = checkpoints db"
  "checkpoints (addRetained n db) = checkpoints db" "checkpoints (complete key cid db) = checkpoints db"
  "checkpoints (upsertVersion v db) = checkpoints db" "checkpoints (storeObservation sc cid ch r db) = checkpoints db"
  by (simp_all add: checkpoints_def statement_defs complete_def storeObservation_def Let_def)

lemma checkpoints_sealWork [simp]: "checkpoints (sealWork key cid e recs db) = checkpoints db"
  by (simp add: sealWork_def Let_def checkpoints_updateScopes split: option.splits)

lemma checkpoints_activatePublication:
  "checkpoints (activatePublication key row next db) =
   checkpoints (updateScopes (scopeIs key) (\<lambda>s. s\<lparr>sc_checkpoint := Some next\<rparr>) db)"
  by (simp add: activatePublication_def Let_def checkpoints_updateScopes)

lemma checkpoints_same_scopes:
  "db_scopes db1 = db_scopes db \<Longrightarrow> checkpoints (updateScopes P f db1) = checkpoints (updateScopes P f db)"
  by (simp add: checkpoints_def updateScopes_def)

lemma checkpoints_assigned:
  "checkpoints (updateScopes P (\<lambda>s. s\<lparr>sc_checkpoint := v\<rparr>) db) =
   map (\<lambda>x. (sc_key x, if P x then v else sc_checkpoint x)) (db_scopes db)"
  by (simp add: checkpoints_def updateScopes_def updateWhere_def)

lemma settleActivated_checkpoints:
  assumes "settleActivated scope row receipt db = Inr (db', r)" "cp_activationReceipt row = None"
  shows "\<exists>sealed m. cp_sealJson row = Some sealed \<and> parsedSeal sealed = Inr m \<and> cp_state row = Sealed \<and>
     sc_checkpoint scope = cp_expectedCheckpoint row \<and>
     checkpoints db' = (if cp_purpose row = Publication
         then checkpoints (updateScopes (scopeIs (sc_key scope)) (\<lambda>s. s\<lparr>sc_checkpoint := Some (sl_nextCheckpoint m)\<rparr>) db)
         else checkpoints db)"
proof -
  let ?db1 = "updateCaptures (captureIs (sc_key scope) (cp_id row))
                  (\<lambda>r. r\<lparr>cp_state := Activated, cp_activationReceipt := Some receipt\<rparr>) db"
  obtain sealed where sealed: "cp_sealJson row = Some sealed" "cp_state row = Sealed"
      "sc_checkpoint scope = cp_expectedCheckpoint row"
    using assms by (auto simp: settleActivated_def bindE_Inr_iff split: option.splits if_splits)
  then obtain m where m: "parsedSeal sealed = Inr m"
    and db': "db' = complete (sc_key scope) (cp_id row)
       (if cp_purpose row = Publication then activatePublication (sc_key scope) row (sl_nextCheckpoint m) ?db1 else ?db1)"
    using assms by (auto simp: settleActivated_def bindE_Inr_iff Let_def)
  have same: "db_scopes ?db1 = db_scopes db" by (simp add: updateCaptures_def)
  have "checkpoints db' = (if cp_purpose row = Publication
         then checkpoints (updateScopes (scopeIs (sc_key scope)) (\<lambda>s. s\<lparr>sc_checkpoint := Some (sl_nextCheckpoint m)\<rparr>) db)
         else checkpoints db)"
    unfolding db' by (simp add: checkpoints_activatePublication checkpoints_same_scopes[OF same])
  with sealed m show ?thesis by blast
qed

lemma claim_checkpoints:
  assumes "claim lim scope db = Inr (db', r)"
  shows "checkpoints db' = checkpoints db \<or>
    (\<exists>key. key \<notin> sc_key ` set (db_scopes db) \<and> checkpoints db' = checkpoints db @ [(key, None)])"
  using claim_effect[OF assms]
proof (elim exE conjE disjE)
  fix key
  assume "find (scopeIs key) (db_scopes db) = None" "db' = insertScope (newScope key (cs_originKey scope)) db"
  then show ?thesis
    by (intro disjI2 exI[of _ key]) (auto simp: find_None_all scopeIs_def insertScope_def newScope_def checkpoints_def)
qed (simp add: checkpoints_updateScopes)

lemma settle_checkpoints:
  assumes "settle owner cid s db = Inr (db', r)" "checkpoints db' \<noteq> checkpoints db"
  shows "\<exists>scope row receipt sealed m. s = SettleActivated receipt \<and> ownerScope db owner = Inr scope \<and>
     find (captureIs (sc_key scope) cid) (db_captures db) = Some row \<and> cp_id row = cid \<and>
     cp_activationReceipt row = None \<and> cp_state row = Sealed \<and> cp_purpose row = Publication \<and>
     cp_expectedCheckpoint row = sc_checkpoint scope \<and> cp_sealJson row = Some sealed \<and> parsedSeal sealed = Inr m \<and>
     checkpoints db' = checkpoints (updateScopes (scopeIs (sc_key scope)) (\<lambda>s. s\<lparr>sc_checkpoint := Some (sl_nextCheckpoint m)\<rparr>) db)"
proof -
  obtain scope row where sc: "ownerScope db owner = Inr scope"
      "find (captureIs (sc_key scope) cid) (db_captures db) = Some row" "cp_id row = cid"
    and work: "case s of
         CanonicalAcknowledged n receipt \<Rightarrow> settleCanonical (sc_key scope) row n receipt db = Inr (db', r)
       | SettleActivated receipt \<Rightarrow> settleActivated scope row receipt db = Inr (db', r)
       | RawAcknowledged n receipt \<Rightarrow> settleRaw (sc_key scope) row n receipt db = Inr (db', r)
       | RawUnitCanceled n \<Rightarrow> settleRawUnitCanceled (sc_key scope) row n db = Inr (db', r)
       | RawCancellationStarted reason \<Rightarrow> settleRawCancellation False (sc_key scope) row reason db = Inr (db', r)
       | RawCanceled reason \<Rightarrow> settleRawCancellation True (sc_key scope) row reason db = Inr (db', r)
       | Rejected receipt \<Rightarrow> settleRejected (sc_key scope) row receipt db = Inr (db', r)
       | AbandonUnsealed \<Rightarrow> settleAbandon (sc_key scope) row db = Inr (db', r)"
    using settle_effect[OF assms(1)] by blast
  show ?thesis
  proof (cases s)
    case (SettleActivated receipt)
    with work have act: "settleActivated scope row receipt db = Inr (db', r)" by simp
    have none: "cp_activationReceipt row = None"
      using act assms(2) by (auto simp: settleActivated_def success_simps split: option.splits if_splits)
    obtain sealed m where m: "cp_sealJson row = Some sealed" "parsedSeal sealed = Inr m" "cp_state row = Sealed"
        "sc_checkpoint scope = cp_expectedCheckpoint row"
      and db': "checkpoints db' = (if cp_purpose row = Publication
         then checkpoints (updateScopes (scopeIs (sc_key scope)) (\<lambda>s. s\<lparr>sc_checkpoint := Some (sl_nextCheckpoint m)\<rparr>) db)
         else checkpoints db)"
      using settleActivated_checkpoints[OF act none] by blast
    with assms(2) have "cp_purpose row = Publication" by (auto split: if_splits)
    with SettleActivated sc none m db' show ?thesis by (auto split: if_splits)
  qed (use work assms(2) in \<open>auto simp: settleCanonical_def settleRaw_def settleRawUnitCanceled_def
         settleRawCancellation_def settleRejected_def settleAbandon_def success_simps Let_def split: option.splits if_splits\<close>)
qed

text \<open>No other call moves the checkpoint of a source it finds.\<close>

lemma reclaim_checkpoints:
  assumes "reclaim owner cid n db = Inr (db', v)"
  shows "checkpoints db' = checkpoints db"
proof -
  obtain scope :: scope_row and row eligible db1 removed where
    e: "find (captureIs (sc_key scope) cid) (db_captures db) = Some row"
       "eligible = selectAll (reclaimable (sc_key scope) row) (\<lambda>u. (un_kind u, un_ordinal u)) (nat n) (db_units db)"
       "foldE (dropBody (sc_key scope) cid) (db, 0) eligible = Inr (db1, removed)"
       "db' = addRetained (- removed)
          (updateCaptures (captureIs (sc_key scope) cid) (\<lambda>r. r\<lparr>cp_retainedBytes := cp_retainedBytes r - removed\<rparr>) db1)"
    using reclaim_effect[OF assms] by blast
  have "cp_id row = cid" using e(1) captureRow_id by blast
  from drop_fold(1)[OF e(2) this e(3)] e(4) show ?thesis by simp
qed

lemma other_call_checkpoints:
  assumes "callWork sha lim c db = Inr (db', u)" "\<And>owner cid st. c \<noteq> CallSettle owner cid st"
  shows "set (checkpoints db') \<subseteq> set (checkpoints db) \<union> {(k, None) |k. k \<notin> sc_key ` set (db_scopes db)}"
proof (cases c)
  case (CallClaim sc)
  with assms(1) obtain r where "claim lim sc db = Inr (db', r)" by (auto simp: callWork_def forget_Inr)
  from claim_checkpoints[OF this] show ?thesis by auto
qed (use assms in \<open>auto simp: callWork_def forget_Inr checkpoints_updateScopes checkpoints_optional
      dest!: freezeLegacyMigration_effect adoptBaseline_effect setSourceMetadata_effect reserve_effect appendUnit_effect
        recordObservation_effect bindRecord_effect seal_effect pruneRecords_effect reclaim_checkpoints\<close>)

lemma settle_moves:
  assumes "settle owner cid st db = Inr (db', u)" "journalInv sha lim db" "s \<in> set (db_scopes db)"
    "(sc_key s, v) \<in> set (checkpoints db')" "v \<noteq> sc_checkpoint s"
  shows "\<exists>receipt row sealed m. st = SettleActivated receipt \<and> row \<in> set (db_captures db) \<and> captureKey row = (sc_key s, cid) \<and>
     cp_purpose row = Publication \<and> cp_state row = Sealed \<and> cp_expectedCheckpoint row = sc_checkpoint s \<and>
     cp_sealJson row = Some sealed \<and> parsedSeal sealed = Inr m \<and> v = Some (sl_nextCheckpoint m)"
proof -
  have old: "x = s" if "x \<in> set (db_scopes db)" "sc_key x = sc_key s" for x
    using assms(2,3) that unfolding journalInv_def uniqueKeys_def by (metis distinct_map inj_onD)
  have "(sc_key s, v) \<notin> set (checkpoints db)" using old assms(5) by (auto simp: checkpoints_def)
  then have "checkpoints db' \<noteq> checkpoints db" using assms(4) by auto
  then obtain scope row receipt sealed m where
    st: "st = SettleActivated receipt" and sc: "ownerScope db owner = Inr scope"
    and row: "find (captureIs (sc_key scope) cid) (db_captures db) = Some row"
      "cp_state row = Sealed" "cp_purpose row = Publication" "cp_expectedCheckpoint row = sc_checkpoint scope"
      "cp_sealJson row = Some sealed" "parsedSeal sealed = Inr m"
    and cks: "checkpoints db' = checkpoints (updateScopes (scopeIs (sc_key scope)) (\<lambda>s. s\<lparr>sc_checkpoint := Some (sl_nextCheckpoint m)\<rparr>) db)"
    using settle_checkpoints[OF assms(1)] by blast
  obtain x where "x \<in> set (db_scopes db)" "sc_key x = sc_key s"
      "v = (if scopeIs (sc_key scope) x then Some (sl_nextCheckpoint m) else sc_checkpoint x)"
    using assms(4) unfolding cks checkpoints_assigned by auto
  with old assms(5) have same: "sc_key scope = sc_key s" "v = Some (sl_nextCheckpoint m)"
    by (auto simp: scopeIs_def split: if_splits)
  have "scope = s" using old same(1) find_Some_in[OF conjunct1[OF ownerScope_found[OF sc]]] by blast
  then show ?thesis using st row find_capture_in[OF row(1)] same by blast
qed

text \<open>C6: The checkpoint of a source advances in one way only: by activating a sealed publication
  capture whose expected checkpoint is the current one, and then to the next checkpoint of
  that capture's seal.\<close>
theorem checkpoint_only_by_activation:
  assumes "createJournal b lim = Inr db0" and "db = runCalls sha lim db0 before"
    and "s \<in> set (db_scopes db)" "t \<in> set (db_scopes (runCall sha lim db c))" "sc_key t = sc_key s"
    and "sc_checkpoint t \<noteq> sc_checkpoint s"
  shows "\<exists>owner cid receipt row sealed m. c = CallSettle owner cid (SettleActivated receipt) \<and>
     row \<in> set (db_captures db) \<and> captureKey row = (sc_key s, cid) \<and> cp_purpose row = Publication \<and>
     cp_state row = Sealed \<and> cp_expectedCheckpoint row = sc_checkpoint s \<and>
     cp_sealJson row = Some sealed \<and> parsedSeal sealed = Inr m \<and> sc_checkpoint t = Some (sl_nextCheckpoint m)"
proof -
  let ?db' = "runCall sha lim db c"
  have inv: "journalInv sha lim db" using history_inv[OF assms(1)] assms(2) by blast
  have t: "(sc_key s, sc_checkpoint t) \<in> set (checkpoints ?db')"
    using assms(4,5) by (auto simp: checkpoints_def intro!: image_eqI[of _ _ t])
  have old: "(sc_key s, sc_checkpoint t) \<notin> set (checkpoints db)"
    using inv assms(3,6) unfolding journalInv_def uniqueKeys_def checkpoints_def by (auto simp: distinct_map dest: inj_onD)
  then have "?db' \<noteq> db" using t by auto
  then obtain u where work: "callWork sha lim c db = Inr (?db', u)"
    using runCall_cases[of sha lim c db] by blast
  show ?thesis
  proof (cases "\<exists>owner cid st. c = CallSettle owner cid st")
    case True
    then obtain owner cid st where c: "c = CallSettle owner cid st" by blast
    with work have "settle owner cid st db = Inr (?db', u)" by (simp add: callWork_def)
    from settle_moves[OF this inv assms(3) t assms(6)] c show ?thesis by blast
  next
    case False
    then show ?thesis using other_call_checkpoints[OF work] t old assms(3) by auto
  qed
qed

lemma demo_activation:
  "map sc_checkpoint (db_scopes (runCalls demoSha demoLimits demoStart (demoPrepare @ take 2 demoDeliver))) = [None] \<and>
   map (\<lambda>s. (sc_key s, sc_checkpoint s)) (db_scopes (runCall demoSha demoLimits
     (runCalls demoSha demoLimits demoStart (demoPrepare @ take 2 demoDeliver)) (demoDeliver ! 2))) =
   map (\<lambda>s. (sc_key s, Some ''k'')) (db_scopes (runCalls demoSha demoLimits demoStart (demoPrepare @ take 2 demoDeliver)))"
  by code_simp

theorem checkpoint_only_by_activation_witness:
  "\<exists>row \<in> set (db_captures (runCalls demoSha demoLimits demoStart (demoPrepare @ take 2 demoDeliver))).
     cp_state row = Sealed \<and> cp_purpose row = Publication \<and> cp_expectedCheckpoint row = None"
proof -
  let ?db = "runCalls demoSha demoLimits demoStart (demoPrepare @ take 2 demoDeliver)"
  let ?db' = "runCall demoSha demoLimits ?db (demoDeliver ! 2)"
  obtain s where s: "db_scopes ?db = [s]" "sc_checkpoint s = None"
    using conjunct1[OF demo_activation] by (auto simp: map_eq_Cons_conv)
  then obtain t where t: "db_scopes ?db' = [t]" "sc_key t = sc_key s" "sc_checkpoint t = Some ''k''"
    using conjunct2[OF demo_activation] by (auto simp: map_eq_Cons_conv)
  have "s \<in> set (db_scopes ?db)" "t \<in> set (db_scopes ?db')" "sc_checkpoint t \<noteq> sc_checkpoint s"
    using s t by simp_all
  from checkpoint_only_by_activation[OF demo_created refl this(1,2) t(2) this(3)] s(2) show ?thesis
    by (auto intro!: bexI)
qed

section \<open>Revisions\<close>

lemma new_observation:
  assumes "recordObservation lim owner cid input db = Inr (db', v)" "ownerScope db owner = Inr scope"
    "find (memberIs (sc_key scope) cid (rk_kind input) (rk_key input)) (db_members db) = None"
  shows "\<exists>changed orphaned rawOn proposed r.
     changed = versionChanged input (findVersion db (sc_key scope) (rk_kind input) (rk_key input))
       (wasAbsent db scope (rk_kind input) (rk_key input) (findVersion db (sc_key scope) (rk_kind input) (rk_key input))) orphaned \<and>
     chooseVersion scope cid rawOn input proposed (findVersion db (sc_key scope) (rk_kind input) (rk_key input)) changed = Inr r \<and>
     recordVersion r = Inr v"
  using recordObservation_effect[OF assms(1)]
proof (elim exE conjE disjE)
  fix sc m
  assume "ownerScope db owner = Inr sc"
    "find (memberIs (sc_key sc) cid (rk_kind input) (rk_key input)) (db_members db) = Some m"
  with assms(2,3) show ?thesis by simp
next
  fix sc row old orphaned changed proposed r
  assume "ownerScope db owner = Inr sc" and old: "old = findVersion db (sc_key sc) (rk_kind input) (rk_key input)"
    and changed: "changed = versionChanged input old (wasAbsent db sc (rk_kind input) (rk_key input) old) orphaned"
    and choose: "chooseVersion sc cid (cp_rawEnabled row) input proposed old changed = Inr r" and v: "recordVersion r = Inr v"
  then have "sc = scope" using assms(2) by simp
  with old changed choose v show ?thesis by blast
qed

text \<open>C7: Versions of a source record only move forward: a recorded observation gets a revision
  at least that of every earlier observation of the same record, and a strictly greater one
  as soon as its fingerprint or projection differs.\<close>
theorem record_revision_monotone:
  assumes "createJournal b lim = Inr db0" and "db = runCalls sha lim db0 before"
    and "recordObservation lim owner cid input db = Inr (db', v)"
    and "ownerScope db owner = Inr scope"
    and "m \<in> set (db_members db)" "mb_scope m = sc_key scope" "rr_kind m = rk_kind input" "rr_key m = rk_key input"
    and "find (memberIs (sc_key scope) cid (rk_kind input) (rk_key input)) (db_members db) = None"
  shows "rr_revision m \<le> rv_revision v \<and> ri_fingerprint v = ri_fingerprint input \<and>
    (rr_fingerprint (the (findVersion db (sc_key scope) (rk_kind input) (rk_key input))) \<noteq> ri_fingerprint input \<or>
     rr_projectionVersion (the (findVersion db (sc_key scope) (rk_kind input) (rk_key input))) \<noteq> ri_projectionVersion input
     \<longrightarrow> rr_revision m < rv_revision v)"
proof -
  have inv: "journalInv sha lim db" using history_inv[OF assms(1)] assms(2) by blast
  obtain w where w: "w \<in> set (db_versions db)" "versionKey w = (mb_scope m, rr_kind m, rr_key m)" "rr_revision m \<le> rr_revision w"
    using inv assms(5) unfolding journalInv_def versionsCurrent_def by blast
  have old: "findVersion db (sc_key scope) (rk_kind input) (rk_key input) = Some w"
    using find_unique_key[OF _ w(1), of versionKey] inv w(2) assms(6-8)
    by (simp add: findVersion_def journalInv_def uniqueKeys_def)
  obtain changed orphaned rawOn proposed r where
    changed: "changed = versionChanged input (Some w) (wasAbsent db scope (rk_kind input) (rk_key input) (Some w)) orphaned"
    and choose: "chooseVersion scope cid rawOn input proposed (Some w) changed = Inr r"
    and v: "recordVersion r = Inr v"
    using new_observation[OF assms(3,4,9)] unfolding old by blast
  have r: "rr_fingerprint r = ri_fingerprint input"
      "if changed then rr_revision r = rr_revision w + 1 else rr_revision r = rr_revision w"
    using chooseVersion_row[OF choose] by simp_all
  have "rv_revision v = rr_revision r" "ri_fingerprint v = rr_fingerprint r"
    using v by (auto simp: recordVersion_def success_simps)
  with r w(3) old changed show ?thesis by (auto simp: versionChanged_def split: if_splits)
qed

definition demoSecond :: journal_db where
  "demoSecond = runCalls demoSha demoLimits demoStart (demoPrepare @ demoDeliver @
     [CallReserve (demoOwner 1) (demoReserve\<lparr>rsv_id := ''d'', rsv_expectedCheckpoint := Some ''k''\<rparr>)])"

definition demoChanged :: record_input where
  "demoChanged = demoSession\<lparr>ri_fingerprint := replicate 64 (CHR ''c'')\<rparr>"

lemma demo_second:
  "map_sum (\<lambda>e. e) (\<lambda>(d, v). rv_revision v) (recordObservation demoLimits (demoOwner 1) ''d'' demoChanged demoSecond) = Inr 2 \<and>
   map_sum (\<lambda>e. e) sc_key (ownerScope demoSecond (demoOwner 1)) = Inr (stringify (JArr [JStr ''p'', JStr ''a'', JStr ''s''])) \<and>
   map (\<lambda>m. (memberKey m, rr_revision m)) (db_members demoSecond) =
     [((stringify (JArr [JStr ''p'', JStr ''a'', JStr ''s'']), ''c'', SessionRecord, ''s''), 1),
      ((stringify (JArr [JStr ''p'', JStr ''a'', JStr ''s'']), ''c'', ThreadRecord, ''t''), 1)]"
  by code_simp

theorem record_revision_monotone_witness:
  "\<exists>db' v m. recordObservation demoLimits (demoOwner 1) ''d'' demoChanged demoSecond = Inr (db', v) \<and>
     m \<in> set (db_members demoSecond) \<and> rr_revision m \<le> rv_revision v"
proof -
  let ?key = "stringify (JArr [JStr ''p'', JStr ''a'', JStr ''s''])"
  obtain db' v where obs: "recordObservation demoLimits (demoOwner 1) ''d'' demoChanged demoSecond = Inr (db', v)"
    using demo_second by (cases "recordObservation demoLimits (demoOwner 1) ''d'' demoChanged demoSecond") auto
  obtain sc where sc: "ownerScope demoSecond (demoOwner 1) = Inr sc" "sc_key sc = ?key"
    using demo_second by (cases "ownerScope demoSecond (demoOwner 1)") auto
  obtain m t where mt: "db_members demoSecond = [m, t]" "memberKey m = (?key, ''c'', SessionRecord, ''s'')"
      "memberKey t = (?key, ''c'', ThreadRecord, ''t'')"
    using demo_second by (auto simp: map_eq_Cons_conv)
  have in_input: "rk_kind demoChanged = SessionRecord" "rk_key demoChanged = ''s''"
    by (simp_all add: demoChanged_def demoSession_def)
  have "m \<in> set (db_members demoSecond)" "mb_scope m = sc_key sc" "rr_kind m = rk_kind demoChanged" "rr_key m = rk_key demoChanged"
    using mt sc in_input by (simp_all add: memberKey_def)
  moreover have "find (memberIs (sc_key sc) ''d'' (rk_kind demoChanged) (rk_key demoChanged)) (db_members demoSecond) = None"
    using mt by (simp add: memberIs_def)
  ultimately have "rr_revision m \<le> rv_revision v"
    using record_revision_monotone[OF demo_created demoSecond_def obs sc(1)] by blast
  with obs mt show ?thesis by auto
qed

section \<open>Retirement\<close>

text \<open>C8: Reclaiming frees only content nothing needs any more: a unit loses its body only when its
  capture is abandoned, or it is Canonical and the capture activated, or it is Raw and its
  obligation has ended; at most 32 units are reclaimed and the capture's retained bytes drop.\<close>
theorem reclaim_only_resolved:
  assumes "createJournal b lim = Inr db0" and "db = runCalls sha lim db0 before"
    and "reclaim owner cid limit db = Inr (db', n)"
    and "u \<in> set (db_units db)" "v \<in> set (db_units db')" "unitKey v = unitKey u" "un_body u \<noteq> None" "un_body v = None"
  shows "n \<le> 32 \<and> (\<exists>row\<in>set (db_captures db). captureKey row = (un_scope u, un_capture u) \<and> cp_id row = cid \<and>
     (cp_state row = Abandoned \<or> (un_kind u = Canonical \<and> cp_activationReceipt row \<noteq> None) \<or>
      (un_kind u = Raw \<and> un_disposition u \<noteq> Pending)))"
proof -
  have keys: "uniqueKeys db" using history_inv[OF assms(1), of sha before] assms(2) by (simp add: journalInv_def)
  obtain scope :: scope_row and row eligible db1 removed where
    e: "find (captureIs (sc_key scope) cid) (db_captures db) = Some row"
       "eligible = selectAll (reclaimable (sc_key scope) row) (\<lambda>u. (un_kind u, un_ordinal u)) (nat limit) (db_units db)"
       "foldE (dropBody (sc_key scope) cid) (db, 0) eligible = Inr (db1, removed)"
       "n = int (length eligible)" "limit \<le> 32"
       "db' = addRetained (- removed)
          (updateCaptures (captureIs (sc_key scope) cid) (\<lambda>r. r\<lparr>cp_retainedBytes := cp_retainedBytes r - removed\<rparr>) db1)"
    using reclaim_effect[OF assms(3)] by blast
  have rid: "cp_id row = cid" "row \<in> set (db_captures db)" "cp_scope row = sc_key scope"
    using captureRow_id[OF e(1)] by simp_all
  have units: "db_units db' = updateWhere (\<lambda>u. unitKey u \<in> unitKey ` set eligible) (\<lambda>r. r\<lparr>un_body := None\<rparr>) (db_units db)"
    using drop_fold(1)[OF e(2) rid(1) e(3)] e(6) by (simp add: statement_defs)
  obtain x where x: "x \<in> set (db_units db)" "v = (if unitKey x \<in> unitKey ` set eligible then x\<lparr>un_body := None\<rparr> else x)"
    using assms(5) unfolding units by (auto simp: set_updateWhere)
  then have "unitKey x = unitKey u" using assms(6) by (auto simp: unitKey_def split: if_splits)
  then have "x = u" using unique_unit_key[OF keys x(1) assms(4)] by simp
  with x assms(7,8) obtain w where w: "w \<in> set eligible" "unitKey w = unitKey u" by (auto split: if_splits)
  then have "w \<in> set (db_units db)" "reclaimable (sc_key scope) row w"
    using set_selectAll[of w _ "\<lambda>u. (un_kind u, un_ordinal u)"] e(2) by blast+
  then have "reclaimable (sc_key scope) row u"
    using unique_unit_key[OF keys _ assms(4)] w(2) by blast
  moreover have "n \<le> 32"
    using e(5) length_selectAll[of "reclaimable (sc_key scope) row" "\<lambda>u. (un_kind u, un_ordinal u)" "nat limit" "db_units db"]
    unfolding e(2,4) by linarith
  ultimately show ?thesis
    using rid by (auto simp: reclaimable_def unitOf_def captureKey_def intro!: bexI[of _ row])
qed

lemma demo_reclaim:
  "map_sum (\<lambda>e. e) (\<lambda>(d, n). (db_units d, n)) (reclaim (demoOwner 1) ''c'' 32 demoDelivered) =
     Inr ([(demoUnit Canonical ''AB'')\<lparr>un_body := None\<rparr>, (demoUnit Raw ''R'')\<lparr>un_body := None\<rparr>], 2)"
  by code_simp

theorem reclaim_only_resolved_witness:
  "\<exists>row\<in>set (db_captures demoDelivered). cp_id row = ''c'' \<and>
     (cp_state row = Abandoned \<or> cp_activationReceipt row \<noteq> None \<or> un_disposition (demoUnit Canonical ''AB'') \<noteq> Pending)"
proof -
  obtain db' n where r: "reclaim (demoOwner 1) ''c'' 32 demoDelivered = Inr (db', n)"
    and units: "db_units db' = [(demoUnit Canonical ''AB'')\<lparr>un_body := None\<rparr>, (demoUnit Raw ''R'')\<lparr>un_body := None\<rparr>]"
    using demo_reclaim by (cases "reclaim (demoOwner 1) ''c'' 32 demoDelivered") auto
  have "demoUnit Canonical ''AB'' \<in> set (db_units demoDelivered)"
    "(demoUnit Canonical ''AB'')\<lparr>un_body := None\<rparr> \<in> set (db_units db')"
    by (simp_all add: demo_delivered_units units)
  moreover have "unitKey ((demoUnit Canonical ''AB'')\<lparr>un_body := None\<rparr>) = unitKey (demoUnit Canonical ''AB'')"
    "un_body (demoUnit Canonical ''AB'') \<noteq> None" "un_body ((demoUnit Canonical ''AB'')\<lparr>un_body := None\<rparr>) = None"
    by (simp_all add: unitKey_def demoUnit_def newUnit_def)
  ultimately show ?thesis
    using reclaim_only_resolved[OF demo_created demoDelivered_def r] by blast
qed

text \<open>C9: Retiring historical membership never touches a protected root: no record of the capture
  that is the current Canonical coverage, the last complete Canonical observation or the last
  complete Raw observation of the source is removed.\<close>
theorem prune_keeps_coverage:
  assumes "pruneRecords owner limit db = Inr (db', n)" "ownerScope db owner = Inr scope"
    and "m \<in> set (db_members db)"
    and "mb_scope m \<noteq> sc_key scope \<or> Some (mb_capture m) \<in> {sc_canonicalCoverage scope, sc_observedCanonical scope, sc_observedRaw scope}"
  shows "m \<in> set (db_members db')"
  using pruneRecords_effect[OF assms(1)] assms(2)
proof (elim exE conjE disjE)
  fix sc row rows
  assume sc: "ownerScope db owner = Inr sc" and prn: "prunable sc row"
    and rows: "rows = selectAll (\<lambda>m. mb_scope m = sc_key sc \<and> mb_capture m = cp_id row)
                 (\<lambda>m. (rr_kind m, rr_key m)) (nat limit) (db_members db)"
    and db': "db' = updateCaptures (captureIs (sc_key sc) (cp_id row))
                (\<lambda>c. c\<lparr>cp_recordsRetired := True, cp_retainedRecords := cp_retainedRecords c - n\<rparr>) (deleteMembers rows db)"
  have "m \<notin> set rows"
    using set_selectAll[of m _ "\<lambda>m. (rr_kind m, rr_key m)" "nat limit" "db_members db"] prn assms(2,4) sc
    unfolding rows by (force simp: prunable_def)
  then show ?thesis using assms(3) unfolding db' by (simp add: updateCaptures_def deleteMembers_def)
qed (use assms(3) in auto)

lemma demo_prune:
  "map_sum (\<lambda>e. e) (\<lambda>(d, n). (d = demoSecond, n)) (pruneRecords (demoOwner 1) 10 demoSecond) = Inr (True, 0) \<and>
   map_sum (\<lambda>e. e) sc_canonicalCoverage (ownerScope demoSecond (demoOwner 1)) = Inr (Some ''c'') \<and>
   mb_capture (hd (db_members demoSecond)) = ''c'' \<and> length (db_members demoSecond) = 2"
  by code_simp

theorem prune_keeps_coverage_witness:
  "\<exists>db'. pruneRecords (demoOwner 1) 10 demoSecond = Inr (db', 0) \<and> hd (db_members demoSecond) \<in> set (db_members db')"
proof -
  obtain db' where p: "pruneRecords (demoOwner 1) 10 demoSecond = Inr (db', 0)"
    using demo_prune by (cases "pruneRecords (demoOwner 1) 10 demoSecond") auto
  obtain sc where sc: "ownerScope demoSecond (demoOwner 1) = Inr sc" "sc_canonicalCoverage sc = Some ''c''"
    using demo_prune by (cases "ownerScope demoSecond (demoOwner 1)") auto
  have "hd (db_members demoSecond) \<in> set (db_members demoSecond)"
    using demo_prune by (cases "db_members demoSecond") auto
  from prune_keeps_coverage[OF p sc(1) this] sc(2) demo_prune p show ?thesis by simp
qed

end
