(* ===== verification/RedactionEngine.thy ===== *)
theory RedactionEngine
  imports RedactionCatalog "HOL-Library.While_Combinator" "HOL-Library.Product_Lexorder"
begin

text \<open>The redaction engine (packages/application/src/redaction/engine.ts): the compiled
  rules, the Aho-Corasick scan for exact secret values, the collection of candidate spans
  around already inserted markers, and the masking of a text by its merged spans.  The
  regular expressions are those of the re2js package: what it compiles, how many groups a
  pattern has and the successive matches in a text are the parameter of the model.\<close>

datatype unsafe = UnsafeLimit | UnsafeRedaction

record re2 =
  re_compiles :: "string \<Rightarrow> bool"
  re_groupCount :: "string \<Rightarrow> nat"
  re_matches :: "string \<Rightarrow> string \<Rightarrow> (nat \<times> nat) option list list"

record redaction_rule =
  ru_id :: string
  ru_type :: string
  ru_value :: "string option"
  ru_field :: "string option"
  ru_groups :: "nat list"
  ru_marker :: string
  ru_skipEmpty :: bool
  ru_candidate :: "(string \<Rightarrow> bool) option"

record span =
  sp_start :: nat
  sp_end :: nat
  sp_rule :: redaction_rule
  sp_priority :: nat

record report =
  rep_matches :: int
  rep_rules :: "(string \<times> string \<times> int) list"

definition ContentBytes :: int where
  "ContentBytes = 32 * 1024 * 1024"

section \<open>Reports\<close>

definition emptyReport :: report where
  "emptyReport = \<lparr>rep_matches = 0, rep_rules = []\<rparr>"

fun countRule :: "string \<Rightarrow> string \<Rightarrow> (string \<times> string \<times> int) list \<Rightarrow> (string \<times> string \<times> int) list" where
  "countRule i t [] = [(i, t, 1)]"
| "countRule i t ((j, u, n) # rs) = (if i = j then (i, t, n + 1) # rs else (j, u, n) # countRule i t rs)"

definition recordMatch :: "report \<Rightarrow> redaction_rule \<Rightarrow> unsafe + report" where
  "recordMatch r rule =
     (if rep_matches r + 1 > 10000 then Inl UnsafeLimit
      else Inr \<lparr>rep_matches = rep_matches r + 1, rep_rules = countRule (ru_id rule) (ru_type rule) (rep_rules r)\<rparr>)"

section \<open>Exact values\<close>

record node =
  nd_next :: "(char \<times> nat) list"
  nd_fail :: nat
  nd_lengths :: "nat list"

definition emptyNode :: node where
  "emptyNode = \<lparr>nd_next = [], nd_fail = 0, nd_lengths = []\<rparr>"

definition child :: "node list \<Rightarrow> nat \<Rightarrow> char \<Rightarrow> nat option" where
  "child ns i c = map_of (nd_next (ns ! i)) c"

fun insertChars :: "node list \<Rightarrow> nat \<Rightarrow> string \<Rightarrow> node list \<times> nat" where
  "insertChars ns i [] = (ns, i)"
| "insertChars ns i (c # cs) =
     (case child ns i c of
        Some j \<Rightarrow> insertChars ns j cs
      | None \<Rightarrow>
          let j = length ns;
              ns' = ns[i := (ns ! i)\<lparr>nd_next := nd_next (ns ! i) @ [(c, j)]\<rparr>] @ [emptyNode]
          in insertChars ns' j cs)"

definition insertLiteral :: "node list \<Rightarrow> string \<Rightarrow> node list" where
  "insertLiteral ns v =
     (let (ns', i) = insertChars ns 0 v
      in ns'[i := (ns' ! i)\<lparr>nd_lengths := nd_lengths (ns' ! i) @ [length v]\<rparr>])"

definition literalTrie :: "string list \<Rightarrow> node list" where
  "literalTrie values = foldl insertLiteral [emptyNode] values"

definition followFailure :: "node list \<Rightarrow> char \<Rightarrow> nat \<Rightarrow> nat" where
  "followFailure ns c = while (\<lambda>i. i \<noteq> 0 \<and> child ns i c = None) (\<lambda>i. nd_fail (ns ! i))"

definition stepTo :: "node list \<Rightarrow> nat \<Rightarrow> char \<Rightarrow> nat" where
  "stepTo ns i c = (case child ns (followFailure ns c i) c of Some j \<Rightarrow> j | None \<Rightarrow> 0)"

definition linkChild :: "nat \<Rightarrow> node list \<Rightarrow> char \<times> nat \<Rightarrow> node list" where
  "linkChild parent ns e =
     (let (c, j) = e;
          f = stepTo ns (nd_fail (ns ! parent)) c
      in ns[j := (ns ! j)\<lparr>nd_fail := f, nd_lengths := nd_lengths (ns ! j) @ nd_lengths (ns ! f)\<rparr>])"

definition linkFailures :: "node list \<Rightarrow> node list" where
  "linkFailures trie = snd (while (\<lambda>(q, ns). q \<noteq> [])
     (\<lambda>(q, ns). (tl q @ map snd (nd_next (ns ! hd q)), foldl (linkChild (hd q)) ns (nd_next (ns ! hd q))))
     (map snd (nd_next (trie ! 0)), trie))"

definition literalNodes :: "string list \<Rightarrow> node list" where
  "literalNodes values = linkFailures (literalTrie values)"

fun scanFrom :: "node list \<Rightarrow> nat \<Rightarrow> nat \<Rightarrow> string \<Rightarrow> (nat \<times> nat) list" where
  "scanFrom ns i p [] = []"
| "scanFrom ns i p (c # cs) =
     (let j = stepTo ns i c
      in map (\<lambda>n. (p + 1 - n, p + 1)) (nd_lengths (ns ! j)) @ scanFrom ns j (p + 1) cs)"

definition literalMatches :: "string list \<Rightarrow> string \<Rightarrow> (nat \<times> nat) list" where
  "literalMatches values t = scanFrom (literalNodes values) 0 0 t"

section \<open>Compiling the rules\<close>

definition lowerChar :: "char \<Rightarrow> char" where
  "lowerChar c = (if 65 \<le> code c \<and> code c \<le> 90 then byte (code c + 32) else c)"

definition upperChar :: "char \<Rightarrow> char" where
  "upperChar c = (if 97 \<le> code c \<and> code c \<le> 122 then byte (code c - 32) else c)"

definition includesAny :: "string list \<Rightarrow> string \<Rightarrow> bool" where
  "includesAny ps t = list_ex (\<lambda>p. containsText p t) ps"

definition candidates :: "(string \<times> (string \<Rightarrow> bool)) list" where
  "candidates = [
     (''api_key'', includesAny [''sk-'']), (''aws_key'', includesAny [''AKIA'']),
     (''aws_secret'', \<lambda>t. includesAny [''aws_secret_access_key''] (map lowerChar t)),
     (''github_token'', includesAny [''ghp_'', ''gho_'', ''ghu_'', ''ghs_'', ''ghr_'', ''github_pat_'']),
     (''jwt'', includesAny [''eyJ'']), (''bearer_token'', \<lambda>t. includesAny [''bearer''] (map lowerChar t)),
     (''private_key'', includesAny [''PRIVATE KEY-----'']), (''password'', includesAny [''://'']),
     (''slack_token'', includesAny [''xox'', ''xapp-'']), (''stripe_key'', includesAny [''sk_'', ''rk_'']),
     (''google_api_key'', includesAny [''AIza'']), (''twilio_key'', includesAny [''SK'']),
     (''sendgrid_key'', includesAny [''SG.'']), (''mailchimp_key'', includesAny [''-us'']),
     (''npm_token'', includesAny [''npm_'']), (''pypi_token'', includesAny [''pypi-'']), (''confab_key'', includesAny [''cfb_''])]"

definition candidateFor :: "redaction_pattern \<Rightarrow> (string \<Rightarrow> bool) option" where
  "candidateFor p =
     (if rp_name p = ''ATape token formats''
      then Some (includesAny [''sk-'', ''ghp_'', ''gho_'', ''ghu_'', ''ghs_'', ''ghr_'', ''github_pat_'', ''AKIA''])
      else if rp_name p = ''ATape credential assignment''
      then Some (\<lambda>t. includesAny ['':'', ''=''] t \<and>
        includesAny [''api'', ''access'', ''auth'', ''client'', ''secret'', ''password'', ''passwd'', ''token''] (map lowerChar t))
      else map_of candidates (rp_type p))"

definition compileRule :: "re2 \<Rightarrow> redaction_pattern \<Rightarrow> string \<Rightarrow> bool \<Rightarrow> unsafe + redaction_rule" where
  "compileRule re p i builtin =
     (if (case rp_pattern p of Some v \<Rightarrow> \<not> re_compiles re v | None \<Rightarrow> False) \<or>
         (case rp_fieldPattern p of Some v \<Rightarrow> \<not> re_compiles re v | None \<Rightarrow> False) then Inl UnsafeRedaction
      else let group = (case rp_captureGroup p of Some g \<Rightarrow> g | None \<Rightarrow> 0) in
      if group > (case rp_pattern p of Some v \<Rightarrow> re_groupCount re v | None \<Rightarrow> 0) \<or>
         (case rp_pattern p of Some v \<Rightarrow> re_matches re v [] \<noteq> [] | None \<Rightarrow> False) then Inl UnsafeRedaction
      else Inr \<lparr>ru_id = i, ru_type = rp_type p, ru_value = rp_pattern p, ru_field = rp_fieldPattern p,
        ru_groups = (case rp_groups p of Some gs \<Rightarrow> gs | None \<Rightarrow> [group]),
        ru_marker = (if builtin then (case rp_marker p of Some m \<Rightarrow> m | None \<Rightarrow> ''[REDACTED]'')
                     else ''[REDACTED:'' @ map upperChar (rp_type p) @ '']''),
        ru_skipEmpty = builtin, ru_candidate = (if builtin then candidateFor p else None)\<rparr>)"

definition decimal :: "nat \<Rightarrow> string" where
  "decimal n = (let ds = (\<lambda>d. [byte (48 + d)]) in
     if n < 10 then ds n else if n < 100 then ds (n div 10) @ ds (n mod 10)
     else ds (n div 100 mod 10) @ ds (n div 10 mod 10) @ ds (n mod 10))"

definition compileAll :: "re2 \<Rightarrow> string \<Rightarrow> bool \<Rightarrow> redaction_pattern list \<Rightarrow> unsafe + redaction_rule list" where
  "compileAll re prefix builtin ps = mapE (\<lambda>(n, p). compileRule re p (prefix @ decimal n) builtin) (enumerate 0 ps)"

record engine =
  en_rules :: "redaction_rule list"
  en_markers :: "string list"
  en_literals :: "string list"

definition literalRule :: redaction_rule where
  "literalRule = \<lparr>ru_id = ''exact'', ru_type = ''exact_value'', ru_value = None, ru_field = None, ru_groups = [0],
     ru_marker = ''[REDACTED]'', ru_skipEmpty = False, ru_candidate = None\<rparr>"

definition createEngine :: "re2 \<Rightarrow> redaction_pattern list \<Rightarrow> string list \<Rightarrow> unsafe + engine" where
  "createEngine re patterns literals =
     bindE (compileAll re ''atape:'' True legacyPatterns) (\<lambda>a.
     bindE (compileAll re ''catalog:'' True catalog) (\<lambda>b.
     bindE (compileAll re ''custom:'' False patterns) (\<lambda>c.
       let rules = a @ b @ c in
       Inr \<lparr>en_rules = rules,
         en_markers = rev (remdups (rev (map ru_marker rules @ [''[REDACTED]'', ''[REDACTED PRIVATE KEY]'', ''[REDACTED DIAGNOSTIC]'']))),
         en_literals = literals\<rparr>)))"

section \<open>Masking a text\<close>

definition slice :: "nat \<Rightarrow> nat \<Rightarrow> string \<Rightarrow> string" where
  "slice a b s = take (b - a) (drop a s)"

text \<open>The successive occurrences of a marker, as repeated indexOf finds them.\<close>

function markerStarts :: "string \<Rightarrow> nat \<Rightarrow> string \<Rightarrow> nat list" where
  "markerStarts m p s =
     (if m = [] \<or> s = [] then []
      else if startsWith m s then p # markerStarts m (p + length m) (drop (length m) s)
      else markerStarts m (p + 1) (tl s))"
  by pat_completeness auto
termination
  by (relation "measure (\<lambda>(m, p, s). length s)") (auto simp: length_greater_0_conv)

declare markerStarts.simps [simp del]

definition markerSpans :: "string list \<Rightarrow> string \<Rightarrow> (nat \<times> nat) list" where
  "markerSpans markers s = concat (map (\<lambda>m. map (\<lambda>p. (p, p + length m)) (markerStarts m 0 s)) markers)"

definition protectedSpans :: "string list \<Rightarrow> string \<Rightarrow> unsafe + (nat \<times> nat) list" where
  "protectedSpans markers s =
     (if \<not> containsText ''[REDACTED'' s then Inr []
      else if int (length (markerSpans markers s)) > 10000 then Inl UnsafeLimit
      else Inr (sort_key fst (markerSpans markers s)))"

text \<open>The binary search for the first protected span that ends after a position.\<close>

function firstEndingAfter :: "(nat \<times> nat) list \<Rightarrow> nat \<Rightarrow> nat \<Rightarrow> nat \<Rightarrow> nat" where
  "firstEndingAfter ps x low high =
     (if low < high then
        let middle = (low + high) div 2 in
        if snd (ps ! middle) \<le> x then firstEndingAfter ps x (middle + 1) high
        else firstEndingAfter ps x low middle
      else low)"
  by pat_completeness auto
termination
  by (relation "measure (\<lambda>(ps, x, low, high). high - low)") auto

declare firstEndingAfter.simps [simp del]

fun widen :: "(nat \<times> nat) list \<Rightarrow> nat \<times> nat \<Rightarrow> nat \<times> nat" where
  "widen [] (a, b) = (a, b)"
| "widen ((s, e) # ps) (a, b) =
     (if s \<ge> b then (a, b)
      else widen ps (if e > a then (min a s, max b e) else (a, b)))"

record collecting =
  co_seen :: int
  co_spans :: "span list"

definition addSpan :: "(nat \<times> nat) list \<Rightarrow> redaction_rule \<Rightarrow> nat \<Rightarrow> collecting \<Rightarrow> nat \<times> nat \<Rightarrow> unsafe + collecting" where
  "addSpan prot rule priority st ab =
     (if co_seen st + 1 > 100000 then Inl UnsafeLimit
      else let (a, b) = ab;
               st' = st\<lparr>co_seen := co_seen st + 1\<rparr>;
               low = firstEndingAfter prot a 0 (length prot) in
      if low < length prot \<and> fst (prot ! low) \<le> a \<and> b \<le> snd (prot ! low) then Inr st'
      else let (a', b') = widen (drop low prot) (a, b) in
      if int (length (co_spans st)) \<ge> 10000 then Inl UnsafeLimit
      else Inr (st'\<lparr>co_spans := co_spans st' @ [\<lparr>sp_start = a', sp_end = b', sp_rule = rule, sp_priority = priority\<rparr>]\<rparr>))"

definition groupSpan :: "redaction_rule \<Rightarrow> (nat \<times> nat) option list \<Rightarrow> (nat \<times> nat) option" where
  "groupSpan rule m = (case find (\<lambda>g. g < length m \<and> m ! g \<noteq> None) (ru_groups rule) of
       Some g \<Rightarrow> m ! g | None \<Rightarrow> None)"

fun addMatches :: "(nat \<times> nat) list \<Rightarrow> redaction_rule \<Rightarrow> nat \<Rightarrow> (nat \<times> nat) option list list \<Rightarrow> collecting \<Rightarrow> unsafe + collecting" where
  "addMatches prot rule priority [] st = Inr st"
| "addMatches prot rule priority (m # ms) st =
     (case groupSpan rule m of
        None \<Rightarrow> addMatches prot rule priority ms st
      | Some (a, b) \<Rightarrow>
          if b = a then (if ru_skipEmpty rule then addMatches prot rule priority ms st else Inl UnsafeRedaction)
          else bindE (addSpan prot rule priority st (a, b)) (addMatches prot rule priority ms))"

text \<open>The rules in order.  A rule on the field name alone masks the whole value at once,
  unless the value is a marker already: then the result is the rule.\<close>

fun applyRules :: "re2 \<Rightarrow> string list \<Rightarrow> string \<Rightarrow> string option \<Rightarrow> (nat \<times> nat) list \<Rightarrow> nat \<Rightarrow> redaction_rule list \<Rightarrow> collecting \<Rightarrow>
    unsafe + (redaction_rule + collecting)" where
  "applyRules re markers input fieldName prot n [] st = Inr (Inr st)"
| "applyRules re markers input fieldName prot n (rule # rules) st =
     (if (case ru_field rule of None \<Rightarrow> False
          | Some f \<Rightarrow> (case fieldName of None \<Rightarrow> True | Some k \<Rightarrow> k = [] \<or> re_matches re f k = []))
      then applyRules re markers input fieldName prot (n + 1) rules st
      else case ru_value rule of
        None \<Rightarrow> (if ru_field rule \<noteq> None \<and> input \<notin> set markers then Inr (Inl rule)
                 else applyRules re markers input fieldName prot (n + 1) rules st)
      | Some v \<Rightarrow>
          (if (case ru_candidate rule of Some c \<Rightarrow> \<not> c input | None \<Rightarrow> False)
           then applyRules re markers input fieldName prot (n + 1) rules st
           else bindE (addMatches prot rule n (re_matches re v input) st)
             (applyRules re markers input fieldName prot (n + 1) rules)))"

definition orderSpans :: "span list \<Rightarrow> span list" where
  "orderSpans = sort_key (\<lambda>s. (int (sp_start s), - int (sp_end s), sp_priority s))"

text \<open>The prior span is the head of the list built in reverse.\<close>

fun mergeSpans :: "span list \<Rightarrow> span list \<Rightarrow> span list" where
  "mergeSpans merged [] = rev merged"
| "mergeSpans [] (s # ss) = mergeSpans [s] ss"
| "mergeSpans (p # ps) (s # ss) =
     (if sp_start s < sp_end p then
        (let p' = p\<lparr>sp_end := max (sp_end p) (sp_end s)\<rparr>
         in mergeSpans ((if sp_priority s < sp_priority p' then p'\<lparr>sp_rule := sp_rule s, sp_priority := sp_priority s\<rparr> else p') # ps) ss)
      else mergeSpans (s # p # ps) ss)"

fun renderSpans :: "string \<Rightarrow> nat \<Rightarrow> span list \<Rightarrow> report \<Rightarrow> unsafe + (string \<times> report)" where
  "renderSpans input pos [] rep = Inr (drop pos input, rep)"
| "renderSpans input pos (s # ss) rep =
     bindE (recordMatch rep (sp_rule s)) (\<lambda>rep'.
     bindE (renderSpans input (sp_end s) ss rep') (\<lambda>(out, rep'').
       Inr (slice pos (sp_start s) input @ ru_marker (sp_rule s) @ out, rep'')))"

definition engineText :: "re2 \<Rightarrow> engine \<Rightarrow> string \<Rightarrow> report \<Rightarrow> string option \<Rightarrow> unsafe + (string \<times> report)" where
  "engineText re en input rep fieldName =
     (if int (length input) > ContentBytes then Inl UnsafeLimit
      else bindE (protectedSpans (en_markers en) input) (\<lambda>prot.
      bindE (applyRules re (en_markers en) input fieldName prot 0 (en_rules en) \<lparr>co_seen = 0, co_spans = []\<rparr>) (\<lambda>r.
        case r of
          Inl rule \<Rightarrow> bindE (recordMatch rep rule) (\<lambda>rep'. Inr (ru_marker rule, rep'))
        | Inr st \<Rightarrow>
            bindE (foldE (addSpan prot literalRule (length (en_rules en))) st (literalMatches (en_literals en) input)) (\<lambda>st'.
            bindE (renderSpans input 0 (mergeSpans [] (orderSpans (co_spans st'))) rep) (\<lambda>(out, rep').
              if int (length out) > ContentBytes then Inl UnsafeLimit else Inr (out, rep'))))))"

end
