(* ===== verification/Schema.thy ===== *)
theory Schema
  imports Json
begin

text \<open>Decoding of untyped JSON values the way the program's Effect schemas do it: a decoder
  maps a JSON value to the typed value or refuses it.  Structs ignore excess properties
  unless they are declared closed; an optional key may be absent but not null.  The locale
  of codecs is the interface every schema of the model is shown to provide.\<close>

type_synonym 'a decoder = "json \<Rightarrow> 'a option"

named_theorems codec_simps \<open>evaluation of decoders on printed objects\<close>

section \<open>Numbers\<close>

text \<open>A JavaScript number is kept as the decimal mantissa and exponent it is written with.\<close>

datatype number = Number int int

abbreviation Whole :: "int \<Rightarrow> number" where
  "Whole n \<equiv> Number n 0"

definition numberJson :: "number \<Rightarrow> json" where
  "numberJson n = (case n of Number m e \<Rightarrow> JNum m e)"

definition asNumber :: "number decoder" where
  "asNumber j = (case j of JNum m e \<Rightarrow> Some (Number m e) | _ \<Rightarrow> None)"

definition wholeOf :: "number \<Rightarrow> int option" where
  "wholeOf n = asInt (numberJson n)"

definition isSafeInteger :: "number \<Rightarrow> bool" where
  "isSafeInteger n = (case wholeOf n of Some i \<Rightarrow> safe_integer i | None \<Rightarrow> False)"

definition intValue :: "number \<Rightarrow> int" where
  "intValue n = (case wholeOf n of Some i \<Rightarrow> i | None \<Rightarrow> 0)"

lemma number_simps [simp]:
  "wholeOf (Whole i) = Some i" "isSafeInteger (Whole i) = safe_integer i" "intValue (Whole i) = i"
  "asNumber (numberJson n) = Some n"
  by (simp_all add: wholeOf_def isSafeInteger_def intValue_def numberJson_def asNumber_def split: number.split)

section \<open>Objects\<close>

definition obj :: "(string \<times> json option) list \<Rightarrow> json" where
  "obj ms = JObj (List.map_filter (\<lambda>(k, v). map_option (Pair k) v) ms)"

definition required :: "string \<Rightarrow> 'a decoder \<Rightarrow> 'a decoder" where
  "required k dec j = Option.bind (field k j) dec"

definition memberOf :: "'a decoder \<Rightarrow> json option \<Rightarrow> 'a option option" where
  "memberOf dec v = (case v of None \<Rightarrow> Some None | Some j \<Rightarrow> map_option Some (dec j))"

definition optionalKey :: "string \<Rightarrow> 'a decoder \<Rightarrow> 'a option decoder" where
  "optionalKey k dec j = (if (case j of JObj _ \<Rightarrow> True | _ \<Rightarrow> False)
     then memberOf dec (field k j) else None)"

definition nullOr :: "'a decoder \<Rightarrow> 'a option decoder" where
  "nullOr dec j = (if j = JNull then Some None else map_option Some (dec j))"

fun decodeAll :: "'a decoder \<Rightarrow> json list \<Rightarrow> 'a list option" where
  "decodeAll dec [] = Some []"
| "decodeAll dec (j # js) = Option.bind (dec j) (\<lambda>x. map_option ((#) x) (decodeAll dec js))"

definition arrayOf :: "'a decoder \<Rightarrow> 'a list decoder" where
  "arrayOf dec j = (case j of JArr js \<Rightarrow> decodeAll dec js | _ \<Rightarrow> None)"

definition arrayJson :: "('a \<Rightarrow> json) \<Rightarrow> 'a list \<Rightarrow> json" where
  "arrayJson enc xs = JArr (map enc xs)"

definition nullOrJson :: "('a \<Rightarrow> json) \<Rightarrow> 'a option \<Rightarrow> json" where
  "nullOrJson enc v = (case v of None \<Rightarrow> JNull | Some x \<Rightarrow> enc x)"

definition closedObject :: "string list \<Rightarrow> json \<Rightarrow> bool" where
  "closedObject ks j = (case j of JObj ms \<Rightarrow> list_all (\<lambda>(k, _). k \<in> set ks) ms | _ \<Rightarrow> False)"

definition checkedBy :: "('a \<Rightarrow> bool) \<Rightarrow> 'a decoder \<Rightarrow> 'a decoder" where
  "checkedBy P dec j = (case dec j of Some x \<Rightarrow> if P x then Some x else None | None \<Rightarrow> None)"

text \<open>A struct of literals is a table from the texts to the constructors.\<close>

definition literalsJson :: "(string \<times> 'a) list \<Rightarrow> 'a \<Rightarrow> json" where
  "literalsJson tbl x = (case find (\<lambda>p. snd p = x) tbl of Some (s, _) \<Rightarrow> JStr s | None \<Rightarrow> JNull)"

definition literalsOf :: "(string \<times> 'a) list \<Rightarrow> 'a decoder" where
  "literalsOf tbl j = Option.bind (asString j) (map_of tbl)"

definition decodeText :: "'a decoder \<Rightarrow> string \<Rightarrow> 'a option" where
  "decodeText dec s = Option.bind (parseJson s) dec"

lemma map_of_rev_distinct:
  "distinct (map fst ms) \<Longrightarrow> map_of (rev ms) k = map_of ms k"
  by (rule map_of_inject_set[THEN iffD2, THEN fun_cong]) (simp_all add: rev_map[symmetric])

lemma field_obj [codec_simps]:
  assumes "distinct (map fst ms)"
  shows "field k (obj ms) = Option.bind (map_of ms k) (\<lambda>v. v)"
proof -
  let ?f = "\<lambda>(k, v). map_option (Pair k) v"
  have d: "distinct (map fst (List.map_filter ?f ms))" if "distinct (map fst ms)" for ms :: "(string \<times> json option) list"
    using that
  proof (induction ms)
    case (Cons p ms)
    have "fst ` set (List.map_filter ?f ms) \<subseteq> fst ` set ms"
      by (force simp: List.map_filter_def)
    with Cons show ?case by (cases p; cases "snd p") (auto simp: List.map_filter_simps)
  qed (simp add: List.map_filter_simps)
  have "map_of (List.map_filter ?f ms) k = Option.bind (map_of ms k) (\<lambda>v. v)" if "distinct (map fst ms)"
    for ms :: "(string \<times> json option) list"
    using that
  proof (induction ms)
    case (Cons p ms)
    obtain a v where p: "p = (a, v)" by (cases p)
    show ?case
    proof (cases "a = k")
      case True
      then have "map_of ms k = None" using Cons.prems p by (simp add: map_of_eq_None_iff)
      with True show ?thesis using Cons p by (cases v) (auto simp: List.map_filter_simps)
    next
      case False
      with Cons p show ?thesis by (cases v) (auto simp: List.map_filter_simps)
    qed
  qed (simp add: List.map_filter_simps)
  with assms d[OF assms] show ?thesis by (simp add: field_def obj_def map_of_rev_distinct)
qed

lemma required_obj [codec_simps]:
  "distinct (map fst ms) \<Longrightarrow> required k dec (obj ms) = Option.bind (Option.bind (map_of ms k) (\<lambda>v. v)) dec"
  by (simp add: required_def field_obj)

lemma optionalKey_obj [codec_simps]:
  "distinct (map fst ms) \<Longrightarrow> optionalKey k dec (obj ms) = memberOf dec (Option.bind (map_of ms k) (\<lambda>v. v))"
  by (simp add: optionalKey_def field_obj) (simp add: obj_def)

lemma memberOf_encoded [codec_simps]:
  "(\<And>x. v = Some x \<Longrightarrow> dec (enc x) = Some x) \<Longrightarrow> memberOf dec (map_option enc v) = Some v"
  by (cases v) (simp_all add: memberOf_def)

lemma memberOf_simps [simp]:
  "memberOf dec None = Some None"
  "memberOf dec (Some j) = map_option Some (dec j)"
  by (simp_all add: memberOf_def)

lemma list_all_True [simp]: "list_all (\<lambda>_. True) xs"
  by (simp add: list_all_iff)

lemma memberOf_any [codec_simps]: "memberOf Some v = Some v"
  by (cases v) (simp_all add: memberOf_def)

lemma closedObject_obj [codec_simps]:
  "fst ` set ms \<subseteq> set ks \<Longrightarrow> closedObject ks (obj ms)"
  by (force simp: closedObject_def obj_def list_all_iff List.map_filter_def)

lemma decodeAll_map: "(\<And>x. x \<in> set xs \<Longrightarrow> dec (enc x) = Some x) \<Longrightarrow> decodeAll dec (map enc xs) = Some xs"
  by (induction xs) simp_all

lemma decodeAll_all: "decodeAll dec js = Some xs \<Longrightarrow> \<forall>x\<in>set xs. \<exists>j. dec j = Some x"
  by (induction js arbitrary: xs) (auto simp: bind_eq_Some_conv)

section \<open>Codecs\<close>

text \<open>The contract between a schema's encoder and decoder, for the values the schema admits.\<close>

locale codec =
  fixes enc :: "'a \<Rightarrow> json" and dec :: "'a decoder" and admitted :: "'a \<Rightarrow> bool"
  assumes decode_encode: "admitted x \<Longrightarrow> dec (enc x) = Some x"
begin

lemma encode_inject: "admitted x \<Longrightarrow> admitted y \<Longrightarrow> enc x = enc y \<longleftrightarrow> x = y"
  by (metis decode_encode option.inject)

lemma text_roundtrip: "admitted x \<Longrightarrow> decodeText dec (stringify (enc x)) = Some x"
  by (simp add: decodeText_def parseJson_stringify decode_encode)

lemma array_roundtrip: "list_all admitted xs \<Longrightarrow> arrayOf dec (arrayJson enc xs) = Some xs"
  by (simp add: arrayOf_def arrayJson_def decodeAll_map decode_encode list_all_iff)

lemma option_roundtrip:
  "(\<And>x. v = Some x \<Longrightarrow> admitted x \<and> enc x \<noteq> JNull) \<Longrightarrow> nullOr dec (nullOrJson enc v) = Some v"
  by (cases v) (auto simp: nullOr_def nullOrJson_def decode_encode)

lemma member_roundtrip: "pred_option admitted v \<Longrightarrow> memberOf dec (map_option enc v) = Some v"
  by (cases v) (simp_all add: memberOf_def decode_encode)

lemma option_admitted_roundtrip:
  "pred_option admitted v \<Longrightarrow> (\<And>x. enc x \<noteq> JNull) \<Longrightarrow> nullOr dec (nullOrJson enc v) = Some v"
  by (cases v) (simp_all add: nullOr_def nullOrJson_def decode_encode)

end

interpretation text_codec: codec JStr asString "\<lambda>_. True"
  by unfold_locales simp

interpretation flag_codec: codec JBool asBool "\<lambda>_. True"
  by unfold_locales simp

interpretation integer_codec: codec "\<lambda>n. JInt n" asInt "\<lambda>_. True"
  by unfold_locales simp

interpretation number_codec: codec numberJson asNumber "\<lambda>_. True"
  by unfold_locales simp

lemma literals_roundtrip:
  assumes "distinct (map fst tbl)" "x \<in> snd ` set tbl"
  shows "literalsOf tbl (literalsJson tbl x) = Some x"
proof -
  have "find (\<lambda>p. snd p = x) tbl \<noteq> None"
    using assms(2) by (auto simp: find_None_iff)
  then obtain p where p: "find (\<lambda>p. snd p = x) tbl = Some p" by blast
  then have "p \<in> set tbl" "snd p = x" using find_Some_in[OF p] by auto
  then have s: "find (\<lambda>p. snd p = x) tbl = Some (fst p, x)" "(fst p, x) \<in> set tbl"
    using p by (metis prod.collapse)+
  with assms(1) have "map_of tbl (fst p) = Some x" by simp
  with s show ?thesis by (simp add: literalsOf_def literalsJson_def)
qed

lemma numberJson_not_null [simp]: "numberJson n \<noteq> JNull"
  by (cases n) (simp add: numberJson_def)

lemma checkedBy_Some [success_simps]: "checkedBy P dec j = Some x \<longleftrightarrow> dec j = Some x \<and> P x"
  by (auto simp: checkedBy_def split: option.splits)

end
