(* ===== verification/CollectorDomain.thy ===== *)
theory CollectorDomain
  imports Schema
begin

text \<open>The collector's domain (packages/domain/src/collector.ts and toolValues.ts): what an
  Adapter reports about a source session, the accepted ACP content profile, the canonical
  profiles, and the JSON form and schema of each.  Numbers of the Adapter boundary keep
  their fractional form because the schemas accept any number and the Host rejects the
  unsafe ones later.\<close>

section \<open>Profiles and limits\<close>

datatype canonical_profile = Profile2 | Profile3 | Profile4 | Profile5

definition canonicalProfiles :: "(string \<times> canonical_profile) list" where
  "canonicalProfiles = [(''atape.acp-centered.v2'', Profile2), (''atape.acp-centered.v3'', Profile3),
     (''atape.acp-centered.v4'', Profile4), (''atape.acp-centered.v5'', Profile5)]"

definition hasNullableSourceClocks :: "canonical_profile \<Rightarrow> bool" where
  "hasNullableSourceClocks p \<longleftrightarrow> p \<noteq> Profile2"

definition decodeCapabilities :: "canonical_profile list decoder" where
  "decodeCapabilities j =
     Option.bind (required ''protocol'' asString j) (\<lambda>p.
     Option.bind (required ''canonicalProfiles'' (arrayOf (literalsOf canonicalProfiles)) j) (\<lambda>ps.
       if p = ''atape.canonical-capabilities.v1'' \<and> 1 \<le> length ps \<and> length ps \<le> 4 \<and> distinct ps
       then Some ps else None))"

record collection_limits =
  li_observations :: int
  li_threadsPerObservation :: int
  li_eventsPerObservation :: int
  li_canonicalBytesPerObservation :: int
  li_rawSegmentsPerObservation :: int
  li_rawSegmentBytes :: int
  li_rawBytesPerObservation :: int
  li_pagesPerCycle :: int

definition AdapterCollectionLimits :: collection_limits where
  "AdapterCollectionLimits = \<lparr>li_observations = 10, li_threadsPerObservation = 100,
     li_eventsPerObservation = 500, li_canonicalBytesPerObservation = 3 * 1024 * 1024,
     li_rawSegmentsPerObservation = 16, li_rawSegmentBytes = 16 * 1024 * 1024,
     li_rawBytesPerObservation = 16 * 1024 * 1024, li_pagesPerCycle = 20\<rparr>"

definition RawTransportChunkBytes :: int where
  "RawTransportChunkBytes = 3 * 1024 * 1024"

section \<open>Sessions and threads\<close>

datatype session_status = SessionActive | SessionIdle | SessionEnded
datatype capture_status = CaptureHealthy | CapturePartial | CaptureComplete | CaptureDegraded

definition sessionStatuses :: "(string \<times> session_status) list" where
  "sessionStatuses = [(''active'', SessionActive), (''idle'', SessionIdle), (''ended'', SessionEnded)]"

definition captureStatuses :: "(string \<times> capture_status) list" where
  "captureStatuses = [(''healthy'', CaptureHealthy), (''partial'', CapturePartial),
     (''complete'', CaptureComplete), (''degraded'', CaptureDegraded)]"

record adapter_actor =
  ac_name :: string
  ac_harness :: string

record adapter_session =
  as_sourceSessionId :: string
  as_revision :: number
  as_title :: string
  as_summary :: string
  as_insight :: string
  as_actor :: adapter_actor
  as_branch :: string
  as_status :: session_status
  as_captureStatus :: capture_status
  as_updatedAt :: "string option"
  as_reportedEventCount :: number

record adapter_thread =
  at_sourceThreadId :: string
  at_parent :: "string option"
  at_revision :: number
  at_label :: string
  at_summary :: string
  at_captureStatus :: capture_status

datatype adapter_raw_ref = ObjectRef string "string option" | UnavailableRef string

section \<open>Accepted ACP content\<close>

record resource_link =
  rl_name :: string
  rl_uri :: string
  rl_description :: "string option option"
  rl_mimeType :: "string option option"
  rl_size :: "number option option"
  rl_title :: "string option option"

datatype acp_resource =
    TextResource string string "string option option"
  | BlobResource string string "string option option"

datatype acp_content =
    TextContent string
  | ImageContent string string "string option option"
  | AudioContent string string
  | LinkContent resource_link
  | EmbeddedResource acp_resource

datatype tool_kind = KRead | KEdit | KDelete | KMove | KSearch | KExecute | KThink | KFetch | KSwitchMode | KOther
datatype tool_status = TPending | TInProgress | TCompleted | TFailed

definition toolKinds :: "(string \<times> tool_kind) list" where
  "toolKinds = [(''read'', KRead), (''edit'', KEdit), (''delete'', KDelete), (''move'', KMove),
     (''search'', KSearch), (''execute'', KExecute), (''think'', KThink), (''fetch'', KFetch),
     (''switch_mode'', KSwitchMode), (''other'', KOther)]"

definition toolStatuses :: "(string \<times> tool_status) list" where
  "toolStatuses = [(''pending'', TPending), (''in_progress'', TInProgress),
     (''completed'', TCompleted), (''failed'', TFailed)]"

definition NEL :: string where
  "NEL = [byte 0xC2, byte 0x85]"

definition toolIdentityName :: "string \<Rightarrow> bool" where
  "toolIdentityName v \<longleftrightarrow> js_trim v = v \<and> v \<noteq> [] \<and> \<not> startsWith NEL v \<and> \<not> endsWith NEL v \<and> length v \<le> 500"

datatype tool_identity = ToolNamed string | McpTool string string | SkillNamed string

text \<open>Control characters below U+0020 and from U+007F to U+009F.\<close>

fun hasControls :: "string \<Rightarrow> bool" where
  "hasControls [] = False"
| "hasControls [c] = (code c < 32 \<or> code c = 127)"
| "hasControls (c # d # r) =
     (code c < 32 \<or> code c = 127 \<or> (code c = 0xC2 \<and> 0x80 \<le> code d \<and> code d < 0xA0) \<or> hasControls (d # r))"

definition FileActivityPath :: "string \<Rightarrow> bool" where
  "FileActivityPath v \<longleftrightarrow> v \<noteq> [] \<and> \<not> hasControls v \<and> length v \<le> 2048"

datatype file_operation = FRead | FEdit | FSearch

definition fileOperations :: "(string \<times> file_operation) list" where
  "fileOperations = [(''read'', FRead), (''edit'', FEdit), (''search'', FSearch)]"

record file_activity =
  fa_operation :: file_operation
  fa_path :: string

record tool_metadata =
  tm_identity :: "tool_identity option"
  tm_fileActivity :: "file_activity list option option"

record tool_call =
  tc_toolCallId :: string
  tc_title :: string
  tc_kind :: "tool_kind option"
  tc_status :: "tool_status option"
  tc_rawInput :: "json option"
  tc_rawOutput :: "json option"
  tc_meta :: "tool_metadata option"

record tool_call_update =
  tu_toolCallId :: string
  tu_title :: "string option option"
  tu_kind :: "tool_kind option option"
  tu_status :: "tool_status option option"
  tu_rawInput :: "json option"
  tu_rawOutput :: "json option"
  tu_meta :: "tool_metadata option"

datatype acp_update =
    UserMessageChunk acp_content "string option option"
  | AgentMessageChunk acp_content "string option option"
  | AgentThoughtChunk acp_content "string option option"
  | ToolCall tool_call
  | ToolCallUpdate tool_call_update

text \<open>Which canonical profile admits the metadata of a tool update.\<close>

definition admitsMeta :: "canonical_profile \<Rightarrow> tool_metadata option \<Rightarrow> bool" where
  "admitsMeta profile meta = (case meta of
       None \<Rightarrow> True
     | Some m \<Rightarrow> profile = Profile5 \<or>
         (profile = Profile4 \<and> (case tm_identity m of Some (ToolNamed _) \<Rightarrow> False | _ \<Rightarrow> True) \<and> tm_fileActivity m = None))"

definition admitsToolMetadata :: "canonical_profile \<Rightarrow> acp_update \<Rightarrow> bool" where
  "admitsToolMetadata profile u = (case u of
       ToolCall t \<Rightarrow> admitsMeta profile (tc_meta t)
     | ToolCallUpdate t \<Rightarrow> admitsMeta profile (tu_meta t)
     | _ \<Rightarrow> True)"

section \<open>Observations\<close>

datatype order_fidelity = OrderNative | OrderDerived
datatype fidelity = FidelityNative | FidelityDerived | FidelityPartial | FidelityRedacted

definition orderFidelities :: "(string \<times> order_fidelity) list" where
  "orderFidelities = [(''native'', OrderNative), (''derived'', OrderDerived)]"

definition fidelities :: "(string \<times> fidelity) list" where
  "fidelities = [(''native'', FidelityNative), (''derived'', FidelityDerived),
     (''partial'', FidelityPartial), (''redacted'', FidelityRedacted)]"

record adapter_event =
  ev_sourceEventId :: string
  ev_sourceThreadId :: string
  ev_revision :: number
  ev_projectionRevision :: number
  ev_sourceOrder :: number
  ev_eventIndex :: number
  ev_orderFidelity :: order_fidelity
  ev_fidelity :: fidelity
  ev_rawRef :: adapter_raw_ref
  ev_occurredAt :: "string option"
  ev_update :: acp_update
  ev_childSourceThreadId :: "string option"

record adapter_usage =
  us_sourceUsageId :: string
  us_sourceThreadId :: string
  us_revision :: number
  us_occurredAt :: string
  us_model :: string
  us_inputTokens :: "number option"
  us_outputTokens :: "number option"
  us_cacheReadTokens :: "number option"
  us_cacheWriteTokens :: "number option"

record raw_segment =
  sg_sourceObjectId :: string
  sg_sourceGeneration :: string
  sg_sourceOffset :: number
  sg_sourceName :: string
  sg_mediaType :: string
  sg_content :: string
  sg_final :: bool

record adapter_observation =
  ob_observationId :: string
  ob_observedAt :: string
  ob_session :: adapter_session
  ob_threads :: "adapter_thread list"
  ob_events :: "adapter_event list"
  ob_usage :: "adapter_usage list option"
  ob_rawSegments :: "raw_segment list"

section \<open>Pages\<close>

definition MaxSourceFailures :: int where
  "MaxSourceFailures = 32"

datatype failure_reason = FailIo | FailFormat | FailUnsupported | FailChanged | FailLimit | FailDuplicate | FailAttribution

record source_failure =
  sf_source :: string
  sf_reason :: failure_reason

datatype collection_phase = PhaseCanonical | PhaseRaw | PhaseIdle

record collection_progress =
  pg_rawCaptureEnabled :: "bool option"
  pg_phase :: collection_phase
  pg_sourceFiles :: number
  pg_pendingCanonicalSessions :: "number option"
  pg_pendingRawBytes :: "number option"

record collection_page =
  pa_progress :: "collection_progress option"
  pa_nextCursor :: "string option"
  pa_hasMore :: bool
  pa_observations :: "adapter_observation list"
  pa_sourceFailures :: "source_failure list option"
  pa_sourceFailuresTruncated :: "bool option"

section \<open>JSON forms\<close>

definition sessionJson :: "adapter_session \<Rightarrow> json" where
  "sessionJson s = obj [(''sourceSessionId'', Some (JStr (as_sourceSessionId s))),
     (''revision'', Some (numberJson (as_revision s))), (''title'', Some (JStr (as_title s))),
     (''summary'', Some (JStr (as_summary s))), (''insight'', Some (JStr (as_insight s))),
     (''actor'', Some (obj [(''name'', Some (JStr (ac_name (as_actor s)))),
        (''harness'', Some (JStr (ac_harness (as_actor s))))])),
     (''branch'', Some (JStr (as_branch s))), (''status'', Some (literalsJson sessionStatuses (as_status s))),
     (''captureStatus'', Some (literalsJson captureStatuses (as_captureStatus s))),
     (''updatedAt'', Some (nullOrJson JStr (as_updatedAt s))),
     (''reportedEventCount'', Some (numberJson (as_reportedEventCount s)))]"

definition threadJson :: "adapter_thread \<Rightarrow> json" where
  "threadJson t = obj [(''sourceThreadId'', Some (JStr (at_sourceThreadId t))),
     (''parentSourceThreadId'', map_option JStr (at_parent t)), (''revision'', Some (numberJson (at_revision t))),
     (''label'', Some (JStr (at_label t))), (''summary'', Some (JStr (at_summary t))),
     (''captureStatus'', Some (literalsJson captureStatuses (at_captureStatus t)))]"

definition rawRefJson :: "adapter_raw_ref \<Rightarrow> json" where
  "rawRefJson r = (case r of
       ObjectRef i f \<Rightarrow> obj [(''_tag'', Some (JStr ''object'')), (''sourceObjectId'', Some (JStr i)), (''fragment'', map_option JStr f)]
     | UnavailableRef w \<Rightarrow> obj [(''_tag'', Some (JStr ''unavailable'')), (''reason'', Some (JStr w))])"

abbreviation optText :: "string option option \<Rightarrow> json option" where
  "optText v \<equiv> map_option (nullOrJson JStr) v"

definition resourceJson :: "acp_resource \<Rightarrow> json" where
  "resourceJson r = (case r of
       TextResource u t m \<Rightarrow> obj [(''uri'', Some (JStr u)), (''text'', Some (JStr t)), (''mimeType'', optText m)]
     | BlobResource u b m \<Rightarrow> obj [(''uri'', Some (JStr u)), (''blob'', Some (JStr b)), (''mimeType'', optText m)])"

definition contentJson :: "acp_content \<Rightarrow> json" where
  "contentJson c = (case c of
       TextContent t \<Rightarrow> obj [(''type'', Some (JStr ''text'')), (''text'', Some (JStr t))]
     | ImageContent d m u \<Rightarrow> obj [(''type'', Some (JStr ''image'')), (''data'', Some (JStr d)),
         (''mimeType'', Some (JStr m)), (''uri'', optText u)]
     | AudioContent d m \<Rightarrow> obj [(''type'', Some (JStr ''audio'')), (''data'', Some (JStr d)), (''mimeType'', Some (JStr m))]
     | LinkContent l \<Rightarrow> obj [(''type'', Some (JStr ''resource_link'')), (''name'', Some (JStr (rl_name l))),
         (''uri'', Some (JStr (rl_uri l))), (''description'', optText (rl_description l)),
         (''mimeType'', optText (rl_mimeType l)), (''size'', map_option (nullOrJson numberJson) (rl_size l)),
         (''title'', optText (rl_title l))]
     | EmbeddedResource r \<Rightarrow> obj [(''type'', Some (JStr ''resource'')), (''resource'', Some (resourceJson r))])"

definition identityJson :: "tool_identity \<Rightarrow> json" where
  "identityJson t = (case t of
       ToolNamed n \<Rightarrow> obj [(''type'', Some (JStr ''tool'')), (''name'', Some (JStr n))]
     | McpTool s n \<Rightarrow> obj [(''type'', Some (JStr ''mcp'')), (''server'', Some (JStr s)), (''name'', Some (JStr n))]
     | SkillNamed n \<Rightarrow> obj [(''type'', Some (JStr ''skill'')), (''name'', Some (JStr n))])"

definition activityJson :: "file_activity \<Rightarrow> json" where
  "activityJson a = obj [(''operation'', Some (literalsJson fileOperations (fa_operation a))), (''path'', Some (JStr (fa_path a)))]"

definition metadataJson :: "tool_metadata \<Rightarrow> json" where
  "metadataJson m = obj [(''atape.dev/tool-identity'', Some (nullOrJson identityJson (tm_identity m))),
     (''atape.dev/file-activity'', map_option (nullOrJson (arrayJson activityJson)) (tm_fileActivity m))]"

definition updateJson :: "acp_update \<Rightarrow> json" where
  "updateJson u = (case u of
       UserMessageChunk c m \<Rightarrow> obj [(''sessionUpdate'', Some (JStr ''user_message_chunk'')),
         (''content'', Some (contentJson c)), (''messageId'', optText m)]
     | AgentMessageChunk c m \<Rightarrow> obj [(''sessionUpdate'', Some (JStr ''agent_message_chunk'')),
         (''content'', Some (contentJson c)), (''messageId'', optText m)]
     | AgentThoughtChunk c m \<Rightarrow> obj [(''sessionUpdate'', Some (JStr ''agent_thought_chunk'')),
         (''content'', Some (contentJson c)), (''messageId'', optText m)]
     | ToolCall t \<Rightarrow> obj [(''sessionUpdate'', Some (JStr ''tool_call'')), (''toolCallId'', Some (JStr (tc_toolCallId t))),
         (''title'', Some (JStr (tc_title t))), (''kind'', map_option (literalsJson toolKinds) (tc_kind t)),
         (''status'', map_option (literalsJson toolStatuses) (tc_status t)),
         (''rawInput'', tc_rawInput t), (''rawOutput'', tc_rawOutput t), (''_meta'', map_option metadataJson (tc_meta t))]
     | ToolCallUpdate t \<Rightarrow> obj [(''sessionUpdate'', Some (JStr ''tool_call_update'')), (''toolCallId'', Some (JStr (tu_toolCallId t))),
         (''title'', optText (tu_title t)), (''kind'', map_option (nullOrJson (literalsJson toolKinds)) (tu_kind t)),
         (''status'', map_option (nullOrJson (literalsJson toolStatuses)) (tu_status t)),
         (''rawInput'', tu_rawInput t), (''rawOutput'', tu_rawOutput t), (''_meta'', map_option metadataJson (tu_meta t))])"

definition eventJson :: "adapter_event \<Rightarrow> json" where
  "eventJson e = obj [(''sourceEventId'', Some (JStr (ev_sourceEventId e))), (''sourceThreadId'', Some (JStr (ev_sourceThreadId e))),
     (''revision'', Some (numberJson (ev_revision e))), (''projectionRevision'', Some (numberJson (ev_projectionRevision e))),
     (''sourceOrder'', Some (numberJson (ev_sourceOrder e))), (''eventIndex'', Some (numberJson (ev_eventIndex e))),
     (''orderFidelity'', Some (literalsJson orderFidelities (ev_orderFidelity e))),
     (''fidelity'', Some (literalsJson fidelities (ev_fidelity e))), (''rawRef'', Some (rawRefJson (ev_rawRef e))),
     (''occurredAt'', Some (nullOrJson JStr (ev_occurredAt e))), (''update'', Some (updateJson (ev_update e))),
     (''childSourceThreadId'', map_option JStr (ev_childSourceThreadId e))]"

definition usageJson :: "adapter_usage \<Rightarrow> json" where
  "usageJson u = obj [(''sourceUsageId'', Some (JStr (us_sourceUsageId u))), (''sourceThreadId'', Some (JStr (us_sourceThreadId u))),
     (''revision'', Some (numberJson (us_revision u))), (''occurredAt'', Some (JStr (us_occurredAt u))),
     (''model'', Some (JStr (us_model u))), (''inputTokens'', map_option numberJson (us_inputTokens u)),
     (''outputTokens'', map_option numberJson (us_outputTokens u)),
     (''cacheReadTokens'', map_option numberJson (us_cacheReadTokens u)),
     (''cacheWriteTokens'', map_option numberJson (us_cacheWriteTokens u))]"

definition segmentJson :: "raw_segment \<Rightarrow> json" where
  "segmentJson s = obj [(''sourceObjectId'', Some (JStr (sg_sourceObjectId s))), (''sourceGeneration'', Some (JStr (sg_sourceGeneration s))),
     (''sourceOffset'', Some (numberJson (sg_sourceOffset s))), (''sourceName'', Some (JStr (sg_sourceName s))),
     (''mediaType'', Some (JStr (sg_mediaType s))), (''content'', Some (JStr (sg_content s))), (''final'', Some (JBool (sg_final s)))]"

definition observationJson :: "adapter_observation \<Rightarrow> json" where
  "observationJson v = obj [(''observationId'', Some (JStr (ob_observationId v))), (''observedAt'', Some (JStr (ob_observedAt v))),
     (''session'', Some (sessionJson (ob_session v))), (''threads'', Some (arrayJson threadJson (ob_threads v))),
     (''events'', Some (arrayJson eventJson (ob_events v))), (''usage'', map_option (arrayJson usageJson) (ob_usage v)),
     (''rawSegments'', Some (arrayJson segmentJson (ob_rawSegments v)))]"

end
