(* ===== verification/CollectorSchemas.thy ===== *)
theory CollectorSchemas
  imports CollectorDomain
begin

text \<open>The schemas of the collector's domain as decoders, and that each reads back what it
  prints: every schema of the Adapter boundary is a codec.\<close>

section \<open>Decoders\<close>

definition decodeActor :: "adapter_actor decoder" where
  "decodeActor j = Option.bind (required ''name'' asString j) (\<lambda>n.
     Option.bind (required ''harness'' asString j) (\<lambda>h. Some \<lparr>ac_name = n, ac_harness = h\<rparr>))"

definition decodeSession :: "adapter_session decoder" where
  "decodeSession j =
     Option.bind (required ''sourceSessionId'' asString j) (\<lambda>i.
     Option.bind (required ''revision'' asNumber j) (\<lambda>r.
     Option.bind (required ''title'' asString j) (\<lambda>t.
     Option.bind (required ''summary'' asString j) (\<lambda>s.
     Option.bind (required ''insight'' asString j) (\<lambda>n.
     Option.bind (required ''actor'' decodeActor j) (\<lambda>a.
     Option.bind (required ''branch'' asString j) (\<lambda>b.
     Option.bind (required ''status'' (literalsOf sessionStatuses) j) (\<lambda>st.
     Option.bind (required ''captureStatus'' (literalsOf captureStatuses) j) (\<lambda>c.
     Option.bind (required ''updatedAt'' (nullOr asString) j) (\<lambda>u.
     Option.bind (required ''reportedEventCount'' asNumber j) (\<lambda>k.
       Some \<lparr>as_sourceSessionId = i, as_revision = r, as_title = t, as_summary = s, as_insight = n, as_actor = a,
         as_branch = b, as_status = st, as_captureStatus = c, as_updatedAt = u, as_reportedEventCount = k\<rparr>)))))))))))"

definition decodeThread :: "adapter_thread decoder" where
  "decodeThread j =
     Option.bind (required ''sourceThreadId'' asString j) (\<lambda>i.
     Option.bind (optionalKey ''parentSourceThreadId'' asString j) (\<lambda>p.
     Option.bind (required ''revision'' asNumber j) (\<lambda>r.
     Option.bind (required ''label'' asString j) (\<lambda>l.
     Option.bind (required ''summary'' asString j) (\<lambda>s.
     Option.bind (required ''captureStatus'' (literalsOf captureStatuses) j) (\<lambda>c.
       Some \<lparr>at_sourceThreadId = i, at_parent = p, at_revision = r, at_label = l, at_summary = s, at_captureStatus = c\<rparr>))))))"

definition decodeRawRef :: "adapter_raw_ref decoder" where
  "decodeRawRef j = Option.bind (required ''_tag'' asString j) (\<lambda>t.
     if t = ''object'' then
       Option.bind (required ''sourceObjectId'' asString j) (\<lambda>i.
       Option.bind (optionalKey ''fragment'' asString j) (\<lambda>f. Some (ObjectRef i f)))
     else if t = ''unavailable'' then map_option UnavailableRef (required ''reason'' asString j)
     else None)"

definition decodeResource :: "acp_resource decoder" where
  "decodeResource j =
     Option.bind (required ''uri'' asString j) (\<lambda>u.
     Option.bind (optionalKey ''mimeType'' (nullOr asString) j) (\<lambda>m.
       case required ''text'' asString j of
         Some t \<Rightarrow> Some (TextResource u t m)
       | None \<Rightarrow> map_option (\<lambda>b. BlobResource u b m) (required ''blob'' asString j)))"

definition decodeLink :: "resource_link decoder" where
  "decodeLink j =
     Option.bind (required ''name'' asString j) (\<lambda>n.
     Option.bind (required ''uri'' asString j) (\<lambda>u.
     Option.bind (optionalKey ''description'' (nullOr asString) j) (\<lambda>d.
     Option.bind (optionalKey ''mimeType'' (nullOr asString) j) (\<lambda>m.
     Option.bind (optionalKey ''size'' (nullOr asNumber) j) (\<lambda>s.
     Option.bind (optionalKey ''title'' (nullOr asString) j) (\<lambda>t.
       Some \<lparr>rl_name = n, rl_uri = u, rl_description = d, rl_mimeType = m, rl_size = s, rl_title = t\<rparr>))))))"

definition decodeContent :: "acp_content decoder" where
  "decodeContent j = Option.bind (required ''type'' asString j) (\<lambda>t.
     if t = ''text'' then map_option TextContent (required ''text'' asString j)
     else if t = ''image'' then
       Option.bind (required ''data'' asString j) (\<lambda>d.
       Option.bind (required ''mimeType'' asString j) (\<lambda>m.
       Option.bind (optionalKey ''uri'' (nullOr asString) j) (\<lambda>u. Some (ImageContent d m u))))
     else if t = ''audio'' then
       Option.bind (required ''data'' asString j) (\<lambda>d.
       Option.bind (required ''mimeType'' asString j) (\<lambda>m. Some (AudioContent d m)))
     else if t = ''resource_link'' then map_option LinkContent (decodeLink j)
     else if t = ''resource'' then map_option EmbeddedResource (required ''resource'' decodeResource j)
     else None)"

abbreviation identityName :: "string decoder" where
  "identityName \<equiv> checkedBy toolIdentityName asString"

definition decodeIdentity :: "tool_identity decoder" where
  "decodeIdentity j = Option.bind (required ''type'' asString j) (\<lambda>t.
     if t = ''tool'' \<and> closedObject [''type'', ''name''] j then map_option ToolNamed (required ''name'' identityName j)
     else if t = ''mcp'' \<and> closedObject [''type'', ''server'', ''name''] j then
       Option.bind (required ''server'' identityName j) (\<lambda>s. map_option (McpTool s) (required ''name'' identityName j))
     else if t = ''skill'' \<and> closedObject [''type'', ''name''] j then map_option SkillNamed (required ''name'' identityName j)
     else None)"

definition decodeActivityEntry :: "file_activity decoder" where
  "decodeActivityEntry j = (if \<not> closedObject [''operation'', ''path''] j then None else
     Option.bind (required ''operation'' (literalsOf fileOperations) j) (\<lambda>k.
     Option.bind (required ''path'' (checkedBy FileActivityPath asString) j) (\<lambda>p.
       Some \<lparr>fa_operation = k, fa_path = p\<rparr>)))"

definition admittedActivity :: "file_activity list \<Rightarrow> bool" where
  "admittedActivity xs \<longleftrightarrow> length xs \<le> 64 \<and> length (stringify (arrayJson activityJson xs)) \<le> 4096"

definition decodeMetadata :: "tool_metadata decoder" where
  "decodeMetadata j = (if \<not> closedObject [''atape.dev/tool-identity'', ''atape.dev/file-activity''] j then None else
     Option.bind (required ''atape.dev/tool-identity'' (nullOr decodeIdentity) j) (\<lambda>t.
     Option.bind (optionalKey ''atape.dev/file-activity'' (nullOr (checkedBy admittedActivity (arrayOf decodeActivityEntry))) j) (\<lambda>f.
       Some \<lparr>tm_identity = t, tm_fileActivity = f\<rparr>)))"

definition decodeToolCall :: "tool_call decoder" where
  "decodeToolCall j =
     Option.bind (required ''toolCallId'' asString j) (\<lambda>i.
     Option.bind (required ''title'' asString j) (\<lambda>t.
     Option.bind (optionalKey ''kind'' (literalsOf toolKinds) j) (\<lambda>k.
     Option.bind (optionalKey ''status'' (literalsOf toolStatuses) j) (\<lambda>s.
     Option.bind (optionalKey ''rawInput'' Some j) (\<lambda>a.
     Option.bind (optionalKey ''rawOutput'' Some j) (\<lambda>b.
     Option.bind (optionalKey ''_meta'' decodeMetadata j) (\<lambda>m.
       Some \<lparr>tc_toolCallId = i, tc_title = t, tc_kind = k, tc_status = s, tc_rawInput = a, tc_rawOutput = b, tc_meta = m\<rparr>)))))))"

definition decodeToolCallUpdate :: "tool_call_update decoder" where
  "decodeToolCallUpdate j =
     Option.bind (required ''toolCallId'' asString j) (\<lambda>i.
     Option.bind (optionalKey ''title'' (nullOr asString) j) (\<lambda>t.
     Option.bind (optionalKey ''kind'' (nullOr (literalsOf toolKinds)) j) (\<lambda>k.
     Option.bind (optionalKey ''status'' (nullOr (literalsOf toolStatuses)) j) (\<lambda>s.
     Option.bind (optionalKey ''rawInput'' Some j) (\<lambda>a.
     Option.bind (optionalKey ''rawOutput'' Some j) (\<lambda>b.
     Option.bind (optionalKey ''_meta'' decodeMetadata j) (\<lambda>m.
       Some \<lparr>tu_toolCallId = i, tu_title = t, tu_kind = k, tu_status = s, tu_rawInput = a, tu_rawOutput = b, tu_meta = m\<rparr>)))))))"

definition decodeUpdate :: "acp_update decoder" where
  "decodeUpdate j = Option.bind (required ''sessionUpdate'' asString j) (\<lambda>t.
     let chunk = (\<lambda>mk. Option.bind (required ''content'' decodeContent j) (\<lambda>c.
           Option.bind (optionalKey ''messageId'' (nullOr asString) j) (\<lambda>m. Some (mk c m)))) in
     if t = ''user_message_chunk'' then chunk UserMessageChunk
     else if t = ''agent_message_chunk'' then chunk AgentMessageChunk
     else if t = ''agent_thought_chunk'' then chunk AgentThoughtChunk
     else if t = ''tool_call'' then map_option ToolCall (decodeToolCall j)
     else if t = ''tool_call_update'' then map_option ToolCallUpdate (decodeToolCallUpdate j)
     else None)"

definition decodeEvent :: "adapter_event decoder" where
  "decodeEvent j =
     Option.bind (required ''sourceEventId'' asString j) (\<lambda>i.
     Option.bind (required ''sourceThreadId'' asString j) (\<lambda>t.
     Option.bind (required ''revision'' asNumber j) (\<lambda>r.
     Option.bind (required ''projectionRevision'' asNumber j) (\<lambda>p.
     Option.bind (required ''sourceOrder'' asNumber j) (\<lambda>s.
     Option.bind (required ''eventIndex'' asNumber j) (\<lambda>x.
     Option.bind (required ''orderFidelity'' (literalsOf orderFidelities) j) (\<lambda>ordf.
     Option.bind (required ''fidelity'' (literalsOf fidelities) j) (\<lambda>fid.
     Option.bind (required ''rawRef'' decodeRawRef j) (\<lambda>ref.
     Option.bind (required ''occurredAt'' (nullOr asString) j) (\<lambda>w.
     Option.bind (required ''update'' decodeUpdate j) (\<lambda>u.
     Option.bind (optionalKey ''childSourceThreadId'' asString j) (\<lambda>c.
       Some \<lparr>ev_sourceEventId = i, ev_sourceThreadId = t, ev_revision = r, ev_projectionRevision = p, ev_sourceOrder = s,
         ev_eventIndex = x, ev_orderFidelity = ordf, ev_fidelity = fid, ev_rawRef = ref, ev_occurredAt = w, ev_update = u,
         ev_childSourceThreadId = c\<rparr>))))))))))))"

definition decodeUsage :: "adapter_usage decoder" where
  "decodeUsage j =
     Option.bind (required ''sourceUsageId'' asString j) (\<lambda>i.
     Option.bind (required ''sourceThreadId'' asString j) (\<lambda>t.
     Option.bind (required ''revision'' asNumber j) (\<lambda>r.
     Option.bind (required ''occurredAt'' asString j) (\<lambda>w.
     Option.bind (required ''model'' asString j) (\<lambda>m.
     Option.bind (optionalKey ''inputTokens'' asNumber j) (\<lambda>a.
     Option.bind (optionalKey ''outputTokens'' asNumber j) (\<lambda>b.
     Option.bind (optionalKey ''cacheReadTokens'' asNumber j) (\<lambda>c.
     Option.bind (optionalKey ''cacheWriteTokens'' asNumber j) (\<lambda>d.
       Some \<lparr>us_sourceUsageId = i, us_sourceThreadId = t, us_revision = r, us_occurredAt = w, us_model = m,
         us_inputTokens = a, us_outputTokens = b, us_cacheReadTokens = c, us_cacheWriteTokens = d\<rparr>)))))))))"

definition decodeSegment :: "raw_segment decoder" where
  "decodeSegment j =
     Option.bind (required ''sourceObjectId'' asString j) (\<lambda>i.
     Option.bind (required ''sourceGeneration'' asString j) (\<lambda>g.
     Option.bind (required ''sourceOffset'' asNumber j) (\<lambda>k.
     Option.bind (required ''sourceName'' asString j) (\<lambda>n.
     Option.bind (required ''mediaType'' asString j) (\<lambda>m.
     Option.bind (required ''content'' asString j) (\<lambda>c.
     Option.bind (required ''final'' asBool j) (\<lambda>f.
       Some \<lparr>sg_sourceObjectId = i, sg_sourceGeneration = g, sg_sourceOffset = k, sg_sourceName = n, sg_mediaType = m,
         sg_content = c, sg_final = f\<rparr>)))))))"

definition decodeObservation :: "adapter_observation decoder" where
  "decodeObservation j =
     Option.bind (required ''observationId'' asString j) (\<lambda>i.
     Option.bind (required ''observedAt'' asString j) (\<lambda>w.
     Option.bind (required ''session'' decodeSession j) (\<lambda>s.
     Option.bind (required ''threads'' (arrayOf decodeThread) j) (\<lambda>ts.
     Option.bind (required ''events'' (arrayOf decodeEvent) j) (\<lambda>es.
     Option.bind (optionalKey ''usage'' (arrayOf decodeUsage) j) (\<lambda>us.
     Option.bind (required ''rawSegments'' (arrayOf decodeSegment) j) (\<lambda>gs.
       Some \<lparr>ob_observationId = i, ob_observedAt = w, ob_session = s, ob_threads = ts, ob_events = es, ob_usage = us,
         ob_rawSegments = gs\<rparr>)))))))"

definition failureReasons :: "(string \<times> failure_reason) list" where
  "failureReasons = [(''io'', FailIo), (''format'', FailFormat), (''unsupported'', FailUnsupported), (''changed'', FailChanged),
     (''limit'', FailLimit), (''duplicate'', FailDuplicate), (''attribution'', FailAttribution)]"

definition collectionPhases :: "(string \<times> collection_phase) list" where
  "collectionPhases = [(''canonical'', PhaseCanonical), (''raw'', PhaseRaw), (''idle'', PhaseIdle)]"

definition decodeSourceFailure :: "source_failure decoder" where
  "decodeSourceFailure j = Option.bind (required ''source'' asString j) (\<lambda>s.
     Option.bind (required ''reason'' (literalsOf failureReasons) j) (\<lambda>r. Some \<lparr>sf_source = s, sf_reason = r\<rparr>))"

definition decodeProgress :: "collection_progress decoder" where
  "decodeProgress j =
     Option.bind (optionalKey ''rawCaptureEnabled'' asBool j) (\<lambda>e.
     Option.bind (required ''phase'' (literalsOf collectionPhases) j) (\<lambda>p.
     Option.bind (required ''sourceFiles'' asNumber j) (\<lambda>f.
     Option.bind (optionalKey ''pendingCanonicalSessions'' asNumber j) (\<lambda>c.
     Option.bind (optionalKey ''pendingRawBytes'' asNumber j) (\<lambda>b.
       Some \<lparr>pg_rawCaptureEnabled = e, pg_phase = p, pg_sourceFiles = f, pg_pendingCanonicalSessions = c, pg_pendingRawBytes = b\<rparr>)))))"

definition decodePage :: "string \<Rightarrow> collection_page decoder" where
  "decodePage protocol j =
     Option.bind (optionalKey ''progress'' decodeProgress j) (\<lambda>p.
     Option.bind (required ''protocolVersion'' asString j) (\<lambda>v.
     Option.bind (required ''nextCursor'' (nullOr asString) j) (\<lambda>c.
     Option.bind (required ''hasMore'' asBool j) (\<lambda>m.
     Option.bind (required ''observations'' (arrayOf decodeObservation) j) (\<lambda>vs.
     Option.bind (optionalKey ''sourceFailures'' (arrayOf decodeSourceFailure) j) (\<lambda>fs.
     Option.bind (optionalKey ''sourceFailuresTruncated'' asBool j) (\<lambda>t.
       if v = protocol then Some \<lparr>pa_progress = p, pa_nextCursor = c, pa_hasMore = m, pa_observations = vs,
         pa_sourceFailures = fs, pa_sourceFailuresTruncated = t\<rparr> else None)))))))"

section \<open>Round trips\<close>

lemma nullOr_text [simp]: "nullOr asString (nullOrJson JStr v) = Some v"
  by (rule text_codec.option_roundtrip) simp

lemma nullOr_number [simp]: "nullOr asNumber (nullOrJson numberJson v) = Some v"
  by (rule number_codec.option_roundtrip) simp

lemma session_literals [simp]: "literalsOf sessionStatuses (literalsJson sessionStatuses x) = Some x" "literalsJson sessionStatuses x \<noteq> JNull"
  by (cases x; simp add: literalsOf_def literalsJson_def sessionStatuses_def)+

lemma capture_literals [simp]: "literalsOf captureStatuses (literalsJson captureStatuses x) = Some x" "literalsJson captureStatuses x \<noteq> JNull"
  by (cases x; simp add: literalsOf_def literalsJson_def captureStatuses_def)+

lemma kind_literals [simp]: "literalsOf toolKinds (literalsJson toolKinds x) = Some x" "literalsJson toolKinds x \<noteq> JNull"
  by (cases x; simp add: literalsOf_def literalsJson_def toolKinds_def)+

lemma status_literals [simp]: "literalsOf toolStatuses (literalsJson toolStatuses x) = Some x" "literalsJson toolStatuses x \<noteq> JNull"
  by (cases x; simp add: literalsOf_def literalsJson_def toolStatuses_def)+

lemma operation_literals [simp]: "literalsOf fileOperations (literalsJson fileOperations x) = Some x" "literalsJson fileOperations x \<noteq> JNull"
  by (cases x; simp add: literalsOf_def literalsJson_def fileOperations_def)+

lemma order_literals [simp]: "literalsOf orderFidelities (literalsJson orderFidelities x) = Some x" "literalsJson orderFidelities x \<noteq> JNull"
  by (cases x; simp add: literalsOf_def literalsJson_def orderFidelities_def)+

lemma fidelity_literals [simp]: "literalsOf fidelities (literalsJson fidelities x) = Some x" "literalsJson fidelities x \<noteq> JNull"
  by (cases x; simp add: literalsOf_def literalsJson_def fidelities_def)+

lemma nullOr_literals [simp]:
  "nullOr (literalsOf toolKinds) (nullOrJson (literalsJson toolKinds) k) = Some k"
  "nullOr (literalsOf toolStatuses) (nullOrJson (literalsJson toolStatuses) s) = Some s"
  by (cases k; simp add: nullOr_def nullOrJson_def) (cases s; simp add: nullOr_def nullOrJson_def)

lemma decodeActor_roundtrip [simp]:
  "decodeActor (obj [(''name'', Some (JStr n)), (''harness'', Some (JStr h))]) = Some \<lparr>ac_name = n, ac_harness = h\<rparr>"
  by (simp add: decodeActor_def codec_simps)

interpretation session_codec: codec sessionJson decodeSession "\<lambda>_. True"
  by unfold_locales (simp add: sessionJson_def decodeSession_def codec_simps)

interpretation thread_codec: codec threadJson decodeThread "\<lambda>_. True"
  by unfold_locales (simp add: threadJson_def decodeThread_def codec_simps)

interpretation reference_codec: codec rawRefJson decodeRawRef "\<lambda>_. True"
  by unfold_locales (simp add: rawRefJson_def decodeRawRef_def codec_simps split: adapter_raw_ref.split)

interpretation resource_codec: codec resourceJson decodeResource "\<lambda>_. True"
  by unfold_locales (simp add: resourceJson_def decodeResource_def codec_simps split: acp_resource.split)

interpretation content_codec: codec contentJson decodeContent "\<lambda>_. True"
  by unfold_locales (simp add: contentJson_def decodeContent_def decodeLink_def codec_simps
      resource_codec.decode_encode split: acp_content.split)

definition admittedIdentity :: "tool_identity \<Rightarrow> bool" where
  "admittedIdentity t = (case t of ToolNamed n \<Rightarrow> toolIdentityName n
     | McpTool s n \<Rightarrow> toolIdentityName s \<and> toolIdentityName n | SkillNamed n \<Rightarrow> toolIdentityName n)"

interpretation identity_codec: codec identityJson decodeIdentity admittedIdentity
  by unfold_locales (auto simp: identityJson_def decodeIdentity_def admittedIdentity_def codec_simps checkedBy_def
      split: tool_identity.splits)

interpretation activity_codec: codec activityJson decodeActivityEntry "\<lambda>a. FileActivityPath (fa_path a)"
  by unfold_locales (simp add: activityJson_def decodeActivityEntry_def codec_simps checkedBy_def)

lemma obj_not_null [simp]: "obj ms \<noteq> JNull"
  by (simp add: obj_def)

definition admittedMetadata :: "tool_metadata \<Rightarrow> bool" where
  "admittedMetadata m \<longleftrightarrow> pred_option admittedIdentity (tm_identity m) \<and>
     (case tm_fileActivity m of Some (Some fs) \<Rightarrow> admittedActivity fs \<and> list_all (\<lambda>f. FileActivityPath (fa_path f)) fs | _ \<Rightarrow> True)"

lemma identity_nullable:
  "admittedMetadata m \<Longrightarrow> nullOr decodeIdentity (nullOrJson identityJson (tm_identity m)) = Some (tm_identity m)"
  by (rule identity_codec.option_admitted_roundtrip) (auto simp: admittedMetadata_def identityJson_def split: tool_identity.split)

lemma activity_nullable:
  assumes "admittedMetadata m" "tm_fileActivity m = Some v"
  shows "nullOr (checkedBy admittedActivity (arrayOf decodeActivityEntry)) (nullOrJson (arrayJson activityJson) v) = Some v"
proof (cases v)
  case (Some fs)
  with assms have "admittedActivity fs" "list_all (\<lambda>f. FileActivityPath (fa_path f)) fs"
    by (simp_all add: admittedMetadata_def)
  then have "checkedBy admittedActivity (arrayOf decodeActivityEntry) (arrayJson activityJson fs) = Some fs"
    by (simp add: checkedBy_def activity_codec.array_roundtrip)
  then show ?thesis using Some by (simp add: nullOr_def nullOrJson_def) (simp add: arrayJson_def)
qed (simp add: nullOr_def nullOrJson_def)

interpretation metadata_codec: codec metadataJson decodeMetadata admittedMetadata
proof
  fix m assume "admittedMetadata m"
  then show "decodeMetadata (metadataJson m) = Some m"
    by (cases "tm_fileActivity m")
      (simp_all add: metadataJson_def decodeMetadata_def codec_simps identity_nullable activity_nullable)
qed

definition admittedUpdate :: "acp_update \<Rightarrow> bool" where
  "admittedUpdate u = (case u of
       ToolCall t \<Rightarrow> pred_option admittedMetadata (tc_meta t)
     | ToolCallUpdate t \<Rightarrow> pred_option admittedMetadata (tu_meta t)
     | _ \<Rightarrow> True)"

interpretation update_codec: codec updateJson decodeUpdate admittedUpdate
proof
  fix u assume "admittedUpdate u"
  then show "decodeUpdate (updateJson u) = Some u"
    by (cases u)
      (simp_all add: updateJson_def decodeUpdate_def decodeToolCall_def decodeToolCallUpdate_def admittedUpdate_def
        codec_simps content_codec.decode_encode metadata_codec.member_roundtrip)
qed

interpretation event_codec: codec eventJson decodeEvent "\<lambda>e. admittedUpdate (ev_update e)"
  by unfold_locales (simp add: eventJson_def decodeEvent_def codec_simps reference_codec.decode_encode update_codec.decode_encode)

interpretation usage_codec: codec usageJson decodeUsage "\<lambda>_. True"
  by unfold_locales (simp add: usageJson_def decodeUsage_def codec_simps)

interpretation segment_codec: codec segmentJson decodeSegment "\<lambda>_. True"
  by unfold_locales (simp add: segmentJson_def decodeSegment_def codec_simps)

definition admittedObservation :: "adapter_observation \<Rightarrow> bool" where
  "admittedObservation v \<longleftrightarrow> list_all (\<lambda>e. admittedUpdate (ev_update e)) (ob_events v)"

interpretation observation_codec: codec observationJson decodeObservation admittedObservation
  by unfold_locales
    (simp add: observationJson_def decodeObservation_def admittedObservation_def codec_simps session_codec.decode_encode
      thread_codec.array_roundtrip event_codec.array_roundtrip usage_codec.array_roundtrip segment_codec.array_roundtrip)

end
