(* ===== verification/Redaction.thy ===== *)
theory Redaction
  imports RedactionEngine CollectorSchemas
begin

text \<open>The redaction module (packages/application/src/redaction.ts): the bounded traversal of
  JSON values and of JSON inside text, the comparison that hides copied names, the masking of
  a canonical observation, and the operations of a compiled policy.  An engine is the text
  function of RedactionEngine; a traversal threads the charged nodes and bytes and the report,
  which survive an exception that the code catches.\<close>

datatype thrown = Unsafe unsafe | SyntaxError

type_synonym text_engine = "string \<Rightarrow> report \<Rightarrow> string option \<Rightarrow> unsafe + (string \<times> report)"

record visit =
  vs_nodes :: int
  vs_bytes :: int
  vs_report :: report

type_synonym 'a visiting = "visit \<Rightarrow> (thrown + 'a) \<times> visit"

definition returnV :: "'a \<Rightarrow> 'a visiting" where
  "returnV x s = (Inr x, s)"

definition throwV :: "thrown \<Rightarrow> 'a visiting" where
  "throwV e s = (Inl e, s)"

definition bindV :: "'a visiting \<Rightarrow> ('a \<Rightarrow> 'b visiting) \<Rightarrow> 'b visiting" where
  "bindV m k s = (case m s of (Inl e, s') \<Rightarrow> (Inl e, s') | (Inr x, s') \<Rightarrow> k x s')"

definition liftV :: "thrown + 'a \<Rightarrow> 'a visiting" where
  "liftV r s = (r, s)"

fun mapV :: "('a \<Rightarrow> 'b visiting) \<Rightarrow> 'a list \<Rightarrow> 'b list visiting" where
  "mapV f [] = returnV []"
| "mapV f (x # xs) = bindV (f x) (\<lambda>y. bindV (mapV f xs) (\<lambda>ys. returnV (y # ys)))"

fun foldV :: "('s \<Rightarrow> 'a \<Rightarrow> 's visiting) \<Rightarrow> 's \<Rightarrow> 'a list \<Rightarrow> 's visiting" where
  "foldV f s [] = returnV s"
| "foldV f s (x # xs) = bindV (f s x) (\<lambda>t. foldV f t xs)"

definition optionV :: "('a \<Rightarrow> 'b visiting) \<Rightarrow> 'a option \<Rightarrow> 'b option visiting" where
  "optionV f v = (case v of None \<Rightarrow> returnV None | Some x \<Rightarrow> bindV (f x) (\<lambda>y. returnV (Some y)))"

abbreviation limitV :: "'a visiting" where
  "limitV \<equiv> throwV (Unsafe UnsafeLimit)"

section \<open>Charging and scanning JSON\<close>

definition chargeNode :: "unit visiting" where
  "chargeNode s = (if vs_nodes s + 1 > 100000 then (Inl (Unsafe UnsafeLimit), s\<lparr>vs_nodes := vs_nodes s + 1\<rparr>)
     else (Inr (), s\<lparr>vs_nodes := vs_nodes s + 1\<rparr>))"

definition charge :: "string \<Rightarrow> unit visiting" where
  "charge t s = (if vs_bytes s + int (length t) > ContentBytes then (Inl (Unsafe UnsafeLimit), s\<lparr>vs_bytes := vs_bytes s + int (length t)\<rparr>)
     else (Inr (), s\<lparr>vs_bytes := vs_bytes s + int (length t)\<rparr>))"

definition maskWith :: "text_engine \<Rightarrow> string \<Rightarrow> string option \<Rightarrow> string visiting" where
  "maskWith eng t fieldName s = (case eng t (vs_report s) fieldName of
       Inl u \<Rightarrow> (Inl (Unsafe u), s)
     | Inr (out, rep) \<Rightarrow> (Inr out, s\<lparr>vs_report := rep\<rparr>))"

definition leadingSpace :: "string \<Rightarrow> nat" where
  "leadingSpace s = length s - length (drop_prefixes js_spaces s)"

definition trailingSpace :: "string \<Rightarrow> nat" where
  "trailingSpace s = length s - length (drop_prefixes (map rev js_spaces) (rev s))"

definition changedJson :: "string \<Rightarrow> json \<Rightarrow> string" where
  "changedJson source v = take (leadingSpace source) source @ stringify v @ drop (length source - trailingSpace source) source"

text \<open>The end of a string literal after its opening quote: the text consumed and the rest.\<close>

fun closeQuote :: "string \<Rightarrow> (string \<times> string) option" where
  "closeQuote [] = None"
| "closeQuote [c] = (if c = CHR 0x22 then Some ([c], []) else None)"
| "closeQuote (c # d # r) =
     (if c = CHR 0x22 then Some ([c], d # r)
      else if c = CHR 0x5C then map_option (\<lambda>(a, b). (c # d # a, b)) (closeQuote r)
      else map_option (\<lambda>(a, b). (c # a, b)) (closeQuote (d # r)))"

definition punctuation :: "char \<Rightarrow> bool" where
  "punctuation c \<longleftrightarrow> c \<in> {CHR ''{'', CHR ''}'', CHR ''['', CHR '']'', CHR '','', CHR '':''}"

definition spaceAt :: "string \<Rightarrow> bool" where
  "spaceAt s \<longleftrightarrow> list_ex (\<lambda>p. startsWith p s) js_spaces"

fun wordSpan :: "string \<Rightarrow> string \<times> string" where
  "wordSpan [] = ([], [])"
| "wordSpan (c # r) = (if punctuation c \<or> spaceAt (c # r) then ([], c # r) else (let (w, q) = wordSpan r in (c # w, q)))"

lemma wordSpan_length: "length (snd (wordSpan s)) \<le> length s"
  by (induction s) (auto simp: case_prod_unfold Let_def)

lemma closeQuote_length: "closeQuote s = Some (a, b) \<Longrightarrow> length b < length s"
  by (induction s arbitrary: a b rule: closeQuote.induct) (fastforce split: if_split_asm)+

function jsonTokens :: "string \<Rightarrow> string list" where
  "jsonTokens [] = []"
| "jsonTokens (c # r) =
     (if c = CHR 0x22 \<and> closeQuote r \<noteq> None then
        (c # fst (the (closeQuote r))) # jsonTokens (snd (the (closeQuote r)))
      else if punctuation c then [c] # jsonTokens r
      else if spaceAt (c # r) then jsonTokens r
      else (c # fst (wordSpan r)) # jsonTokens (snd (wordSpan r)))"
  by pat_completeness auto
termination
proof (relation "measure length", goal_cases)
  case (2 c r)
  then obtain a b where "closeQuote r = Some (a, b)" by auto
  then show ?case using closeQuote_length[of r a b] by simp
next
  case (5 c r)
  then show ?case using wordSpan_length[of r] by simp
qed auto

text \<open>An open array or object: the keys seen, and whether a key comes next.\<close>

fun checkTokens :: "unit visiting \<Rightarrow> nat \<Rightarrow> (string list option \<times> bool) list \<Rightarrow> string list \<Rightarrow> unit visiting" where
  "checkTokens node depth stack [] = returnV ()"
| "checkTokens node depth stack (t # ts) = bindV node (\<lambda>_.
     if t = ''{'' \<or> t = ''['' then
       (if length stack + depth \<ge> 32 then limitV
        else checkTokens node depth ((if t = ''{'' then Some [] else None, True) # stack) ts)
     else if t = ''}'' \<or> t = '']'' then checkTokens node depth (tl stack) ts
     else case stack of
       [] \<Rightarrow> checkTokens node depth stack ts
     | (keys, key) # rest \<Rightarrow>
        (if t = '','' then checkTokens node depth ((keys, True) # rest) ts
         else if startsWith [CHR 0x22] t \<and> keys \<noteq> None \<and> key then
           (case Option.bind (parseJson t) asString of
              None \<Rightarrow> throwV SyntaxError
            | Some k \<Rightarrow> (if k \<in> set (the keys) then throwV (Unsafe UnsafeRedaction)
                        else checkTokens node depth ((Some (k # the keys), False) # rest) ts))
         else checkTokens node depth stack ts))"

definition checkJson :: "unit visiting \<Rightarrow> string \<Rightarrow> nat \<Rightarrow> unit visiting" where
  "checkJson node t depth = checkTokens node depth [] (jsonTokens t)"

text \<open>JSON.parse keeps the last of repeated members, at the place of the first.\<close>

fun lastMembers :: "(string \<times> json) list \<Rightarrow> (string \<times> json) list \<Rightarrow> (string \<times> json) list" where
  "lastMembers all [] = []"
| "lastMembers all ((k, v) # ms) = (k, the (map_of (rev all) k)) # lastMembers all (filter (\<lambda>m. fst m \<noteq> k) ms)"

fun uniqueMembers :: "nat \<Rightarrow> json \<Rightarrow> json" where
  "uniqueMembers 0 j = j"
| "uniqueMembers (Suc n) j = (case j of
       JArr xs \<Rightarrow> JArr (map (uniqueMembers n) xs)
     | JObj ms \<Rightarrow> JObj (map (\<lambda>(k, v). (k, uniqueMembers n v)) (lastMembers ms ms))
     | _ \<Rightarrow> j)"

definition parseJs :: "string \<Rightarrow> json option" where
  "parseJs t = map_option (uniqueMembers (length t)) (parseJson t)"

definition parseV :: "string \<Rightarrow> nat \<Rightarrow> json visiting" where
  "parseV t depth = bindV (charge t) (\<lambda>_. bindV (checkJson chargeNode t depth) (\<lambda>_.
     case parseJs t of None \<Rightarrow> throwV SyntaxError | Some j \<Rightarrow> returnV j))"

section \<open>Walking a value\<close>

definition opensJson :: "string \<Rightarrow> bool" where
  "opensJson s = (case drop_prefixes js_spaces s of
       [] \<Rightarrow> False | c # _ \<Rightarrow> c = CHR ''['' \<or> c = CHR ''{'' \<or> c = CHR 0x22)"

text \<open>The first argument is the depth still allowed: 33 at the root, 0 below depth 32.\<close>

fun walk :: "text_engine \<Rightarrow> nat \<Rightarrow> json \<Rightarrow> string option \<Rightarrow> (json \<times> bool) visiting" where
  "walk eng 0 v fieldName = bindV chargeNode (\<lambda>_. limitV)"
| "walk eng (Suc n) v fieldName = bindV chargeNode (\<lambda>_. case v of
       JNull \<Rightarrow> returnV (v, False)
     | JBool _ \<Rightarrow> returnV (v, False)
     | JNum _ _ \<Rightarrow> bindV (maskWith eng (stringify v) fieldName) (\<lambda>masked.
         returnV (if masked = stringify v then v else JStr masked, masked \<noteq> stringify v))
     | JStr s \<Rightarrow> bindV (charge s) (\<lambda>_.
         bindV (case (if opensJson s then parseJs s else None) of
             None \<Rightarrow> returnV s
           | Some parsed \<Rightarrow> bindV (checkJson chargeNode s (32 - n)) (\<lambda>_.
               bindV (walk eng n parsed fieldName) (\<lambda>(nested, changed).
                 returnV (if changed then changedJson s nested else s)))) (\<lambda>t.
         bindV (maskWith eng t fieldName) (\<lambda>out. returnV (JStr out, out \<noteq> s))))
     | JArr xs \<Rightarrow> bindV (foldV (\<lambda>(done, changed) (i, x).
           bindV (charge (showNat i)) (\<lambda>_. bindV (walk eng n x fieldName) (\<lambda>(y, c).
             returnV (done @ [y], changed \<or> c)))) ([], False) (enumerate 0 xs)) (\<lambda>(ys, changed).
         returnV (JArr ys, changed))
     | JObj ms \<Rightarrow> bindV (foldV (\<lambda>(done, changed) (k, x).
           bindV (charge k) (\<lambda>_. bindV (maskWith eng k None) (\<lambda>masked.
             if masked \<in> set (map fst done) then throwV (Unsafe UnsafeRedaction)
             else bindV (walk eng n x (Some k)) (\<lambda>(y, c).
               returnV (done @ [(masked, y)], changed \<or> k \<noteq> masked \<or> c))))) ([], False) ms) (\<lambda>(ys, changed).
         returnV (JObj ys, changed)))"

definition walkValue :: "text_engine \<Rightarrow> json \<Rightarrow> (json \<times> bool) visiting" where
  "walkValue eng v = walk eng 33 v None"

definition textV :: "text_engine \<Rightarrow> string \<Rightarrow> string visiting" where
  "textV eng t = bindV (walkValue eng (JStr t)) (\<lambda>(v, _). returnV (case v of JStr s \<Rightarrow> s | _ \<Rightarrow> []))"

section \<open>Copied names\<close>

definition memberAt :: "json option \<Rightarrow> string \<Rightarrow> json option" where
  "memberAt v k = (case v of
       Some (JObj ms) \<Rightarrow> map_of ms k
     | Some (JArr xs) \<Rightarrow> (if k = ''length'' then Some (JInt (int (length xs)))
         else map_option snd (find (\<lambda>(i, _). showNat i = k) (enumerate 0 xs)))
     | _ \<Rightarrow> None)"

definition chargedParse :: "int \<Rightarrow> json option \<Rightarrow> unsafe + (int \<times> json option)" where
  "chargedParse bytes v = (case v of
       Some (JStr s) \<Rightarrow> (if bytes + int (length s) > ContentBytes then Inl UnsafeLimit else Inr (bytes + int (length s), parseJs s))
     | _ \<Rightarrow> Inr (bytes, None))"

text \<open>The arguments are the nodes and bytes charged so far and the stack with its top first.\<close>

function maskedIdentitySource :: "int \<Rightarrow> int \<Rightarrow> (json \<times> json option \<times> nat) list \<Rightarrow> string list \<Rightarrow> unsafe + bool" where
  "maskedIdentitySource n bytes [] names = Inr False"
| "maskedIdentitySource n bytes ((before, after, depth) # pending) names =
     (if n + 1 > 100000 \<or> depth > 32 then Inl UnsafeLimit
      else case before of
        JStr s \<Rightarrow>
          (if after = Some (JStr s) then maskedIdentitySource (n + 1) bytes pending names
           else if s \<in> set names then Inr True
           else bindE (chargedParse bytes (Some before)) (\<lambda>(bytes, decoded).
             case decoded of
               None \<Rightarrow> maskedIdentitySource (n + 1) bytes pending names
             | Some d \<Rightarrow> bindE (chargedParse bytes after) (\<lambda>(bytes, a).
                 maskedIdentitySource (n + 1) bytes ((d, a, depth + 1) # pending) names)))
      | JArr xs \<Rightarrow> maskedIdentitySource (n + 1) bytes
          (rev (map (\<lambda>(i, x). (x, memberAt after (showNat i), depth + 1)) (enumerate 0 xs)) @ pending) names
      | JObj ms \<Rightarrow>
          (if list_ex (\<lambda>(k, _). k \<in> set names \<and> memberAt after k = None) ms then Inr True
           else maskedIdentitySource (n + 1) bytes (rev (map (\<lambda>(k, x). (x, memberAt after k, depth + 1)) ms) @ pending) names)
      | _ \<Rightarrow> maskedIdentitySource (n + 1) bytes pending names)"
  by pat_completeness auto
termination
  by (relation "measure (\<lambda>(n, bytes, pending, names). nat (100001 - n))") auto

section \<open>Canonical observations\<close>

definition contentV :: "text_engine \<Rightarrow> acp_content \<Rightarrow> acp_content visiting" where
  "contentV eng c = (case c of
       TextContent t \<Rightarrow> bindV (textV eng t) (\<lambda>t. returnV (TextContent t))
     | ImageContent d m u \<Rightarrow>
         (case u of Some (Some w) \<Rightarrow> bindV (textV eng w) (\<lambda>w. returnV (ImageContent d m (Some (Some w)))) | _ \<Rightarrow> returnV c)
     | AudioContent d m \<Rightarrow> returnV c
     | LinkContent l \<Rightarrow>
         bindV (textV eng (rl_name l)) (\<lambda>n. bindV (textV eng (rl_uri l)) (\<lambda>u.
         bindV (optionV (optionV (textV eng)) (rl_title l)) (\<lambda>t.
         bindV (optionV (optionV (textV eng)) (rl_description l)) (\<lambda>d.
           returnV (LinkContent (l\<lparr>rl_name := n, rl_uri := u, rl_title := t, rl_description := d\<rparr>))))))
     | EmbeddedResource r \<Rightarrow> (case r of
         TextResource u t m \<Rightarrow> bindV (textV eng u) (\<lambda>u. bindV (textV eng t) (\<lambda>t. returnV (EmbeddedResource (TextResource u t m))))
       | BlobResource u b m \<Rightarrow> bindV (textV eng u) (\<lambda>u. returnV (EmbeddedResource (BlobResource u b m)))))"

text \<open>Whole code points of a UTF-8 text while they fit.\<close>

fun codePoints :: "string \<Rightarrow> string list" where
  "codePoints [] = []"
| "codePoints (c # r) = (case codePoints r of
       (d # p) # ps \<Rightarrow> (if 128 \<le> code d \<and> code d < 192 then (c # d # p) # ps else [c] # (d # p) # ps)
     | ps \<Rightarrow> [c] # ps)"

fun takeBytes :: "nat \<Rightarrow> string list \<Rightarrow> string" where
  "takeBytes n [] = []"
| "takeBytes n (p # ps) = (if length p > n then [] else p @ takeBytes (n - length p) ps)"

definition titleV :: "text_engine \<Rightarrow> string \<Rightarrow> string visiting" where
  "titleV eng t = bindV (textV eng t) (\<lambda>m. returnV (takeBytes 500 (codePoints m)))"

function replaceAll :: "string \<Rightarrow> string \<Rightarrow> string \<Rightarrow> string" where
  "replaceAll p q s =
     (if p = [] \<or> s = [] then s
      else if startsWith p s then q @ replaceAll p q (drop (length p) s)
      else hd s # replaceAll p q (tl s))"
  by pat_completeness auto
termination
  by (relation "measure (\<lambda>(p, q, s). length s)") auto

declare replaceAll.simps [simp del]

definition REDACTED :: string where
  "REDACTED = ''[REDACTED]''"

definition ToolUpdateBytes :: int where
  "ToolUpdateBytes = 140000"

text \<open>The parts of a tool update the redaction of its metadata looks at.\<close>

record tool_view =
  tv_input :: "(json \<times> json \<times> bool) option"
  tv_output :: "(json \<times> json \<times> bool) option"
  tv_identity :: "tool_identity option"
  tv_activity :: "file_activity list"
  tv_unsafe :: bool
  tv_maskedIdentity :: "json option"
  tv_maskedFiles :: "json option"

definition hiddenIn :: "(json \<times> json \<times> bool) option \<Rightarrow> string list \<Rightarrow> unsafe + bool" where
  "hiddenIn v names = (case v of
       Some (original, masked, True) \<Rightarrow> maskedIdentitySource 0 0 [(original, Some masked, 0)] names
     | _ \<Rightarrow> Inr False)"

definition copiedSourceHidden :: "tool_view \<Rightarrow> string list \<Rightarrow> unsafe + bool" where
  "copiedSourceHidden tv names = bindE (hiddenIn (tv_input tv) names) (\<lambda>a.
     if a then Inr True else hiddenIn (tv_output tv) names)"

definition identityNames :: "tool_identity \<Rightarrow> string list" where
  "identityNames t = (case t of ToolNamed n \<Rightarrow> [n] | McpTool s n \<Rightarrow> [n, s] | SkillNamed n \<Rightarrow> [n])"

definition shown :: "string \<Rightarrow> json \<Rightarrow> string option" where
  "shown k j = Option.bind (field k j) asString"

definition metadataHidesName :: "tool_view \<Rightarrow> string \<Rightarrow> bool" where
  "metadataHidesName tv name = (case tv_identity tv of
       None \<Rightarrow> False
     | Some t \<Rightarrow> tv_unsafe tv \<or>
        (case tv_maskedIdentity tv of
           Some (JObj ms) \<Rightarrow>
             (case t of
                ToolNamed n \<Rightarrow> n = name \<and> shown ''name'' (JObj ms) \<noteq> Some name
              | SkillNamed n \<Rightarrow> n = name \<and> shown ''name'' (JObj ms) \<noteq> Some name
              | McpTool s n \<Rightarrow> (n = name \<and> shown ''name'' (JObj ms) \<noteq> Some name) \<or>
                  (s = name \<and> shown ''server'' (JObj ms) \<noteq> Some name))
         | _ \<Rightarrow> True))"

fun filterE :: "('a \<Rightarrow> 'e + bool) \<Rightarrow> 'a list \<Rightarrow> 'e + 'a list" where
  "filterE f [] = Inr []"
| "filterE f (x # xs) = bindE (f x) (\<lambda>b. bindE (filterE f xs) (\<lambda>ys. Inr (if b then x # ys else ys)))"

definition hiddenPaths :: "tool_view \<Rightarrow> unsafe + string list" where
  "hiddenPaths tv = bindE (filterE (\<lambda>e.
       if tv_unsafe tv \<or>
          (case tv_maskedFiles tv of
             Some (JArr xs) \<Rightarrow> \<not> list_ex (\<lambda>x. shown ''path'' x = Some (fa_path e)) xs
           | _ \<Rightarrow> True)
       then Inr True else copiedSourceHidden tv [fa_path e]) (tv_activity tv)) (\<lambda>es. Inr (map fa_path es))"

definition hiddenNames :: "tool_view \<Rightarrow> string list \<Rightarrow> unsafe + string list" where
  "hiddenNames tv paths = bindE (filterE (\<lambda>n. if metadataHidesName tv n then Inr True else copiedSourceHidden tv [n])
       (case tv_identity tv of None \<Rightarrow> [] | Some t \<Rightarrow> identityNames t)) (\<lambda>ns.
     Inr (rev (remdups (rev (ns @ paths)))))"

definition truncatedCopy :: "string \<Rightarrow> string \<Rightarrow> bool" where
  "truncatedCopy t name = list_ex (\<lambda>k. length (drop k t) < length name \<and> startsWith (drop k t) name) [0..<length t]"

definition maskedTitle :: "text_engine \<Rightarrow> string list \<Rightarrow> string list \<Rightarrow> string \<Rightarrow> string visiting" where
  "maskedTitle eng paths names t =
     (if paths \<noteq> [] then returnV REDACTED
      else if length t \<ge> 497 \<and> list_ex (truncatedCopy t) names then returnV REDACTED
      else titleV eng (foldl (\<lambda>cur n. replaceAll n REDACTED cur) t (sort_key (\<lambda>n. - int (utf16_length n)) names)))"

definition keptIdentity :: "tool_view \<Rightarrow> tool_identity option" where
  "keptIdentity tv = (case (tv_identity tv, tv_maskedIdentity tv) of
       (Some t, Some j) \<Rightarrow>
         (if tv_unsafe tv \<or> stringify j \<noteq> stringify (identityJson t) then None
          else case decodeIdentity j of
            None \<Rightarrow> None
          | Some admitted \<Rightarrow> (if copiedSourceHidden tv (identityNames admitted) = Inr False then Some admitted else None))
     | _ \<Rightarrow> None)"

definition keptActivity :: "tool_metadata \<Rightarrow> tool_view \<Rightarrow> file_activity list option" where
  "keptActivity m tv = (case (tm_fileActivity m, tv_maskedFiles tv) of
       (Some (Some fs), Some j) \<Rightarrow>
         (if tv_unsafe tv \<or> stringify j \<noteq> stringify (arrayJson activityJson fs) then None
          else case checkedBy admittedActivity (arrayOf decodeActivityEntry) j of
            None \<Rightarrow> None
          | Some admitted \<Rightarrow> (if copiedSourceHidden tv (map fa_path admitted) = Inr False then Some admitted else None))
     | _ \<Rightarrow> None)"

definition keptMetadata :: "tool_metadata \<Rightarrow> tool_view \<Rightarrow> tool_metadata" where
  "keptMetadata m tv = \<lparr>tm_identity = keptIdentity tv,
     tm_fileActivity = (if tm_fileActivity m = None then None else Some (keptActivity m tv))\<rparr>"

definition walkOriginal :: "text_engine \<Rightarrow> json \<Rightarrow> (json \<times> json \<times> bool) visiting" where
  "walkOriginal eng v = bindV (walkValue eng v) (\<lambda>(w, c). returnV (v, w, c))"

text \<open>A walk whose redaction failure is caught: the flag tells that it failed.\<close>

definition walkMetadata :: "text_engine \<Rightarrow> tool_metadata \<Rightarrow> (json option \<times> bool) visiting" where
  "walkMetadata eng m s = (case walkValue eng (metadataJson m) s of
       (Inr (v, _), s') \<Rightarrow> (Inr (Some v, False), s')
     | (Inl (Unsafe UnsafeRedaction), s') \<Rightarrow> (Inr (None, True), s')
     | (Inl e, s') \<Rightarrow> (Inl e, s'))"

definition unsafeV :: "unsafe + 'a \<Rightarrow> 'a visiting" where
  "unsafeV r = liftV (case r of Inl u \<Rightarrow> Inl (Unsafe u) | Inr x \<Rightarrow> Inr x)"

text \<open>Everything of a tool update but its own constructor: the masked title, metadata, input and output.\<close>

definition redactTool :: "text_engine \<Rightarrow> string option \<Rightarrow> json option \<Rightarrow> json option \<Rightarrow> tool_metadata option \<Rightarrow>
    (string option \<times> json option \<times> json option \<times> tool_metadata option) visiting" where
  "redactTool eng title rawInput rawOutput meta =
     bindV (optionV (walkOriginal eng) rawInput) (\<lambda>input.
     bindV (optionV (walkOriginal eng) rawOutput) (\<lambda>output.
     bindV (case meta of None \<Rightarrow> returnV (None, False) | Some m \<Rightarrow> walkMetadata eng m) (\<lambda>(envelope, unsafeMetadata).
       let tv = \<lparr>tv_input = input, tv_output = output, tv_identity = Option.bind meta tm_identity,
             tv_activity = (case Option.bind meta tm_fileActivity of Some (Some fs) \<Rightarrow> fs | _ \<Rightarrow> []),
             tv_unsafe = unsafeMetadata,
             tv_maskedIdentity = Option.bind envelope (field ''atape.dev/tool-identity''),
             tv_maskedFiles = Option.bind envelope (field ''atape.dev/file-activity'')\<rparr> in
       bindV (unsafeV (hiddenPaths tv)) (\<lambda>paths.
       bindV (unsafeV (hiddenNames tv paths)) (\<lambda>names.
       bindV (optionV (maskedTitle eng paths names) title) (\<lambda>t.
         returnV (t, map_option (fst \<circ> snd) input, map_option (fst \<circ> snd) output,
           map_option (\<lambda>m. keptMetadata m tv) meta)))))))"

definition boundedUpdate :: "acp_update \<Rightarrow> acp_update visiting" where
  "boundedUpdate u = (if int (length (stringify (updateJson u))) > ToolUpdateBytes then limitV else returnV u)"

definition updateV :: "text_engine \<Rightarrow> acp_update \<Rightarrow> acp_update visiting" where
  "updateV eng u = (case u of
       UserMessageChunk c m \<Rightarrow> bindV (contentV eng c) (\<lambda>c. returnV (UserMessageChunk c m))
     | AgentMessageChunk c m \<Rightarrow> bindV (contentV eng c) (\<lambda>c. returnV (AgentMessageChunk c m))
     | AgentThoughtChunk c m \<Rightarrow> bindV (contentV eng c) (\<lambda>c. returnV (AgentThoughtChunk c m))
     | ToolCall t \<Rightarrow>
         bindV (redactTool eng (Some (tc_title t)) (tc_rawInput t) (tc_rawOutput t) (tc_meta t)) (\<lambda>(title, i, out, m).
           boundedUpdate (ToolCall (t\<lparr>tc_title := (case title of Some x \<Rightarrow> x | None \<Rightarrow> tc_title t),
             tc_rawInput := i, tc_rawOutput := out, tc_meta := m\<rparr>)))
     | ToolCallUpdate t \<Rightarrow>
         bindV (redactTool eng (Option.bind (tu_title t) (\<lambda>x. x)) (tu_rawInput t) (tu_rawOutput t) (tu_meta t)) (\<lambda>(title, i, out, m).
           boundedUpdate (ToolCallUpdate (t\<lparr>tu_title := (case title of Some x \<Rightarrow> Some (Some x) | None \<Rightarrow> tu_title t),
             tu_rawInput := i, tu_rawOutput := out, tu_meta := m\<rparr>))))"

definition updateMeta :: "acp_update \<Rightarrow> tool_metadata option" where
  "updateMeta u = (case u of ToolCall t \<Rightarrow> tc_meta t | ToolCallUpdate t \<Rightarrow> tu_meta t | _ \<Rightarrow> None)"

definition metadataChanged :: "acp_update \<Rightarrow> acp_update \<Rightarrow> bool" where
  "metadataChanged a b = (case (updateMeta a, updateMeta b) of
       (Some m, Some n) \<Rightarrow> stringify (metadataJson m) \<noteq> stringify (metadataJson n) | _ \<Rightarrow> False)"

definition refV :: "text_engine \<Rightarrow> adapter_raw_ref \<Rightarrow> adapter_raw_ref visiting" where
  "refV eng r = (case r of
       ObjectRef i f \<Rightarrow> bindV (optionV (textV eng) f) (\<lambda>f. returnV (ObjectRef i f))
     | UnavailableRef w \<Rightarrow> bindV (textV eng w) (\<lambda>w. returnV (UnavailableRef w)))"

definition eventV :: "text_engine \<Rightarrow> adapter_event \<Rightarrow> adapter_event visiting" where
  "eventV eng e s = bindV (updateV eng (ev_update e)) (\<lambda>u s'.
     bindV (refV eng (ev_rawRef e)) (\<lambda>r s''.
       (Inr (e\<lparr>ev_update := u, ev_rawRef := r,
          ev_fidelity := (if rep_matches (vs_report s'') > rep_matches (vs_report s) \<or> metadataChanged (ev_update e) u
            then FidelityRedacted else ev_fidelity e)\<rparr>), s'')) s') s"

definition lowerText :: "string \<Rightarrow> string" where
  "lowerText s = map lowerChar s"

definition jsonSubtypeChar :: "char \<Rightarrow> bool" where
  "jsonSubtypeChar c \<longleftrightarrow> isDigit c \<or> (97 \<le> code c \<and> code c \<le> 122) \<or> c \<in> {CHR ''.'', CHR ''+'', CHR ''-''}"

text \<open>application/json, application/x-ndjson or application/<subtype>+json, in any case.\<close>

definition jsonMediaType :: "string \<Rightarrow> bool" where
  "jsonMediaType m = (let l = lowerText m; t = drop 12 l in startsWith ''application/'' l \<and>
     (t = ''json'' \<or> t = ''x-ndjson'' \<or>
      (endsWith ''+json'' t \<and> length t > 5 \<and> list_all jsonSubtypeChar (take (length t - 5) t))))"

fun splitLines :: "string \<Rightarrow> string list" where
  "splitLines [] = [] # []"
| "splitLines (c # r) = (if c = CHR 0x0A then [] # splitLines r
     else (case splitLines r of l # ls \<Rightarrow> (c # l) # ls | [] \<Rightarrow> [c] # []))"

fun joinLines :: "string list \<Rightarrow> string" where
  "joinLines [] = []"
| "joinLines [l] = l"
| "joinLines (l # ls) = l @ CHR 0x0A # joinLines ls"

definition segmentContentV :: "text_engine \<Rightarrow> string \<Rightarrow> string \<Rightarrow> string visiting" where
  "segmentContentV eng mediaType content s =
     (if \<not> jsonMediaType mediaType then textV eng content s
      else case parseV content 0 s of
        (Inl (Unsafe u), s') \<Rightarrow> (Inl (Unsafe u), s')
      | (Inl SyntaxError, s') \<Rightarrow>
          bindV (mapV (\<lambda>line. if js_trim line = [] then returnV line
              else bindV (parseV line 0) (\<lambda>v. bindV (walkValue eng v) (\<lambda>(w, _). returnV (stringify w))))
            (splitLines content)) (\<lambda>ls. returnV (joinLines ls)) s'
      | (Inr v, s') \<Rightarrow> bindV (walkValue eng v) (\<lambda>(w, changed).
          returnV (if changed then changedJson content w else content)) s')"

definition sessionV :: "text_engine \<Rightarrow> adapter_session \<Rightarrow> adapter_session visiting" where
  "sessionV eng x =
     bindV (textV eng (as_title x)) (\<lambda>t. bindV (textV eng (as_summary x)) (\<lambda>s.
     bindV (textV eng (as_insight x)) (\<lambda>i. bindV (textV eng (as_branch x)) (\<lambda>b.
     bindV (textV eng (ac_name (as_actor x))) (\<lambda>n. bindV (textV eng (ac_harness (as_actor x))) (\<lambda>h.
       returnV (x\<lparr>as_title := t, as_summary := s, as_insight := i, as_branch := b,
         as_actor := \<lparr>ac_name = n, ac_harness = h\<rparr>\<rparr>)))))))"

definition threadV :: "text_engine \<Rightarrow> adapter_thread \<Rightarrow> adapter_thread visiting" where
  "threadV eng x = bindV (textV eng (at_label x)) (\<lambda>l. bindV (textV eng (at_summary x)) (\<lambda>s.
     returnV (x\<lparr>at_label := l, at_summary := s\<rparr>)))"

definition segmentV :: "text_engine \<Rightarrow> raw_segment \<Rightarrow> raw_segment visiting" where
  "segmentV eng x = bindV (textV eng (sg_sourceName x)) (\<lambda>n.
     bindV (segmentContentV eng (sg_mediaType x) (sg_content x)) (\<lambda>c.
       returnV (x\<lparr>sg_sourceName := n, sg_content := c\<rparr>)))"

definition canonicalV :: "text_engine \<Rightarrow> adapter_observation \<Rightarrow> adapter_observation visiting" where
  "canonicalV eng v =
     bindV (sessionV eng (ob_session v)) (\<lambda>s.
     bindV (mapV (threadV eng) (ob_threads v)) (\<lambda>ts.
     bindV (mapV (eventV eng) (ob_events v)) (\<lambda>es.
     bindV (optionV (mapV (\<lambda>u. bindV (textV eng (us_model u)) (\<lambda>m. returnV (u\<lparr>us_model := m\<rparr>)))) (ob_usage v)) (\<lambda>us.
     bindV (mapV (segmentV eng) (ob_rawSegments v)) (\<lambda>gs.
       returnV (v\<lparr>ob_session := s, ob_threads := ts, ob_events := es, ob_usage := us, ob_rawSegments := gs\<rparr>))))))"

section \<open>Operations of a policy\<close>

definition freshVisit :: visit where
  "freshVisit = \<lparr>vs_nodes = 0, vs_bytes = 0, vs_report = emptyReport\<rparr>"

text \<open>The error a caught exception becomes.\<close>

definition contentFailure :: "thrown \<Rightarrow> unsafe" where
  "contentFailure e = (case e of Unsafe u \<Rightarrow> u | SyntaxError \<Rightarrow> UnsafeRedaction)"

definition prepared :: "'a visiting \<Rightarrow> unsafe + ('a \<times> report)" where
  "prepared m = (case m freshVisit of (Inl e, _) \<Rightarrow> Inl (contentFailure e) | (Inr x, s) \<Rightarrow> Inr (x, vs_report s))"

definition prepareText :: "text_engine \<Rightarrow> string \<Rightarrow> unsafe + (string \<times> report)" where
  "prepareText eng input = prepared (maskWith eng input None)"

datatype file_format = FormatText | FormatJson | FormatJsonl

definition fileJson :: "text_engine \<Rightarrow> string \<Rightarrow> string visiting" where
  "fileJson eng t = bindV (parseV t 0) (\<lambda>v. bindV (walkValue eng v) (\<lambda>(w, changed).
     returnV (if changed then changedJson t w else t)))"

definition prepareFile :: "text_engine \<Rightarrow> string \<Rightarrow> file_format \<Rightarrow> unsafe + (string \<times> report)" where
  "prepareFile eng content fmt = prepared
     (if int (length content) > ContentBytes then limitV
      else case fmt of
        FormatText \<Rightarrow> maskWith eng content None
      | FormatJson \<Rightarrow> fileJson eng content
      | FormatJsonl \<Rightarrow> bindV (mapV (\<lambda>l. if js_trim l = [] then returnV l else fileJson eng l) (splitLines content))
          (\<lambda>ls. returnV (joinLines ls)))"

definition prepareRaw :: "text_engine \<Rightarrow> json \<Rightarrow> unsafe + (json \<times> report)" where
  "prepareRaw eng v = (case v of
       JObj _ \<Rightarrow> prepared (bindV (walkValue eng v) (\<lambda>(w, _). returnV w))
     | _ \<Rightarrow> Inl UnsafeRedaction)"

definition prepareDiagnostic :: "text_engine \<Rightarrow> string \<Rightarrow> string \<times> nat" where
  "prepareDiagnostic eng input = (case eng input emptyReport None of
       Inl _ \<Rightarrow> (''[REDACTED DIAGNOSTIC]'', 1) | Inr (out, rep) \<Rightarrow> (out, nat (rep_matches rep)))"

definition prepareCanonical :: "text_engine \<Rightarrow> adapter_observation \<Rightarrow> unsafe + (adapter_observation \<times> report)" where
  "prepareCanonical eng v = prepared (canonicalV eng v)"

section \<open>Redactors\<close>

text \<open>A redactor either carries a compiled policy (its engine) or only a text function.\<close>

record redactor =
  rd_policyId :: "string option"
  rd_policy :: "text_engine option"
  rd_redact :: "string \<Rightarrow> string \<times> nat"

definition secretRedactorForPolicy :: "string \<Rightarrow> text_engine \<Rightarrow> redactor" where
  "secretRedactorForPolicy policyId eng = \<lparr>rd_policyId = Some policyId, rd_policy = Some eng, rd_redact = prepareDiagnostic eng\<rparr>"

definition legacySecretRedactor :: "re2 \<Rightarrow> string list \<Rightarrow> unsafe + redactor" where
  "legacySecretRedactor re vs =
     bindE (createEngine re [] (rev (remdups (rev (filter (\<lambda>v. 8 \<le> utf16_length v \<and> utf16_length v \<le> 4096) vs))))) (\<lambda>en.
       Inr \<lparr>rd_policyId = None, rd_policy = Some (engineText re en), rd_redact = prepareDiagnostic (engineText re en)\<rparr>)"

definition compatibleEngine :: "redactor \<Rightarrow> text_engine" where
  "compatibleEngine r t rep fieldName = (let (out, n) = rd_redact r t in
     if rep_matches rep + int n > 10000 then Inl UnsafeLimit else Inr (out, rep\<lparr>rep_matches := rep_matches rep + int n\<rparr>))"

definition prepareCanonicalRedaction :: "redactor \<Rightarrow> adapter_observation \<Rightarrow> unsafe + (adapter_observation \<times> report)" where
  "prepareCanonicalRedaction r v = prepareCanonical (case rd_policy r of Some eng \<Rightarrow> eng | None \<Rightarrow> compatibleEngine r) v"

definition prepareRawRedaction :: "redactor \<Rightarrow> json \<Rightarrow> unsafe + (json \<times> int)" where
  "prepareRawRedaction r v = (case rd_policy r of
       Some eng \<Rightarrow> bindE (prepareRaw eng v) (\<lambda>(w, rep). Inr (w, rep_matches rep))
     | None \<Rightarrow> bindE (prepareRaw (compatibleEngine r) v) (\<lambda>(w, rep).
         let (masked, n) = rd_redact r (stringify w) in
         case parseJs masked of None \<Rightarrow> Inl UnsafeRedaction | Some x \<Rightarrow> Inr (x, rep_matches rep + int n)))"

end
