(* ===== verification/RedactionLiterals.thy ===== *)
theory RedactionLiterals
  imports RedactionEngine "HOL-Library.Sublist"
begin

text \<open>The exact-value scan of the redaction engine is correct: the automaton built by
  insertion and breadth-first failure links reports exactly the occurrences of the values.
  A trie is described by the word each node stands for.\<close>

definition trieWords :: "node list \<Rightarrow> string list \<Rightarrow> bool" where
  "trieWords ns ws \<longleftrightarrow> length ws = length ns \<and> ws \<noteq> [] \<and> ws ! 0 = [] \<and> distinct ws \<and>
     (\<forall>i<length ws. \<forall>c j. child ns i c = Some j \<longleftrightarrow> j < length ws \<and> ws ! j = ws ! i @ [c]) \<and>
     (\<forall>i<length ws. distinct (map fst (nd_next (ns ! i)))) \<and>
     (\<forall>s c. s @ [c] \<in> set ws \<longrightarrow> s \<in> set ws)"

lemma trie_child: "trieWords ns ws \<Longrightarrow> i < length ws \<Longrightarrow> child ns i c = Some j \<longleftrightarrow> j < length ws \<and> ws ! j = ws ! i @ [c]"
  by (simp add: trieWords_def)

lemma trie_root: "trieWords ns ws \<Longrightarrow> 0 < length ws \<and> ws ! 0 = []"
  unfolding trieWords_def by blast

lemma trie_word_inject: "trieWords ns ws \<Longrightarrow> i < length ws \<Longrightarrow> j < length ws \<Longrightarrow> ws ! i = ws ! j \<longleftrightarrow> i = j"
  by (simp add: trieWords_def nth_eq_iff_index_eq)

lemma trie_no_child:
  assumes "trieWords ns ws" "i < length ws"
  shows "child ns i c = None \<longleftrightarrow> ws ! i @ [c] \<notin> set ws"
proof -
  have "child ns i c = Some j \<longleftrightarrow> j < length ws \<and> ws ! j = ws ! i @ [c]" for j using trie_child[OF assms] .
  then show ?thesis by (cases "child ns i c") (auto simp: in_set_conv_nth)
qed

section \<open>Insertion\<close>

lemma trie_extend:
  assumes t: "trieWords ns ws" and i: "i < length ws" and no: "child ns i c = None"
  shows "trieWords (ns[i := (ns ! i)\<lparr>nd_next := nd_next (ns ! i) @ [(c, length ns)]\<rparr>] @ [emptyNode]) (ws @ [ws ! i @ [c]])"
    (is "trieWords ?ns ?ws")
proof -
  have len: "length ws = length ns" using t by (simp add: trieWords_def)
  have fresh: "ws ! i @ [c] \<notin> set ws" using trie_no_child[OF t i] no by simp
  then have new: "j < length ws \<Longrightarrow> ws ! j \<noteq> ws ! i @ [c]" for j by (metis nth_mem)
  have ch: "child ?ns k d = Some j \<longleftrightarrow> j < length ?ws \<and> ?ws ! j = ?ws ! k @ [d]" if k: "k < length ?ws" for k d j
  proof (cases "k = length ws")
    case True
    have "?ws ! j \<noteq> ?ws ! k @ [d]" if "j < length ?ws"
    proof
      assume e: "?ws ! j = ?ws ! k @ [d]"
      have "ws ! i @ [c, d] \<in> set ws"
        using e that True nth_mem[of j ws] by (cases "j = length ws") (auto simp: nth_append less_Suc_eq simp del: nth_mem)
      then have "(ws ! i @ [c]) @ [d] \<in> set ws" by simp
      then have "ws ! i @ [c] \<in> set ws" using t unfolding trieWords_def by blast
      with fresh show False by simp
    qed
    then show ?thesis using True len by (simp add: child_def nth_append emptyNode_def)
  next
    case False
    with k have k': "k < length ws" by simp
    have old: "child ns k d = Some j \<longleftrightarrow> j < length ws \<and> ws ! j = ws ! k @ [d]" for j
      using trie_child[OF t k'] .
    show ?thesis
    proof (cases "k = i \<and> d = c")
      case True
      have "child ?ns k d = Some (length ns)"
        using True no i len by (simp add: child_def nth_append map_add_def map_of_append split: option.split)
      moreover have "j < length ?ws \<and> ?ws ! j = ?ws ! k @ [d] \<longleftrightarrow> j = length ws"
        using True new i by (auto simp: nth_append less_Suc_eq)
      ultimately show ?thesis using len by auto
    next
      case False
      have "child ?ns k d = child ns k d"
        using False k' len i by (auto simp: child_def nth_append nth_list_update map_add_def split: option.split)
      moreover have "j < length ?ws \<and> ?ws ! j = ?ws ! k @ [d] \<longleftrightarrow> j < length ws \<and> ws ! j = ws ! k @ [d]"
      proof -
        have "ws ! i @ [c] \<noteq> ws ! k @ [d]" using False trie_word_inject[OF t i k'] by auto
        then show ?thesis using k' by (auto simp: nth_append less_Suc_eq)
      qed
      ultimately show ?thesis using old by simp
    qed
  qed
  have di: "distinct (map fst (nd_next (?ns ! k)))" if "k < length ?ws" for k
    using that t no i len
    by (cases "k = length ws") (auto simp: trieWords_def nth_append nth_list_update emptyNode_def child_def map_of_eq_None_iff)
  have pre: "s \<in> set ?ws" if "s @ [d] \<in> set ?ws" for s d
    using that t i unfolding trieWords_def by auto
  show ?thesis unfolding trieWords_def
  proof (intro conjI allI impI)
    show "?ws ! 0 = []" using trie_root[OF t] by (simp add: nth_append)
    show "distinct ?ws" using t fresh by (simp add: trieWords_def)
  qed (use len ch di pre in auto)
qed

definition sameMarks :: "node list \<Rightarrow> node list \<Rightarrow> bool" where
  "sameMarks ns ns' \<longleftrightarrow> length ns \<le> length ns' \<and>
     (\<forall>j<length ns'. nd_fail (ns' ! j) = (if j < length ns then nd_fail (ns ! j) else 0) \<and>
        nd_lengths (ns' ! j) = (if j < length ns then nd_lengths (ns ! j) else []))"

lemma sameMarks_refl [simp]: "sameMarks ns ns"
  by (simp add: sameMarks_def)

lemma sameMarks_trans: "sameMarks a b \<Longrightarrow> sameMarks b c \<Longrightarrow> sameMarks a c"
  unfolding sameMarks_def by (auto dest: order_trans)

lemma sameMarks_extend:
  "i < length ns \<Longrightarrow> sameMarks ns (ns[i := (ns ! i)\<lparr>nd_next := x\<rparr>] @ [emptyNode])"
  unfolding sameMarks_def by (auto simp: nth_append nth_list_update emptyNode_def less_Suc_eq)

lemma insertChars_trie:
  "trieWords ns ws \<Longrightarrow> i < length ws \<Longrightarrow> insertChars ns i cs = (ns', k) \<Longrightarrow>
     \<exists>zs. trieWords ns' (ws @ zs) \<and> k < length (ws @ zs) \<and> (ws @ zs) ! k = ws ! i @ cs \<and> sameMarks ns ns'"
proof (induction cs arbitrary: ns ws i)
  case Nil
  then show ?case by (intro exI[of _ "[]"]) auto
next
  case (Cons c cs)
  show ?case
  proof (cases "child ns i c")
    case (Some j)
    then have j: "j < length ws" "ws ! j = ws ! i @ [c]" using trie_child[OF Cons.prems(1,2)] by auto
    with Cons.IH[OF Cons.prems(1) j(1)] Cons.prems(3) Some show ?thesis by auto
  next
    case None
    define m where "m = ns[i := (ns ! i)\<lparr>nd_next := nd_next (ns ! i) @ [(c, length ns)]\<rparr>] @ [emptyNode]"
    have len: "length ws = length ns" using Cons.prems(1) by (simp add: trieWords_def)
    have t: "trieWords m (ws @ [ws ! i @ [c]])" unfolding m_def by (rule trie_extend[OF Cons.prems(1,2) None])
    have "insertChars m (length ns) cs = (ns', k)" using Cons.prems(3) None by (simp add: m_def Let_def)
    then obtain zs where "trieWords ns' ((ws @ [ws ! i @ [c]]) @ zs)" "k < length ((ws @ [ws ! i @ [c]]) @ zs)"
        "((ws @ [ws ! i @ [c]]) @ zs) ! k = (ws @ [ws ! i @ [c]]) ! length ns @ cs" "sameMarks m ns'"
      using Cons.IH[OF t, of "length ns"] len by auto
    moreover have "sameMarks ns m" unfolding m_def using Cons.prems(2) len by (simp add: sameMarks_extend)
    ultimately show ?thesis using len
      by (intro exI[of _ "(ws ! i @ [c]) # zs"]) (auto simp: nth_append intro: sameMarks_trans)
  qed
qed

text \<open>A trie of the values: every node without failure link, the lengths only where a value ends.\<close>

definition rawTrie :: "node list \<Rightarrow> string list \<Rightarrow> string set \<Rightarrow> bool" where
  "rawTrie ns ws V \<longleftrightarrow> trieWords ns ws \<and> V \<subseteq> set ws \<and>
     (\<forall>i<length ws. nd_fail (ns ! i) = 0 \<and> set (nd_lengths (ns ! i)) = (if ws ! i \<in> V then {length (ws ! i)} else {}))"

lemma trieWords_lengths_update:
  "trieWords ns ws \<Longrightarrow> trieWords (ns[i := (ns ! i)\<lparr>nd_lengths := x\<rparr>]) ws"
  unfolding trieWords_def child_def by (cases "i < length ns") (auto simp: nth_list_update)

lemma insertLiteral_raw:
  assumes r: "rawTrie ns ws V"
  shows "\<exists>ws'. rawTrie (insertLiteral ns v) ws' (insert v V)"
proof -
  obtain ns' k where e: "insertChars ns 0 v = (ns', k)" by force
  have t: "trieWords ns ws" using r by (simp add: rawTrie_def)
  obtain zs where z: "trieWords ns' (ws @ zs)" "k < length (ws @ zs)" "(ws @ zs) ! k = v" "sameMarks ns ns'"
    using insertChars_trie[OF t _ e] trie_root[OF t] by auto
  define out where "out = ns'[k := (ns' ! k)\<lparr>nd_lengths := nd_lengths (ns' ! k) @ [length v]\<rparr>]"
  have len: "length ws = length ns" "length (ws @ zs) = length ns'"
    using t z(1) by (simp_all add: trieWords_def)
  have t': "trieWords out (ws @ zs)" unfolding out_def by (rule trieWords_lengths_update[OF z(1)])
  have marks: "nd_fail (out ! i) = 0 \<and> set (nd_lengths (out ! i)) =
      (if (ws @ zs) ! i \<in> insert v V then {length ((ws @ zs) ! i)} else {})" if i: "i < length (ws @ zs)" for i
  proof -
    have a: "nd_fail (ns' ! i) = 0" "set (nd_lengths (ns' ! i)) = (if (ws @ zs) ! i \<in> V then {length ((ws @ zs) ! i)} else {})"
    proof -
      have "(ws @ zs) ! i \<notin> V" if "\<not> i < length ws"
      proof
        assume "(ws @ zs) ! i \<in> V"
        then have "(ws @ zs) ! i \<in> set ws" using r by (auto simp: rawTrie_def)
        then obtain m where "m < length ws" "ws ! m = (ws @ zs) ! i" by (auto simp: in_set_conv_nth)
        then have "m = i" using trie_word_inject[OF z(1), of m i] i by (auto simp: nth_append)
        with that \<open>m < length ws\<close> show False by simp
      qed
      then show "nd_fail (ns' ! i) = 0" "set (nd_lengths (ns' ! i)) = (if (ws @ zs) ! i \<in> V then {length ((ws @ zs) ! i)} else {})"
        using r z(4) i len by (auto simp: rawTrie_def sameMarks_def nth_append)
    qed
    show ?thesis
    proof (cases "i = k")
      case True
      then show ?thesis using a z(2,3) len by (auto simp: out_def)
    next
      case False
      then have "(ws @ zs) ! i \<noteq> v" using z(2,3) i trie_word_inject[OF z(1) i z(2)] by auto
      with a False show ?thesis by (auto simp: out_def)
    qed
  qed
  have "v \<in> set (ws @ zs)" using z(2,3) nth_mem by metis
  then have "insert v V \<subseteq> set (ws @ zs)" using r by (auto simp: rawTrie_def)
  then have "rawTrie out (ws @ zs) (insert v V)" using t' marks by (simp add: rawTrie_def)
  moreover have "insertLiteral ns v = out" using e by (simp add: insertLiteral_def out_def)
  ultimately show ?thesis by auto
qed

lemma literalTrie_raw: "\<exists>ws. rawTrie (literalTrie values) ws (set values)"
proof -
  have step: "\<exists>ws'. rawTrie (foldl insertLiteral ns vs) ws' (V \<union> set vs)" if "rawTrie ns ws V" for ns ws V vs
    using that
  proof (induction vs arbitrary: ns ws V)
    case (Cons v vs)
    obtain ws' where "rawTrie (insertLiteral ns v) ws' (insert v V)" using insertLiteral_raw[OF Cons.prems] by blast
    from Cons.IH[OF this] show ?case by simp
  qed auto
  have "rawTrie [emptyNode] [Nil] {}"
    by (auto simp: rawTrie_def trieWords_def emptyNode_def child_def)
  from step[OF this, of "values"] show ?thesis by (simp add: literalTrie_def)
qed


section \<open>Failure links\<close>

definition longestIn :: "string list \<Rightarrow> string \<Rightarrow> nat \<Rightarrow> bool" where
  "longestIn ws s i \<longleftrightarrow> i < length ws \<and> suffix (ws ! i) s \<and> (\<forall>w\<in>set ws. suffix w s \<longrightarrow> length w \<le> length (ws ! i))"

definition linked :: "node list \<Rightarrow> string list \<Rightarrow> string set \<Rightarrow> nat \<Rightarrow> bool" where
  "linked ns ws V i \<longleftrightarrow> (i \<noteq> 0 \<longrightarrow> longestIn ws (tl (ws ! i)) (nd_fail (ns ! i))) \<and>
     set (nd_lengths (ns ! i)) = {length v |v. v \<in> V \<and> suffix v (ws ! i)}"

lemma suffix_shorter: "suffix a s \<Longrightarrow> suffix b s \<Longrightarrow> length a \<le> length b \<Longrightarrow> suffix a b"
  by (metis suffix_length_suffix)

lemma longestIn_suffix: "longestIn ws s i \<Longrightarrow> w \<in> set ws \<Longrightarrow> suffix w s \<longleftrightarrow> suffix w (ws ! i)"
  unfolding longestIn_def by (meson suffix_order.trans suffix_shorter)

lemma trie_word_empty: "trieWords ns ws \<Longrightarrow> i < length ws \<Longrightarrow> ws ! i = [] \<longleftrightarrow> i = 0"
  using trie_word_inject[of ns ws i 0] trie_root[of ns ws] by auto

lemma suffix_tl: "suffix t w \<Longrightarrow> t \<noteq> w \<Longrightarrow> suffix t (tl w)"
  by (cases w) (auto simp: suffix_Cons)

lemma followFailure_longest:
  fixes c :: char
  assumes t: "trieWords ns ws" and i: "longestIn ws s i"
    and links: "\<And>k. k < length ws \<Longrightarrow> k \<noteq> 0 \<Longrightarrow> length (ws ! k) \<le> length (ws ! i) \<Longrightarrow> longestIn ws (tl (ws ! k)) (nd_fail (ns ! k))"
  defines "k \<equiv> followFailure ns c i"
  shows "k < length ws \<and> suffix (ws ! k) s \<and>
     (\<forall>w. w @ [c] \<in> set ws \<longrightarrow> suffix w s \<longrightarrow> length w \<le> length (ws ! k)) \<and> (k = 0 \<or> child ns k c \<noteq> None)"
proof -
  let ?P = "\<lambda>k. k < length ws \<and> suffix (ws ! k) s \<and> length (ws ! k) \<le> length (ws ! i) \<and>
     (\<forall>w. w @ [c] \<in> set ws \<longrightarrow> suffix w s \<longrightarrow> length w \<le> length (ws ! k))"
  have pre: "w @ [d] \<in> set ws \<Longrightarrow> w \<in> set ws" for w d using t unfolding trieWords_def by blast
  have "?P k \<and> \<not> (k \<noteq> 0 \<and> child ns k c = None)" unfolding k_def followFailure_def
  proof (rule while_rule[where P = ?P and r = "measure (\<lambda>k. length (ws ! k))"])
    show "?P i" using i pre by (auto simp: longestIn_def)
  next
    fix k assume p: "?P k" and b: "k \<noteq> 0 \<and> child ns k c = None"
    have l: "longestIn ws (tl (ws ! k)) (nd_fail (ns ! k))" using links p b by blast
    have ne: "ws ! k \<noteq> []" using trie_word_empty[OF t] p b by auto
    then have tls: "suffix (tl (ws ! k)) (ws ! k)" by (cases "ws ! k") (auto simp: suffix_Cons)
    have no: "ws ! k @ [c] \<notin> set ws" using trie_no_child[OF t] p b by blast
    show "?P (nd_fail (ns ! k))"
    proof (intro conjI allI impI)
      show "nd_fail (ns ! k) < length ws" using l by (simp add: longestIn_def)
      show "suffix (ws ! nd_fail (ns ! k)) s"
        using l tls p unfolding longestIn_def by (meson suffix_order.trans)
      show "length (ws ! nd_fail (ns ! k)) \<le> length (ws ! i)"
        using l tls p unfolding longestIn_def by (meson suffix_length_le order_trans)
      fix w assume w: "w @ [c] \<in> set ws" "suffix w s"
      then have "suffix w (ws ! k)" using p by (blast intro: suffix_shorter)
      moreover have "w \<noteq> ws ! k" using w no by auto
      ultimately have "suffix w (tl (ws ! k))" by (rule suffix_tl)
      then show "length w \<le> length (ws ! nd_fail (ns ! k))" using l pre[OF w(1)] by (simp add: longestIn_def)
    qed
    show "(nd_fail (ns ! k), k) \<in> measure (\<lambda>k. length (ws ! k))"
    proof -
      have "length (ws ! nd_fail (ns ! k)) \<le> length (tl (ws ! k))" using l suffix_length_le unfolding longestIn_def by blast
      then show ?thesis using ne by (cases "ws ! k") auto
    qed
  qed auto
  then show ?thesis by auto
qed

lemma stepTo_longest:
  assumes t: "trieWords ns ws" and i: "longestIn ws s i"
    and links: "\<And>k. k < length ws \<Longrightarrow> k \<noteq> 0 \<Longrightarrow> length (ws ! k) \<le> length (ws ! i) \<Longrightarrow> longestIn ws (tl (ws ! k)) (nd_fail (ns ! k))"
  shows "longestIn ws (s @ [c]) (stepTo ns i c)"
proof -
  define k where "k = followFailure ns c i"
  have k: "k < length ws" "suffix (ws ! k) s" "k = 0 \<or> child ns k c \<noteq> None"
    "\<And>w. w @ [c] \<in> set ws \<Longrightarrow> suffix w s \<Longrightarrow> length w \<le> length (ws ! k)"
    using followFailure_longest[OF t i links, of c] unfolding k_def by blast+
  have split: "w = [] \<or> (\<exists>u. w = u @ [c] \<and> suffix u s)" if "suffix w (s @ [c])" for w
    using that by (cases w rule: rev_cases) (auto simp: suffix_def)
  show ?thesis
  proof (cases "child ns k c")
    case (Some j)
    then have j: "j < length ws" "ws ! j = ws ! k @ [c]" using trie_child[OF t k(1)] by auto
    have "length w \<le> length (ws ! j)" if "w \<in> set ws" "suffix w (s @ [c])" for w
      using split[OF that(2)] k(4) that(1) j(2) by auto
    then have "longestIn ws (s @ [c]) j" using j k(2) by (auto simp: longestIn_def)
    then show ?thesis using Some by (simp add: stepTo_def k_def)
  next
    case None
    with k(3) have k0: "k = 0" by simp
    have "w = []" if w: "w \<in> set ws" "suffix w (s @ [c])" for w
    proof (rule ccontr)
      assume "w \<noteq> []"
      then obtain u where u: "w = u @ [c]" "suffix u s" using split[OF w(2)] by auto
      then have "u = []" using k(4)[of u] w(1) k0 trie_root[OF t] by auto
      then have "ws ! 0 @ [c] \<in> set ws" using u w(1) trie_root[OF t] by simp
      then show False using None k0 trie_no_child[OF t, of 0 c] trie_root[OF t] by auto
    qed
    then have "longestIn ws (s @ [c]) 0" using trie_root[OF t] by (auto simp: longestIn_def)
    then show ?thesis using None by (simp add: stepTo_def k_def)
  qed
qed


section \<open>The breadth-first pass\<close>

lemma trie_marks_update:
  "trieWords ns ws \<Longrightarrow> trieWords (ns[i := (ns ! i)\<lparr>nd_fail := f, nd_lengths := x\<rparr>]) ws"
  unfolding trieWords_def child_def by (cases "i < length ns") (auto simp: nth_list_update)

lemma linked_other: "j \<noteq> i \<Longrightarrow> linked (ns[j := x]) ws V i = linked ns ws V i"
  by (simp add: linked_def)

text \<open>What the pass keeps: a node is raw or linked, raw ones lie below the queue.\<close>

definition rawAt :: "node list \<Rightarrow> string list \<Rightarrow> string set \<Rightarrow> nat \<Rightarrow> bool" where
  "rawAt ns ws V i \<longleftrightarrow> set (nd_lengths (ns ! i)) = (if ws ! i \<in> V then {length (ws ! i)} else {})"

lemma linkChild_links:
  assumes t: "trieWords ns ws" and p: "p < length ws" "p \<noteq> 0" and e: "child ns p c = Some j" and V: "V \<subseteq> set ws" and raw: "rawAt ns ws V j"
    and links: "\<And>k. k < length ws \<Longrightarrow> length (ws ! k) \<le> length (ws ! p) \<Longrightarrow> linked ns ws V k"
  shows "trieWords (linkChild p ns (c, j)) ws" "linked (linkChild p ns (c, j)) ws V j"
    "i \<noteq> j \<Longrightarrow> linkChild p ns (c, j) ! i = ns ! i" "nd_next (linkChild p ns (c, j) ! i) = nd_next (ns ! i)"
proof -
  define f where "f = stepTo ns (nd_fail (ns ! p)) c"
  have out: "linkChild p ns (c, j) = ns[j := (ns ! j)\<lparr>nd_fail := f, nd_lengths := nd_lengths (ns ! j) @ nd_lengths (ns ! f)\<rparr>]"
    by (simp add: linkChild_def f_def Let_def)
  have j: "j < length ws" "ws ! j = ws ! p @ [c]" using trie_child[OF t p(1)] e by auto
  have len: "length ws = length ns" using t by (simp add: trieWords_def)
  have ne: "ws ! p \<noteq> []" using trie_word_empty[OF t p(1)] p by simp
  have lp: "longestIn ws (tl (ws ! p)) (nd_fail (ns ! p))" using links[of p] p by (simp add: linked_def)
  have "length (ws ! nd_fail (ns ! p)) \<le> length (ws ! p)"
    using lp suffix_length_le[of "ws ! nd_fail (ns ! p)" "tl (ws ! p)"] by (auto simp: longestIn_def)
  then have "longestIn ws (tl (ws ! p) @ [c]) f" unfolding f_def
    using links by (intro stepTo_longest[OF t lp]) (auto simp: linked_def)
  then have lf: "longestIn ws (tl (ws ! j)) f" using j ne by simp
  have short: "length (ws ! f) \<le> length (ws ! p)"
    using lf j suffix_length_le[of "ws ! f" "tl (ws ! j)"] ne by (auto simp: longestIn_def)
  have fj: "f \<noteq> j" using short j by auto
  have lin: "linked ns ws V f" using links lf short by (simp add: longestIn_def)
  have "set (nd_lengths (ns ! j)) \<union> set (nd_lengths (ns ! f)) = {length v |v. v \<in> V \<and> suffix v (ws ! j)}"
  proof -
    have "v \<in> V \<Longrightarrow> suffix v (ws ! j) \<longleftrightarrow> v = ws ! j \<or> suffix v (ws ! f)" for v
      using longestIn_suffix[OF lf, of v] V suffix_tl[of v "ws ! j"] j
      by (metis list.sel(2) subsetD suffix_order.order_refl suffix_order.trans suffix_tl suffix_Cons list.exhaust_sel)
    then show ?thesis using raw lin by (auto simp: rawAt_def linked_def)
  qed
  then show "linked (linkChild p ns (c, j)) ws V j"
    using lf j len by (auto simp: out linked_def)
  show "trieWords (linkChild p ns (c, j)) ws" unfolding out by (rule trie_marks_update[OF t])
  show "i \<noteq> j \<Longrightarrow> linkChild p ns (c, j) ! i = ns ! i" by (simp add: out)
  show "nd_next (linkChild p ns (c, j) ! i) = nd_next (ns ! i)" using j len by (cases "i = j") (auto simp: out)
qed


lemma linkChildren_links:
  assumes "trieWords ns ws" "p < length ws" "p \<noteq> 0" "V \<subseteq> set ws"
    and "\<And>c j. (c, j) \<in> set es \<Longrightarrow> child ns p c = Some j \<and> rawAt ns ws V j" "distinct (map snd es)"
    and "\<And>k. k < length ws \<Longrightarrow> length (ws ! k) \<le> length (ws ! p) \<Longrightarrow> linked ns ws V k"
  shows "trieWords (foldl (linkChild p) ns es) ws \<and> (\<forall>j\<in>snd ` set es. linked (foldl (linkChild p) ns es) ws V j) \<and>
    (\<forall>i. i \<notin> snd ` set es \<longrightarrow> foldl (linkChild p) ns es ! i = ns ! i)"
  using assms(1,5-7)
proof (induction es arbitrary: ns)
  case (Cons e es)
  obtain c j where e: "e = (c, j)" by (cases e)
  have cj: "child ns p c = Some j" "rawAt ns ws V j" using Cons.prems(2)[of c j] e by auto
  have jw: "j < length ws" "ws ! j = ws ! p @ [c]" using trie_child[OF Cons.prems(1) assms(2)] cj by auto
  let ?m = "linkChild p ns (c, j)"
  note l = linkChild_links[OF Cons.prems(1) assms(2,3) cj(1) assms(4) cj(2) Cons.prems(4)]
  have "trieWords (foldl (linkChild p) ?m es) ws \<and> (\<forall>j\<in>snd ` set es. linked (foldl (linkChild p) ?m es) ws V j) \<and>
      (\<forall>i. i \<notin> snd ` set es \<longrightarrow> foldl (linkChild p) ?m es ! i = ?m ! i)"
  proof (rule Cons.IH)
    show "trieWords ?m ws" by (rule l(1))
    show "distinct (map snd es)" using Cons.prems(3) by simp
    show "child ?m p d = Some k \<and> rawAt ?m ws V k" if "(d, k) \<in> set es" for d k
    proof -
      have "k \<noteq> j" using that Cons.prems(3) e by force
      then show ?thesis using Cons.prems(2)[of d k] that l(3)[of k] l(4)[of p] by (simp add: child_def rawAt_def)
    qed
    show "linked ?m ws V k" if "k < length ws" "length (ws ! k) \<le> length (ws ! p)" for k
    proof -
      have "k \<noteq> j" using that jw by auto
      then show ?thesis using Cons.prems(4)[OF that] l(3)[of k] by (simp add: linked_def)
    qed
  qed
  moreover have "j \<notin> snd ` set es" using Cons.prems(3) e by auto
  ultimately show ?case using l(2,3) e by (auto simp: linked_def)
qed auto

definition passing :: "string list \<Rightarrow> string set \<Rightarrow> nat list \<times> node list \<Rightarrow> bool" where
  "passing ws V st \<longleftrightarrow> (let (q, ns) = st in trieWords ns ws \<and> set q \<subseteq> {0<..<length ws} \<and> distinct q \<and>
     (\<forall>a\<in>set q. \<forall>b\<in>set q. \<not> strict_prefix (ws ! a) (ws ! b)) \<and>
     sorted (map (\<lambda>i. length (ws ! i)) q) \<and> (\<forall>i\<in>set q. length (ws ! i) \<le> length (ws ! hd q) + 1) \<and>
     (\<forall>i<length ws. if \<exists>a\<in>set q. strict_prefix (ws ! a) (ws ! i) then rawAt ns ws V i else linked ns ws V i))"

lemma children_of:
  assumes t: "trieWords ns ws" and p: "p < length ws"
  shows "(c, j) \<in> set (nd_next (ns ! p)) \<longleftrightarrow> j < length ws \<and> ws ! j = ws ! p @ [c]" "distinct (map snd (nd_next (ns ! p)))"
proof -
  have d: "distinct (map fst (nd_next (ns ! p)))" using t p by (simp add: trieWords_def)
  then have m: "(c, j) \<in> set (nd_next (ns ! p)) \<longleftrightarrow> child ns p c = Some j" for c j by (simp add: child_def)
  then show "(c, j) \<in> set (nd_next (ns ! p)) \<longleftrightarrow> j < length ws \<and> ws ! j = ws ! p @ [c]"
    using trie_child[OF t p] by simp
  have w: "ws ! snd x = ws ! p @ [fst x]" if "x \<in> set (nd_next (ns ! p))" for x
    using m[of "fst x" "snd x"] trie_child[OF t p] that by auto
  have "inj_on snd (set (nd_next (ns ! p)))"
  proof (rule inj_onI)
    fix x y assume "x \<in> set (nd_next (ns ! p))" "y \<in> set (nd_next (ns ! p))" "snd x = snd y"
    with w[of x] w[of y] show "x = y" by (simp add: prod_eq_iff)
  qed
  moreover have "distinct (nd_next (ns ! p))" using d by (simp add: distinct_map)
  ultimately show "distinct (map snd (nd_next (ns ! p)))" by (simp add: distinct_map)
qed

lemma strict_prefix_snoc_iff: "strict_prefix a (b @ [c]) \<longleftrightarrow> prefix a b"
  by (auto simp: strict_prefix_def dest: prefix_length_le)

lemma strict_prefix_snocD: "strict_prefix (b @ [c]) a \<Longrightarrow> strict_prefix b a"
  by (rule prefix_order.less_trans[of b "b @ [c]"]) (simp_all add: strict_prefix_snoc_iff)

lemma passing_step:
  assumes pa: "passing ws V (p # q, ns)" and V: "V \<subseteq> set ws"
  defines "es \<equiv> nd_next (ns ! p)"
  shows "passing ws V (q @ map snd es, foldl (linkChild p) ns es)"
proof -
  let ?m = "foldl (linkChild p) ns es"
  let ?q = "q @ map snd es"
  have t: "trieWords ns ws" and p: "p < length ws" "p \<noteq> 0" and d: "distinct (p # q)"
    and anti: "\<And>a b. a \<in> set (p # q) \<Longrightarrow> b \<in> set (p # q) \<Longrightarrow> \<not> strict_prefix (ws ! a) (ws ! b)"
    and q: "set q \<subseteq> {0<..<length ws}" and so: "sorted (map (\<lambda>i. length (ws ! i)) (p # q))"
    and near: "\<And>i. i \<in> set q \<Longrightarrow> length (ws ! i) \<le> length (ws ! p) + 1"
    and st: "\<And>i. i < length ws \<Longrightarrow> if \<exists>a\<in>set (p # q). strict_prefix (ws ! a) (ws ! i) then rawAt ns ws V i else linked ns ws V i"
    using pa by (auto simp: passing_def)
  have ch: "(c, j) \<in> set es \<longleftrightarrow> j < length ws \<and> ws ! j = ws ! p @ [c]" for c j
    unfolding es_def by (rule children_of(1)[OF t p(1)])
  have dist: "distinct (map snd es)" unfolding es_def by (rule children_of(2)[OF t p(1)])
  have kid: "j \<in> snd ` set es \<longleftrightarrow> j < length ws \<and> (\<exists>c. ws ! j = ws ! p @ [c])" for j
    using ch by force
  have links: "linked ns ws V k" if "k < length ws" "length (ws ! k) \<le> length (ws ! p)" for k
  proof -
    have "\<not> strict_prefix (ws ! a) (ws ! k)" if "a \<in> set (p # q)" for a
      using that so \<open>length (ws ! k) \<le> length (ws ! p)\<close> by (fastforce dest: prefix_length_less)
    then show ?thesis using st[OF that(1)] by auto
  qed
  have raw: "child ns p c = Some j \<and> rawAt ns ws V j" if "(c, j) \<in> set es" for c j
    using that ch st[of j] trie_child[OF t p(1)] by (auto simp: strict_prefix_snoc_iff)
  note fold = linkChildren_links[OF t p V raw dist links]
  have above: "prefix (ws ! a) (ws ! p) \<longleftrightarrow> a = p" if "a \<in> set (p # q)" for a
  proof
    assume "prefix (ws ! a) (ws ! p)"
    then have "ws ! a = ws ! p" using anti[OF that, of p] by (auto simp: strict_prefix_def)
    moreover have "a < length ws" using that p q by auto
    ultimately show "a = p" using trie_word_inject[OF t _ p(1)] by blast
  qed simp
  have qp: "p \<notin> set q" using d by simp
  have kids_not: "\<not> strict_prefix (ws ! a) (ws ! j)" if aj: "a \<in> set q" "j \<in> snd ` set es" for a j
  proof -
    obtain c where "ws ! j = ws ! p @ [c]" using aj(2) kid by blast
    moreover have "\<not> prefix (ws ! a) (ws ! p)" using aj(1) above[of a] qp by auto
    ultimately show ?thesis by (simp add: strict_prefix_snoc_iff)
  qed
  have not_kids: "\<not> strict_prefix (ws ! j) (ws ! a)" if aj: "a \<in> set q" "j \<in> snd ` set es" for a j
  proof -
    obtain c where "ws ! j = ws ! p @ [c]" using aj(2) kid by blast
    then show ?thesis using anti[of p a] aj(1) strict_prefix_snocD by fastforce
  qed
  have mark: "if \<exists>a\<in>set ?q. strict_prefix (ws ! a) (ws ! i) then rawAt ?m ws V i else linked ?m ws V i" if i: "i < length ws" for i
  proof (cases "i \<in> snd ` set es")
    case True
    have "\<not> strict_prefix (ws ! a) (ws ! i)" if "a \<in> set ?q" for a
    proof (cases "a \<in> set q")
      case False
      then have "a \<in> snd ` set es" using that by simp
      then show ?thesis using kid True by (auto dest: prefix_length_less)
    qed (use kids_not True in blast)
    then show ?thesis using fold True by auto
  next
    case False
    then have same: "?m ! i = ns ! i" using fold by blast
    have iff: "(\<exists>a\<in>set ?q. strict_prefix (ws ! a) (ws ! i)) \<longleftrightarrow> (\<exists>a\<in>set (p # q). strict_prefix (ws ! a) (ws ! i))"
    proof
      assume "\<exists>a\<in>set ?q. strict_prefix (ws ! a) (ws ! i)"
      then obtain a where a: "a \<in> set ?q" "strict_prefix (ws ! a) (ws ! i)" by blast
      show "\<exists>a\<in>set (p # q). strict_prefix (ws ! a) (ws ! i)"
      proof (cases "a \<in> set q")
        case False
        then have "a \<in> snd ` set es" using a(1) by simp
        then obtain c where "ws ! a = ws ! p @ [c]" using kid by blast
        then have "strict_prefix (ws ! p) (ws ! i)" using a(2) strict_prefix_snocD by metis
        then show ?thesis by simp
      qed (use a in auto)
    next
      assume "\<exists>a\<in>set (p # q). strict_prefix (ws ! a) (ws ! i)"
      then obtain a where a: "a \<in> set (p # q)" "strict_prefix (ws ! a) (ws ! i)" by blast
      show "\<exists>a\<in>set ?q. strict_prefix (ws ! a) (ws ! i)"
      proof (cases "a = p")
        case True
        then obtain c u where cu: "ws ! i = ws ! p @ c # u" using a by (auto elim: strict_prefixE')
        have pre: "x @ u \<in> set ws \<Longrightarrow> x \<in> set ws" for x u
          by (induction u rule: rev_induct) (use t in \<open>auto simp: trieWords_def simp flip: append_assoc\<close>)
        have "(ws ! p @ [c]) @ u \<in> set ws" using i cu nth_mem[of i ws] by simp
        then obtain j where j: "j < length ws" "ws ! j = ws ! p @ [c]" using pre by (metis in_set_conv_nth)
        then have "j \<in> snd ` set es" using kid by blast
        moreover have "u \<noteq> []" using False kid i cu by auto
        ultimately show ?thesis using j cu by (intro bexI[of _ j]) (auto simp: strict_prefix_def prefix_def)
      qed (use a in auto)
    qed
    have "rawAt ?m ws V i = rawAt ns ws V i" "linked ?m ws V i = linked ns ws V i"
      by (simp_all add: rawAt_def linked_def same)
    then show ?thesis using st[OF i] by (simp only: iff)
  qed
  have kl: "length (ws ! j) = length (ws ! p) + 1" if "j \<in> snd ` set es" for j using that kid by auto
  have inside: "j \<in> {0<..<length ws}" if "j \<in> snd ` set es" for j
    using that kid trie_root[OF t] by (metis append_is_Nil_conv greaterThanLessThan_iff gr0I list.distinct(1))
  have "set ?q = set q \<union> snd ` set es" by simp
  then have "set ?q \<subseteq> {0<..<length ws}" using q inside by blast
  moreover have "distinct ?q"
  proof -
    have "a \<notin> snd ` set es" if "a \<in> set q" for a
    proof
      assume "a \<in> snd ` set es"
      then obtain c where "ws ! a = ws ! p @ [c]" using kid by blast
      then show False using anti[of p a] that by (simp add: strict_prefix_snoc_iff)
    qed
    then show ?thesis using d dist by auto
  qed
  moreover have "\<forall>a\<in>set ?q. \<forall>b\<in>set ?q. \<not> strict_prefix (ws ! a) (ws ! b)"
  proof (intro ballI)
    fix a b assume ab: "a \<in> set ?q" "b \<in> set ?q"
    show "\<not> strict_prefix (ws ! a) (ws ! b)"
    proof (cases "a \<in> set q"; cases "b \<in> set q")
      assume "a \<notin> set q" "b \<notin> set q"
      then have "a \<in> snd ` set es" "b \<in> snd ` set es" using ab by simp_all
      then have "length (ws ! a) = length (ws ! b)" using kl by metis
      then show ?thesis using prefix_length_less by fastforce
    qed (use ab anti kids_not not_kids in auto)
  qed
  moreover have "sorted (map (\<lambda>i. length (ws ! i)) ?q)"
  proof -
    have "map (\<lambda>i. length (ws ! i)) (map snd es) = replicate (length es) (length (ws ! p) + 1)"
      using kl by (auto simp: list_eq_iff_nth_eq)
    then have "sorted (map (\<lambda>i. length (ws ! i)) (map snd es))" by (metis sorted_replicate)
    moreover have "length (ws ! a) \<le> length (ws ! b)" if "a \<in> set q" "b \<in> snd ` set es" for a b
      using near[OF that(1)] kl[OF that(2)] by simp
    ultimately show ?thesis using so by (simp add: sorted_append)
  qed
  moreover have "\<forall>i\<in>set ?q. length (ws ! i) \<le> length (ws ! hd ?q) + 1"
  proof -
    have low: "length (ws ! p) \<le> length (ws ! i)" if "i \<in> set ?q" for i
    proof (cases "i \<in> set q")
      case False
      then have "i \<in> snd ` set es" using that by simp
      then show ?thesis using kl by simp
    qed (use so in simp)
    have high: "length (ws ! i) \<le> length (ws ! p) + 1" if "i \<in> set ?q" for i
    proof (cases "i \<in> set q")
      case False
      then have "i \<in> snd ` set es" using that by simp
      then show ?thesis using kl by simp
    qed (rule near)
    show ?thesis
    proof
      fix i assume i: "i \<in> set ?q"
      then have "hd ?q \<in> set ?q" by (intro hd_in_set) auto
      then show "length (ws ! i) \<le> length (ws ! hd ?q) + 1" using high[OF i] low[of "hd ?q"] by simp
    qed
  qed
  ultimately show ?thesis using fold mark by (simp add: passing_def)
qed


lemma passing_start:
  assumes r: "rawTrie ns ws V" and ne: "[] \<notin> V"
  shows "passing ws V (map snd (nd_next (ns ! 0)), ns)"
proof -
  let ?es = "nd_next (ns ! 0)"
  have t: "trieWords ns ws" using r by (simp add: rawTrie_def)
  note root = trie_root[OF t]
  have raw: "rawAt ns ws V i" "nd_fail (ns ! i) = 0" if "i < length ws" for i
    using r that by (simp_all add: rawTrie_def rawAt_def)
  have kid: "j \<in> snd ` set ?es \<longleftrightarrow> j < length ws \<and> (\<exists>c. ws ! j = [c])" for j
    using children_of(1)[OF t, of 0] root by force
  have mark: "if \<exists>a\<in>set (map snd ?es). strict_prefix (ws ! a) (ws ! i) then rawAt ns ws V i else linked ns ws V i" if i: "i < length ws" for i
  proof (cases "ws ! i" rule: rev_cases)
    case Nil
    then have "linked ns ws V i" using raw[OF i] ne trie_word_empty[OF t i] by (auto simp: linked_def rawAt_def)
    then show ?thesis using raw[OF i] by simp
  next
    case (snoc u c)
    show ?thesis
    proof (cases u)
      case Nil
      then have w: "ws ! i = [c]" using snoc by simp
      have "set (nd_lengths (ns ! i)) = {length v |v. v \<in> V \<and> suffix v (ws ! i)}"
      proof -
        have "v \<in> V \<and> suffix v (ws ! i) \<longleftrightarrow> v = [c] \<and> [c] \<in> V" for v using ne w by (auto simp: suffix_Cons)
        then show ?thesis using raw(1)[OF i] w by (auto simp: rawAt_def)
      qed
      moreover have "longestIn ws (tl (ws ! i)) (nd_fail (ns ! i))"
        using raw(2)[OF i] w root by (auto simp: longestIn_def)
      ultimately have "linked ns ws V i" by (simp add: linked_def)
      then show ?thesis using raw[OF i] by simp
    next
      case (Cons d v)
      have pre: "x @ u \<in> set ws \<Longrightarrow> x \<in> set ws" for x u
        by (induction u rule: rev_induct) (use t in \<open>auto simp: trieWords_def simp flip: append_assoc\<close>)
      have "[d] @ (v @ [c]) \<in> set ws" using i nth_mem[of i ws] snoc Cons by simp
      then obtain j where j: "j < length ws" "ws ! j = [d]" using pre by (metis in_set_conv_nth)
      then have "j \<in> set (map snd ?es)" using kid by simp
      moreover have "strict_prefix (ws ! j) (ws ! i)" using j snoc Cons by (simp add: strict_prefix_def)
      ultimately show ?thesis using raw[OF i] by auto
    qed
  qed
  have len: "length (ws ! j) = 1" if "j \<in> snd ` set ?es" for j using that kid by auto
  have inside: "j \<in> {0<..<length ws}" if "j \<in> snd ` set ?es" for j
    using that kid root by (metis greaterThanLessThan_iff gr0I list.distinct(1))
  have "set (map snd ?es) = snd ` set ?es" by simp
  then have "set (map snd ?es) \<subseteq> {0<..<length ws}" using inside by blast
  moreover have "distinct (map snd ?es)" using children_of(2)[OF t, of 0] root by simp
  moreover have "\<forall>a\<in>set (map snd ?es). \<forall>b\<in>set (map snd ?es). \<not> strict_prefix (ws ! a) (ws ! b)"
  proof (intro ballI)
    fix a b assume "a \<in> set (map snd ?es)" "b \<in> set (map snd ?es)"
    then have "a \<in> snd ` set ?es" "b \<in> snd ` set ?es" by simp_all
    then have "length (ws ! a) = length (ws ! b)" using len by metis
    then show "\<not> strict_prefix (ws ! a) (ws ! b)" using prefix_length_less by fastforce
  qed
  moreover have "sorted (map (\<lambda>i. length (ws ! i)) (map snd ?es))"
  proof -
    have "map (\<lambda>i. length (ws ! i)) (map snd ?es) = replicate (length ?es) 1"
      using len by (auto simp: list_eq_iff_nth_eq)
    then show ?thesis by (metis sorted_replicate)
  qed
  moreover have "\<forall>i\<in>set (map snd ?es). length (ws ! i) \<le> length (ws ! hd (map snd ?es)) + 1" using len by auto
  ultimately show ?thesis using t mark by (simp add: passing_def)
qed

definition below :: "string list \<Rightarrow> nat list \<Rightarrow> nat set" where
  "below ws q = {i. i < length ws \<and> (\<exists>a\<in>set q. prefix (ws ! a) (ws ! i))}"

lemma below_step:
  assumes pa: "passing ws V (p # q, ns)"
  shows "below ws (q @ map snd (nd_next (ns ! p))) \<subset> below ws (p # q)"
proof -
  have t: "trieWords ns ws" and p: "p < length ws" and d: "p \<notin> set q" and q: "set q \<subseteq> {0<..<length ws}"
    and anti: "\<And>a. a \<in> set q \<Longrightarrow> \<not> strict_prefix (ws ! a) (ws ! p)"
    using pa by (auto simp: passing_def)
  have kid: "ws ! j = ws ! p @ [c]" if "(c, j) \<in> set (nd_next (ns ! p))" for c j
    using children_of(1)[OF t p] that by blast
  have "p \<in> below ws (p # q)" using p by (simp add: below_def)
  moreover have "p \<notin> below ws (q @ map snd (nd_next (ns ! p)))"
  proof
    assume "p \<in> below ws (q @ map snd (nd_next (ns ! p)))"
    then obtain a where a: "a \<in> set q \<union> snd ` set (nd_next (ns ! p))" "prefix (ws ! a) (ws ! p)" by (auto simp: below_def)
    show False
    proof (cases "a \<in> set q")
      case True
      then have "ws ! a = ws ! p" using a(2) anti by (auto simp: strict_prefix_def)
      then show False using True d q p trie_word_inject[OF t _ p, of a] by auto
    next
      case False
      then obtain c where "(c, a) \<in> set (nd_next (ns ! p))" using a(1) by auto
      then show False using kid a(2) prefix_length_le by fastforce
    qed
  qed
  moreover have "below ws (q @ map snd (nd_next (ns ! p))) \<subseteq> below ws (p # q)"
    using kid by (auto simp: below_def dest: append_prefixD)
  ultimately show ?thesis by blast
qed

lemma linkFailures_linked:
  assumes r: "rawTrie ns ws V" and ne: "[] \<notin> V"
  shows "trieWords (linkFailures ns) ws \<and> (\<forall>i<length ws. linked (linkFailures ns) ws V i)"
proof -
  have V: "V \<subseteq> set ws" using r by (simp add: rawTrie_def)
  define out where "out = while (\<lambda>(q, ns). q \<noteq> [])
     (\<lambda>(q, ns). (tl q @ map snd (nd_next (ns ! hd q)), foldl (linkChild (hd q)) ns (nd_next (ns ! hd q))))
     (map snd (nd_next (ns ! 0)), ns)"
  have "passing ws V out \<and> \<not> (\<lambda>(q, ns). q \<noteq> []) out" unfolding out_def
  proof (rule while_rule[where P = "passing ws V" and r = "inv_image finite_psubset (below ws \<circ> fst)"])
    show "passing ws V (map snd (nd_next (ns ! 0)), ns)" by (rule passing_start[OF r ne])
  next
    fix st assume "passing ws V st" "(\<lambda>(q, ns). q \<noteq> []) st"
    moreover obtain q m where st: "st = (q, m)" by (cases st)
    ultimately obtain p q' where q: "q = p # q'" and pa: "passing ws V (p # q', m)" by (cases q) auto
    show "passing ws V ((\<lambda>(q, ns). (tl q @ map snd (nd_next (ns ! hd q)), foldl (linkChild (hd q)) ns (nd_next (ns ! hd q)))) st)"
      using passing_step[OF pa V] st q by simp
    have "finite (below ws (p # q'))" by (simp add: below_def)
    then show "((\<lambda>(q, ns). (tl q @ map snd (nd_next (ns ! hd q)), foldl (linkChild (hd q)) ns (nd_next (ns ! hd q)))) st, st)
        \<in> inv_image finite_psubset (below ws \<circ> fst)"
      using below_step[OF pa] st q by (simp add: finite_psubset_def)
  qed (auto simp: wf_finite_psubset)
  then show ?thesis unfolding linkFailures_def out_def[symmetric] by (cases out) (auto simp: passing_def)
qed

section \<open>The scan\<close>

lemma scanFrom_matches:
  assumes t: "trieWords ns ws" and l: "\<And>k. k < length ws \<Longrightarrow> linked ns ws V k" and V: "V \<subseteq> set ws"
  shows "longestIn ws s i \<Longrightarrow> (a, b) \<in> set (scanFrom ns i (length s) u) \<longleftrightarrow>
     (\<exists>x y v. u = x @ y \<and> x \<noteq> [] \<and> b = length (s @ x) \<and> v \<in> V \<and> suffix v (s @ x) \<and> a + length v = b)"
proof (induction u arbitrary: s i)
  case (Cons c u)
  have j: "longestIn ws (s @ [c]) (stepTo ns i c)"
    using l by (intro stepTo_longest[OF t Cons.prems]) (auto simp: linked_def)
  then have "stepTo ns i c < length ws" by (simp add: longestIn_def)
  with l have "set (nd_lengths (ns ! stepTo ns i c)) = {length v |v. v \<in> V \<and> suffix v (ws ! stepTo ns i c)}"
    by (simp add: linked_def)
  also have "\<dots> = {length v |v. v \<in> V \<and> suffix v (s @ [c])}"
    using longestIn_suffix[OF j] V by auto
  finally have n: "set (nd_lengths (ns ! stepTo ns i c)) = {length v |v. v \<in> V \<and> suffix v (s @ [c])}" .
  have here: "(a, b) \<in> set (map (\<lambda>n. (length s + 1 - n, length s + 1)) (nd_lengths (ns ! stepTo ns i c))) \<longleftrightarrow>
      (\<exists>v. b = length (s @ [c]) \<and> v \<in> V \<and> suffix v (s @ [c]) \<and> a + length v = b)"
    using n suffix_length_le[of _ "s @ [c]"] by (fastforce simp: image_iff)
  have split: "(\<exists>x y v. c # u = x @ y \<and> x \<noteq> [] \<and> P x v) \<longleftrightarrow>
      (\<exists>v. P [c] v) \<or> (\<exists>x y v. u = x @ y \<and> x \<noteq> [] \<and> P (c # x) v)" for P :: "string \<Rightarrow> string \<Rightarrow> bool"
  proof
    assume "\<exists>x y v. c # u = x @ y \<and> x \<noteq> [] \<and> P x v"
    then obtain x y v where "c # u = x @ y" "x \<noteq> []" "P x v" by blast
    then show "(\<exists>v. P [c] v) \<or> (\<exists>x y v. u = x @ y \<and> x \<noteq> [] \<and> P (c # x) v)"
      by (cases x; cases "tl x = []") auto
  next
    assume "(\<exists>v. P [c] v) \<or> (\<exists>x y v. u = x @ y \<and> x \<noteq> [] \<and> P (c # x) v)"
    then show "\<exists>x y v. c # u = x @ y \<and> x \<noteq> [] \<and> P x v"
      by (metis append_Cons append_Nil list.distinct(1))
  qed
  show ?case
    using Cons.IH[OF j] here split[of "\<lambda>x v. b = length (s @ x) \<and> v \<in> V \<and> suffix v (s @ x) \<and> a + length v = b"]
    by (simp add: Let_def)
qed simp

definition occursAt :: "string \<Rightarrow> string \<Rightarrow> nat \<Rightarrow> nat \<Rightarrow> bool" where
  "occursAt v t a b \<longleftrightarrow> b \<le> length t \<and> a + length v = b \<and> slice a b t = v"

lemma occursAt_iff: "occursAt v t a b \<longleftrightarrow> (\<exists>x y. t = x @ v @ y \<and> a = length x \<and> b = length (x @ v))"
proof
  assume o: "occursAt v t a b"
  have "t = take a t @ take (b - a) (drop a t) @ drop b t"
    using o by (metis occursAt_def append_take_drop_id drop_drop le_add1 le_add_diff_inverse2 add.commute)
  then show "\<exists>x y. t = x @ v @ y \<and> a = length x \<and> b = length (x @ v)"
    using o by (intro exI[of _ "take a t"] exI[of _ "drop b t"]) (auto simp: occursAt_def slice_def)
qed (auto simp: occursAt_def slice_def)


lemma literalMatches_iff:
  assumes "[] \<notin> set vs"
  shows "(a, b) \<in> set (literalMatches vs t) \<longleftrightarrow> (\<exists>v\<in>set vs. occursAt v t a b)"
proof -
  obtain ws where r: "rawTrie (literalTrie vs) ws (set vs)" using literalTrie_raw by blast
  have V: "set vs \<subseteq> set ws" using r by (simp add: rawTrie_def)
  have l: "trieWords (literalNodes vs) ws" "\<And>k. k < length ws \<Longrightarrow> linked (literalNodes vs) ws (set vs) k"
    using linkFailures_linked[OF r assms] by (simp_all add: literalNodes_def)
  have root: "longestIn ws [] 0" using trie_root[OF l(1)] by (auto simp: longestIn_def)
  have "(a, b) \<in> set (literalMatches vs t) \<longleftrightarrow>
      (\<exists>x y v. t = x @ y \<and> x \<noteq> [] \<and> b = length x \<and> v \<in> set vs \<and> suffix v x \<and> a + length v = b)"
    using scanFrom_matches[OF l V root, of a b t] by (simp add: literalMatches_def)
  also have "\<dots> \<longleftrightarrow> (\<exists>v\<in>set vs. occursAt v t a b)"
  proof
    assume "\<exists>x y v. t = x @ y \<and> x \<noteq> [] \<and> b = length x \<and> v \<in> set vs \<and> suffix v x \<and> a + length v = b"
    then obtain x y v u where "t = (u @ v) @ y" "b = length (u @ v)" "v \<in> set vs" "a + length v = b"
      by (auto simp: suffix_def)
    then show "\<exists>v\<in>set vs. occursAt v t a b" by (intro bexI[of _ v]) (auto simp: occursAt_iff)
  next
    assume "\<exists>v\<in>set vs. occursAt v t a b"
    then obtain v x y where v: "v \<in> set vs" "t = x @ v @ y" "a = length x" "b = length (x @ v)" by (auto simp: occursAt_iff)
    moreover have "v \<noteq> []" using v(1) assms by auto
    ultimately have "t = (x @ v) @ y \<and> x @ v \<noteq> [] \<and> b = length (x @ v) \<and> v \<in> set vs \<and> suffix v (x @ v) \<and> a + length v = b"
      by (auto simp: suffix_def)
    then show "\<exists>x y v. t = x @ y \<and> x \<noteq> [] \<and> b = length x \<and> v \<in> set vs \<and> suffix v x \<and> a + length v = b"
      by blast
  qed
  finally show ?thesis .
qed

end
