(* ===== verification/RedactionMasking.thy ===== *)
theory RedactionMasking
  imports RedactionLiterals
begin

text \<open>What a masked text keeps: the gaps between separated spans and one marker per span;
  and that every occurrence of an exact value outside an already inserted marker lies in
  such a span.\<close>

fun separated :: "nat \<Rightarrow> span list \<Rightarrow> bool" where
  "separated pos [] = True"
| "separated pos (s # ss) = (pos \<le> sp_start s \<and> sp_start s < sp_end s \<and> separated (sp_end s) ss)"

fun maskedText :: "string \<Rightarrow> nat \<Rightarrow> span list \<Rightarrow> string" where
  "maskedText input pos [] = drop pos input"
| "maskedText input pos (s # ss) = slice pos (sp_start s) input @ ru_marker (sp_rule s) @ maskedText input (sp_end s) ss"

definition covered :: "span list \<Rightarrow> nat \<Rightarrow> nat \<Rightarrow> bool" where
  "covered ss a b \<longleftrightarrow> (\<exists>s\<in>set ss. sp_start s \<le> a \<and> b \<le> sp_end s)"

definition insideMarker :: "string list \<Rightarrow> string \<Rightarrow> nat \<Rightarrow> nat \<Rightarrow> bool" where
  "insideMarker markers t a b \<longleftrightarrow> (\<exists>m\<in>set markers. \<exists>p. occursAt m t p (p + length m) \<and> p \<le> a \<and> b \<le> p + length m)"

section \<open>Merging\<close>

fun stacked :: "span list \<Rightarrow> bool" where
  "stacked [] = True"
| "stacked [s] = (sp_start s < sp_end s)"
| "stacked (s # p # ps) = (sp_end p \<le> sp_start s \<and> sp_start s < sp_end s \<and> stacked (p # ps))"

lemma separated_append:
  "separated pos (xs @ [s]) \<longleftrightarrow> separated pos xs \<and> (xs = [] \<longrightarrow> pos \<le> sp_start s) \<and>
     (xs \<noteq> [] \<longrightarrow> sp_end (last xs) \<le> sp_start s) \<and> sp_start s < sp_end s"
  by (induction xs arbitrary: pos) auto

lemma stacked_separated: "stacked ss \<Longrightarrow> separated 0 (rev ss)"
proof (induction ss rule: stacked.induct)
  case (3 s p ps)
  then have "separated 0 (rev ps @ [p])" by simp
  then show ?case using 3(2) separated_append[of 0 "rev ps @ [p]" s] by simp
qed auto

lemma stacked_replace_head:
  "stacked (p # ps) \<Longrightarrow> sp_start q = sp_start p \<Longrightarrow> sp_end p \<le> sp_end q \<Longrightarrow> stacked (q # ps)"
  by (cases ps) auto

lemma mergeSpans_correct:
  assumes "stacked merged" "\<forall>s\<in>set ss. sp_start s < sp_end s" "sorted (map sp_start ss)"
    and "merged \<noteq> [] \<Longrightarrow> \<forall>s\<in>set ss. sp_start (hd merged) \<le> sp_start s"
  shows "separated 0 (mergeSpans merged ss) \<and> (\<forall>a b. covered (merged @ ss) a b \<longrightarrow> covered (mergeSpans merged ss) a b)"
  using assms
proof (induction merged ss rule: mergeSpans.induct)
  case (1 merged)
  then show ?case by (simp add: stacked_separated covered_def)
next
  case (2 s ss)
  then have "separated 0 (mergeSpans [s] ss) \<and> (\<forall>a b. covered ([s] @ ss) a b \<longrightarrow> covered (mergeSpans [s] ss) a b)"
    by (intro 2(1)) auto
  then show ?case by simp
next
  case (3 p ps s ss)
  let ?p = "p\<lparr>sp_end := max (sp_end p) (sp_end s)\<rparr>"
  let ?q = "if sp_priority s < sp_priority ?p then ?p\<lparr>sp_rule := sp_rule s, sp_priority := sp_priority s\<rparr> else ?p"
  show ?case
  proof (cases "sp_start s < sp_end p")
    case True
    have q: "sp_start ?q = sp_start p" "sp_end ?q = max (sp_end p) (sp_end s)" by simp_all
    have st: "stacked (?q # ps)" by (rule stacked_replace_head[OF 3(3)]) (simp_all only: q max.cobounded1)
    have "separated 0 (mergeSpans (?q # ps) ss) \<and> (\<forall>a b. covered ((?q # ps) @ ss) a b \<longrightarrow> covered (mergeSpans (?q # ps) ss) a b)"
    proof (rule 3(1)[OF True refl])
      show "?q # ps \<noteq> [] \<Longrightarrow> \<forall>t\<in>set ss. sp_start (hd (?q # ps)) \<le> sp_start t"
        using 3(6) by (simp only: list.sel q) auto
    qed (use 3(4,5) st in simp_all)
    moreover have "covered ((?q # ps) @ ss) a b" if "covered ((p # ps) @ s # ss) a b" for a b
      using that 3(6) by (auto simp: covered_def)
    ultimately show ?thesis using True by (simp add: Let_def)
  next
    case False
    have "separated 0 (mergeSpans (s # p # ps) ss) \<and> (\<forall>a b. covered ((s # p # ps) @ ss) a b \<longrightarrow> covered (mergeSpans (s # p # ps) ss) a b)"
      using 3(3-6) False by (intro 3(2)) auto
    then show ?thesis using False by (auto simp: covered_def)
  qed
qed

lemma orderSpans_set [simp]: "set (orderSpans ss) = set ss"
  by (simp add: orderSpans_def)

lemma orderSpans_sorted: "sorted (map sp_start (orderSpans ss))"
proof -
  have "sorted (map (\<lambda>s. (int (sp_start s), - int (sp_end s), sp_priority s)) (orderSpans ss))"
    by (simp add: orderSpans_def)
  then show ?thesis
    unfolding sorted_map by (rule sorted_wrt_mono_rel[rotated]) (auto simp: less_eq_prod_def)
qed

lemma mergeSpans_ordered:
  assumes "\<forall>s\<in>set ss. sp_start s < sp_end s"
  shows "separated 0 (mergeSpans [] (orderSpans ss))" "covered ss a b \<Longrightarrow> covered (mergeSpans [] (orderSpans ss)) a b"
  using mergeSpans_correct[of "[]" "orderSpans ss"] assms orderSpans_sorted by (auto simp: covered_def)

section \<open>Rendering\<close>

lemma recordMatch_count: "recordMatch rep r = Inr rep' \<Longrightarrow> rep_matches rep' = rep_matches rep + 1"
  by (auto simp: recordMatch_def split: if_split_asm)

lemma renderSpans_text:
  "renderSpans input pos ss rep = Inr (out, rep') \<Longrightarrow>
     out = maskedText input pos ss \<and> rep_matches rep' = rep_matches rep + int (length ss)"
  by (induction ss arbitrary: pos rep out) (auto simp: success_simps dest!: recordMatch_count)

section \<open>Collecting\<close>

lemma markerStarts_occurs:
  "p \<in> set (markerStarts m q s) \<Longrightarrow> \<exists>k. p = q + k \<and> occursAt m s k (k + length m)"
proof (induction m q s rule: markerStarts.induct)
  case (1 m q s)
  show ?case
  proof (cases "m = [] \<or> s = []")
    case True
    then show ?thesis using 1(3) by (simp add: markerStarts.simps[of m q s])
  next
    case False
    have shift: "\<exists>k. p = q + k \<and> occursAt m s k (k + length m)"
      if h: "p = q + n + k" "occursAt m (drop n s) k (k + length m)" "n \<le> length s" for n k
    proof -
      obtain x y where xy: "drop n s = x @ m @ y" "length x = k" using h(2) by (auto simp: occursAt_iff)
      have "s = (take n s @ x) @ m @ y" using xy(1) by (metis append.assoc append_take_drop_id)
      moreover have "length (take n s @ x) = n + k" using xy(2) h(3) by simp
      ultimately have "occursAt m s (n + k) (n + k + length m)"
        unfolding occursAt_iff by (intro exI[of _ "take n s @ x"] exI[of _ y]) simp
      then show ?thesis using h(1) by (intro exI[of _ "n + k"]) simp
    qed
    show ?thesis
    proof (cases "startsWith m s")
      case True
      then obtain r where r: "s = m @ r" by (auto simp: startsWith_iff)
      show ?thesis
      proof (cases "p = q")
        case True
        then show ?thesis using r by (intro exI[of _ 0]) (auto simp: occursAt_iff)
      next
        case no: False
        then have "p \<in> set (markerStarts m (q + length m) (drop (length m) s))"
          using 1(3) False True by (simp add: markerStarts.simps[of m q s])
        from 1(1)[OF False True this] show ?thesis using shift[of "length m"] r by auto
      qed
    next
      case no: False
      then have "p \<in> set (markerStarts m (q + 1) (tl s))" using 1(3) False by (simp add: markerStarts.simps[of m q s])
      from 1(2)[OF False no this] obtain k where k: "p = q + 1 + k" "occursAt m (tl s) k (k + length m)" by auto
      then show ?thesis using shift[of 1 k] False by (simp add: drop_Suc Suc_leI)
    qed
  qed
qed

lemma protectedSpans_marker:
  assumes "protectedSpans markers t = Inr prot" "(s, e) \<in> set prot" "s \<le> a" "b \<le> e"
  shows "insideMarker markers t a b"
proof -
  have "(s, e) \<in> set (markerSpans markers t)"
    using assms(1,2) by (auto simp: protectedSpans_def split: if_split_asm)
  then obtain m where m: "m \<in> set markers" "s \<in> set (markerStarts m 0 t)" "e = s + length m"
    by (auto simp: markerSpans_def)
  then have "occursAt m t s (s + length m)" using markerStarts_occurs[of s m 0 t] by auto
  then show ?thesis using m assms(3,4) by (auto simp: insideMarker_def)
qed

lemma widen_grows: "widen ps (a, b) = (a', b') \<Longrightarrow> a' \<le> a \<and> b \<le> b'"
  by (induction ps "(a, b)" arbitrary: a b rule: widen.induct) (fastforce split: if_split_asm)+

definition growsSpans :: "collecting \<Rightarrow> collecting \<Rightarrow> bool" where
  "growsSpans st st' \<longleftrightarrow> set (co_spans st) \<subseteq> set (co_spans st') \<and>
     ((\<forall>s\<in>set (co_spans st). sp_start s < sp_end s) \<longrightarrow> (\<forall>s\<in>set (co_spans st'). sp_start s < sp_end s))"

lemma growsSpans_refl [simp]: "growsSpans st st"
  by (simp add: growsSpans_def)

lemma growsSpans_trans: "growsSpans a b \<Longrightarrow> growsSpans b c \<Longrightarrow> growsSpans a c"
  unfolding growsSpans_def by blast

lemma addSpan_effect:
  assumes "addSpan prot rule n st (a, b) = Inr st'" "a < b"
  shows "growsSpans st st'" "(\<exists>(s, e)\<in>set prot. s \<le> a \<and> b \<le> e) \<or> covered (co_spans st') a b"
proof -
  let ?low = "firstEndingAfter prot a 0 (length prot)"
  obtain a' b' where w: "widen (drop ?low prot) (a, b) = (a', b')" by fastforce
  note g = widen_grows[OF w]
  consider "?low < length prot" "fst (prot ! ?low) \<le> a" "b \<le> snd (prot ! ?low)" "co_spans st' = co_spans st"
    | "co_spans st' = co_spans st @ [\<lparr>sp_start = a', sp_end = b', sp_rule = rule, sp_priority = n\<rparr>]"
    using assms(1) w by (auto simp: addSpan_def Let_def split: if_split_asm)
  then have "growsSpans st st' \<and> ((\<exists>(s, e)\<in>set prot. s \<le> a \<and> b \<le> e) \<or> covered (co_spans st') a b)"
  proof cases
    case 1
    then have "prot ! ?low \<in> set prot" by simp
    then have "\<exists>(s, e)\<in>set prot. s \<le> a \<and> b \<le> e" using 1 by (intro bexI[of _ "prot ! ?low"]) auto
    then show ?thesis using 1 by (simp add: growsSpans_def)
  next
    case 2
    then show ?thesis using g assms(2) by (auto simp: growsSpans_def covered_def)
  qed
  then show "growsSpans st st'" "(\<exists>(s, e)\<in>set prot. s \<le> a \<and> b \<le> e) \<or> covered (co_spans st') a b" by blast+
qed

definition rangedMatches :: "re2 \<Rightarrow> bool" where
  "rangedMatches re \<longleftrightarrow> (\<forall>v t. \<forall>m\<in>set (re_matches re v t). \<forall>a b. Some (a, b) \<in> set m \<longrightarrow> a \<le> b \<and> b \<le> length t)"

lemma groupSpan_in: "groupSpan rule m = Some x \<Longrightarrow> Some x \<in> set m"
  by (auto simp: groupSpan_def find_Some_iff split: option.split_asm) (metis nth_mem)

lemma addMatches_grows:
  assumes "addMatches prot rule n ms st = Inr st'" "\<And>m a b. m \<in> set ms \<Longrightarrow> Some (a, b) \<in> set m \<Longrightarrow> a \<le> b"
  shows "growsSpans st st'"
  using assms
proof (induction ms arbitrary: st)
  case (Cons m ms)
  have IH: "growsSpans s st'" if "addMatches prot rule n ms s = Inr st'" for s
    by (rule Cons.IH[OF that]) (metis Cons.prems(2) list.set_intros(2))
  show ?case
  proof (cases "groupSpan rule m")
    case None
    then show ?thesis using IH Cons.prems(1) by simp
  next
    case (Some x)
    obtain a b where x: "x = (a, b)" by (cases x)
    have "a \<le> b" using Cons.prems(2)[of m a b] groupSpan_in[OF Some] x by simp
    show ?thesis
    proof (cases "b = a")
      case True
      then show ?thesis using IH Cons.prems(1) Some x by (simp split: if_split_asm)
    next
      case False
      then obtain st1 where st1: "addSpan prot rule n st (a, b) = Inr st1" "addMatches prot rule n ms st1 = Inr st'"
        using Cons.prems(1) Some x by (auto simp: success_simps)
      have "growsSpans st st1" by (rule addSpan_effect(1)[OF st1(1)]) (use \<open>a \<le> b\<close> False in simp)
      then show ?thesis using IH[OF st1(2)] by (rule growsSpans_trans)
    qed
  qed
qed simp

lemma applyRules_grows:
  assumes "rangedMatches re" "applyRules re markers input k prot n rules st = Inr r"
  shows "case r of Inl rule \<Rightarrow> rule \<in> set rules \<and> ru_value rule = None \<and> ru_field rule \<noteq> None | Inr st' \<Rightarrow> growsSpans st st'"
  using assms(2)
proof (induction rules arbitrary: n st)
  case (Cons rule rules)
  let ?goal = "case r of Inl rl \<Rightarrow> rl \<in> set (rule # rules) \<and> ru_value rl = None \<and> ru_field rl \<noteq> None | Inr st' \<Rightarrow> growsSpans st st'"
  have skip: ?goal if "applyRules re markers input k prot (n + 1) rules st = Inr r"
    using Cons.IH[OF that] by (auto split: sum.splits)
  show ?case
  proof (cases "ru_value rule")
    case None
    then show ?thesis using Cons.prems skip by (auto split: if_split_asm)
  next
    case (Some v)
    show ?thesis
    proof (cases "addMatches prot rule n (re_matches re v input) st")
      case (Inl e)
      then show ?thesis using Cons.prems skip Some by (auto split: if_split_asm)
    next
      case (Inr st1)
      have "growsSpans st st1"
        by (rule addMatches_grows[OF Inr]) (use assms(1) in \<open>auto simp: rangedMatches_def\<close>)
      then have ?goal if "applyRules re markers input k prot (n + 1) rules st1 = Inr r"
        using Cons.IH[OF that] by (auto split: sum.splits intro: growsSpans_trans)
      then show ?thesis using Cons.prems skip Some Inr by (auto split: if_split_asm)
    qed
  qed
qed auto

lemma addLiterals_covered:
  assumes "foldE (addSpan prot rule n) st xs = Inr st'" "\<And>a b. (a, b) \<in> set xs \<Longrightarrow> a < b"
  shows "growsSpans st st' \<and> (\<forall>(a, b)\<in>set xs. (\<exists>(s, e)\<in>set prot. s \<le> a \<and> b \<le> e) \<or> covered (co_spans st') a b)"
  using assms
proof (induction xs arbitrary: st)
  case (Cons x xs)
  obtain a b where x: "x = (a, b)" by (cases x)
  obtain st1 where st1: "addSpan prot rule n st (a, b) = Inr st1" "foldE (addSpan prot rule n) st1 xs = Inr st'"
    using Cons.prems(1) x by (auto simp: success_simps)
  have "a < b" using Cons.prems(2) x by simp
  note e = addSpan_effect[OF st1(1) this]
  have i: "growsSpans st1 st' \<and> (\<forall>(a, b)\<in>set xs. (\<exists>(s, e)\<in>set prot. s \<le> a \<and> b \<le> e) \<or> covered (co_spans st') a b)"
    using Cons.IH[OF st1(2)] Cons.prems(2) by simp
  have "covered (co_spans st') a b" if "covered (co_spans st1) a b"
    using that i by (auto simp: covered_def growsSpans_def)
  then show ?case using e i x growsSpans_trans by auto
qed simp

theorem engineText_masks:
  assumes re: "rangedMatches re" and ne: "[] \<notin> set (en_literals en)"
    and ok: "engineText re en input rep k = Inr (out, rep')"
  shows "(\<exists>rule\<in>set (en_rules en). ru_field rule \<noteq> None \<and> out = ru_marker rule \<and> rep_matches rep' = rep_matches rep + 1) \<or>
    (\<exists>ss. separated 0 ss \<and> out = maskedText input 0 ss \<and> rep_matches rep' = rep_matches rep + int (length ss) \<and>
       (\<forall>v\<in>set (en_literals en). \<forall>a b. occursAt v input a b \<longrightarrow> insideMarker (en_markers en) input a b \<or> covered ss a b))"
proof -
  obtain prot r where p: "protectedSpans (en_markers en) input = Inr prot"
    "applyRules re (en_markers en) input k prot 0 (en_rules en) \<lparr>co_seen = 0, co_spans = []\<rparr> = Inr r"
    using ok by (auto simp: engineText_def success_simps split: if_split_asm)
  show ?thesis
  proof (cases r)
    case (Inl rule)
    then have "rule \<in> set (en_rules en) \<and> ru_field rule \<noteq> None" using applyRules_grows[OF re p(2)] by simp
    moreover have "out = ru_marker rule \<and> rep_matches rep' = rep_matches rep + 1"
      using ok p Inl by (auto simp: engineText_def success_simps split: if_split_asm dest!: recordMatch_count)
    ultimately show ?thesis by blast
  next
    case (Inr st)
    have g: "growsSpans \<lparr>co_seen = 0, co_spans = []\<rparr> st" using applyRules_grows[OF re p(2)] Inr by simp
    obtain st' where st': "foldE (addSpan prot literalRule (length (en_rules en))) st (literalMatches (en_literals en) input) = Inr st'"
      and render: "renderSpans input 0 (mergeSpans [] (orderSpans (co_spans st'))) rep = Inr (out, rep')"
      using ok p Inr by (auto simp: engineText_def success_simps split: if_split_asm)
    have lm: "(a, b) \<in> set (literalMatches (en_literals en) input) \<longleftrightarrow> (\<exists>v\<in>set (en_literals en). occursAt v input a b)" for a b
      by (rule literalMatches_iff[OF ne])
    have "a < b" if ab: "(a, b) \<in> set (literalMatches (en_literals en) input)" for a b
    proof -
      obtain v where "v \<in> set (en_literals en)" "occursAt v input a b"
        using lm[of a b, THEN iffD1, OF ab] by metis
      moreover have "v \<noteq> []" using calculation ne by metis
      ultimately show ?thesis by (auto simp only: occursAt_def length_greater_0_conv[symmetric])
    qed
    note add = addLiterals_covered[OF st' this]
    have pos: "\<forall>s\<in>set (co_spans st'). sp_start s < sp_end s" using g add by (auto simp: growsSpans_def)
    let ?ss = "mergeSpans [] (orderSpans (co_spans st'))"
    have "insideMarker (en_markers en) input a b \<or> covered ?ss a b" if "v \<in> set (en_literals en)" "occursAt v input a b" for v a b
    proof -
      have "(a, b) \<in> set (literalMatches (en_literals en) input)" by (rule lm[of a b, THEN iffD2]) (use that in metis)
      then have "(\<exists>(s, e)\<in>set prot. s \<le> a \<and> b \<le> e) \<or> covered (co_spans st') a b" using add by auto
      then show ?thesis
      proof
        assume "\<exists>(s, e)\<in>set prot. s \<le> a \<and> b \<le> e"
        then obtain s e where "(s, e) \<in> set prot" "s \<le> a" "b \<le> e" by blast
        then show ?thesis using protectedSpans_marker[OF p(1)] by blast
      qed (use mergeSpans_ordered(2)[OF pos] in blast)
    qed
    moreover have "separated 0 ?ss" by (rule mergeSpans_ordered(1)[OF pos])
    ultimately show ?thesis using renderSpans_text[OF render] by blast
  qed
qed

end
