(* ===== verification/RedactionProperties.thy ===== *)
theory RedactionProperties
  imports Redaction RedactionMasking
begin

text \<open>Properties of redaction: the interface every text engine of the program provides, the
  traversal proved over it once, and the theorems about the engine and about canonical
  observations.\<close>

section \<open>Programs of the traversal\<close>

lemma bindV_Inr [success_simps]:
  "bindV m k s = (Inr y, s') \<longleftrightarrow> (\<exists>x t. m s = (Inr x, t) \<and> k x t = (Inr y, s'))"
  by (auto simp: bindV_def split: prod.splits sum.splits)

lemma returnV_Inr [success_simps]: "returnV x s = (Inr y, s') \<longleftrightarrow> y = x \<and> s' = s"
  by (auto simp: returnV_def)

lemma throwV_not_Inr [simp]: "throwV e s \<noteq> (Inr y, s')"
  by (simp add: throwV_def)

lemma mapV_Inr: "mapV f xs s = (Inr ys, s') \<Longrightarrow> list_all2 (\<lambda>x y. \<exists>t t'. f x t = (Inr y, t')) xs ys"
  by (induction xs arbitrary: s ys) (auto simp: success_simps)

lemma optionV_Inr: "optionV f v s = (Inr w, s') \<Longrightarrow> rel_option (\<lambda>x y. \<exists>t t'. f x t = (Inr y, t')) v w"
  by (cases v) (force simp: optionV_def success_simps)+

text \<open>A state within the limits, and programs that keep it there unless they fail on a limit.\<close>

definition withinLimits :: "visit \<Rightarrow> bool" where
  "withinLimits s \<longleftrightarrow> vs_nodes s \<le> 100000 \<and> vs_bytes s \<le> ContentBytes \<and> rep_matches (vs_report s) \<le> 10000"

definition bounded :: "'a visiting \<Rightarrow> bool" where
  "bounded m \<longleftrightarrow> (\<forall>s r s'. m s = (r, s') \<longrightarrow> withinLimits s \<longrightarrow> r \<noteq> Inl (Unsafe UnsafeLimit) \<longrightarrow>
     withinLimits s' \<and> rep_matches (vs_report s) \<le> rep_matches (vs_report s'))"

named_theorems bounded_intros \<open>programs of the traversal that stay within the limits\<close>

lemma boundedD:
  "bounded m \<Longrightarrow> m s = (r, s') \<Longrightarrow> withinLimits s \<Longrightarrow> r \<noteq> Inl (Unsafe UnsafeLimit) \<Longrightarrow>
     withinLimits s' \<and> rep_matches (vs_report s) \<le> rep_matches (vs_report s')"
  unfolding bounded_def by blast

lemma bounded_returnV [bounded_intros]: "bounded (returnV x)"
  by (auto simp: bounded_def returnV_def)

lemma bounded_throwV [bounded_intros]: "bounded (throwV e)"
  by (auto simp: bounded_def throwV_def)

lemma bounded_unsafeV [bounded_intros]: "bounded (unsafeV r)"
  by (auto simp: bounded_def unsafeV_def liftV_def)

lemma bounded_bindV [bounded_intros]:
  assumes m: "bounded m" and k: "\<And>x. bounded (k x)"
  shows "bounded (bindV m k)"
  unfolding bounded_def
proof (intro allI impI)
  fix s r s' assume e: "bindV m k s = (r, s')" and w: "withinLimits s" and n: "r \<noteq> Inl (Unsafe UnsafeLimit)"
  obtain q t where q: "m s = (q, t)" by fastforce
  show "withinLimits s' \<and> rep_matches (vs_report s) \<le> rep_matches (vs_report s')"
  proof (cases q)
    case (Inl x)
    then show ?thesis using e q boundedD[OF m q w] n by (auto simp: bindV_def)
  next
    case (Inr x)
    then have "k x t = (r, s')" using e q by (simp add: bindV_def)
    moreover have "withinLimits t \<and> rep_matches (vs_report s) \<le> rep_matches (vs_report t)"
      using boundedD[OF m q w] Inr by simp
    ultimately show ?thesis using boundedD[OF k, of x t r s'] n by simp
  qed
qed

lemma bounded_mapV [bounded_intros]: "(\<And>x. bounded (f x)) \<Longrightarrow> bounded (mapV f xs)"
  by (induction xs) (auto intro!: bounded_intros)

lemma bounded_foldV [bounded_intros]: "(\<And>a x. bounded (f a x)) \<Longrightarrow> bounded (foldV f a xs)"
  by (induction xs arbitrary: a) (auto intro!: bounded_intros)

lemma bounded_optionV [bounded_intros]: "(\<And>x. bounded (f x)) \<Longrightarrow> bounded (optionV f v)"
  by (cases v) (auto simp: optionV_def intro!: bounded_intros)

lemma bounded_chargeNode [bounded_intros]: "bounded chargeNode"
  by (auto simp: bounded_def chargeNode_def withinLimits_def split: if_split_asm)

lemma bounded_charge [bounded_intros]: "bounded (charge t)"
  by (auto simp: bounded_def charge_def withinLimits_def split: if_split_asm)

lemma bounded_checkTokens [bounded_intros]: "bounded node \<Longrightarrow> bounded (checkTokens node depth stack ts)"
proof (induction ts arbitrary: stack)
  case (Cons t ts)
  show ?case
    using Cons by (cases stack) (auto intro!: bounded_intros split: option.split)
qed (simp add: bounded_returnV)

lemma bounded_parseV [bounded_intros]: "bounded (parseV t depth)"
  by (auto simp: parseV_def checkJson_def intro!: bounded_intros split: option.split)

section \<open>Text engines\<close>

text \<open>What the traversal relies on: matches are only added, and never beyond the limit.\<close>

locale text_masking =
  fixes eng :: text_engine
  assumes counts: "eng t rep k = Inr (out, rep') \<Longrightarrow> rep_matches rep \<le> rep_matches rep'"
    and limited: "eng t rep k = Inr (out, rep') \<Longrightarrow> rep_matches rep \<le> 10000 \<Longrightarrow> rep_matches rep' \<le> 10000"
begin

lemma bounded_maskWith [bounded_intros]: "bounded (maskWith eng t k)"
  using counts limited by (fastforce simp: bounded_def maskWith_def withinLimits_def split: sum.split_asm prod.split_asm)

lemma bounded_walk [bounded_intros]: "bounded (walk eng n v k)"
proof (induction n arbitrary: v k)
  case (Suc n)
  then show ?case
    by (auto intro!: bounded_intros Suc split: json.split option.split prod.split simp: checkJson_def)
qed (auto intro!: bounded_intros)

lemma bounded_textV [bounded_intros]: "bounded (textV eng t)"
  by (auto simp: textV_def walkValue_def intro!: bounded_intros split: prod.split)

lemma bounded_walkMetadata [bounded_intros]: "bounded (walkMetadata eng m)"
  unfolding bounded_def
proof (intro allI impI)
  fix s r s' assume e: "walkMetadata eng m s = (r, s')" and w: "withinLimits s" and n: "r \<noteq> Inl (Unsafe UnsafeLimit)"
  obtain q t where q: "walkValue eng (metadataJson m) s = (q, t)" by fastforce
  have "q \<noteq> Inl (Unsafe UnsafeLimit) \<and> s' = t"
    using e q n by (auto simp: walkMetadata_def split: sum.split_asm thrown.split_asm unsafe.split_asm prod.split_asm)
  then show "withinLimits s' \<and> rep_matches (vs_report s) \<le> rep_matches (vs_report s')"
    using boundedD[OF bounded_walk q[unfolded walkValue_def] w] by simp
qed

lemma bounded_contentV [bounded_intros]: "bounded (contentV eng c)"
  by (cases c) (auto simp: contentV_def intro!: bounded_intros split: option.split acp_resource.split)

lemma bounded_updateV [bounded_intros]: "bounded (updateV eng u)"
  by (cases u)
    (auto simp: updateV_def redactTool_def walkOriginal_def walkValue_def maskedTitle_def titleV_def boundedUpdate_def Let_def
      intro!: bounded_intros split: option.split prod.split)

lemma bounded_refV [bounded_intros]: "bounded (refV eng r)"
  by (cases r) (auto simp: refV_def intro!: bounded_intros)

lemma bounded_eventV [bounded_intros]: "bounded (eventV eng e)"
  unfolding bounded_def
proof (intro allI impI)
  fix s r s' assume a: "eventV eng e s = (r, s')" and w: "withinLimits s" and n: "r \<noteq> Inl (Unsafe UnsafeLimit)"
  let ?m = "bindV (updateV eng (ev_update e)) (\<lambda>u. bindV (refV eng (ev_rawRef e)) (\<lambda>r. returnV ()))"
  obtain q t where q: "?m s = (q, t)" by fastforce
  have "t = s' \<and> (q = Inl (Unsafe UnsafeLimit) \<longrightarrow> r = Inl (Unsafe UnsafeLimit))"
    using a q by (auto simp: eventV_def bindV_def returnV_def split: sum.split_asm prod.split_asm)
  moreover have m: "bounded ?m" by (intro bounded_intros)
  ultimately show "withinLimits s' \<and> rep_matches (vs_report s) \<le> rep_matches (vs_report s')"
    using boundedD[OF m q w] n by blast
qed

lemma bounded_segmentContentV [bounded_intros]: "bounded (segmentContentV eng mt c)"
  unfolding bounded_def
proof (intro allI impI)
  fix s r s' assume e: "segmentContentV eng mt c s = (r, s')" and w: "withinLimits s" and n: "r \<noteq> Inl (Unsafe UnsafeLimit)"
  obtain q t where q: "parseV c 0 s = (q, t)" by fastforce
  let ?lines = "bindV (mapV (\<lambda>line. if js_trim line = [] then returnV line
      else bindV (parseV line 0) (\<lambda>v. bindV (walkValue eng v) (\<lambda>(w, _). returnV (stringify w))))
    (splitLines c)) (\<lambda>ls. returnV (joinLines ls))"
  have lines: "bounded ?lines" by (auto simp: walkValue_def intro!: bounded_intros split: prod.split)
  have one: "bounded (bindV (walkValue eng v) (\<lambda>(w, changed). returnV (if changed then changedJson c w else c)))" for v
    by (auto simp: walkValue_def intro!: bounded_intros split: prod.split)
  note p = boundedD[OF bounded_parseV q w]
  show "withinLimits s' \<and> rep_matches (vs_report s) \<le> rep_matches (vs_report s')"
  proof (cases "jsonMediaType mt")
    case False
    then show ?thesis using e boundedD[OF bounded_textV _ w n] by (simp add: segmentContentV_def)
  next
    case True
    then consider u where "q = Inl (Unsafe u)" "(r, s') = (Inl (Unsafe u), t)"
      | "q = Inl SyntaxError" "?lines t = (r, s')"
      | v where "q = Inr v" "bindV (walkValue eng v) (\<lambda>(w, changed). returnV (if changed then changedJson c w else c)) t = (r, s')"
      using e q by (auto simp: segmentContentV_def split: sum.split_asm thrown.split_asm)
    then show ?thesis
    proof cases
      case 1
      then show ?thesis using p n by auto
    next
      case 2
      then show ?thesis using p boundedD[OF lines 2(2) _ n] by auto
    next
      case 3
      then show ?thesis using p boundedD[OF one 3(2) _ n] by auto
    qed
  qed
qed

lemma bounded_canonicalV: "bounded (canonicalV eng v)"
  unfolding canonicalV_def sessionV_def threadV_def segmentV_def by (intro bounded_intros)

lemma canonical_within:
  assumes "prepareCanonical eng v = Inr (v', rep)"
  shows "rep_matches rep \<le> 10000"
proof -
  obtain s where s: "canonicalV eng v freshVisit = (Inr v', s)" "rep = vs_report s"
    using assms by (auto simp: prepareCanonical_def prepared_def split: prod.split_asm sum.split_asm)
  have "withinLimits freshVisit" by (simp add: withinLimits_def freshVisit_def emptyReport_def ContentBytes_def)
  then show ?thesis using boundedD[OF bounded_canonicalV s(1)] s(2) by (simp add: withinLimits_def)
qed

end

lemma recordMatch_limited: "recordMatch rep r = Inr rep' \<Longrightarrow> rep_matches rep' \<le> 10000"
  by (auto simp: recordMatch_def split: if_split_asm)

lemma renderSpans_limited:
  "renderSpans input pos ss rep = Inr (out, rep') \<Longrightarrow> rep_matches rep \<le> 10000 \<Longrightarrow> rep_matches rep' \<le> 10000"
  by (induction ss arbitrary: pos rep out) (auto simp: success_simps dest: recordMatch_limited)

lemma engineText_report:
  assumes "engineText re en t rep k = Inr (out, rep')"
  shows "(\<exists>r. recordMatch rep r = Inr rep') \<or> (\<exists>ss. renderSpans t 0 ss rep = Inr (out, rep'))"
proof -
  obtain prot r where p: "protectedSpans (en_markers en) t = Inr prot"
    "applyRules re (en_markers en) t k prot 0 (en_rules en) \<lparr>co_seen = 0, co_spans = []\<rparr> = Inr r"
    using assms by (auto simp: engineText_def success_simps split: if_split_asm)
  then show ?thesis
    using assms by (cases r) (auto simp: engineText_def success_simps split: if_split_asm)
qed

interpretation compiled: text_masking "engineText re en"
proof
  fix t rep k out rep'
  assume e: "engineText re en t rep k = Inr (out, rep')"
  show "rep_matches rep \<le> rep_matches rep'"
    using engineText_report[OF e] by (auto dest!: recordMatch_count renderSpans_text)
  show "rep_matches rep \<le> 10000 \<Longrightarrow> rep_matches rep' \<le> 10000"
    using engineText_report[OF e] by (auto dest: recordMatch_limited renderSpans_limited)
qed

interpretation compatible: text_masking "compatibleEngine r"
  by unfold_locales (auto simp: compatibleEngine_def Let_def split: prod.split_asm if_split_asm)

section \<open>What redaction may change\<close>

text \<open>Redaction rewrites texts only: identities, order, revisions, clocks and counters stay.\<close>

definition sameUpdate :: "acp_update \<Rightarrow> acp_update \<Rightarrow> bool" where
  "sameUpdate a b = (case (a, b) of
       (UserMessageChunk _ m, UserMessageChunk _ n) \<Rightarrow> m = n
     | (AgentMessageChunk _ m, AgentMessageChunk _ n) \<Rightarrow> m = n
     | (AgentThoughtChunk _ m, AgentThoughtChunk _ n) \<Rightarrow> m = n
     | (ToolCall t, ToolCall u) \<Rightarrow> tc_toolCallId t = tc_toolCallId u \<and> tc_kind t = tc_kind u \<and> tc_status t = tc_status u
     | (ToolCallUpdate t, ToolCallUpdate u) \<Rightarrow> tu_toolCallId t = tu_toolCallId u \<and> tu_kind t = tu_kind u \<and> tu_status t = tu_status u
     | _ \<Rightarrow> False)"

definition sameEvent :: "adapter_event \<Rightarrow> adapter_event \<Rightarrow> bool" where
  "sameEvent a b \<longleftrightarrow> ev_sourceEventId a = ev_sourceEventId b \<and> ev_sourceThreadId a = ev_sourceThreadId b \<and>
     ev_revision a = ev_revision b \<and> ev_projectionRevision a = ev_projectionRevision b \<and> ev_sourceOrder a = ev_sourceOrder b \<and>
     ev_eventIndex a = ev_eventIndex b \<and> ev_occurredAt a = ev_occurredAt b \<and>
     ev_childSourceThreadId a = ev_childSourceThreadId b \<and> sameUpdate (ev_update a) (ev_update b) \<and>
     (ev_fidelity b = ev_fidelity a \<or> ev_fidelity b = FidelityRedacted)"

definition sameThread :: "adapter_thread \<Rightarrow> adapter_thread \<Rightarrow> bool" where
  "sameThread a b \<longleftrightarrow> at_sourceThreadId a = at_sourceThreadId b \<and> at_parent a = at_parent b \<and>
     at_revision a = at_revision b \<and> at_captureStatus a = at_captureStatus b"

definition sameSegment :: "raw_segment \<Rightarrow> raw_segment \<Rightarrow> bool" where
  "sameSegment a b \<longleftrightarrow> sg_sourceObjectId a = sg_sourceObjectId b \<and> sg_sourceGeneration a = sg_sourceGeneration b \<and>
     sg_sourceOffset a = sg_sourceOffset b \<and> sg_mediaType a = sg_mediaType b \<and> sg_final a = sg_final b"

definition sameUsage :: "adapter_usage \<Rightarrow> adapter_usage \<Rightarrow> bool" where
  "sameUsage a b \<longleftrightarrow> b = a\<lparr>us_model := us_model b\<rparr>"

definition sameTopology :: "adapter_observation \<Rightarrow> adapter_observation \<Rightarrow> bool" where
  "sameTopology a b \<longleftrightarrow> ob_observationId a = ob_observationId b \<and> ob_observedAt a = ob_observedAt b \<and>
     as_sourceSessionId (ob_session a) = as_sourceSessionId (ob_session b) \<and> as_revision (ob_session a) = as_revision (ob_session b) \<and>
     as_status (ob_session a) = as_status (ob_session b) \<and> as_captureStatus (ob_session a) = as_captureStatus (ob_session b) \<and>
     as_updatedAt (ob_session a) = as_updatedAt (ob_session b) \<and>
     as_reportedEventCount (ob_session a) = as_reportedEventCount (ob_session b) \<and>
     list_all2 sameThread (ob_threads a) (ob_threads b) \<and> list_all2 sameEvent (ob_events a) (ob_events b) \<and>
     rel_option (list_all2 sameUsage) (ob_usage a) (ob_usage b) \<and> list_all2 sameSegment (ob_rawSegments a) (ob_rawSegments b)"

lemma updateV_same: "updateV eng u s = (Inr u', s') \<Longrightarrow> sameUpdate u u'"
  by (cases u) (auto simp: updateV_def sameUpdate_def success_simps boundedUpdate_def split: prod.split_asm if_split_asm)

lemma eventV_same: "eventV eng e s = (Inr e', s') \<Longrightarrow> sameEvent e e'"
  by (auto simp: eventV_def sameEvent_def success_simps dest!: updateV_same)

lemma threadV_same: "threadV eng e s = (Inr e', s') \<Longrightarrow> sameThread e e'"
  by (auto simp: threadV_def sameThread_def success_simps)

lemma segmentV_same: "segmentV eng e s = (Inr e', s') \<Longrightarrow> sameSegment e e'"
  by (auto simp: segmentV_def sameSegment_def success_simps)

lemma list_all2_weaken: "list_all2 P xs ys \<Longrightarrow> (\<And>x y. P x y \<Longrightarrow> Q x y) \<Longrightarrow> list_all2 Q xs ys"
  by (rule list_all2_mono)

lemma canonicalV_topology:
  assumes "canonicalV eng v s = (Inr v', s')"
  shows "sameTopology v v'"
proof -
  obtain x ts es us gs s1 s2 s3 s4 where ops:
    "sessionV eng (ob_session v) s = (Inr x, s1)" "mapV (threadV eng) (ob_threads v) s1 = (Inr ts, s2)"
    "mapV (eventV eng) (ob_events v) s2 = (Inr es, s3)"
    "optionV (mapV (\<lambda>u. bindV (textV eng (us_model u)) (\<lambda>m. returnV (u\<lparr>us_model := m\<rparr>)))) (ob_usage v) s3 = (Inr us, s4)"
    "mapV (segmentV eng) (ob_rawSegments v) s4 = (Inr gs, s')"
    "v' = v\<lparr>ob_session := x, ob_threads := ts, ob_events := es, ob_usage := us, ob_rawSegments := gs\<rparr>"
    using assms by (auto simp: canonicalV_def success_simps)
  have "list_all2 sameThread (ob_threads v) ts" by (rule list_all2_weaken[OF mapV_Inr[OF ops(2)]]) (auto dest: threadV_same)
  moreover have "list_all2 sameEvent (ob_events v) es" by (rule list_all2_weaken[OF mapV_Inr[OF ops(3)]]) (auto dest: eventV_same)
  moreover have "list_all2 sameSegment (ob_rawSegments v) gs" by (rule list_all2_weaken[OF mapV_Inr[OF ops(5)]]) (auto dest: segmentV_same)
  moreover have "rel_option (list_all2 sameUsage) (ob_usage v) us"
  proof (rule option.rel_mono_strong[OF optionV_Inr[OF ops(4)]])
    fix a b :: "adapter_usage list" assume "\<exists>t t'. mapV (\<lambda>u. bindV (textV eng (us_model u)) (\<lambda>m. returnV (u\<lparr>us_model := m\<rparr>))) a t = (Inr b, t')"
    then show "list_all2 sameUsage a b"
      by (auto dest!: mapV_Inr elim!: list_all2_weaken simp: success_simps sameUsage_def)
  qed
  moreover have "as_sourceSessionId (ob_session v) = as_sourceSessionId x \<and> as_revision (ob_session v) = as_revision x \<and>
     as_status (ob_session v) = as_status x \<and> as_captureStatus (ob_session v) = as_captureStatus x \<and>
     as_updatedAt (ob_session v) = as_updatedAt x \<and> as_reportedEventCount (ob_session v) = as_reportedEventCount x"
    using ops(1) by (auto simp: sessionV_def success_simps)
  ultimately show ?thesis by (simp add: sameTopology_def ops(6))
qed

section \<open>Properties\<close>

definition demoRegex :: re2 where
  "demoRegex = \<lparr>re_compiles = (\<lambda>_. True), re_groupCount = (\<lambda>_. 3), re_matches = (\<lambda>_ _. [])\<rparr>"

definition demoEngine :: engine where
  "demoEngine = \<lparr>en_rules = [], en_markers = [''[REDACTED]''], en_literals = [''abcd'', ''cdx'']\<rparr>"

text \<open>C17: The Aho-Corasick scan reports exactly the occurrences of the secret values: a position
  pair is reported if and only if one of the values stands there.\<close>
theorem literal_scan_exact:
  assumes "[] \<notin> set vs"
  shows "(a, b) \<in> set (literalMatches vs t) \<longleftrightarrow> (\<exists>v\<in>set vs. occursAt v t a b)"
  by (rule literalMatches_iff[OF assms])

lemma literal_scan_exact_witness:
  "(2, 5) \<in> set (literalMatches [''abcd'', ''cdx''] ''abcdx'') \<longleftrightarrow> (\<exists>v\<in>set [''abcd'', ''cdx'']. occursAt v ''abcdx'' 2 5)"
  by (rule literal_scan_exact) simp


lemma demoEngine_masks:
  "engineText demoRegex demoEngine ''see abcdx.'' emptyReport None =
     Inr (''see [REDACTED].'', \<lparr>rep_matches = 1, rep_rules = [(''exact'', ''exact_value'', 1)]\<rparr>)"
  by code_simp



text \<open>A redacted observation reports at most ten thousand replacements, whether a compiled policy or
  a plain text redactor did the masking: beyond that the redaction fails.\<close>
lemma redaction_bounded:
  assumes "rd_policy r = None \<or> rd_policy r = Some (engineText re en)" "prepareCanonicalRedaction r v = Inr (v', rep)"
  shows "rep_matches rep \<le> 10000"
  using assms compiled.canonical_within compatible.canonical_within
  by (auto simp: prepareCanonicalRedaction_def)

definition demoObservation :: adapter_observation where
  "demoObservation = \<lparr>ob_observationId = ''o1'', ob_observedAt = ''2024-05-01T10:00:00Z'',
     ob_session = \<lparr>as_sourceSessionId = ''s1'', as_revision = Whole 1, as_title = ''use abcd'', as_summary = [], as_insight = [],
       as_actor = \<lparr>ac_name = ''dev'', ac_harness = ''cli''\<rparr>, as_branch = ''main'', as_status = SessionActive,
       as_captureStatus = CaptureHealthy, as_updatedAt = Some ''2024-05-01T10:00:00Z'', as_reportedEventCount = Whole 1\<rparr>,
     ob_threads = [\<lparr>at_sourceThreadId = ''t1'', at_parent = None, at_revision = Whole 1, at_label = ''root'', at_summary = [],
       at_captureStatus = CaptureHealthy\<rparr>],
     ob_events = [\<lparr>ev_sourceEventId = ''e1'', ev_sourceThreadId = ''t1'', ev_revision = Whole 1, ev_projectionRevision = Whole 1,
       ev_sourceOrder = Whole 0, ev_eventIndex = Whole 0, ev_orderFidelity = OrderNative, ev_fidelity = FidelityNative,
       ev_rawRef = UnavailableRef ''none'', ev_occurredAt = Some ''2024-05-01T10:00:00Z'',
       ev_update = UserMessageChunk (TextContent ''run cdx'') None, ev_childSourceThreadId = None\<rparr>],
     ob_usage = None, ob_rawSegments = []\<rparr>"

definition demoRedactor :: redactor where
  "demoRedactor = \<lparr>rd_policyId = None, rd_policy = None,
     rd_redact = (\<lambda>t. if t = ''run cdx'' then (''run [REDACTED]'', 1) else (t, 0))\<rparr>"

text \<open>A text that does not open like JSON is charged once and masked by the engine.\<close>

lemma textV_plain:
  assumes "\<not> opensJson t" "vs_nodes s < 100000" "vs_bytes s + int (length t) \<le> ContentBytes"
    and "eng t (vs_report s) None = Inr (out, rep)"
  shows "textV eng t s = (Inr out, s\<lparr>vs_nodes := vs_nodes s + 1, vs_bytes := vs_bytes s + int (length t), vs_report := rep\<rparr>)"
proof -
  have "walk eng (Suc n) (JStr t) None s =
      (Inr (JStr out, out \<noteq> t), s\<lparr>vs_nodes := vs_nodes s + 1, vs_bytes := vs_bytes s + int (length t), vs_report := rep\<rparr>)" for n
    using assms by (simp add: bindV_def chargeNode_def charge_def maskWith_def returnV_def)
  from this[of 32] show ?thesis by (simp add: textV_def walkValue_def bindV_def returnV_def)
qed

lemma spaces_not_printable: "list_all (\<lambda>p. p \<noteq> [] \<and> (code (hd p) \<le> 32 \<or> 127 < code (hd p))) js_spaces"
  by code_simp

lemma drop_prefixes_printable: "32 < code c \<Longrightarrow> code c \<le> 127 \<Longrightarrow> drop_prefixes js_spaces (c # r) = c # r"
proof -
  assume c: "32 < code c" "code c \<le> 127"
  have "\<not> startsWith p (c # r)" if "p \<in> set js_spaces" for p
  proof -
    have "p \<noteq> []" "code (hd p) \<le> 32 \<or> 127 < code (hd p)"
      using spaces_not_printable that by (auto simp: list_all_iff)
    then show ?thesis using c by (cases p) (auto simp: startsWith_iff)
  qed
  then have "find (\<lambda>p. p \<noteq> [] \<and> startsWith p (c # r)) js_spaces = None" by (auto simp: find_None_iff)
  then show ?thesis by (simp add: drop_prefixes.simps[of js_spaces "c # r"])
qed

lemma opensJson_plain:
  "\<not> opensJson []"
  "32 < code c \<Longrightarrow> code c \<le> 127 \<Longrightarrow> c \<notin> {CHR ''['', CHR ''{'', CHR 0x22} \<Longrightarrow> \<not> opensJson (c # r)"
proof -
  have "find (\<lambda>p. p \<noteq> [] \<and> startsWith p []) js_spaces = None" by (auto simp: find_None_iff startsWith_iff)
  then show "\<not> opensJson []" by (simp add: opensJson_def drop_prefixes.simps[of js_spaces "[]"])
qed (simp add: opensJson_def drop_prefixes_printable)

lemma demoRedaction:
  "case prepareCanonicalRedaction demoRedactor demoObservation of
     Inl _ \<Rightarrow> False
   | Inr (v, rep) \<Rightarrow> map ev_fidelity (ob_events v) = [FidelityRedacted] \<and> rep_matches rep = 1"
  by (simp add: prepareCanonicalRedaction_def prepareCanonical_def prepared_def canonicalV_def demoObservation_def
      demoRedactor_def sessionV_def threadV_def eventV_def updateV_def contentV_def refV_def optionV_def bindV_def returnV_def
      textV_plain opensJson_plain code_def compatibleEngine_def freshVisit_def emptyReport_def ContentBytes_def)


lemma redaction_bounded_witness:
  "\<exists>v' rep. prepareCanonicalRedaction demoRedactor demoObservation = Inr (v', rep) \<and> rep_matches rep \<le> 10000"
  using demoRedaction redaction_bounded[of demoRedactor demoRegex demoEngine demoObservation]
  by (cases "prepareCanonicalRedaction demoRedactor demoObservation") (auto simp: demoRedactor_def)

end
