(* ===== verification/RedactionPolicy.thy ===== *)
theory RedactionPolicy
  imports RedactionProperties
begin

text \<open>The compiled redaction policy (packages/application/src/redaction.ts): admission of a
  configuration, normalisation of the exact values, and the policy identity, an HMAC of the
  effective configuration.  HMAC-SHA-256 of the Web Crypto API is a parameter.\<close>

datatype policy_reason = PolicyConfiguration | PolicyKey | PolicyEngine

text \<open>The UTF-16 code units of a text, for the order of Array.prototype.sort.\<close>

fun utf16Units :: "string \<Rightarrow> nat list" where
  "utf16Units [] = []"
| "utf16Units (a # r) =
     (if code a < 0x80 then code a # utf16Units r
      else case r of
        [] \<Rightarrow> [code a]
      | b # r1 \<Rightarrow>
         (if code a < 0xE0 then ((code a - 0xC0) * 64 + (code b - 0x80)) # utf16Units r1
          else case r1 of
            [] \<Rightarrow> [code a, code b]
          | c # r2 \<Rightarrow>
             (if code a < 0xF0 then (((code a - 0xE0) * 64 + (code b - 0x80)) * 64 + (code c - 0x80)) # utf16Units r2
              else case r2 of
                [] \<Rightarrow> [code a, code b, code c]
              | d # r3 \<Rightarrow>
                 (let n = ((((code a - 0xF0) * 64 + (code b - 0x80)) * 64 + (code c - 0x80)) * 64 + (code d - 0x80)) - 0x10000
                  in (0xD800 + n div 1024) # (0xDC00 + n mod 1024) # utf16Units r3))))"

definition patternKeys :: "string list" where
  "patternKeys = [''name'', ''type'', ''pattern'', ''field_pattern'', ''capture_group'']"

definition typeChar :: "char \<Rightarrow> bool" where
  "typeChar c \<longleftrightarrow> isDigit c \<or> (65 \<le> code c \<and> code c \<le> 90) \<or> (97 \<le> code c \<and> code c \<le> 122) \<or> c = CHR ''_'' \<or> c = CHR ''-''"

text \<open>An optional non-empty text of at most 2048 bytes.\<close>

definition patternText :: "string \<Rightarrow> json \<Rightarrow> string option option" where
  "patternText k j = (case field k j of
       None \<Rightarrow> Some None
     | Some (JStr s) \<Rightarrow> (if s = [] \<or> length s > 2048 then None else Some (Some s))
     | Some _ \<Rightarrow> None)"

definition captureGroup :: "json \<Rightarrow> bool \<Rightarrow> nat option option" where
  "captureGroup j hasPattern = (case field ''capture_group'' j of
       None \<Rightarrow> Some None
     | Some v \<Rightarrow> (case asInt v of
         Some g \<Rightarrow> (if safe_integer g \<and> 0 \<le> g \<and> g \<le> 100 \<and> hasPattern then Some (Some (nat g)) else None)
       | None \<Rightarrow> None))"

definition admitPattern :: "json \<Rightarrow> redaction_pattern option" where
  "admitPattern j =
     (if \<not> closedObject patternKeys j then None else
      Option.bind (required ''name'' asString j) (\<lambda>n.
      Option.bind (required ''type'' asString j) (\<lambda>t.
      if js_trim n = [] \<or> length n > 100 \<or> list_ex (\<lambda>c. code c < 32 \<or> code c = 127) n \<or>
         \<not> (1 \<le> length t \<and> length t \<le> 40 \<and> list_all typeChar t) then None else
      Option.bind (patternText ''pattern'' j) (\<lambda>p.
      Option.bind (patternText ''field_pattern'' j) (\<lambda>f.
      if p = None \<and> f = None then None else
      Option.bind (captureGroup j (p \<noteq> None)) (\<lambda>g. Some (pattern n t p f g)))))))"

definition patternBytes :: "redaction_pattern \<Rightarrow> nat" where
  "patternBytes p = (case rp_pattern p of Some v \<Rightarrow> length v | None \<Rightarrow> 0) + (case rp_fieldPattern p of Some v \<Rightarrow> length v | None \<Rightarrow> 0)"

definition countToken :: "unit visiting" where
  "countToken s = (if vs_nodes s + 1 > 10000 then (Inl (Unsafe UnsafeLimit), s) else (Inr (), s\<lparr>vs_nodes := vs_nodes s + 1\<rparr>))"

definition parseConfiguration :: "json \<Rightarrow> json option" where
  "parseConfiguration input = (case input of
       JStr s \<Rightarrow> (if int (length s) > 128 * 1024 then None
         else case checkJson countToken s 0 freshVisit of (Inl _, _) \<Rightarrow> None | (Inr _, _) \<Rightarrow> parseJs s)
     | _ \<Rightarrow> Some input)"

definition validateRedactionConfiguration :: "json \<Rightarrow> policy_reason + redaction_pattern list" where
  "validateRedactionConfiguration input = fromOption PolicyConfiguration
     (Option.bind (parseConfiguration input) (\<lambda>j.
      if \<not> closedObject [''patterns''] j then None
      else Option.bind (case field ''patterns'' j of None \<Rightarrow> Some [] | Some (JArr xs) \<Rightarrow> Some xs | Some _ \<Rightarrow> None) (\<lambda>xs.
      if length xs > 128 then None
      else Option.bind (decodeAll admitPattern xs) (\<lambda>ps.
      if int (sum_list (map patternBytes ps)) > 64 * 1024 then None else Some ps))))"

definition normalizedLiterals :: "string list \<Rightarrow> policy_reason + string list" where
  "normalizedLiterals vs =
     (if list_ex (\<lambda>v. utf16_length v < 8 \<or> utf16_length v > 4096) vs then Inl PolicyConfiguration
      else let normalized = sort_key utf16Units (remdups vs) in
      if int (length normalized) > 2048 \<or> int (sum_list (map length normalized)) > 1024 * 1024 then Inl PolicyConfiguration
      else Inr normalized)"

definition patternJson :: "redaction_pattern \<Rightarrow> json" where
  "patternJson p = obj [(''name'', Some (JStr (rp_name p))), (''type'', Some (JStr (rp_type p))),
     (''pattern'', map_option JStr (rp_pattern p)), (''field_pattern'', map_option JStr (rp_fieldPattern p)),
     (''capture_group'', map_option (\<lambda>g. JInt (int g)) (rp_captureGroup p))]"

definition policyMaterial :: "redaction_pattern list \<Rightarrow> string list \<Rightarrow> string" where
  "policyMaterial ps literals = stringify (JArr [JStr ''atape.redaction.v1'', JStr ''re2js@2.8.6'', JStr ''confab@8082a7a'',
     obj [(''patterns'', Some (arrayJson patternJson ps))], arrayJson JStr literals])"

definition hexByte :: "char \<Rightarrow> string" where
  "hexByte c = [hexChar (code c div 16), hexChar (code c mod 16)]"

record compiled_policy =
  cp_policyId :: string
  cp_engine :: engine

definition compileRedactionPolicy :: "re2 \<Rightarrow> (bytes \<Rightarrow> bytes \<Rightarrow> bytes) \<Rightarrow> json \<Rightarrow> string list \<Rightarrow> bytes \<Rightarrow> policy_reason + compiled_policy" where
  "compileRedactionPolicy re hmac configuration secretValues installationKey =
     bindE (validateRedactionConfiguration configuration) (\<lambda>ps.
     if length installationKey \<noteq> 32 then Inl PolicyKey
     else bindE (normalizedLiterals secretValues) (\<lambda>literals.
     case createEngine re ps literals of
       Inl _ \<Rightarrow> Inl PolicyEngine
     | Inr en \<Rightarrow> Inr \<lparr>cp_policyId = ''redaction_v1_'' @ concat (map hexByte (hmac installationKey (policyMaterial ps literals))),
         cp_engine = en\<rparr>))"

section \<open>Properties\<close>

lemma hexChar_inject: "a < 16 \<Longrightarrow> b < 16 \<Longrightarrow> hexChar a = hexChar b \<longleftrightarrow> a = b"
  by (metis hexVal_hexChar option.inject)

lemma hexByte_inject: "hexByte a = hexByte b \<longleftrightarrow> a = b"
proof
  assume "hexByte a = hexByte b"
  then have "code a div 16 = code b div 16" "code a mod 16 = code b mod 16"
    using hexChar_inject[of "code a div 16" "code b div 16"] hexChar_inject[of "code a mod 16" "code b mod 16"]
      code_less[of a] code_less[of b] by (auto simp: hexByte_def)
  then have "code a = code b" by (metis mult_div_mod_eq)
  then show "a = b" by simp
qed simp

lemma hexText_inject: "concat (map hexByte a) = concat (map hexByte b) \<longleftrightarrow> a = b"
proof (induction a arbitrary: b)
  case Nil
  then show ?case by (cases b) (simp_all add: hexByte_def)
next
  case (Cons x xs)
  show ?case
  proof (cases b)
    case Nil
    then show ?thesis by (simp add: hexByte_def)
  next
    case (Cons y ys)
    then have "concat (map hexByte (x # xs)) = concat (map hexByte b) \<longleftrightarrow>
        hexByte x = hexByte y \<and> concat (map hexByte xs) = concat (map hexByte ys)"
      by (simp add: hexByte_def)
    then show ?thesis using Cons.IH Cons by (simp add: hexByte_inject)
  qed
qed

definition decodePattern :: "redaction_pattern decoder" where
  "decodePattern j = Option.bind (required ''name'' asString j) (\<lambda>n.
     Option.bind (required ''type'' asString j) (\<lambda>t.
     Option.bind (optionalKey ''pattern'' asString j) (\<lambda>p.
     Option.bind (optionalKey ''field_pattern'' asString j) (\<lambda>f.
     Option.bind (optionalKey ''capture_group'' asInt j) (\<lambda>g. Some (pattern n t p f (map_option nat g)))))))"

definition plainPattern :: "redaction_pattern \<Rightarrow> bool" where
  "plainPattern p \<longleftrightarrow> rp_groups p = None \<and> rp_marker p = None"

interpretation pattern_codec: codec patternJson decodePattern plainPattern
proof
  fix p assume "plainPattern p"
  moreover have "map_option (\<lambda>g. JInt (int g)) x = map_option (\<lambda>i. JInt i) (map_option int x)" for x
    by (cases x) simp_all
  ultimately show "decodePattern (patternJson p) = Some p"
    by (cases "rp_captureGroup p") (simp_all add: patternJson_def decodePattern_def codec_simps plainPattern_def pattern_def)
qed

lemma admitPattern_plain: "admitPattern j = Some p \<Longrightarrow> plainPattern p"
  by (auto simp: admitPattern_def plainPattern_def pattern_def bind_eq_Some_conv split: if_split_asm)

lemma validated_plain:
  "validateRedactionConfiguration input = Inr ps \<Longrightarrow> list_all plainPattern ps"
  by (auto simp: validateRedactionConfiguration_def success_simps bind_eq_Some_conv list_all_iff split: if_split_asm
      dest!: decodeAll_all intro: admitPattern_plain)

lemma arrayJson_inject:
  "(\<And>x y. x \<in> set xs \<Longrightarrow> y \<in> set ys \<Longrightarrow> enc x = enc y \<longleftrightarrow> x = y) \<Longrightarrow> arrayJson enc xs = arrayJson enc ys \<longleftrightarrow> xs = ys"
proof -
  assume inj: "\<And>x y. x \<in> set xs \<Longrightarrow> y \<in> set ys \<Longrightarrow> enc x = enc y \<longleftrightarrow> x = y"
  have "map enc xs = map enc ys \<longleftrightarrow> xs = ys"
  proof
    assume "map enc xs = map enc ys"
    then show "xs = ys" using inj by (auto simp: list_eq_iff_nth_eq)
  qed simp
  then show ?thesis by (simp add: arrayJson_def)
qed

lemma policyMaterial_inject:
  assumes "list_all plainPattern ps" "list_all plainPattern qs"
  shows "policyMaterial ps a = policyMaterial qs b \<longleftrightarrow> ps = qs \<and> a = b"
proof -
  have "arrayJson patternJson ps = arrayJson patternJson qs \<longleftrightarrow> ps = qs"
    by (rule arrayJson_inject) (use assms pattern_codec.encode_inject in \<open>auto simp: list_all_iff\<close>)
  moreover have "arrayJson JStr a = arrayJson JStr b \<longleftrightarrow> a = b" by (rule arrayJson_inject) simp
  ultimately show ?thesis unfolding policyMaterial_def stringify_inject by (simp add: obj_def List.map_filter_simps)
qed

lemma compiled_parts:
  assumes "compileRedactionPolicy re hmac c v key = Inr p"
  shows "\<exists>ps l en. validateRedactionConfiguration c = Inr ps \<and> createEngine re ps l = Inr en \<and>
    p = \<lparr>cp_policyId = ''redaction_v1_'' @ concat (map hexByte (hmac key (policyMaterial ps l))), cp_engine = en\<rparr>"
proof -
  obtain ps l where "validateRedactionConfiguration c = Inr ps" "normalizedLiterals v = Inr l" "length key = 32"
    using assms by (auto simp: compileRedactionPolicy_def success_simps)
  with assms show ?thesis by (cases "createEngine re ps l") (auto simp: compileRedactionPolicy_def)
qed

text \<open>A policy identity stands for one engine: two policies compiled under the same installation key
  (whose HMAC is injective on the effective configurations) with the same identity mask alike, because
  their admitted patterns and normalised values are equal.\<close>
lemma policy_id_determines_engine:
  assumes "inj (hmac key)"
    and "compileRedactionPolicy re hmac c1 v1 key = Inr p1" "compileRedactionPolicy re hmac c2 v2 key = Inr p2"
    and "cp_policyId p1 = cp_policyId p2"
  shows "p1 = p2"
proof -
  obtain ps1 l1 en1 where a: "validateRedactionConfiguration c1 = Inr ps1" "createEngine re ps1 l1 = Inr en1"
    "p1 = \<lparr>cp_policyId = ''redaction_v1_'' @ concat (map hexByte (hmac key (policyMaterial ps1 l1))), cp_engine = en1\<rparr>"
    using compiled_parts[OF assms(2)] by blast
  obtain ps2 l2 en2 where b: "validateRedactionConfiguration c2 = Inr ps2" "createEngine re ps2 l2 = Inr en2"
    "p2 = \<lparr>cp_policyId = ''redaction_v1_'' @ concat (map hexByte (hmac key (policyMaterial ps2 l2))), cp_engine = en2\<rparr>"
    using compiled_parts[OF assms(3)] by blast
  have "hmac key (policyMaterial ps1 l1) = hmac key (policyMaterial ps2 l2)"
    using assms(4) by (simp add: a(3) b(3) hexText_inject)
  then have "policyMaterial ps1 l1 = policyMaterial ps2 l2" using assms(1) by (simp add: inj_eq)
  then have "ps1 = ps2 \<and> l1 = l2" using policyMaterial_inject[OF validated_plain[OF a(1)] validated_plain[OF b(1)]] by simp
  then show ?thesis using a b by simp
qed

definition demoConfiguration :: json where
  "demoConfiguration = JObj []"

lemma demoCompiles:
  "\<exists>p. compileRedactionPolicy demoRegex (\<lambda>_ m. m) demoConfiguration [''password1''] (replicate 32 (CHR ''k'')) = Inr p"
proof -
  have c: "\<exists>r. compileRule demoRegex p i b = Inr r" if "rp_captureGroup p \<in> {None, Some 0, Some 1, Some 2} \<and> rp_pattern p \<noteq> None \<or> rp_captureGroup p = None" for p i b
    using that by (auto simp: compileRule_def demoRegex_def split: option.split)
  have all: "\<exists>rs. mapE (\<lambda>(n, p). compileRule demoRegex p (f n) b) (enumerate k ps) = Inr rs"
    if "list_all (\<lambda>p. rp_captureGroup p \<in> {None, Some 0, Some 1, Some 2} \<and> rp_pattern p \<noteq> None \<or> rp_captureGroup p = None) ps"
    for f b k ps
    using that
  proof (induction ps arbitrary: k)
    case (Cons p ps)
    obtain r where "compileRule demoRegex p (f k) b = Inr r" using c[of p "f k" b] Cons.prems by auto
    moreover obtain rs where "mapE (\<lambda>(n, p). compileRule demoRegex p (f n) b) (enumerate (Suc k) ps) = Inr rs"
      using Cons.IH[of "Suc k"] Cons.prems by (simp only: list.pred_inject) blast
    ultimately show ?case by (intro exI[of _ "r # rs"]) simp
  qed simp
  have "\<exists>rs. compileAll demoRegex ''atape:'' True legacyPatterns = Inr rs" unfolding compileAll_def
    by (rule all) (simp add: legacyPatterns_def pattern_def)
  moreover have "\<exists>rs. compileAll demoRegex ''catalog:'' True catalog = Inr rs" unfolding compileAll_def
    by (rule all) (simp add: catalog_def pattern_def)
  moreover have "validateRedactionConfiguration demoConfiguration = Inr []" by code_simp
  moreover have "normalizedLiterals [''password1''] = Inr [''password1'']" by code_simp
  ultimately show ?thesis
    by (auto simp: compileRedactionPolicy_def createEngine_def compileAll_def Let_def)
qed

lemma policy_id_determines_engine_witness:
  "\<exists>p1 p2. compileRedactionPolicy demoRegex (\<lambda>_ m. m) demoConfiguration [''password1''] (replicate 32 (CHR ''k'')) = Inr p1 \<and>
     compileRedactionPolicy demoRegex (\<lambda>_ m. m) demoConfiguration [''password1''] (replicate 32 (CHR ''k'')) = Inr p2 \<and> p1 = p2"
proof -
  obtain p where p: "compileRedactionPolicy demoRegex (\<lambda>_ m. m) demoConfiguration [''password1''] (replicate 32 (CHR ''k'')) = Inr p"
    using demoCompiles by blast
  have "inj ((\<lambda>(_::bytes) (m::bytes). m) (replicate 32 (CHR ''k'')))" by (simp add: inj_def)
  from policy_id_determines_engine[OF this p p refl] p show ?thesis by blast
qed

end
