(* ===== verification/JsTime.thy ===== *)
theory JsTime
  imports Json
begin

text \<open>Date.parse of the JavaScript standard library on the ISO 8601 texts the program lets
  through: four-digit years, a day up to 31 in every month, hour 24 only at midnight, a
  fraction read to the millisecond, Z or a numeric offset.  Milliseconds since 1970.\<close>

definition digitsAt :: "nat \<Rightarrow> nat \<Rightarrow> string \<Rightarrow> nat option" where
  "digitsAt i n s = (let d = take n (drop i s) in
     if length d = n \<and> list_all isDigit d then Some (digitsVal d) else None)"

definition charAt :: "nat \<Rightarrow> char \<Rightarrow> string \<Rightarrow> bool" where
  "charAt i c s \<longleftrightarrow> take 1 (drop i s) = [c]"

record iso_time =
  it_year :: nat
  it_month :: nat
  it_day :: nat
  it_hour :: nat
  it_minute :: nat
  it_second :: nat
  it_fraction :: string
  it_negative :: bool
  it_offsetHour :: nat
  it_offsetMinute :: nat

text \<open>The optional fraction of one to nine digits after the seconds.\<close>

definition isoFraction :: "string \<Rightarrow> (string \<times> string) option" where
  "isoFraction s = (case s of
       c # r \<Rightarrow>
         (if c = CHR ''.'' then
            (let (d, q) = spanDigits r in if 1 \<le> length d \<and> length d \<le> 9 then Some (d, q) else None)
          else Some ([], s))
     | [] \<Rightarrow> Some ([], s))"

definition isoZone :: "string \<Rightarrow> (bool \<times> nat \<times> nat) option" where
  "isoZone s =
     (if s = ''Z'' then Some (False, 0, 0)
      else if length s = 6 \<and> (charAt 0 (CHR ''+'') s \<or> charAt 0 (CHR ''-'') s) \<and> charAt 3 (CHR '':'') s then
        Option.bind (digitsAt 1 2 s) (\<lambda>h. Option.bind (digitsAt 4 2 s) (\<lambda>m. Some (charAt 0 (CHR ''-'') s, h, m)))
      else None)"

definition isoParts :: "string \<Rightarrow> iso_time option" where
  "isoParts s =
     Option.bind (digitsAt 0 4 s) (\<lambda>y. Option.bind (digitsAt 5 2 s) (\<lambda>mo. Option.bind (digitsAt 8 2 s) (\<lambda>d.
     Option.bind (digitsAt 11 2 s) (\<lambda>h. Option.bind (digitsAt 14 2 s) (\<lambda>mi. Option.bind (digitsAt 17 2 s) (\<lambda>sec.
     if charAt 4 (CHR ''-'') s \<and> charAt 7 (CHR ''-'') s \<and> charAt 10 (CHR ''T'') s \<and> charAt 13 (CHR '':'') s \<and> charAt 16 (CHR '':'') s then
       Option.bind (isoFraction (drop 19 s)) (\<lambda>(f, r).
       Option.bind (isoZone r) (\<lambda>(neg, oh, om).
         Some \<lparr>it_year = y, it_month = mo, it_day = d, it_hour = h, it_minute = mi, it_second = sec, it_fraction = f,
           it_negative = neg, it_offsetHour = oh, it_offsetMinute = om\<rparr>))
     else None))))))"

text \<open>Days from 1970-01-01 of a proleptic Gregorian date.\<close>

definition daysFromCivil :: "int \<Rightarrow> int \<Rightarrow> int \<Rightarrow> int" where
  "daysFromCivil y m d =
     (let y' = (if m \<le> 2 then y - 1 else y);
          era = y' div 400;
          yoe = y' mod 400;
          doy = (153 * (m + (if m > 2 then -3 else 9)) + 2) div 5 + d - 1;
          doe = yoe * 365 + yoe div 4 - yoe div 100 + doy
      in era * 146097 + doe - 719468)"

definition fractionMillis :: "string \<Rightarrow> nat" where
  "fractionMillis f = digitsVal (take 3 (f @ ''000''))"

definition validIso :: "iso_time \<Rightarrow> bool" where
  "validIso t \<longleftrightarrow> 1 \<le> it_month t \<and> it_month t \<le> 12 \<and> 1 \<le> it_day t \<and> it_day t \<le> 31 \<and>
     (it_hour t \<le> 23 \<or> (it_hour t = 24 \<and> it_minute t = 0 \<and> it_second t = 0 \<and> fractionMillis (it_fraction t) = 0)) \<and>
     it_minute t \<le> 59 \<and> it_second t \<le> 59 \<and> it_offsetHour t \<le> 23 \<and> it_offsetMinute t \<le> 59"

definition isoMillis :: "iso_time \<Rightarrow> int" where
  "isoMillis t =
     (let off = (int (it_offsetHour t) * 60 + int (it_offsetMinute t)) * (if it_negative t then -1 else 1)
      in daysFromCivil (int (it_year t)) (int (it_month t)) (int (it_day t)) * 86400000 +
         ((int (it_hour t) * 60 + int (it_minute t) - off) * 60 + int (it_second t)) * 1000 + int (fractionMillis (it_fraction t)))"

definition parseMillis :: "string \<Rightarrow> int option" where
  "parseMillis s = Option.bind (isoParts s) (\<lambda>t. if validIso t then Some (isoMillis t) else None)"

section \<open>Printing\<close>

definition pad :: "nat \<Rightarrow> nat \<Rightarrow> string" where
  "pad width n = (let s = showNat n in replicate (width - length s) (CHR ''0'') @ s)"

text \<open>The civil date of a day number, and Date.prototype.toISOString for the years 0 to 9999.\<close>

definition civilFromDays :: "int \<Rightarrow> int \<times> int \<times> int" where
  "civilFromDays z =
     (let z' = z + 719468;
          era = z' div 146097;
          doe = z' mod 146097;
          yoe = (doe - doe div 1460 + doe div 36524 - doe div 146096) div 365;
          doy = doe - (365 * yoe + yoe div 4 - yoe div 100);
          mp = (5 * doy + 2) div 153;
          d = doy - (153 * mp + 2) div 5 + 1;
          m = (if mp < 10 then mp + 3 else mp - 9)
      in (yoe + era * 400 + (if m \<le> 2 then 1 else 0), m, d))"

definition showIso :: "int \<Rightarrow> string" where
  "showIso ms =
     (let (y, m, d) = civilFromDays (ms div 86400000); t = ms mod 86400000
      in pad 4 (nat y) @ ''-'' @ pad 2 (nat m) @ ''-'' @ pad 2 (nat d) @ ''T'' @ pad 2 (nat (t div 3600000)) @ '':'' @
         pad 2 (nat (t div 60000 mod 60)) @ '':'' @ pad 2 (nat (t div 1000 mod 60)) @ ''.'' @ pad 3 (nat (t mod 1000)) @ ''Z'')"

end
