(* ===== verification/CollectorPreparation.thy ===== *)
theory CollectorPreparation
  imports Redaction JsTime
begin

text \<open>The Host boundary of Adapter pages (packages/application/src/collectorPreparation.ts) and
  the admission of tool values (packages/domain/src/toolValues.ts): validation of a page in
  the order of the code, each refusal its own reason, and the preparation of slices and
  collected observations around redaction.\<close>

section \<open>Tool values\<close>

definition ToolValueBytes :: int where
  "ToolValueBytes = 64 * 1024"

text \<open>The visitor: the nodes counted so far, the depth, and whether everything was admitted.\<close>

fun visitTool :: "int \<Rightarrow> json \<Rightarrow> int \<Rightarrow> int \<times> bool"
  and visitItems :: "int \<Rightarrow> json list \<Rightarrow> int \<Rightarrow> int \<times> bool"
  and visitMembers :: "int \<Rightarrow> (string \<times> json) list \<Rightarrow> int \<Rightarrow> int \<times> bool" where
  "visitTool depth v nodes =
     (if nodes + 1 > 10000 \<or> depth > 32 then (nodes + 1, False)
      else case v of
        JArr xs \<Rightarrow> visitItems (depth + 1) xs (nodes + 1)
      | JObj ms \<Rightarrow> visitMembers (depth + 1) ms (nodes + 1)
      | _ \<Rightarrow> (nodes + 1, True))"
| "visitItems depth [] nodes = (nodes, True)"
| "visitItems depth (x # xs) nodes = (let (n, ok) = visitTool depth x nodes in if ok then visitItems depth xs n else (n, False))"
| "visitMembers depth [] nodes = (nodes, True)"
| "visitMembers depth ((k, x) # ms) nodes = (let (n, ok) = visitTool depth x nodes in if ok then visitMembers depth ms n else (n, False))"

definition isBoundedToolValue :: "json \<Rightarrow> bool" where
  "isBoundedToolValue v \<longleftrightarrow> snd (visitTool 0 v 0) \<and> int (length (stringify v)) \<le> ToolValueBytes"

section \<open>Bounds of fields\<close>

definition positiveInteger :: "number \<Rightarrow> bool" where
  "positiveInteger n \<longleftrightarrow> isSafeInteger n \<and> intValue n \<ge> 1"

definition nonNegativeInteger :: "number \<Rightarrow> bool" where
  "nonNegativeInteger n \<longleftrightarrow> isSafeInteger n \<and> intValue n \<ge> 0"

definition zeroTimestampMillis :: int where
  "zeroTimestampMillis = -62135596800000"

definition validTimestamp :: "string \<Rightarrow> bool" where
  "validTimestamp v = (case isoParts v of
       None \<Rightarrow> False
     | Some t \<Rightarrow> (case parseMillis v of
         None \<Rightarrow> False
       | Some ms \<Rightarrow> ms \<noteq> zeroTimestampMillis \<or> list_ex (\<lambda>c. c \<noteq> CHR ''0'') (take 6 (it_fraction t))))"

definition validSourceTimestamp :: "string option \<Rightarrow> canonical_profile \<Rightarrow> bool" where
  "validSourceTimestamp v profile = (case v of None \<Rightarrow> hasNullableSourceClocks profile | Some t \<Rightarrow> validTimestamp t)"

definition boundedIdentity :: "string \<Rightarrow> int \<Rightarrow> bool" where
  "boundedIdentity v n \<longleftrightarrow> js_trim v \<noteq> [] \<and> int (length v) \<le> n"

definition sizedText :: "string \<Rightarrow> int \<Rightarrow> bool \<Rightarrow> bool" where
  "sizedText v n allowEmpty \<longleftrightarrow> (allowEmpty \<or> js_trim v \<noteq> []) \<and> int (length v) \<le> n"

definition supportedRawMediaType :: "string \<Rightarrow> bool" where
  "supportedRawMediaType m \<longleftrightarrow> startsWith ''text/'' (lowerText m) \<or> jsonMediaType m"

section \<open>Threads\<close>

function climbs :: "(string \<times> string option) list \<Rightarrow> string list \<Rightarrow> string option \<Rightarrow> bool" where
  "climbs parents seen current = (case current of
       None \<Rightarrow> False
     | Some c \<Rightarrow> (if c \<in> set seen then True else climbs parents (c # seen) (Option.bind (map_of parents c) (\<lambda>p. p))))"
  by pat_completeness auto
termination
proof (relation "measure (\<lambda>(parents, seen, current). 2 * card (fst ` set parents - set seen) + (if current = None then 0 else 1))",
    goal_cases)
  case (2 parents seen current c)
  show ?case
  proof (cases "map_of parents c")
    case None
    have "card (fst ` set parents - set (c # seen)) \<le> card (fst ` set parents - set seen)" by (rule card_mono) auto
    then show ?thesis using 2 None by simp
  next
    case (Some p)
    then have "c \<in> fst ` set parents" by (metis map_of_eq_None_iff option.distinct(1))
    then have "fst ` set parents - set (c # seen) \<subset> fst ` set parents - set seen" using 2 by auto
    then have "card (fst ` set parents - set (c # seen)) < card (fst ` set parents - set seen)"
      by (intro psubset_card_mono) auto
    then show ?thesis using 2 by simp
  qed
qed simp

declare climbs.simps [simp del]

text \<open>A Map built from pairs keeps the last value of a key; the walk starts at every key.\<close>

definition parentPairs :: "adapter_thread list \<Rightarrow> (string \<times> string option) list" where
  "parentPairs ts = rev (map (\<lambda>t. (at_sourceThreadId t, at_parent t)) ts)"

definition hasThreadCycle :: "adapter_thread list \<Rightarrow> bool" where
  "hasThreadCycle ts = list_ex (\<lambda>t. climbs (parentPairs ts) [] (Some (at_sourceThreadId t))) ts"

section \<open>Updates\<close>

definition validContentBlock :: "acp_content \<Rightarrow> bool" where
  "validContentBlock c = (case c of
       TextContent t \<Rightarrow> sizedText t 1048576 False
     | ImageContent d m u \<Rightarrow> sizedText m 200 False \<and> (case u of Some (Some w) \<Rightarrow> sizedText w 2000 False | _ \<Rightarrow> True)
     | AudioContent d m \<Rightarrow> sizedText m 200 False
     | LinkContent l \<Rightarrow> sizedText (rl_name l) 500 False \<and> sizedText (rl_uri l) 2000 False
     | EmbeddedResource (TextResource u t m) \<Rightarrow> sizedText u 2000 False \<and> sizedText t 1048576 True
     | EmbeddedResource (BlobResource u b m) \<Rightarrow> sizedText u 2000 False)"

definition validToolValues :: "json option \<Rightarrow> json option \<Rightarrow> acp_update \<Rightarrow> bool" where
  "validToolValues i out u \<longleftrightarrow> pred_option isBoundedToolValue i \<and> pred_option isBoundedToolValue out \<and>
     int (length (stringify (updateJson u))) \<le> ToolUpdateBytes"

definition validMessage :: "acp_content \<Rightarrow> string option option \<Rightarrow> bool" where
  "validMessage c m \<longleftrightarrow> (case m of Some (Some i) \<Rightarrow> boundedIdentity i 500 | _ \<Rightarrow> True) \<and> validContentBlock c"

definition validAcpUpdate :: "acp_update \<Rightarrow> canonical_profile \<Rightarrow> bool" where
  "validAcpUpdate u profile = (case u of
       UserMessageChunk c m \<Rightarrow> validMessage c m
     | AgentMessageChunk c m \<Rightarrow> validMessage c m
     | AgentThoughtChunk c m \<Rightarrow> validMessage c m
     | ToolCall t \<Rightarrow> admitsToolMetadata profile u \<and> validToolValues (tc_rawInput t) (tc_rawOutput t) u \<and>
         boundedIdentity (tc_toolCallId t) 500 \<and> sizedText (tc_title t) 500 False
     | ToolCallUpdate t \<Rightarrow> admitsToolMetadata profile u \<and> validToolValues (tu_rawInput t) (tu_rawOutput t) u \<and>
         boundedIdentity (tu_toolCallId t) 500 \<and> (case tu_title t of Some (Some x) \<Rightarrow> sizedText x 500 True | _ \<Rightarrow> True))"

section \<open>Pages\<close>

datatype contract_error =
    InvalidProgress | InvalidDiagnostics | TooManyObservations | InvalidCursor | MustAdvance | MustCommit
  | InvalidObservationId | InvalidTimestamp | InvalidSession | CanonicalBytes | ThreadCount | EventLimits | RawBytes
  | ThreadTopology | UsageLimit | InvalidUsage | InvalidEvent | InvalidSegment
  | SliceShape | SliceRaw | UnsafeContent | RedactedValues | RawTopology | RawOverlap | RawReceipt
  | RawStart | RawMetadata | RawGeneration | RawFinalized | RawOffset

definition validSession :: "adapter_session \<Rightarrow> bool" where
  "validSession s \<longleftrightarrow> boundedIdentity (as_sourceSessionId s) 500 \<and> positiveInteger (as_revision s) \<and>
     nonNegativeInteger (as_reportedEventCount s) \<and> sizedText (ac_name (as_actor s)) 200 False \<and>
     sizedText (ac_harness (as_actor s)) 200 False \<and> sizedText (as_title s) 2000 True \<and> sizedText (as_summary s) 2000 True \<and>
     sizedText (as_insight s) 2000 True \<and> sizedText (as_branch s) 2000 True"

definition canonicalJson :: "adapter_observation \<Rightarrow> json" where
  "canonicalJson v = obj [(''session'', Some (sessionJson (ob_session v))), (''threads'', Some (arrayJson threadJson (ob_threads v))),
     (''events'', Some (arrayJson eventJson (ob_events v))), (''usage'', map_option (arrayJson usageJson) (ob_usage v))]"

definition validThread :: "string list \<Rightarrow> adapter_thread \<Rightarrow> bool" where
  "validThread ids t \<longleftrightarrow> boundedIdentity (at_sourceThreadId t) 500 \<and> positiveInteger (at_revision t) \<and>
     sizedText (at_label t) 200 True \<and> sizedText (at_summary t) 2000 True \<and>
     (case at_parent t of None \<Rightarrow> True | Some p \<Rightarrow> p \<noteq> at_sourceThreadId t \<and> p \<in> set ids)"

definition validTopology :: "adapter_thread list \<Rightarrow> bool" where
  "validTopology ts \<longleftrightarrow> (let ids = map at_sourceThreadId ts in
     distinct ids \<and> length (filter (\<lambda>t. at_parent t = None) ts) = 1 \<and> list_all (validThread ids) ts \<and> \<not> hasThreadCycle ts)"

definition usageKey :: "adapter_usage \<Rightarrow> string" where
  "usageKey u = us_sourceThreadId u @ CHR 0x00 # us_sourceUsageId u"

definition eventKey :: "adapter_event \<Rightarrow> string" where
  "eventKey e = ev_sourceThreadId e @ CHR 0x00 # ev_sourceEventId e"

definition counter :: "number option \<Rightarrow> int" where
  "counter n = (case n of None \<Rightarrow> 0 | Some v \<Rightarrow> intValue v)"

definition validUsage :: "string list \<Rightarrow> string list \<Rightarrow> adapter_usage \<Rightarrow> bool" where
  "validUsage ids seen u \<longleftrightarrow> (let counters = [us_inputTokens u, us_outputTokens u, us_cacheReadTokens u, us_cacheWriteTokens u] in
     boundedIdentity (us_sourceUsageId u) 500 \<and> usageKey u \<notin> set seen \<and> us_sourceThreadId u \<in> set ids \<and>
     positiveInteger (us_revision u) \<and> validTimestamp (us_occurredAt u) \<and> sizedText (us_model u) 200 True \<and>
     \<not> list_all (\<lambda>c. c = None) counters \<and> list_all (pred_option nonNegativeInteger) counters \<and>
     (us_inputTokens u \<noteq> None \<longrightarrow> counter (us_cacheReadTokens u) + counter (us_cacheWriteTokens u) \<le> counter (us_inputTokens u)))"

definition validRawRef :: "adapter_raw_ref \<Rightarrow> bool" where
  "validRawRef r = (case r of
       ObjectRef i f \<Rightarrow> boundedIdentity i 200 \<and> pred_option (\<lambda>x. sizedText x 1500 True) f
     | UnavailableRef w \<Rightarrow> sizedText w 1000 False)"

definition validEvent :: "canonical_profile \<Rightarrow> string list \<Rightarrow> string list \<Rightarrow> adapter_event \<Rightarrow> bool" where
  "validEvent profile ids seen e \<longleftrightarrow>
     boundedIdentity (ev_sourceEventId e) 500 \<and> eventKey e \<notin> set seen \<and> ev_sourceThreadId e \<in> set ids \<and>
     positiveInteger (ev_revision e) \<and> positiveInteger (ev_projectionRevision e) \<and> nonNegativeInteger (ev_sourceOrder e) \<and>
     nonNegativeInteger (ev_eventIndex e) \<and> validSourceTimestamp (ev_occurredAt e) profile \<and> validAcpUpdate (ev_update e) profile \<and>
     pred_option (\<lambda>c. c \<in> set ids) (ev_childSourceThreadId e) \<and> validRawRef (ev_rawRef e)"

definition validSegment :: "raw_segment \<Rightarrow> bool" where
  "validSegment s \<longleftrightarrow> boundedIdentity (sg_sourceObjectId s) 200 \<and> boundedIdentity (sg_sourceGeneration s) 200 \<and>
     nonNegativeInteger (sg_sourceOffset s) \<and> int (length (sg_content s)) \<le> li_rawSegmentBytes AdapterCollectionLimits \<and>
     (sg_content s \<noteq> [] \<or> sg_final s) \<and> sizedText (sg_sourceName s) 512 False \<and>
     (sg_final s \<or> endsWith [CHR 0x0A] (sg_content s)) \<and> sizedText (sg_mediaType s) 512 False \<and>
     supportedRawMediaType (sg_mediaType s)"

definition requireC :: "bool \<Rightarrow> contract_error \<Rightarrow> contract_error + unit" where
  "requireC ok e = (if ok then Inr () else Inl e)"

definition keyed :: "('k list \<Rightarrow> 'a \<Rightarrow> bool) \<Rightarrow> ('a \<Rightarrow> 'k) \<Rightarrow> contract_error \<Rightarrow> 'k list \<Rightarrow> 'a \<Rightarrow> contract_error + 'k list" where
  "keyed ok key e seen x = (if ok seen x then Inr (key x # seen) else Inl e)"

definition validateObservation :: "canonical_profile \<Rightarrow> string list \<Rightarrow> adapter_observation \<Rightarrow> contract_error + string list" where
  "validateObservation profile seen v =
     (let limits = AdapterCollectionLimits; ids = map at_sourceThreadId (ob_threads v) in
     bindE (requireC (boundedIdentity (ob_observationId v) 200 \<and> ob_observationId v \<notin> set seen) InvalidObservationId) (\<lambda>_.
     bindE (requireC (validTimestamp (ob_observedAt v) \<and> validSourceTimestamp (as_updatedAt (ob_session v)) profile) InvalidTimestamp) (\<lambda>_.
     bindE (requireC (validSession (ob_session v)) InvalidSession) (\<lambda>_.
     bindE (requireC (int (length (stringify (canonicalJson v))) \<le> li_canonicalBytesPerObservation limits) CanonicalBytes) (\<lambda>_.
     bindE (requireC (1 \<le> length (ob_threads v) \<and> int (length (ob_threads v)) \<le> li_threadsPerObservation limits) ThreadCount) (\<lambda>_.
     bindE (requireC (int (length (ob_events v)) \<le> li_eventsPerObservation limits \<and>
       int (length (ob_rawSegments v)) \<le> li_rawSegmentsPerObservation limits) EventLimits) (\<lambda>_.
     bindE (requireC (int (sum_list (map (\<lambda>s. length (sg_content s)) (ob_rawSegments v))) \<le> li_rawBytesPerObservation limits) RawBytes) (\<lambda>_.
     bindE (requireC (validTopology (ob_threads v)) ThreadTopology) (\<lambda>_.
     bindE (requireC (int (length (case ob_usage v of None \<Rightarrow> [] | Some us \<Rightarrow> us)) \<le> li_eventsPerObservation limits) UsageLimit) (\<lambda>_.
     bindE (foldE (keyed (validUsage ids) usageKey InvalidUsage) [] (case ob_usage v of None \<Rightarrow> [] | Some us \<Rightarrow> us)) (\<lambda>_.
     bindE (foldE (keyed (validEvent profile ids) eventKey InvalidEvent) [] (ob_events v)) (\<lambda>_.
     bindE (requireC (list_all validSegment (ob_rawSegments v)) InvalidSegment) (\<lambda>_.
       Inr (ob_observationId v # seen))))))))))))))"

definition validProgress :: "collection_progress \<Rightarrow> bool" where
  "validProgress p \<longleftrightarrow> nonNegativeInteger (pg_sourceFiles p) \<and> pred_option nonNegativeInteger (pg_pendingCanonicalSessions p) \<and>
     pred_option nonNegativeInteger (pg_pendingRawBytes p)"

definition validCursor :: "string option \<Rightarrow> bool" where
  "validCursor c = (case c of None \<Rightarrow> True | Some t \<Rightarrow> t \<noteq> [] \<and> int (utf16_length t) \<le> 1024 * 1024)"

definition validatePage :: "string option \<Rightarrow> collection_page \<Rightarrow> canonical_profile \<Rightarrow> contract_error + unit" where
  "validatePage requestCursor page profile =
     (let failures = (case pa_sourceFailures page of None \<Rightarrow> [] | Some fs \<Rightarrow> fs);
          advanced = pa_nextCursor page \<noteq> None \<and> pa_nextCursor page \<noteq> requestCursor in
     bindE (requireC (pred_option validProgress (pa_progress page)) InvalidProgress) (\<lambda>_.
     bindE (requireC (int (length failures) \<le> MaxSourceFailures \<and> list_all (\<lambda>f. sizedText (sf_source f) 4096 False) failures) InvalidDiagnostics) (\<lambda>_.
     bindE (requireC (int (length (pa_observations page)) \<le> li_observations AdapterCollectionLimits) TooManyObservations) (\<lambda>_.
     bindE (requireC (validCursor (pa_nextCursor page)) InvalidCursor) (\<lambda>_.
     bindE (requireC (pa_hasMore page \<longrightarrow> advanced) MustAdvance) (\<lambda>_.
     bindE (requireC (pa_observations page \<noteq> [] \<longrightarrow> advanced) MustCommit) (\<lambda>_.
     bindE (foldE (validateObservation profile) [] (pa_observations page)) (\<lambda>_. Inr ()))))))))"

section \<open>Preparation\<close>

definition slicePage :: "adapter_observation \<Rightarrow> collection_page" where
  "slicePage v = \<lparr>pa_progress = None, pa_nextCursor = Some ''prepared'', pa_hasMore = False, pa_observations = [v],
     pa_sourceFailures = None, pa_sourceFailuresTruncated = None\<rparr>"

definition redactContract :: "redactor \<Rightarrow> adapter_observation \<Rightarrow> contract_error + (adapter_observation \<times> int)" where
  "redactContract r v = (case prepareCanonicalRedaction r v of
       Inl _ \<Rightarrow> Inl UnsafeContent | Inr (w, rep) \<Rightarrow> Inr (w, rep_matches rep))"

definition prepareCanonicalSlice :: "redactor \<Rightarrow> json \<Rightarrow> canonical_profile \<Rightarrow> contract_error + (adapter_observation \<times> int)" where
  "prepareCanonicalSlice r input profile =
     bindE (fromOption SliceShape (decodeObservation input)) (\<lambda>v.
     bindE (requireC (ob_rawSegments v = []) SliceRaw) (\<lambda>_.
     bindE (validatePage None (slicePage v) profile) (\<lambda>_.
     bindE (redactContract r v) (\<lambda>(w, n).
     bindE (validatePage None (slicePage w) profile) (\<lambda>_. Inr (w, n))))))"

definition prepareCollectedObservation :: "redactor \<Rightarrow> adapter_observation \<Rightarrow> canonical_profile \<Rightarrow> contract_error + (adapter_observation \<times> int)" where
  "prepareCollectedObservation r v profile =
     bindE (redactContract r v) (\<lambda>(w, n).
     bindE (requireC (list_all (\<lambda>e. validAcpUpdate (ev_update e) profile) (ob_events w)) RedactedValues) (\<lambda>_. Inr (w, n)))"

end
