(* ===== verification/CollectorAdmission.thy ===== *)
theory CollectorAdmission
  imports CollectorPreparation RedactionProperties
begin

text \<open>What the admission of Adapter pages guarantees: accepted threads form one rooted tree,
  identities inside a page are distinct, the cursor advances whenever there is work behind it,
  tool values are bounded in nodes, depth and bytes, and a prepared slice is an accepted one
  with the topology of its input.\<close>

section \<open>Folds that collect keys\<close>

lemma requireC_Inr [success_simps]: "requireC ok e = Inr u \<longleftrightarrow> ok"
  by (simp add: requireC_def)

lemma keyed_Inr [success_simps]: "keyed ok key e seen x = Inr t \<longleftrightarrow> ok seen x \<and> t = key x # seen"
  by (auto simp: keyed_def)

lemma redactContract_Inr [success_simps]:
  "redactContract r v = Inr x \<longleftrightarrow> (\<exists>w rep. prepareCanonicalRedaction r v = Inr (w, rep) \<and> x = (w, rep_matches rep))"
  by (cases "prepareCanonicalRedaction r v") (auto simp: redactContract_def)

lemma foldE_each:
  assumes "foldE f s xs = Inr s'" "x \<in> set xs"
  obtains t t' where "f t x = Inr t'"
  using assms by (induction xs arbitrary: s) (auto simp: success_simps)

lemma foldE_distinct_keys:
  assumes "foldE f s xs = Inr s'" and "\<And>t x t'. f t x = Inr t' \<Longrightarrow> t' = key x # t \<and> key x \<notin> set t"
  shows "s' = rev (map key xs) @ s \<and> (distinct s \<longrightarrow> distinct s')"
  using assms(1)
proof (induction xs arbitrary: s)
  case (Cons x xs)
  then obtain t where t: "f s x = Inr t" "foldE f t xs = Inr s'" by (auto simp: success_simps)
  have key: "t = key x # s" "key x \<notin> set s" using assms(2)[OF t(1)] by auto
  moreover have "s' = rev (map key xs) @ t \<and> (distinct t \<longrightarrow> distinct s')" by (rule Cons.IH[OF t(2)])
  ultimately show ?case by (auto simp: disjoint_iff)
qed simp

lemma foldE_distinct_map:
  assumes "foldE f [] xs = Inr s'" and "\<And>t x t'. f t x = Inr t' \<Longrightarrow> t' = key x # t \<and> key x \<notin> set t"
  shows "distinct (map key xs)"
  using foldE_distinct_keys[of f "[]" xs s' key] assms by auto

section \<open>Thread trees\<close>

text \<open>The parent relation of a list of threads, on source identities.\<close>

definition threadParents :: "adapter_thread list \<Rightarrow> (string \<times> string) set" where
  "threadParents ts = {(at_sourceThreadId t, p) | t p. t \<in> set ts \<and> at_parent t = Some p}"

lemma parentPairs_lookup:
  assumes "distinct (map at_sourceThreadId ts)"
  shows "map_of (parentPairs ts) k = Some p \<longleftrightarrow> (\<exists>t\<in>set ts. at_sourceThreadId t = k \<and> at_parent t = p)"
proof -
  have "map fst (parentPairs ts) = rev (map at_sourceThreadId ts)"
    by (simp add: parentPairs_def rev_map comp_def)
  then have "distinct (map fst (parentPairs ts))" using assms by simp
  then show ?thesis by (auto simp: parentPairs_def)
qed

lemma climb_reaches_root:
  assumes "\<not> climbs ps seen current" "current = Some c" "c \<in> fst ` set ps"
    and closed: "\<And>k p. map_of ps k = Some (Some p) \<Longrightarrow> p \<in> fst ` set ps"
  shows "\<exists>r. map_of ps r = Some None \<and> (c, r) \<in> {(k, p). map_of ps k = Some (Some p)}\<^sup>*"
  using assms
proof (induction ps seen current arbitrary: c rule: climbs.induct)
  case (1 ps seen current)
  obtain v where v: "map_of ps c = Some v"
    using "1.prems"(3) by (metis map_of_eq_None_iff not_None_eq)
  show ?case
  proof (cases v)
    case None
    then show ?thesis using v by auto
  next
    case (Some p)
    then have up: "map_of ps c = Some (Some p)" using v by simp
    have fresh: "c \<notin> set seen" and rest: "\<not> climbs ps (c # seen) (Some p)"
      using "1.prems"(1,2) up climbs.simps[of ps seen current] by (auto split: if_splits)
    have "\<exists>r. map_of ps r = Some None \<and> (p, r) \<in> {(k, p). map_of ps k = Some (Some p)}\<^sup>*"
    proof (rule "1.IH"[OF "1.prems"(2) fresh])
      show "\<not> climbs ps (c # seen) (Option.bind (map_of ps c) (\<lambda>p. p))" using rest up by simp
      show "Option.bind (map_of ps c) (\<lambda>p. p) = Some p" using up by simp
      show "p \<in> fst ` set ps" using up by (rule "1.prems"(4))
    qed (rule "1.prems"(4))
    then show ?thesis using up by (auto intro: converse_rtrancl_into_rtrancl)
  qed
qed

lemma validTopology_rooted:
  assumes valid: "validTopology ts" and t: "t \<in> set ts"
  shows "\<exists>!r. r \<in> set ts \<and> at_parent r = None"
    and "\<exists>r\<in>set ts. at_parent r = None \<and> (at_sourceThreadId t, at_sourceThreadId r) \<in> (threadParents ts)\<^sup>*"
proof -
  have dist: "distinct (map at_sourceThreadId ts)" and one: "length (filter (\<lambda>t. at_parent t = None) ts) = 1"
    and each: "list_all (validThread (map at_sourceThreadId ts)) ts" and acyclic: "\<not> hasThreadCycle ts"
    using valid by (auto simp: validTopology_def Let_def)
  obtain r where "filter (\<lambda>t. at_parent t = None) ts = [r]"
    using one by (cases "filter (\<lambda>t. at_parent t = None) ts") auto
  then have "set (filter (\<lambda>t. at_parent t = None) ts) = {r}" by simp
  then have "u \<in> set ts \<and> at_parent u = None \<longleftrightarrow> u = r" for u by (metis (mono_tags) mem_Collect_eq set_filter singleton_iff)
  then show "\<exists>!r. r \<in> set ts \<and> at_parent r = None" by (intro ex1I[of _ r]) auto
  have rel: "{(k, p). map_of (parentPairs ts) k = Some (Some p)} = threadParents ts"
    using parentPairs_lookup[OF dist] by (auto simp: threadParents_def)
  have keys: "fst ` set (parentPairs ts) = at_sourceThreadId ` set ts" by (force simp: parentPairs_def)
  have closed: "p \<in> fst ` set (parentPairs ts)" if "map_of (parentPairs ts) k = Some (Some p)" for k p
  proof -
    have "\<exists>u\<in>set ts. at_parent u = Some p"
      using parentPairs_lookup[OF dist, THEN iffD1, OF \<open>map_of (parentPairs ts) k = Some (Some p)\<close>] by blast
    then obtain u where "u \<in> set ts" "at_parent u = Some p" by blast
    then have "p \<in> set (map at_sourceThreadId ts)" using each by (auto simp: list_all_iff validThread_def)
    then show ?thesis using keys by simp
  qed
  have "\<not> climbs (parentPairs ts) [] (Some (at_sourceThreadId t))"
    using acyclic t by (auto simp: hasThreadCycle_def list_ex_iff)
  then have "\<exists>r. map_of (parentPairs ts) r = Some None \<and>
      (at_sourceThreadId t, r) \<in> {(k, p). map_of (parentPairs ts) k = Some (Some p)}\<^sup>*"
  proof (rule climb_reaches_root)
    show "at_sourceThreadId t \<in> fst ` set (parentPairs ts)" using keys t by simp
  qed (use closed in auto)
  then show "\<exists>r\<in>set ts. at_parent r = None \<and> (at_sourceThreadId t, at_sourceThreadId r) \<in> (threadParents ts)\<^sup>*"
    unfolding rel using parentPairs_lookup[OF dist] by auto
qed

section \<open>Accepted pages\<close>

lemma validateObservation_seen:
  assumes "validateObservation profile seen v = Inr t"
  shows "t = ob_observationId v # seen \<and> ob_observationId v \<notin> set seen"
  using assms by (auto simp: validateObservation_def Let_def success_simps)

lemma validateObservation_accepts:
  assumes "validateObservation profile seen v = Inr t"
  shows "validTopology (ob_threads v)" "distinct (map eventKey (ob_events v))"
    "int (length (stringify (canonicalJson v))) \<le> li_canonicalBytesPerObservation AdapterCollectionLimits"
    "\<forall>e\<in>set (ob_events v). ev_sourceThreadId e \<in> set (map at_sourceThreadId (ob_threads v)) \<and> validAcpUpdate (ev_update e) profile"
proof -
  let ?step = "keyed (validEvent profile (map at_sourceThreadId (ob_threads v))) eventKey InvalidEvent"
  have parts: "distinct (map eventKey (ob_events v)) \<and> (\<forall>e\<in>set (ob_events v).
      ev_sourceThreadId e \<in> set (map at_sourceThreadId (ob_threads v)) \<and> validAcpUpdate (ev_update e) profile)"
    if fold: "foldE ?step [] (ob_events v) = Inr s" for s
  proof (intro conjI ballI)
    show "distinct (map eventKey (ob_events v))"
      by (rule foldE_distinct_map[OF fold]) (auto simp: success_simps validEvent_def)
    fix e assume "e \<in> set (ob_events v)"
    with fold obtain t t' where "?step t e = Inr t'" by (rule foldE_each)
    then have "validEvent profile (map at_sourceThreadId (ob_threads v)) t e" by (simp add: success_simps)
    then show "ev_sourceThreadId e \<in> set (map at_sourceThreadId (ob_threads v))" "validAcpUpdate (ev_update e) profile"
      by (simp_all add: validEvent_def)
  qed
  show "validTopology (ob_threads v)" "distinct (map eventKey (ob_events v))"
    "int (length (stringify (canonicalJson v))) \<le> li_canonicalBytesPerObservation AdapterCollectionLimits"
    "\<forall>e\<in>set (ob_events v). ev_sourceThreadId e \<in> set (map at_sourceThreadId (ob_threads v)) \<and> validAcpUpdate (ev_update e) profile"
    using assms parts by (auto simp: validateObservation_def Let_def success_simps)
qed

lemma validatePage_observation:
  assumes "validatePage c page profile = Inr u" "v \<in> set (pa_observations page)"
  obtains seen t where "validateObservation profile seen v = Inr t"
  using assms by (auto simp: validatePage_def Let_def success_simps elim: foldE_each)

text \<open>C19: In an accepted page the threads of every observation form one tree: exactly one of them has no
  parent, and following parents from any thread ends at it.\<close>
theorem accepted_threads_rooted:
  assumes "validatePage cursor page profile = Inr ()" "v \<in> set (pa_observations page)" "t \<in> set (ob_threads v)"
  shows "(\<exists>!r. r \<in> set (ob_threads v) \<and> at_parent r = None) \<and>
    (\<exists>r\<in>set (ob_threads v). at_parent r = None \<and> (at_sourceThreadId t, at_sourceThreadId r) \<in> (threadParents (ob_threads v))\<^sup>*)"
  using assms validTopology_rooted by (blast elim: validatePage_observation dest: validateObservation_accepts(1))

text \<open>An accepted page that carries observations or promises more moves to a new, nonempty cursor of bounded
  length; its observations are at most as many as the Host admits, their identities are distinct, each fits
  the canonical byte limit, its events are distinct and lie on its own threads.\<close>
lemma accepted_page_advances:
  assumes "validatePage cursor page profile = Inr ()"
  shows "(pa_hasMore page \<or> pa_observations page \<noteq> [] \<longrightarrow>
      (\<exists>next. pa_nextCursor page = Some next \<and> next \<noteq> [] \<and> pa_nextCursor page \<noteq> cursor \<and> utf16_length next \<le> 1024 * 1024)) \<and>
    length (pa_observations page) \<le> nat (li_observations AdapterCollectionLimits) \<and>
    distinct (map ob_observationId (pa_observations page)) \<and>
    (\<forall>v\<in>set (pa_observations page). int (length (stringify (canonicalJson v))) \<le> li_canonicalBytesPerObservation AdapterCollectionLimits \<and>
      distinct (map eventKey (ob_events v)) \<and>
      (\<forall>e\<in>set (ob_events v). ev_sourceThreadId e \<in> set (map at_sourceThreadId (ob_threads v))))"
proof -
  have page: "\<exists>s. foldE (validateObservation profile) [] (pa_observations page) = Inr s"
    "int (length (pa_observations page)) \<le> li_observations AdapterCollectionLimits"
    "pa_hasMore page \<or> pa_observations page \<noteq> [] \<Longrightarrow> pa_nextCursor page \<noteq> None \<and> pa_nextCursor page \<noteq> cursor \<and> validCursor (pa_nextCursor page)"
    using assms by (auto simp: validatePage_def Let_def success_simps)
  have "distinct (map ob_observationId (pa_observations page))"
    using page(1) by (auto intro: foldE_distinct_map dest: validateObservation_seen)
  moreover have "length (pa_observations page) \<le> nat (li_observations AdapterCollectionLimits)" using page(2) by simp
  moreover have "int (length (stringify (canonicalJson v))) \<le> li_canonicalBytesPerObservation AdapterCollectionLimits \<and>
      distinct (map eventKey (ob_events v)) \<and> (\<forall>e\<in>set (ob_events v). ev_sourceThreadId e \<in> set (map at_sourceThreadId (ob_threads v)))"
    if "v \<in> set (pa_observations page)" for v
    using validatePage_observation[OF assms that] validateObservation_accepts by meson
  ultimately show ?thesis using page(3) by (auto simp: validCursor_def split: option.splits)
qed

section \<open>Tool values\<close>

fun jsonNodes :: "json \<Rightarrow> int" where
  "jsonNodes (JArr xs) = 1 + sum_list (map jsonNodes xs)"
| "jsonNodes (JObj ms) = 1 + sum_list (map (\<lambda>m. jsonNodes (snd m)) ms)"
| "jsonNodes _ = 1"

fun jsonHeight :: "json \<Rightarrow> int" where
  "jsonHeight (JArr xs) = foldr (\<lambda>x h. max (1 + jsonHeight x) h) xs 0"
| "jsonHeight (JObj ms) = foldr (\<lambda>m h. max (1 + jsonHeight (snd m)) h) ms 0"
| "jsonHeight _ = 0"

lemma jsonNodes_nonneg: "0 \<le> jsonNodes v"
proof (induction v)
  case (JArr xs)
  then have "0 \<le> sum_list (map jsonNodes xs)" by (intro sum_list_nonneg) auto
  then show ?case by simp
next
  case (JObj ms)
  then have "0 \<le> sum_list (map (\<lambda>m. jsonNodes (snd m)) ms)" by (intro sum_list_nonneg) auto
  then show ?case by simp
qed auto

lemma jsonNodes_pos: "1 \<le> jsonNodes v"
  by (cases v) (auto intro!: sum_list_nonneg simp: jsonNodes_nonneg)

lemma foldr_max_le: "d + foldr (\<lambda>x h. max (f x) h) xs 0 \<le> (n::int) \<longleftrightarrow> d \<le> n \<and> (\<forall>x\<in>set xs. d + f x \<le> n)"
  by (induction xs) auto

lemma foldr_max_nonneg: "0 \<le> foldr (\<lambda>x h. max (f x) h) xs (0::int)"
  by (induction xs) auto

lemma jsonHeight_nonneg: "0 \<le> jsonHeight v"
  by (cases v) (auto intro: foldr_max_nonneg)

declare visitTool.simps [simp del]

lemma visit_counts:
  "visitTool depth v n = (n', ok) \<Longrightarrow> n \<le> 10000 \<Longrightarrow>
     (ok \<longleftrightarrow> n + jsonNodes v \<le> 10000 \<and> depth + jsonHeight v \<le> 32) \<and> (ok \<longrightarrow> n' = n + jsonNodes v)"
  "visitItems depth xs n = (n', ok) \<Longrightarrow> n \<le> 10000 \<Longrightarrow>
     (ok \<longleftrightarrow> n + sum_list (map jsonNodes xs) \<le> 10000 \<and> (\<forall>x\<in>set xs. depth + jsonHeight x \<le> 32)) \<and>
     (ok \<longrightarrow> n' = n + sum_list (map jsonNodes xs))"
  "visitMembers depth ms n = (n', ok) \<Longrightarrow> n \<le> 10000 \<Longrightarrow>
     (ok \<longleftrightarrow> n + sum_list (map (\<lambda>m. jsonNodes (snd m)) ms) \<le> 10000 \<and> (\<forall>m\<in>set ms. depth + jsonHeight (snd m) \<le> 32)) \<and>
     (ok \<longrightarrow> n' = n + sum_list (map (\<lambda>m. jsonNodes (snd m)) ms))"
proof (induction depth v n and depth xs n and depth ms n arbitrary: n' ok and n' ok and n' ok rule: visitTool_visitItems_visitMembers.induct)
  case (1 depth v nodes)
  show ?case
  proof (cases "nodes + 1 > 10000 \<or> depth > 32")
    case True
    then have "\<not> (nodes + jsonNodes v \<le> 10000 \<and> depth + jsonHeight v \<le> 32)"
      using jsonNodes_pos[of v] jsonHeight_nonneg[of v] by auto
    then show ?thesis using 1(3) True by (simp add: visitTool.simps[of depth v])
  next
    case False
    then show ?thesis using 1 by (cases v) (auto simp: visitTool.simps[of depth] foldr_max_le add.assoc)
  qed
next
  case (3 depth x xs nodes)
  obtain m b where t: "visitTool depth x nodes = (m, b)" by fastforce
  have rest: "0 \<le> sum_list (map jsonNodes xs)" by (rule sum_list_nonneg) (auto simp: jsonNodes_nonneg)
  show ?case using "3.IH"(1)[OF t] "3.IH"(2)[OF t[symmetric]  refl] 3(3,4) t rest jsonNodes_pos[of x]
    by (cases b) (auto simp: add.assoc)
next
  case (5 depth k x ms nodes)
  obtain m b where t: "visitTool depth x nodes = (m, b)" by fastforce
  have rest: "0 \<le> sum_list (map (\<lambda>m. jsonNodes (snd m)) ms)" by (rule sum_list_nonneg) (auto simp: jsonNodes_nonneg)
  show ?case using "5.IH"(1)[OF t] "5.IH"(2)[OF t[symmetric] refl] 5(3,4) t rest jsonNodes_pos[of x]
    by (cases b) (auto simp: add.assoc)
qed auto

text \<open>The counting visitor with its early exits admits a tool value exactly when the value has at most ten
  thousand nodes, its nodes nest at most 32 deep and its serialization fits 64 KiB.\<close>
lemma tool_value_admission:
  "isBoundedToolValue v \<longleftrightarrow> jsonNodes v \<le> 10000 \<and> jsonHeight v \<le> 32 \<and> int (length (stringify v)) \<le> 64 * 1024"
proof -
  obtain n ok where "visitTool 0 v 0 = (n, ok)" by fastforce
  then show ?thesis using visit_counts(1)[of 0 v 0 n ok] by (auto simp: isBoundedToolValue_def ToolValueBytes_def)
qed

section \<open>Prepared slices\<close>

text \<open>C20: A prepared Canonical slice comes from an input of the Adapter shape without Raw; it is accepted under the same
  profile before and after masking, keeps identities, order and counters, and its threads are still rooted.\<close>
theorem prepared_slice_accepted:
  assumes "prepareCanonicalSlice r input profile = Inr (w, n)"
  shows "\<exists>v. decodeObservation input = Some v \<and> ob_rawSegments v = [] \<and> sameTopology v w \<and>
    validatePage None (slicePage v) profile = Inr () \<and> validatePage None (slicePage w) profile = Inr () \<and>
    (\<exists>!t. t \<in> set (ob_threads w) \<and> at_parent t = None)"
proof -
  obtain v rep where v: "decodeObservation input = Some v" "ob_rawSegments v = []"
    "prepareCanonicalRedaction r v = Inr (w, rep)"
    "validatePage None (slicePage v) profile = Inr ()" "validatePage None (slicePage w) profile = Inr ()"
    using assms by (auto simp: prepareCanonicalSlice_def success_simps)
  obtain seen t where "validateObservation profile seen w = Inr t"
    using validatePage_observation[OF v(5), of w] by (auto simp: slicePage_def)
  then have "validTopology (ob_threads w)" by (rule validateObservation_accepts)
  then have "ob_threads w \<noteq> [] \<and> validTopology (ob_threads w)" by (auto simp: validTopology_def)
  then have "\<exists>!t. t \<in> set (ob_threads w) \<and> at_parent t = None"
    using validTopology_rooted(1)[of "ob_threads w" "hd (ob_threads w)"] by simp
  moreover have "sameTopology v w"
    using v(3) by (auto simp: prepareCanonicalRedaction_def prepareCanonical_def prepared_def
      split: prod.split_asm sum.split_asm dest!: canonicalV_topology)
  ultimately show ?thesis using v by blast
qed

text \<open>Evaluation of the text bounds on printable texts.\<close>

lemma drop_spaces_printable:
  assumes "32 < code c" "code c \<le> 127"
  shows "drop_prefixes (map rev js_spaces) (c # r) = c # r"
proof -
  have last: "list_all (\<lambda>p. p \<noteq> [] \<and> (code (last p) \<le> 32 \<or> 127 < code (last p))) js_spaces" by code_simp
  have "\<not> startsWith (rev p) (c # r)" if "p \<in> set js_spaces" for p
  proof -
    have "p \<noteq> []" "code (last p) \<le> 32 \<or> 127 < code (last p)" using last that by (auto simp: list_all_iff)
    then show ?thesis using assms by (cases p rule: rev_cases) (auto simp: startsWith_iff)
  qed
  then have "find (\<lambda>p. p \<noteq> [] \<and> startsWith p (c # r)) (map rev js_spaces) = None" by (auto simp: find_None_iff)
  then show ?thesis by (simp add: drop_prefixes.simps[of "map rev js_spaces" "c # r"])
qed

definition printable :: "char \<Rightarrow> bool" where
  "printable c \<longleftrightarrow> 32 < code c \<and> code c \<le> 127"

lemma js_trim_printable:
  assumes "printable c" "printable (last (c # r))"
  shows "js_trim (c # r) = c # r"
proof -
  have front: "drop_prefixes js_spaces (c # r) = c # r"
    using assms(1) by (simp add: printable_def drop_prefixes_printable)
  obtain d q where eq: "rev (c # r) = d # q" by (cases "rev (c # r)") auto
  then have "d = last (c # r)" by (metis hd_rev list.sel(1))
  then have "drop_prefixes (map rev js_spaces) (rev (c # r)) = rev (c # r)"
    using drop_spaces_printable[of d q] assms(2) unfolding eq by (simp add: printable_def)
  then show ?thesis by (simp add: js_trim_def front del: rev.simps)
qed

lemma sizedText_printable: 
  "sizedText v n True \<longleftrightarrow> int (length v) \<le> n"
  "printable c \<Longrightarrow> printable (last (c # r)) \<Longrightarrow> sizedText (c # r) n b \<longleftrightarrow> int (length (c # r)) \<le> n"
  "printable c \<Longrightarrow> printable (last (c # r)) \<Longrightarrow> boundedIdentity (c # r) n \<longleftrightarrow> int (length (c # r)) \<le> n"
  by (simp_all add: sizedText_def boundedIdentity_def js_trim_printable)

lemmas text_bounds = sizedText_printable printable_def code_def

lemma climbs_step [simp]:
  "\<not> climbs ps seen None"
  "climbs ps seen (Some c) \<longleftrightarrow> c \<in> set seen \<or> climbs ps (c # seen) (Option.bind (map_of ps c) (\<lambda>p. p))"
  by (simp_all add: climbs.simps[of ps seen])

definition demoMasked :: adapter_observation where
  "demoMasked = demoObservation\<lparr>ob_events := map (\<lambda>e. e\<lparr>ev_fidelity := FidelityRedacted,
     ev_update := UserMessageChunk (TextContent ''run [REDACTED]'') None\<rparr>) (ob_events demoObservation)\<rparr>"

lemma demo_clock: "validTimestamp ''2024-05-01T10:00:00Z''"
  by code_simp

lemma demo_bytes:
  "length (stringify (canonicalJson demoObservation)) \<le> 1024" "length (stringify (canonicalJson demoMasked)) \<le> 1024"
  by code_simp+

lemma demo_valid:
  "validateObservation Profile5 [] demoObservation = Inr [''o1'']" "validateObservation Profile5 [] demoMasked = Inr [''o1'']"
  using demo_bytes
  by (simp_all add: validateObservation_def requireC_def demoObservation_def demoMasked_def text_bounds demo_clock
      validSourceTimestamp_def hasNullableSourceClocks_def validSession_def positiveInteger_def nonNegativeInteger_def
      AdapterCollectionLimits_def validTopology_def validThread_def hasThreadCycle_def parentPairs_def keyed_def
      validEvent_def validAcpUpdate_def validMessage_def validContentBlock_def validRawRef_def safe_integer_def max_safe_integer_def)

lemma demo_slice: "validatePage c (slicePage v) Profile5 = Inr ()"
  if "v = demoObservation \<or> v = demoMasked" "c \<noteq> Some ''prepared''"
  using that demo_valid
  by (auto simp: validatePage_def slicePage_def requireC_def validCursor_def AdapterCollectionLimits_def MaxSourceFailures_def
      utf16_length_def utf16_units_def code_def Let_def)

definition demoPage :: collection_page where
  "demoPage = slicePage demoObservation"

lemma accepted_threads_rooted_witness:
  "\<exists>!r. r \<in> set (ob_threads demoObservation) \<and> at_parent r = None"
  using accepted_threads_rooted[OF demo_slice[of demoObservation None], of demoObservation "hd (ob_threads demoObservation)"]
  by (simp add: slicePage_def demoObservation_def)

lemma accepted_page_advances_witness:
  "pa_nextCursor demoPage \<noteq> Some ''c0'' \<and> distinct (map ob_observationId (pa_observations demoPage))"
  using accepted_page_advances[OF demo_slice[of demoObservation "Some ''c0''"]] by (simp add: demoPage_def slicePage_def)

lemma demo_admitted: "admittedObservation demoObservation"
  by (simp add: admittedObservation_def demoObservation_def admittedUpdate_def)

lemma demo_prepared: "\<exists>n. prepareCanonicalSlice demoRedactor (observationJson demoObservation) Profile5 = Inr (demoMasked, n)"
proof -
  have "decodeObservation (observationJson demoObservation) = Some demoObservation"
    by (rule observation_codec.decode_encode) (rule demo_admitted)
  moreover have "\<exists>rep. prepareCanonicalRedaction demoRedactor demoObservation = Inr (demoMasked, rep)"
    by (simp add: prepareCanonicalRedaction_def prepareCanonical_def prepared_def canonicalV_def demoObservation_def demoMasked_def
        demoRedactor_def sessionV_def threadV_def eventV_def updateV_def contentV_def refV_def optionV_def bindV_def returnV_def
        textV_plain opensJson_plain code_def compatibleEngine_def freshVisit_def emptyReport_def ContentBytes_def)
  moreover have "ob_rawSegments demoObservation = []" by (simp add: demoObservation_def)
  ultimately show ?thesis
    by (auto simp: prepareCanonicalSlice_def redactContract_def requireC_def demo_slice)
qed

lemma prepared_slice_accepted_witness:
  "\<exists>w n. prepareCanonicalSlice demoRedactor (observationJson demoObservation) Profile5 = Inr (w, n) \<and>
     sameTopology demoObservation w"
  using demo_prepared prepared_slice_accepted[of demoRedactor "observationJson demoObservation" Profile5]
    observation_codec.decode_encode[OF demo_admitted] by fastforce

text \<open>C21: Writing an Adapter observation as JSON text and reading it back through the schema gives the observation.\<close>
theorem observation_wire_roundtrip:
  "admittedObservation v \<Longrightarrow> decodeText decodeObservation (stringify (observationJson v)) = Some v"
  by (rule observation_codec.text_roundtrip)

lemma observation_wire_roundtrip_witness:
  "decodeText decodeObservation (stringify (observationJson demoObservation)) = Some demoObservation"
  by (rule observation_wire_roundtrip[OF demo_admitted])

end
