(* ===== verification/Publication.thy ===== *)
theory Publication
  imports CollectorSchemas CaptureTypes JsTime
begin

text \<open>The publication protocol's data (packages/domain/src/publication.ts, publicationProfiles.ts and
  rawPublication.ts): target profiles, scopes, parts, manifests, attempts and activations of Canonical
  publications, authorities, chunks and receipts of Raw ones, with the schema of each as a
  decoder and the JSON the program writes.\<close>

section \<open>Field schemas\<close>

definition countIn :: "int \<Rightarrow> int \<Rightarrow> int decoder" where
  "countIn low high = checkedBy (\<lambda>n. low \<le> n \<and> n \<le> high) asInt"

definition nameText :: "nat \<Rightarrow> string \<Rightarrow> bool" where
  "nameText n v \<longleftrightarrow> v \<noteq> [] \<and> utf16_length v \<le> n \<and> CHR 0x00 \<notin> set v"

definition publicationText :: "string decoder" where
  "publicationText = checkedBy (nameText 500) asString"

definition headText :: "string decoder" where
  "headText = checkedBy (\<lambda>v. utf16_length v \<le> 200) asString"

definition shaText :: "string decoder" where
  "shaText = checkedBy isSha256Hex asString"

definition timestampText :: "string decoder" where
  "timestampText = checkedBy (\<lambda>v. utf16_length v \<le> 64 \<and> isoParts v \<noteq> None) asString"

definition literalText :: "string \<Rightarrow> unit decoder" where
  "literalText s j = (if j = JStr s then Some () else None)"

section \<open>Canonical publications\<close>

datatype target_profile = Target1 | Target2 | Target3 | Target4 | Target5

definition targetProfiles :: "(string \<times> target_profile) list" where
  "targetProfiles = [(''atape.publication-target.v1'', Target1), (''atape.publication-target.v2'', Target2),
     (''atape.publication-target.v3'', Target3), (''atape.publication-target.v4'', Target4), (''atape.publication-target.v5'', Target5)]"

definition PublicationProtocol :: string where
  "PublicationProtocol = ''atape.publication.v1''"

record publication_scope =
  px_projectId :: string
  px_installationId :: string
  px_adapterId :: string
  px_sourceSessionId :: string
  px_originKey :: string

record publication_reservation =
  re_id :: string
  re_sessionId :: string
  re_expiresAt :: string

record publication_adoption = publication_reservation +
  la_revisionFloor :: int
  la_baselineThreads :: "adapter_thread list"

record publication_begin =
  pb_reservationId :: string
  pb_captureId :: string
  pb_baseHead :: string
  pb_transformVersion :: string

record publication_part =
  pp_ordinal :: int
  pp_bytes :: int
  pp_sha256 :: string

record publication_manifest =
  pm_parts :: int
  pm_bytes :: int
  pm_sha256 :: string

record publication_activation =
  av_head :: string
  av_sessionId :: string
  av_captureId :: string
  av_baseHead :: string
  av_fence :: int
  av_transformVersion :: string
  av_manifest :: publication_manifest
  av_activatedAt :: string

datatype attempt_state =
    AttemptOpen | AttemptSealed | AttemptValidating | AttemptValidated | AttemptActivated
  | AttemptRejected | AttemptExpired | AttemptSuperseded

definition attemptStates :: "(string \<times> attempt_state) list" where
  "attemptStates = [(''open'', AttemptOpen), (''sealed'', AttemptSealed), (''validating'', AttemptValidating),
     (''validated'', AttemptValidated), (''activated'', AttemptActivated), (''rejected'', AttemptRejected),
     (''expired'', AttemptExpired), (''superseded'', AttemptSuperseded)]"

record publication_attempt =
  tt_id :: string
  tt_sessionId :: string
  tt_captureId :: string
  tt_baseHead :: string
  tt_transformVersion :: string
  tt_fence :: int
  tt_leaseUntil :: string
  tt_expiresAt :: string
  tt_state :: attempt_state
  tt_parts :: int
  tt_retainedBytes :: int
  tt_seal :: "publication_manifest option"
  tt_validatedParts :: int
  tt_retainedParts :: "int option"
  tt_candidateEvents :: int
  tt_candidateUsage :: int
  tt_activation :: "publication_activation option"

record publication_limits =
  pl_partBytes :: int
  pl_targetBytes :: int
  pl_userPendingBytes :: int
  pl_parts :: int
  pl_reservations :: int
  pl_reservationLifetimeMs :: int
  pl_leaseLifetimeMs :: int

record publication_capabilities =
  cb_targetProfiles :: "target_profile list option"
  cb_legacyAdoption :: "bool option"
  cb_limits :: publication_limits

section \<open>Raw publications\<close>

definition RawPublicationProtocol :: string where
  "RawPublicationProtocol = ''atape.raw-publication.v1''"

definition RawPublicationWireBytes :: int where
  "RawPublicationWireBytes = 5 * 1024 * 1024"

record raw_authority =
  ra_teamRevision :: int
  ra_userRevision :: int

record raw_proof =
  pf_head :: string
  pf_authority :: raw_authority

record raw_policy =
  ry_enabled :: bool
  ry_authority :: raw_authority

record raw_identity =
  rn_sessionId :: string
  rn_installationId :: string
  rn_adapterId :: string
  rn_sourceObjectId :: string
  rn_sourceChunkId :: string

record raw_metadata = raw_identity +
  md_sourceName :: string
  md_mediaType :: string
  md_adapterVersion :: string
  md_capturedAt :: string
  md_offset :: int
  md_sha256 :: string
  md_final :: bool
  md_publication :: raw_proof

record raw_chunk = raw_metadata +
  ch_contentBase64 :: string

record raw_receipt = raw_metadata +
  rt_objectId :: string
  rt_sizeBytes :: int

text \<open>The protocol of an authority is a literal of its schema, so equal for any two.\<close>

definition sameRawAuthority :: "raw_authority \<Rightarrow> raw_authority \<Rightarrow> bool" where
  "sameRawAuthority a b \<longleftrightarrow> ra_teamRevision a = ra_teamRevision b \<and> ra_userRevision a = ra_userRevision b"

section \<open>Written JSON\<close>

definition bindingJson :: "capture_binding \<Rightarrow> json" where
  "bindingJson b = obj [(''instanceOrigin'', Some (JStr (bd_instanceOrigin b))), (''userId'', Some (JStr (bd_userId b))),
     (''installationId'', Some (JStr (bd_installationId b)))]"

definition scopeJson :: "publication_scope \<Rightarrow> json" where
  "scopeJson s = obj [(''projectId'', Some (JStr (px_projectId s))), (''installationId'', Some (JStr (px_installationId s))),
     (''adapterId'', Some (JStr (px_adapterId s))), (''sourceSessionId'', Some (JStr (px_sourceSessionId s))),
     (''originKey'', Some (JStr (px_originKey s)))]"

definition beginJson :: "publication_begin \<Rightarrow> json" where
  "beginJson b = obj [(''reservationId'', Some (JStr (pb_reservationId b))), (''captureId'', Some (JStr (pb_captureId b))),
     (''baseHead'', Some (JStr (pb_baseHead b))), (''transformVersion'', Some (JStr (pb_transformVersion b)))]"

definition partJson :: "publication_part \<Rightarrow> json" where
  "partJson p = obj [(''ordinal'', Some (JInt (pp_ordinal p))), (''bytes'', Some (JInt (pp_bytes p))),
     (''sha256'', Some (JStr (pp_sha256 p)))]"

definition manifestJson :: "publication_manifest \<Rightarrow> json" where
  "manifestJson m = obj [(''parts'', Some (JInt (pm_parts m))), (''bytes'', Some (JInt (pm_bytes m))),
     (''sha256'', Some (JStr (pm_sha256 m)))]"

definition activationJson :: "publication_activation \<Rightarrow> json" where
  "activationJson a = obj [(''head'', Some (JStr (av_head a))), (''sessionId'', Some (JStr (av_sessionId a))),
     (''captureId'', Some (JStr (av_captureId a))), (''baseHead'', Some (JStr (av_baseHead a))),
     (''fence'', Some (JInt (av_fence a))), (''transformVersion'', Some (JStr (av_transformVersion a))),
     (''manifest'', Some (manifestJson (av_manifest a))), (''activatedAt'', Some (JStr (av_activatedAt a)))]"

definition attemptJson :: "publication_attempt \<Rightarrow> json" where
  "attemptJson t = obj [(''id'', Some (JStr (tt_id t))), (''sessionId'', Some (JStr (tt_sessionId t))),
     (''captureId'', Some (JStr (tt_captureId t))), (''baseHead'', Some (JStr (tt_baseHead t))),
     (''transformVersion'', Some (JStr (tt_transformVersion t))), (''fence'', Some (JInt (tt_fence t))),
     (''leaseUntil'', Some (JStr (tt_leaseUntil t))), (''expiresAt'', Some (JStr (tt_expiresAt t))),
     (''state'', Some (literalsJson attemptStates (tt_state t))), (''parts'', Some (JInt (tt_parts t))),
     (''retainedBytes'', Some (JInt (tt_retainedBytes t))), (''seal'', Some (nullOrJson manifestJson (tt_seal t))),
     (''validatedParts'', Some (JInt (tt_validatedParts t))), (''retainedParts'', map_option JInt (tt_retainedParts t)),
     (''candidateEvents'', Some (JInt (tt_candidateEvents t))), (''candidateUsage'', Some (JInt (tt_candidateUsage t))),
     (''activation'', Some (nullOrJson activationJson (tt_activation t)))]"

definition limitsJson :: "publication_limits \<Rightarrow> json" where
  "limitsJson l = obj [(''partBytes'', Some (JInt (pl_partBytes l))), (''targetBytes'', Some (JInt (pl_targetBytes l))),
     (''userPendingBytes'', Some (JInt (pl_userPendingBytes l))), (''parts'', Some (JInt (pl_parts l))),
     (''reservations'', Some (JInt (pl_reservations l))), (''reservationLifetimeMs'', Some (JInt (pl_reservationLifetimeMs l))),
     (''leaseLifetimeMs'', Some (JInt (pl_leaseLifetimeMs l)))]"

definition capabilitiesJson :: "publication_capabilities \<Rightarrow> json" where
  "capabilitiesJson c = obj [(''protocol'', Some (JStr PublicationProtocol)), (''targetProfile'', Some (literalsJson targetProfiles Target1)),
     (''targetProfiles'', map_option (arrayJson (literalsJson targetProfiles)) (cb_targetProfiles c)),
     (''legacyAdoption'', map_option JBool (cb_legacyAdoption c)), (''limits'', Some (limitsJson (cb_limits c))),
     (''statusPageSize'', Some (JInt 100)), (''reclaimPageSize'', Some (JInt 32))]"

definition authorityJson :: "raw_authority \<Rightarrow> json" where
  "authorityJson a = obj [(''protocol'', Some (JStr RawPublicationProtocol)), (''teamRevision'', Some (JInt (ra_teamRevision a))),
     (''userRevision'', Some (JInt (ra_userRevision a)))]"

definition proofJson :: "raw_proof \<Rightarrow> json" where
  "proofJson p = obj [(''head'', Some (JStr (pf_head p))), (''authority'', Some (authorityJson (pf_authority p)))]"

definition metadataMembers :: "'a raw_metadata_scheme \<Rightarrow> (string \<times> json option) list" where
  "metadataMembers m = [(''sessionId'', Some (JStr (rn_sessionId m))), (''installationId'', Some (JStr (rn_installationId m))),
     (''adapterId'', Some (JStr (rn_adapterId m))), (''sourceObjectId'', Some (JStr (rn_sourceObjectId m))),
     (''sourceChunkId'', Some (JStr (rn_sourceChunkId m))), (''protocolVersion'', Some (JStr ''atape.raw.v1'')),
     (''sourceName'', Some (JStr (md_sourceName m))), (''mediaType'', Some (JStr (md_mediaType m))),
     (''adapterVersion'', Some (JStr (md_adapterVersion m))), (''capturedAt'', Some (JStr (md_capturedAt m))),
     (''clientRedacted'', Some (JBool True)), (''generation'', Some (JInt 1)), (''offset'', Some (JInt (md_offset m))),
     (''sha256'', Some (JStr (md_sha256 m))), (''final'', Some (JBool (md_final m))),
     (''publication'', Some (proofJson (md_publication m)))]"

definition chunkJson :: "raw_chunk \<Rightarrow> json" where
  "chunkJson c = obj (metadataMembers c @ [(''contentBase64'', Some (JStr (ch_contentBase64 c)))])"

definition receiptJson :: "raw_receipt \<Rightarrow> json" where
  "receiptJson r = obj (metadataMembers r @ [(''objectId'', Some (JStr (rt_objectId r))), (''sizeBytes'', Some (JInt (rt_sizeBytes r)))])"

section \<open>Schemas\<close>

definition decodeBinding :: "capture_binding decoder" where
  "decodeBinding j =
     Option.bind (required ''instanceOrigin'' publicationText j) (\<lambda>i.
     Option.bind (required ''userId'' publicationText j) (\<lambda>u.
     Option.bind (required ''installationId'' publicationText j) (\<lambda>n.
       Some \<lparr>bd_instanceOrigin = i, bd_userId = u, bd_installationId = n\<rparr>)))"

definition decodePublicationScope :: "publication_scope decoder" where
  "decodePublicationScope j =
     Option.bind (required ''projectId'' publicationText j) (\<lambda>p.
     Option.bind (required ''installationId'' publicationText j) (\<lambda>i.
     Option.bind (required ''adapterId'' publicationText j) (\<lambda>a.
     Option.bind (required ''sourceSessionId'' publicationText j) (\<lambda>s.
     Option.bind (required ''originKey'' publicationText j) (\<lambda>k.
       Some \<lparr>px_projectId = p, px_installationId = i, px_adapterId = a, px_sourceSessionId = s, px_originKey = k\<rparr>)))))"

definition decodeReservation :: "publication_reservation decoder" where
  "decodeReservation j =
     Option.bind (required ''id'' publicationText j) (\<lambda>i.
     Option.bind (required ''sessionId'' publicationText j) (\<lambda>s.
     Option.bind (required ''expiresAt'' timestampText j) (\<lambda>e. Some \<lparr>re_id = i, re_sessionId = s, re_expiresAt = e\<rparr>)))"

definition admitsAdoption :: "publication_adoption \<Rightarrow> bool" where
  "admitsAdoption a \<longleftrightarrow> nameText 500 (re_id a) \<and> nameText 500 (re_sessionId a) \<and>
     utf16_length (re_expiresAt a) \<le> 64 \<and> isoParts (re_expiresAt a) \<noteq> None \<and>
     0 \<le> la_revisionFloor a \<and> la_revisionFloor a \<le> max_safe_integer - 1 \<and> int (length (la_baselineThreads a)) \<le> 1000"

definition decodeBegin :: "publication_begin decoder" where
  "decodeBegin j =
     Option.bind (required ''reservationId'' publicationText j) (\<lambda>r.
     Option.bind (required ''captureId'' publicationText j) (\<lambda>c.
     Option.bind (required ''baseHead'' headText j) (\<lambda>h.
     Option.bind (required ''transformVersion'' publicationText j) (\<lambda>t.
       Some \<lparr>pb_reservationId = r, pb_captureId = c, pb_baseHead = h, pb_transformVersion = t\<rparr>))))"

definition decodePart :: "publication_part decoder" where
  "decodePart j =
     Option.bind (required ''ordinal'' (countIn 0 4095) j) (\<lambda>n.
     Option.bind (required ''bytes'' (countIn 1 (4 * 1024 * 1024)) j) (\<lambda>b.
     Option.bind (required ''sha256'' shaText j) (\<lambda>s. Some \<lparr>pp_ordinal = n, pp_bytes = b, pp_sha256 = s\<rparr>)))"

definition decodeManifest :: "publication_manifest decoder" where
  "decodeManifest j =
     Option.bind (required ''parts'' (countIn 1 4096) j) (\<lambda>n.
     Option.bind (required ''bytes'' (countIn 1 (1024 * 1024 * 1024)) j) (\<lambda>b.
     Option.bind (required ''sha256'' shaText j) (\<lambda>s. Some \<lparr>pm_parts = n, pm_bytes = b, pm_sha256 = s\<rparr>)))"

definition decodeActivation :: "publication_activation decoder" where
  "decodeActivation j =
     Option.bind (required ''head'' publicationText j) (\<lambda>h.
     Option.bind (required ''sessionId'' publicationText j) (\<lambda>s.
     Option.bind (required ''captureId'' publicationText j) (\<lambda>c.
     Option.bind (required ''baseHead'' headText j) (\<lambda>b.
     Option.bind (required ''fence'' (countIn 1 max_safe_integer) j) (\<lambda>f.
     Option.bind (required ''transformVersion'' publicationText j) (\<lambda>t.
     Option.bind (required ''manifest'' decodeManifest j) (\<lambda>m.
     Option.bind (required ''activatedAt'' timestampText j) (\<lambda>a.
       Some \<lparr>av_head = h, av_sessionId = s, av_captureId = c, av_baseHead = b, av_fence = f, av_transformVersion = t,
         av_manifest = m, av_activatedAt = a\<rparr>))))))))"

definition decodeAttempt :: "publication_attempt decoder" where
  "decodeAttempt j =
     Option.bind (required ''id'' publicationText j) (\<lambda>i.
     Option.bind (required ''sessionId'' publicationText j) (\<lambda>s.
     Option.bind (required ''captureId'' publicationText j) (\<lambda>c.
     Option.bind (required ''baseHead'' headText j) (\<lambda>b.
     Option.bind (required ''transformVersion'' publicationText j) (\<lambda>t.
     Option.bind (required ''fence'' (countIn 1 max_safe_integer) j) (\<lambda>f.
     Option.bind (required ''leaseUntil'' timestampText j) (\<lambda>l.
     Option.bind (required ''expiresAt'' timestampText j) (\<lambda>e.
     Option.bind (required ''state'' (literalsOf attemptStates) j) (\<lambda>st.
     Option.bind (required ''parts'' (countIn 0 4096) j) (\<lambda>p.
     Option.bind (required ''retainedBytes'' (countIn 0 (1024 * 1024 * 1024)) j) (\<lambda>rb.
     Option.bind (required ''seal'' (nullOr decodeManifest) j) (\<lambda>sl.
     Option.bind (required ''validatedParts'' (countIn 0 4096) j) (\<lambda>v.
     Option.bind (optionalKey ''retainedParts'' (countIn 0 4096) j) (\<lambda>rp.
     Option.bind (required ''candidateEvents'' (countIn 0 max_safe_integer) j) (\<lambda>ce.
     Option.bind (required ''candidateUsage'' (countIn 0 max_safe_integer) j) (\<lambda>cu.
     Option.bind (required ''activation'' (nullOr decodeActivation) j) (\<lambda>a.
       Some \<lparr>tt_id = i, tt_sessionId = s, tt_captureId = c, tt_baseHead = b, tt_transformVersion = t, tt_fence = f,
         tt_leaseUntil = l, tt_expiresAt = e, tt_state = st, tt_parts = p, tt_retainedBytes = rb, tt_seal = sl,
         tt_validatedParts = v, tt_retainedParts = rp, tt_candidateEvents = ce, tt_candidateUsage = cu, tt_activation = a\<rparr>)))))))))))))))))"

definition decodeLimits :: "publication_limits decoder" where
  "decodeLimits j =
     Option.bind (required ''partBytes'' (countIn 1 (4 * 1024 * 1024)) j) (\<lambda>pb.
     Option.bind (required ''targetBytes'' (countIn 1 (1024 * 1024 * 1024)) j) (\<lambda>tb.
     Option.bind (required ''userPendingBytes'' (countIn 1 (16 * 1024 * 1024 * 1024)) j) (\<lambda>ub.
     Option.bind (required ''parts'' (countIn 1 4096) j) (\<lambda>p.
     Option.bind (required ''reservations'' (countIn 1 128) j) (\<lambda>r.
     Option.bind (required ''reservationLifetimeMs'' (countIn 1 (24 * 60 * 60 * 1000)) j) (\<lambda>rl.
     Option.bind (required ''leaseLifetimeMs'' (countIn 1 (60 * 60 * 1000)) j) (\<lambda>ll.
       Some \<lparr>pl_partBytes = pb, pl_targetBytes = tb, pl_userPendingBytes = ub, pl_parts = p, pl_reservations = r,
         pl_reservationLifetimeMs = rl, pl_leaseLifetimeMs = ll\<rparr>)))))))"

definition decodePublicationCapabilities :: "publication_capabilities decoder" where
  "decodePublicationCapabilities j =
     Option.bind (required ''protocol'' (literalText PublicationProtocol) j) (\<lambda>_.
     Option.bind (required ''targetProfile'' (literalText ''atape.publication-target.v1'') j) (\<lambda>_.
     Option.bind (optionalKey ''targetProfiles'' (checkedBy (\<lambda>ps. length ps \<le> 5) (arrayOf (literalsOf targetProfiles))) j) (\<lambda>ps.
     Option.bind (optionalKey ''legacyAdoption'' asBool j) (\<lambda>la.
     Option.bind (required ''limits'' decodeLimits j) (\<lambda>l.
     Option.bind (required ''statusPageSize'' (countIn 100 100) j) (\<lambda>_.
     Option.bind (required ''reclaimPageSize'' (countIn 32 32) j) (\<lambda>_.
       Some \<lparr>cb_targetProfiles = ps, cb_legacyAdoption = la, cb_limits = l\<rparr>)))))))"

definition decodeAuthority :: "raw_authority decoder" where
  "decodeAuthority j =
     Option.bind (required ''protocol'' (literalText RawPublicationProtocol) j) (\<lambda>_.
     Option.bind (required ''teamRevision'' (countIn 1 max_safe_integer) j) (\<lambda>t.
     Option.bind (required ''userRevision'' (countIn 0 max_safe_integer) j) (\<lambda>u.
       Some \<lparr>ra_teamRevision = t, ra_userRevision = u\<rparr>)))"

definition rawText :: "string decoder" where
  "rawText = checkedBy (nameText 512) asString"

definition rawTimestamp :: "string \<Rightarrow> bool" where
  "rawTimestamp v = (case isoParts v of None \<Rightarrow> False | Some t \<Rightarrow> endsWith ''Z'' v \<and> length (it_fraction t) \<le> 6)"

definition decodeProof :: "raw_proof decoder" where
  "decodeProof j =
     Option.bind (required ''head'' rawText j) (\<lambda>h.
     Option.bind (required ''authority'' decodeAuthority j) (\<lambda>a. Some \<lparr>pf_head = h, pf_authority = a\<rparr>))"

definition decodeRawMetadata :: "raw_metadata decoder" where
  "decodeRawMetadata j =
     Option.bind (required ''sessionId'' rawText j) (\<lambda>s.
     Option.bind (required ''installationId'' rawText j) (\<lambda>i.
     Option.bind (required ''adapterId'' rawText j) (\<lambda>a.
     Option.bind (required ''sourceObjectId'' rawText j) (\<lambda>ob.
     Option.bind (required ''sourceChunkId'' rawText j) (\<lambda>c.
     Option.bind (required ''protocolVersion'' (literalText ''atape.raw.v1'') j) (\<lambda>_.
     Option.bind (required ''sourceName'' rawText j) (\<lambda>n.
     Option.bind (required ''mediaType'' rawText j) (\<lambda>m.
     Option.bind (required ''adapterVersion'' rawText j) (\<lambda>v.
     Option.bind (required ''capturedAt'' (checkedBy rawTimestamp asString) j) (\<lambda>t.
     Option.bind (required ''clientRedacted'' (checkedBy (\<lambda>b. b) asBool) j) (\<lambda>_.
     Option.bind (required ''generation'' (countIn 1 1) j) (\<lambda>_.
     Option.bind (required ''offset'' (countIn 0 max_safe_integer) j) (\<lambda>off.
     Option.bind (required ''sha256'' shaText j) (\<lambda>d.
     Option.bind (required ''final'' asBool j) (\<lambda>f.
     Option.bind (required ''publication'' decodeProof j) (\<lambda>p.
       Some \<lparr>rn_sessionId = s, rn_installationId = i, rn_adapterId = a, rn_sourceObjectId = ob, rn_sourceChunkId = c,
         md_sourceName = n, md_mediaType = m, md_adapterVersion = v, md_capturedAt = t, md_offset = off, md_sha256 = d,
         md_final = f, md_publication = p\<rparr>))))))))))))))))"

text \<open>The alphabet and the pattern of padded Base64.\<close>

definition isBase64Char :: "char \<Rightarrow> bool" where
  "isBase64Char c \<longleftrightarrow> (65 \<le> code c \<and> code c \<le> 90) \<or> (97 \<le> code c \<and> code c \<le> 122) \<or> isDigit c \<or> c = CHR ''+'' \<or> c = CHR ''/''"

fun base64Shape :: "string \<Rightarrow> bool" where
  "base64Shape [] = True"
| "base64Shape [a, b, c, d] = (isBase64Char a \<and> isBase64Char b \<and>
     ((isBase64Char c \<and> isBase64Char d) \<or> (isBase64Char c \<and> d = CHR ''='') \<or> (c = CHR ''='' \<and> d = CHR ''='')))"
| "base64Shape (a # b # c # d # r) = (isBase64Char a \<and> isBase64Char b \<and> isBase64Char c \<and> isBase64Char d \<and> base64Shape r)"
| "base64Shape _ = False"

definition decodeChunk :: "raw_chunk decoder" where
  "decodeChunk j =
     Option.bind (decodeRawMetadata j) (\<lambda>m.
     Option.bind (required ''contentBase64'' (checkedBy (\<lambda>v. int (utf16_length v) \<le> 4 * 1024 * 1024 \<and> base64Shape v) asString) j) (\<lambda>c.
       Some (raw_metadata.extend m \<lparr>ch_contentBase64 = c\<rparr>)))"

end
