(* ===== verification/PublicationCodecs.thy ===== *)
theory PublicationCodecs
  imports Publication
begin

text \<open>Every schema of the publication protocol that the delivery stores and reads again is a codec for
  the values the schema admits.\<close>

lemma field_checks [codec_simps]:
  "publicationText (JStr v) = (if nameText 500 v then Some v else None)"
  "rawText (JStr v) = (if nameText 512 v then Some v else None)"
  "headText (JStr v) = (if utf16_length v \<le> 200 then Some v else None)"
  "shaText (JStr v) = (if isSha256Hex v then Some v else None)"
  "timestampText (JStr v) = (if utf16_length v \<le> 64 \<and> isoParts v \<noteq> None then Some v else None)"
  "countIn low high (JInt n) = (if low \<le> n \<and> n \<le> high then Some n else None)"
  "literalText s (JStr v) = (if v = s then Some () else None)"
  by (simp_all add: publicationText_def rawText_def headText_def shaText_def timestampText_def countIn_def literalText_def checkedBy_def)

definition admitsTimestamp :: "string \<Rightarrow> bool" where
  "admitsTimestamp v \<longleftrightarrow> utf16_length v \<le> 64 \<and> isoParts v \<noteq> None"

definition admitsBinding :: "capture_binding \<Rightarrow> bool" where
  "admitsBinding b \<longleftrightarrow> nameText 500 (bd_instanceOrigin b) \<and> nameText 500 (bd_userId b) \<and> nameText 500 (bd_installationId b)"

definition admitsScope :: "publication_scope \<Rightarrow> bool" where
  "admitsScope s \<longleftrightarrow> nameText 500 (px_projectId s) \<and> nameText 500 (px_installationId s) \<and> nameText 500 (px_adapterId s) \<and>
     nameText 500 (px_sourceSessionId s) \<and> nameText 500 (px_originKey s)"

definition admitsBegin :: "publication_begin \<Rightarrow> bool" where
  "admitsBegin b \<longleftrightarrow> nameText 500 (pb_reservationId b) \<and> nameText 500 (pb_captureId b) \<and> utf16_length (pb_baseHead b) \<le> 200 \<and>
     nameText 500 (pb_transformVersion b)"

definition admitsPart :: "publication_part \<Rightarrow> bool" where
  "admitsPart p \<longleftrightarrow> 0 \<le> pp_ordinal p \<and> pp_ordinal p \<le> 4095 \<and> 1 \<le> pp_bytes p \<and> pp_bytes p \<le> 4 * 1024 * 1024 \<and> isSha256Hex (pp_sha256 p)"

definition admitsManifest :: "publication_manifest \<Rightarrow> bool" where
  "admitsManifest m \<longleftrightarrow> 1 \<le> pm_parts m \<and> pm_parts m \<le> 4096 \<and> 1 \<le> pm_bytes m \<and> pm_bytes m \<le> 1024 * 1024 * 1024 \<and> isSha256Hex (pm_sha256 m)"

definition admitsActivation :: "publication_activation \<Rightarrow> bool" where
  "admitsActivation a \<longleftrightarrow> nameText 500 (av_head a) \<and> nameText 500 (av_sessionId a) \<and> nameText 500 (av_captureId a) \<and>
     utf16_length (av_baseHead a) \<le> 200 \<and> 1 \<le> av_fence a \<and> av_fence a \<le> max_safe_integer \<and>
     nameText 500 (av_transformVersion a) \<and> admitsManifest (av_manifest a) \<and> admitsTimestamp (av_activatedAt a)"

definition admitsAttempt :: "publication_attempt \<Rightarrow> bool" where
  "admitsAttempt t \<longleftrightarrow> nameText 500 (tt_id t) \<and> nameText 500 (tt_sessionId t) \<and> nameText 500 (tt_captureId t) \<and>
     utf16_length (tt_baseHead t) \<le> 200 \<and> nameText 500 (tt_transformVersion t) \<and> 1 \<le> tt_fence t \<and> tt_fence t \<le> max_safe_integer \<and>
     admitsTimestamp (tt_leaseUntil t) \<and> admitsTimestamp (tt_expiresAt t) \<and> 0 \<le> tt_parts t \<and> tt_parts t \<le> 4096 \<and>
     0 \<le> tt_retainedBytes t \<and> tt_retainedBytes t \<le> 1024 * 1024 * 1024 \<and> pred_option admitsManifest (tt_seal t) \<and>
     0 \<le> tt_validatedParts t \<and> tt_validatedParts t \<le> 4096 \<and> pred_option (\<lambda>n. 0 \<le> n \<and> n \<le> 4096) (tt_retainedParts t) \<and>
     0 \<le> tt_candidateEvents t \<and> tt_candidateEvents t \<le> max_safe_integer \<and> 0 \<le> tt_candidateUsage t \<and>
     tt_candidateUsage t \<le> max_safe_integer \<and> pred_option admitsActivation (tt_activation t)"

definition admitsLimits :: "publication_limits \<Rightarrow> bool" where
  "admitsLimits l \<longleftrightarrow> 1 \<le> pl_partBytes l \<and> pl_partBytes l \<le> 4 * 1024 * 1024 \<and> 1 \<le> pl_targetBytes l \<and> pl_targetBytes l \<le> 1024 * 1024 * 1024 \<and>
     1 \<le> pl_userPendingBytes l \<and> pl_userPendingBytes l \<le> 16 * 1024 * 1024 * 1024 \<and> 1 \<le> pl_parts l \<and> pl_parts l \<le> 4096 \<and>
     1 \<le> pl_reservations l \<and> pl_reservations l \<le> 128 \<and> 1 \<le> pl_reservationLifetimeMs l \<and>
     pl_reservationLifetimeMs l \<le> 24 * 60 * 60 * 1000 \<and> 1 \<le> pl_leaseLifetimeMs l \<and> pl_leaseLifetimeMs l \<le> 60 * 60 * 1000"

definition admitsCapabilities :: "publication_capabilities \<Rightarrow> bool" where
  "admitsCapabilities c \<longleftrightarrow> pred_option (\<lambda>ps. length ps \<le> 5) (cb_targetProfiles c) \<and> admitsLimits (cb_limits c)"

definition admitsAuthority :: "raw_authority \<Rightarrow> bool" where
  "admitsAuthority a \<longleftrightarrow> 1 \<le> ra_teamRevision a \<and> ra_teamRevision a \<le> max_safe_integer \<and> 0 \<le> ra_userRevision a \<and> ra_userRevision a \<le> max_safe_integer"

interpretation binding_codec: codec bindingJson decodeBinding admitsBinding
  by unfold_locales (simp add: bindingJson_def decodeBinding_def admitsBinding_def codec_simps)

interpretation publication_scope_codec: codec scopeJson decodePublicationScope admitsScope
  by unfold_locales (simp add: scopeJson_def decodePublicationScope_def admitsScope_def codec_simps)

interpretation begin_codec: codec beginJson decodeBegin admitsBegin
  by unfold_locales (simp add: beginJson_def decodeBegin_def admitsBegin_def codec_simps)

interpretation part_codec: codec partJson decodePart admitsPart
  by unfold_locales (simp add: partJson_def decodePart_def admitsPart_def codec_simps)

interpretation manifest_codec: codec manifestJson decodeManifest admitsManifest
  by unfold_locales (simp add: manifestJson_def decodeManifest_def admitsManifest_def codec_simps)

interpretation activation_codec: codec activationJson decodeActivation admitsActivation
  by unfold_locales
    (simp add: activationJson_def decodeActivation_def admitsActivation_def admitsTimestamp_def codec_simps manifest_codec.decode_encode)

interpretation limits_codec: codec limitsJson decodeLimits admitsLimits
  by unfold_locales (simp add: limitsJson_def decodeLimits_def admitsLimits_def codec_simps)

interpretation authority_codec: codec authorityJson decodeAuthority admitsAuthority
  by unfold_locales (simp add: authorityJson_def decodeAuthority_def admitsAuthority_def codec_simps)

interpretation target_codec: codec "literalsJson targetProfiles" "literalsOf targetProfiles" "\<lambda>_. True"
proof
  fix p :: target_profile
  show "literalsOf targetProfiles (literalsJson targetProfiles p) = Some p"
    by (rule literals_roundtrip) (cases p; simp add: targetProfiles_def)+
qed

interpretation state_codec: codec "literalsJson attemptStates" "literalsOf attemptStates" "\<lambda>_. True"
proof
  fix s :: attempt_state
  show "literalsOf attemptStates (literalsJson attemptStates s) = Some s"
    by (rule literals_roundtrip) (cases s; simp add: attemptStates_def)+
qed

lemma checkedBy_codec: "dec (enc x) = Some x \<Longrightarrow> P x \<Longrightarrow> checkedBy P dec (enc x) = Some x"
  by (simp add: checkedBy_def)

lemma member_in_range [codec_simps]:
  "pred_option (\<lambda>n. low \<le> n \<and> n \<le> high) v \<Longrightarrow> memberOf (countIn low high) (map_option (\<lambda>x. JInt x) v) = Some v"
  by (cases v) (simp_all add: field_checks)

lemma objects_not_null [simp]: "obj ms \<noteq> JNull"
  by (simp add: obj_def)

interpretation attempt_codec: codec attemptJson decodeAttempt admitsAttempt
proof
  fix t assume "admitsAttempt t"
  moreover have "nullOr decodeManifest (nullOrJson manifestJson s) = Some s" if "pred_option admitsManifest s" for s
    using that by (rule manifest_codec.option_admitted_roundtrip) (simp add: manifestJson_def)
  moreover have "nullOr decodeActivation (nullOrJson activationJson s) = Some s" if "pred_option admitsActivation s" for s
    using that by (rule activation_codec.option_admitted_roundtrip) (simp add: activationJson_def)
  ultimately show "decodeAttempt (attemptJson t) = Some t"
    by (simp add: attemptJson_def decodeAttempt_def admitsAttempt_def admitsTimestamp_def codec_simps state_codec.decode_encode)
qed

interpretation capabilities_codec: codec capabilitiesJson decodePublicationCapabilities admitsCapabilities
proof
  fix c assume c: "admitsCapabilities c"
  have "memberOf (checkedBy (\<lambda>ps. length ps \<le> 5) (arrayOf (literalsOf targetProfiles)))
      (map_option (arrayJson (literalsJson targetProfiles)) v) = Some v" if "pred_option (\<lambda>ps. length ps \<le> 5) v" for v
    using that target_codec.array_roundtrip by (cases v) (auto simp: checkedBy_def)
  with c show "decodePublicationCapabilities (capabilitiesJson c) = Some c"
    by (simp add: capabilitiesJson_def decodePublicationCapabilities_def admitsCapabilities_def codec_simps targetProfiles_def literalsJson_def literalText_def
        limits_codec.decode_encode flag_codec.member_roundtrip)
qed

end
