(* ===== verification/PublicationService.thy ===== *)
theory PublicationService
  imports PublicationCodecs JournalHistory
begin

text \<open>The services the publication delivery composes: the local journal, the remote publication and Raw
  transports (packages/application/src/rawPublicationTransport.ts and the transport interface of
  publicationDelivery.ts) and the admission of the current redaction policy
  (packages/application/src/collectorRedactionPolicy.ts).

  An effect maps the world to the world it leaves and to a failure or a value; what happened
  before a failure stays.  The remote services are parameters: functions on a state of
  their own.  The world keeps the list of remote calls made so far, which only statements about the
  program read.\<close>

section \<open>Failures\<close>

datatype publication_reason =
    PInvalid | PBinding | PInvalidResponse | PUnauthenticated | PNetwork | PUnknown | PExpired | PSuperseded
  | PConflict | PCapacity | PUnavailable

datatype raw_reason =
    RInvalid | RBinding | RInvalidResponse | RUnauthenticated | RNetwork | RUnknown | RDisabled | RAuthorityChanged
  | RConflict | RUnavailable

datatype delivery_error =
    PublicationFailure publication_reason
  | JournalFailure journal_reason
  | PolicyFailure
  | RawFailure raw_reason

section \<open>The world\<close>

datatype remote_call =
    CallCapabilities
  | CallReservation publication_scope
  | CallAdoptLegacy publication_scope
  | CallBegin publication_begin
  | CallStatus string
  | CallPut string publication_part bytes
  | CallSealRemote string publication_manifest
  | CallValidate string
  | CallRenew string
  | CallReject string
  | CallActivate string
  | CallPolicy string
  | CallReceipt raw_identity
  | CallAppendRaw bytes

record 'r world =
  wd_journal :: journal_db
  wd_remote :: 'r
  wd_calls :: "remote_call list"

type_synonym ('r, 'a) effect = "'r world \<Rightarrow> 'r world \<times> (delivery_error + 'a)"
type_synonym ('r, 'e, 'a) service = "'r \<Rightarrow> 'r \<times> ('e + 'a)"

record 'r transport =
  tr_capabilities :: "capture_binding \<Rightarrow> ('r, publication_reason, publication_capabilities) service"
  tr_reserve :: "capture_binding \<Rightarrow> publication_scope \<Rightarrow> ('r, publication_reason, publication_reservation) service"
  tr_adoptLegacy :: "capture_binding \<Rightarrow> publication_scope \<Rightarrow> ('r, publication_reason, publication_adoption) service"
  tr_begin :: "capture_binding \<Rightarrow> publication_begin \<Rightarrow> ('r, publication_reason, publication_attempt) service"
  tr_status :: "capture_binding \<Rightarrow> string \<Rightarrow> ('r, publication_reason, publication_attempt) service"
  tr_put :: "capture_binding \<Rightarrow> string \<Rightarrow> publication_part \<Rightarrow> bytes \<Rightarrow> ('r, publication_reason, publication_part) service"
  tr_seal :: "capture_binding \<Rightarrow> string \<Rightarrow> publication_manifest \<Rightarrow> ('r, publication_reason, publication_attempt) service"
  tr_validate :: "capture_binding \<Rightarrow> string \<Rightarrow> ('r, publication_reason, publication_attempt) service"
  tr_renew :: "capture_binding \<Rightarrow> string \<Rightarrow> ('r, publication_reason, publication_attempt) service"
  tr_reject :: "capture_binding \<Rightarrow> string \<Rightarrow> ('r, publication_reason, publication_attempt) service"
  tr_activate :: "capture_binding \<Rightarrow> string \<Rightarrow> ('r, publication_reason, publication_activation) service"
  tr_policy :: "capture_binding \<Rightarrow> string \<Rightarrow> ('r, raw_reason, raw_policy) service"
  tr_receipt :: "capture_binding \<Rightarrow> raw_identity \<Rightarrow> ('r, raw_reason, raw_receipt) service"
  tr_append :: "capture_binding \<Rightarrow> bytes \<Rightarrow> ('r, raw_reason, raw_receipt) service"

text \<open>What the Host pins for a job: the hash, the journal's limits and binding, and the policy identity of the redactor.\<close>

record host =
  ho_sha :: sha256
  ho_limits :: journal_limits
  ho_binding :: capture_binding
  ho_policyId :: "string option"

section \<open>Effects\<close>

definition returnW :: "'a \<Rightarrow> ('r, 'a) effect" where
  "returnW x w = (w, Inr x)"

definition failW :: "delivery_error \<Rightarrow> ('r, 'a) effect" where
  "failW e w = (w, Inl e)"

definition bindW :: "('r, 'a) effect \<Rightarrow> ('a \<Rightarrow> ('r, 'b) effect) \<Rightarrow> ('r, 'b) effect" where
  "bindW m k w = (case m w of (w', Inl e) \<Rightarrow> (w', Inl e) | (w', Inr x) \<Rightarrow> k x w')"

definition checkW :: "delivery_error + 'a \<Rightarrow> ('r, 'a) effect" where
  "checkW c w = (w, c)"

definition catchW :: "(delivery_error \<Rightarrow> ('r, 'a) effect option) \<Rightarrow> ('r, 'a) effect \<Rightarrow> ('r, 'a) effect" where
  "catchW handler m w = (case m w of
       (w', Inr x) \<Rightarrow> (w', Inr x)
     | (w', Inl e) \<Rightarrow> (case handler e of None \<Rightarrow> (w', Inl e) | Some k \<Rightarrow> k w'))"

definition journalW :: "(journal_db \<Rightarrow> 'a work) \<Rightarrow> ('r, 'a) effect" where
  "journalW f w = (let (db, res) = transaction f (wd_journal w) in
     (w\<lparr>wd_journal := db\<rparr>, map_sum JournalFailure (\<lambda>x. x) res))"

definition remoteW :: "('e \<Rightarrow> delivery_error) \<Rightarrow> remote_call \<Rightarrow> ('r, 'e, 'a) service \<Rightarrow> ('r, 'a) effect" where
  "remoteW fail call service w = (let (r, res) = service (wd_remote w) in
     (w\<lparr>wd_remote := r, wd_calls := wd_calls w @ [call]\<rparr>, map_sum fail (\<lambda>x. x) res))"

abbreviation publicationW :: "remote_call \<Rightarrow> ('r, publication_reason, 'a) service \<Rightarrow> ('r, 'a) effect" where
  "publicationW \<equiv> remoteW PublicationFailure"

abbreviation rawW :: "remote_call \<Rightarrow> ('r, raw_reason, 'a) service \<Rightarrow> ('r, 'a) effect" where
  "rawW \<equiv> remoteW RawFailure"

lemma bindW_cong [fundef_cong]:
  "m = m' \<Longrightarrow> (\<And>x. k x = k' x) \<Longrightarrow> bindW m k = bindW m' k'"
  by presburger

section \<open>Redaction policy\<close>

definition redactionTransformVersion :: "string option \<Rightarrow> string" where
  "redactionTransformVersion p = (case p of
       None \<Rightarrow> ''atape.host-redaction.v1'' | Some i \<Rightarrow> ''atape.host-redaction.v2:'' @ i)"

definition currentRedactionTransform :: "host \<Rightarrow> string option" where
  "currentRedactionTransform h = (case ho_policyId h of None \<Rightarrow> None | Some i \<Rightarrow> Some (redactionTransformVersion (Some i)))"

definition admitRedactionTransform :: "host \<Rightarrow> string \<Rightarrow> delivery_error + unit" where
  "admitRedactionTransform h t = (case currentRedactionTransform h of
       None \<Rightarrow> (if startsWith ''atape.host-redaction.v2:'' t then Inl PolicyFailure else Inr ())
     | Some c \<Rightarrow> (if t \<noteq> c then Inl PolicyFailure else Inr ()))"

section \<open>Relations every effect keeps\<close>

definition always :: "('r world \<Rightarrow> 'r world \<Rightarrow> bool) \<Rightarrow> ('r, 'a) effect \<Rightarrow> bool" where
  "always R m \<longleftrightarrow> (\<forall>w. R w (fst (m w)))"

text \<open>A relation between worlds that composes: what holds of every single effect holds of a program built from them.\<close>

locale world_relation =
  fixes R :: "'r world \<Rightarrow> 'r world \<Rightarrow> bool"
  assumes same: "R w w" and compose: "R u v \<Longrightarrow> R v w \<Longrightarrow> R u w"
begin

lemma always_return: "always R (returnW x)"
  by (simp add: always_def returnW_def same)

lemma always_fail: "always R (failW e)"
  by (simp add: always_def failW_def same)

lemma always_check: "always R (checkW c)"
  by (simp add: always_def checkW_def same)

lemma always_bind:
  assumes "always R m" "\<And>w w' x. m w = (w', Inr x) \<Longrightarrow> always R (k x)"
  shows "always R (bindW m k)"
  unfolding always_def
proof
  fix w
  obtain w' res where m: "m w = (w', res)" by fastforce
  then have "R w w'" using assms(1) by (metis always_def fst_conv)
  then show "R w (fst (bindW m k w))"
    using m assms(2)[of w w'] compose by (cases res) (auto simp: bindW_def always_def)
qed

lemma always_catch:
  assumes "always R m" "\<And>e k. handler e = Some k \<Longrightarrow> always R k"
  shows "always R (catchW handler m)"
  unfolding always_def
proof
  fix w
  obtain w' res where m: "m w = (w', res)" by fastforce
  then have "R w w'" using assms(1) by (metis always_def fst_conv)
  then show "R w (fst (catchW handler m w))"
    using m assms(2) compose by (cases res) (auto simp: catchW_def always_def split: option.split)
qed

lemma always_if: "(b \<Longrightarrow> always R m) \<Longrightarrow> (\<not> b \<Longrightarrow> always R n) \<Longrightarrow> always R (if b then m else n)"
  by simp

lemma always_option: "(v = None \<Longrightarrow> always R m) \<Longrightarrow> (\<And>x. v = Some x \<Longrightarrow> always R (k x)) \<Longrightarrow>
    always R (case v of None \<Rightarrow> m | Some x \<Rightarrow> k x)"
  by (cases v) simp_all

lemma always_local:
  assumes "\<And>db db' x. f db = Inr (db', x) \<Longrightarrow> db' = db"
  shows "always R (journalW f)"
proof -
  have "fst (journalW f w) = w" for w :: "'r world"
    using assms by (auto simp: journalW_def transaction_def Let_def split: sum.split)
  then show ?thesis by (simp add: always_def same)
qed

end

end
