(* ===== verification/PublicationCapture.thy ===== *)
theory PublicationCapture
  imports PublicationService
begin

text \<open>Reserving, preparing and sealing publication captures
  (packages/application/src/publicationDelivery.ts): the durable intent and seal, the checks of remote
  attempts and activation receipts against them, beginPublicationCapture, the preparation contexts,
  the manifest of the prepared units and sealPublicationCapture.\<close>

section \<open>Durable metadata\<close>

record publication_intent =
  in_binding :: capture_binding
  in_scope :: publication_scope
  in_sessionId :: string
  in_begin :: publication_begin
  in_capabilities :: publication_capabilities
  in_target3 :: bool
  in_target4 :: bool
  in_target5 :: bool
  in_adoption :: "int option"
  in_rawAuthority :: "raw_authority option"

record publication_seal =
  ps_fence :: int
  ps_manifest :: publication_manifest

definition targetMember :: "target_profile \<Rightarrow> bool \<Rightarrow> json option" where
  "targetMember p present = (if present then Some (literalsJson targetProfiles p) else None)"

definition intentJson :: "publication_intent \<Rightarrow> json" where
  "intentJson i = obj [(''protocol'', Some (JStr PublicationProtocol)), (''binding'', Some (bindingJson (in_binding i))),
     (''scope'', Some (scopeJson (in_scope i))), (''sessionId'', Some (JStr (in_sessionId i))),
     (''begin'', Some (beginJson (in_begin i))), (''capabilities'', Some (capabilitiesJson (in_capabilities i))),
     (''targetProfileV3'', targetMember Target3 (in_target3 i)), (''targetProfileV4'', targetMember Target4 (in_target4 i)),
     (''targetProfileV5'', targetMember Target5 (in_target5 i)),
     (''adoption'', map_option (\<lambda>n. obj [(''revisionFloor'', Some (JInt n))]) (in_adoption i)),
     (''rawAuthority'', map_option authorityJson (in_rawAuthority i))]"

definition optionalTarget :: "string \<Rightarrow> string \<Rightarrow> bool decoder" where
  "optionalTarget key name j = map_option (\<lambda>v. v \<noteq> None) (optionalKey key (literalText name) j)"

definition decodeIntent :: "publication_intent decoder" where
  "decodeIntent j =
     Option.bind (required ''protocol'' (literalText PublicationProtocol) j) (\<lambda>_.
     Option.bind (required ''binding'' decodeBinding j) (\<lambda>b.
     Option.bind (required ''scope'' decodePublicationScope j) (\<lambda>s.
     Option.bind (required ''sessionId'' asString j) (\<lambda>i.
     Option.bind (required ''begin'' decodeBegin j) (\<lambda>bg.
     Option.bind (required ''capabilities'' decodePublicationCapabilities j) (\<lambda>c.
     Option.bind (optionalTarget ''targetProfileV3'' ''atape.publication-target.v3'' j) (\<lambda>t3.
     Option.bind (optionalTarget ''targetProfileV4'' ''atape.publication-target.v4'' j) (\<lambda>t4.
     Option.bind (optionalTarget ''targetProfileV5'' ''atape.publication-target.v5'' j) (\<lambda>t5.
     Option.bind (optionalKey ''adoption'' (required ''revisionFloor'' (countIn 0 (max_safe_integer - 1))) j) (\<lambda>ad.
     Option.bind (optionalKey ''rawAuthority'' decodeAuthority j) (\<lambda>ra.
       Some \<lparr>in_binding = b, in_scope = s, in_sessionId = i, in_begin = bg, in_capabilities = c, in_target3 = t3,
         in_target4 = t4, in_target5 = t5, in_adoption = ad, in_rawAuthority = ra\<rparr>)))))))))))"

definition publicationSealJson :: "publication_seal \<Rightarrow> json" where
  "publicationSealJson s = obj [(''protocol'', Some (JStr PublicationProtocol)), (''fence'', Some (JInt (ps_fence s))),
     (''manifest'', Some (manifestJson (ps_manifest s)))]"

definition decodePublicationSeal :: "publication_seal decoder" where
  "decodePublicationSeal j =
     Option.bind (required ''protocol'' (literalText PublicationProtocol) j) (\<lambda>_.
     Option.bind (required ''fence'' (countIn 1 max_safe_integer) j) (\<lambda>f.
     Option.bind (required ''manifest'' decodeManifest j) (\<lambda>m. Some \<lparr>ps_fence = f, ps_manifest = m\<rparr>)))"

definition decodeP :: "'a decoder \<Rightarrow> json \<Rightarrow> delivery_error + 'a" where
  "decodeP dec j = fromOption (PublicationFailure PInvalidResponse) (dec j)"

definition parseP :: "'a decoder \<Rightarrow> string \<Rightarrow> delivery_error + 'a" where
  "parseP dec s = bindE (fromOption (PublicationFailure PInvalid) (parseJson s)) (decodeP dec)"

definition requireP :: "bool \<Rightarrow> publication_reason \<Rightarrow> delivery_error + unit" where
  "requireP ok e = (if ok then Inr () else Inl (PublicationFailure e))"

section \<open>Checks\<close>

definition checkIntentBinding :: "host \<Rightarrow> capture_owner \<Rightarrow> publication_intent \<Rightarrow> string \<Rightarrow> delivery_error + publication_intent" where
  "checkIntentBinding h owner i cid =
     (let b = ho_binding h; s = ow_scope owner in
      bindE (requireP (bd_instanceOrigin (in_binding i) = bd_instanceOrigin b \<and> bd_userId (in_binding i) = bd_userId b \<and>
        bd_installationId (in_binding i) = bd_installationId b \<and> px_installationId (in_scope i) = bd_installationId b \<and>
        px_projectId (in_scope i) = cs_projectId s \<and> px_adapterId (in_scope i) = cs_adapterId s \<and>
        px_sourceSessionId (in_scope i) = cs_sourceSessionId s \<and> px_originKey (in_scope i) = cs_originKey s \<and>
        pb_captureId (in_begin i) = cid) PBinding) (\<lambda>_. Inr i))"

definition boundIntent :: "host \<Rightarrow> capture_owner \<Rightarrow> capture_summary \<Rightarrow> delivery_error + publication_intent" where
  "boundIntent h owner c =
     bindE (requireP (sm_purpose c = Publication) PInvalid) (\<lambda>_.
     bindE (parseP decodeIntent (sm_beginJson c)) (\<lambda>i. checkIntentBinding h owner i (sm_id c)))"

text \<open>The identity of an attempt and, once sealed locally, its fence and manifest.\<close>

definition sameAttempt :: "publication_intent \<Rightarrow> publication_attempt \<Rightarrow> publication_seal option \<Rightarrow> bool" where
  "sameAttempt i t frozen \<longleftrightarrow> tt_id t = pb_reservationId (in_begin i) \<and> tt_sessionId t = in_sessionId i \<and>
     tt_captureId t = pb_captureId (in_begin i) \<and> tt_baseHead t = pb_baseHead (in_begin i) \<and>
     tt_transformVersion t = pb_transformVersion (in_begin i) \<and>
     (case frozen of None \<Rightarrow> True | Some s \<Rightarrow> tt_fence t = ps_fence s \<and> (tt_seal t = None \<or> tt_seal t = Some (ps_manifest s)))"

definition consistentAttempt :: "publication_attempt \<Rightarrow> bool" where
  "consistentAttempt t \<longleftrightarrow> (tt_state t = AttemptActivated) = (tt_activation t \<noteq> None) \<and>
     \<not> (tt_state t \<in> {AttemptSealed, AttemptValidating, AttemptValidated, AttemptActivated} \<and> tt_seal t = None) \<and>
     (case tt_seal t of None \<Rightarrow> True | Some m \<Rightarrow> tt_validatedParts t \<le> pm_parts m) \<and>
     (case tt_seal t of None \<Rightarrow> True | Some m \<Rightarrow> tt_state t \<in> {AttemptValidated, AttemptActivated} \<longrightarrow> tt_validatedParts t = pm_parts m) \<and>
     \<not> (tt_state t = AttemptOpen \<and> tt_validatedParts t \<noteq> 0)"

definition checkAttempt :: "publication_intent \<Rightarrow> publication_seal option \<Rightarrow> publication_attempt \<Rightarrow> delivery_error + publication_attempt" where
  "checkAttempt i frozen t =
     bindE (requireP (sameAttempt i t frozen) PInvalidResponse) (\<lambda>_.
     bindE (requireP (consistentAttempt t) PInvalidResponse) (\<lambda>_. Inr t))"

definition provesCapture :: "publication_intent \<Rightarrow> publication_seal \<Rightarrow> publication_activation \<Rightarrow> bool" where
  "provesCapture i s a \<longleftrightarrow> av_head a = pb_reservationId (in_begin i) \<and> av_sessionId a = in_sessionId i \<and>
     av_captureId a = pb_captureId (in_begin i) \<and> av_baseHead a = pb_baseHead (in_begin i) \<and>
     av_transformVersion a = pb_transformVersion (in_begin i) \<and> av_fence a = ps_fence s \<and> av_manifest a = ps_manifest s"

definition checkActivation :: "publication_intent \<Rightarrow> publication_seal \<Rightarrow> publication_activation \<Rightarrow> delivery_error + publication_activation" where
  "checkActivation i s a = bindE (requireP (provesCapture i s a) PInvalidResponse) (\<lambda>_. Inr a)"

section \<open>Beginning\<close>

record begin_input =
  bi_captureId :: string
  bi_baseHead :: string
  bi_transformVersion :: string
  bi_rawEnabled :: bool
  bi_rawAuthority :: "raw_authority option"
  bi_trackRecords :: "bool option"
  bi_adoptLegacy :: bool

record begin_result =
  br_sessionId :: string
  br_attemptId :: string
  br_limits :: publication_limits
  br_adoption :: "publication_adoption option"

definition offers :: "publication_capabilities \<Rightarrow> target_profile \<Rightarrow> bool" where
  "offers c p = (case cb_targetProfiles c of None \<Rightarrow> False | Some ps \<Rightarrow> p \<in> set ps)"

text \<open>A Set of an array keeps the first of equal members.\<close>

definition firsts :: "'a list \<Rightarrow> 'a list" where
  "firsts xs = rev (remdups (rev xs))"

definition durableCapabilities :: "publication_capabilities \<Rightarrow> publication_capabilities" where
  "durableCapabilities c = c\<lparr>cb_targetProfiles :=
     map_option (\<lambda>ps. firsts (filter (\<lambda>p. p = Target1 \<or> p = Target2) ps)) (cb_targetProfiles c)\<rparr>"

definition publicationScope :: "host \<Rightarrow> capture_scope \<Rightarrow> publication_scope" where
  "publicationScope h s = \<lparr>px_projectId = cs_projectId s, px_installationId = bd_installationId (ho_binding h),
     px_adapterId = cs_adapterId s, px_sourceSessionId = cs_sourceSessionId s, px_originKey = cs_originKey s\<rparr>"

definition beginAuthority :: "begin_input \<Rightarrow> delivery_error + raw_authority option" where
  "beginAuthority input = (if bi_rawEnabled input then
       bindE (fromOption (PublicationFailure PInvalidResponse) (bi_rawAuthority input)) (\<lambda>a.
       bindE (decodeP decodeAuthority (authorityJson a)) (\<lambda>a. Inr (Some a)))
     else Inr None)"

definition adoptLegacyBaseline ::
    "host \<Rightarrow> 'r transport \<Rightarrow> capture_owner \<Rightarrow> publication_scope \<Rightarrow> ('r, publication_adoption) effect" where
  "adoptLegacyBaseline h r owner scope =
     bindW (publicationW (CallAdoptLegacy scope) (tr_adoptLegacy r (ho_binding h) scope)) (\<lambda>a.
     bindW (checkW (requireP (admitsAdoption a) PInvalidResponse)) (\<lambda>_.
     bindW (journalW (adoptBaseline (ho_sha h) (ho_limits h) owner (la_revisionFloor a)
       (stringify (obj [(''threads'', Some (arrayJson threadJson (la_baselineThreads a)))])))) (\<lambda>_. returnW a)))"

definition mayAdopt :: "begin_input \<Rightarrow> publication_capabilities \<Rightarrow> bool" where
  "mayAdopt input c \<longleftrightarrow> bi_baseHead input = [] \<and> cb_legacyAdoption c = Some True \<and> offers c Target2"

definition newIntent :: "host \<Rightarrow> publication_scope \<Rightarrow> publication_begin \<Rightarrow> string \<Rightarrow> publication_capabilities \<Rightarrow>
    publication_adoption option \<Rightarrow> raw_authority option \<Rightarrow> publication_intent" where
  "newIntent h scope bg sessionId c adoption authority =
     \<lparr>in_binding = ho_binding h, in_scope = scope, in_sessionId = sessionId, in_begin = bg,
       in_capabilities = durableCapabilities c, in_target3 = offers c Target3, in_target4 = offers c Target4,
       in_target5 = offers c Target5, in_adoption = map_option la_revisionFloor adoption, in_rawAuthority = authority\<rparr>"

definition obtainReservation :: "host \<Rightarrow> 'r transport \<Rightarrow> publication_scope \<Rightarrow> publication_adoption option \<Rightarrow>
    ('r, string \<times> string) effect" where
  "obtainReservation h r scope adoption = (case adoption of
       Some a \<Rightarrow> returnW (re_id a, re_sessionId a)
     | None \<Rightarrow> bindW (publicationW (CallReservation scope) (tr_reserve r (ho_binding h) scope)) (\<lambda>v. returnW (re_id v, re_sessionId v)))"

definition beginPublicationCapture :: "host \<Rightarrow> 'r transport \<Rightarrow> capture_claim \<Rightarrow> begin_input \<Rightarrow> ('r, begin_result) effect" where
  "beginPublicationCapture h r owned input =
     (let owner = capture_owner.truncate owned in
     bindW (checkW (admitRedactionTransform h (bi_transformVersion input))) (\<lambda>_.
     bindW (journalW (pending owner None 1)) (\<lambda>_.
     bindW (checkW (decodeP decodePublicationScope (scopeJson (publicationScope h (ow_scope owner))))) (\<lambda>scope.
     bindW (checkW (beginAuthority input)) (\<lambda>authority.
     bindW (publicationW CallCapabilities (tr_capabilities r (ho_binding h))) (\<lambda>c.
     bindW (checkW (requireP (bi_adoptLegacy input \<longrightarrow> mayAdopt input c) PUnavailable)) (\<lambda>_.
     bindW (if bi_adoptLegacy input then bindW (adoptLegacyBaseline h r owner scope) (\<lambda>a. returnW (Some a)) else returnW None) (\<lambda>adoption.
     bindW (obtainReservation h r scope adoption) (\<lambda>(rid, sid).
     bindW (checkW (decodeP decodeBegin (beginJson \<lparr>pb_reservationId = rid, pb_captureId = bi_captureId input,
       pb_baseHead = bi_baseHead input, pb_transformVersion = bi_transformVersion input\<rparr>))) (\<lambda>bg.
     let i = newIntent h scope bg sid c adoption authority in
     bindW (journalW (reserve (ho_limits h) owner \<lparr>rsv_trackRecords = Some (bi_trackRecords input = Some True), rsv_purpose = None,
       rsv_id = bi_captureId input, rsv_expectedCheckpoint = cl_checkpoint owned, rsv_beginJson = stringify (intentJson i),
       rsv_rawEnabled = bi_rawEnabled input\<rparr>)) (\<lambda>_.
     bindW (publicationW (CallBegin bg) (tr_begin r (ho_binding h) bg)) (\<lambda>t.
     bindW (checkW (checkAttempt i None t)) (\<lambda>t.
     bindW (checkW (requireP (tt_state t = AttemptOpen) PConflict)) (\<lambda>_.
       returnW \<lparr>br_sessionId = tt_sessionId t, br_attemptId = tt_id t, br_limits = cb_limits c, br_adoption = adoption\<rparr>))))))))))))))"

section \<open>Preparation\<close>

record preparation_context =
  pc_intent :: publication_intent
  pc_rawEnabled :: bool
  pc_targetProfiles :: "target_profile list"

definition contextProfiles :: "publication_intent \<Rightarrow> target_profile list" where
  "contextProfiles i = firsts ((case cb_targetProfiles (in_capabilities i) of None \<Rightarrow> [Target1] | Some ps \<Rightarrow> ps) @
     (if in_target3 i then [Target3] else []) @ (if in_target4 i then [Target4] else []) @ (if in_target5 i then [Target5] else []))"

definition inspectW :: "capture_owner \<Rightarrow> string \<Rightarrow> unit_kind \<Rightarrow> bool \<Rightarrow> ('r, capture_summary \<times> unit_summary list) effect" where
  "inspectW owner cid k pendingOnly = journalW (inspect owner cid k None (Some 1) pendingOnly)"

definition publicationPreparationContext :: "host \<Rightarrow> capture_owner \<Rightarrow> string \<Rightarrow> ('r, preparation_context) effect" where
  "publicationPreparationContext h owner cid =
     bindW (inspectW owner cid Canonical False) (\<lambda>(c, units).
     bindW (checkW (boundIntent h owner c)) (\<lambda>i.
     bindW (checkW (admitRedactionTransform h (pb_transformVersion (in_begin i)))) (\<lambda>_.
     bindW (checkW (requireP (sm_state c = Preparing \<and> sm_trackRecords c) PConflict)) (\<lambda>_.
     bindW (checkW (requireP (units = []) PConflict)) (\<lambda>_.
     bindW (journalW (records owner cid SessionRecord None (Some 1))) (\<lambda>rs.
     bindW (checkW (requireP (rs = []) PConflict)) (\<lambda>_.
       returnW \<lparr>pc_intent = i, pc_rawEnabled = sm_rawEnabled c, pc_targetProfiles = contextProfiles i\<rparr>)))))))"

section \<open>The manifest of the prepared units\<close>

record manifest_limits =
  ml_unitBytes :: int
  ml_units :: int
  ml_targetBytes :: int

definition manifestLine :: "unit_summary \<Rightarrow> string" where
  "manifestLine u = showInt (us_ordinal u) @ '':'' @ showInt (us_byteCount u) @ '':'' @ us_digest u @ [CHR 0x0A]"

text \<open>The state of the loop: the next ordinal, the bytes and the lines so far.\<close>

definition manifestUnit :: "manifest_limits \<Rightarrow> int \<times> int \<times> string \<Rightarrow> unit_summary \<Rightarrow> delivery_error + (int \<times> int \<times> string)" where
  "manifestUnit lim acc u = (case acc of (ordinal, bytes, lines) \<Rightarrow>
     if us_ordinal u \<noteq> ordinal \<or> \<not> us_retained u \<or> us_byteCount u > ml_unitBytes lim \<or> ordinal \<ge> ml_units lim
     then Inl (PublicationFailure PCapacity)
     else if bytes + us_byteCount u > ml_targetBytes lim then Inl (PublicationFailure PCapacity)
     else Inr (ordinal + 1, bytes + us_byteCount u, lines @ manifestLine u))"

definition readPage :: "capture_owner \<Rightarrow> string \<Rightarrow> unit_kind \<Rightarrow> journal_db \<Rightarrow> int \<Rightarrow> delivery_error + unit_summary list" where
  "readPage owner cid k db ordinal =
     bindE (map_sum JournalFailure (\<lambda>x. x) (inspect owner cid k (Some (ordinal - 1)) (Some 100) False db)) (\<lambda>(_, (_, units)). Inr units)"

lemma manifestUnit_Inr [success_simps]:
  "manifestUnit lim (ordinal, bytes, lines) u = Inr x \<longleftrightarrow>
     us_ordinal u = ordinal \<and> us_retained u \<and> us_byteCount u \<le> ml_unitBytes lim \<and> ordinal < ml_units lim \<and>
     bytes + us_byteCount u \<le> ml_targetBytes lim \<and> x = (ordinal + 1, bytes + us_byteCount u, lines @ manifestLine u)"
  by (auto simp: manifestUnit_def)

lemma manifestUnit_page:
  assumes "foldE (manifestUnit lim) (ordinal, bytes, lines) us = Inr (n, b, ls)"
  shows "n = ordinal + int (length us) \<and> (us \<noteq> [] \<longrightarrow> n \<le> ml_units lim)"
  using assms
proof (induction us arbitrary: ordinal bytes lines)
  case (Cons u us)
  then obtain b1 l1 where "foldE (manifestUnit lim) (ordinal + 1, b1, l1) us = Inr (n, b, ls)" "ordinal < ml_units lim"
    by (auto simp: success_simps)
  with Cons.IH[OF this(1)] show ?case by (cases "us = []") auto
qed simp

definition chainDigest :: "sha256 \<Rightarrow> unit_kind \<Rightarrow> string \<Rightarrow> string \<Rightarrow> string \<times> string" where
  "chainDigest sha k digest lines =
     (if k = Raw \<and> lines \<noteq> [] then (sha (digest @ CHR 0x0A # lines), []) else (digest, lines))"

text \<open>One page of at most a hundred units at a time; a full page moves on by its units, so the unit
  limit ends the loop.  Raw chains the digest of each page.\<close>

function manifestPages :: "sha256 \<Rightarrow> capture_owner \<Rightarrow> string \<Rightarrow> unit_kind \<Rightarrow> manifest_limits \<Rightarrow> journal_db \<Rightarrow>
    int \<times> int \<times> string \<Rightarrow> string \<Rightarrow> delivery_error + publication_manifest" where
  "manifestPages sha owner cid k lim db acc digest =
     bindE (readPage owner cid k db (fst acc)) (\<lambda>units.
     bindE (foldE (manifestUnit lim) acc units) (\<lambda>(ordinal, bytes, lines).
     let (digest', lines') = chainDigest sha k digest lines in
     if length units < 100 then
       Inr \<lparr>pm_parts = ordinal, pm_bytes = bytes, pm_sha256 = (if k = Raw then digest' else sha lines')\<rparr>
     else manifestPages sha owner cid k lim db (ordinal, bytes, lines') digest'))"
  by pat_completeness auto
termination
proof (relation "measure (\<lambda>(sha, owner, cid, k, lim, db, acc, digest). nat (ml_units lim - fst acc))", goal_cases)
  case (2 sha owner cid k lim db acc digest units x ordinal y bytes lines z digest' lines')
  then have "foldE (manifestUnit lim) (fst acc, fst (snd acc), snd (snd acc)) units = Inr (ordinal, bytes, lines)" "\<not> length units < 100"
    by auto
  from manifestUnit_page[OF this(1)] this(2) show ?case by auto
qed simp

declare manifestPages.simps [simp del]

definition preparedManifest :: "host \<Rightarrow> capture_owner \<Rightarrow> string \<Rightarrow> unit_kind \<Rightarrow> manifest_limits \<Rightarrow> journal_db \<Rightarrow> delivery_error + publication_manifest" where
  "preparedManifest h owner cid k lim db =
     manifestPages (ho_sha h) owner cid k lim db (0, 0, []) (replicate 64 (CHR ''0''))"

definition localW :: "(journal_db \<Rightarrow> delivery_error + 'a) \<Rightarrow> ('r, 'a) effect" where
  "localW f w = (w, f (wd_journal w))"

section \<open>Sealing\<close>

record seal_input =
  si_nextCheckpoint :: string
  si_rawUnits :: int
  si_records :: "record_manifest option"

definition sealPublicationCapture :: "host \<Rightarrow> 'r transport \<Rightarrow> capture_owner \<Rightarrow> string \<Rightarrow> seal_input \<Rightarrow> ('r, unit) effect" where
  "sealPublicationCapture h r owner cid input =
     bindW (inspectW owner cid Canonical False) (\<lambda>(c, _).
     bindW (checkW (boundIntent h owner c)) (\<lambda>i.
     case sm_seal c of
       Some s \<Rightarrow> checkW (requireP (sl_nextCheckpoint s = si_nextCheckpoint input \<and> sl_rawUnits s = si_rawUnits input \<and>
         sl_records s = si_records input) PConflict)
     | None \<Rightarrow>
         bindW (checkW (requireP (sm_state c = Preparing) PConflict)) (\<lambda>_.
         let l = cb_limits (in_capabilities i) in
         bindW (localW (preparedManifest h owner cid Canonical
           \<lparr>ml_unitBytes = pl_partBytes l, ml_units = pl_parts l, ml_targetBytes = pl_targetBytes l\<rparr>)) (\<lambda>m.
         bindW (checkW (decodeP decodeManifest (manifestJson m))) (\<lambda>m.
         bindW (publicationW (CallStatus (pb_reservationId (in_begin i))) (tr_status r (ho_binding h) (pb_reservationId (in_begin i)))) (\<lambda>t.
         bindW (checkW (checkAttempt i None t)) (\<lambda>t.
         bindW (checkW (requireP (tt_state t = AttemptOpen \<and> tt_parts t = 0) PConflict)) (\<lambda>_.
           journalW (seal (ho_limits h) owner cid \<lparr>sl_records = si_records input, sl_canonicalUnits = pm_parts m,
             sl_rawUnits = si_rawUnits input, sl_nextCheckpoint = si_nextCheckpoint input,
             sl_manifestJson = stringify (publicationSealJson \<lparr>ps_fence = tt_fence t, ps_manifest = m\<rparr>)\<rparr>)))))))))"

end
