(* ===== verification/PublicationDelivery.thy ===== *)
theory PublicationDelivery
  imports PublicationCapture
begin

text \<open>Bounded recovery of sealed publication captures
  (packages/application/src/publicationDelivery.ts): deliverPublicationCapture with its operation
  budget.  The loop ends because every turn that continues has used an operation of the budget.\<close>

datatype delivery_result =
    DeliveryPending int
  | DeliveryActivated int publication_activation
  | DeliveryAbandoned int

fun deliveryOperations :: "delivery_result \<Rightarrow> int" where
  "deliveryOperations (DeliveryPending n) = n"
| "deliveryOperations (DeliveryActivated n _) = n"
| "deliveryOperations (DeliveryAbandoned n) = n"

text \<open>What one slice works on: the host and services, the capture, its frozen intent and seal and the budget.\<close>

record 'r slice =
  sx_host :: host
  sx_remote :: "'r transport"
  sx_owner :: capture_owner
  sx_id :: string
  sx_intent :: publication_intent
  sx_seal :: publication_seal
  sx_budget :: int

definition attemptId :: "'r slice \<Rightarrow> string" where
  "attemptId s = pb_reservationId (in_begin (sx_intent s))"

definition policyChanged :: "'r slice \<Rightarrow> bool" where
  "policyChanged s = (case currentRedactionTransform (sx_host s) of
       None \<Rightarrow> False | Some t \<Rightarrow> pb_transformVersion (in_begin (sx_intent s)) \<noteq> t)"

definition settleW :: "'r slice \<Rightarrow> capture_settlement \<Rightarrow> ('r, unit) effect" where
  "settleW s v = journalW (settle (sx_owner s) (sx_id s) v)"

definition activateLocally :: "'r slice \<Rightarrow> publication_activation \<Rightarrow> ('r, publication_activation) effect" where
  "activateLocally s receipt =
     bindW (checkW (checkActivation (sx_intent s) (sx_seal s) receipt)) (\<lambda>verified.
     bindW (settleW s (SettleActivated (stringify (activationJson verified)))) (\<lambda>_. returnW verified))"

text \<open>A remote operation on the attempt, its answer checked against the frozen capture.\<close>

definition attemptW :: "'r slice \<Rightarrow> remote_call \<Rightarrow> (capture_binding \<Rightarrow> string \<Rightarrow> ('r, publication_reason, publication_attempt) service) \<Rightarrow>
    ('r, publication_attempt) effect" where
  "attemptW s call service =
     bindW (publicationW call (service (ho_binding (sx_host s)) (attemptId s))) (\<lambda>t.
     checkW (checkAttempt (sx_intent s) (Some (sx_seal s)) t))"

section \<open>Turns\<close>

datatype turn = Continue publication_attempt | Finish publication_activation

definition sendPart :: "'r slice \<Rightarrow> unit_summary \<Rightarrow> ('r, unit) effect" where
  "sendPart s u =
     (let part = \<lparr>pp_ordinal = us_ordinal u, pp_bytes = us_byteCount u, pp_sha256 = us_digest u\<rparr>; h = sx_host s in
     bindW (journalW (readUnit (ho_sha h) (ho_limits h) (sx_owner s) (sx_id s) Canonical (us_ordinal u))) (\<lambda>content.
     bindW (publicationW (CallPut (attemptId s) part content) (tr_put (sx_remote s) (ho_binding h) (attemptId s) part content)) (\<lambda>receipt.
     bindW (checkW (requireP (receipt = part) PInvalidResponse)) (\<lambda>_.
       settleW s (CanonicalAcknowledged (us_ordinal u) (stringify (partJson receipt)))))))"

definition sealRemote :: "'r slice \<Rightarrow> ('r, publication_attempt) effect" where
  "sealRemote s =
     bindW (attemptW s (CallSealRemote (attemptId s) (ps_manifest (sx_seal s)))
       (\<lambda>b i. tr_seal (sx_remote s) b i (ps_manifest (sx_seal s)))) (\<lambda>t.
     bindW (checkW (requireP (tt_state t \<in> {AttemptSealed, AttemptValidating, AttemptValidated, AttemptActivated}) PInvalidResponse)) (\<lambda>_.
       returnW t))"

definition retainedOf :: "publication_attempt \<Rightarrow> int" where
  "retainedOf t = (case tt_retainedParts t of None \<Rightarrow> 0 | Some n \<Rightarrow> n)"

definition boundedProgress :: "publication_seal \<Rightarrow> publication_attempt \<Rightarrow> publication_attempt \<Rightarrow> bool" where
  "boundedProgress seal0 previous t \<longleftrightarrow>
     (let finished = (tt_state t = AttemptValidated \<and> tt_validatedParts previous = pm_parts (ps_manifest seal0)) in
      \<not> (tt_validatedParts t < tt_validatedParts previous \<or> retainedOf t < retainedOf previous \<or>
         tt_validatedParts t > pm_parts (ps_manifest seal0) \<or>
         (tt_state t \<noteq> AttemptActivated \<and> \<not> finished \<and> tt_validatedParts t = tt_validatedParts previous \<and>
          retainedOf t = retainedOf previous)))"

definition validateRemote :: "'r slice \<Rightarrow> publication_attempt \<Rightarrow> ('r, publication_attempt) effect" where
  "validateRemote s previous =
     bindW (attemptW s (CallValidate (attemptId s)) (tr_validate (sx_remote s))) (\<lambda>t.
     bindW (checkW (requireP (tt_state t \<in> {AttemptValidating, AttemptValidated, AttemptActivated}) PInvalidResponse)) (\<lambda>_.
     bindW (checkW (requireP (boundedProgress (sx_seal s) previous t) PInvalidResponse)) (\<lambda>_. returnW t)))"

definition deliveryTurn :: "'r slice \<Rightarrow> publication_attempt \<Rightarrow> ('r, turn) effect" where
  "deliveryTurn s t = (case tt_state t of
       AttemptOpen \<Rightarrow>
         bindW (inspectW (sx_owner s) (sx_id s) Canonical True) (\<lambda>(_, units).
         case units of
           u # _ \<Rightarrow> bindW (sendPart s u) (\<lambda>_. returnW (Continue t))
         | [] \<Rightarrow> bindW (sealRemote s) (\<lambda>t'. returnW (Continue t')))
     | AttemptSealed \<Rightarrow> bindW (validateRemote s t) (\<lambda>t'. returnW (Continue t'))
     | AttemptValidating \<Rightarrow> bindW (validateRemote s t) (\<lambda>t'. returnW (Continue t'))
     | AttemptValidated \<Rightarrow>
         bindW (publicationW (CallActivate (attemptId s)) (tr_activate (sx_remote s) (ho_binding (sx_host s)) (attemptId s))) (\<lambda>a.
         bindW (activateLocally s a) (\<lambda>verified. returnW (Finish verified)))
     | _ \<Rightarrow> returnW (Continue t))"

definition lapsed :: "publication_attempt \<Rightarrow> bool" where
  "lapsed t \<longleftrightarrow> tt_state t = AttemptExpired \<or> tt_state t = AttemptSuperseded"

definition terminalAttempt :: "publication_attempt \<Rightarrow> bool" where
  "terminalAttempt t \<longleftrightarrow> tt_activation t \<noteq> None \<or> tt_state t = AttemptRejected \<or> lapsed t"

section \<open>The loop\<close>

definition policyGate :: "'r slice \<Rightarrow> delivery_error + unit" where
  "policyGate s = (if currentRedactionTransform (sx_host s) = None
     then admitRedactionTransform (sx_host s) (pb_transformVersion (in_begin (sx_intent s))) else Inr ())"

definition rejectW :: "'r slice \<Rightarrow> (publication_attempt \<Rightarrow> bool) \<Rightarrow> ('r, publication_attempt) effect" where
  "rejectW s proved =
     bindW (attemptW s (CallReject (attemptId s)) (tr_reject (sx_remote s))) (\<lambda>t.
     bindW (checkW (requireP (proved t) PInvalidResponse)) (\<lambda>_. returnW t))"

function deliverLoop :: "'r slice \<Rightarrow> int \<Rightarrow> publication_attempt \<Rightarrow> ('r, delivery_result) effect" where
  "deliverLoop s operations t = (case tt_activation t of
       Some a \<Rightarrow> bindW (activateLocally s a) (\<lambda>receipt. returnW (DeliveryActivated operations receipt))
     | None \<Rightarrow>
       if tt_state t = AttemptRejected then
         bindW (settleW s (Rejected (stringify (attemptJson t)))) (\<lambda>_. returnW (DeliveryAbandoned operations))
       else bindW (checkW (policyGate s)) (\<lambda>_.
       if operations \<ge> sx_budget s then returnW (DeliveryPending operations)
       else if policyChanged s then
         bindW (rejectW s (\<lambda>t'. tt_activation t' \<noteq> None \<or> tt_state t' = AttemptRejected)) (\<lambda>t'. deliverLoop s (operations + 1) t')
       else if lapsed t then
         bindW (rejectW s (\<lambda>t'. tt_state t' = AttemptRejected)) (\<lambda>t'. deliverLoop s (operations + 1) t')
       else if operations + 1 \<ge> sx_budget s then returnW (DeliveryPending operations)
       else
         bindW (attemptW s (CallRenew (attemptId s)) (tr_renew (sx_remote s))) (\<lambda>t'.
         if terminalAttempt t' then deliverLoop s (operations + 1) t'
         else bindW (deliveryTurn s t') (\<lambda>turn. case turn of
             Continue t'' \<Rightarrow> deliverLoop s (operations + 2) t''
           | Finish receipt \<Rightarrow> returnW (DeliveryActivated (operations + 2) receipt)))))"
  by pat_completeness auto
termination
  by (relation "measure (\<lambda>(s, operations, t). nat (sx_budget s - operations))") auto

declare deliverLoop.simps [simp del]

definition budgetW :: "(bool \<Rightarrow> delivery_error + unit) \<Rightarrow> int \<Rightarrow> ('r, unit) effect" where
  "budgetW require n = checkW (require (safe_integer n \<and> 3 \<le> n \<and> n \<le> 64))"

definition frozenSeal :: "capture_seal \<Rightarrow> delivery_error + publication_seal" where
  "frozenSeal c =
     bindE (parseP decodePublicationSeal (sl_manifestJson c)) (\<lambda>s.
     bindE (requireP (pm_parts (ps_manifest s) = sl_canonicalUnits c) PInvalid) (\<lambda>_. Inr s))"

definition deliverSealed :: "'r slice \<Rightarrow> string option \<Rightarrow> ('r, delivery_result) effect" where
  "deliverSealed s receipt = (case receipt of
       Some a \<Rightarrow>
         bindW (checkW (parseP decodeActivation a)) (\<lambda>a.
         bindW (activateLocally s a) (\<lambda>v. returnW (DeliveryActivated 0 v)))
     | None \<Rightarrow>
         bindW (attemptW s (CallStatus (attemptId s)) (tr_status (sx_remote s))) (\<lambda>t. deliverLoop s 1 t))"

definition deliverPublicationCapture :: "host \<Rightarrow> 'r transport \<Rightarrow> capture_owner \<Rightarrow> string \<Rightarrow> int \<Rightarrow> ('r, delivery_result) effect" where
  "deliverPublicationCapture h r owner cid budget =
     bindW (budgetW (\<lambda>ok. requireP ok PInvalid) budget) (\<lambda>_.
     bindW (inspectW owner cid Canonical False) (\<lambda>(c, _).
     bindW (checkW (boundIntent h owner c)) (\<lambda>i.
     if sm_state c = Preparing then bindW (journalW (settle owner cid AbandonUnsealed)) (\<lambda>_. returnW (DeliveryAbandoned 0))
     else if sm_state c = Abandoned then returnW (DeliveryAbandoned 0)
     else case sm_seal c of
       None \<Rightarrow> failW (PublicationFailure PInvalid)
     | Some sl \<Rightarrow>
         bindW (checkW (frozenSeal sl)) (\<lambda>s.
           deliverSealed \<lparr>sx_host = h, sx_remote = r, sx_owner = owner, sx_id = cid, sx_intent = i, sx_seal = s, sx_budget = budget\<rparr>
             (sm_activationReceipt c)))))"

end
