(* ===== verification/WebBytes.thy ===== *)
theory WebBytes
  imports Prelude
begin

text \<open>The byte functions of the Web platform the program decodes with: TextDecoder with fatal UTF-8, atob and
  btoa, written out on lists of bytes.\<close>

section \<open>Bytes\<close>

definition continuation :: "char \<Rightarrow> bool" where
  "continuation c \<longleftrightarrow> 0x80 \<le> code c \<and> code c \<le> 0xBF"

definition secondByte :: "nat \<Rightarrow> char \<Rightarrow> bool" where
  "secondByte lead d \<longleftrightarrow> continuation d \<and> (lead = 0xE0 \<longrightarrow> 0xA0 \<le> code d) \<and> (lead = 0xED \<longrightarrow> code d \<le> 0x9F) \<and>
     (lead = 0xF0 \<longrightarrow> 0x90 \<le> code d) \<and> (lead = 0xF4 \<longrightarrow> code d \<le> 0x8F)"

fun validUtf8 :: "bytes \<Rightarrow> bool" where
  "validUtf8 [] = True"
| "validUtf8 (c # r) = (let n = code c in
     if n < 0x80 then validUtf8 r
     else if 0xC2 \<le> n \<and> n \<le> 0xDF then length r \<ge> 1 \<and> secondByte n (hd r) \<and> validUtf8 (drop 1 r)
     else if 0xE0 \<le> n \<and> n \<le> 0xEF then length r \<ge> 2 \<and> secondByte n (hd r) \<and> continuation (r ! 1) \<and> validUtf8 (drop 2 r)
     else if 0xF0 \<le> n \<and> n \<le> 0xF4 then length r \<ge> 3 \<and> secondByte n (hd r) \<and> continuation (r ! 1) \<and> continuation (r ! 2) \<and> validUtf8 (drop 3 r)
     else False)"

definition decodeUtf8 :: "bytes \<Rightarrow> string option" where
  "decodeUtf8 b = (if validUtf8 b then
       Some (if startsWith (map byte [0xEF, 0xBB, 0xBF]) b then drop 3 b else b) else None)"

definition base64Value :: "char \<Rightarrow> nat" where
  "base64Value c = (let n = code c in
     if 65 \<le> n \<and> n \<le> 90 then n - 65 else if 97 \<le> n \<and> n \<le> 122 then n - 71 else if 48 \<le> n \<and> n \<le> 57 then n + 4
     else if n = 43 then 62 else 63)"

definition base64Digit :: "nat \<Rightarrow> char" where
  "base64Digit v = byte (if v < 26 then v + 65 else if v < 52 then v + 71 else if v < 62 then v - 4 else if v = 62 then 43 else 47)"

fun atob :: "string \<Rightarrow> bytes" where
  "atob (a # b # c # d # r) =
     (let w = base64Value a; x = base64Value b; y = base64Value c; z = base64Value d; first = byte (w * 4 + x div 16) in
      if c = CHR ''='' then [first]
      else if d = CHR ''='' then [first, byte (x mod 16 * 16 + y div 4)]
      else first # byte (x mod 16 * 16 + y div 4) # byte (y mod 4 * 64 + z) # atob r)"
| "atob _ = []"

fun btoa :: "bytes \<Rightarrow> string" where
  "btoa [] = []"
| "btoa [x] = [base64Digit (code x div 4), base64Digit (code x mod 4 * 16), CHR ''='', CHR ''='']"
| "btoa [x, y] = [base64Digit (code x div 4), base64Digit (code x mod 4 * 16 + code y div 16),
     base64Digit (code y mod 16 * 4), CHR ''='']"
| "btoa (x # y # z # r) = base64Digit (code x div 4) # base64Digit (code x mod 4 * 16 + code y div 16) #
     base64Digit (code y mod 16 * 4 + code z div 64) # base64Digit (code z mod 64) # btoa r"

end
