(* ===== verification/RawDelivery.thy ===== *)
theory RawDelivery
  imports PublicationDelivery WebBytes
begin

text \<open>Independent Raw observations and their bounded delivery
  (packages/application/src/publicationDelivery.ts): the durable observation intent, beginRawObservation,
  sealRawObservation, the preparation and comparison contexts and deliverPublicationRaw.  The Web
  functions it decodes with are those of WebBytes.\<close>

section \<open>Observations\<close>

record canonical_proof =
  pv_intent :: publication_intent
  pv_seal :: publication_seal
  pv_receipt :: publication_activation

record observation_intent =
  ro_observationId :: string
  ro_rawAuthority :: raw_authority
  ro_canonical :: canonical_proof

definition RawObservationProtocol :: string where
  "RawObservationProtocol = ''atape.raw-observation.v1''"

definition proofOfJson :: "canonical_proof \<Rightarrow> json" where
  "proofOfJson p = obj [(''intent'', Some (intentJson (pv_intent p))), (''seal'', Some (publicationSealJson (pv_seal p))),
     (''receipt'', Some (activationJson (pv_receipt p)))]"

definition decodeCanonicalProof :: "canonical_proof decoder" where
  "decodeCanonicalProof j =
     Option.bind (required ''intent'' decodeIntent j) (\<lambda>i.
     Option.bind (required ''seal'' decodePublicationSeal j) (\<lambda>s.
     Option.bind (required ''receipt'' decodeActivation j) (\<lambda>a. Some \<lparr>pv_intent = i, pv_seal = s, pv_receipt = a\<rparr>)))"

definition observationIntentJson :: "observation_intent \<Rightarrow> json" where
  "observationIntentJson i = obj [(''protocol'', Some (JStr RawObservationProtocol)), (''observationId'', Some (JStr (ro_observationId i))),
     (''rawAuthority'', Some (authorityJson (ro_rawAuthority i))), (''canonical'', Some (proofOfJson (ro_canonical i)))]"

definition decodeObservationIntent :: "observation_intent decoder" where
  "decodeObservationIntent j =
     Option.bind (required ''protocol'' (literalText RawObservationProtocol) j) (\<lambda>_.
     Option.bind (required ''observationId'' asString j) (\<lambda>i.
     Option.bind (required ''rawAuthority'' decodeAuthority j) (\<lambda>a.
     Option.bind (required ''canonical'' decodeCanonicalProof j) (\<lambda>c.
       Some \<lparr>ro_observationId = i, ro_rawAuthority = a, ro_canonical = c\<rparr>))))"

definition decodeObservedManifest :: "publication_manifest decoder" where
  "decodeObservedManifest j =
     Option.bind (required ''parts'' (countIn 0 max_safe_integer) j) (\<lambda>n.
     Option.bind (required ''bytes'' (countIn 0 max_safe_integer) j) (\<lambda>b.
     Option.bind (required ''sha256'' shaText j) (\<lambda>s. Some \<lparr>pm_parts = n, pm_bytes = b, pm_sha256 = s\<rparr>)))"

definition observationSealJson :: "publication_manifest \<Rightarrow> json" where
  "observationSealJson m = obj [(''protocol'', Some (JStr RawObservationProtocol)), (''manifest'', Some (manifestJson m))]"

definition decodeObservationSeal :: "publication_manifest decoder" where
  "decodeObservationSeal j =
     Option.bind (required ''protocol'' (literalText RawObservationProtocol) j) (\<lambda>_. required ''manifest'' decodeObservedManifest j)"

definition checkCanonicalProof :: "host \<Rightarrow> capture_owner \<Rightarrow> canonical_proof \<Rightarrow> delivery_error + canonical_proof" where
  "checkCanonicalProof h owner p =
     bindE (checkIntentBinding h owner (pv_intent p) (pb_captureId (in_begin (pv_intent p)))) (\<lambda>_.
     bindE (checkActivation (pv_intent p) (pv_seal p) (pv_receipt p)) (\<lambda>_. Inr p))"

definition boundObservation :: "host \<Rightarrow> capture_owner \<Rightarrow> capture_summary \<Rightarrow> delivery_error + observation_intent" where
  "boundObservation h owner c =
     bindE (requireP (sm_purpose c = RawObservation \<and> sm_expectedCheckpoint c \<noteq> None \<and> sm_rawEnabled c) PInvalid) (\<lambda>_.
     bindE (parseP decodeObservationIntent (sm_beginJson c)) (\<lambda>i.
     bindE (requireP (ro_observationId i = sm_id c) PBinding) (\<lambda>_.
     bindE (checkCanonicalProof h owner (ro_canonical i)) (\<lambda>_. Inr i))))"

definition transformOf :: "publication_intent \<Rightarrow> string" where
  "transformOf i = pb_transformVersion (in_begin i)"

definition rawObservationPreparationContext :: "host \<Rightarrow> capture_owner \<Rightarrow> string \<Rightarrow> ('r, observation_intent) effect" where
  "rawObservationPreparationContext h owner cid =
     bindW (inspectW owner cid Raw False) (\<lambda>(c, units).
     bindW (checkW (boundObservation h owner c)) (\<lambda>i.
     bindW (checkW (admitRedactionTransform h (transformOf (pv_intent (ro_canonical i))))) (\<lambda>_.
     bindW (checkW (requireP (sm_state c = Preparing \<and> sm_trackRecords c \<and> units = []) PConflict)) (\<lambda>_.
     bindW (journalW (records owner cid RawRecord None (Some 1))) (\<lambda>rs.
     bindW (checkW (requireP (rs = []) PConflict)) (\<lambda>_. returnW i))))))"

definition captureRawAuthority :: "host \<Rightarrow> capture_owner \<Rightarrow> string \<Rightarrow> ('r, raw_authority option) effect" where
  "captureRawAuthority h owner cid =
     bindW (inspectW owner cid Raw False) (\<lambda>(c, _).
     if sm_purpose c = RawObservation then bindW (checkW (boundObservation h owner c)) (\<lambda>i. returnW (Some (ro_rawAuthority i)))
     else bindW (checkW (boundIntent h owner c)) (\<lambda>i. returnW (in_rawAuthority i)))"

record comparison_context =
  cx_coverage :: capture_coverage
  cx_capture :: capture_summary
  cx_intent :: publication_intent
  cx_receipt :: publication_activation
  cx_raw :: "capture_summary option"

definition canonicalRecords :: "capture_summary \<Rightarrow> record_counts option" where
  "canonicalRecords c = Option.bind (sm_seal c) (\<lambda>s. Option.bind (sl_records s) rm_canonical)"

text \<open>The saved activation of a sealed capture, checked against its frozen intent and seal.\<close>

definition savedActivation :: "publication_intent \<Rightarrow> capture_seal \<Rightarrow> string \<Rightarrow> delivery_error + (publication_seal \<times> publication_activation)" where
  "savedActivation i sl receipt =
     bindE (parseP decodePublicationSeal (sl_manifestJson sl)) (\<lambda>s.
     bindE (parseP decodeActivation receipt) (\<lambda>a.
     bindE (checkActivation i s a) (\<lambda>a. Inr (s, a))))"

definition sourceComparisonContext :: "host \<Rightarrow> capture_owner \<Rightarrow> ('r, comparison_context option) effect" where
  "sourceComparisonContext h owner =
     bindW (journalW (coverage owner)) (\<lambda>cov.
     case cv_canonicalCaptureId cov of
       None \<Rightarrow> returnW None
     | Some cid \<Rightarrow>
         bindW (inspectW owner cid Canonical False) (\<lambda>(c, _).
         bindW (checkW (boundIntent h owner c)) (\<lambda>i.
         case (sm_seal c, sm_activationReceipt c) of
           (Some sl, Some receipt) \<Rightarrow>
             bindW (checkW (requireP (sm_trackRecords c \<and> canonicalRecords c \<noteq> None) PInvalid)) (\<lambda>_.
             bindW (checkW (savedActivation i sl receipt)) (\<lambda>(_, a).
             bindW (case cv_observedRawCaptureId cov of
                 None \<Rightarrow> returnW None
               | Some rid \<Rightarrow> bindW (inspectW owner rid Raw False) (\<lambda>(rc, _). returnW (Some rc))) (\<lambda>raw.
               returnW (Some \<lparr>cx_coverage = cov, cx_capture = c, cx_intent = i, cx_receipt = a, cx_raw = raw\<rparr>))))
         | _ \<Rightarrow> failW (PublicationFailure PInvalid))))"

record observation_result =
  or_sessionId :: string
  or_head :: string
  or_rawAuthority :: raw_authority

definition requireR :: "bool \<Rightarrow> raw_reason \<Rightarrow> delivery_error + unit" where
  "requireR ok e = (if ok then Inr () else Inl (RawFailure e))"

definition beginRawObservation :: "host \<Rightarrow> 'r transport \<Rightarrow> capture_claim \<Rightarrow> string \<Rightarrow> string \<Rightarrow> ('r, observation_result) effect" where
  "beginRawObservation h r owned observationId canonicalId =
     (let owner = capture_owner.truncate owned; b = ho_binding h in
     bindW (inspectW owner canonicalId Canonical False) (\<lambda>(c, _).
     bindW (checkW (boundIntent h owner c)) (\<lambda>i.
     case (sm_seal c, sm_activationReceipt c, cl_checkpoint owned) of
       (Some sl, Some stored, Some checkpoint) \<Rightarrow>
         bindW (checkW (admitRedactionTransform h (transformOf i))) (\<lambda>_.
         bindW (checkW (savedActivation i sl stored)) (\<lambda>(s, saved).
         bindW (rawW (CallPolicy (cs_projectId (ow_scope owner))) (tr_policy r b (cs_projectId (ow_scope owner)))) (\<lambda>policy.
         bindW (checkW (requireR (ry_enabled policy) RDisabled)) (\<lambda>_.
         bindW (checkW (decodeP decodeAuthority (authorityJson (ry_authority policy)))) (\<lambda>authority.
         bindW (publicationW (CallStatus (av_head saved)) (tr_status r b (av_head saved))) (\<lambda>t.
         bindW (checkW (checkAttempt i (Some s) t)) (\<lambda>t.
         bindW (checkW (fromOption (PublicationFailure PInvalidResponse) (tt_activation t))) (\<lambda>a.
         bindW (checkW (checkActivation i s a)) (\<lambda>a.
         bindW (journalW (reserve (ho_limits h) owner \<lparr>rsv_trackRecords = Some (sm_trackRecords c), rsv_purpose = Some RawObservation,
           rsv_id = observationId, rsv_expectedCheckpoint = Some checkpoint,
           rsv_beginJson = stringify (observationIntentJson \<lparr>ro_observationId = observationId, ro_rawAuthority = authority,
             ro_canonical = \<lparr>pv_intent = i, pv_seal = s, pv_receipt = a\<rparr>\<rparr>), rsv_rawEnabled = True\<rparr>)) (\<lambda>_.
           returnW \<lparr>or_sessionId = av_sessionId a, or_head = av_head a, or_rawAuthority = authority\<rparr>))))))))))
     | _ \<Rightarrow> failW (PublicationFailure PInvalid))))"

definition observationLimits :: manifest_limits where
  "observationLimits = \<lparr>ml_unitBytes = RawPublicationWireBytes, ml_units = 1000000, ml_targetBytes = max_safe_integer\<rparr>"

definition decodeObservationSealed :: "publication_manifest \<Rightarrow> delivery_error + publication_manifest" where
  "decodeObservationSealed m = decodeP decodeObservationSeal (observationSealJson m)"

definition sealRawObservation :: "host \<Rightarrow> capture_owner \<Rightarrow> string \<Rightarrow> int \<Rightarrow> record_manifest option \<Rightarrow> ('r, unit) effect" where
  "sealRawObservation h owner cid rawUnits recs =
     bindW (inspectW owner cid Raw False) (\<lambda>(c, _).
     bindW (checkW (boundObservation h owner c)) (\<lambda>_.
     case sm_seal c of
       Some s \<Rightarrow> checkW (requireP (sl_rawUnits s = rawUnits \<and> sl_records s = recs) PConflict)
     | None \<Rightarrow>
         bindW (localW (preparedManifest h owner cid Raw observationLimits)) (\<lambda>m.
         bindW (checkW (requireP (pm_parts m = rawUnits) PInvalid)) (\<lambda>_.
         bindW (checkW (decodeObservationSealed m)) (\<lambda>m.
           journalW (seal (ho_limits h) owner cid \<lparr>sl_records = recs, sl_canonicalUnits = 0, sl_rawUnits = rawUnits,
             sl_nextCheckpoint = (case sm_expectedCheckpoint c of None \<Rightarrow> [] | Some k \<Rightarrow> k),
             sl_manifestJson = stringify (observationSealJson m)\<rparr>))))))"

section \<open>Receipts\<close>

definition timestampKey :: "string \<Rightarrow> string" where
  "timestampKey v = (let t = butlast v; seconds = takeWhile (\<lambda>c. c \<noteq> CHR ''.'') t;
       fraction = takeWhile (\<lambda>c. c \<noteq> CHR ''.'') (drop 1 (dropWhile (\<lambda>c. c \<noteq> CHR ''.'') t))
     in seconds @ ''.'' @ fraction @ replicate (6 - length fraction) (CHR ''0''))"

definition contentSize :: "string \<Rightarrow> int" where
  "contentSize c = int (length c) div 4 * 3 - (if endsWith ''=='' c then 2 else if endsWith ''='' c then 1 else 0)"

definition provesChunk :: "raw_chunk \<Rightarrow> raw_receipt \<Rightarrow> bool" where
  "provesChunk c r \<longleftrightarrow>
     rn_sessionId c = rn_sessionId r \<and> rn_installationId c = rn_installationId r \<and> rn_adapterId c = rn_adapterId r \<and>
     rn_sourceObjectId c = rn_sourceObjectId r \<and> rn_sourceChunkId c = rn_sourceChunkId r \<and> md_sourceName c = md_sourceName r \<and>
     md_mediaType c = md_mediaType r \<and> md_adapterVersion c = md_adapterVersion r \<and> md_offset c = md_offset r \<and>
     md_sha256 c = md_sha256 r \<and> md_final c = md_final r \<and> rt_sizeBytes r = contentSize (ch_contentBase64 c) \<and>
     timestampKey (md_capturedAt c) = timestampKey (md_capturedAt r) \<and>
     pf_head (md_publication r) = pf_head (md_publication c) \<and>
     sameRawAuthority (pf_authority (md_publication c)) (pf_authority (md_publication r))"

definition checkRawReceipt :: "raw_chunk \<Rightarrow> raw_receipt \<Rightarrow> delivery_error + raw_receipt" where
  "checkRawReceipt c r = bindE (requireR (provesChunk c r) RInvalidResponse) (\<lambda>_. Inr r)"

section \<open>Delivery\<close>

datatype raw_result = RawPending int | RawCompleted int | RawAbandoned int

fun rawOperations :: "raw_result \<Rightarrow> int" where
  "rawOperations (RawPending n) = n"
| "rawOperations (RawCompleted n) = n"
| "rawOperations (RawAbandoned n) = n"

record 'r raw_slice =
  rx_host :: host
  rx_remote :: "'r transport"
  rx_owner :: capture_owner
  rx_id :: string
  rx_activation :: publication_activation
  rx_authority :: raw_authority
  rx_transform :: string
  rx_budget :: int

definition parseChunk :: "bytes \<Rightarrow> delivery_error + raw_chunk" where
  "parseChunk b = fromOption (RawFailure RInvalid) (Option.bind (decodeUtf8 b) (decodeText decodeChunk))"

definition boundChunk :: "'r raw_slice \<Rightarrow> raw_chunk \<Rightarrow> bool" where
  "boundChunk s c \<longleftrightarrow> rn_sessionId c = av_sessionId (rx_activation s) \<and>
     rn_installationId c = bd_installationId (ho_binding (rx_host s)) \<and> rn_adapterId c = cs_adapterId (ow_scope (rx_owner s)) \<and>
     pf_head (md_publication c) = av_head (rx_activation s) \<and> sameRawAuthority (pf_authority (md_publication c)) (rx_authority s)"

definition canonicalContent :: "raw_chunk \<Rightarrow> bool" where
  "canonicalContent c \<longleftrightarrow> btoa (atob (ch_contentBase64 c)) = ch_contentBase64 c \<and> (atob (ch_contentBase64 c) = [] \<longrightarrow> md_final c)"

text \<open>The frozen unit as a checked chunk: schema, binding, canonical Base64 and declared digest.\<close>

definition frozenChunk :: "'r raw_slice \<Rightarrow> bytes \<Rightarrow> delivery_error + raw_chunk" where
  "frozenChunk s b =
     bindE (parseChunk b) (\<lambda>c.
     bindE (requireR (boundChunk s c) RBinding) (\<lambda>_.
     bindE (requireR (canonicalContent c) RInvalid) (\<lambda>_.
     bindE (requireR (ho_sha (rx_host s) (atob (ch_contentBase64 c)) = md_sha256 c) RInvalid) (\<lambda>_. Inr c))))"

definition settleRawW :: "'r raw_slice \<Rightarrow> capture_settlement \<Rightarrow> ('r, unit) effect" where
  "settleRawW s v = journalW (settle (rx_owner s) (rx_id s) v)"

definition acknowledge :: "'r raw_slice \<Rightarrow> raw_chunk \<Rightarrow> int \<Rightarrow> raw_receipt \<Rightarrow> ('r, unit) effect" where
  "acknowledge s c ordinal receipt =
     bindW (checkW (checkRawReceipt c receipt)) (\<lambda>v. settleRawW s (RawAcknowledged ordinal (stringify (receiptJson v))))"

definition chunkIdentity :: "raw_chunk \<Rightarrow> raw_identity" where
  "chunkIdentity c = raw_identity.truncate c"

definition lookupReceipt :: "'r raw_slice \<Rightarrow> raw_chunk \<Rightarrow> ('r, raw_receipt option) effect" where
  "lookupReceipt s c = catchW (\<lambda>e. if e = RawFailure RUnknown then Some (returnW None) else None)
     (bindW (rawW (CallReceipt (chunkIdentity c)) (tr_receipt (rx_remote s) (ho_binding (rx_host s)) (chunkIdentity c)))
       (\<lambda>v. returnW (Some v)))"

definition appendChunk :: "'r raw_slice \<Rightarrow> bytes \<Rightarrow> ('r, raw_receipt option) effect" where
  "appendChunk s b = catchW (\<lambda>e.
       if e = RawFailure RDisabled then Some (bindW (settleRawW s (RawCancellationStarted ''disabled'')) (\<lambda>_. returnW None))
       else if e = RawFailure RAuthorityChanged then Some (bindW (settleRawW s (RawCancellationStarted ''authority_changed'')) (\<lambda>_. returnW None))
       else None)
     (bindW (rawW (CallAppendRaw b) (tr_append (rx_remote s) (ho_binding (rx_host s)) b)) (\<lambda>v. returnW (Some v)))"

definition acknowledgeIf :: "'r raw_slice \<Rightarrow> raw_chunk \<Rightarrow> int \<Rightarrow> raw_receipt option \<Rightarrow> ('r, unit) effect" where
  "acknowledgeIf s c ordinal v = (case v of None \<Rightarrow> returnW () | Some receipt \<Rightarrow> acknowledge s c ordinal receipt)"

function rawLoop :: "'r raw_slice \<Rightarrow> int \<Rightarrow> bool \<Rightarrow> ('r, raw_result) effect" where
  "rawLoop s operations canceled =
     bindW (inspectW (rx_owner s) (rx_id s) Raw True) (\<lambda>(_, units).
     if units = [] then returnW (RawCompleted operations)
     else let u = hd units in
     if operations \<ge> rx_budget s then returnW (RawPending operations)
     else bindW (checkW (requireR (us_byteCount u \<le> RawPublicationWireBytes) RInvalid)) (\<lambda>_.
     bindW (journalW (readUnit (ho_sha (rx_host s)) (ho_limits (rx_host s)) (rx_owner s) (rx_id s) Raw (us_ordinal u))) (\<lambda>b.
     bindW (checkW (frozenChunk s b)) (\<lambda>c.
     bindW (lookupReceipt s c) (\<lambda>receipt.
     if receipt \<noteq> None then bindW (acknowledgeIf s c (us_ordinal u) receipt) (\<lambda>_. rawLoop s (operations + 1) canceled)
     else if canceled then bindW (settleRawW s (RawUnitCanceled (us_ordinal u))) (\<lambda>_. rawLoop s (operations + 1) canceled)
     else bindW (checkW (admitRedactionTransform (rx_host s) (rx_transform s))) (\<lambda>_.
     if operations + 1 \<ge> rx_budget s then returnW (RawPending (operations + 1))
     else bindW (appendChunk s b) (\<lambda>appended.
     bindW (acknowledgeIf s c (us_ordinal u) appended) (\<lambda>_. rawLoop s (operations + 2) (appended = None)))))))))"
  by pat_completeness auto
termination
  by (relation "measure (\<lambda>(s, operations, canceled). nat (rx_budget s - operations))") auto

declare rawLoop.simps [simp del]

text \<open>What a capture contributes: the activation that proves it, its authority and its transform.\<close>

datatype raw_start = RawStart publication_activation "raw_authority option" string | RawEnd raw_result

definition startObservation :: "host \<Rightarrow> capture_owner \<Rightarrow> string \<Rightarrow> capture_summary \<Rightarrow> ('r, raw_start) effect" where
  "startObservation h owner cid c =
     bindW (checkW (boundObservation h owner c)) (\<lambda>i.
     if sm_state c = Preparing then bindW (journalW (settle owner cid AbandonUnsealed)) (\<lambda>_. returnW (RawEnd (RawAbandoned 0)))
     else if sm_state c = Abandoned then returnW (RawEnd (RawAbandoned 0))
     else case sm_seal c of
       None \<Rightarrow> failW (RawFailure RInvalid)
     | Some sl \<Rightarrow>
         bindW (checkW (parseP decodeObservationSeal (sl_manifestJson sl))) (\<lambda>m.
         bindW (checkW (requireR (pm_parts m = sl_rawUnits sl \<and> sl_canonicalUnits sl = 0 \<and>
           Some (sl_nextCheckpoint sl) = sm_expectedCheckpoint c) RInvalid)) (\<lambda>_.
         let a = pv_receipt (ro_canonical i) in
         bindW (journalW (settle owner cid (SettleActivated (stringify (activationJson a))))) (\<lambda>_.
           returnW (RawStart a (Some (ro_rawAuthority i)) (transformOf (pv_intent (ro_canonical i))))))))"

definition startPublication :: "host \<Rightarrow> capture_owner \<Rightarrow> capture_summary \<Rightarrow> delivery_error + raw_start" where
  "startPublication h owner c =
     bindE (boundIntent h owner c) (\<lambda>i.
     case (sm_activationReceipt c, sm_seal c) of
       (Some stored, Some sl) \<Rightarrow> bindE (savedActivation i sl stored) (\<lambda>(_, a). Inr (RawStart a (in_rawAuthority i) (transformOf i)))
     | _ \<Rightarrow> Inl (RawFailure RInvalid))"

definition policyCancellation :: "raw_policy \<Rightarrow> raw_authority \<Rightarrow> string option" where
  "policyCancellation p authority =
     (if ry_enabled p \<and> sameRawAuthority (ry_authority p) authority then None
      else Some (if ry_enabled p then ''Raw authority changed'' else ''Raw capture disabled''))"

definition startCancellation :: "'r raw_slice \<Rightarrow> string option \<Rightarrow> ('r, bool) effect" where
  "startCancellation s reason = (case reason of
       None \<Rightarrow> returnW False | Some t \<Rightarrow> bindW (settleRawW s (RawCancellationStarted t)) (\<lambda>_. returnW True))"

definition redactionCancellation :: "'r raw_slice \<Rightarrow> string option" where
  "redactionCancellation s = (case currentRedactionTransform (rx_host s) of
       None \<Rightarrow> None | Some t \<Rightarrow> (if rx_transform s \<noteq> t then Some ''Redaction policy changed'' else None))"

definition reconcilePolicy :: "'r raw_slice \<Rightarrow> ('r, raw_result) effect" where
  "reconcilePolicy s =
     (let project = cs_projectId (ow_scope (rx_owner s)) in
     bindW (rawW (CallPolicy project) (tr_policy (rx_remote s) (ho_binding (rx_host s)) project)) (\<lambda>p.
     bindW (startCancellation s (policyCancellation p (rx_authority s))) (\<lambda>canceled. rawLoop s 1 canceled)))"

definition deliverRawUnits :: "'r raw_slice \<Rightarrow> string option \<Rightarrow> ('r, raw_result) effect" where
  "deliverRawUnits s reason = (if reason \<noteq> None then rawLoop s 0 True
     else bindW (startCancellation s (redactionCancellation s)) (\<lambda>canceled.
       if canceled then rawLoop s 0 True else reconcilePolicy s))"

definition startRaw :: "host \<Rightarrow> capture_owner \<Rightarrow> string \<Rightarrow> capture_summary \<Rightarrow> ('r, raw_start) effect" where
  "startRaw h owner cid c =
     (if sm_purpose c = RawObservation then startObservation h owner cid c else checkW (startPublication h owner c))"

definition deliverStarted :: "host \<Rightarrow> 'r transport \<Rightarrow> capture_owner \<Rightarrow> string \<Rightarrow> int \<Rightarrow> capture_summary \<Rightarrow> raw_start \<Rightarrow>
    ('r, raw_result) effect" where
  "deliverStarted h r owner cid budget c start = (case start of
       RawEnd d \<Rightarrow> returnW d
     | RawStart a authority t \<Rightarrow>
         if sm_state c = Completed then returnW (RawCompleted 0)
         else case (if sm_rawEnabled c then authority else None) of
           None \<Rightarrow> failW (RawFailure RInvalid)
         | Some auth \<Rightarrow> deliverRawUnits \<lparr>rx_host = h, rx_remote = r, rx_owner = owner, rx_id = cid, rx_activation = a,
             rx_authority = auth, rx_transform = t, rx_budget = budget\<rparr> (sm_rawCancelReason c))"

definition deliverPublicationRaw :: "host \<Rightarrow> 'r transport \<Rightarrow> capture_owner \<Rightarrow> string \<Rightarrow> int \<Rightarrow> ('r, raw_result) effect" where
  "deliverPublicationRaw h r owner cid budget =
     bindW (budgetW (\<lambda>ok. requireR ok RInvalid) budget) (\<lambda>_.
     bindW (inspectW owner cid Raw False) (\<lambda>(c, _).
     bindW (startRaw h owner cid c) (deliverStarted h r owner cid budget c)))"

end
