(* ===== verification/DeliverySafety.thy ===== *)
theory DeliverySafety
  imports PublicationDelivery
begin

text \<open>What a delivery slice can do to the journal and to the remote: it settles the one capture, each
  settlement with a proof of it, and it calls the remote within its operation budget.\<close>

section \<open>Settlements and calls\<close>

definition settlesOnly :: "host \<Rightarrow> capture_owner \<Rightarrow> string \<Rightarrow> (capture_settlement \<Rightarrow> bool) \<Rightarrow> (remote_call \<Rightarrow> bool) \<Rightarrow>
    'r world \<Rightarrow> 'r world \<Rightarrow> bool" where
  "settlesOnly h owner cid P Q w w' \<longleftrightarrow>
     (\<exists>cs. list_all P cs \<and> wd_journal w' = runCalls (ho_sha h) (ho_limits h) (wd_journal w) (map (CallSettle owner cid) cs)) \<and>
     (\<exists>new. list_all Q new \<and> wd_calls w' = wd_calls w @ new)"

lemma runCalls_append: "runCalls sha lim db (cs @ ds) = runCalls sha lim (runCalls sha lim db cs) ds"
  by (simp add: runCalls_def)

interpretation settles: world_relation "settlesOnly h owner cid P Q" for h owner cid P Q
proof
  show "settlesOnly h owner cid P Q w w" for w :: "'r world"
    by (auto simp: settlesOnly_def runCalls_def intro: exI[of _ "[]"])
next
  fix u v w :: "'r world"
  assume uv: "settlesOnly h owner cid P Q u v" and vw: "settlesOnly h owner cid P Q v w"
  obtain cs new ds more where
    "list_all P cs" "wd_journal v = runCalls (ho_sha h) (ho_limits h) (wd_journal u) (map (CallSettle owner cid) cs)"
    "list_all Q new" "wd_calls v = wd_calls u @ new"
    "list_all P ds" "wd_journal w = runCalls (ho_sha h) (ho_limits h) (wd_journal v) (map (CallSettle owner cid) ds)"
    "list_all Q more" "wd_calls w = wd_calls v @ more"
    using uv vw by (auto simp: settlesOnly_def)
  then have "list_all P (cs @ ds)" "list_all Q (new @ more)" "wd_calls w = wd_calls u @ new @ more"
    "wd_journal w = runCalls (ho_sha h) (ho_limits h) (wd_journal u) (map (CallSettle owner cid) (cs @ ds))"
    by (simp_all add: runCalls_append)
  then show "settlesOnly h owner cid P Q u w" unfolding settlesOnly_def by blast
qed

lemma settles_settle: "P v \<Longrightarrow> always (settlesOnly h owner cid P Q) (journalW (settle owner cid v))"
  unfolding always_def
proof
  fix w :: "'r world"
  assume P: "P v"
  let ?w = "fst (journalW (settle owner cid v) w)"
  have "wd_journal ?w = runCalls (ho_sha h) (ho_limits h) (wd_journal w) (map (CallSettle owner cid) [v])"
    by (simp add: runCalls_def runCall_def callWork_def transaction_def journalW_def Let_def split: prod.split sum.split)
  moreover have "wd_calls ?w = wd_calls w @ []" by (simp add: journalW_def Let_def split: prod.split)
  moreover have "list_all P [v]" "list_all Q []" using P by simp_all
  ultimately show "settlesOnly h owner cid P Q w ?w" unfolding settlesOnly_def by blast
qed

lemma settles_remote: "Q call \<Longrightarrow> always (settlesOnly h owner cid P Q) (remoteW fail call service)"
  by (auto simp: always_def settlesOnly_def remoteW_def runCalls_def split: prod.split intro!: exI[of _ "[]"] exI[of _ "[call]"])

lemma inspect_same: "inspect owner cid k after limit pendingOnly db = Inr (db', x) \<Longrightarrow> db' = db"
  by (auto simp: inspect_def success_simps)

lemma readUnit_same: "readUnit sha lim owner cid k n db = Inr (db', x) \<Longrightarrow> db' = db"
  by (auto simp: readUnit_def success_simps Let_def split: if_splits option.split_asm)

lemma settles_inspect: "always (settlesOnly h owner cid P Q) (inspectW owner' cid' k pendingOnly)"
  unfolding inspectW_def by (rule settles.always_local) (rule inspect_same)

lemma settles_read: "always (settlesOnly h owner cid P Q) (journalW (readUnit sha lim owner' cid' k n))"
  by (rule settles.always_local) (rule readUnit_same)

lemmas settles_intros = settles.always_return settles.always_fail settles.always_check settles.always_bind settles.always_if
  settles.always_option settles_inspect settles_read

section \<open>Justified settlements\<close>

definition justified :: "'r slice \<Rightarrow> capture_settlement \<Rightarrow> bool" where
  "justified s v = (case v of
       SettleActivated r \<Rightarrow> (\<exists>a. r = stringify (activationJson a) \<and> provesCapture (sx_intent s) (sx_seal s) a)
     | Rejected r \<Rightarrow> (\<exists>t. r = stringify (attemptJson t) \<and> sameAttempt (sx_intent s) t (Some (sx_seal s)) \<and> tt_state t = AttemptRejected)
     | CanonicalAcknowledged n r \<Rightarrow> (\<exists>p. r = stringify (partJson p) \<and> pp_ordinal p = n)
     | _ \<Rightarrow> False)"

text \<open>Under a changed redaction policy only the status and the rejection of the attempt are asked for.\<close>

definition metadataOnly :: "'r slice \<Rightarrow> remote_call \<Rightarrow> bool" where
  "metadataOnly s call \<longleftrightarrow> call \<in> {CallStatus (attemptId s), CallReject (attemptId s)}"

definition allowedCall :: "'r slice \<Rightarrow> remote_call \<Rightarrow> bool" where
  "allowedCall s call \<longleftrightarrow> metadataOnly s call \<or> (\<not> policyChanged s \<and> policyGate s = Inr ())"

abbreviation sliceSteps :: "'r slice \<Rightarrow> 'r world \<Rightarrow> 'r world \<Rightarrow> bool" where
  "sliceSteps s \<equiv> settlesOnly (sx_host s) (sx_owner s) (sx_id s) (justified s) (allowedCall s)"

lemma settleW_steps: "justified s v \<Longrightarrow> always (sliceSteps s) (settleW s v)"
  unfolding settleW_def by (rule settles_settle)

lemma activateLocally_steps: "always (sliceSteps s) (activateLocally s a)"
  unfolding activateLocally_def
  by (intro settles_intros settleW_steps)
    (auto simp: justified_def checkW_def checkActivation_def requireP_def success_simps split: if_splits)

lemma attemptW_steps: "allowedCall s call \<Longrightarrow> always (sliceSteps s) (attemptW s call service)"
  unfolding attemptW_def by (intro settles_intros settles_remote)

lemma deliveryTurn_steps:
  assumes "\<not> policyChanged s" "policyGate s = Inr ()"
  shows "always (sliceSteps s) (deliveryTurn s t)"
proof -
  have allowed: "allowedCall s call" for call using assms by (simp add: allowedCall_def)
  have send: "always (sliceSteps s) (sendPart s u)" for u
    unfolding sendPart_def Let_def
    by (intro settles_intros settleW_steps settles_remote allowed) (auto simp: justified_def checkW_def requireP_def split: if_splits)
  have "always (sliceSteps s) (sealRemote s)" "always (sliceSteps s) (validateRemote s t)"
    unfolding sealRemote_def validateRemote_def by (intro settles_intros attemptW_steps allowed)+
  then show ?thesis
    unfolding deliveryTurn_def
    by (cases "tt_state t") (auto intro!: settles_intros send settles_remote allowed activateLocally_steps split: list.split)
qed

lemma rejectW_steps: "always (sliceSteps s) (rejectW s proved)"
  unfolding rejectW_def by (intro settles_intros attemptW_steps) (simp add: allowedCall_def metadataOnly_def)

text \<open>The attempt the loop looks at has passed the checks against the frozen capture.\<close>

definition checkedAttempt :: "'r slice \<Rightarrow> publication_attempt \<Rightarrow> bool" where
  "checkedAttempt s t \<longleftrightarrow> checkAttempt (sx_intent s) (Some (sx_seal s)) t = Inr t"

lemma checkAttempt_Inr [success_simps]: "checkAttempt i f t = Inr x \<longleftrightarrow> x = t \<and> sameAttempt i t f \<and> consistentAttempt t"
  by (auto simp: checkAttempt_def requireP_def)

lemma bindW_Inr [success_simps]: "bindW m k w = (w', Inr y) \<longleftrightarrow> (\<exists>u x. m w = (u, Inr x) \<and> k x u = (w', Inr y))"
  by (auto simp: bindW_def split: prod.split sum.split)

lemma returnW_Inr [success_simps]: "returnW x w = (w', Inr y) \<longleftrightarrow> w' = w \<and> y = x"
  by (auto simp: returnW_def)

lemma checkW_Inr [success_simps]: "checkW c w = (w', Inr y) \<longleftrightarrow> w' = w \<and> c = Inr y"
  by (auto simp: checkW_def)

lemma requireP_Inr [success_simps]: "requireP ok e = Inr u \<longleftrightarrow> ok"
  by (simp add: requireP_def)

lemma attemptW_checked: "attemptW s call service w = (w', Inr t) \<Longrightarrow> checkedAttempt s t"
  by (auto simp: attemptW_def checkedAttempt_def success_simps)

lemma rejectW_checked: "rejectW s proved w = (w', Inr t) \<Longrightarrow> checkedAttempt s t \<and> proved t"
  by (auto simp: rejectW_def success_simps dest: attemptW_checked)

lemma deliveryTurn_checked: "checkedAttempt s t \<Longrightarrow> deliveryTurn s t w = (w', Inr (Continue t')) \<Longrightarrow> checkedAttempt s t'"
  by (cases "tt_state t") (auto simp: deliveryTurn_def sealRemote_def validateRemote_def success_simps
      dest: attemptW_checked split: list.splits dest!: neq_Nil_conv[THEN iffD1])

lemma bindW_check [simp]: "bindW (checkW (Inr x)) k = k x" "bindW (checkW (Inl e)) k = failW e"
  by (rule ext, simp add: bindW_def checkW_def failW_def)+

text \<open>The branches of the loop, with what each knows of the attempt and the budget.\<close>

lemma deliverLoop_cases:
  obtains a where "tt_activation t = Some a"
    "deliverLoop s n t = bindW (activateLocally s a) (\<lambda>receipt. returnW (DeliveryActivated n receipt))"
  | "tt_activation t = None" "tt_state t = AttemptRejected"
    "deliverLoop s n t = bindW (settleW s (Rejected (stringify (attemptJson t)))) (\<lambda>_. returnW (DeliveryAbandoned n))"
  | e where "deliverLoop s n t = failW e"
  | "deliverLoop s n t = returnW (DeliveryPending n)"
  | proved where "tt_activation t = None" "tt_state t \<noteq> AttemptRejected" "n < sx_budget s" "policyChanged s \<or> lapsed t"
    "deliverLoop s n t = bindW (rejectW s proved) (deliverLoop s (n + 1))"
  | "tt_activation t = None" "tt_state t \<noteq> AttemptRejected" "policyGate s = Inr ()" "\<not> policyChanged s" "\<not> lapsed t" "n + 1 < sx_budget s"
    "deliverLoop s n t = bindW (attemptW s (CallRenew (attemptId s)) (tr_renew (sx_remote s))) (\<lambda>t'.
         if terminalAttempt t' then deliverLoop s (n + 1) t'
         else bindW (deliveryTurn s t') (\<lambda>turn. case turn of
             Continue t'' \<Rightarrow> deliverLoop s (n + 2) t''
           | Finish receipt \<Rightarrow> returnW (DeliveryActivated (n + 2) receipt)))"
proof (cases "tt_activation t")
  case (Some a)
  then show ?thesis by (intro that(1)) (simp_all add: deliverLoop.simps[of s n t])
next
  case none: None
  consider "tt_state t = AttemptRejected" | e where "tt_state t \<noteq> AttemptRejected" "policyGate s = Inl e"
    | "tt_state t \<noteq> AttemptRejected" "policyGate s = Inr ()"
    by (cases "policyGate s") auto
  then show ?thesis
  proof cases
    case 1
    with none show ?thesis by (intro that(2)) (simp_all add: deliverLoop.simps[of s n t])
  next
    case 2
    with none show ?thesis by (intro that(3)) (simp_all add: deliverLoop.simps[of s n t])
  next
    case open_gate: 3
    note loop = deliverLoop.simps[of s n t] none open_gate
    consider "\<not> n < sx_budget s" | "n < sx_budget s" "policyChanged s" | "n < sx_budget s" "\<not> policyChanged s" "lapsed t"
      | "\<not> policyChanged s" "\<not> lapsed t" "\<not> n + 1 < sx_budget s" | "\<not> policyChanged s" "\<not> lapsed t" "n + 1 < sx_budget s"
      by linarith
    then show ?thesis
    proof cases
      case 1
      then show ?thesis by (intro that(4)) (simp add: loop)
    next
      case 2
      then show ?thesis by (intro that(5)) (simp_all add: loop)
    next
      case 3
      then show ?thesis by (intro that(5)) (simp_all add: loop)
    next
      case 4
      then show ?thesis by (intro that(4)) (simp add: loop)
    next
      case 5
      then show ?thesis by (intro that(6)) (simp_all add: loop)
    qed
  qed
qed

lemma deliverLoop_steps: "checkedAttempt s t \<Longrightarrow> always (sliceSteps s) (deliverLoop s n t)"
proof (induction s n t rule: deliverLoop.induct)
  case (1 s n t)
  show ?case
  proof (cases rule: deliverLoop_cases[of t s n])
    case (1 a)
    show ?thesis unfolding 1 by (intro settles_intros activateLocally_steps)
  next
    case 2
    have "justified s (Rejected (stringify (attemptJson t)))"
      using "1.prems" 2 by (auto simp: justified_def checkedAttempt_def success_simps)
    then show ?thesis unfolding 2 by (intro settles_intros settleW_steps)
  next
    case (3 e)
    show ?thesis unfolding 3 by (rule settles.always_fail)
  next
    case 4
    show ?thesis unfolding 4 by (rule settles.always_return)
  next
    case (5 proved)
    have "always (sliceSteps s) (deliverLoop s (n + 1) t')" if "checkedAttempt s t'" for t'
      using "1.IH"(1,2) 5 that by force
    then show ?thesis unfolding 5 by (intro settles_intros rejectW_steps) (auto dest: rejectW_checked)
  next
    case 6
    have allowed: "allowedCall s call" for call using 6 by (simp add: allowedCall_def)
    have "always (sliceSteps s) (deliverLoop s (n + 1) t')" if "checkedAttempt s t'" "terminalAttempt t'" for t'
      using "1.IH"(3) 6 that by force
    moreover have "always (sliceSteps s) (bindW (deliveryTurn s t') (\<lambda>turn. case turn of
        Continue t'' \<Rightarrow> deliverLoop s (n + 2) t'' | Finish receipt \<Rightarrow> returnW (DeliveryActivated (n + 2) receipt)))"
      if t': "checkedAttempt s t'" "\<not> terminalAttempt t'" for t'
    proof (intro settles_intros deliveryTurn_steps)
      fix w w' turn assume turn: "deliveryTurn s t' w = (w', Inr turn)"
      show "always (sliceSteps s) (case turn of Continue t'' \<Rightarrow> deliverLoop s (n + 2) t''
          | Finish receipt \<Rightarrow> returnW (DeliveryActivated (n + 2) receipt))"
      proof (cases turn)
        case (Continue t'')
        with turn have "checkedAttempt s t''" using t'(1) deliveryTurn_checked by blast
        then show ?thesis using "1.IH"(4)[of t' turn t''] 6 t' Continue by simp
      qed (simp add: settles.always_return)
    qed (use 6 in simp_all)
    ultimately show ?thesis unfolding 6
      by (intro settles.always_bind[OF attemptW_steps[OF allowed]] settles.always_if) (auto dest: attemptW_checked)
  qed
qed

section \<open>The budget\<close>

text \<open>An effect makes at most so many remote calls, however it ends.\<close>

definition callsAtMost :: "nat \<Rightarrow> ('r, 'a) effect \<Rightarrow> bool" where
  "callsAtMost k m \<longleftrightarrow> (\<forall>w. \<exists>new. wd_calls (fst (m w)) = wd_calls w @ new \<and> length new \<le> k)"

named_theorems calls_intros \<open>bounds on the remote calls of an effect\<close>

lemma callsAtMost_0: "callsAtMost 0 m \<longleftrightarrow> (\<forall>w. wd_calls (fst (m w)) = wd_calls w)"
  by (auto simp: callsAtMost_def)

lemma calls_local [calls_intros]: "callsAtMost 0 (returnW x)" "callsAtMost 0 (failW e)" "callsAtMost 0 (checkW c)"
  "callsAtMost 0 (journalW f)" "callsAtMost 0 (inspectW owner cid k p)" "callsAtMost 0 (settleW s v)"
  by (simp_all add: callsAtMost_0 returnW_def failW_def checkW_def journalW_def inspectW_def settleW_def Let_def split: prod.split)

lemma calls_remote [calls_intros]: "callsAtMost 1 (remoteW fail call service)"
  by (auto simp: callsAtMost_def remoteW_def split: prod.split)

lemma calls_bind:
  assumes "callsAtMost j m" "\<And>x. callsAtMost k (f x)"
  shows "callsAtMost (j + k) (bindW m f)"
  unfolding callsAtMost_def
proof
  fix w
  obtain w' res where m: "m w = (w', res)" by fastforce
  obtain new where new: "wd_calls w' = wd_calls w @ new" "length new \<le> j" using assms(1) m by (metis callsAtMost_def fst_conv)
  show "\<exists>new. wd_calls (fst (bindW m f w)) = wd_calls w @ new \<and> length new \<le> j + k"
  proof (cases res)
    case (Inl e)
    then show ?thesis using m new by (auto simp: bindW_def)
  next
    case (Inr x)
    obtain more where "wd_calls (fst (f x w')) = wd_calls w' @ more" "length more \<le> k"
      using assms(2) by (metis callsAtMost_def)
    then show ?thesis using m new Inr by (auto simp: bindW_def intro!: exI[of _ "new @ more"])
  qed
qed

lemma calls_free [calls_intros]: "callsAtMost 0 m \<Longrightarrow> (\<And>x. callsAtMost k (f x)) \<Longrightarrow> callsAtMost k (bindW m f)"
  using calls_bind[of 0 m k f] by simp

lemma calls_then [calls_intros]: "callsAtMost k m \<Longrightarrow> (\<And>x. callsAtMost 0 (f x)) \<Longrightarrow> callsAtMost k (bindW m f)"
  using calls_bind[of k m 0 f] by simp

lemma calls_activateLocally [calls_intros]: "callsAtMost 0 (activateLocally s a)"
  unfolding activateLocally_def by (intro calls_intros)

lemma calls_attemptW [calls_intros]: "callsAtMost 1 (attemptW s call service)"
  unfolding attemptW_def by (rule calls_then) (intro calls_intros)+

lemma calls_rejectW [calls_intros]: "callsAtMost 1 (rejectW s proved)"
  unfolding rejectW_def by (rule calls_then) (intro calls_intros)+

lemma callsAtMost_mono: "callsAtMost j m \<Longrightarrow> j \<le> k \<Longrightarrow> callsAtMost k m"
  unfolding callsAtMost_def using order_trans by blast

lemma calls_deliveryTurn: "callsAtMost 1 (deliveryTurn s t)"
proof -
  have send: "callsAtMost 1 (sendPart s u)" for u
    unfolding sendPart_def Let_def
    by (rule calls_free, rule calls_intros, rule calls_then) (intro calls_intros)+
  have remote: "callsAtMost 1 (sealRemote s)" "callsAtMost 1 (validateRemote s t)"
    unfolding sealRemote_def validateRemote_def by (rule calls_then; intro calls_intros)+
  have none: "callsAtMost 1 (returnW x)" for x :: turn by (rule callsAtMost_mono[OF calls_local(1)]) simp
  show ?thesis
  proof (cases "tt_state t")
    case AttemptOpen
    have "callsAtMost 1 (case units of u # us \<Rightarrow> bindW (sendPart s u) (\<lambda>_. returnW (Continue t))
        | [] \<Rightarrow> bindW (sealRemote s) (\<lambda>t'. returnW (Continue t')))" for units
      by (cases units) (simp_all only: list.case calls_then[OF send] calls_then[OF remote(1)] calls_local)
    then show ?thesis by (auto simp: deliveryTurn_def AttemptOpen intro!: calls_free calls_local split: prod.split)
  next
    case AttemptValidated
    have "callsAtMost 1 (bindW (publicationW (CallActivate (attemptId s)) (tr_activate (sx_remote s) (ho_binding (sx_host s)) (attemptId s)))
        (\<lambda>a. bindW (activateLocally s a) (\<lambda>verified. returnW (Finish verified))))"
      by (rule calls_then; intro calls_intros)
    then show ?thesis by (simp only: deliveryTurn_def AttemptValidated attempt_state.case)
  qed (simp_all only: deliveryTurn_def attempt_state.case none calls_then[OF remote(2)] calls_local)
qed

definition spends :: "('d \<Rightarrow> int) \<Rightarrow> int \<Rightarrow> int \<Rightarrow> 'r world \<Rightarrow> 'r world \<times> (delivery_error + 'd) \<Rightarrow> bool" where
  "spends used n budget w out \<longleftrightarrow> (\<exists>new. wd_calls (fst out) = wd_calls w @ new \<and> n + int (length new) \<le> budget \<and>
     (case snd out of Inl _ \<Rightarrow> True
      | Inr d \<Rightarrow> n + int (length new) \<le> used d \<and> used d \<le> budget))"

lemma spends_return: "n \<le> used d \<Longrightarrow> used d \<le> budget \<Longrightarrow> spends used n budget w (returnW d w)"
  by (simp add: spends_def returnW_def)

lemma spends_fail: "n \<le> budget \<Longrightarrow> spends used n budget w (failW e w)"
  by (simp add: spends_def failW_def)

lemma spends_bind:
  assumes "callsAtMost j m" "n + int j \<le> budget" "\<And>w' x. m w = (w', Inr x) \<Longrightarrow> spends used (n + int j) budget w' (k x w')"
  shows "spends used n budget w (bindW m k w)"
proof -
  obtain w' res where m: "m w = (w', res)" by fastforce
  obtain new where new: "wd_calls w' = wd_calls w @ new" "length new \<le> j" using assms(1) m by (metis callsAtMost_def fst_conv)
  show ?thesis
  proof (cases res)
    case (Inl e)
    then show ?thesis using m new assms(2) by (simp add: bindW_def spends_def)
  next
    case (Inr x)
    then obtain more where "wd_calls (fst (k x w')) = wd_calls w' @ more" "n + int j + int (length more) \<le> budget"
      "case snd (k x w') of Inl _ \<Rightarrow> True
      | Inr d \<Rightarrow> n + int j + int (length more) \<le> used d \<and> used d \<le> budget"
      using assms(3) m by (auto simp: spends_def)
    then show ?thesis using m new Inr
      by (auto simp: bindW_def spends_def intro!: exI[of _ "new @ more"] split: sum.splits)
  qed
qed

lemma deliverLoop_spends: "n \<le> sx_budget s \<Longrightarrow> spends deliveryOperations n (sx_budget s) w (deliverLoop s n t w)"
proof (induction s n t arbitrary: w rule: deliverLoop.induct)
  case (1 s n t)
  show ?case
  proof (cases rule: deliverLoop_cases[of t s n])
    case (1 a)
    show ?thesis unfolding 1
      by (rule spends_bind[OF calls_activateLocally]) (auto intro: spends_return "1.prems" simp: "1.prems")
  next
    case 2
    show ?thesis unfolding 2
      by (rule spends_bind[OF calls_local(6)]) (auto intro: spends_return simp: "1.prems")
  next
    case (3 e)
    show ?thesis unfolding 3 by (rule spends_fail[OF "1.prems"])
  next
    case 4
    show ?thesis unfolding 4 by (rule spends_return) (simp_all add: "1.prems")
  next
    case (5 proved)
    have "spends deliveryOperations (n + 1) (sx_budget s) w (deliverLoop s (n + 1) t' w)" for w t'
      using "1.IH"(1,2) 5 by force
    then show ?thesis unfolding 5 using 5 by (intro spends_bind[OF calls_rejectW]) simp_all
  next
    case 6
    have "spends deliveryOperations (n + 1) (sx_budget s) w (deliverLoop s (n + 1) t' w)" if "terminalAttempt t'" for w t'
      using "1.IH"(3) 6 that by force
    moreover have "spends deliveryOperations (n + 1) (sx_budget s) w (bindW (deliveryTurn s t') (\<lambda>turn. case turn of
        Continue t'' \<Rightarrow> deliverLoop s (n + 2) t'' | Finish receipt \<Rightarrow> returnW (DeliveryActivated (n + 2) receipt)) w)"
      if t': "\<not> terminalAttempt t'" for w t'
    proof (rule spends_bind[OF calls_deliveryTurn])
      fix w' turn
      show "spends deliveryOperations (n + 1 + int 1) (sx_budget s) w' ((case turn of Continue t'' \<Rightarrow> deliverLoop s (n + 2) t''
          | Finish receipt \<Rightarrow> returnW (DeliveryActivated (n + 2) receipt)) w')"
        using "1.IH"(4)[of t' turn _ w'] 6 t' by (cases turn) (auto intro: spends_return simp: add.commute)
    qed (use 6 in simp)
    ultimately show ?thesis unfolding 6 using 6 by (intro spends_bind[OF calls_attemptW]) auto
  qed
qed

end
