(* ===== verification/DeliveryProperties.thy ===== *)
theory DeliveryProperties
  imports DeliverySafety JournalSafety
begin

text \<open>The promises of the Canonical delivery: it only settles its own capture and every settlement
  carries its proof, it stays within its budget, a changed redaction policy sends no content, an
  unsealed capture sends nothing, and a reported activation is a proved and recorded one.\<close>

section \<open>The recorded activation\<close>

lemma captureIs_update [simp]:
  "captureIs key cid (r\<lparr>cp_state := x\<rparr>) = captureIs key cid r"
  "captureIs key cid (r\<lparr>cp_activationReceipt := v\<rparr>) = captureIs key cid r"
  "captureIs key cid (dropSourceMetadata r) = captureIs key cid r"
  by (simp_all add: captureIs_def captureKey_def dropSourceMetadata_def)

lemma find_capture_updated:
  assumes "find (captureIs key cid) (db_captures db) = Some row"
    and "\<And>r. captureIs key cid (f r) = captureIs key cid r"
  shows "find (captureIs key cid) (db_captures (updateCaptures P f db)) = Some (if P row then f row else row)"
  using assms by (simp add: updateCaptures_def find_updateWhere)

definition recordedActivation :: "string \<Rightarrow> string \<Rightarrow> string \<Rightarrow> journal_db \<Rightarrow> bool" where
  "recordedActivation key cid receipt db \<longleftrightarrow>
     (\<exists>row. find (captureIs key cid) (db_captures db) = Some row \<and> cp_activationReceipt row = Some receipt)"

lemma recorded_update:
  assumes "recordedActivation key cid receipt db"
    and "\<And>r. captureIs key cid (f r) = captureIs key cid r" "\<And>r. cp_activationReceipt (f r) = cp_activationReceipt r"
  shows "recordedActivation key cid receipt (updateCaptures P f db)"
  using assms find_capture_updated[of key cid db _ f P] by (auto simp: recordedActivation_def)

lemma recorded_scopes [simp]: "recordedActivation key cid receipt (updateScopes P f db) = recordedActivation key cid receipt db"
  by (simp add: recordedActivation_def updateScopes_def)

lemma recorded_complete: "recordedActivation key cid receipt db \<Longrightarrow> recordedActivation key cid receipt (complete k c db)"
  unfolding complete_def by (simp add: recorded_update)

lemma recorded_publication:
  "recordedActivation key cid receipt db \<Longrightarrow> recordedActivation key cid receipt (activatePublication k row n db)"
  unfolding activatePublication_def Let_def by (intro recorded_update) (simp_all, simp add: dropSourceMetadata_def)

lemma settle_activated_recorded:
  assumes "settle owner cid (SettleActivated receipt) db = Inr (db', u)"
  shows "\<exists>key. scopeKey (ow_scope owner) = Inr key \<and> recordedActivation key cid receipt db'"
proof -
  obtain scope row where sc: "ownerScope db owner = Inr scope" "find (captureIs (sc_key scope) cid) (db_captures db) = Some row"
      "cp_id row = cid" and act: "settleActivated scope row receipt db = Inr (db', u)"
    using settle_effect[OF assms] by auto
  have key: "scopeKey (ow_scope owner) = Inr (sc_key scope)" using sc(1) by (simp add: ownerScope_Inr)
  show ?thesis
  proof (cases "cp_activationReceipt row")
    case (Some old)
    then show ?thesis using act sc key by (auto simp: settleActivated_def recordedActivation_def success_simps split: if_splits)
  next
    case None
    let ?db1 = "updateCaptures (captureIs (sc_key scope) cid) (\<lambda>r. r\<lparr>cp_state := Activated, cp_activationReceipt := Some receipt\<rparr>) db"
    obtain sealed where sealed: "cp_sealJson row = Some sealed" "cp_state row = Sealed"
        "sc_checkpoint scope = cp_expectedCheckpoint row"
      using act None by (auto simp: settleActivated_def bindE_Inr_iff split: option.splits if_splits)
    then obtain m where "parsedSeal sealed = Inr m" and db': "db' = complete (sc_key scope) cid
        (if cp_purpose row = Publication then activatePublication (sc_key scope) row (sl_nextCheckpoint m) ?db1 else ?db1)"
      using act None sc(3) by (auto simp: settleActivated_def bindE_Inr_iff Let_def)
    have "recordedActivation (sc_key scope) cid receipt ?db1"
      unfolding recordedActivation_def using find_capture_updated[OF sc(2)] find_Some_in[OF sc(2)] by simp
    then show ?thesis unfolding db' using key by (auto intro: recorded_complete recorded_publication)
  qed
qed

section \<open>The properties\<close>

definition sliceOf :: "host \<Rightarrow> 'r transport \<Rightarrow> capture_owner \<Rightarrow> string \<Rightarrow> publication_intent \<Rightarrow> publication_seal \<Rightarrow> int \<Rightarrow> 'r slice" where
  "sliceOf h r owner cid i s n = \<lparr>sx_host = h, sx_remote = r, sx_owner = owner, sx_id = cid, sx_intent = i, sx_seal = s, sx_budget = n\<rparr>"

text \<open>The capture a delivery reads first.\<close>

definition inspected :: "capture_owner \<Rightarrow> string \<Rightarrow> unit_kind \<Rightarrow> 'r world \<Rightarrow> capture_summary \<Rightarrow> bool" where
  "inspected owner cid k w c \<longleftrightarrow> (\<exists>us. inspect owner cid k None (Some 1) False (wd_journal w) = Inr (wd_journal w, (c, us)))"

lemma inspectW_inspected: "inspectW owner cid k False w = (w', Inr (c, us)) \<Longrightarrow> w' = w \<and> inspected owner cid k w c"
  by (auto simp: inspectW_def journalW_def transaction_def inspected_def Let_def dest!: inspect_same split: sum.splits prod.splits)

lemma inspected_inspectW: "inspected owner cid k w c \<Longrightarrow> \<exists>us. inspectW owner cid k False w = (w, Inr (c, us))"
  by (auto simp: inspectW_def journalW_def transaction_def inspected_def Let_def)

text \<open>Either the budget is refused, or the capture's metadata is, or the delivery is that of the sealed slice.\<close>

lemma deliver_sealed:
  assumes "inspected owner cid Canonical w c" "boundIntent h owner c = Inr i" "sm_state c \<notin> {Preparing, Abandoned}"
    "sm_seal c = Some sl" "frozenSeal sl = Inr s"
  shows "deliverPublicationCapture h r owner cid n w =
    (if 3 \<le> n \<and> n \<le> 64 then deliverSealed (sliceOf h r owner cid i s n) (sm_activationReceipt c) w else failW (PublicationFailure PInvalid) w)"
  using inspected_inspectW[OF assms(1)] assms(2-)
  by (auto simp: deliverPublicationCapture_def budgetW_def requireP_def sliceOf_def bindW_def checkW_def failW_def safe_integer_def max_safe_integer_def)

lemma deliverSealed_steps: "always (sliceSteps s) (deliverSealed s receipt)"
proof (cases receipt)
  case None
  have "allowedCall s (CallStatus (attemptId s))" by (simp add: allowedCall_def metadataOnly_def)
  then show ?thesis
    unfolding deliverSealed_def None option.case
    by (intro settles.always_bind attemptW_steps deliverLoop_steps) (auto dest: attemptW_checked)
next
  case (Some a)
  then show ?thesis by (simp add: deliverSealed_def) (intro settles_intros activateLocally_steps)
qed

lemma deliverSealed_spends: "1 \<le> sx_budget s \<Longrightarrow> spends deliveryOperations 0 (sx_budget s) w (deliverSealed s receipt w)"
proof (cases receipt)
  case None
  assume b: "1 \<le> sx_budget s"
  show ?thesis
    unfolding deliverSealed_def None option.case
    by (rule spends_bind[OF calls_attemptW]) (use b in \<open>auto intro: deliverLoop_spends\<close>)
next
  case (Some a)
  assume b: "1 \<le> sx_budget s"
  have "spends deliveryOperations 0 (sx_budget s) w (bindW (activateLocally s x) (\<lambda>v. returnW (DeliveryActivated 0 v)) w)" for x w
    by (rule spends_bind[OF calls_activateLocally]) (use b in \<open>auto intro: spends_return\<close>)
  then show ?thesis
    unfolding deliverSealed_def Some option.case
    by (intro spends_bind[OF calls_local(3)]) (use b in auto)
qed

lemma delivery_steps:
  assumes "inspected owner cid Canonical w c" "boundIntent h owner c = Inr i" "sm_state c \<notin> {Preparing, Abandoned}"
    "sm_seal c = Some sl" "frozenSeal sl = Inr s" "deliverPublicationCapture h r owner cid n w = (w', res)"
  shows "sliceSteps (sliceOf h r owner cid i s n) w w'"
proof (cases "3 \<le> n \<and> n \<le> 64")
  case True
  have "sliceSteps (sliceOf h r owner cid i s n) w (fst (deliverSealed (sliceOf h r owner cid i s n) (sm_activationReceipt c) w))"
    by (rule deliverSealed_steps[unfolded always_def, THEN spec])
  moreover have "w' = fst (deliverSealed (sliceOf h r owner cid i s n) (sm_activationReceipt c) w)"
    using deliver_sealed[OF assms(1-5), of r n] assms(6) True by (metis fst_conv)
  ultimately show ?thesis by simp
next
  case False
  then have "w' = w" using deliver_sealed[OF assms(1-5), of r n] assms(6) by (auto simp: failW_def)
  then show ?thesis using settles.same by blast
qed


text \<open>C23: When the redaction policy changed after the capture was sealed, a delivery sends no content: it only asks
  for the status of the attempt and for its rejection.\<close>
theorem policy_change_sends_no_content:
  assumes "inspected owner cid Canonical w c" "boundIntent h owner c = Inr i" "sm_state c \<notin> {Preparing, Abandoned}"
    "sm_seal c = Some sl" "frozenSeal sl = Inr s" "ho_policyId h = Some p"
    "pb_transformVersion (in_begin i) \<noteq> ''atape.host-redaction.v2:'' @ p"
    "deliverPublicationCapture h r owner cid n w = (w', res)"
  shows "\<exists>new. wd_calls w' = wd_calls w @ new \<and>
    set new \<subseteq> {CallStatus (pb_reservationId (in_begin i)), CallReject (pb_reservationId (in_begin i))}"
proof -
  let ?s = "sliceOf h r owner cid i s n"
  have changed: "policyChanged ?s"
    using assms(6,7) by (simp add: policyChanged_def currentRedactionTransform_def redactionTransformVersion_def sliceOf_def)
  have "sliceSteps ?s w w'"
    by (rule delivery_steps[OF assms(1-5) assms(8)])
  then obtain new where "wd_calls w' = wd_calls w @ new" "list_all (allowedCall ?s) new"
    by (auto simp: settlesOnly_def)
  then show ?thesis
    using changed by (auto simp: list_all_iff allowedCall_def metadataOnly_def attemptId_def sliceOf_def)
qed

text \<open>C24: A delivery slice makes at most as many remote calls as its budget of 3 to 64 operations, whatever the remote
  answers, and the operations it reports lie between its remote calls and the budget; any other budget makes none.\<close>
theorem delivery_within_budget:
  "\<exists>new. wd_calls (fst (deliverPublicationCapture h r owner cid n w)) = wd_calls w @ new \<and>
     int (length new) \<le> (if 3 \<le> n \<and> n \<le> 64 then n else 0) \<and>
     (case snd (deliverPublicationCapture h r owner cid n w) of Inl _ \<Rightarrow> True
      | Inr d \<Rightarrow> int (length new) \<le> deliveryOperations d \<and> deliveryOperations d \<le> n)"
proof (cases "3 \<le> n \<and> n \<le> 64")
  case False
  then have "budgetW (\<lambda>ok. requireP ok PInvalid) n w = (w, Inl (PublicationFailure PInvalid))"
    by (simp add: budgetW_def requireP_def checkW_def)
  then have "deliverPublicationCapture h r owner cid n w = (w, Inl (PublicationFailure PInvalid))"
    by (simp add: deliverPublicationCapture_def bindW_def)
  then show ?thesis by simp
next
  case True
  have return: "spends deliveryOperations 0 n w (returnW (DeliveryAbandoned 0) w)" for w :: "'a world" using True by (intro spends_return) simp_all
  have sealed: "spends deliveryOperations 0 n w (deliverSealed (sliceOf h r owner cid i s n) receipt w)" for i s receipt and w :: "'a world"
    using True deliverSealed_spends[of "sliceOf h r owner cid i s n" w receipt] by (simp add: sliceOf_def)
  have "spends deliveryOperations 0 n w (deliverPublicationCapture h r owner cid n w)"
    unfolding deliverPublicationCapture_def budgetW_def sliceOf_def[symmetric]
    by (intro spends_bind[OF calls_local(3)] spends_bind[OF calls_local(5)])
      (use True sealed in \<open>auto split: option.split intro!: spends_bind[OF calls_local(3)] spends_bind[OF calls_local(4)] return
        spends_fail\<close>)
  then show ?thesis using True by (auto simp: spends_def split: sum.splits)
qed

lemma activateLocally_Inr:
  "activateLocally s a w = (w', Inr v) \<longleftrightarrow> v = a \<and> provesCapture (sx_intent s) (sx_seal s) a \<and>
     settleW s (SettleActivated (stringify (activationJson a))) w = (w', Inr ())"
  by (auto simp: activateLocally_def checkActivation_def success_simps)

lemma settleW_Inr: "settleW s v w = (w', Inr ()) \<longleftrightarrow>
    (\<exists>db. settle (sx_owner s) (sx_id s) v (wd_journal w) = Inr (db, ()) \<and> w' = w\<lparr>wd_journal := db\<rparr>)"
  by (auto simp: settleW_def journalW_def transaction_def Let_def split: sum.splits)

lemma deliveryTurn_finish:
  "deliveryTurn s t w = (w', Inr (Finish a)) \<Longrightarrow> \<exists>u. activateLocally s a u = (w', Inr a)"
  by (cases "tt_state t") (auto simp: deliveryTurn_def activateLocally_Inr success_simps split: list.splits
      dest!: neq_Nil_conv[THEN iffD1])

lemma deliverLoop_activated:
  "deliverLoop s n t w = (w', Inr (DeliveryActivated k a)) \<Longrightarrow> \<exists>u. activateLocally s a u = (w', Inr a)"
proof (induction s n t arbitrary: w rule: deliverLoop.induct)
  case (1 s n t)
  show ?case
  proof (cases rule: deliverLoop_cases[of t s n])
    case (1 b)
    then show ?thesis using "1.prems" by (auto simp: success_simps activateLocally_Inr)
  next
    case (5 proved)
    then obtain u t' where "deliverLoop s (n + 1) t' u = (w', Inr (DeliveryActivated k a))"
      using "1.prems" by (auto simp: success_simps)
    then show ?thesis using "1.IH"(1,2)[of t' u] 5 by force
  next
    case 6
    obtain u t' where t': "(if terminalAttempt t' then deliverLoop s (n + 1) t'
         else bindW (deliveryTurn s t') (\<lambda>turn. case turn of
             Continue t'' \<Rightarrow> deliverLoop s (n + 2) t''
           | Finish receipt \<Rightarrow> returnW (DeliveryActivated (n + 2) receipt))) u = (w', Inr (DeliveryActivated k a))"
      using "1.prems"[unfolded 6(7) bindW_Inr] by blast
    show ?thesis
    proof (cases "terminalAttempt t'")
      case True
      then show ?thesis using "1.IH"(3)[of t' u] 6 t' by simp
    next
      case False
      then obtain v turn where turn: "deliveryTurn s t' u = (v, Inr turn)"
          "(case turn of Continue t'' \<Rightarrow> deliverLoop s (n + 2) t''
           | Finish receipt \<Rightarrow> returnW (DeliveryActivated (n + 2) receipt)) v = (w', Inr (DeliveryActivated k a))"
        using t' by (auto simp: success_simps)
      show ?thesis
      proof (cases turn)
        case (Continue t'')
        then show ?thesis using "1.IH"(4)[of t' turn t'' v] 6 False turn by simp
      next
        case (Finish receipt)
        then show ?thesis using turn by (auto simp: success_simps dest: deliveryTurn_finish)
      qed
    qed
  qed (use "1.prems" in \<open>auto simp: success_simps failW_def\<close>)
qed

lemma deliverSealed_activated:
  "deliverSealed s receipt w = (w', Inr (DeliveryActivated k a)) \<Longrightarrow> \<exists>u. activateLocally s a u = (w', Inr a)"
  by (cases receipt) (auto simp: deliverSealed_def success_simps activateLocally_Inr dest!: deliverLoop_activated)

text \<open>C25: A delivery that reports an activation read a sealed capture, the receipt it reports proves the frozen intent
  and seal of that capture, and the journal it leaves has recorded that very receipt for it.\<close>
theorem activation_proved_and_recorded:
  assumes "deliverPublicationCapture h r owner cid n w = (w', Inr (DeliveryActivated k a))"
  shows "\<exists>c i sl s key. inspected owner cid Canonical w c \<and> boundIntent h owner c = Inr i \<and> sm_seal c = Some sl \<and>
    frozenSeal sl = Inr s \<and> provesCapture i s a \<and> scopeKey (ow_scope owner) = Inr key \<and>
    recordedActivation key cid (stringify (activationJson a)) (wd_journal w')"
proof -
  obtain c us i sl s where parts: "inspectW owner cid Canonical False w = (w, Inr (c, us))" "boundIntent h owner c = Inr i"
      "sm_seal c = Some sl" "frozenSeal sl = Inr s"
    and run: "deliverSealed (sliceOf h r owner cid i s n) (sm_activationReceipt c) w = (w', Inr (DeliveryActivated k a))"
    using assms unfolding deliverPublicationCapture_def budgetW_def sliceOf_def[symmetric]
    by (auto simp: success_simps failW_def dest: inspectW_inspected split: if_splits option.splits)
  obtain u where "activateLocally (sliceOf h r owner cid i s n) a u = (w', Inr a)" using deliverSealed_activated[OF run] by blast
  then obtain db where "provesCapture i s a" "settle owner cid (SettleActivated (stringify (activationJson a))) (wd_journal u) = Inr (db, ())"
      "wd_journal w' = db"
    by (auto simp: activateLocally_Inr settleW_Inr sliceOf_def)
  moreover obtain key where "scopeKey (ow_scope owner) = Inr key" "recordedActivation key cid (stringify (activationJson a)) db"
    using settle_activated_recorded calculation(2) by blast
  moreover have "inspected owner cid Canonical w c" using inspectW_inspected[OF parts(1)] by simp
  ultimately show ?thesis using parts by blast
qed

text \<open>Delivering a capture that was never sealed sends nothing: the capture is abandoned locally, or the delivery fails.\<close>
lemma unsealed_sends_nothing:
  assumes "inspected owner cid Canonical w c" "boundIntent h owner c = Inr i" "sm_state c = Preparing"
    "deliverPublicationCapture h r owner cid n w = (w', res)"
  shows "wd_calls w' = wd_calls w \<and> (case res of Inl _ \<Rightarrow> True | Inr d \<Rightarrow> d = DeliveryAbandoned 0)"
proof -
  obtain us where "inspectW owner cid Canonical False w = (w, Inr (c, us))" using inspected_inspectW[OF assms(1)] by blast
  then show ?thesis using assms(2-)
    by (auto simp: deliverPublicationCapture_def budgetW_def requireP_def bindW_def checkW_def returnW_def journalW_def Let_def
        split: if_splits prod.splits sum.splits)
qed

end
