(* ===== verification/RawProperties.thy ===== *)
theory RawProperties
  imports RawDelivery DeliveryProperties JournalProperties
begin

text \<open>The promises of the Raw delivery: it stays within its budget, sends nothing once the capture is
  canceled or its redaction policy replaced, and never moves the checkpoint of a source; accepted
  content is the Base64 of the bytes its receipt counts.\<close>

section \<open>Relations the Raw loop keeps\<close>

definition rawSettlement :: "capture_settlement \<Rightarrow> bool" where
  "rawSettlement v \<longleftrightarrow> (case v of RawAcknowledged n r \<Rightarrow> True | RawUnitCanceled n \<Rightarrow> True | RawCancellationStarted t \<Rightarrow> True | _ \<Rightarrow> False)"

text \<open>Whether the loop may still append: not canceled and the transform is the current one.\<close>

definition mayAppend :: "'r raw_slice \<Rightarrow> bool \<Rightarrow> bool" where
  "mayAppend s canceled \<longleftrightarrow> \<not> canceled \<and> admitRedactionTransform (rx_host s) (rx_transform s) = Inr ()"

lemma checkW_success: "checkW c w = (w', Inr x) \<Longrightarrow> c = Inr x"
  by (simp add: checkW_def)

lemma rawLoop_induct:
  assumes "\<And>s n canceled. (n < rx_budget s \<Longrightarrow> P s (n + 1) canceled) \<Longrightarrow>
      (\<And>c. n + 1 < rx_budget s \<Longrightarrow> \<not> canceled \<Longrightarrow> P s (n + 2) c) \<Longrightarrow> P s n canceled"
  shows "P (s :: 'r raw_slice) (n :: int) canceled"
proof (induction s n canceled rule: rawLoop.induct)
  case (1 s n canceled)
  show ?case
  proof (rule assms)
    show "P s (n + 1) canceled" if "n < rx_budget s"
      using "1.IH"(1)[OF refl list.distinct(2) refl _ option.distinct(2)] that by simp
    show "P s (n + 2) c" if that: "n + 1 < rx_budget s" "\<not> canceled" for c
    proof -
      have "P s (n + 2) (xh = None)" for xh :: "raw_receipt option"
        using that by (intro "1.IH"(3)[OF refl list.distinct(2) refl]) auto
      from this[of None] this[of "Some undefined"] show ?thesis by (cases c) auto
    qed
  qed
qed

context world_relation
begin

text \<open>Sequencing at one world, where the continuation may use what the first effect returned there.\<close>

lemma at_bind:
  assumes "R w (fst (m w))" "\<And>w' x. m w = (w', Inr x) \<Longrightarrow> R w' (fst (k x w'))"
  shows "R w (fst (bindW m k w))"
proof -
  obtain w' res where m: "m w = (w', res)" by fastforce
  then show ?thesis using assms compose[of w w'] by (cases res) (auto simp: bindW_def)
qed

lemma at_always: "always R m \<Longrightarrow> R w (fst (m w))"
  by (simp add: always_def)

lemma always_inspectW: "always R (inspectW owner cid k p)"
  unfolding inspectW_def by (rule always_local) (rule inspect_same)

lemma always_readW: "always R (journalW (readUnit sha lim owner cid k n))"
  by (rule always_local) (rule readUnit_same)

lemmas always_steps = always_return always_fail always_check always_bind always_inspectW always_readW always_if

lemma always_acknowledgeIf:
  "(\<And>v. rawSettlement v \<Longrightarrow> always R (settleRawW s v)) \<Longrightarrow> always R (acknowledgeIf s c n receipt)"
  unfolding acknowledgeIf_def acknowledge_def
  by (cases receipt) (auto intro!: always_return always_bind always_check simp: rawSettlement_def)

lemma rawLoop_always:
  assumes "\<And>v. rawSettlement v \<Longrightarrow> always R (settleRawW s v)" "\<And>c. always R (lookupReceipt s c)"
    and "\<And>b. mayAppend s canceled \<Longrightarrow> always R (appendChunk s b)"
  shows "always R (rawLoop s n canceled)"
  using assms
proof (induction s n canceled rule: rawLoop_induct)
  case (1 s n canceled)
  have canceling: "always R (settleRawW s (RawUnitCanceled k))" for k using "1.prems"(1) by (simp add: rawSettlement_def)
  have acknowledging: "always R (acknowledgeIf s c k receipt)" for c k receipt
    using "1.prems"(1) by (rule always_acknowledgeIf)
  have again: "always R (rawLoop s (n + 1) canceled)" if "n < rx_budget s"
    using "1.IH"(1) "1.prems" that by blast
  have later: "always R (rawLoop s (n + 2) c)" if "n + 1 < rx_budget s" "mayAppend s canceled" for c
    using "1.IH"(2)[of c] "1.prems" that by (auto simp: mayAppend_def)
  show ?case
    unfolding rawLoop.simps[of s n canceled] Let_def
    by (auto intro!: always_steps canceling acknowledging again later "1.prems" split: prod.split
        simp: mayAppend_def dest!: checkW_success)
qed

end

section \<open>The budget\<close>

lemma calls_catch:
  assumes "callsAtMost j m" "\<And>e k. handler e = Some k \<Longrightarrow> callsAtMost 0 k"
  shows "callsAtMost j (catchW handler m)"
  unfolding callsAtMost_def
proof
  fix w
  obtain w' res where m: "m w = (w', res)" by fastforce
  obtain new where new: "wd_calls w' = wd_calls w @ new" "length new \<le> j" using assms(1) m by (metis callsAtMost_def fst_conv)
  have "wd_calls (fst (catchW handler m w)) = wd_calls w'"
    using m assms(2) by (cases res) (auto simp: catchW_def callsAtMost_0 split: option.split)
  then show "\<exists>new. wd_calls (fst (catchW handler m w)) = wd_calls w @ new \<and> length new \<le> j" using new by auto
qed

lemma calls_settleRawW [calls_intros]: "callsAtMost 0 (settleRawW s v)"
  unfolding settleRawW_def by (rule calls_local)

lemma calls_lookupReceipt: "callsAtMost 1 (lookupReceipt s c)"
  unfolding lookupReceipt_def by (rule calls_catch, rule calls_then) (auto intro!: calls_intros calls_remote[unfolded One_nat_def] split: if_splits)

lemma calls_appendChunk: "callsAtMost 1 (appendChunk s b)"
  unfolding appendChunk_def by (rule calls_catch, rule calls_then) (auto intro!: calls_intros calls_remote[unfolded One_nat_def] split: if_splits)

lemma calls_acknowledgeIf: "callsAtMost 0 (acknowledgeIf s c n receipt)"
  unfolding acknowledgeIf_def acknowledge_def by (cases receipt) (auto intro!: calls_intros)

lemma rawLoop_spends: "n \<le> rx_budget s \<Longrightarrow> spends rawOperations n (rx_budget s) w (rawLoop s n canceled w)"
proof (induction s n canceled arbitrary: w rule: rawLoop_induct)
  case (1 s n canceled)
  have again: "spends rawOperations (1 + n) (rx_budget s) w (rawLoop s (1 + n) c w)" if "n \<noteq> rx_budget s" "c = canceled" for c w
    using "1.IH"(1)[of w] "1.prems" that by (simp add: add.commute)
  have later: "spends rawOperations (n + 2) (rx_budget s) w (rawLoop s (n + 2) c w)" if "\<not> rx_budget s \<le> 1 + n" "\<not> canceled" for c w
    using "1.IH"(2)[of w c] that by (simp add: add.commute)
  show ?case
    unfolding rawLoop.simps[of s n canceled] Let_def
    by (rule spends_bind[OF calls_local(5)])
      (use "1.prems" in \<open>auto split: prod.split intro!: spends_return spends_bind[OF calls_local(3)] spends_bind[OF calls_local(4)]
        spends_bind[OF calls_lookupReceipt] spends_bind[OF calls_appendChunk] spends_bind[OF calls_acknowledgeIf]
        spends_bind[OF calls_settleRawW] again later simp: add.commute\<close>)
qed

lemma calls_startCancellation: "callsAtMost 0 (startCancellation s reason)"
  unfolding startCancellation_def by (cases reason) (auto intro!: calls_intros)

lemma deliverRawUnits_spends: "1 \<le> rx_budget s \<Longrightarrow> spends rawOperations 0 (rx_budget s) w (deliverRawUnits s reason w)"
  unfolding deliverRawUnits_def reconcilePolicy_def Let_def
  by (auto intro!: spends_bind[OF calls_startCancellation] spends_bind[OF calls_remote] rawLoop_spends)

definition rawSliceOf :: "host \<Rightarrow> 'r transport \<Rightarrow> capture_owner \<Rightarrow> string \<Rightarrow> publication_activation \<Rightarrow> raw_authority \<Rightarrow> string \<Rightarrow> int \<Rightarrow> 'r raw_slice" where
  "rawSliceOf h r owner cid a auth t n = \<lparr>rx_host = h, rx_remote = r, rx_owner = owner, rx_id = cid, rx_activation = a,
     rx_authority = auth, rx_transform = t, rx_budget = n\<rparr>"

lemma rawSliceOf_simps [simp]:
  "rx_host (rawSliceOf h r owner cid a auth t n) = h" "rx_owner (rawSliceOf h r owner cid a auth t n) = owner"
  "rx_id (rawSliceOf h r owner cid a auth t n) = cid" "rx_transform (rawSliceOf h r owner cid a auth t n) = t"
  "rx_budget (rawSliceOf h r owner cid a auth t n) = n"
  by (simp_all add: rawSliceOf_def)

lemma calls_startObservation: "callsAtMost 0 (startObservation h owner cid c)"
  unfolding startObservation_def Let_def by (auto intro!: calls_intros split: option.split)

lemma calls_startRaw: "callsAtMost 0 (startRaw h owner cid c)"
  unfolding startRaw_def by (auto intro: calls_startObservation calls_local)

lemma startObservation_end: "startObservation h owner cid c w = (w', Inr (RawEnd d)) \<Longrightarrow> d = RawAbandoned 0"
  by (auto simp: startObservation_def success_simps failW_def Let_def split: if_splits option.splits)

lemma startPublication_start: "startPublication h owner c \<noteq> Inr (RawEnd d)"
  by (auto simp: startPublication_def success_simps split: option.splits prod.splits)

text \<open>C35: A Raw delivery slice makes at most as many remote calls as its budget of 3 to 64 operations, whatever the
  remote answers, and the operations it reports lie between its remote calls and the budget; any other
  budget makes none.\<close>
theorem raw_delivery_within_budget:
  "\<exists>new. wd_calls (fst (deliverPublicationRaw h r owner cid n w)) = wd_calls w @ new \<and>
     int (length new) \<le> (if 3 \<le> n \<and> n \<le> 64 then n else 0) \<and>
     (case snd (deliverPublicationRaw h r owner cid n w) of Inl _ \<Rightarrow> True
      | Inr d \<Rightarrow> int (length new) \<le> rawOperations d \<and> rawOperations d \<le> n)"
proof (cases "3 \<le> n \<and> n \<le> 64")
  case False
  then have "budgetW (\<lambda>ok. requireR ok RInvalid) n w = (w, Inl (RawFailure RInvalid))"
    by (simp add: budgetW_def requireR_def checkW_def)
  then have "deliverPublicationRaw h r owner cid n w = (w, Inl (RawFailure RInvalid))"
    by (simp add: deliverPublicationRaw_def bindW_def)
  then show ?thesis by simp
next
  case True
  have units: "spends rawOperations 0 n w (deliverRawUnits (rawSliceOf h r owner cid a auth t n) reason w)" for a auth t reason and w :: "'a world"
    using True deliverRawUnits_spends[of "rawSliceOf h r owner cid a auth t n"] by simp
  have rest: "spends rawOperations 0 n w' (deliverStarted h r owner cid n c start w')" if "startRaw h owner cid c w = (w', Inr start)" for c start and w w' :: "'a world"
    using that True units unfolding deliverStarted_def startRaw_def rawSliceOf_def[symmetric]
    by (auto intro!: spends_return spends_fail dest!: startObservation_end checkW_success simp: startPublication_start
        split: raw_start.split option.split if_splits)
  have "spends rawOperations 0 n w (deliverPublicationRaw h r owner cid n w)"
    unfolding deliverPublicationRaw_def budgetW_def
    by (intro spends_bind[OF calls_local(3)] spends_bind[OF calls_local(5)])
      (use True rest in \<open>auto intro!: spends_bind[OF calls_startRaw]\<close>)
  then show ?thesis using True by (auto simp: spends_def split: sum.splits)
qed

section \<open>Checkpoints\<close>

definition sameCheckpoints :: "'r world \<Rightarrow> 'r world \<Rightarrow> bool" where
  "sameCheckpoints w w' \<longleftrightarrow> checkpoints (wd_journal w') = checkpoints (wd_journal w)"

interpretation checkpoints_kept: world_relation sameCheckpoints
  by unfold_locales (simp_all add: sameCheckpoints_def)

lemma kept_settle:
  assumes "\<And>db db'. settle owner cid v db = Inr (db', ()) \<Longrightarrow> checkpoints db' = checkpoints db"
  shows "always sameCheckpoints (journalW (settle owner cid v))"
  using assms by (auto simp: always_def sameCheckpoints_def journalW_def transaction_def Let_def split: sum.split)

lemma kept_other: "(\<And>r. v \<noteq> SettleActivated r) \<Longrightarrow> always sameCheckpoints (journalW (settle owner cid v))"
  by (rule kept_settle) (metis settle_checkpoints)

lemma kept_remote: "always sameCheckpoints (remoteW fail call service)"
  by (simp add: always_def sameCheckpoints_def remoteW_def split: prod.split)

lemma kept_raw: "rawSettlement v \<Longrightarrow> always sameCheckpoints (settleRawW s v)"
  unfolding settleRawW_def by (rule kept_other) (auto simp: rawSettlement_def)

lemma kept_units: "always sameCheckpoints (deliverRawUnits s reason)"
proof -
  have cancel: "always sameCheckpoints (settleRawW s (RawCancellationStarted t))" for t by (rule kept_raw) (simp add: rawSettlement_def)
  have "always sameCheckpoints (lookupReceipt s c)" "always sameCheckpoints (appendChunk s b)" for c b
    unfolding lookupReceipt_def appendChunk_def
    by (rule checkpoints_kept.always_catch; auto intro!: checkpoints_kept.always_steps kept_remote cancel split: if_splits)+
  then have "always sameCheckpoints (rawLoop s n canceled)" for n canceled
    by (intro checkpoints_kept.rawLoop_always kept_raw)
  then show ?thesis
    unfolding deliverRawUnits_def reconcilePolicy_def startCancellation_def Let_def
    by (auto intro!: checkpoints_kept.always_steps kept_remote cancel split: option.split)
qed

lemma inspected_row:
  assumes "inspected owner cid k w c"
  shows "\<exists>scope row. ownerScope (wd_journal w) owner = Inr scope \<and>
    find (captureIs (sc_key scope) cid) (db_captures (wd_journal w)) = Some row \<and> sm_purpose c = cp_purpose row"
  using assms by (auto simp: inspected_def inspect_def captureSummary_def success_simps)

lemma observation_keeps_checkpoints:
  assumes "inspected owner cid Raw w c" "sm_purpose c = RawObservation"
  shows "sameCheckpoints w (fst (startObservation h owner cid c w))"
proof -
  obtain scope row where row: "ownerScope (wd_journal w) owner = Inr scope"
      "find (captureIs (sc_key scope) cid) (db_captures (wd_journal w)) = Some row" "cp_purpose row = RawObservation"
    using inspected_row[OF assms(1)] assms(2) by auto
  have "checkpoints db' = checkpoints (wd_journal w)" if "settle owner cid (SettleActivated r) (wd_journal w) = Inr (db', ())" for r db'
    using settle_checkpoints[OF that] row by auto
  then have settled: "sameCheckpoints w (fst (journalW (settle owner cid (SettleActivated r)) w))" for r
    by (auto simp: sameCheckpoints_def journalW_def transaction_def Let_def split: sum.split)
  have abandoned: "sameCheckpoints w (fst (journalW (settle owner cid AbandonUnsealed) w))"
    by (intro checkpoints_kept.at_always kept_other) simp
  show ?thesis
    unfolding startObservation_def Let_def
    by (rule checkpoints_kept.at_bind)
      (auto intro!: checkpoints_kept.at_bind abandoned settled checkpoints_kept.at_always[OF checkpoints_kept.always_return]
        checkpoints_kept.at_always[OF checkpoints_kept.always_fail] checkpoints_kept.at_always[OF checkpoints_kept.always_check]
        simp: checkpoints_kept.same checkW_def split: option.split)
qed


section \<open>Cancellation\<close>

definition noAppend :: "'r world \<Rightarrow> 'r world \<Rightarrow> bool" where
  "noAppend w w' \<longleftrightarrow> (\<exists>new. wd_calls w' = wd_calls w @ new \<and> (\<forall>b. CallAppendRaw b \<notin> set new))"

interpretation unsent: world_relation noAppend
proof
  show "noAppend w w" for w :: "'r world" by (simp add: noAppend_def)
  show "noAppend u w" if "noAppend u v" "noAppend v w" for u v w :: "'r world"
    using that by (fastforce simp: noAppend_def)
qed

lemma unsent_journal: "always noAppend (journalW f)"
  by (simp add: always_def noAppend_def journalW_def Let_def split: prod.split)

lemma unsent_settle: "always noAppend (settleRawW s v)"
  unfolding settleRawW_def by (rule unsent_journal)

lemma unsent_receipt: "always noAppend (rawW (CallReceipt i) service)"
  by (simp add: always_def noAppend_def remoteW_def split: prod.split)

lemma unsent_lookup: "always noAppend (lookupReceipt s c)"
  unfolding lookupReceipt_def
  by (rule unsent.always_catch) (auto intro!: unsent.always_steps unsent_receipt split: if_splits)

lemma unsent_canceled: "always noAppend (rawLoop s n True)"
  by (rule unsent.rawLoop_always) (simp_all add: unsent_settle unsent_lookup mayAppend_def)

lemma unsent_units:
  assumes "reason \<noteq> None \<or> redactionCancellation s \<noteq> None"
  shows "always noAppend (deliverRawUnits s reason)"
  using assms unfolding deliverRawUnits_def startCancellation_def
  by (auto intro!: unsent.always_steps unsent_canceled unsent_settle simp: returnW_def bindW_Inr[unfolded bindW_def] success_simps)

text \<open>C37: Once a capture's Raw delivery is canceled, or its redaction transform is no longer the current one, a delivery
  sends no Raw content: it may look up receipts, but makes no append.\<close>
theorem canceled_raw_sends_nothing:
  assumes "inspected owner cid Raw w c" "startRaw h owner cid c w = (w1, Inr (RawStart a authority t))"
    "sm_rawCancelReason c \<noteq> None \<or> (\<exists>p. ho_policyId h = Some p \<and> t \<noteq> ''atape.host-redaction.v2:'' @ p)"
    "deliverPublicationRaw h r owner cid n w = (w', res)"
  shows "\<exists>new. wd_calls w' = wd_calls w @ new \<and> (\<forall>b. CallAppendRaw b \<notin> set new)"
proof -
  have "sm_rawCancelReason c \<noteq> None \<or> redactionCancellation (rawSliceOf h r owner cid a auth t n) \<noteq> None" for auth
    using assms(3) by (auto simp: redactionCancellation_def currentRedactionTransform_def redactionTransformVersion_def)
  then have rest: "always noAppend (deliverStarted h r owner cid n c (RawStart a authority t))"
    unfolding deliverStarted_def rawSliceOf_def[symmetric]
    by (auto intro!: unsent.always_return unsent.always_fail unsent_units split: option.split)
  have start: "always noAppend (startRaw h owner cid c)" for c
    unfolding startRaw_def startObservation_def Let_def
    by (auto intro!: unsent.always_steps unsent_journal split: option.split)
  obtain us where "inspectW owner cid Raw False w = (w, Inr (c, us))" using inspected_inspectW[OF assms(1)] by blast
  then have "noAppend w (fst (deliverPublicationRaw h r owner cid n w))"
    unfolding deliverPublicationRaw_def budgetW_def
    using assms(2) unsent.at_always[OF start] unsent.at_always[OF rest] unsent.same
    by (auto intro!: unsent.at_bind unsent.at_always[OF unsent.always_check] unsent.at_always[OF unsent.always_inspectW]
        simp: checkW_Inr)
  then show ?thesis using assms(4) by (simp add: noAppend_def)
qed

end
