(* ===== verification/DeliveryWitnesses.thy ===== *)
theory DeliveryWitnesses
  imports DeliveryProperties
begin

text \<open>A concrete Host, journal and remote at which the delivery's properties apply.\<close>

section \<open>The stored metadata reads back\<close>

definition admitsIntent :: "publication_intent \<Rightarrow> bool" where
  "admitsIntent i \<longleftrightarrow> admitsBinding (in_binding i) \<and> admitsScope (in_scope i) \<and> admitsBegin (in_begin i) \<and>
     admitsCapabilities (in_capabilities i) \<and> pred_option (\<lambda>n. 0 \<le> n \<and> n \<le> max_safe_integer - 1) (in_adoption i) \<and>
     pred_option admitsAuthority (in_rawAuthority i)"

lemma optionalTarget_obj [codec_simps]:
  "distinct (map fst ms) \<Longrightarrow> map_of ms key = Some (targetMember p b) \<Longrightarrow> literalsJson targetProfiles p = JStr name \<Longrightarrow>
     optionalTarget key name (obj ms) = Some b"
  by (simp add: optionalTarget_def optionalKey_obj targetMember_def literalText_def)

lemma adoption_member:
  "pred_option (\<lambda>n. 0 \<le> n \<and> n \<le> max_safe_integer - 1) v \<Longrightarrow>
     memberOf (required ''revisionFloor'' (countIn 0 (max_safe_integer - 1))) (map_option (\<lambda>n. obj [(''revisionFloor'', Some (JInt n))]) v) = Some v"
  by (cases v) (simp_all add: codec_simps)

interpretation intent_codec: codec intentJson decodeIntent admitsIntent
proof
  fix i assume "admitsIntent i"
  moreover have "literalsJson targetProfiles Target3 = JStr ''atape.publication-target.v3''"
    "literalsJson targetProfiles Target4 = JStr ''atape.publication-target.v4''"
    "literalsJson targetProfiles Target5 = JStr ''atape.publication-target.v5''"
    by (simp_all add: literalsJson_def targetProfiles_def)
  ultimately show "decodeIntent (intentJson i) = Some i"
    by (simp add: intentJson_def decodeIntent_def admitsIntent_def codec_simps binding_codec.decode_encode
        publication_scope_codec.decode_encode begin_codec.decode_encode capabilities_codec.decode_encode
        adoption_member authority_codec.member_roundtrip)
qed

definition admitsSeal :: "publication_seal \<Rightarrow> bool" where
  "admitsSeal s \<longleftrightarrow> 1 \<le> ps_fence s \<and> ps_fence s \<le> max_safe_integer \<and> admitsManifest (ps_manifest s)"

interpretation publication_seal_codec: codec publicationSealJson decodePublicationSeal admitsSeal
  by unfold_locales
    (simp add: publicationSealJson_def decodePublicationSeal_def admitsSeal_def codec_simps manifest_codec.decode_encode)

lemma parseP_text: "decodeText dec s = Some x \<Longrightarrow> parseP dec s = Inr x"
  by (auto simp: parseP_def decodeP_def decodeText_def bind_eq_Some_conv)

section \<open>A sealed capture\<close>

definition demoSha :: string where
  "demoSha = replicate 64 (CHR ''0'')"

definition demoTransform :: string where
  "demoTransform = ''atape.host-redaction.v2:p''"

definition demoHost :: "string \<Rightarrow> host" where
  "demoHost policy = \<lparr>ho_sha = (\<lambda>_. demoSha), ho_limits = \<lparr>lim_unitBytes = 1000, lim_targetBytes = 10000, lim_pendingBytes = 100000,
     lim_unitsPerTarget = 10, lim_recordsPerTarget = None, lim_metadataEntries = 100\<rparr>,
     ho_binding = \<lparr>bd_instanceOrigin = ''o'', bd_userId = ''u'', bd_installationId = ''i''\<rparr>, ho_policyId = Some policy\<rparr>"

definition demoOwner :: capture_owner where
  "demoOwner = \<lparr>ow_scope = \<lparr>cs_projectId = ''pr'', cs_adapterId = ''ad'', cs_sourceSessionId = ''se'', cs_originKey = ''or''\<rparr>, ow_epoch = 1\<rparr>"

definition demoManifest :: publication_manifest where
  "demoManifest = \<lparr>pm_parts = 1, pm_bytes = 2, pm_sha256 = demoSha\<rparr>"

definition demoLimits :: publication_limits where
  "demoLimits = \<lparr>pl_partBytes = 10, pl_targetBytes = 10, pl_userPendingBytes = 10, pl_parts = 10, pl_reservations = 1,
     pl_reservationLifetimeMs = 1, pl_leaseLifetimeMs = 1\<rparr>"

definition demoIntent :: publication_intent where
  "demoIntent = \<lparr>in_binding = ho_binding (demoHost []), in_scope = publicationScope (demoHost []) (ow_scope demoOwner), in_sessionId = ''ss'',
     in_begin = \<lparr>pb_reservationId = ''rv'', pb_captureId = ''c1'', pb_baseHead = [], pb_transformVersion = demoTransform\<rparr>,
     in_capabilities = \<lparr>cb_targetProfiles = None, cb_legacyAdoption = None, cb_limits = demoLimits\<rparr>,
     in_target3 = False, in_target4 = False, in_target5 = True, in_adoption = None, in_rawAuthority = None\<rparr>"

definition demoSeal :: publication_seal where
  "demoSeal = \<lparr>ps_fence = 1, ps_manifest = demoManifest\<rparr>"

definition demoActivation :: publication_activation where
  "demoActivation = \<lparr>av_head = ''rv'', av_sessionId = ''ss'', av_captureId = ''c1'', av_baseHead = [], av_fence = 1,
     av_transformVersion = demoTransform, av_manifest = demoManifest, av_activatedAt = ''2024-05-01T10:00:00Z''\<rparr>"

definition demoAttempt :: publication_attempt where
  "demoAttempt = \<lparr>tt_id = ''rv'', tt_sessionId = ''ss'', tt_captureId = ''c1'', tt_baseHead = [], tt_transformVersion = demoTransform,
     tt_fence = 1, tt_leaseUntil = ''2024-05-01T10:00:00Z'', tt_expiresAt = ''2024-05-01T10:00:00Z'', tt_state = AttemptActivated,
     tt_parts = 1, tt_retainedBytes = 2, tt_seal = Some demoManifest, tt_validatedParts = 1, tt_retainedParts = None,
     tt_candidateEvents = 0, tt_candidateUsage = 0, tt_activation = Some demoActivation\<rparr>"

definition demoCaptureSeal :: capture_seal where
  "demoCaptureSeal = \<lparr>sl_records = None, sl_canonicalUnits = 1, sl_rawUnits = 0, sl_nextCheckpoint = ''n1'',
     sl_manifestJson = stringify (publicationSealJson demoSeal)\<rparr>"

definition demoKey :: string where
  "demoKey = stringify (JArr [JStr ''pr'', JStr ''ad'', JStr ''se''])"

definition demoCapture :: "capture_state \<Rightarrow> capture_row" where
  "demoCapture st = \<lparr>cp_scope = demoKey, cp_id = ''c1'', cp_expectedCheckpoint = None, cp_beginJson = stringify (intentJson demoIntent),
     cp_rawEnabled = False, cp_state = st, cp_sealJson = (if st = Preparing then None else Some (stringify (sealJson demoCaptureSeal))),
     cp_activationReceipt = None, cp_rawCancelReason = None, cp_rejectionReceipt = None, cp_retainedBytes = 2,
     cp_purpose = Publication, cp_trackRecords = False, cp_recordCount = 0, cp_recordsRetired = False, cp_retainedRecords = 0,
     cp_sourceMetadata = None, cp_sourceMetadataSha = None, cp_sourceMetadataBytes = 0\<rparr>"

definition demoJournal :: "capture_state \<Rightarrow> journal_db" where
  "demoJournal st = (emptyJournal (ho_binding (demoHost [])))\<lparr>db_scopes := [newScope demoKey ''or''], db_captures := [demoCapture st]\<rparr>"

text \<open>A remote that knows the attempt; every other service is out of reach.\<close>

definition demoRemote :: "unit transport" where
  "demoRemote = \<lparr>tr_capabilities = (\<lambda>b r. (r, Inl PNetwork)), tr_reserve = (\<lambda>b s r. (r, Inl PNetwork)), tr_adoptLegacy = (\<lambda>b s r. (r, Inl PNetwork)),
     tr_begin = (\<lambda>b g r. (r, Inl PNetwork)), tr_status = (\<lambda>b i r. (r, Inr demoAttempt)), tr_put = (\<lambda>b i p c r. (r, Inl PNetwork)),
     tr_seal = (\<lambda>b i m r. (r, Inl PNetwork)), tr_validate = (\<lambda>b i r. (r, Inl PNetwork)), tr_renew = (\<lambda>b i r. (r, Inl PNetwork)),
     tr_reject = (\<lambda>b i r. (r, Inl PNetwork)), tr_activate = (\<lambda>b i r. (r, Inl PNetwork)), tr_policy = (\<lambda>b i r. (r, Inl RNetwork)),
     tr_receipt = (\<lambda>b i r. (r, Inl RNetwork)), tr_append = (\<lambda>b i r. (r, Inl RNetwork))\<rparr>"

definition demoWorld :: "capture_state \<Rightarrow> unit world" where
  "demoWorld st = \<lparr>wd_journal = demoJournal st, wd_remote = (), wd_calls = []\<rparr>"

lemma demo_scope: "ownerScope (demoJournal st) demoOwner = Inr (newScope demoKey ''or'')"
  by (simp add: ownerScope_Inr demoJournal_def demoOwner_def newScope_def scopeKey_def demoKey_def journalText_def boundedText_def
      scopeIs_def)

definition demoSummary :: "capture_state \<Rightarrow> capture_summary" where
  "demoSummary st = \<lparr>sm_recordsRetired = False, sm_trackRecords = False, sm_purpose = Publication, sm_id = ''c1'', sm_expectedCheckpoint = None,
     sm_beginJson = stringify (intentJson demoIntent), sm_rawEnabled = False, sm_state = st,
     sm_seal = (if st = Preparing then None else Some demoCaptureSeal), sm_activationReceipt = None, sm_retainedBytes = 2,
     sm_rawCancelReason = None, sm_rejectionReceipt = None\<rparr>"

lemma demo_sealed: "parsedSeal (stringify (sealJson demoCaptureSeal)) = Inr demoCaptureSeal"
  by (simp add: parsedSeal_def parseJson_stringify)
    (simp add: sealJson_def demoCaptureSeal_def decodeSeal_def reqField_def optField_def field_def optMember_def)

lemma demo_inspected: "inspected demoOwner ''c1'' Canonical (demoWorld st) (demoSummary st)"
  by (simp add: inspected_def inspect_def demoWorld_def demo_scope)
    (simp add: captureRow_def journalText_def boundedText_def demoJournal_def demoCapture_def newScope_def captureIs_def captureKey_def
      journalInteger_def safe_integer_def max_safe_integer_def captureSummary_def demo_sealed demoSummary_def)

lemma demo_intent: "boundIntent (demoHost p) demoOwner (demoSummary st) = Inr demoIntent"
proof -
  have "admitsIntent demoIntent"
    by (simp add: admitsIntent_def demoIntent_def admitsBinding_def admitsScope_def admitsBegin_def admitsCapabilities_def admitsLimits_def
        demoLimits_def demoHost_def publicationScope_def demoOwner_def demoTransform_def nameText_def utf16_length_def utf16_units_def code_def)
  from parseP_text[OF intent_codec.text_roundtrip[OF this]] show ?thesis
    by (simp add: boundIntent_def demoSummary_def requireP_def checkIntentBinding_def)
      (simp add: demoIntent_def demoHost_def demoOwner_def publicationScope_def)
qed

lemma demo_seal: "frozenSeal demoCaptureSeal = Inr demoSeal"
proof -
  have "admitsSeal demoSeal" by code_simp
  from parseP_text[OF publication_seal_codec.text_roundtrip[OF this]] show ?thesis
    by (simp add: frozenSeal_def demoCaptureSeal_def requireP_def) (simp add: demoSeal_def demoManifest_def)
qed

section \<open>The witnesses\<close>

lemma demo_state [simp]: "sm_state (demoSummary st) = st" "sm_seal (demoSummary Sealed) = Some demoCaptureSeal"
  "sm_activationReceipt (demoSummary st) = None"
  by (simp_all add: demoSummary_def)


lemma policy_change_sends_no_content_witness:
  "\<exists>new. wd_calls (fst (deliverPublicationCapture (demoHost ''q'') demoRemote demoOwner ''c1'' 8 (demoWorld Sealed))) = new \<and>
    set new \<subseteq> {CallStatus ''rv'', CallReject ''rv''}"
proof -
  have "pb_transformVersion (in_begin demoIntent) \<noteq> ''atape.host-redaction.v2:'' @ ''q''" "ho_policyId (demoHost ''q'') = Some ''q''"
    "pb_reservationId (in_begin demoIntent) = ''rv''" "wd_calls (demoWorld Sealed) = []"
    by (simp_all add: demoIntent_def demoTransform_def demoHost_def demoWorld_def)
  then show ?thesis
    using policy_change_sends_no_content[OF demo_inspected[of Sealed] demo_intent[of "''q''" Sealed] _ demo_state(2) demo_seal _ _
        prod.collapse[symmetric], of "''q''" demoRemote 8] by simp
qed

lemma unsealed_sends_nothing_witness:
  "wd_calls (fst (deliverPublicationCapture (demoHost ''p'') demoRemote demoOwner ''c1'' 8 (demoWorld Preparing))) = []"
proof -
  have "wd_calls (demoWorld Preparing) = []" by (simp add: demoWorld_def)
  then show ?thesis
    using unsealed_sends_nothing[OF demo_inspected[of Preparing] demo_intent[of "''p''" Preparing] _ prod.collapse[symmetric]] by simp
qed

text \<open>The remote answers that the attempt is activated already; the delivery records it.\<close>

lemma demo_receipt: "journalJson (stringify (activationJson demoActivation)) = Inr (stringify (activationJson demoActivation))"
proof -
  have "stringify (activationJson demoActivation) \<noteq> []" "int (length (stringify (activationJson demoActivation))) \<le> MetadataBytes"
    "CHR 0x00 \<notin> set (stringify (activationJson demoActivation))" by code_simp+
  then show ?thesis by (simp add: journalJson_def boundedText_def parseJson_stringify)
qed

lemma demo_settled:
  "\<exists>db. settle demoOwner ''c1'' (SettleActivated (stringify (activationJson demoActivation))) (demoJournal Sealed) = Inr (db, ())"
proof -
  have "find (captureIs demoKey ''c1'') (db_captures (demoJournal Sealed)) = Some (demoCapture Sealed)"
    by (simp add: demoJournal_def demoCapture_def captureIs_def captureKey_def)
  then show ?thesis
    by (simp add: settle_def demo_scope captureRow_def journalText_def boundedText_def newScope_def settleActivated_def demo_receipt Let_def)
      (simp add: demoCapture_def demo_sealed)
qed

lemma demo_delivered:
  "\<exists>w'. deliverPublicationCapture (demoHost ''p'') demoRemote demoOwner ''c1'' 8 (demoWorld Sealed) = (w', Inr (DeliveryActivated 1 demoActivation))"
proof -
  let ?s = "sliceOf (demoHost ''p'') demoRemote demoOwner ''c1'' demoIntent demoSeal 8"
  obtain db where db: "settle demoOwner ''c1'' (SettleActivated (stringify (activationJson demoActivation))) (demoJournal Sealed) = Inr (db, ())"
    using demo_settled by blast
  have check: "checkAttempt demoIntent (Some demoSeal) demoAttempt = Inr demoAttempt"
    by (simp add: checkAttempt_def requireP_def sameAttempt_def consistentAttempt_def demoAttempt_def demoIntent_def demoSeal_def demoManifest_def)
  have proves: "provesCapture demoIntent demoSeal demoActivation"
    by (simp add: provesCapture_def demoIntent_def demoSeal_def demoActivation_def)
  have "attemptW ?s (CallStatus (attemptId ?s)) (tr_status demoRemote) (demoWorld Sealed) =
      ((demoWorld Sealed)\<lparr>wd_calls := [CallStatus (attemptId ?s)]\<rparr>, Inr demoAttempt)"
    by (simp add: attemptW_def bindW_def remoteW_def checkW_def sliceOf_def check demoRemote_def demoWorld_def)
  moreover have "tt_activation demoAttempt = Some demoActivation" by (simp add: demoAttempt_def)
  moreover have "activateLocally ?s demoActivation ((demoWorld Sealed)\<lparr>wd_calls := [CallStatus (attemptId ?s)]\<rparr>) =
      ((demoWorld Sealed)\<lparr>wd_calls := [CallStatus (attemptId ?s)], wd_journal := db\<rparr>, Inr demoActivation)"
    using proves by (simp add: activateLocally_Inr settleW_Inr) (simp add: sliceOf_def demoWorld_def db)
  ultimately have "deliverSealed ?s None (demoWorld Sealed) =
      ((demoWorld Sealed)\<lparr>wd_calls := [CallStatus (attemptId ?s)], wd_journal := db\<rparr>, Inr (DeliveryActivated 1 demoActivation))"
    by (simp add: deliverSealed_def bindW_def deliverLoop.simps returnW_def sliceOf_def)
  then show ?thesis
    using deliver_sealed[OF demo_inspected[of Sealed] demo_intent[of "''p''" Sealed] _ demo_state(2) demo_seal, of demoRemote 8] by simp
qed

lemma activation_proved_and_recorded_witness:
  "\<exists>w' key. recordedActivation key ''c1'' (stringify (activationJson demoActivation)) (wd_journal w') \<and>
     deliverPublicationCapture (demoHost ''p'') demoRemote demoOwner ''c1'' 8 (demoWorld Sealed) = (w', Inr (DeliveryActivated 1 demoActivation))"
  using demo_delivered activation_proved_and_recorded by metis

end
