(* ===== verification/RawWitnesses.thy ===== *)
theory RawWitnesses
  imports RawProperties DeliveryWitnesses
begin

text \<open>An activated capture whose Raw delivery was canceled, on the Host and journal of DeliveryWitnesses.\<close>

definition demoReceipt :: string where
  "demoReceipt = stringify (activationJson demoActivation)"

definition demoCanceledWorld :: "unit world" where
  "demoCanceledWorld = (demoWorld Activated)\<lparr>wd_journal := (demoJournal Activated)\<lparr>db_captures :=
     [(demoCapture Activated)\<lparr>cp_activationReceipt := Some demoReceipt, cp_rawCancelReason := Some ''off''\<rparr>]\<rparr>\<rparr>"

definition demoCanceled :: capture_summary where
  "demoCanceled = (demoSummary Activated)\<lparr>sm_activationReceipt := Some demoReceipt, sm_rawCancelReason := Some ''off''\<rparr>"

lemma demo_canceled_inspected: "inspected demoOwner ''c1'' Raw demoCanceledWorld demoCanceled"
proof -
  have "ownerScope (wd_journal demoCanceledWorld) demoOwner = Inr (newScope demoKey ''or'')"
    using demo_scope[of Activated] by (simp add: demoCanceledWorld_def ownerScope_Inr)
  then show ?thesis
    by (simp add: inspected_def inspect_def)
      (simp add: captureRow_def journalText_def boundedText_def demoCanceledWorld_def demoJournal_def demoCapture_def newScope_def captureIs_def
        captureKey_def journalInteger_def safe_integer_def max_safe_integer_def captureSummary_def demo_sealed demoSummary_def demoCanceled_def)
qed

lemma demo_saved: "savedActivation demoIntent demoCaptureSeal demoReceipt = Inr (demoSeal, demoActivation)"
proof -
  have "admitsSeal demoSeal" "admitsActivation demoActivation" by code_simp+
  then have "parseP decodePublicationSeal (sl_manifestJson demoCaptureSeal) = Inr demoSeal" "parseP decodeActivation demoReceipt = Inr demoActivation"
    using parseP_text[OF publication_seal_codec.text_roundtrip] parseP_text[OF activation_codec.text_roundtrip]
    by (simp_all add: demoCaptureSeal_def demoReceipt_def)
  then show ?thesis
    by (simp add: savedActivation_def checkActivation_def requireP_def)
      (simp add: provesCapture_def demoIntent_def demoSeal_def demoActivation_def)
qed

lemma demo_canceled_start:
  "startRaw (demoHost ''p'') demoOwner ''c1'' demoCanceled w = (w, Inr (RawStart demoActivation None demoTransform))"
proof -
  have "boundIntent (demoHost ''p'') demoOwner demoCanceled = Inr demoIntent"
    using demo_intent[of "''p''" Activated] by (simp add: boundIntent_def demoCanceled_def)
  then show ?thesis
    by (simp add: startRaw_def startPublication_def checkW_def demoCanceled_def demoSummary_def demo_saved)
      (simp add: demoIntent_def transformOf_def)
qed

lemma canceled_raw_sends_nothing_witness:
  "\<forall>b. CallAppendRaw b \<notin> set (wd_calls (fst (deliverPublicationRaw (demoHost ''p'') demoRemote demoOwner ''c1'' 8 demoCanceledWorld)))"
proof -
  have "sm_rawCancelReason demoCanceled \<noteq> None" "wd_calls demoCanceledWorld = []"
    by (simp_all add: demoCanceled_def demoCanceledWorld_def demoWorld_def)
  then show ?thesis
    using canceled_raw_sends_nothing[OF demo_canceled_inspected demo_canceled_start _ prod.collapse[symmetric], of demoRemote 8] by auto
qed

end
