(* ===== verification/RawContent.thy ===== *)
theory RawContent
  imports RawDelivery
begin

text \<open>The Base64 of Raw content: encoding and decoding are inverse, and the size a receipt must state is
  the number of content bytes.\<close>

lemma base64_digit [simp]:
  assumes "v < 64"
  shows "base64Value (base64Digit v) = v" "base64Digit v \<noteq> CHR ''=''" "isBase64Char (base64Digit v)"
proof -
  show "base64Value (base64Digit v) = v" using assms by (auto simp: base64Value_def base64Digit_def Let_def)
  have "code (base64Digit v) \<noteq> 61" using assms by (auto simp: base64Digit_def)
  then show "base64Digit v \<noteq> CHR ''=''" by (auto simp: code_def)
  have "byte 43 = CHR ''+''" "byte 47 = CHR ''/''" by code_simp+
  then show "isBase64Char (base64Digit v)" using assms by (auto simp: isBase64Char_def base64Digit_def isDigit_def)
qed

lemma code_bound: "code c < 256"
  by (simp add: code_def)

lemma byte_split_first:
  assumes "k < 16"
  shows "byte (code x div 4 * 4 + (code x mod 4 * 16 + k) div 16) = x"
proof -
  have "(code x mod 4 * 16 + k) div 16 = code x mod 4" using assms by simp
  then show ?thesis by (metis byte_code div_mult_mod_eq)
qed

lemma byte_split_second:
  assumes "l < 4"
  shows "byte ((code x mod 4 * 16 + code y div 16) mod 16 * 16 + (code y mod 16 * 4 + l) div 4) = y"
proof -
  have "code y div 16 < 16" using code_bound[of y] by (simp add: div_less_iff_less_mult)
  then have "(code x mod 4 * 16 + code y div 16) mod 16 = code y div 16" by simp
  moreover have "(code y mod 16 * 4 + l) div 4 = code y mod 16" using assms by simp
  ultimately show ?thesis by (metis byte_code div_mult_mod_eq)
qed

lemma byte_split_third: "byte ((code y mod 16 * 4 + code z div 64) mod 4 * 64 + code z mod 64) = z"
proof -
  have "code z div 64 < 4" using code_bound[of z] by (simp add: div_less_iff_less_mult)
  then have "(code y mod 16 * 4 + code z div 64) mod 4 = code z div 64" by simp
  then show ?thesis by (metis byte_code div_mult_mod_eq)
qed

lemmas byte_split = byte_split_first byte_split_second byte_split_third

lemma high_bits: "code x div 4 < 64" "code x div 16 < 16" "code x div 64 < 4"
  using code_bound[of x] by (simp_all add: div_less_iff_less_mult)

lemma low_bits:
  fixes a b :: nat
  shows "a < 16 \<Longrightarrow> b mod 4 * 16 + a < 64" "a < 4 \<Longrightarrow> b mod 16 * 4 + a < 64" "b mod 4 * 16 < 64" "b mod 16 * 4 < 64" "b mod 64 < 64"
proof -
  have "b mod 4 < 4" "b mod 16 < 16" by simp_all
  then show "a < 16 \<Longrightarrow> b mod 4 * 16 + a < 64" "a < 4 \<Longrightarrow> b mod 16 * 4 + a < 64" "b mod 4 * 16 < 64" "b mod 16 * 4 < 64"
    by linarith+
  show "b mod 64 < 64" by simp
qed

lemmas digit_bounds = high_bits low_bits

lemma atob_btoa: "atob (btoa b) = b"
proof (induction b rule: btoa.induct)
  case (2 x)
  show ?case using byte_split_first[of 0 x] by (simp add: Let_def digit_bounds)
next
  case (3 x y)
  show ?case using byte_split_first[of "code y div 16" x] byte_split_second[of 0 x y] by (simp add: Let_def digit_bounds)
next
  case (4 x y z r)
  then show ?case
    using byte_split_first[of "code y div 16" x] byte_split_second[of "code z div 64" x y] byte_split_third[of y z]
    by (simp add: Let_def digit_bounds)
qed simp

lemma btoa_shape: "base64Shape (btoa b)"
proof (induction b rule: btoa.induct)
  case (4 x y z r)
  then show ?case by (cases "btoa r") (simp_all add: digit_bounds)
qed (simp_all add: digit_bounds)

lemma btoa_empty [simp]: "btoa r = [] \<longleftrightarrow> r = []"
  by (cases r rule: btoa.cases) simp_all

lemma endsWith_append:
  "length p \<le> length s \<Longrightarrow> endsWith p (q @ s) = endsWith p s"
  by (simp add: endsWith_def startsWith_def)

lemma btoa_four: "r \<noteq> [] \<Longrightarrow> 4 \<le> length (btoa r)"
  by (cases r rule: btoa.cases) simp_all

lemma contentSize_append:
  assumes "4 \<le> length s" "length q = 4"
  shows "contentSize (q @ s) = 3 + contentSize s"
proof -
  have "(4 + int (length s)) div 4 * 3 = 3 + int (length s) div 4 * 3"
    using div_add_self1[of "4::int" "int (length s)"] by simp
  then show ?thesis using assms by (simp add: contentSize_def endsWith_append)
qed

lemma contentSize_btoa: "contentSize (btoa b) = int (length b)"
proof (induction b rule: btoa.induct)
  case (4 x y z r)
  have digits: "base64Digit (code z mod 64) \<noteq> CHR ''=''" "CHR ''='' \<noteq> base64Digit (code z mod 64)"
    by (simp_all add: digit_bounds)
      (metis base64_digit(2) low_bits(5))
  show ?case
  proof (cases "r = []")
    case True
    with digits show ?thesis by (simp add: contentSize_def endsWith_def startsWith_def)
  next
    case False
    have "contentSize (btoa (x # y # z # r)) = contentSize ([base64Digit (code x div 4),
        base64Digit (code x mod 4 * 16 + code y div 16), base64Digit (code y mod 16 * 4 + code z div 64),
        base64Digit (code z mod 64)] @ btoa r)" by simp
    also have "\<dots> = 3 + contentSize (btoa r)" using btoa_four[OF False] by (intro contentSize_append) simp_all
    finally show ?thesis using 4 by simp
  qed
next
  case (3 x y)
  have "base64Digit (code y mod 16 * 4) \<noteq> CHR ''=''" by (simp add: digit_bounds)
  then show ?case by (auto simp: contentSize_def endsWith_def startsWith_def)
qed (simp_all add: contentSize_def endsWith_def startsWith_def)

text \<open>The content check accepts exactly the Base64 of the content it decodes: any nonempty content, or empty content of a
  final chunk, passes in its encoded form, decodes to itself, fits the chunk schema's pattern, and the size
  a receipt must report is its number of bytes.\<close>
lemma raw_content_roundtrip:
  "canonicalContent (c\<lparr>ch_contentBase64 := btoa b\<rparr>) = (if b = [] then md_final c else True) \<and> atob (btoa b) = b \<and> base64Shape (btoa b) \<and>
   contentSize (btoa b) = int (length b)"
  by (simp add: canonicalContent_def atob_btoa btoa_shape contentSize_btoa)

end
