(* ===== verification/ReleaseCatalog.thy ===== *)
theory ReleaseCatalog
  imports PublicationCodecs
begin

text \<open>The release catalog of the CLI (packages/domain/src/releaseCatalog.ts): release bundles and their
  admission, the first catalog with its merge and selection, the canonical fingerprint of a
  bundle, and the machine section of a release body.\<close>

section \<open>Text\<close>

fun splitOn :: "char \<Rightarrow> string \<Rightarrow> string list" where
  "splitOn c [] = [[]]"
| "splitOn c (d # s) = (if d = c then [] # splitOn c s
     else (case splitOn c s of [] \<Rightarrow> [[d]] | p # ps \<Rightarrow> (d # p) # ps))"

fun joinWith :: "string \<Rightarrow> string list \<Rightarrow> string" where
  "joinWith c [] = []"
| "joinWith c [p] = p"
| "joinWith c (p # ps) = p @ c @ joinWith c ps"

fun indexOf :: "string \<Rightarrow> string \<Rightarrow> nat option" where
  "indexOf p [] = (if p = [] then Some 0 else None)"
| "indexOf p (c # s) = (if startsWith p (c # s) then Some 0 else map_option Suc (indexOf p s))"

fun tails :: "string \<Rightarrow> string list" where
  "tails [] = [[]]"
| "tails (c # s) = (c # s) # tails s"

definition occurrences :: "string \<Rightarrow> string \<Rightarrow> nat" where
  "occurrences p s = length (filter (startsWith p) (tails s))"

text \<open>UTF-16 code units order the astral code points before U+E000; on UTF-8 bytes that swaps two ranges
  of lead bytes.\<close>

definition utf16Order :: "string \<Rightarrow> nat list" where
  "utf16Order s = map (\<lambda>c. let n = code c in
     if 0xF0 \<le> n \<and> n \<le> 0xF4 then n - 2 else if 0xEE \<le> n \<and> n < 0xF0 then n + 5 else n) s"

section \<open>Bundles\<close>

datatype release_error =
    InvalidRelease
  | UnsupportedRelease
  | ImmutableRelease
  | RevisionExhausted
  | MalformedSection
  | DescriptorsDisagree

record release_package =
  rp_name :: string
  rp_integrity :: string
  rp_tarball :: string

record release_bundle =
  rb_version :: string
  rb_capture :: string
  rb_control :: string
  rb_packages :: "release_package list"

record release_catalog =
  rc_revision :: int
  rc_bundles :: "release_bundle list"

definition releaseBundleProtocol :: string where
  "releaseBundleProtocol = ''atape.release-bundle.v1''"

definition updateCatalogProtocol :: string where
  "updateCatalogProtocol = ''atape.update-catalog.v1''"

definition requiredBundlePackages :: "string list" where
  "requiredBundlePackages = [''@atape/cli'', ''@atape/adapter-codex'', ''@atape/adapter-claude'', ''@atape/adapter-codebuddy'',
     ''@atape/adapter-kimi'', ''@atape/adapter-opencode'', ''@atape/adapter-grok'']"

definition releasePackageNames :: "string list" where
  "releasePackageNames = requiredBundlePackages @ [''@atape/adapter-cursor'']"

text \<open>A version component: decimal digits without a leading zero, a safe integer.\<close>

definition versionPart :: "string \<Rightarrow> bool" where
  "versionPart p \<longleftrightarrow> p \<noteq> [] \<and> list_all isDigit p \<and> (hd p = CHR ''0'' \<longrightarrow> p = ''0'')"

definition stableVersion :: "string \<Rightarrow> bool" where
  "stableVersion v \<longleftrightarrow> length (splitOn CHR ''.'' v) = 3 \<and> list_all versionPart (splitOn CHR ''.'' v) \<and> utf16_length v < 40 \<and>
     list_all (\<lambda>p. int (digitsVal p) \<le> max_safe_integer) (splitOn CHR ''.'' v)"

definition opaqueProtocol :: "string \<Rightarrow> bool" where
  "opaqueProtocol v \<longleftrightarrow> 1 \<le> utf16_length v \<and> utf16_length v \<le> 200 \<and> list_all (\<lambda>c. 0x1F < code c \<and> code c \<noteq> 0x7F) v"

definition integrityText :: "string \<Rightarrow> bool" where
  "integrityText v \<longleftrightarrow> length v = 95 \<and> startsWith ''sha512-'' v \<and> list_all isBase64Char (take 85 (drop 7 v)) \<and>
     v ! 92 \<in> set ''AQgw'' \<and> drop 93 v = ''==''"

definition nameStart :: "char \<Rightarrow> bool" where
  "nameStart c \<longleftrightarrow> (97 \<le> code c \<and> code c \<le> 122) \<or> isDigit c"

definition packageName :: "string \<Rightarrow> bool" where
  "packageName v \<longleftrightarrow> utf16_length v \<le> 128 \<and> startsWith ''@atape/'' v \<and>
     (case drop 7 v of [] \<Rightarrow> False
      | c # s \<Rightarrow> nameStart c \<and> list_all (\<lambda>d. nameStart d \<or> d = CHR ''.'' \<or> d = CHR ''_'' \<or> d = CHR ''-'') s)"

definition tarballOf :: "string \<Rightarrow> string \<Rightarrow> string" where
  "tarballOf name version = ''https://registry.npmjs.org/'' @ name @ ''/-/'' @ drop 7 name @ ''-'' @ version @ ''.tgz''"

definition admitsPackage :: "release_package \<Rightarrow> bool" where
  "admitsPackage p \<longleftrightarrow> packageName (rp_name p) \<and> integrityText (rp_integrity p) \<and> utf16_length (rp_tarball p) \<le> 2048"

definition admitsBundle :: "release_bundle \<Rightarrow> bool" where
  "admitsBundle b \<longleftrightarrow> stableVersion (rb_version b) \<and> opaqueProtocol (rb_capture b) \<and> opaqueProtocol (rb_control b) \<and>
     list_all admitsPackage (rb_packages b) \<and> 7 \<le> length (rb_packages b) \<and> length (rb_packages b) \<le> 32 \<and>
     distinct (map rp_name (rb_packages b)) \<and> list_all (\<lambda>n. n \<in> set (map rp_name (rb_packages b))) requiredBundlePackages \<and>
     list_all (\<lambda>p. rp_tarball p = tarballOf (rp_name p) (rb_version b)) (rb_packages b)"

definition pairOf :: "release_bundle \<Rightarrow> string" where
  "pairOf b = stringify (JArr [JStr (rb_capture b), JStr (rb_control b)])"

definition admitsCatalog :: "release_catalog \<Rightarrow> bool" where
  "admitsCatalog c \<longleftrightarrow> 0 < rc_revision c \<and> rc_revision c \<le> max_safe_integer \<and> length (rc_bundles c) \<le> 64 \<and>
     list_all admitsBundle (rc_bundles c) \<and> distinct (map pairOf (rc_bundles c)) \<and> distinct (map rb_version (rc_bundles c))"

section \<open>Schemas\<close>

definition packageJson :: "release_package \<Rightarrow> json" where
  "packageJson p = obj [(''name'', Some (JStr (rp_name p))), (''integrity'', Some (JStr (rp_integrity p))),
     (''tarball'', Some (JStr (rp_tarball p)))]"

definition packageMembers :: "release_package decoder" where
  "packageMembers j =
     Option.bind (required ''name'' asString j) (\<lambda>n.
     Option.bind (required ''integrity'' asString j) (\<lambda>i.
     Option.bind (required ''tarball'' asString j) (\<lambda>t. Some \<lparr>rp_name = n, rp_integrity = i, rp_tarball = t\<rparr>)))"

text \<open>Excess properties are an error in every struct of a release descriptor.\<close>

definition exactly :: "string list \<Rightarrow> 'a decoder \<Rightarrow> 'a decoder" where
  "exactly keys dec j = (if closedObject keys j then dec j else None)"

definition decodePackage :: "release_package decoder" where
  "decodePackage = checkedBy admitsPackage (exactly [''name'', ''integrity'', ''tarball''] packageMembers)"

definition bundleJson :: "release_bundle \<Rightarrow> json" where
  "bundleJson b = obj [(''protocol'', Some (JStr releaseBundleProtocol)), (''version'', Some (JStr (rb_version b))),
     (''captureStateContract'', Some (JStr (rb_capture b))), (''updateControlProtocol'', Some (JStr (rb_control b))),
     (''packages'', Some (arrayJson packageJson (rb_packages b)))]"

definition bundleMembers :: "string \<Rightarrow> release_bundle decoder" where
  "bundleMembers protocol j =
     Option.bind (required ''protocol'' (literalText protocol) j) (\<lambda>_.
     Option.bind (required ''version'' asString j) (\<lambda>v.
     Option.bind (required ''captureStateContract'' asString j) (\<lambda>c.
     Option.bind (required ''updateControlProtocol'' asString j) (\<lambda>u.
     Option.bind (required ''packages'' (arrayOf decodePackage) j) (\<lambda>ps.
       Some \<lparr>rb_version = v, rb_capture = c, rb_control = u, rb_packages = ps\<rparr>)))))"

definition decodeReleaseBundle :: "release_bundle decoder" where
  "decodeReleaseBundle = checkedBy admitsBundle (exactly [''protocol'', ''version'', ''captureStateContract'', ''updateControlProtocol'',
     ''packages''] (bundleMembers releaseBundleProtocol))"

definition catalogJson :: "release_catalog \<Rightarrow> json" where
  "catalogJson c = obj [(''protocol'', Some (JStr updateCatalogProtocol)), (''revision'', Some (JInt (rc_revision c))),
     (''bundles'', Some (arrayJson bundleJson (rc_bundles c)))]"

definition catalogMembers :: "release_catalog decoder" where
  "catalogMembers j =
     Option.bind (required ''protocol'' (literalText updateCatalogProtocol) j) (\<lambda>_.
     Option.bind (required ''revision'' (countIn 1 max_safe_integer) j) (\<lambda>r.
     Option.bind (required ''bundles'' (arrayOf decodeReleaseBundle) j) (\<lambda>bs. Some \<lparr>rc_revision = r, rc_bundles = bs\<rparr>)))"

definition decodeReleaseCatalog :: "release_catalog decoder" where
  "decodeReleaseCatalog = checkedBy admitsCatalog (exactly [''protocol'', ''revision'', ''bundles''] catalogMembers)"

interpretation package_codec: codec packageJson decodePackage admitsPackage
  by unfold_locales
    (simp add: packageJson_def decodePackage_def exactly_def packageMembers_def checkedBy_def codec_simps admitsPackage_def)

interpretation bundle_codec: codec bundleJson decodeReleaseBundle admitsBundle
  by unfold_locales
    (simp add: bundleJson_def decodeReleaseBundle_def exactly_def bundleMembers_def checkedBy_def codec_simps admitsBundle_def
      package_codec.array_roundtrip)

interpretation catalog_codec: codec catalogJson decodeReleaseCatalog admitsCatalog
  by unfold_locales
    (simp add: catalogJson_def decodeReleaseCatalog_def exactly_def catalogMembers_def checkedBy_def codec_simps admitsCatalog_def
      bundle_codec.array_roundtrip)

section \<open>Operations\<close>

text \<open>A typed value handed to an operation is decoded again: its checks hold or the operation fails.\<close>

definition checkedRelease :: "('a \<Rightarrow> bool) \<Rightarrow> 'a \<Rightarrow> release_error + 'a" where
  "checkedRelease ok x = (if ok x then Inr x else Inl InvalidRelease)"

definition bundleText :: "release_bundle \<Rightarrow> string" where
  "bundleText b = stringify (bundleJson (b\<lparr>rb_packages := sort_key rp_name (rb_packages b)\<rparr>))"

definition releaseBundleFingerprint :: "release_bundle \<Rightarrow> release_error + string" where
  "releaseBundleFingerprint value = bindE (checkedRelease admitsBundle value) (\<lambda>b. Inr (bundleText b))"

definition selectReleaseBundle :: "release_catalog \<Rightarrow> string \<Rightarrow> string \<Rightarrow> release_error + release_bundle" where
  "selectReleaseBundle value capture control =
     bindE (checkedRelease admitsCatalog value) (\<lambda>catalog.
       fromOption UnsupportedRelease
         (find (\<lambda>b. pairOf b = stringify (JArr [JStr capture, JStr control])) (rc_bundles catalog)))"

fun compareParts :: "nat \<Rightarrow> nat list \<Rightarrow> nat list \<Rightarrow> int" where
  "compareParts 0 _ _ = 0"
| "compareParts (Suc n) [] [] = 0"
| "compareParts (Suc n) (x # xs) (y # ys) = (if x \<noteq> y then (if x < y then -1 else 1) else compareParts n xs ys)"
| "compareParts (Suc n) _ _ = 1"

definition versionNumbers :: "string \<Rightarrow> nat list" where
  "versionNumbers v = map digitsVal (splitOn CHR ''.'' v)"

definition compareVersion :: "string \<Rightarrow> string \<Rightarrow> int" where
  "compareVersion left right = compareParts 3 (versionNumbers left) (versionNumbers right)"

definition mergeReleaseBundle :: "release_catalog option \<Rightarrow> release_bundle \<Rightarrow> release_error + release_catalog" where
  "mergeReleaseBundle previous value =
     bindE (checkedRelease admitsBundle value) (\<lambda>bundle.
     case previous of
       None \<Rightarrow> checkedRelease admitsCatalog \<lparr>rc_revision = 1, rc_bundles = [bundle]\<rparr>
     | Some p \<Rightarrow>
         bindE (checkedRelease admitsCatalog p) (\<lambda>catalog.
         let current = find (\<lambda>b. pairOf b = pairOf bundle) (rc_bundles catalog);
             extend = (if rc_revision catalog = max_safe_integer then Inl RevisionExhausted
               else checkedRelease admitsCatalog \<lparr>rc_revision = rc_revision catalog + 1,
                 rc_bundles = filter (\<lambda>b. pairOf b \<noteq> pairOf bundle) (rc_bundles catalog) @ [bundle]\<rparr>)
         in case current of
              None \<Rightarrow> extend
            | Some c \<Rightarrow>
                (let order = compareVersion (rb_version bundle) (rb_version c) in
                 if order < 0 then Inr catalog
                 else if order = 0 then
                   bindE (releaseBundleFingerprint c) (\<lambda>f. bindE (releaseBundleFingerprint bundle) (\<lambda>g.
                     if f \<noteq> g then Inl ImmutableRelease else Inr catalog))
                 else extend)))"

section \<open>The section of a release body\<close>

text \<open>JSON.stringify with an indentation of two spaces.\<close>

definition newline :: "nat \<Rightarrow> string" where
  "newline depth = CHR 0x0A # replicate (2 * depth) (CHR '' '')"

fun pretty :: "nat \<Rightarrow> json \<Rightarrow> string"
  and prettyItems :: "nat \<Rightarrow> json list \<Rightarrow> string"
  and prettyMembers :: "nat \<Rightarrow> (string \<times> json) list \<Rightarrow> string" where
  "pretty d (JArr xs) = (if xs = [] then ''[]'' else CHR ''['' # prettyItems (Suc d) xs @ newline d @ '']'')"
| "pretty d (JObj ms) = (if ms = [] then ''{}'' else CHR ''{'' # prettyMembers (Suc d) ms @ newline d @ ''}'')"
| "pretty d (JStr s) = stringify (JStr s)"
| "pretty d (JNum m e) = stringify (JNum m e)"
| "pretty d (JBool b) = stringify (JBool b)"
| "pretty d JNull = stringify JNull"
| "prettyItems d [] = []"
| "prettyItems d (x # xs) = newline d @ pretty d x @ (if xs = [] then [] else CHR '','' # prettyItems d xs)"
| "prettyMembers d [] = []"
| "prettyMembers d ((k, v) # ms) =
     newline d @ showString k @ '': '' @ pretty d v @ (if ms = [] then [] else CHR '','' # prettyMembers d ms)"

definition parseRelease :: "string \<Rightarrow> release_error + json" where
  "parseRelease s = fromOption InvalidRelease (parseJson s)"

definition sectionStart :: "string \<Rightarrow> string" where
  "sectionStart name = ''<!-- '' @ name @ '':start -->''"

definition sectionEnd :: "string \<Rightarrow> string" where
  "sectionEnd name = ''<!-- '' @ name @ '':end -->''"

definition sectionOf :: "string \<Rightarrow> string \<Rightarrow> release_error + string" where
  "sectionOf name fingerprint = bindE (parseRelease fingerprint) (\<lambda>j.
     Inr (sectionStart name @ ''\<newline>'' @ pretty 0 j @ ''\<newline>'' @ sectionEnd name))"

definition releaseBundleSection :: "release_bundle \<Rightarrow> release_error + string" where
  "releaseBundleSection b = bindE (releaseBundleFingerprint b) (sectionOf releaseBundleProtocol)"

text \<open>The texts that follow a marker of the namespace: an opening comment, white space, the name and a dot.\<close>

definition afterMarker :: "string \<Rightarrow> string \<Rightarrow> string option" where
  "afterMarker name s = (if startsWith ''<!--'' s then
       (let r = drop_prefixes js_spaces (drop 4 s) in if startsWith (name @ ''.'') r then Some (drop (length name + 1) r) else None)
     else None)"

definition markers :: "string \<Rightarrow> string \<Rightarrow> string list" where
  "markers name body = List.map_filter (afterMarker name) (tails body)"

definition knownMarker :: "string \<Rightarrow> bool" where
  "knownMarker r \<longleftrightarrow> startsWith ''v1:start -->'' r \<or> startsWith ''v1:end -->'' r"

text \<open>The text between the only start and the only end of a section, trimmed.\<close>

definition sectionBody :: "string \<Rightarrow> string \<Rightarrow> release_error + string" where
  "sectionBody name body =
     (case (indexOf (sectionStart name) body, indexOf (sectionEnd name) body) of
        (Some i, Some e) \<Rightarrow>
          (let start = i + length (sectionStart name) in
           if e < start then Inl MalformedSection else Inr (js_trim (drop start (take e body))))
      | _ \<Rightarrow> Inl MalformedSection)"

text \<open>None when the body has no marker of the namespace; more or less than one complete section is an error.\<close>

definition onlySection :: "string \<Rightarrow> string \<Rightarrow> string \<Rightarrow> release_error + string option" where
  "onlySection namespace name body =
     (let ms = markers namespace body;
          starts = occurrences (sectionStart name) body + 1; ends = occurrences (sectionEnd name) body + 1 in
      if \<not> list_all knownMarker ms then Inl MalformedSection
      else if starts = 1 \<and> ends = 1 \<and> length ms = 0 then Inr None
      else if starts \<noteq> 2 \<or> ends \<noteq> 2 \<or> length ms \<noteq> 2 then Inl MalformedSection
      else bindE (sectionBody name body) (\<lambda>t. Inr (Some t)))"

definition decodeSection :: "'a decoder \<Rightarrow> string \<Rightarrow> release_error + 'a" where
  "decodeSection dec t = bindE (parseRelease t) (\<lambda>j. fromOption InvalidRelease (dec j))"

definition releaseBundleFromBody :: "string \<Rightarrow> release_error + release_bundle option" where
  "releaseBundleFromBody body =
     bindE (onlySection ''atape.release-bundle'' releaseBundleProtocol body) (\<lambda>section.
     case section of
       None \<Rightarrow> Inr None
     | Some t \<Rightarrow> bindE (decodeSection decodeReleaseBundle t) (\<lambda>b. Inr (Some b)))"

end
