(* ===== verification/StableSort.thy ===== *)
theory StableSort
  imports Prelude
begin

text \<open>The stable sort of Array.prototype.sort under a comparator, as insertion sort: its elements, and the
  least element in front.\<close>

fun insertBy :: "('a \<Rightarrow> 'a \<Rightarrow> int) \<Rightarrow> 'a \<Rightarrow> 'a list \<Rightarrow> 'a list" where
  "insertBy cmp x [] = [x]"
| "insertBy cmp x (y # ys) = (if cmp x y \<le> 0 then x # y # ys else y # insertBy cmp x ys)"

fun sortBy :: "('a \<Rightarrow> 'a \<Rightarrow> int) \<Rightarrow> 'a list \<Rightarrow> 'a list" where
  "sortBy cmp [] = []"
| "sortBy cmp (x # xs) = insertBy cmp x (sortBy cmp xs)"

lemma set_insertBy: "set (insertBy cmp x ys) = insert x (set ys)"
  by (induction ys) auto

lemma set_sortBy: "set (sortBy cmp xs) = set xs"
  by (induction xs) (simp_all add: set_insertBy)

lemma hd_insertBy: "hd (insertBy cmp x ys) = (if ys = [] \<or> cmp x (hd ys) \<le> 0 then x else hd ys)"
  by (cases ys) auto

lemma insertBy_not_empty [simp]: "insertBy cmp x ys \<noteq> []"
  by (cases ys) auto

lemma hd_sortBy_least:
  assumes total: "\<And>a b. a \<in> A \<Longrightarrow> b \<in> A \<Longrightarrow> cmp a b \<le> 0 \<or> cmp b a \<le> 0"
    and trans: "\<And>a b c. a \<in> A \<Longrightarrow> b \<in> A \<Longrightarrow> c \<in> A \<Longrightarrow> cmp a b \<le> 0 \<Longrightarrow> cmp b c \<le> 0 \<Longrightarrow> cmp a c \<le> (0 :: int)"
    and "set xs \<subseteq> A" "x \<in> set xs"
  shows "cmp (hd (sortBy cmp xs)) x \<le> 0"
  using assms(3,4)
proof (induction xs arbitrary: x)
  case (Cons y xs)
  let ?h = "hd (sortBy cmp xs)"
  have self: "cmp a a \<le> 0" if "a \<in> A" for a using total that by blast
  show ?case
  proof (cases "xs = []")
    case False
    then have sorted: "sortBy cmp xs \<noteq> []" by (cases xs) simp_all
    then have h: "?h \<in> A" using Cons.prems(1) set_sortBy[of cmp xs] by (metis list.set_intros(2) list.set_sel(1) subsetD)
    have rest: "cmp ?h z \<le> 0" if "z \<in> set xs" for z using Cons that by simp
    have y: "y \<in> A" and x: "x \<in> A" using Cons.prems by auto
    show ?thesis
    proof (cases "cmp y ?h \<le> 0")
      case True
      then have "cmp y x \<le> 0" using self[OF y] rest trans[OF y h x] Cons.prems(2) by auto
      then show ?thesis using True sorted by (simp add: hd_insertBy)
    next
      case False
      then have "cmp ?h x \<le> 0" using total[OF y h] rest Cons.prems(2) by auto
      then show ?thesis using False sorted by (simp add: hd_insertBy)
    qed
  qed (use self Cons.prems in simp)
qed simp

end
