(* ===== verification/ReleaseRouting.thy ===== *)
theory ReleaseRouting
  imports ReleaseCatalog StableSort
begin

text \<open>The migration and target catalogs (packages/domain/src/releaseCatalog.ts): bundles that name the
  capture-state contracts they update from, routes from a contract to the newest bundle, and the
  merge and selection of each catalog.\<close>

section \<open>Migration bundles\<close>

record migration_bundle = release_bundle +
  mg_protocol :: string
  mg_id :: string
  mg_from :: "string list"

record migration_route =
  mr_from :: string
  mr_control :: string
  mr_protocol :: string
  mr_id :: string
  mr_version :: string

record migration_catalog =
  mc_revision :: int
  mc_bundles :: "migration_bundle list"
  mc_routes :: "migration_route list"

definition migrationReleaseBundleProtocol :: string where
  "migrationReleaseBundleProtocol = ''atape.release-bundle.v2''"

definition migrationReleaseCatalogProtocol :: string where
  "migrationReleaseCatalogProtocol = ''atape.update-catalog.v2''"

definition sourceContracts :: "string list \<Rightarrow> string \<Rightarrow> bool" where
  "sourceContracts from capture \<longleftrightarrow> list_all opaqueProtocol from \<and> 1 \<le> length from \<and> length from \<le> 16 \<and>
     distinct from \<and> capture \<in> set from"

definition admitsMigration :: "migration_bundle \<Rightarrow> bool" where
  "admitsMigration m \<longleftrightarrow> admitsBundle (release_bundle.truncate m) \<and> opaqueProtocol (mg_protocol m) \<and> opaqueProtocol (mg_id m) \<and>
     sourceContracts (mg_from m) (rb_capture m)"

definition admitsMigrationRoute :: "migration_route \<Rightarrow> bool" where
  "admitsMigrationRoute r \<longleftrightarrow> opaqueProtocol (mr_from r) \<and> opaqueProtocol (mr_control r) \<and> opaqueProtocol (mr_protocol r) \<and>
     opaqueProtocol (mr_id r) \<and> stableVersion (mr_version r)"

definition routeKey :: "migration_route \<Rightarrow> string" where
  "routeKey r = stringify (JArr [JStr (mr_from r), JStr (mr_control r), JStr (mr_protocol r), JStr (mr_id r)])"

definition servesMigration :: "migration_bundle \<Rightarrow> migration_route \<Rightarrow> bool" where
  "servesMigration b r \<longleftrightarrow> rb_control b = mr_control r \<and> mg_protocol b = mr_protocol r \<and> mg_id b = mr_id r \<and> mr_from r \<in> set (mg_from b)"

text \<open>Both routed catalogs check their bundles and routes alike: distinct versions and keys, every route served
  by the bundle of its version, every bundle reached by a route.\<close>

definition wellRouted :: "('b \<Rightarrow> string) \<Rightarrow> ('r \<Rightarrow> string) \<Rightarrow> ('r \<Rightarrow> string) \<Rightarrow> ('b \<Rightarrow> 'r \<Rightarrow> bool) \<Rightarrow> 'b list \<Rightarrow> 'r list \<Rightarrow> bool" where
  "wellRouted bversion key version serves bundles routes \<longleftrightarrow>
     distinct (map bversion bundles) \<and> distinct (map key routes) \<and>
     list_all (\<lambda>r. case find (\<lambda>b. bversion b = version r) bundles of None \<Rightarrow> False | Some b \<Rightarrow> serves b r) routes \<and>
     list_all (\<lambda>b. list_ex (\<lambda>r. version r = bversion b) routes) bundles"

definition admitsMigrationCatalog :: "migration_catalog \<Rightarrow> bool" where
  "admitsMigrationCatalog c \<longleftrightarrow> 0 < mc_revision c \<and> mc_revision c \<le> max_safe_integer \<and>
     list_all admitsMigration (mc_bundles c) \<and> length (mc_bundles c) \<le> 64 \<and>
     list_all admitsMigrationRoute (mc_routes c) \<and> length (mc_routes c) \<le> 256 \<and>
     wellRouted rb_version routeKey mr_version servesMigration (mc_bundles c) (mc_routes c)"

section \<open>Target bundles\<close>

record target_bundle = release_bundle +
  tg_from :: "string list"

record target_route =
  gr_from :: string
  gr_control :: string
  gr_version :: string

record target_catalog =
  tc_revision :: int
  tc_bundles :: "target_bundle list"
  tc_routes :: "target_route list"

definition updateTargetProtocol :: string where
  "updateTargetProtocol = ''atape.update-target.v1''"

definition targetReleaseBundleProtocol :: string where
  "targetReleaseBundleProtocol = ''atape.release-bundle.v3''"

definition targetReleaseCatalogProtocol :: string where
  "targetReleaseCatalogProtocol = ''atape.update-catalog.v3''"

definition admitsTarget :: "target_bundle \<Rightarrow> bool" where
  "admitsTarget t \<longleftrightarrow> admitsBundle (release_bundle.truncate t) \<and> sourceContracts (tg_from t) (rb_capture t)"

definition admitsTargetRoute :: "target_route \<Rightarrow> bool" where
  "admitsTargetRoute r \<longleftrightarrow> opaqueProtocol (gr_from r) \<and> opaqueProtocol (gr_control r) \<and> stableVersion (gr_version r)"

definition targetRouteKey :: "target_route \<Rightarrow> string" where
  "targetRouteKey r = stringify (JArr [JStr (gr_from r), JStr (gr_control r), JStr updateTargetProtocol])"

definition servesTarget :: "target_bundle \<Rightarrow> target_route \<Rightarrow> bool" where
  "servesTarget b r \<longleftrightarrow> rb_control b = gr_control r \<and> gr_from r \<in> set (tg_from b)"

definition admitsTargetCatalog :: "target_catalog \<Rightarrow> bool" where
  "admitsTargetCatalog c \<longleftrightarrow> 0 < tc_revision c \<and> tc_revision c \<le> max_safe_integer \<and>
     list_all admitsTarget (tc_bundles c) \<and> length (tc_bundles c) \<le> 64 \<and>
     list_all admitsTargetRoute (tc_routes c) \<and> length (tc_routes c) \<le> 256 \<and>
     wellRouted rb_version targetRouteKey gr_version servesTarget (tc_bundles c) (tc_routes c)"

section \<open>Schemas\<close>

definition textsOf :: "string list decoder" where
  "textsOf = arrayOf asString"

definition migrationOf :: "(string \<times> string \<times> string list) decoder" where
  "migrationOf = exactly [''protocol'', ''id'', ''fromCaptureStateContracts''] (\<lambda>j.
     Option.bind (required ''protocol'' asString j) (\<lambda>p.
     Option.bind (required ''id'' asString j) (\<lambda>i.
     Option.bind (required ''fromCaptureStateContracts'' textsOf j) (\<lambda>f. Some (p, i, f)))))"

definition migrationBundleJson :: "migration_bundle \<Rightarrow> json" where
  "migrationBundleJson b = obj [(''protocol'', Some (JStr migrationReleaseBundleProtocol)), (''version'', Some (JStr (rb_version b))),
     (''captureStateContract'', Some (JStr (rb_capture b))), (''updateControlProtocol'', Some (JStr (rb_control b))),
     (''packages'', Some (arrayJson packageJson (rb_packages b))),
     (''migration'', Some (obj [(''protocol'', Some (JStr (mg_protocol b))), (''id'', Some (JStr (mg_id b))),
        (''fromCaptureStateContracts'', Some (arrayJson JStr (mg_from b)))]))]"

definition decodeMigrationReleaseBundle :: "migration_bundle decoder" where
  "decodeMigrationReleaseBundle = checkedBy admitsMigration (exactly [''protocol'', ''version'', ''captureStateContract'',
     ''updateControlProtocol'', ''packages'', ''migration''] (\<lambda>j.
     Option.bind (bundleMembers migrationReleaseBundleProtocol j) (\<lambda>b.
     Option.bind (required ''migration'' migrationOf j) (\<lambda>(p, i, f).
       Some (release_bundle.extend b \<lparr>mg_protocol = p, mg_id = i, mg_from = f\<rparr>)))))"

definition migrationRouteJson :: "migration_route \<Rightarrow> json" where
  "migrationRouteJson r = obj [(''fromCaptureStateContract'', Some (JStr (mr_from r))), (''updateControlProtocol'', Some (JStr (mr_control r))),
     (''migrationProtocol'', Some (JStr (mr_protocol r))), (''migrationId'', Some (JStr (mr_id r))), (''version'', Some (JStr (mr_version r)))]"

definition decodeMigrationRoute :: "migration_route decoder" where
  "decodeMigrationRoute = checkedBy admitsMigrationRoute (exactly [''fromCaptureStateContract'', ''updateControlProtocol'',
     ''migrationProtocol'', ''migrationId'', ''version''] (\<lambda>j.
     Option.bind (required ''fromCaptureStateContract'' asString j) (\<lambda>f.
     Option.bind (required ''updateControlProtocol'' asString j) (\<lambda>u.
     Option.bind (required ''migrationProtocol'' asString j) (\<lambda>p.
     Option.bind (required ''migrationId'' asString j) (\<lambda>i.
     Option.bind (required ''version'' asString j) (\<lambda>v.
       Some \<lparr>mr_from = f, mr_control = u, mr_protocol = p, mr_id = i, mr_version = v\<rparr>)))))))"

definition migrationCatalogJson :: "migration_catalog \<Rightarrow> json" where
  "migrationCatalogJson c = obj [(''protocol'', Some (JStr migrationReleaseCatalogProtocol)), (''revision'', Some (JInt (mc_revision c))),
     (''bundles'', Some (arrayJson migrationBundleJson (mc_bundles c))), (''routes'', Some (arrayJson migrationRouteJson (mc_routes c)))]"

definition decodeMigrationReleaseCatalog :: "migration_catalog decoder" where
  "decodeMigrationReleaseCatalog = checkedBy admitsMigrationCatalog (exactly [''protocol'', ''revision'', ''bundles'', ''routes''] (\<lambda>j.
     Option.bind (required ''protocol'' (literalText migrationReleaseCatalogProtocol) j) (\<lambda>_.
     Option.bind (required ''revision'' (countIn 1 max_safe_integer) j) (\<lambda>r.
     Option.bind (required ''bundles'' (arrayOf decodeMigrationReleaseBundle) j) (\<lambda>bs.
     Option.bind (required ''routes'' (arrayOf decodeMigrationRoute) j) (\<lambda>rs.
       Some \<lparr>mc_revision = r, mc_bundles = bs, mc_routes = rs\<rparr>))))))"

definition targetBundleJson :: "target_bundle \<Rightarrow> json" where
  "targetBundleJson b = obj [(''protocol'', Some (JStr targetReleaseBundleProtocol)), (''version'', Some (JStr (rb_version b))),
     (''captureStateContract'', Some (JStr (rb_capture b))), (''updateControlProtocol'', Some (JStr (rb_control b))),
     (''packages'', Some (arrayJson packageJson (rb_packages b))), (''updateTargetProtocol'', Some (JStr updateTargetProtocol)),
     (''fromCaptureStateContracts'', Some (arrayJson JStr (tg_from b)))]"

definition decodeTargetReleaseBundle :: "target_bundle decoder" where
  "decodeTargetReleaseBundle = checkedBy admitsTarget (exactly [''protocol'', ''version'', ''captureStateContract'',
     ''updateControlProtocol'', ''updateTargetProtocol'', ''fromCaptureStateContracts'', ''packages''] (\<lambda>j.
     Option.bind (bundleMembers targetReleaseBundleProtocol j) (\<lambda>b.
     Option.bind (required ''updateTargetProtocol'' (literalText updateTargetProtocol) j) (\<lambda>_.
     Option.bind (required ''fromCaptureStateContracts'' textsOf j) (\<lambda>f.
       Some (release_bundle.extend b \<lparr>tg_from = f\<rparr>))))))"

definition targetRouteJson :: "target_route \<Rightarrow> json" where
  "targetRouteJson r = obj [(''fromCaptureStateContract'', Some (JStr (gr_from r))), (''updateControlProtocol'', Some (JStr (gr_control r))),
     (''updateTargetProtocol'', Some (JStr updateTargetProtocol)), (''version'', Some (JStr (gr_version r)))]"

definition decodeTargetRoute :: "target_route decoder" where
  "decodeTargetRoute = checkedBy admitsTargetRoute (exactly [''fromCaptureStateContract'', ''updateControlProtocol'',
     ''updateTargetProtocol'', ''version''] (\<lambda>j.
     Option.bind (required ''fromCaptureStateContract'' asString j) (\<lambda>f.
     Option.bind (required ''updateControlProtocol'' asString j) (\<lambda>u.
     Option.bind (required ''updateTargetProtocol'' (literalText updateTargetProtocol) j) (\<lambda>_.
     Option.bind (required ''version'' asString j) (\<lambda>v. Some \<lparr>gr_from = f, gr_control = u, gr_version = v\<rparr>))))))"

definition targetCatalogJson :: "target_catalog \<Rightarrow> json" where
  "targetCatalogJson c = obj [(''protocol'', Some (JStr targetReleaseCatalogProtocol)), (''revision'', Some (JInt (tc_revision c))),
     (''bundles'', Some (arrayJson targetBundleJson (tc_bundles c))), (''routes'', Some (arrayJson targetRouteJson (tc_routes c)))]"

definition decodeTargetReleaseCatalog :: "target_catalog decoder" where
  "decodeTargetReleaseCatalog = checkedBy admitsTargetCatalog (exactly [''protocol'', ''revision'', ''bundles'', ''routes''] (\<lambda>j.
     Option.bind (required ''protocol'' (literalText targetReleaseCatalogProtocol) j) (\<lambda>_.
     Option.bind (required ''revision'' (countIn 1 max_safe_integer) j) (\<lambda>r.
     Option.bind (required ''bundles'' (arrayOf decodeTargetReleaseBundle) j) (\<lambda>bs.
     Option.bind (required ''routes'' (arrayOf decodeTargetRoute) j) (\<lambda>rs.
       Some \<lparr>tc_revision = r, tc_bundles = bs, tc_routes = rs\<rparr>))))))"

datatype managed_bundle = ManagedRelease release_bundle | ManagedMigration migration_bundle | ManagedTarget target_bundle

definition decodeManagedReleaseBundle :: "managed_bundle decoder" where
  "decodeManagedReleaseBundle j = (case decodeReleaseBundle j of
       Some b \<Rightarrow> Some (ManagedRelease b)
     | None \<Rightarrow> (case decodeMigrationReleaseBundle j of
         Some m \<Rightarrow> Some (ManagedMigration m)
       | None \<Rightarrow> map_option ManagedTarget (decodeTargetReleaseBundle j)))"

section \<open>Fingerprints\<close>

fun assignMember :: "(string \<times> json) list \<Rightarrow> string \<times> json \<Rightarrow> (string \<times> json) list" where
  "assignMember [] (k, v) = [(k, v)]"
| "assignMember ((a, w) # ms) (k, v) = (if a = k then (k, v) # ms else (a, w) # assignMember ms (k, v))"

text \<open>The spread of a parsed object, with members assigned after it.\<close>

definition spread :: "json \<Rightarrow> (string \<times> json) list \<Rightarrow> json" where
  "spread base ms = JObj (foldl assignMember (case base of JObj bs \<Rightarrow> bs | _ \<Rightarrow> []) ms)"

definition contractsJson :: "string list \<Rightarrow> json" where
  "contractsJson from = arrayJson JStr (sort_key utf16Order from)"

definition migrationReleaseBundleFingerprint :: "migration_bundle \<Rightarrow> release_error + string" where
  "migrationReleaseBundleFingerprint value =
     bindE (checkedRelease admitsMigration value) (\<lambda>b.
     bindE (releaseBundleFingerprint (release_bundle.truncate b)) (\<lambda>text.
     bindE (parseRelease text) (\<lambda>base.
       Inr (stringify (spread base [(''protocol'', JStr migrationReleaseBundleProtocol), (''migration'',
         obj [(''protocol'', Some (JStr (mg_protocol b))), (''id'', Some (JStr (mg_id b))),
           (''fromCaptureStateContracts'', Some (contractsJson (mg_from b)))])])))))"

definition targetReleaseBundleFingerprint :: "target_bundle \<Rightarrow> release_error + string" where
  "targetReleaseBundleFingerprint value =
     bindE (checkedRelease admitsTarget value) (\<lambda>b.
     bindE (releaseBundleFingerprint (release_bundle.truncate b)) (\<lambda>text.
     bindE (parseRelease text) (\<lambda>base.
       Inr (stringify (spread base [(''protocol'', JStr targetReleaseBundleProtocol), (''updateTargetProtocol'', JStr updateTargetProtocol),
         (''fromCaptureStateContracts'', contractsJson (tg_from b))])))))"

definition managedReleaseBundleFingerprint :: "managed_bundle \<Rightarrow> release_error + string" where
  "managedReleaseBundleFingerprint value = (case value of
       ManagedRelease b \<Rightarrow> releaseBundleFingerprint b
     | ManagedMigration m \<Rightarrow> migrationReleaseBundleFingerprint m
     | ManagedTarget t \<Rightarrow> targetReleaseBundleFingerprint t)"

section \<open>Selection\<close>

definition selectMigrationReleaseBundle :: "migration_catalog \<Rightarrow> string \<Rightarrow> string \<Rightarrow> (string \<times> string) list \<Rightarrow>
    release_error + migration_bundle option" where
  "selectMigrationReleaseBundle value capture control plans =
     bindE (checkedRelease admitsMigrationCatalog value) (\<lambda>catalog.
     let routes = filter (\<lambda>r. mr_from r = capture \<and> mr_control r = control \<and>
           list_ex (\<lambda>p. fst p = mr_protocol r \<and> snd p = mr_id r) plans) (mc_routes catalog)
     in case sortBy (\<lambda>a b. compareVersion (mr_version b) (mr_version a)) routes of
          [] \<Rightarrow> Inl UnsupportedRelease
        | selected # _ \<Rightarrow> Inr (find (\<lambda>b. rb_version b = mr_version selected) (mc_bundles catalog)))"

definition selectTargetReleaseBundle :: "target_catalog \<Rightarrow> string \<Rightarrow> string \<Rightarrow> string \<Rightarrow> release_error + target_bundle option" where
  "selectTargetReleaseBundle value capture control target =
     bindE (checkedRelease admitsTargetCatalog value) (\<lambda>catalog.
     bindE (fromOption UnsupportedRelease
         (find (\<lambda>r. gr_from r = capture \<and> gr_control r = control \<and> updateTargetProtocol = target) (tc_routes catalog))) (\<lambda>route.
       Inr (find (\<lambda>b. rb_version b = gr_version route) (tc_bundles catalog))))"

section \<open>Merging\<close>

text \<open>The loop over the source contracts: a new route is appended, a route of the same key is replaced by a newer version.\<close>

fun findIndex :: "('a \<Rightarrow> bool) \<Rightarrow> 'a list \<Rightarrow> nat option" where
  "findIndex P [] = None"
| "findIndex P (x # xs) = (if P x then Some 0 else map_option Suc (findIndex P xs))"

definition upsertRoute :: "('r \<Rightarrow> string) \<Rightarrow> ('r \<Rightarrow> string) \<Rightarrow> 'r list \<times> bool \<Rightarrow> 'r \<Rightarrow> 'r list \<times> bool" where
  "upsertRoute key version state route = (case state of (routes, changed) \<Rightarrow>
     (case findIndex (\<lambda>r. key r = key route) routes of
        None \<Rightarrow> (routes @ [route], True)
      | Some i \<Rightarrow> (if compareVersion (version route) (version (routes ! i)) > 0 then (routes[i := route], True) else (routes, changed))))"

text \<open>Bundles no route leads to any more are dropped.\<close>

definition retainRouted :: "('b \<Rightarrow> string) \<Rightarrow> ('r \<Rightarrow> string) \<Rightarrow> 'b \<Rightarrow> 'b list \<Rightarrow> 'r list \<Rightarrow> 'b list" where
  "retainRouted bversion version bundle bundles routes =
     filter (\<lambda>b. list_ex (\<lambda>r. version r = bversion b) routes) (filter (\<lambda>b. bversion b \<noteq> bversion bundle) bundles @ [bundle])"

definition immutableE :: "('b \<Rightarrow> release_error + string) \<Rightarrow> 'b option \<Rightarrow> 'b \<Rightarrow> release_error + unit" where
  "immutableE fingerprint existing bundle = (case existing of
       None \<Rightarrow> Inr ()
     | Some e \<Rightarrow> bindE (fingerprint e) (\<lambda>f. bindE (fingerprint bundle) (\<lambda>g. if f \<noteq> g then Inl ImmutableRelease else Inr ())))"

definition migrationRoutes :: "migration_bundle \<Rightarrow> migration_route list" where
  "migrationRoutes b = map (\<lambda>f. \<lparr>mr_from = f, mr_control = rb_control b, mr_protocol = mg_protocol b, mr_id = mg_id b,
     mr_version = rb_version b\<rparr>) (mg_from b)"

definition mergeMigrationReleaseBundle :: "migration_catalog option \<Rightarrow> migration_bundle \<Rightarrow> release_error + migration_catalog" where
  "mergeMigrationReleaseBundle previous value =
     bindE (checkedRelease admitsMigration value) (\<lambda>bundle.
     bindE (case previous of None \<Rightarrow> Inr \<lparr>mc_revision = 0, mc_bundles = [], mc_routes = []\<rparr>
       | Some p \<Rightarrow> checkedRelease admitsMigrationCatalog p) (\<lambda>catalog.
     bindE (immutableE migrationReleaseBundleFingerprint (find (\<lambda>b. rb_version b = rb_version bundle) (mc_bundles catalog)) bundle) (\<lambda>_.
     case foldl (upsertRoute routeKey mr_version) (mc_routes catalog, False) (migrationRoutes bundle) of (routes, changed) \<Rightarrow>
       if \<not> changed then checkedRelease admitsMigrationCatalog catalog
       else if mc_revision catalog = max_safe_integer then Inl RevisionExhausted
       else checkedRelease admitsMigrationCatalog \<lparr>mc_revision = mc_revision catalog + 1,
         mc_bundles = retainRouted rb_version mr_version bundle (mc_bundles catalog) routes, mc_routes = routes\<rparr>)))"

definition targetRoutes :: "target_bundle \<Rightarrow> target_route list" where
  "targetRoutes b = map (\<lambda>f. \<lparr>gr_from = f, gr_control = rb_control b, gr_version = rb_version b\<rparr>) (tg_from b)"

definition mergeTargetReleaseBundle :: "target_catalog option \<Rightarrow> target_bundle \<Rightarrow> release_error + target_catalog" where
  "mergeTargetReleaseBundle previous value =
     bindE (checkedRelease admitsTarget value) (\<lambda>bundle.
     bindE (case previous of None \<Rightarrow> Inr \<lparr>tc_revision = 0, tc_bundles = [], tc_routes = []\<rparr>
       | Some p \<Rightarrow> checkedRelease admitsTargetCatalog p) (\<lambda>catalog.
     bindE (immutableE targetReleaseBundleFingerprint (find (\<lambda>b. rb_version b = rb_version bundle) (tc_bundles catalog)) bundle) (\<lambda>_.
     case foldl (upsertRoute targetRouteKey gr_version) (tc_routes catalog, False) (targetRoutes bundle) of (routes, changed) \<Rightarrow>
       if \<not> changed then checkedRelease admitsTargetCatalog catalog
       else if tc_revision catalog = max_safe_integer then Inl RevisionExhausted
       else checkedRelease admitsTargetCatalog \<lparr>tc_revision = tc_revision catalog + 1,
         tc_bundles = retainRouted rb_version gr_version bundle (tc_bundles catalog) routes, tc_routes = routes\<rparr>)))"

section \<open>Sections of a release body\<close>

definition migrationSectionProtocol :: string where
  "migrationSectionProtocol = ''atape.migration-release-bundle.v1''"

definition migrationReleaseBundleSection :: "migration_bundle \<Rightarrow> release_error + string" where
  "migrationReleaseBundleSection b = bindE (migrationReleaseBundleFingerprint b) (sectionOf migrationSectionProtocol)"

text \<open>Another descriptor of the same body has to agree on the base bundle.\<close>

definition agreesWith :: "release_bundle \<Rightarrow> release_bundle option \<Rightarrow> release_error + unit" where
  "agreesWith bundle other = (case other of
       None \<Rightarrow> Inr ()
     | Some b \<Rightarrow> bindE (releaseBundleFingerprint b) (\<lambda>f. bindE (releaseBundleFingerprint bundle) (\<lambda>g.
         if f \<noteq> g then Inl DescriptorsDisagree else Inr ())))"

definition migrationReleaseBundleFromBody :: "string \<Rightarrow> release_error + migration_bundle option" where
  "migrationReleaseBundleFromBody body =
     bindE (onlySection ''atape.migration-release-bundle'' migrationSectionProtocol body) (\<lambda>section.
     case section of
       None \<Rightarrow> Inr None
     | Some t \<Rightarrow>
         bindE (decodeSection decodeMigrationReleaseBundle t) (\<lambda>bundle.
         bindE (releaseBundleFromBody body) (\<lambda>legacy.
         bindE (agreesWith (release_bundle.truncate bundle) legacy) (\<lambda>_. Inr (Some bundle)))))"

definition targetSectionProtocol :: string where
  "targetSectionProtocol = ''atape.target-release-bundle.v1''"

definition targetReleaseBundleSection :: "target_bundle \<Rightarrow> release_error + string" where
  "targetReleaseBundleSection b = bindE (targetReleaseBundleFingerprint b) (sectionOf targetSectionProtocol)"

definition targetSection :: "string \<Rightarrow> release_error + string option" where
  "targetSection body =
     (let ms = markers ''atape.target-release-bundle'' body; name = targetSectionProtocol in
      if \<not> list_all knownMarker ms then Inl MalformedSection
      else if length ms = 0 then Inr None
      else if occurrences (sectionStart name) body + 1 \<noteq> 2 \<or> occurrences (sectionEnd name) body + 1 \<noteq> 2 \<or> length ms \<noteq> 2
        then Inl MalformedSection
      else bindE (sectionBody name body) (\<lambda>t. Inr (Some t)))"

definition targetReleaseBundleFromBody :: "string \<Rightarrow> release_error + target_bundle option" where
  "targetReleaseBundleFromBody body =
     bindE (targetSection body) (\<lambda>section.
     case section of
       None \<Rightarrow> Inr None
     | Some t \<Rightarrow>
         bindE (decodeSection decodeTargetReleaseBundle t) (\<lambda>bundle.
         bindE (releaseBundleFromBody body) (\<lambda>legacy.
         bindE (migrationReleaseBundleFromBody body) (\<lambda>migration.
         bindE (agreesWith (release_bundle.truncate bundle) legacy) (\<lambda>_.
         bindE (agreesWith (release_bundle.truncate bundle) (map_option release_bundle.truncate migration)) (\<lambda>_. Inr (Some bundle)))))))"

end
