(* ===== verification/ReleaseOrder.thy ===== *)
theory ReleaseOrder
  imports ReleaseRouting "HOL-Library.Multiset"
begin

text \<open>Versions as a linear order, and the fingerprint as the identity of a bundle up to the order of its
  packages.\<close>

section \<open>Versions\<close>

lemma splitOn_not_empty [simp]: "splitOn c s \<noteq> []"
  by (induction s) (auto split: list.splits)

lemma joinWith_cons: "ps \<noteq> [] \<Longrightarrow> joinWith c (p # ps) = p @ c @ joinWith c ps"
  by (cases ps) simp_all

lemma joinWith_splitOn: "joinWith [c] (splitOn c s) = s"
proof (induction s)
  case (Cons d s)
  obtain p ps where ps: "splitOn c s = p # ps" by (cases "splitOn c s") simp_all
  with Cons show ?case by (cases ps) auto
qed simp

lemma digitsVal_canonical: "versionPart p \<Longrightarrow> showNat (digitsVal p) = p"
proof (induction p rule: rev_induct)
  case (snoc c p)
  have c: "isDigit c" using snoc.prems by (simp add: versionPart_def)
  then have val: "code c - 48 < 10" "digitChar (code c - 48) = c" by (auto simp: isDigit_def digitChar_def)
  show ?case
  proof (cases p)
    case Nil
    with val show ?thesis by (simp add: digitsVal_def showNat.simps)
  next
    case (Cons d q)
    then have p: "versionPart p" "hd p \<noteq> CHR ''0''" using snoc.prems by (auto simp: versionPart_def)
    then have IH: "showNat (digitsVal p) = p" using snoc.IH by blast
    have "digitsVal p \<noteq> 0"
    proof
      assume "digitsVal p = 0"
      then have "p = ''0''" using IH by simp
      then show False using p(2) by simp
    qed
    then show ?thesis using IH val by (simp add: showNat.simps[of "digitsVal p * 10 + (code c - 48)"])
  qed
qed (simp add: versionPart_def)

lemma versionNumbers_inject:
  assumes "stableVersion v" "stableVersion w" "versionNumbers v = versionNumbers w"
  shows "v = w"
proof -
  have parts: "map (showNat \<circ> digitsVal) (splitOn CHR ''.'' u) = splitOn CHR ''.'' u" if "stableVersion u" for u
    using that by (auto simp: stableVersion_def list_all_iff digitsVal_canonical intro: map_idI)
  have "map showNat (versionNumbers v) = map showNat (versionNumbers w)" using assms(3) by simp
  then have "splitOn CHR ''.'' v = splitOn CHR ''.'' w" using parts assms(1,2) by (simp add: versionNumbers_def)
  then show ?thesis by (metis joinWith_splitOn)
qed

lemma compareParts_order:
  "length xs = n \<Longrightarrow> length ys = n \<Longrightarrow> compareParts n xs ys = (if xs = ys then 0 else if xs < ys then -1 else 1)"
  by (induction n xs ys rule: compareParts.induct) auto

lemma compareVersion_order:
  assumes "stableVersion v" "stableVersion w"
  shows "compareVersion v w = (if v = w then 0 else if versionNumbers v < versionNumbers w then -1 else 1)"
proof -
  have "length (versionNumbers v) = 3" "length (versionNumbers w) = 3"
    using assms by (simp_all add: stableVersion_def versionNumbers_def)
  then show ?thesis using versionNumbers_inject[OF assms] by (auto simp: compareVersion_def compareParts_order)
qed

definition noOlder :: "string \<Rightarrow> string \<Rightarrow> bool" where
  "noOlder v w \<longleftrightarrow> compareVersion v w \<le> 0"

lemma noOlder_iff: "stableVersion v \<Longrightarrow> stableVersion w \<Longrightarrow> noOlder v w \<longleftrightarrow> versionNumbers v \<le> versionNumbers w"
  using versionNumbers_inject by (auto simp: noOlder_def compareVersion_order)

lemma noOlder_refl: "noOlder v v"
proof -
  have "compareParts n xs xs = 0" for n xs by (induction n arbitrary: xs) (case_tac xs; simp)+
  then show ?thesis by (simp add: noOlder_def compareVersion_def)
qed

lemma noOlder_trans:
  "stableVersion u \<Longrightarrow> stableVersion v \<Longrightarrow> stableVersion w \<Longrightarrow> noOlder u v \<Longrightarrow> noOlder v w \<Longrightarrow> noOlder u w"
  by (simp add: noOlder_iff)

lemma noOlder_total: "stableVersion v \<Longrightarrow> stableVersion w \<Longrightarrow> \<not> noOlder v w \<Longrightarrow> noOlder w v"
  by (simp add: noOlder_iff)

section \<open>Fingerprints\<close>

lemma jsonArray_inject: "arrayJson JStr xs = arrayJson JStr ys \<longleftrightarrow> xs = ys"
  by (simp add: arrayJson_def inj_map_eq_map inj_def)

lemma packageJson_inject: "packageJson p = packageJson q \<longleftrightarrow> p = q"
  by (cases p; cases q) (auto simp: packageJson_def obj_def List.map_filter_simps)

lemma bundleJson_inject: "bundleJson b = bundleJson c \<longleftrightarrow> b = c"
proof -
  have "arrayJson packageJson xs = arrayJson packageJson ys \<longleftrightarrow> xs = ys" for xs ys
    by (simp add: arrayJson_def inj_map_eq_map inj_def packageJson_inject)
  then show ?thesis by (cases b; cases c) (auto simp: bundleJson_def obj_def List.map_filter_simps)
qed

lemma sort_key_mset:
  assumes "distinct (map f xs)"
  shows "sort_key f xs = sort_key f ys \<longleftrightarrow> mset xs = mset ys"
proof
  assume "mset xs = mset ys"
  then show "sort_key f xs = sort_key f ys"
    using assms by (intro sort_key_inj_key_eq) (simp_all add: distinct_map)
qed (metis mset_sort)

definition sameBundle :: "release_bundle \<Rightarrow> release_bundle \<Rightarrow> bool" where
  "sameBundle b c \<longleftrightarrow> rb_version b = rb_version c \<and> rb_capture b = rb_capture c \<and> rb_control b = rb_control c \<and>
     mset (rb_packages b) = mset (rb_packages c)"

lemma bundleText_same: "admitsBundle b \<Longrightarrow> bundleText b = bundleText c \<longleftrightarrow> sameBundle b c"
  by (cases b; cases c) (auto simp: bundleText_def bundleJson_inject sameBundle_def admitsBundle_def sort_key_mset)

lemma fingerprint_Inr [success_simps]:
  "releaseBundleFingerprint b = Inr f \<longleftrightarrow> admitsBundle b \<and> f = bundleText b"
  by (auto simp: releaseBundleFingerprint_def checkedRelease_def)

lemma checkedRelease_Inr [success_simps]: "checkedRelease ok x = Inr y \<longleftrightarrow> ok x \<and> y = x"
  by (auto simp: checkedRelease_def)

end
