(* ===== verification/ReleaseProperties.thy ===== *)
theory ReleaseProperties
  imports ReleaseOrder
begin

text \<open>What a merge promises: catalogs stay admitted, no update path is lost or moved to an older version, and
  a selection answers the request.\<close>

section \<open>Routes\<close>

definition dominates :: "('r \<Rightarrow> string) \<Rightarrow> ('r \<Rightarrow> string) \<Rightarrow> 'r list \<Rightarrow> 'r list \<Rightarrow> bool" where
  "dominates key version rs rs' \<longleftrightarrow> (\<forall>r\<in>set rs. \<exists>r'\<in>set rs'. key r' = key r \<and> noOlder (version r) (version r'))"

lemma findIndex_Some: "findIndex P xs = Some i \<Longrightarrow> i < length xs \<and> P (xs ! i)"
  by (induction xs arbitrary: i) (auto split: if_splits)

lemma findIndex_None: "findIndex P xs = None \<longleftrightarrow> (\<forall>x\<in>set xs. \<not> P x)"
  by (induction xs) auto

text \<open>Both routed catalogs keep their routes by key and version; admitted routes have stable versions.\<close>

locale route_table =
  fixes key :: "'r \<Rightarrow> string" and version :: "'r \<Rightarrow> string" and admitted :: "'r \<Rightarrow> bool"
  assumes stable: "admitted r \<Longrightarrow> stableVersion (version r)"
begin

lemma dominates_refl: "dominates key version rs rs"
  by (auto simp: dominates_def noOlder_refl)

lemma dominates_trans:
  assumes "list_all admitted rs" "list_all admitted ss" "list_all admitted ts" "dominates key version rs ss" "dominates key version ss ts"
  shows "dominates key version rs ts"
  unfolding dominates_def
proof
  fix r assume "r \<in> set rs"
  then obtain s t where st: "s \<in> set ss" "t \<in> set ts" "key s = key r" "key t = key s" "noOlder (version r) (version s)" "noOlder (version s) (version t)"
    using assms(4,5) unfolding dominates_def by metis
  then have "noOlder (version r) (version t)"
    using noOlder_trans[of "version r" "version s" "version t"] stable assms(1-3) \<open>r \<in> set rs\<close> by (auto simp: list_all_iff)
  with st show "\<exists>r'\<in>set ts. key r' = key r \<and> noOlder (version r) (version r')" by auto
qed

lemma upsert_table:
  assumes "list_all admitted rs" "admitted r" "distinct (map key rs)" "upsertRoute key version (rs, changed) r = (rs', changed')"
  shows "list_all admitted rs' \<and> distinct (map key rs') \<and> dominates key version rs rs' \<and> dominates key version [r] rs' \<and>
    set rs' \<subseteq> insert r (set rs) \<and> (changed' \<or> (\<not> changed \<and> rs' = rs))"
proof (cases "findIndex (\<lambda>s. key s = key r) rs")
  case None
  then have "rs' = rs @ [r]" "changed'" using assms(4) by (auto simp: upsertRoute_def)
  moreover have "key r \<notin> key ` set rs" using None by (auto simp: findIndex_None)
  ultimately show ?thesis using assms(1-3) by (auto simp: dominates_def noOlder_refl)
next
  case (Some i)
  then have i: "i < length rs" "key (rs ! i) = key r" using findIndex_Some by fastforce+
  have old: "admitted (rs ! i)" "rs ! i \<in> set rs" using assms(1) i by (auto simp: list_all_iff)
  show ?thesis
  proof (cases "compareVersion (version r) (version (rs ! i)) > 0")
    case True
    then have rs': "rs' = rs[i := r]" "changed'" using assms(4) Some by (auto simp: upsertRoute_def)
    have newer: "noOlder (version (rs ! i)) (version r)"
      using True noOlder_total[OF stable[OF assms(2)] stable[OF old(1)]] by (auto simp: noOlder_def)
    have keys: "map key (rs[i := r]) = map key rs" using i by (simp add: map_update list_update_same_conv)
    have "dominates key version rs (rs[i := r])" unfolding dominates_def
    proof
      fix s assume "s \<in> set rs"
      then obtain j where j: "j < length rs" "s = rs ! j" by (auto simp: in_set_conv_nth)
      have "rs[i := r] ! j \<in> set (rs[i := r])" using j(1) by (intro nth_mem) simp
      moreover have "key (rs[i := r] ! j) = key s \<and> noOlder (version s) (version (rs[i := r] ! j))"
        using i newer j by (cases "j = i") (simp_all add: noOlder_refl)
      ultimately show "\<exists>r'\<in>set (rs[i := r]). key r' = key s \<and> noOlder (version s) (version r')" by blast
    qed
    then show ?thesis using rs' keys assms(1-3) i set_update_subset_insert[of rs i r]
      by (auto simp: list_all_iff dominates_def set_update_memI noOlder_refl)
  next
    case False
    then have "rs' = rs" "changed' = changed" using assms(4) Some by (auto simp: upsertRoute_def)
    then show ?thesis using False assms(1-3) i old by (auto simp: dominates_def noOlder_def noOlder_refl[unfolded noOlder_def])
  qed
qed

lemma upserts_table:
  assumes "list_all admitted rs" "list_all admitted news" "distinct (map key rs)" "foldl (upsertRoute key version) (rs, changed) news = (rs', changed')"
  shows "list_all admitted rs' \<and> distinct (map key rs') \<and> dominates key version rs rs' \<and> dominates key version news rs' \<and>
    set rs' \<subseteq> set news \<union> set rs \<and> (changed' \<or> (\<not> changed \<and> rs' = rs))"
  using assms
proof (induction news arbitrary: rs changed)
  case (Cons r news)
  obtain us ch where us: "upsertRoute key version (rs, changed) r = (us, ch)" by fastforce
  have one: "list_all admitted us \<and> distinct (map key us) \<and> dominates key version rs us \<and> dominates key version [r] us \<and>
      set us \<subseteq> insert r (set rs) \<and> (ch \<or> (\<not> changed \<and> us = rs))"
    using upsert_table[OF Cons.prems(1) _ Cons.prems(3) us] Cons.prems(2) by simp
  have rest: "list_all admitted rs' \<and> distinct (map key rs') \<and> dominates key version us rs' \<and> dominates key version news rs' \<and>
      set rs' \<subseteq> set news \<union> set us \<and> (changed' \<or> (\<not> ch \<and> rs' = us))"
    using Cons.IH[of us ch] Cons.prems one us by simp
  have "dominates key version rs rs'" "dominates key version [r] rs'"
    using dominates_trans[of rs us rs'] dominates_trans[of "[r]" us rs'] one rest Cons.prems by simp_all
  then show ?case using one rest by (auto simp: dominates_def)
qed (simp add: dominates_refl, simp add: dominates_def)

lemma upsert_dominated:
  assumes "list_all admitted rs" "admitted r" "distinct (map key rs)" "dominates key version [r] rs"
  shows "upsertRoute key version (rs, changed) r = (rs, changed)"
proof -
  obtain s where s: "s \<in> set rs" "key s = key r" "noOlder (version r) (version s)" using assms(4) by (auto simp: dominates_def)
  then have "findIndex (\<lambda>s. key s = key r) rs \<noteq> None" unfolding findIndex_None by blast
  then obtain i where i: "findIndex (\<lambda>s. key s = key r) rs = Some i" by blast
  then have at: "i < length rs" "key (rs ! i) = key r" using findIndex_Some by fastforce+
  have "rs ! i = s" using assms(3) at s(1,2) nth_mem[OF at(1)] unfolding distinct_map inj_on_def by simp
  with i s(3) show ?thesis by (simp add: upsertRoute_def noOlder_def)
qed

lemma upserts_dominated:
  assumes "list_all admitted rs" "list_all admitted news" "distinct (map key rs)" "dominates key version news rs"
  shows "foldl (upsertRoute key version) (rs, changed) news = (rs, changed)"
  using assms
proof (induction news)
  case (Cons r news)
  then have "dominates key version [r] rs" "dominates key version news rs" by (auto simp: dominates_def)
  with Cons upsert_dominated[of rs r changed] show ?case by simp
qed simp

end

interpretation migration_table: route_table routeKey mr_version admitsMigrationRoute
  by unfold_locales (simp add: admitsMigrationRoute_def)

interpretation target_table: route_table targetRouteKey gr_version admitsTargetRoute
  by unfold_locales (simp add: admitsTargetRoute_def)

section \<open>Target updates\<close>

lemma wellRouted_route:
  assumes "wellRouted bversion key version serves bundles routes" "r \<in> set routes"
  shows "\<exists>b. find (\<lambda>b. bversion b = version r) bundles = Some b \<and> b \<in> set bundles \<and> bversion b = version r \<and> serves b r"
  using assms find_Some_in[of "\<lambda>b. bversion b = version r" bundles]
  by (fastforce simp: wellRouted_def list_all_iff split: option.splits)

lemma find_only_key:
  assumes "distinct (map key rs)" "r \<in> set rs" "\<And>s. s \<in> set rs \<Longrightarrow> P s \<longleftrightarrow> key s = key r"
  shows "find P rs = Some r"
proof -
  have "find P rs \<noteq> None" using assms(2,3) by (auto simp: find_None_iff)
  then obtain s where s: "find P rs = Some s" by blast
  then have "s \<in> set rs" "key s = key r" using find_Some_in[OF s] assms(3) by auto
  then have "s = r" using assms(1,2) by (auto simp: distinct_map dest: inj_onD)
  with s show ?thesis by simp
qed

lemma targetRouteKey_eq: "targetRouteKey r = targetRouteKey s \<longleftrightarrow> gr_from r = gr_from s \<and> gr_control r = gr_control s"
  unfolding targetRouteKey_def stringify_inject by auto

lemma select_target_Inr:
  assumes "selectTargetReleaseBundle c capture control target = Inr found"
  shows "admitsTargetCatalog c \<and> target = updateTargetProtocol \<and>
    (\<exists>r b. r \<in> set (tc_routes c) \<and> gr_from r = capture \<and> gr_control r = control \<and> found = Some b \<and> b \<in> set (tc_bundles c) \<and>
       rb_version b = gr_version r \<and> servesTarget b r)"
proof -
  obtain r where r: "admitsTargetCatalog c" "find (\<lambda>r. gr_from r = capture \<and> gr_control r = control \<and> updateTargetProtocol = target) (tc_routes c) = Some r"
    "found = find (\<lambda>b. rb_version b = gr_version r) (tc_bundles c)"
    using assms by (auto simp: selectTargetReleaseBundle_def success_simps)
  moreover obtain b where "find (\<lambda>b. rb_version b = gr_version r) (tc_bundles c) = Some b" "b \<in> set (tc_bundles c)"
      "rb_version b = gr_version r" "servesTarget b r"
    using wellRouted_route[of rb_version targetRouteKey gr_version servesTarget "tc_bundles c" "tc_routes c" r] r(1) find_Some_in[OF r(2)]
    by (auto simp: admitsTargetCatalog_def)
  ultimately show ?thesis using find_Some_in[OF r(2)] by auto
qed

lemma select_target_route:
  assumes "admitsTargetCatalog c" "r \<in> set (tc_routes c)"
  shows "\<exists>b. selectTargetReleaseBundle c (gr_from r) (gr_control r) updateTargetProtocol = Inr (Some b) \<and>
    rb_version b = gr_version r \<and> servesTarget b r"
proof -
  have "find (\<lambda>s. gr_from s = gr_from r \<and> gr_control s = gr_control r \<and> updateTargetProtocol = updateTargetProtocol) (tc_routes c) = Some r"
    using assms by (intro find_only_key[where key = targetRouteKey]) (auto simp: admitsTargetCatalog_def wellRouted_def targetRouteKey_eq)
  moreover obtain b where "find (\<lambda>b. rb_version b = gr_version r) (tc_bundles c) = Some b" "rb_version b = gr_version r" "servesTarget b r"
    using wellRouted_route[of rb_version targetRouteKey gr_version servesTarget "tc_bundles c" "tc_routes c" r] assms
    by (auto simp: admitsTargetCatalog_def)
  ultimately show ?thesis using assms(1) by (simp add: selectTargetReleaseBundle_def checkedRelease_def)
qed

definition emptyTargets :: target_catalog where
  "emptyTargets = \<lparr>tc_revision = 0, tc_bundles = [], tc_routes = []\<rparr>"

lemma targetRoutes_admitted: "admitsTarget b \<Longrightarrow> list_all admitsTargetRoute (targetRoutes b)"
  by (auto simp: targetRoutes_def list_all_iff admitsTargetRoute_def admitsTarget_def sourceContracts_def admitsBundle_def
      release_bundle.truncate_def)

lemma merge_target_Inr:
  assumes "mergeTargetReleaseBundle previous b = Inr c'"
  defines "c \<equiv> (case previous of None \<Rightarrow> emptyTargets | Some p \<Rightarrow> p)"
  shows "admitsTarget b \<and> admitsTargetCatalog c' \<and> list_all admitsTargetRoute (tc_routes c) \<and> distinct (map targetRouteKey (tc_routes c)) \<and>
    immutableE targetReleaseBundleFingerprint (find (\<lambda>x. rb_version x = rb_version b) (tc_bundles c)) b = Inr () \<and>
    (\<exists>changed. foldl (upsertRoute targetRouteKey gr_version) (tc_routes c, False) (targetRoutes b) = (tc_routes c', changed) \<and>
      (if changed then tc_revision c' = tc_revision c + 1 \<and> tc_bundles c' = retainRouted rb_version gr_version b (tc_bundles c) (tc_routes c')
       else c' = c))"
proof -
  obtain routes changed where loop: "foldl (upsertRoute targetRouteKey gr_version) (tc_routes c, False) (targetRoutes b) = (routes, changed)"
    by fastforce
  have c: "(case previous of None \<Rightarrow> Inr \<lparr>tc_revision = 0, tc_bundles = [], tc_routes = []\<rparr>
      | Some p \<Rightarrow> checkedRelease admitsTargetCatalog p) = Inr c \<and> list_all admitsTargetRoute (tc_routes c) \<and>
      distinct (map targetRouteKey (tc_routes c)) \<and> admitsTarget b"
    using assms(1) unfolding c_def mergeTargetReleaseBundle_def
    by (cases previous) (auto simp: success_simps emptyTargets_def admitsTargetCatalog_def wellRouted_def)
  then have "changed \<or> routes = tc_routes c"
    using target_table.upserts_table[OF _ targetRoutes_admitted _ loop] by blast
  then show ?thesis
    using assms(1) loop c unfolding mergeTargetReleaseBundle_def
    by (cases changed) (auto simp: success_simps simp del: foldl.simps)
qed

lemma target_fingerprint_total: "admitsTarget b \<Longrightarrow> \<exists>f. targetReleaseBundleFingerprint b = Inr f"
  by (simp add: targetReleaseBundleFingerprint_def checkedRelease_def releaseBundleFingerprint_def parseRelease_def bundleText_def
      parseJson_stringify admitsTarget_def)

lemma immutable_self: "fingerprint b = Inr f \<Longrightarrow> immutableE fingerprint (Some b) b = Inr ()"
  by (simp add: immutableE_def)

lemma retain_same_version:
  "find (\<lambda>x. bversion x = bversion b) (retainRouted bversion version b bundles routes) \<in> {None, Some b}"
proof (cases "find (\<lambda>x. bversion x = bversion b) (retainRouted bversion version b bundles routes)")
  case (Some x)
  then show ?thesis using find_Some_in[OF Some] by (auto simp: retainRouted_def split: if_splits)
qed simp

lemma target_routes_table:
  assumes "mergeTargetReleaseBundle previous b = Inr c'"
  defines "c \<equiv> (case previous of None \<Rightarrow> emptyTargets | Some p \<Rightarrow> p)"
  shows "dominates targetRouteKey gr_version (tc_routes c) (tc_routes c') \<and> dominates targetRouteKey gr_version (targetRoutes b) (tc_routes c')"
proof -
  note m = merge_target_Inr[OF assms(1), folded c_def]
  have new: "list_all admitsTargetRoute (targetRoutes b)" using m targetRoutes_admitted by blast
  show ?thesis using target_table.upserts_table[OF _ new] m by blast
qed

text \<open>C38: A merge into the target catalog never takes an update path away: whatever a client could select before, it can
  still select, for the same source contract and control protocol, in a version that is not older.\<close>
theorem target_updates_never_regress:
  assumes "mergeTargetReleaseBundle (Some c) b = Inr c'" "selectTargetReleaseBundle c capture control target = Inr found"
  shows "\<exists>x y. found = Some x \<and> selectTargetReleaseBundle c' capture control target = Inr (Some y) \<and>
    noOlder (rb_version x) (rb_version y) \<and> capture \<in> set (tg_from y) \<and> rb_control y = control"
proof -
  obtain r x where r: "r \<in> set (tc_routes c)" "gr_from r = capture" "gr_control r = control" "found = Some x" "rb_version x = gr_version r"
    "target = updateTargetProtocol"
    using select_target_Inr[OF assms(2)] by blast
  obtain s where s: "s \<in> set (tc_routes c')" "targetRouteKey s = targetRouteKey r" "noOlder (gr_version r) (gr_version s)"
    using target_routes_table[OF assms(1)] r(1) by (auto simp: dominates_def)
  have "admitsTargetCatalog c'" using merge_target_Inr[OF assms(1)] by blast
  from select_target_route[OF this s(1)] show ?thesis using r s by (auto simp: targetRouteKey_eq servesTarget_def)
qed

text \<open>A merged target bundle is available at once: every source contract it names selects a version that is not
  older than the bundle, and merging the same bundle again changes nothing.\<close>
lemma target_merge_publishes:
  assumes "mergeTargetReleaseBundle previous b = Inr c'" "capture \<in> set (tg_from b)"
  shows "\<exists>y. selectTargetReleaseBundle c' capture (rb_control b) updateTargetProtocol = Inr (Some y) \<and>
    noOlder (rb_version b) (rb_version y) \<and> mergeTargetReleaseBundle (Some c') b = Inr c'"
proof -
  define c where "c = (case previous of None \<Rightarrow> emptyTargets | Some p \<Rightarrow> p)"
  note m = merge_target_Inr[OF assms(1), folded c_def]
  note t = target_routes_table[OF assms(1), folded c_def]
  have "\<lparr>gr_from = capture, gr_control = rb_control b, gr_version = rb_version b\<rparr> \<in> set (targetRoutes b)"
    using assms(2) by (auto simp: targetRoutes_def)
  then obtain s where s: "s \<in> set (tc_routes c')" "gr_from s = capture" "gr_control s = rb_control b" "noOlder (rb_version b) (gr_version s)"
    using t by (force simp: dominates_def targetRouteKey_eq)
  have new: "list_all admitsTargetRoute (targetRoutes b)" using m targetRoutes_admitted by blast
  have "foldl (upsertRoute targetRouteKey gr_version) (tc_routes c', False) (targetRoutes b) = (tc_routes c', False)"
    using target_table.upserts_dominated[OF _ new] m t by (simp add: admitsTargetCatalog_def wellRouted_def)
  moreover have "immutableE targetReleaseBundleFingerprint (find (\<lambda>x. rb_version x = rb_version b) (tc_bundles c')) b = Inr ()"
  proof (cases "c' = c")
    case False
    then have "tc_bundles c' = retainRouted rb_version gr_version b (tc_bundles c) (tc_routes c')" using m by (auto split: if_splits)
    then consider "find (\<lambda>x. rb_version x = rb_version b) (tc_bundles c') = None"
      | "find (\<lambda>x. rb_version x = rb_version b) (tc_bundles c') = Some b"
      using retain_same_version[of rb_version b gr_version "tc_bundles c" "tc_routes c'"] by auto
    moreover obtain f where "targetReleaseBundleFingerprint b = Inr f" using target_fingerprint_total m by blast
    ultimately show ?thesis by cases (simp_all add: immutableE_def)
  qed (use m in simp)
  ultimately have "mergeTargetReleaseBundle (Some c') b = Inr c'"
    using m by (simp add: mergeTargetReleaseBundle_def checkedRelease_def)
  then show ?thesis using select_target_route[OF _ s(1)] m s by auto
qed

section \<open>Migration selection\<close>

text \<open>A migration selection returns a bundle of the catalog that serves the requested source contract and control
  protocol under a plan the client supports, and no newer version of the catalog is reachable by any such plan.\<close>
lemma migration_selects_newest:
  assumes "selectMigrationReleaseBundle catalog capture control plans = Inr found"
  shows "\<exists>b. found = Some b \<and> b \<in> set (mc_bundles catalog) \<and> capture \<in> set (mg_from b) \<and> rb_control b = control \<and>
    (mg_protocol b, mg_id b) \<in> set plans \<and>
    list_all (\<lambda>r. if mr_from r = capture \<and> mr_control r = control \<and> (mr_protocol r, mr_id r) \<in> set plans
      then noOlder (mr_version r) (rb_version b) else True) (mc_routes catalog)"
proof -
  define routes where "routes = filter (\<lambda>r. mr_from r = capture \<and> mr_control r = control \<and>
    list_ex (\<lambda>p. fst p = mr_protocol r \<and> snd p = mr_id r) plans) (mc_routes catalog)"
  define cmp where "cmp = (\<lambda>(a :: migration_route) (b :: migration_route). compareVersion (mr_version b) (mr_version a))"
  obtain r rs where r: "sortBy cmp routes = r # rs" "found = find (\<lambda>b. rb_version b = mr_version r) (mc_bundles catalog)" "admitsMigrationCatalog catalog"
    using assms by (auto simp: selectMigrationReleaseBundle_def routes_def cmp_def success_simps split: list.splits)
  have plan: "list_ex (\<lambda>p. fst p = a \<and> snd p = i) plans \<longleftrightarrow> (a, i) \<in> set plans" for a i
    by (force simp: list_ex_iff)
  have "r \<in> set (sortBy cmp routes)" using r(1) by simp
  then have "r \<in> set routes" by (simp only: set_sortBy)
  then have route: "r \<in> set (mc_routes catalog)" "mr_from r = capture" "mr_control r = control" "(mr_protocol r, mr_id r) \<in> set plans"
    by (auto simp: routes_def plan)
  have stable: "stableVersion (mr_version q)" if "q \<in> set routes" for q
    using that r(3) by (auto simp: routes_def admitsMigrationCatalog_def admitsMigrationRoute_def list_all_iff)
  have newest: "noOlder (mr_version q) (mr_version r)" if "q \<in> set routes" for q
  proof -
    have total: "cmp a b \<le> 0 \<or> cmp b a \<le> 0" if "a \<in> set routes" "b \<in> set routes" for a b
      using noOlder_total[OF stable[OF that(1)] stable[OF that(2)]] by (auto simp: cmp_def noOlder_def)
    have trans: "cmp a c \<le> 0" if "a \<in> set routes" "b \<in> set routes" "c \<in> set routes" "cmp a b \<le> 0" "cmp b c \<le> 0" for a b c
      using noOlder_trans[OF stable[OF that(3)] stable[OF that(2)] stable[OF that(1)]] that by (simp add: cmp_def noOlder_def)
    have "cmp (hd (sortBy cmp routes)) q \<le> 0" 
      by (rule hd_sortBy_least[of "set routes" cmp]) (use total trans that in blast)+
    then show ?thesis using r(1) by (simp add: cmp_def noOlder_def)
  qed
  obtain b where b: "find (\<lambda>b. rb_version b = mr_version r) (mc_bundles catalog) = Some b" "b \<in> set (mc_bundles catalog)"
    "rb_version b = mr_version r" "servesMigration b r"
    using wellRouted_route[of rb_version routeKey mr_version servesMigration "mc_bundles catalog" "mc_routes catalog" r] r(3) route(1)
    by (auto simp: admitsMigrationCatalog_def)
  show ?thesis using r(2) b route newest
    by (auto simp: servesMigration_def list_all_iff routes_def plan intro!: exI[of _ b])
qed

section \<open>The first catalog\<close>

lemma pairOf_select: "stringify (JArr [JStr capture, JStr control]) = pairOf b \<longleftrightarrow> rb_capture b = capture \<and> rb_control b = control"
  unfolding pairOf_def stringify_inject by auto

lemma select_release_Inr:
  "selectReleaseBundle c capture control = Inr b \<longleftrightarrow> admitsCatalog c \<and> b \<in> set (rc_bundles c) \<and> rb_capture b = capture \<and> rb_control b = control"
proof -
  have "find (\<lambda>x. pairOf x = stringify (JArr [JStr capture, JStr control])) (rc_bundles c) = Some b \<longleftrightarrow>
      b \<in> set (rc_bundles c) \<and> rb_capture b = capture \<and> rb_control b = control" if "admitsCatalog c"
  proof
    assume "b \<in> set (rc_bundles c) \<and> rb_capture b = capture \<and> rb_control b = control"
    then show "find (\<lambda>x. pairOf x = stringify (JArr [JStr capture, JStr control])) (rc_bundles c) = Some b"
      using that by (intro find_only_key[where key = pairOf]) (auto simp: admitsCatalog_def pairOf_def simp del: stringify.simps)
  next
    assume "find (\<lambda>x. pairOf x = stringify (JArr [JStr capture, JStr control])) (rc_bundles c) = Some b"
    from find_Some_in[OF this] show "b \<in> set (rc_bundles c) \<and> rb_capture b = capture \<and> rb_control b = control"
      unfolding pairOf_def stringify_inject by simp
  qed
  then show ?thesis by (auto simp: selectReleaseBundle_def success_simps)
qed

lemma merge_release_cases:
  assumes "mergeReleaseBundle (Some c) b = Inr c'"
  obtains (old) x where "c' = c" "x \<in> set (rc_bundles c)" "pairOf x = pairOf b" "noOlder (rb_version b) (rb_version x)"
  | (new) "rc_revision c' = rc_revision c + 1" "rc_bundles c' = filter (\<lambda>x. pairOf x \<noteq> pairOf b) (rc_bundles c) @ [b]"
    "\<And>x. x \<in> set (rc_bundles c) \<Longrightarrow> pairOf x = pairOf b \<Longrightarrow> noOlder (rb_version x) (rb_version b)"
proof -
  have adm: "admitsBundle b" "admitsCatalog c" using assms by (auto simp: mergeReleaseBundle_def success_simps Let_def)
  show ?thesis
  proof (cases "find (\<lambda>x. pairOf x = pairOf b) (rc_bundles c)")
    case None
    then have "rc_revision c' = rc_revision c + 1" "rc_bundles c' = filter (\<lambda>x. pairOf x \<noteq> pairOf b) (rc_bundles c) @ [b]"
      using assms by (auto simp: mergeReleaseBundle_def success_simps)
    moreover have "pairOf x \<noteq> pairOf b" if "x \<in> set (rc_bundles c)" for x using None that by (auto simp: find_None_iff)
    ultimately show ?thesis using new by blast
  next
    case (Some x)
    then have x: "x \<in> set (rc_bundles c)" "pairOf x = pairOf b" using find_Some_in[OF Some] by auto
    then have stable: "stableVersion (rb_version x)" "stableVersion (rb_version b)"
      using adm by (auto simp: admitsCatalog_def admitsBundle_def list_all_iff)
    show ?thesis
    proof (cases "compareVersion (rb_version b) (rb_version x) \<le> 0")
      case True
      then have "c' = c" using assms Some by (auto simp: mergeReleaseBundle_def success_simps Let_def split: if_splits)
      with x True old show ?thesis by (simp add: noOlder_def)
    next
      case False
      then have older: "noOlder (rb_version x) (rb_version b)" using noOlder_total[OF stable(2,1)] by (simp add: noOlder_def)
      have "y = x" if "y \<in> set (rc_bundles c)" "pairOf y = pairOf b" for y
        using that x adm(2) inj_onD[of pairOf "set (rc_bundles c)" y x] by (simp add: admitsCatalog_def distinct_map)
      then show ?thesis using assms Some False older
        by (intro new) (auto simp: mergeReleaseBundle_def success_simps Let_def split: if_splits)
    qed
  qed
qed

text \<open>Merging a bundle into the first catalog never takes a pair of contracts away nor moves it to an older version,
  leaves the merged bundle's own pair at that version or a newer one, and is idempotent.\<close>
lemma release_merge_advances:
  assumes "mergeReleaseBundle (Some c) b = Inr c'" "selectReleaseBundle c capture control = Inr x"
  shows "\<exists>y z. selectReleaseBundle c' capture control = Inr y \<and> noOlder (rb_version x) (rb_version y) \<and>
    selectReleaseBundle c' (rb_capture b) (rb_control b) = Inr z \<and> noOlder (rb_version b) (rb_version z) \<and>
    mergeReleaseBundle (Some c') b = Inr c'"
proof -
  have adm: "admitsBundle b" "admitsCatalog c'"
    using assms(1) by (auto simp: mergeReleaseBundle_def success_simps Let_def split: option.splits if_splits)
  have x: "x \<in> set (rc_bundles c)" "rb_capture x = capture" "rb_control x = control"
    using assms(2) by (simp_all add: select_release_Inr)
  have pair: "pairOf u = pairOf v \<longleftrightarrow> rb_capture u = rb_capture v \<and> rb_control u = rb_control v" for u v
    using pairOf_select[of "rb_capture u" "rb_control u" v] by (auto simp: pairOf_def)
  show ?thesis using assms(1)
  proof (cases rule: merge_release_cases)
    case (old z)
    then show ?thesis using assms x adm by (intro exI[of _ x] exI[of _ z]) (simp add: noOlder_refl select_release_Inr pair)
  next
    case new
    have "find (\<lambda>y. pairOf y = pairOf b) (rc_bundles c') = Some b"
      using adm(2) new(2) by (intro find_only_key[where key = pairOf]) (auto simp: admitsCatalog_def)
    then have again: "mergeReleaseBundle (Some c') b = Inr c'"
      using adm noOlder_refl[of "rb_version b"] compareVersion_order[of "rb_version b" "rb_version b"]
      by (simp add: mergeReleaseBundle_def checkedRelease_def releaseBundleFingerprint_def admitsBundle_def)
    have "selectReleaseBundle c' (rb_capture b) (rb_control b) = Inr b" using adm(2) new(2) by (simp add: select_release_Inr)
    moreover have "\<exists>y. selectReleaseBundle c' capture control = Inr y \<and> noOlder (rb_version x) (rb_version y)"
    proof (cases "pairOf x = pairOf b")
      case True
      then show ?thesis using x new adm(2) by (intro exI[of _ b]) (auto simp: select_release_Inr pair)
    next
      case False
      then show ?thesis using x new adm(2) by (intro exI[of _ x]) (auto simp: select_release_Inr noOlder_refl)
    qed
    ultimately show ?thesis using again noOlder_refl by blast
  qed
qed

end
