(* ===== verification/ReleaseText.thy ===== *)
theory ReleaseText
  imports ReleaseOrder
begin

text \<open>Release descriptors as text: the fingerprint identifies a descriptor up to the order of its lists, and a
  bundle read from a release body is the one its section was written for.\<close>

section \<open>Fingerprints of every kind\<close>

lemma utf16Order_inject: "utf16Order s = utf16Order t \<longleftrightarrow> s = t"
proof -
  define f :: "nat \<Rightarrow> nat" where "f n = (if 0xF0 \<le> n \<and> n \<le> 0xF4 then n - 2 else if 0xEE \<le> n \<and> n < 0xF0 then n + 5 else n)" for n
  have f: "f m = f n \<Longrightarrow> m = n" for m n by (auto simp: f_def split: if_splits)
  have "utf16Order u = map (f \<circ> code) u" for u by (simp add: utf16Order_def f_def Let_def comp_def)
  moreover have "inj (f \<circ> code)" by (rule injI) (metis comp_apply f code_inject)
  ultimately show ?thesis by (simp add: inj_map_eq_map)
qed

lemma contracts_sorted: "distinct xs \<Longrightarrow> sort_key utf16Order xs = sort_key utf16Order ys \<longleftrightarrow> mset xs = mset ys"
  by (rule sort_key_mset) (simp add: distinct_map inj_on_def utf16Order_inject)

definition sortedMigration :: "migration_bundle \<Rightarrow> migration_bundle" where
  "sortedMigration m = m\<lparr>rb_packages := sort_key rp_name (rb_packages m), mg_from := sort_key utf16Order (mg_from m)\<rparr>"

definition sortedTarget :: "target_bundle \<Rightarrow> target_bundle" where
  "sortedTarget t = t\<lparr>rb_packages := sort_key rp_name (rb_packages t), tg_from := sort_key utf16Order (tg_from t)\<rparr>"

lemma map_filter_all [simp]: "List.map_filter (\<lambda>(k, v). map_option (Pair k) v) [] = []"
  "List.map_filter (\<lambda>(k, v). map_option (Pair k) v) ((k, Some w) # ms) = (k, w) # List.map_filter (\<lambda>(k, v). map_option (Pair k) v) ms"
  by (simp_all add: List.map_filter_simps)

lemma migration_text:
  "admitsMigration m \<Longrightarrow> migrationReleaseBundleFingerprint m = Inr (stringify (migrationBundleJson (sortedMigration m)))"
  by (simp add: migrationReleaseBundleFingerprint_def checkedRelease_def releaseBundleFingerprint_def admitsMigration_def parseRelease_def
      bundleText_def parseJson_stringify del: stringify.simps)
    (simp add: spread_def bundleJson_def migrationBundleJson_def sortedMigration_def obj_def contractsJson_def release_bundle.truncate_def)

lemma target_text:
  "admitsTarget t \<Longrightarrow> targetReleaseBundleFingerprint t = Inr (stringify (targetBundleJson (sortedTarget t)))"
  by (simp add: targetReleaseBundleFingerprint_def checkedRelease_def releaseBundleFingerprint_def admitsTarget_def parseRelease_def
      bundleText_def parseJson_stringify del: stringify.simps)
    (simp add: spread_def bundleJson_def targetBundleJson_def sortedTarget_def obj_def contractsJson_def release_bundle.truncate_def)

fun admitsManaged :: "managed_bundle \<Rightarrow> bool" where
  "admitsManaged (ManagedRelease b) = admitsBundle b"
| "admitsManaged (ManagedMigration m) = admitsMigration m"
| "admitsManaged (ManagedTarget t) = admitsTarget t"

text \<open>Equal up to the order of packages and of source contracts.\<close>

fun sameManaged :: "managed_bundle \<Rightarrow> managed_bundle \<Rightarrow> bool" where
  "sameManaged (ManagedRelease b) (ManagedRelease c) = sameBundle b c"
| "sameManaged (ManagedMigration m) (ManagedMigration n) = (sameBundle (release_bundle.truncate m) (release_bundle.truncate n) \<and>
     mg_protocol m = mg_protocol n \<and> mg_id m = mg_id n \<and> mset (mg_from m) = mset (mg_from n))"
| "sameManaged (ManagedTarget t) (ManagedTarget u) = (sameBundle (release_bundle.truncate t) (release_bundle.truncate u) \<and>
     mset (tg_from t) = mset (tg_from u))"
| "sameManaged _ _ = False"

definition managedText :: "managed_bundle \<Rightarrow> json" where
  "managedText v = (case v of
       ManagedRelease b \<Rightarrow> bundleJson (b\<lparr>rb_packages := sort_key rp_name (rb_packages b)\<rparr>)
     | ManagedMigration m \<Rightarrow> migrationBundleJson (sortedMigration m)
     | ManagedTarget t \<Rightarrow> targetBundleJson (sortedTarget t))"

lemma managed_text:
  "managedReleaseBundleFingerprint v = Inr f \<longleftrightarrow> admitsManaged v \<and> f = stringify (managedText v)"
proof (cases v)
  case (ManagedMigration m)
  have "\<not> admitsMigration m \<Longrightarrow> migrationReleaseBundleFingerprint m = Inl InvalidRelease"
    by (simp add: migrationReleaseBundleFingerprint_def checkedRelease_def)
  with ManagedMigration migration_text[of m] show ?thesis
    by (cases "admitsMigration m") (auto simp: managedReleaseBundleFingerprint_def managedText_def simp del: stringify.simps)
next
  case (ManagedTarget t)
  have "\<not> admitsTarget t \<Longrightarrow> targetReleaseBundleFingerprint t = Inl InvalidRelease"
    by (simp add: targetReleaseBundleFingerprint_def checkedRelease_def)
  with ManagedTarget target_text[of t] show ?thesis
    by (cases "admitsTarget t") (auto simp: managedReleaseBundleFingerprint_def managedText_def simp del: stringify.simps)
qed (simp add: managedReleaseBundleFingerprint_def managedText_def fingerprint_Inr bundleText_def)

lemma packages_inject: "arrayJson packageJson xs = arrayJson packageJson ys \<longleftrightarrow> xs = ys"
  by (simp add: arrayJson_def inj_map_eq_map inj_def packageJson_inject)

lemma managedText_inject:
  assumes "admitsManaged v" "admitsManaged w"
  shows "managedText v = managedText w \<longleftrightarrow> sameManaged v w"
proof -
  have packages: "sort_key rp_name (rb_packages b) = sort_key rp_name ps \<longleftrightarrow> mset (rb_packages b) = mset ps"
    if "admitsBundle (release_bundle.truncate b)" for b :: "'a release_bundle_scheme" and ps
    using that by (intro sort_key_mset) (simp add: admitsBundle_def release_bundle.truncate_def)
  show ?thesis
    using assms
    by (cases v; cases w)
      (auto simp: managedText_def bundleJson_def migrationBundleJson_def targetBundleJson_def sortedMigration_def sortedTarget_def obj_def
        packages_inject jsonArray_inject releaseBundleProtocol_def migrationReleaseBundleProtocol_def targetReleaseBundleProtocol_def
        sameBundle_def release_bundle.truncate_def contracts_sorted admitsMigration_def admitsTarget_def sourceContracts_def admitsBundle_def
        sort_key_mset)
qed

text \<open>C39: Two release descriptors have the same fingerprint exactly when they are admitted, of the same kind and equal up to the
  order of their packages and source contracts.\<close>
theorem fingerprint_identity:
  "(\<exists>f. managedReleaseBundleFingerprint v = Inr f \<and> managedReleaseBundleFingerprint w = Inr f) =
   (admitsManaged v \<and> admitsManaged w \<and> sameManaged v w)"
  unfolding managed_text using managedText_inject[of v w] by (auto simp del: stringify.simps)

section \<open>Reading indented JSON\<close>

fun plainJson :: "json \<Rightarrow> bool" where
  "plainJson (JArr xs) = list_all plainJson xs"
| "plainJson (JObj ms) = list_all (\<lambda>m. plainJson (snd m)) ms"
| "plainJson (JNum _ _) = False"
| "plainJson _ = True"

lemma parseValue_skip: "code c \<in> {9, 10, 13, 32} \<Longrightarrow> parseValue n (c # s) = parseValue n s"
  by (cases n) simp_all

lemma code_blank [simp]: "code (CHR '' '') = 32" "code (CHR 0x0A) = 10"
  by (simp_all add: code_def)

lemma skipWs_blanks: "skipWs (replicate k (CHR '' '') @ s) = skipWs s"
  by (induction k) simp_all

lemma skipWs_newline [simp]: "skipWs (newline d @ s) = skipWs s"
  by (simp add: newline_def skipWs_blanks)

lemma parseValue_blanks: "parseValue n (replicate k (CHR '' '') @ s) = parseValue n s"
  by (induction k) (simp_all add: parseValue_skip)

lemma parseValue_newline [simp]: "parseValue n (newline d @ s) = parseValue n s"
  by (simp add: newline_def parseValue_skip parseValue_blanks)

lemma pretty_start: "valueStart (pretty d v @ r)"
  using stringify_start[of v r] by (cases v) (auto simp: valueStart_def code_def simp del: stringify.simps(1-4))

lemma parse_pretty:
  "plainJson v \<Longrightarrow> fuelNeeded v \<le> n \<Longrightarrow> parseValue n (pretty d v @ r) = Some (v, r)"
  "xs \<noteq> [] \<Longrightarrow> list_all plainJson xs \<Longrightarrow> fuelItems xs \<le> n \<Longrightarrow> skipWs s = CHR '']'' # r \<Longrightarrow>
     parseItems n (prettyItems d xs @ s) = Some (xs, r)"
  "ms \<noteq> [] \<Longrightarrow> list_all (\<lambda>m. plainJson (snd m)) ms \<Longrightarrow> fuelMembers ms \<le> n \<Longrightarrow> skipWs s = CHR ''}'' # r \<Longrightarrow>
     parseMembers n (prettyMembers d ms @ s) = Some (ms, r)"
proof (induction d v and d xs and d ms arbitrary: n r and n s r and n s r rule: pretty_prettyItems_prettyMembers.induct)
  case (1 d xs)
  then obtain k where n: "n = Suc k" by (cases n) auto
  show ?case
  proof (cases xs)
    case (Cons x ys)
    let ?rest = "(if ys = [] then [] else CHR '','' # prettyItems (Suc d) ys) @ newline d @ CHR '']'' # r"
    have "valueStart (pretty (Suc d) x @ ?rest)" by (rule pretty_start)
    then obtain c t where "pretty (Suc d) x @ ?rest = c # t" "skipWs (c # t) = c # t" "c \<noteq> CHR '']''"
      using skipWs_start by (cases "pretty (Suc d) x @ ?rest") (auto simp: valueStart_def)
    then have start: "skipWs (prettyItems (Suc d) xs @ newline d @ CHR '']'' # r) = c # t" "c \<noteq> CHR '']''"
      using Cons by simp_all
    have "parseItems k (prettyItems (Suc d) xs @ newline d @ CHR '']'' # r) = Some (xs, r)"
      using 1(1)[of k "newline d @ CHR '']'' # r" r] 1(2,3) n Cons by simp
    with start n Cons show ?thesis by simp
  qed (simp add: n)
next
  case (2 d ms)
  then obtain k where n: "n = Suc k" by (cases n) auto
  show ?case
  proof (cases ms)
    case (Cons m ns)
    obtain t where start: "skipWs (prettyMembers (Suc d) ms @ newline d @ CHR ''}'' # r) = CHR 0x22 # t"
      using Cons by (cases m) (simp add: showString_def)
    have "parseMembers k (prettyMembers (Suc d) ms @ newline d @ CHR ''}'' # r) = Some (ms, r)"
      using 2(1)[of k "newline d @ CHR ''}'' # r" r] 2(2,3) n Cons by simp
    with start n Cons show ?thesis by simp
  qed (simp add: n)
next
  case (3 d s)
  then show ?case by (cases n) (auto simp: showString_def parseString_shown)
next
  case (5 d b)
  then show ?case by (cases n) (auto simp: literal_def code_def startsWith_def)
next
  case (6 d)
  then show ?case by (cases n) (auto simp: literal_def code_def startsWith_def)
next
  case (8 d x xs)
  then obtain k where n: "n = Suc k" "fuelNeeded x \<le> k" "fuelItems xs \<le> k" by (cases n) auto
  show ?case
  proof (cases "xs = []")
    case True
    then show ?thesis using 8(1)[OF _ n(2), of s] 8(4,6) n by simp
  next
    case False
    then show ?thesis
      using 8(1)[OF _ n(2), of "CHR '','' # prettyItems d xs @ s"] 8(2)[OF False False _ n(3) 8(6)] 8(4) n by simp
  qed
next
  case (10 d k v ms)
  then obtain f where n: "n = Suc f" "fuelNeeded v \<le> f" "fuelMembers ms \<le> f" by (cases n) auto
  show ?case
  proof (cases "ms = []")
    case True
    then show ?thesis using 10(1)[OF _ n(2), of s] 10(4,6) n by (simp add: showString_def parseString_shown parseValue_skip)
  next
    case False
    then show ?thesis
      using 10(1)[OF _ n(2), of "CHR '','' # prettyMembers d ms @ s"] 10(2)[OF False False _ n(3) 10(6)] 10(4) n
      by (simp add: showString_def parseString_shown parseValue_skip)
  qed
qed simp_all

end
