(* ===== verification/ReleaseSection.thy ===== *)
theory ReleaseSection
  imports ReleaseText
begin

text \<open>The section of a release body: what is written for a bundle between other notes is read back.\<close>

section \<open>Searching past text without an opening angle\<close>

abbreviation angle :: char where
  "angle \<equiv> CHR ''<''"

lemma startsWith_angle: "angle \<noteq> c \<Longrightarrow> \<not> startsWith (angle # p) (c # s)"
  by (simp add: startsWith_def)

lemma occurrences_skip: "angle \<notin> set u \<Longrightarrow> occurrences (angle # p) (u @ v) = occurrences (angle # p) v"
  by (induction u) (auto simp: occurrences_def startsWith_angle)

lemma occurrences_none: "angle \<notin> set u \<Longrightarrow> occurrences (angle # p) u = 0"
  using occurrences_skip[of u p "[]"] by (simp add: occurrences_def startsWith_def)

lemma occurrences_cons:
  "occurrences (angle # p) (angle # v) = (if startsWith p v then 1 else 0) + occurrences (angle # p) v"
  by (simp add: occurrences_def startsWith_def)

lemma indexOf_skip: "angle \<notin> set u \<Longrightarrow> indexOf (angle # p) (u @ v) = map_option ((+) (length u)) (indexOf (angle # p) v)"
proof (induction u)
  case Nil
  then show ?case by (cases "indexOf (angle # p) v") simp_all
next
  case (Cons c u)
  then show ?case by (cases "indexOf (angle # p) v") (auto simp: startsWith_angle)
qed

lemma afterMarker_skip: "angle \<noteq> c \<Longrightarrow> afterMarker ns (c # s) = None"
  by (simp add: afterMarker_def startsWith_def)

lemma markers_skip: "angle \<notin> set u \<Longrightarrow> markers ns (u @ v) = markers ns v"
  by (induction u) (auto simp: markers_def List.map_filter_simps afterMarker_skip)

lemma markers_none: "angle \<notin> set u \<Longrightarrow> markers ns u = []"
  using markers_skip[of u ns "[]"] by (simp add: markers_def List.map_filter_simps afterMarker_def startsWith_def)

lemma markers_cons: "markers ns (c # s) = (case afterMarker ns (c # s) of None \<Rightarrow> markers ns s | Some r \<Rightarrow> r # markers ns s)"
  by (simp add: markers_def List.map_filter_simps split: option.split)

section \<open>White space\<close>

lemma drop_prefixes_stop:
  assumes "list_all (\<lambda>p. p = [] \<or> hd p \<noteq> c) ps"
  shows "drop_prefixes ps (c # s) = c # s"
proof -
  have "find (\<lambda>p. p \<noteq> [] \<and> startsWith p (c # s)) ps = None"
    using assms by (auto simp: find_None_iff list_all_iff startsWith_iff Cons_eq_append_conv)
  then show ?thesis by (subst drop_prefixes.simps) simp
qed

lemma drop_prefixes_one:
  assumes "[c] \<in> set ps" "list_all (\<lambda>p. p = [] \<or> hd p \<noteq> c \<or> p = [c]) ps"
  shows "drop_prefixes ps (c # s) = drop_prefixes ps s"
proof -
  have "find (\<lambda>p. p \<noteq> [] \<and> startsWith p (c # s)) ps \<noteq> None"
    using assms(1) by (auto simp: find_None_iff startsWith_def intro!: bexI[of _ "[c]"])
  then obtain p where p: "find (\<lambda>p. p \<noteq> [] \<and> startsWith p (c # s)) ps = Some p" by blast
  from find_Some_in[OF this] have "p = [c]" using assms(2) by (auto simp: list_all_iff startsWith_iff Cons_eq_append_conv)
  then show ?thesis using p by (subst drop_prefixes.simps) simp
qed

lemma spaces_blank: "drop_prefixes js_spaces (CHR '' '' # s) = drop_prefixes js_spaces s"
  by (rule drop_prefixes_one; code_simp)

lemma spaces_line: "drop_prefixes js_spaces (CHR 0x0A # s) = drop_prefixes js_spaces s"
  "drop_prefixes (map rev js_spaces) (CHR 0x0A # s) = drop_prefixes (map rev js_spaces) s"
  by (rule drop_prefixes_one; code_simp)+

lemma spaces_stop: "drop_prefixes js_spaces (CHR ''a'' # s) = CHR ''a'' # s" "drop_prefixes js_spaces (CHR ''{'' # s) = CHR ''{'' # s"
  "drop_prefixes (map rev js_spaces) (CHR ''}'' # s) = CHR ''}'' # s"
  by (rule drop_prefixes_stop; code_simp)+

lemma trim_lines:
  assumes "t = CHR ''{'' # u @ ''}''"
  shows "js_trim (CHR 0x0A # t @ [CHR 0x0A]) = t"
  using assms by (simp add: js_trim_def spaces_line spaces_stop)

section \<open>The section\<close>

definition versioned :: "string \<Rightarrow> string" where
  "versioned ns = ns @ ''.v1''"

lemma section_after:
  assumes "ns = CHR ''a'' # r"
  shows "afterMarker ns (sectionStart (versioned ns) @ t) = Some (''v1:start -->'' @ t)"
    "afterMarker ns (sectionEnd (versioned ns) @ t) = Some (''v1:end -->'' @ t)"
proof -
  have "drop 4 (sectionStart (versioned ns) @ t) = CHR '' '' # ns @ ''.v1:start -->'' @ t" "startsWith ''<!--'' (sectionStart (versioned ns) @ t)"
    "drop 4 (sectionEnd (versioned ns) @ t) = CHR '' '' # ns @ ''.v1:end -->'' @ t" "startsWith ''<!--'' (sectionEnd (versioned ns) @ t)"
    by (simp_all add: sectionStart_def sectionEnd_def versioned_def startsWith_def)
  moreover have "drop_prefixes js_spaces (CHR '' '' # ns @ u) = ns @ u" for u
    using assms by (simp add: spaces_blank spaces_stop)
  ultimately show "afterMarker ns (sectionStart (versioned ns) @ t) = Some (''v1:start -->'' @ t)"
    "afterMarker ns (sectionEnd (versioned ns) @ t) = Some (''v1:end -->'' @ t)"
    by (simp_all add: afterMarker_def startsWith_def)
qed

lemma only_section:
  assumes "ns = CHR ''a'' # r" "angle \<notin> set ns" "angle \<notin> set pre" "angle \<notin> set post" "angle \<notin> set t" "t = CHR ''{'' # u @ ''}''"
  shows "onlySection ns (versioned ns) (pre @ sectionStart (versioned ns) @ ''\<newline>'' @ t @ ''\<newline>'' @ sectionEnd (versioned ns) @ post) = Inr (Some t)"
proof -
  define a where "a = ''!-- '' @ versioned ns @ '':start -->''"
  define e where "e = ''!-- '' @ versioned ns @ '':end -->''"
  have ends: "sectionStart (versioned ns) = angle # a" "sectionEnd (versioned ns) = angle # e"
    by (simp_all add: sectionStart_def sectionEnd_def a_def e_def)
  have clean: "angle \<notin> set a" "angle \<notin> set e" "angle \<notin> set ([CHR 0x0A] @ t @ [CHR 0x0A])"
    using assms(2,5) by (auto simp: a_def e_def versioned_def)
  have differ: "\<not> startsWith e (a @ w)" "\<not> startsWith a (e @ w)" for w
    by (simp_all add: a_def e_def startsWith_def)
  let ?mid = "[CHR 0x0A] @ t @ [CHR 0x0A]" let ?body = "pre @ (angle # a) @ ?mid @ (angle # e) @ post"
  have angles: "angle \<notin> set (a @ ?mid)" "angle \<notin> set (e @ post)" using clean assms(4) by simp_all
  have starts: "occurrences (angle # a) ?body = 1" "occurrences (angle # e) ?body = 1"
    using occurrences_skip[OF assms(3)] occurrences_skip[OF angles(1), of _ "angle # e @ post"] occurrences_none[OF angles(2)] differ
    by (simp_all add: occurrences_cons)
  have "afterMarker ns (angle # a @ w) = Some (''v1:start -->'' @ w)" "afterMarker ns (angle # e @ w) = Some (''v1:end -->'' @ w)" for w
    using section_after[OF assms(1), of w] by (simp_all add: ends)
  then have "markers ns ?body = [''v1:start -->'' @ ?mid @ (angle # e) @ post, ''v1:end -->'' @ post]"
    using markers_skip[OF assms(3), of ns] markers_skip[OF angles(1), of ns "angle # e @ post"] markers_none[OF angles(2), of ns]
    by (simp add: markers_cons)
  then have marks: "length (markers ns ?body) = 2" "list_all knownMarker (markers ns ?body)"
    by (simp_all add: knownMarker_def startsWith_def)
  have index: "indexOf (angle # a) ?body = Some (length pre)"
    "indexOf (angle # e) ?body = Some (length pre + Suc (length (a @ ?mid)))"
    using indexOf_skip[OF assms(3), of a] indexOf_skip[OF assms(3), of e] indexOf_skip[OF angles(1), of e "angle # e @ post"] differ
    by (simp_all add: startsWith_def)
  have "?body = (pre @ (angle # a) @ ?mid) @ (angle # e) @ post" by simp
  then have "take (length (pre @ (angle # a) @ ?mid)) ?body = (pre @ angle # a) @ ?mid" by (metis append_assoc append_eq_conv_conj)
  then have "drop (length (pre @ angle # a)) (take (length (pre @ (angle # a) @ ?mid)) ?body) = ?mid" by (metis append_eq_conv_conj)
  then have "sectionBody (versioned ns) ?body = Inr (js_trim ?mid)"
    using index by (simp add: sectionBody_def ends)
  then show ?thesis using starts marks trim_lines[OF assms(6)] by (simp add: onlySection_def ends Let_def)
qed

section \<open>Text without an opening angle\<close>

fun cleanJson :: "json \<Rightarrow> bool" where
  "cleanJson (JArr xs) = list_all cleanJson xs"
| "cleanJson (JObj ms) = list_all (\<lambda>m. angle \<notin> set (fst m) \<and> cleanJson (snd m)) ms"
| "cleanJson (JStr s) = (angle \<notin> set s)"
| "cleanJson (JNum _ _) = False"
| "cleanJson _ = True"

lemma clean_newline: "angle \<notin> set (newline d)"
  by (auto simp: newline_def)

lemma clean_showString: "angle \<in> set (showString s) \<longleftrightarrow> angle \<in> set s"
proof -
  have hex: "hexChar n \<noteq> angle" if "n < 16" for n
  proof
    assume "hexChar n = angle"
    then have "code (hexChar n) = 60" by (simp add: code_def)
    then show False using that by (auto simp: hexChar_def split: if_splits)
  qed
  have "hexChar (code c div 16) \<noteq> angle" "hexChar (code c mod 16) \<noteq> angle" for c
    by (rule hex, simp add: div_less_iff_less_mult, rule hex, simp)
  moreover have "code angle = 60" by (simp add: code_def)
  ultimately have "angle \<in> set (escapeChar c) \<longleftrightarrow> c = angle" for c
    by (cases "c = angle") (simp_all add: escapeChar_def eq_commute[of angle])
  then show ?thesis by (auto simp: showString_def)
qed

lemma clean_pretty:
  "cleanJson v \<Longrightarrow> angle \<notin> set (pretty d v)"
  "list_all cleanJson xs \<Longrightarrow> angle \<notin> set (prettyItems d xs)"
  "list_all (\<lambda>m. angle \<notin> set (fst m) \<and> cleanJson (snd m)) ms \<Longrightarrow> angle \<notin> set (prettyMembers d ms)"
  by (induction d v and d xs and d ms rule: pretty_prettyItems_prettyMembers.induct)
    (auto simp: clean_newline clean_showString)

lemma fuel_pretty:
  "fuelNeeded v \<le> 2 * length (pretty d v)"
  "fuelItems xs \<le> 2 * length (prettyItems d xs) + 1"
  "fuelMembers ms \<le> 2 * length (prettyMembers d ms) + 1"
proof (induction d v and d xs and d ms rule: pretty_prettyItems_prettyMembers.induct)
  case (4 d m e)
  show ?case using fuel_bound(1)[of "JNum m e"] by simp
qed (auto simp: showString_def newline_def)

lemma parseJson_pretty: "plainJson v \<Longrightarrow> parseJson (pretty 0 v) = Some v"
  using parse_pretty(1)[of v "Suc (2 * length (pretty 0 v))" 0 "[]"] fuel_pretty(1)[of v 0] by (simp add: parseJson_def)

lemma angle_code: "c = angle \<longleftrightarrow> code c = 60"
  using code_inject[of c angle] by (simp add: code_def del: code_inject)

lemma clean_version: "stableVersion v \<Longrightarrow> angle \<notin> set v"
proof -
  assume v: "stableVersion v"
  have "angle \<notin> set p" if p: "p \<in> set (splitOn CHR ''.'' v)" for p
  proof -
    have "\<not> isDigit angle" by (simp add: isDigit_def code_def)
    then show ?thesis using v p by (auto simp: stableVersion_def versionPart_def list_all_iff)
  qed
  moreover have "angle \<notin> set (joinWith ''.'' ps)" if "\<forall>p\<in>set ps. angle \<notin> set p" for ps
    using that by (induction "''.''" ps rule: joinWith.induct) auto
  ultimately show ?thesis using joinWith_splitOn[of "CHR ''.''" v] by metis
qed

lemma startsWith_take: "startsWith p s \<Longrightarrow> length p = n \<Longrightarrow> take n s = p"
  by (auto simp: startsWith_def)

lemma clean_name:
  assumes "packageName n"
  shows "angle \<notin> set n"
proof -
  have "take 7 n = ''@atape/''" 
    using assms startsWith_take[of "''@atape/''" n 7] by (simp add: packageName_def)
  then have "set n = set ''@atape/'' \<union> set (drop 7 n)" by (metis append_take_drop_id set_append)
  moreover have "angle \<notin> set (drop 7 n)"
  proof -
    obtain c s where cs: "drop 7 n = c # s" "nameStart c"
      "list_all (\<lambda>d. nameStart d \<or> d = CHR ''.'' \<or> d = CHR ''_'' \<or> d = CHR ''-'') s"
      using assms by (auto simp: packageName_def split: list.splits)
    have "\<not> nameStart angle" by (simp add: nameStart_def isDigit_def code_def)
    then show ?thesis using cs by (auto simp: list_all_iff)
  qed
  ultimately show ?thesis by simp
qed

lemma clean_integrity:
  assumes "integrityText v"
  shows "angle \<notin> set v"
proof -
  define w where "w = drop 7 v"
  have parts: "take 7 v = ''sha512-''" "list_all isBase64Char (take 85 w)" "drop 86 w = ''==''" "w ! 85 \<in> set ''AQgw''" "length w = 88"
    using assms startsWith_take[of "''sha512-''" v 7] by (simp_all add: integrityText_def w_def)
  have "drop 85 w = w ! 85 # drop 86 w" using Cons_nth_drop_Suc[of 85 w] parts(5) by simp
  then have "w = take 85 w @ w ! 85 # ''==''" by (metis append_take_drop_id parts(3))
  then have "set v = set ''sha512-'' \<union> (set (take 85 w) \<union> insert (w ! 85) (set ''==''))"
    by (metis append_take_drop_id parts(1) set_append list.simps(15) w_def)
  moreover have "angle \<notin> set (take 85 w)"
  proof -
    have "\<not> isBase64Char angle" by (simp add: isBase64Char_def isDigit_def code_def)
    then show ?thesis using parts(2) by (auto simp: list_all_iff)
  qed
  moreover have "w ! 85 \<noteq> angle" using parts(4) by auto
  ultimately show ?thesis by simp
qed

lemma clean_package:
  assumes "admitsPackage p" "rp_tarball p = tarballOf (rp_name p) v" "stableVersion v"
  shows "cleanJson (packageJson p) \<and> plainJson (packageJson p)"
proof -
  have "angle \<notin> set (drop 7 (rp_name p))" using clean_name assms(1) in_set_dropD by (fastforce simp: admitsPackage_def)
  then show ?thesis
    using assms clean_name clean_version clean_integrity
    by (auto simp: packageJson_def obj_def admitsPackage_def tarballOf_def)
qed

lemma clean_bundle:
  assumes "admitsBundle b" "angle \<notin> set (rb_capture b)" "angle \<notin> set (rb_control b)"
  shows "cleanJson (bundleJson b) \<and> plainJson (bundleJson b)"
  using assms clean_version clean_package
  by (auto simp: bundleJson_def obj_def arrayJson_def list_all_iff admitsBundle_def releaseBundleProtocol_def)


end
