(* ===== verification/ReleaseWitnesses.thy ===== *)
theory ReleaseWitnesses
  imports ReleaseProperties ReleaseSection
begin

text \<open>Two releases of the seven required packages, and catalogs that publish them.\<close>

definition demoIntegrity :: string where
  "demoIntegrity = ''sha512-'' @ replicate 86 (CHR ''A'') @ ''==''"

definition demoPackages :: "string \<Rightarrow> release_package list" where
  "demoPackages version = map (\<lambda>n. \<lparr>rp_name = n, rp_integrity = demoIntegrity,
     rp_tarball = tarballOf n version\<rparr>) requiredBundlePackages"

definition demoRelease :: "string \<Rightarrow> release_bundle" where
  "demoRelease version = \<lparr>rb_version = version, rb_capture = ''capture.v1'', rb_control = ''control.v1'', rb_packages = demoPackages version\<rparr>"

definition demoTarget :: "string \<Rightarrow> target_bundle" where
  "demoTarget version = release_bundle.extend (demoRelease version) \<lparr>tg_from = [''capture.v1'']\<rparr>"

definition demoMigration :: "string \<Rightarrow> migration_bundle" where
  "demoMigration version = release_bundle.extend (demoRelease version) \<lparr>mg_protocol = ''plan.v1'', mg_id = ''first'', mg_from = [''capture.v1'']\<rparr>"

lemma utf16_length_append [simp]: "utf16_length (s @ t) = utf16_length s + utf16_length t"
  by (simp add: utf16_length_def)

lemma demo_integrity: "integrityText demoIntegrity"
proof -
  have "isBase64Char CHR ''A''" by code_simp
  moreover have "(replicate 86 (CHR ''A'') @ ''=='') ! 85 = CHR ''A''" by (simp add: nth_append)
  ultimately show ?thesis by (simp add: integrityText_def demoIntegrity_def startsWith_def list_all_iff)
qed

lemma demo_names: "list_all (\<lambda>n. packageName n \<and> utf16_length n \<le> 30 \<and> utf16_length (drop 7 n) \<le> 30) requiredBundlePackages"
  by code_simp

lemma demo_admits:
  assumes "stableVersion v"
  shows "admitsBundle (demoRelease v)"
proof -
  have v: "utf16_length v < 40" using assms by (simp add: stableVersion_def)
  have parts: "utf16_length ''https://registry.npmjs.org/'' = 27" "utf16_length ''/-/'' = 3" "utf16_length ''-'' = 1" "utf16_length ''.tgz'' = 4"
    by code_simp+
  have "utf16_length (tarballOf n v) \<le> 2048" if "n \<in> set requiredBundlePackages" for n
    using that demo_names v by (simp only: tarballOf_def utf16_length_append parts) (auto simp: list_all_iff)
  then have "admitsPackage p" if "p \<in> set (demoPackages v)" for p
    using that demo_names by (auto simp: demoPackages_def admitsPackage_def demo_integrity list_all_iff)
  moreover have "opaqueProtocol ''capture.v1''" "opaqueProtocol ''control.v1''" by code_simp+
  moreover have "length requiredBundlePackages = 7" "distinct requiredBundlePackages" by code_simp+
  ultimately show ?thesis using assms by (auto simp: admitsBundle_def demoRelease_def list_all_iff demoPackages_def comp_def)
qed

lemma demo_versions: "stableVersion ''1.0.0''" "stableVersion ''1.1.0''" "compareVersion ''1.1.0'' ''1.0.0'' = 1"
  by code_simp+

lemma demo_managed:
  assumes "stableVersion v"
  shows "admitsTarget (demoTarget v)" "admitsMigration (demoMigration v)"
proof -
  have "opaqueProtocol ''capture.v1''" "opaqueProtocol ''plan.v1''" "opaqueProtocol ''first''" by code_simp+
  then show "admitsTarget (demoTarget v)" "admitsMigration (demoMigration v)"
    using demo_admits[OF assms]
    by (simp_all add: admitsTarget_def admitsMigration_def sourceContracts_def demoTarget_def demoMigration_def demoRelease_def release_bundle.defs)
qed

definition demoTargets :: "int \<Rightarrow> string \<Rightarrow> target_catalog" where
  "demoTargets n v = \<lparr>tc_revision = n, tc_bundles = [demoTarget v], tc_routes = [\<lparr>gr_from = ''capture.v1'', gr_control = ''control.v1'', gr_version = v\<rparr>]\<rparr>"

lemma demo_targets: "stableVersion v \<Longrightarrow> 0 < n \<Longrightarrow> n \<le> 10 \<Longrightarrow> admitsTargetCatalog (demoTargets n v)"
proof -
  assume a: "stableVersion v" "0 < n" "n \<le> 10"
  have "opaqueProtocol ''capture.v1''" "opaqueProtocol ''control.v1''" by code_simp+
  then show ?thesis using demo_managed[OF a(1)] a
    by (simp add: admitsTargetCatalog_def demoTargets_def max_safe_integer_def admitsTargetRoute_def wellRouted_def)
      (simp add: servesTarget_def demoTarget_def demoRelease_def release_bundle.defs)
qed

lemma demo_target_merged: "mergeTargetReleaseBundle (Some (demoTargets 1 ''1.0.0'')) (demoTarget ''1.1.0'') = Inr (demoTargets 2 ''1.1.0'')"
proof -
  have parts: "rb_version (demoTarget v) = v" "targetRoutes (demoTarget v) = [\<lparr>gr_from = ''capture.v1'', gr_control = ''control.v1'', gr_version = v\<rparr>]" for v
    by (simp_all add: demoTarget_def demoRelease_def release_bundle.defs targetRoutes_def)
  have "admitsTarget (demoTarget ''1.1.0'')" "admitsTargetCatalog (demoTargets 1 ''1.0.0'')" "admitsTargetCatalog (demoTargets 2 ''1.1.0'')"
    using demo_managed demo_targets demo_versions by simp_all
  then show ?thesis
    by (simp add: mergeTargetReleaseBundle_def checkedRelease_def)
      (simp add: demoTargets_def parts immutableE_def upsertRoute_def targetRouteKey_eq demo_versions retainRouted_def max_safe_integer_def checkedRelease_def)
qed

lemma target_updates_never_regress_witness:
  "\<exists>y. selectTargetReleaseBundle (demoTargets 2 ''1.1.0'') ''capture.v1'' ''control.v1'' updateTargetProtocol = Inr (Some y) \<and>
    noOlder ''1.0.0'' (rb_version y)"
proof -
  have "selectTargetReleaseBundle (demoTargets 1 ''1.0.0'') ''capture.v1'' ''control.v1'' updateTargetProtocol = Inr (Some (demoTarget ''1.0.0''))"
    using demo_targets[OF demo_versions(1), of 1]
    by (simp add: selectTargetReleaseBundle_def checkedRelease_def) (simp add: demoTargets_def demoTarget_def demoRelease_def release_bundle.defs)
  from target_updates_never_regress[OF demo_target_merged this]
  show ?thesis by (auto simp: demoTarget_def demoRelease_def release_bundle.defs)
qed

lemma target_merge_publishes_witness:
  "mergeTargetReleaseBundle (Some (demoTargets 2 ''1.1.0'')) (demoTarget ''1.1.0'') = Inr (demoTargets 2 ''1.1.0'')"
proof -
  have "''capture.v1'' \<in> set (tg_from (demoTarget ''1.1.0''))" by (simp add: demoTarget_def release_bundle.defs)
  from target_merge_publishes[OF demo_target_merged this] show ?thesis by blast
qed

definition demoMigrations :: migration_catalog where
  "demoMigrations = \<lparr>mc_revision = 1, mc_bundles = [demoMigration ''1.1.0''], mc_routes = [\<lparr>mr_from = ''capture.v1'', mr_control = ''control.v1'',
     mr_protocol = ''plan.v1'', mr_id = ''first'', mr_version = ''1.1.0''\<rparr>]\<rparr>"

lemma migration_selects_newest_witness:
  "\<exists>b. selectMigrationReleaseBundle demoMigrations ''capture.v1'' ''control.v1'' [(''plan.v1'', ''first'')] = Inr (Some b) \<and> b \<in> set (mc_bundles demoMigrations)"
proof -
  have "opaqueProtocol ''capture.v1''" "opaqueProtocol ''control.v1''" "opaqueProtocol ''plan.v1''" "opaqueProtocol ''first''" by code_simp+
  then have "admitsMigrationCatalog demoMigrations"
    using demo_managed[OF demo_versions(2)] demo_versions
    by (simp add: admitsMigrationCatalog_def demoMigrations_def max_safe_integer_def admitsMigrationRoute_def wellRouted_def)
      (simp add: servesMigration_def demoMigration_def demoRelease_def release_bundle.defs)
  then have "\<exists>found. selectMigrationReleaseBundle demoMigrations ''capture.v1'' ''control.v1'' [(''plan.v1'', ''first'')] = Inr found"
    by (simp add: selectMigrationReleaseBundle_def checkedRelease_def) (simp add: demoMigrations_def)
  then show ?thesis using migration_selects_newest by blast
qed

definition demoReleases :: "int \<Rightarrow> string \<Rightarrow> release_catalog" where
  "demoReleases n v = \<lparr>rc_revision = n, rc_bundles = [demoRelease v]\<rparr>"

lemma release_merge_advances_witness:
  "mergeReleaseBundle (Some (demoReleases 2 ''1.1.0'')) (demoRelease ''1.1.0'') = Inr (demoReleases 2 ''1.1.0'')"
proof -
  have adm: "admitsCatalog (demoReleases n v)" "rb_version (demoRelease v) = v" "pairOf (demoRelease v) = pairOf (demoRelease ''1.0.0'')"
    if "stableVersion v" "0 < n" "n \<le> 10" for n v
    using demo_admits[OF that(1)] that by (simp_all add: admitsCatalog_def demoReleases_def max_safe_integer_def demoRelease_def pairOf_def)
  have "mergeReleaseBundle (Some (demoReleases 1 ''1.0.0'')) (demoRelease ''1.1.0'') = Inr (demoReleases 2 ''1.1.0'')"
    using adm[of "''1.0.0''" 1] adm[of "''1.1.0''" 2] demo_versions demo_admits[OF demo_versions(2)]
    by (simp add: mergeReleaseBundle_def checkedRelease_def) (simp add: demoReleases_def max_safe_integer_def checkedRelease_def)
  moreover have "selectReleaseBundle (demoReleases 1 ''1.0.0'') ''capture.v1'' ''control.v1'' = Inr (demoRelease ''1.0.0'')"
    using adm[of "''1.0.0''" 1] demo_versions by (simp add: select_release_Inr) (simp add: demoReleases_def demoRelease_def)
  ultimately show ?thesis using release_merge_advances by blast
qed


end
