(* ===== verification/Actions.thy ===== *)
theory Actions
  imports Prelude
begin

text \<open>Effects of the application services, over any world: explicit state passing with an error as a value,
  the relations every effect keeps and the triples its steps satisfy.\<close>

type_synonym ('w, 'e, 'a) action = "'w \<Rightarrow> 'w \<times> ('e + 'a)"

definition returnA :: "'a \<Rightarrow> ('w, 'e, 'a) action" where
  "returnA x w = (w, Inr x)"

definition failA :: "'e \<Rightarrow> ('w, 'e, 'a) action" where
  "failA e w = (w, Inl e)"

definition bindA :: "('w, 'e, 'a) action \<Rightarrow> ('a \<Rightarrow> ('w, 'e, 'b) action) \<Rightarrow> ('w, 'e, 'b) action" where
  "bindA m k w = (case m w of (w', Inl e) \<Rightarrow> (w', Inl e) | (w', Inr x) \<Rightarrow> k x w')"

definition checkA :: "'e + 'a \<Rightarrow> ('w, 'e, 'a) action" where
  "checkA c w = (w, c)"

definition getA :: "('w \<Rightarrow> 'a) \<Rightarrow> ('w, 'e, 'a) action" where
  "getA f w = (w, Inr (f w))"

definition modifyA :: "('w \<Rightarrow> 'w) \<Rightarrow> ('w, 'e, unit) action" where
  "modifyA f w = (f w, Inr ())"

definition catchA :: "('e \<Rightarrow> ('w, 'e, 'a) action option) \<Rightarrow> ('w, 'e, 'a) action \<Rightarrow> ('w, 'e, 'a) action" where
  "catchA handler m w = (case m w of
       (w', Inr x) \<Rightarrow> (w', Inr x)
     | (w', Inl e) \<Rightarrow> (case handler e of None \<Rightarrow> (w', Inl e) | Some k \<Rightarrow> k w'))"

definition whenA :: "bool \<Rightarrow> ('w, 'e, unit) action \<Rightarrow> ('w, 'e, unit) action" where
  "whenA b m = (if b then m else returnA ())"

text \<open>The result of an effect as a value, for a caller that inspects it.\<close>

definition tryA :: "('w, 'e, 'a) action \<Rightarrow> ('w, 'f, 'e + 'a) action" where
  "tryA m w = (case m w of (w', r) \<Rightarrow> (w', Inr r))"

definition mapErrorA :: "('e \<Rightarrow> 'f) \<Rightarrow> ('w, 'e, 'a) action \<Rightarrow> ('w, 'f, 'a) action" where
  "mapErrorA f m w = (case m w of (w', r) \<Rightarrow> (w', map_sum f (\<lambda>x. x) r))"

fun eachA :: "('a \<Rightarrow> ('w, 'e, unit) action) \<Rightarrow> 'a list \<Rightarrow> ('w, 'e, unit) action" where
  "eachA f [] = returnA ()"
| "eachA f (x # xs) = bindA (f x) (\<lambda>_. eachA f xs)"

lemma bindA_cong [fundef_cong]:
  "m = m' \<Longrightarrow> (\<And>x. k x = k' x) \<Longrightarrow> bindA m k = bindA m' k'"
  by presburger

section \<open>Triples\<close>

text \<open>From a world in P the effect ends with a result and world in Q, or fails with an error and world in E.\<close>

definition ensures :: "('w \<Rightarrow> bool) \<Rightarrow> ('w, 'e, 'a) action \<Rightarrow> ('a \<Rightarrow> 'w \<Rightarrow> bool) \<Rightarrow> ('e \<Rightarrow> 'w \<Rightarrow> bool) \<Rightarrow> bool" where
  "ensures P m Q E \<longleftrightarrow> (\<forall>w. P w \<longrightarrow> (case m w of (w', Inr x) \<Rightarrow> Q x w' | (w', Inl e) \<Rightarrow> E e w'))"

named_theorems triples \<open>rules for the triples of effects\<close>

lemma ensuresI: "(\<And>w. P w \<Longrightarrow> case m w of (w', Inr x) \<Rightarrow> Q x w' | (w', Inl e) \<Rightarrow> E e w') \<Longrightarrow> ensures P m Q E"
  by (simp add: ensures_def)

lemma ensuresD: "ensures P m Q E \<Longrightarrow> P w \<Longrightarrow> m w = (w', Inr x) \<Longrightarrow> Q x w'"
  by (force simp: ensures_def)

lemma ensures_failed: "ensures P m Q E \<Longrightarrow> P w \<Longrightarrow> m w = (w', Inl e) \<Longrightarrow> E e w'"
  by (force simp: ensures_def)

lemma ensures_return: "(\<And>w. P w \<Longrightarrow> Q x w) \<Longrightarrow> ensures P (returnA x) Q E"
  by (simp add: ensures_def returnA_def)

lemma ensures_fail: "(\<And>w. P w \<Longrightarrow> E e w) \<Longrightarrow> ensures P (failA e) Q E"
  by (simp add: ensures_def failA_def)

lemma ensures_check: "(\<And>w x. P w \<Longrightarrow> c = Inr x \<Longrightarrow> Q x w) \<Longrightarrow> (\<And>w e. P w \<Longrightarrow> c = Inl e \<Longrightarrow> E e w) \<Longrightarrow> ensures P (checkA c) Q E"
  by (cases c) (simp_all add: ensures_def checkA_def)

lemma ensures_get: "(\<And>w. P w \<Longrightarrow> Q (f w) w) \<Longrightarrow> ensures P (getA f) Q E"
  by (simp add: ensures_def getA_def)

lemma ensures_modify: "(\<And>w. P w \<Longrightarrow> Q () (f w)) \<Longrightarrow> ensures P (modifyA f) Q E"
  by (simp add: ensures_def modifyA_def)

lemma ensures_bind:
  assumes "ensures P m R E" "\<And>x. ensures (R x) (k x) Q E"
  shows "ensures P (bindA m k) Q E"
proof (rule ensuresI)
  fix w assume "P w"
  obtain w' r where m: "m w = (w', r)" by fastforce
  show "case bindA m k w of (w', Inr x) \<Rightarrow> Q x w' | (w', Inl e) \<Rightarrow> E e w'"
  proof (cases r)
    case (Inl e)
    then show ?thesis using ensures_failed[OF assms(1) \<open>P w\<close>] m by (simp add: bindA_def)
  next
    case (Inr x)
    then have "R x w'" using ensuresD[OF assms(1) \<open>P w\<close>] m by simp
    then show ?thesis using assms(2)[of x] m Inr by (simp add: bindA_def ensures_def)
  qed
qed

lemma ensures_catch:
  assumes "ensures P m Q R" "\<And>e k. handler e = Some k \<Longrightarrow> ensures (R e) k Q E" "\<And>e w. handler e = None \<Longrightarrow> R e w \<Longrightarrow> E e w"
  shows "ensures P (catchA handler m) Q E"
proof (rule ensuresI)
  fix w assume "P w"
  obtain w' r where m: "m w = (w', r)" by fastforce
  show "case catchA handler m w of (w', Inr x) \<Rightarrow> Q x w' | (w', Inl e) \<Rightarrow> E e w'"
  proof (cases r)
    case (Inl e)
    then have "R e w'" using ensures_failed[OF assms(1) \<open>P w\<close>] m by simp
    then show ?thesis using assms(2,3)[of e] m Inl by (auto simp: catchA_def ensures_def split: option.split)
  next
    case (Inr x)
    then show ?thesis using ensuresD[OF assms(1) \<open>P w\<close>] m by (simp add: catchA_def)
  qed
qed

lemma ensures_when: "(b \<Longrightarrow> ensures P m (\<lambda>_. Q) E) \<Longrightarrow> (\<And>w. \<not> b \<Longrightarrow> P w \<Longrightarrow> Q w) \<Longrightarrow> ensures P (whenA b m) (\<lambda>_. Q) E"
  by (auto simp: whenA_def intro: ensures_return)

lemma ensures_try:
  assumes "ensures P m Q E" "\<And>x w. Q x w \<Longrightarrow> S (Inr x) w" "\<And>e w. E e w \<Longrightarrow> S (Inl e) w"
  shows "ensures P (tryA m) S F"
proof (rule ensuresI)
  fix w assume "P w"
  obtain w' r where m: "m w = (w', r)" by fastforce
  then show "case tryA m w of (w', Inr x) \<Rightarrow> S x w' | (w', Inl e) \<Rightarrow> F e w'"
    using ensuresD[OF assms(1) \<open>P w\<close>] ensures_failed[OF assms(1) \<open>P w\<close>] assms(2,3) by (cases r) (simp_all add: tryA_def)
qed

lemma ensures_mapError:
  assumes "ensures P m Q (\<lambda>e. E (f e))"
  shows "ensures P (mapErrorA f m) Q E"
proof (rule ensuresI)
  fix w assume "P w"
  obtain w' r where m: "m w = (w', r)" by fastforce
  then show "case mapErrorA f m w of (w', Inr x) \<Rightarrow> Q x w' | (w', Inl e) \<Rightarrow> E e w'"
    using ensuresD[OF assms \<open>P w\<close>] ensures_failed[OF assms \<open>P w\<close>] by (cases r) (simp_all add: mapErrorA_def)
qed

lemma ensures_if: "(b \<Longrightarrow> ensures P m Q E) \<Longrightarrow> (\<not> b \<Longrightarrow> ensures P n Q E) \<Longrightarrow> ensures P (if b then m else n) Q E"
  by simp

lemma ensures_each:
  assumes "\<And>x. x \<in> set xs \<Longrightarrow> ensures P (f x) (\<lambda>_. P) E"
  shows "ensures P (eachA f xs) (\<lambda>_. P) E"
  using assms by (induction xs) (auto intro!: ensures_return ensures_bind)

lemma ensures_weaken:
  assumes "ensures P' m Q' E'" "\<And>w. P w \<Longrightarrow> P' w" "\<And>x w. Q' x w \<Longrightarrow> Q x w" "\<And>e w. E' e w \<Longrightarrow> E e w"
  shows "ensures P m Q E"
proof (rule ensuresI)
  fix w assume "P w"
  obtain w' r where m: "m w = (w', r)" by fastforce
  then show "case m w of (w', Inr x) \<Rightarrow> Q x w' | (w', Inl e) \<Rightarrow> E e w'"
    using ensuresD[OF assms(1) assms(2)[OF \<open>P w\<close>]] ensures_failed[OF assms(1) assms(2)[OF \<open>P w\<close>]] assms(3,4) by (cases r) simp_all
qed

text \<open>An effect that keeps an invariant, whether it succeeds or fails.\<close>

abbreviation keeps :: "('w \<Rightarrow> bool) \<Rightarrow> ('w, 'e, 'a) action \<Rightarrow> bool" where
  "keeps P m \<equiv> ensures P m (\<lambda>_. P) (\<lambda>_. P)"

lemmas keeps_steps [triples] = ensures_bind ensures_if ensures_when ensures_each ensures_mapError

lemma keeps_simple [triples]: "keeps P (returnA x)" "keeps P (failA e)" "keeps P (checkA c)" "keeps P (getA f)"
  by (simp_all add: ensures_return ensures_fail ensures_check ensures_get)

end
