(* ===== verification/CollectorState.thy ===== *)
theory CollectorState
  imports Actions StableSort CollectorDomain
begin

text \<open>The collector state of an installation: checkpoints (packages/domain/src/collector.ts) and the file store
  that commits them by compare-and-set (apps/cli/src/runtime/collectorState.ts).  The file is kept as the
  state it holds; whether the runtime is admitted, the fresh installation identity and how a write
  ends are given by the environment of each call, and so is the collation of localeCompare.\<close>

section \<open>Checkpoints\<close>

record raw_object =
  wo_sourceSessionId :: string
  wo_sourceObjectId :: string
  wo_sourceName :: string
  wo_mediaType :: string
  wo_sourceGeneration :: string
  wo_sourceOffset :: int
  wo_serverGeneration :: int
  wo_serverOffset :: int
  wo_finalized :: bool
  wo_policyId :: "string option"

record checkpoint_key =
  ck_instanceOrigin :: string
  ck_userId :: string
  ck_projectId :: string
  ck_adapterId :: string

record collector_checkpoint = checkpoint_key +
  kp_projectCreatedAt :: string
  kp_adapterVersion :: string
  kp_revision :: int
  kp_cursor :: "string option"
  kp_rawObjects :: "raw_object list"
  kp_canonicalPublished :: "bool option"
  kp_policyId :: "string option"
  kp_deliveryPending :: "bool option"
  kp_updatedAt :: string

record collector_state =
  st_installationId :: string
  st_checkpoints :: "collector_checkpoint list"

definition emptyCollectorState :: "string \<Rightarrow> collector_state" where
  "emptyCollectorState installation = \<lparr>st_installationId = installation, st_checkpoints = []\<rparr>"

abbreviation keyOf :: "collector_checkpoint \<Rightarrow> checkpoint_key" where
  "keyOf \<equiv> checkpoint_key.truncate"

section \<open>The store\<close>

datatype state_reason = StateIo | StateDecode | StateConflict

text \<open>A write fails before the rename, or after it when the directory cannot be synced.\<close>

datatype write_outcome = Written | WriteFailed | WriteUnsynced

record storage =
  so_admitted :: bool
  so_identity :: string
  so_outcome :: write_outcome
  so_collate :: "string \<Rightarrow> string \<Rightarrow> int"

record state_files =
  sf_state :: "collector_state option"
  sf_binding :: "string option"
  sf_root :: bool

definition readCollectorState :: "storage \<Rightarrow> state_files \<Rightarrow> state_reason + (collector_state \<times> bool)" where
  "readCollectorState so files =
     bindE (case sf_state files of
         Some st \<Rightarrow> Inr (st, False)
       | None \<Rightarrow> (if sf_binding files \<noteq> None \<or> sf_root files then Inl StateDecode
           else Inr (emptyCollectorState (''i_'' @ so_identity so), True))) (\<lambda>(st, created).
     if sf_binding files = None \<or> sf_binding files = Some (st_installationId st) then Inr (st, created) else Inl StateConflict)"

definition writeCollectorState :: "storage \<Rightarrow> state_files \<Rightarrow> collector_state \<Rightarrow> state_files \<times> (state_reason + unit)" where
  "writeCollectorState so files st = (case so_outcome so of
       Written \<Rightarrow> (files\<lparr>sf_state := Some st\<rparr>, Inr ())
     | WriteFailed \<Rightarrow> (files, Inl StateIo)
     | WriteUnsynced \<Rightarrow> (files\<lparr>sf_state := Some st\<rparr>, Inl StateIo))"

definition withCollectorState :: "storage \<Rightarrow> (collector_state \<Rightarrow> state_reason + ('a \<times> collector_state option)) \<Rightarrow>
    (state_files, state_reason, 'a) action" where
  "withCollectorState so change files =
     (if \<not> so_admitted so then (files, Inl StateIo)
      else case bindE (readCollectorState so files) (\<lambda>(st, created). bindE (change st) (\<lambda>(v, next). Inr (st, created, v, next))) of
        Inl e \<Rightarrow> (files, Inl e)
      | Inr (st, created, v, next) \<Rightarrow>
          (if next = None \<and> \<not> created then (files, Inr v)
           else (case writeCollectorState so files (case next of None \<Rightarrow> st | Some st' \<Rightarrow> st') of
               (files', Inl e) \<Rightarrow> (files', Inl e) | (files', Inr _) \<Rightarrow> (files', Inr v))))"

definition checkpointAt :: "checkpoint_key \<Rightarrow> collector_state \<Rightarrow> collector_checkpoint option" where
  "checkpointAt k st = find (\<lambda>c. keyOf c = k) (st_checkpoints st)"

record state_snapshot =
  sn_installationId :: string
  sn_checkpoint :: "collector_checkpoint option"

definition snapshotState :: "storage \<Rightarrow> checkpoint_key \<Rightarrow> (state_files, state_reason, state_snapshot) action" where
  "snapshotState so k = withCollectorState so (\<lambda>st. Inr (\<lparr>sn_installationId = st_installationId st, sn_checkpoint = checkpointAt k st\<rparr>, None))"

record captured_scope = checkpoint_key +
  cc_projectCreatedAt :: string

definition capturedScopes :: "storage \<Rightarrow> (state_files, state_reason, captured_scope list) action" where
  "capturedScopes so = withCollectorState so (\<lambda>st. Inr (map (\<lambda>c. checkpoint_key.extend (keyOf c) \<lparr>cc_projectCreatedAt = kp_projectCreatedAt c\<rparr>)
     (filter (\<lambda>c. kp_canonicalPublished c = Some True \<or> kp_rawObjects c \<noteq> []) (st_checkpoints st)), None))"

definition revisionOf :: "collector_checkpoint option \<Rightarrow> int" where
  "revisionOf c = (case c of None \<Rightarrow> 0 | Some k \<Rightarrow> kp_revision k)"

record checkpoint_commit =
  ci_key :: checkpoint_key
  ci_expectedRevision :: int
  ci_checkpoint :: collector_checkpoint

definition checkpointKey :: "collector_checkpoint \<Rightarrow> string" where
  "checkpointKey c = ck_instanceOrigin c @ CHR 0x00 # ck_userId c @ CHR 0x00 # ck_projectId c @ CHR 0x00 # ck_adapterId c"

definition commitChange :: "storage \<Rightarrow> checkpoint_commit \<Rightarrow> collector_state \<Rightarrow> state_reason + (unit \<times> collector_state option)" where
  "commitChange so i st =
     (if revisionOf (checkpointAt (ci_key i) st) \<noteq> ci_expectedRevision i \<or> kp_revision (ci_checkpoint i) \<noteq> ci_expectedRevision i + 1 \<or>
         keyOf (ci_checkpoint i) \<noteq> ci_key i then Inl StateConflict
      else Inr ((), Some (st\<lparr>st_checkpoints := sortBy (\<lambda>a b. so_collate so (checkpointKey a) (checkpointKey b))
        (filter (\<lambda>c. keyOf c \<noteq> ci_key i) (st_checkpoints st) @ [ci_checkpoint i])\<rparr>)))"

definition commitState :: "storage \<Rightarrow> checkpoint_commit \<Rightarrow> (state_files, state_reason, unit) action" where
  "commitState so i = withCollectorState so (commitChange so i)"

text \<open>The installation is created under the same lock before its identity is used.\<close>

definition withCollectorInstallation :: "storage \<Rightarrow> (string \<Rightarrow> (state_files, state_reason, 'a) action) \<Rightarrow> (state_files, state_reason, 'a) action" where
  "withCollectorInstallation so use files =
     (if \<not> so_admitted so then (files, Inl StateIo)
      else case readCollectorState so files of
        Inl e \<Rightarrow> (files, Inl e)
      | Inr (st, created) \<Rightarrow>
          (if created then (case writeCollectorState so files st of
               (files', Inl e) \<Rightarrow> (files', Inl e) | (files', Inr _) \<Rightarrow> use (st_installationId st) files')
           else use (st_installationId st) files))"

section \<open>The store as a map with compare-and-set\<close>

definition uniqueCheckpoints :: "state_files \<Rightarrow> bool" where
  "uniqueCheckpoints files \<longleftrightarrow> pred_option (\<lambda>st. distinct (map keyOf (st_checkpoints st))) (sf_state files)"

definition checkpointMap :: "state_files \<Rightarrow> checkpoint_key \<Rightarrow> collector_checkpoint option" where
  "checkpointMap files k = Option.bind (sf_state files) (checkpointAt k)"

text \<open>The contract of a checkpoint store: the abstract map moves only by a commit that names the current revision
  and advances it by one.\<close>

definition casCommit :: "(checkpoint_key \<Rightarrow> collector_checkpoint option) \<Rightarrow> checkpoint_commit \<Rightarrow> (checkpoint_key \<Rightarrow> collector_checkpoint option) option" where
  "casCommit m i = (if revisionOf (m (ci_key i)) = ci_expectedRevision i \<and> kp_revision (ci_checkpoint i) = ci_expectedRevision i + 1 \<and>
     keyOf (ci_checkpoint i) = ci_key i then Some (m(ci_key i \<mapsto> ci_checkpoint i)) else None)"

lemma casCommit_Some: "casCommit m i = Some m' \<longleftrightarrow> revisionOf (m (ci_key i)) = ci_expectedRevision i \<and>
    kp_revision (ci_checkpoint i) = ci_expectedRevision i + 1 \<and> keyOf (ci_checkpoint i) = ci_key i \<and> m' = m(ci_key i \<mapsto> ci_checkpoint i)"
  by (auto simp: casCommit_def)

lemma revisionOf_Some [simp]: "revisionOf (Some c) = kp_revision c"
  by (simp add: revisionOf_def)

text \<open>Every writer has an environment of its own.\<close>

locale checkpoint_store =
  fixes lookup :: "'s \<Rightarrow> checkpoint_key \<Rightarrow> collector_checkpoint option"
    and commit :: "'env \<Rightarrow> checkpoint_commit \<Rightarrow> ('s, state_reason, unit) action"
    and snapshot :: "'env \<Rightarrow> checkpoint_key \<Rightarrow> ('s, state_reason, state_snapshot) action"
    and ready :: "'s \<Rightarrow> bool"
  assumes committed: "ready s \<Longrightarrow> commit so i s = (s', Inr ()) \<Longrightarrow> casCommit (lookup s) i = Some (lookup s')"
    and refused: "ready s \<Longrightarrow> commit so i s = (s', Inl e) \<Longrightarrow> lookup s' = lookup s \<or> casCommit (lookup s) i = Some (lookup s')"
    and stays_ready: "ready s \<Longrightarrow> ready (fst (commit so i s))"
    and shown: "ready s \<Longrightarrow> snapshot so k s = (s', r) \<Longrightarrow> ready s' \<and> lookup s' = lookup s \<and> (\<forall>sn. r = Inr sn \<longrightarrow> sn_checkpoint sn = lookup s k)"
begin

lemma commit_advances:
  assumes "ready s" "commit so i s = (s', Inr ())"
  shows "lookup s' (ci_key i) = Some (ci_checkpoint i) \<and> revisionOf (lookup s' (ci_key i)) = revisionOf (lookup s (ci_key i)) + 1"
  using committed[OF assms] by (simp add: casCommit_Some)

lemma revision_monotone:
  assumes "ready s"
  shows "revisionOf (lookup s k) \<le> revisionOf (lookup (fst (commit so i s)) k)"
proof -
  obtain s' res where run: "commit so i s = (s', res)" by fastforce
  have "lookup s' = lookup s \<or> casCommit (lookup s) i = Some (lookup s')"
    using committed[OF assms] refused[OF assms] run by (cases res) auto
  then show ?thesis using run by (auto simp: casCommit_Some)
qed

text \<open>A writer that read the checkpoint before another committed is refused.\<close>

lemma stale_refused:
  assumes "ready s" "ci_expectedRevision i < revisionOf (lookup s (ci_key i))"
  shows "\<exists>e. commit so i s = (fst (commit so i s), Inl e) \<and> lookup (fst (commit so i s)) = lookup s"
proof -
  have none: "casCommit (lookup s) i = None" using assms(2) by (simp add: casCommit_def)
  obtain s' res where run: "commit so i s = (s', res)" by fastforce
  then show ?thesis
    using committed[OF assms(1), of so i s'] refused[OF assms(1), of so i s'] none by (cases res) auto
qed

end

lemma find_sort_key:
  assumes "distinct (map f xs)"
  shows "find (\<lambda>x. f x = k) (sortBy cmp xs) = find (\<lambda>x. f x = k) xs"
proof -
  have unique: "x = y" if "x \<in> set xs" "y \<in> set xs" "f x = f y" for x y
    using assms that by (auto simp: distinct_map dest: inj_onD)
  show ?thesis
  proof (cases "find (\<lambda>x. f x = k) xs")
    case None
    then have "find (\<lambda>x. f x = k) (sortBy cmp xs) = None" by (auto simp: find_None_iff set_sortBy)
    with None show ?thesis by simp
  next
    case (Some x)
    have x: "x \<in> set xs" "f x = k" using find_Some_in[OF Some] by auto
    then have "find (\<lambda>x. f x = k) (sortBy cmp xs) \<noteq> None" by (auto simp: find_None_iff set_sortBy)
    then obtain y where y: "find (\<lambda>x. f x = k) (sortBy cmp xs) = Some y" by blast
    from find_Some_in[OF this] have "y \<in> set xs" "f y = k" by (auto simp: set_sortBy)
    then show ?thesis using unique[of x y] x y Some by simp
  qed
qed

lemma find_replaced:
  "find (\<lambda>c. f c = j) (filter (\<lambda>c. f c \<noteq> k) cs @ [x]) = (if j = k \<and> f x = k then Some x else if j = k then None else
     (case find (\<lambda>c. f c = j) cs of None \<Rightarrow> if f x = j then Some x else None | Some c \<Rightarrow> Some c))"
  by (induction cs) auto

lemma distinct_insertBy: "distinct (map f (insertBy cmp x ys)) \<longleftrightarrow> distinct (map f (x # ys))"
  by (induction ys) (auto simp: set_insertBy)

lemma distinct_sortBy: "distinct (map f (sortBy cmp xs)) \<longleftrightarrow> distinct (map f xs)"
  by (induction xs) (auto simp: distinct_insertBy set_sortBy)

lemma commitChange_map:
  assumes "commitChange so i st = Inr (u, next)" "distinct (map keyOf (st_checkpoints st))"
  shows "\<exists>st'. next = Some st' \<and> distinct (map keyOf (st_checkpoints st')) \<and>
    casCommit (\<lambda>k. checkpointAt k st) i = Some (\<lambda>k. checkpointAt k st')"
proof -
  let ?cs = "filter (\<lambda>c. keyOf c \<noteq> ci_key i) (st_checkpoints st) @ [ci_checkpoint i]"
  have i: "revisionOf (checkpointAt (ci_key i) st) = ci_expectedRevision i" "kp_revision (ci_checkpoint i) = ci_expectedRevision i + 1"
    "keyOf (ci_checkpoint i) = ci_key i"
    "next = Some (st\<lparr>st_checkpoints := sortBy (\<lambda>a b. so_collate so (checkpointKey a) (checkpointKey b)) ?cs\<rparr>)"
    using assms(1) by (auto simp: commitChange_def split: if_splits)
  have d: "distinct (map keyOf ?cs)" using assms(2) i(3) by (auto simp: distinct_map_filter)
  have "checkpointAt k (st\<lparr>st_checkpoints := sortBy cmp ?cs\<rparr>) = ((\<lambda>k. checkpointAt k st)(ci_key i \<mapsto> ci_checkpoint i)) k" for k cmp
    using find_sort_key[OF d, of k cmp] find_replaced[of keyOf k "ci_key i" "st_checkpoints st" "ci_checkpoint i"] i(3)
    by (auto simp: checkpointAt_def split: option.split)
  then show ?thesis using i d by (auto simp: casCommit_def distinct_sortBy)
qed

text \<open>The file store provides the contract, whatever the environment of the call.\<close>

lemma commit_cases:
  assumes "uniqueCheckpoints files" "commitState so i files = (files', res)"
  shows "uniqueCheckpoints files' \<and> (if res = Inr () then casCommit (checkpointMap files) i = Some (checkpointMap files')
    else checkpointMap files' = checkpointMap files \<or> casCommit (checkpointMap files) i = Some (checkpointMap files'))"
proof (cases "so_admitted so \<and> (\<exists>st created u next. readCollectorState so files = Inr (st, created) \<and> commitChange so i st = Inr (u, next))")
  case False
  then have "files' = files \<and> (\<exists>e. res = Inl e)"
    using assms(2) by (auto simp: commitState_def withCollectorState_def bindE_def split: sum.splits prod.splits if_splits)
  then show ?thesis using assms(1) by auto
next
  case True
  then obtain st created u "next" where r: "so_admitted so" "readCollectorState so files = Inr (st, created)" "commitChange so i st = Inr (u, next)"
    by blast
  have st: "distinct (map keyOf (st_checkpoints st))" "checkpointMap files = (\<lambda>k. checkpointAt k st)"
    using r(2) assms(1) by (auto simp: readCollectorState_def success_simps uniqueCheckpoints_def checkpointMap_def emptyCollectorState_def
        checkpointAt_def fun_eq_iff split: option.splits if_splits)
  obtain st' where st': "next = Some st'" "distinct (map keyOf (st_checkpoints st'))" "casCommit (checkpointMap files) i = Some (\<lambda>k. checkpointAt k st')"
    using commitChange_map[OF r(3) st(1)] st(2) by auto
  show ?thesis
    using assms r st' by (cases "so_outcome so")
      (auto simp: commitState_def withCollectorState_def writeCollectorState_def uniqueCheckpoints_def checkpointMap_def fun_eq_iff)
qed

lemma snapshot_cases:
  assumes "uniqueCheckpoints files" "snapshotState so k files = (files', r)"
  shows "uniqueCheckpoints files' \<and> checkpointMap files' = checkpointMap files \<and> (\<forall>sn. r = Inr sn \<longrightarrow> sn_checkpoint sn = checkpointMap files k)"
proof (cases "so_admitted so \<and> (\<exists>st created. readCollectorState so files = Inr (st, created))")
  case False
  then have "files' = files \<and> (\<exists>e. r = Inl e)"
    using assms(2) by (auto simp: snapshotState_def withCollectorState_def bindE_def split: sum.splits prod.splits if_splits)
  then show ?thesis using assms(1) by auto
next
  case True
  then obtain st created where r: "so_admitted so" "readCollectorState so files = Inr (st, created)" by blast
  have st: "distinct (map keyOf (st_checkpoints st))" "checkpointMap files = (\<lambda>k. checkpointAt k st)" "\<not> created \<Longrightarrow> sf_state files = Some st"
    using r(2) assms(1) by (auto simp: readCollectorState_def success_simps uniqueCheckpoints_def checkpointMap_def emptyCollectorState_def
        checkpointAt_def fun_eq_iff split: option.splits if_splits)
  then show ?thesis
    using assms r by (cases "so_outcome so"; cases created)
      (auto simp: snapshotState_def withCollectorState_def writeCollectorState_def uniqueCheckpoints_def checkpointMap_def fun_eq_iff)
qed

interpretation collector_store: checkpoint_store checkpointMap commitState snapshotState uniqueCheckpoints
proof
  fix s :: state_files and so s' i e k r
  assume u: "uniqueCheckpoints s"
  show "casCommit (checkpointMap s) i = Some (checkpointMap s')" if "commitState so i s = (s', Inr ())"
    using commit_cases[OF u that] by simp
  show "checkpointMap s' = checkpointMap s \<or> casCommit (checkpointMap s) i = Some (checkpointMap s')" if "commitState so i s = (s', Inl e)"
    using commit_cases[OF u that] by simp
  show "uniqueCheckpoints (fst (commitState so i s))" using commit_cases[OF u prod.collapse[symmetric]] by simp
  show "uniqueCheckpoints s' \<and> checkpointMap s' = checkpointMap s \<and> (\<forall>sn. r = Inr sn \<longrightarrow> sn_checkpoint sn = checkpointMap s k)"
    if "snapshotState so k s = (s', r)"
    by (rule snapshot_cases[OF u that])
qed

end
