(* ===== verification/LegacyCollector.thy ===== *)
theory LegacyCollector
  imports Complex_Main CollectorState WebBytes CollectorPreparation
begin

text \<open>Legacy collection of a paged Adapter (packages/application/src/legacyCollector.ts): the page loop with its
  redaction policy pauses and checkpoint commits, the canonical submissions, and the concurrent upload
  of Raw objects in transport chunks.  The Adapter, the transport, the clock, the random source, the
  storage and the scheduling of the concurrent uploads are an environment with a state of its own; the
  mutable variables the closures share are a record.  Source and server offsets are exact integers.\<close>

section \<open>The environment\<close>

datatype transport_reason = TransportNetwork | TransportUnauthenticated | TransportRejected | TransportInvalid | TransportRawDisabled

record transport_error =
  te_reason :: transport_reason
  te_retryAfterSeconds :: "rat option"
  te_retryable :: bool

record runtime_error =
  re_reason :: string
  re_retryable :: bool

datatype policy_pause =
    UnversionedRedactor | MissingOutcomeMarker | OtherPolicyPending | RawDisabledPending
  | EmptyPendingPage | UnversionedRawObject | RawDisabledUncertain

datatype legacy_error =
    ContractFailure contract_error
  | TransportFailure transport_error
  | StateFailure state_reason
  | RuntimeFailure runtime_error
  | PolicyPause policy_pause
  | TextDefect
  | NeverReturns

record local_project =
  pj_instanceOrigin :: string
  pj_userId :: string
  pj_id :: string
  pj_createdAt :: string

record adapter_installation =
  ad_adapterId :: string
  ad_version :: string

record source_progress =
  sp_sourceSessionId :: string
  sp_sourceObjectId :: string
  sp_sourceGeneration :: string
  sp_sourceOffset :: int
  sp_finalized :: bool

record collect_request =
  cq_rawCaptureEnabled :: bool
  cq_cursor :: "string option"
  cq_limits :: collection_limits
  cq_rawProgress :: "source_progress list"
  cq_previousAdapterVersion :: "string option"

record canonical_submission =
  su_profile :: "canonical_profile option"
  su_installationId :: string
  su_projectId :: string
  su_adapterVersion :: string
  su_observedAt :: string
  su_session :: adapter_session
  su_threads :: "adapter_thread list"
  su_events :: "adapter_event list"
  su_usage :: "adapter_usage list option"

record raw_submission =
  rs_installationId :: string
  rs_adapterVersion :: string
  rs_serverSessionId :: string
  rs_observedAt :: string
  rs_sourceChunkId :: string
  rs_sourceObjectId :: string
  rs_sourceName :: string
  rs_mediaType :: string
  rs_content :: string
  rs_final :: bool
  rs_serverGeneration :: int
  rs_serverOffset :: int

record raw_append_receipt =
  rr_generation :: int
  rr_sizeBytes :: int
  rr_finalized :: bool
  rr_replayed :: bool

type_synonym ('e, 'x, 'a) answering = "'e \<Rightarrow> 'e \<times> ('x + 'a)"

record 'e environment =
  en_ensureProfile :: "local_project \<Rightarrow> canonical_profile \<Rightarrow> ('e, transport_error, unit) answering"
  en_rawEnabled :: "local_project \<Rightarrow> ('e, transport_error, bool) answering"
  en_submit :: "canonical_submission \<Rightarrow> ('e, transport_error, string) answering"
  en_append :: "raw_submission \<Rightarrow> ('e, transport_error, raw_append_receipt) answering"
  en_collect :: "collect_request \<Rightarrow> ('e, runtime_error, collection_page) answering"
  en_now :: "'e \<Rightarrow> 'e \<times> int"
  en_jitter :: "'e \<Rightarrow> 'e \<times> rat"
  en_sleep :: "rat \<Rightarrow> 'e \<Rightarrow> 'e"
  en_storage :: "'e \<Rightarrow> 'e \<times> storage"
  en_schedule :: "'e \<Rightarrow> 'e \<times> nat list"

section \<open>The world of a collection\<close>

datatype legacy_call =
    CallEnsure canonical_profile
  | CallRawPolicy
  | CallCollect collect_request
  | CallSubmit canonical_submission
  | CallAppend raw_submission
  | CallCommit collector_checkpoint

record legacy_vars =
  lv_rawEnabled :: bool
  lv_checkpoint :: "collector_checkpoint option"
  lv_deliveryPending :: bool
  lv_pendingChunks :: "string list"
  lv_published :: bool
  lv_cursor :: "string option"
  lv_revision :: int
  lv_rawObjects :: "raw_object list"
  lv_progress :: "collection_progress option"
  lv_events :: int
  lv_rawBytes :: int
  lv_pages :: int
  lv_observations :: int
  lv_batches :: int
  lv_chunks :: int
  lv_redactions :: int
  lv_hasMore :: bool
  lv_failures :: "(string \<times> source_failure) list"
  lv_truncated :: bool
  lv_acknowledged :: "raw_object list"

record 'e legacy_world =
  lw_env :: "'e"
  lw_files :: state_files
  lw_calls :: "legacy_call list"
  lw_vars :: legacy_vars

type_synonym ('e, 'a) legacy = "('e legacy_world, legacy_error, 'a) action"

record 'e legacy_job =
  jb_env :: "'e environment"
  jb_project :: local_project
  jb_adapter :: adapter_installation
  jb_profile :: canonical_profile
  jb_redactor :: redactor
  jb_installationId :: string

definition varL :: "(legacy_vars \<Rightarrow> 'a) \<Rightarrow> ('e, 'a) legacy" where
  "varL f = getA (\<lambda>w. f (lw_vars w))"

definition setL :: "(legacy_vars \<Rightarrow> legacy_vars) \<Rightarrow> ('e, unit) legacy" where
  "setL f = modifyA (\<lambda>w. w\<lparr>lw_vars := f (lw_vars w)\<rparr>)"

definition readL :: "('e \<Rightarrow> 'e \<times> 'a) \<Rightarrow> ('e, 'a) legacy" where
  "readL f w = (let (e, x) = f (lw_env w) in (w\<lparr>lw_env := e\<rparr>, Inr x))"

definition callL :: "legacy_call \<Rightarrow> ('x \<Rightarrow> legacy_error) \<Rightarrow> ('e, 'x, 'a) answering \<Rightarrow> ('e, 'a) legacy" where
  "callL c fail f w = (let (e, r) = f (lw_env w) in (w\<lparr>lw_env := e, lw_calls := lw_calls w @ [c]\<rparr>, map_sum fail (\<lambda>x. x) r))"

section \<open>Retries\<close>

definition retryDelay :: "nat \<Rightarrow> rat \<Rightarrow> rat option \<Rightarrow> rat" where
  "retryDelay attempts jitter after = (let backoff = 500 * 2 ^ (3 - attempts) * (1 + jitter) in
     min 60000 (max backoff ((case after of None \<Rightarrow> 0 | Some s \<Rightarrow> s) * 1000)))"

definition sleepL :: "'e environment \<Rightarrow> nat \<Rightarrow> transport_error \<Rightarrow> ('e, unit) legacy" where
  "sleepL en attempts e = bindA (readL (en_jitter en)) (\<lambda>jitter.
     modifyA (\<lambda>w. w\<lparr>lw_env := en_sleep en (retryDelay attempts jitter (te_retryAfterSeconds e)) (lw_env w)\<rparr>))"

text \<open>At most the given number of attempts; only a retryable failure is tried again.\<close>

function retryTransport :: "'e environment \<Rightarrow> nat \<Rightarrow> ('e, 'a) legacy \<Rightarrow> ('e, 'a) legacy" where
  "retryTransport en attempts m = bindA (tryA m) (\<lambda>r. case r of
       Inr x \<Rightarrow> returnA x
     | Inl (TransportFailure e) \<Rightarrow>
         (if te_retryable e \<and> attempts > 1 then bindA (sleepL en attempts e) (\<lambda>_. retryTransport en (attempts - 1) m)
          else failA (TransportFailure e))
     | Inl e \<Rightarrow> failA e)"
  by pat_completeness auto
termination
  by (relation "measure (\<lambda>(en, attempts, m). attempts)") auto

declare retryTransport.simps [simp del]

section \<open>Checkpoints\<close>

definition projectKey :: "'e legacy_job \<Rightarrow> checkpoint_key" where
  "projectKey j = \<lparr>ck_instanceOrigin = pj_instanceOrigin (jb_project j), ck_userId = pj_userId (jb_project j),
     ck_projectId = pj_id (jb_project j), ck_adapterId = ad_adapterId (jb_adapter j)\<rparr>"

definition nextCheckpoint :: "'e legacy_job \<Rightarrow> legacy_vars \<Rightarrow> string option \<Rightarrow> raw_object list \<Rightarrow> string \<Rightarrow> int \<Rightarrow> collector_checkpoint" where
  "nextCheckpoint j v cursor objects version now = checkpoint_key.extend (projectKey j)
     \<lparr>kp_projectCreatedAt = pj_createdAt (jb_project j), kp_adapterVersion = version, kp_revision = lv_revision v + 1,
      kp_cursor = cursor, kp_rawObjects = objects, kp_canonicalPublished = (if lv_published v then Some True else None),
      kp_policyId = rd_policyId (jb_redactor j),
      kp_deliveryPending = (if rd_policyId (jb_redactor j) = None then None else Some (lv_deliveryPending v)),
      kp_updatedAt = showIso now\<rparr>"

definition commitL :: "'e legacy_job \<Rightarrow> int \<Rightarrow> collector_checkpoint \<Rightarrow> ('e, unit) legacy" where
  "commitL j expected k = bindA (readL (en_storage (jb_env j))) (\<lambda>so w.
     case commitState so \<lparr>ci_key = projectKey j, ci_expectedRevision = expected, ci_checkpoint = k\<rparr> (lw_files w) of
       (files, Inl e) \<Rightarrow> (w\<lparr>lw_files := files\<rparr>, Inl (StateFailure e))
     | (files, Inr _) \<Rightarrow> (w\<lparr>lw_files := files, lw_calls := lw_calls w @ [CallCommit k]\<rparr>, Inr ()))"

definition commitCheckpoint :: "'e legacy_job \<Rightarrow> string option \<Rightarrow> raw_object list \<Rightarrow> string \<Rightarrow> ('e, unit) legacy" where
  "commitCheckpoint j cursor objects version =
     bindA (varL (\<lambda>v. v)) (\<lambda>v.
     bindA (readL (en_now (jb_env j))) (\<lambda>now.
     let k = nextCheckpoint j v cursor objects version now in
     bindA (commitL j (lv_revision v) k) (\<lambda>_.
       setL (\<lambda>v. v\<lparr>lv_checkpoint := Some k, lv_revision := kp_revision k\<rparr>))))"

definition savedVersion :: "'e legacy_job \<Rightarrow> legacy_vars \<Rightarrow> string" where
  "savedVersion j v = (case lv_checkpoint v of None \<Rightarrow> ad_version (jb_adapter j) | Some k \<Rightarrow> kp_adapterVersion k)"

section \<open>Raw transport chunks\<close>

text \<open>The end of a chunk moves back to a byte that starts a code point.\<close>

fun backUp :: "bytes \<Rightarrow> nat \<Rightarrow> nat \<Rightarrow> nat" where
  "backUp b start 0 = 0"
| "backUp b start (Suc e) = (if Suc e < length b \<and> Suc e > start \<and> continuation (b ! Suc e) then backUp b start e else Suc e)"

text \<open>None when the loop does not end; an inner Inl is the exception of the fatal decoder.\<close>

partial_function (option) splitLoop :: "nat \<Rightarrow> bytes \<Rightarrow> nat \<Rightarrow> string list \<Rightarrow> (unit + string list) option" where
  "splitLoop limit b start chunks =
     (if start < length b then
        (let e = backUp b start (min (start + limit) (length b)) in
         case decodeUtf8 (take (e - start) (drop start b)) of
           None \<Rightarrow> Some (Inl ())
         | Some c \<Rightarrow> splitLoop limit b e (chunks @ [c]))
      else Some (Inr chunks))"

definition splitRawTransportChunks :: "string \<Rightarrow> (unit + string list) option" where
  "splitRawTransportChunks content = (if content = [] then Some (Inr [[]]) else splitLoop (nat RawTransportChunkBytes) content 0 [])"

section \<open>The upload of one Raw object\<close>

text \<open>What an upload does between two points where others may run: one transport attempt with its pending mark,
  a pause before the next attempt, an accepted receipt, a checkpoint of its progress.\<close>

datatype upload =
    UploadDone int int
  | UploadFail legacy_error
  | UploadAttempt raw_submission string "transport_error + raw_append_receipt \<Rightarrow> upload"
  | UploadPause nat transport_error upload
  | UploadSettled string upload
  | UploadPersist "raw_object list" upload

function attempts :: "nat \<Rightarrow> raw_submission \<Rightarrow> string \<Rightarrow> (transport_error + raw_append_receipt \<Rightarrow> upload) \<Rightarrow> upload" where
  "attempts n s key k = UploadAttempt s key (\<lambda>r. case r of
       Inr x \<Rightarrow> k (Inr x)
     | Inl e \<Rightarrow> (if te_retryable e \<and> n > 1 then UploadPause n e (attempts (n - 1) s key k) else k (Inl e)))"
  by pat_completeness auto
termination
  by (relation "measure (\<lambda>(n, s, key, k). n)") auto

declare attempts.simps [simp del]

definition nextRawProgress :: "string \<Rightarrow> raw_segment \<Rightarrow> raw_object option \<Rightarrow> contract_error + (int \<times> int)" where
  "nextRawProgress sourceSessionId segment existing = (case existing of
       None \<Rightarrow> (if intValue (sg_sourceOffset segment) = 0 then Inr (1, 0) else Inl RawStart)
     | Some o1 \<Rightarrow>
         (if wo_sourceName o1 \<noteq> sg_sourceName segment \<or> wo_mediaType o1 \<noteq> sg_mediaType segment \<or> wo_sourceSessionId o1 \<noteq> sourceSessionId
            then Inl RawMetadata
          else if wo_sourceGeneration o1 \<noteq> sg_sourceGeneration segment then
            (if intValue (sg_sourceOffset segment) = 0 then Inr (wo_serverGeneration o1 + 1, 0) else Inl RawGeneration)
          else if wo_finalized o1 then Inl RawFinalized
          else if wo_sourceOffset o1 = intValue (sg_sourceOffset segment) then Inr (wo_serverGeneration o1, wo_serverOffset o1)
          else Inl RawOffset))"

text \<open>What the uploads of one observation share.\<close>

record upload_context =
  ux_policyId :: "string option"
  ux_installationId :: string
  ux_adapterVersion :: string
  ux_serverSessionId :: string
  ux_sourceSessionId :: string
  ux_observedAt :: string

definition sourceChunkId :: "upload_context \<Rightarrow> int \<Rightarrow> int \<Rightarrow> string" where
  "sourceChunkId cx generation offset = ''g'' @ showInt generation @ ''-o'' @ showInt offset @
     (case ux_policyId cx of None \<Rightarrow> [] | Some p \<Rightarrow> ''-p'' @ p)"

definition pendingKey :: "upload_context \<Rightarrow> string \<Rightarrow> string \<Rightarrow> string" where
  "pendingKey cx objectId chunkId = stringify (JArr [JStr (ux_sourceSessionId cx), JStr objectId, JStr chunkId])"

definition rawSubmission :: "upload_context \<Rightarrow> raw_segment \<Rightarrow> int \<Rightarrow> int \<Rightarrow> string \<Rightarrow> bool \<Rightarrow> raw_submission" where
  "rawSubmission cx segment generation offset content final =
     \<lparr>rs_installationId = ux_installationId cx, rs_adapterVersion = ux_adapterVersion cx, rs_serverSessionId = ux_serverSessionId cx,
      rs_observedAt = ux_observedAt cx, rs_sourceChunkId = sourceChunkId cx generation offset, rs_sourceObjectId = sg_sourceObjectId segment,
      rs_sourceName = sg_sourceName segment, rs_mediaType = sg_mediaType segment, rs_content = content, rs_final = final,
      rs_serverGeneration = generation, rs_serverOffset = offset\<rparr>"

definition validReceipt :: "raw_submission \<Rightarrow> raw_append_receipt \<Rightarrow> bool" where
  "validReceipt s r \<longleftrightarrow> (let expected = rs_serverOffset s + int (length (rs_content s)) in
     rr_generation r = rs_serverGeneration s \<and>
     (if rr_replayed r then rr_sizeBytes r \<ge> expected \<and> (\<not> rs_final s \<or> rr_finalized r)
      else rr_sizeBytes r = expected \<and> rr_finalized r = rs_final s))"

fun sendChunks :: "upload_context \<Rightarrow> raw_segment \<Rightarrow> int \<Rightarrow> string list \<Rightarrow> int \<Rightarrow> int \<Rightarrow> int \<Rightarrow> (int \<Rightarrow> int \<Rightarrow> int \<Rightarrow> upload) \<Rightarrow> upload" where
  "sendChunks cx segment generation [] offset chunks bytes k = k offset chunks bytes"
| "sendChunks cx segment generation (content # rest) offset chunks bytes k =
     (let s = rawSubmission cx segment generation offset content (sg_final segment \<and> rest = []);
          key = pendingKey cx (sg_sourceObjectId segment) (rs_sourceChunkId s) in
      attempts 3 s key (\<lambda>r. case r of
          Inl e \<Rightarrow> UploadFail (TransportFailure e)
        | Inr receipt \<Rightarrow>
            (if validReceipt s receipt then UploadSettled key (sendChunks cx segment generation rest (offset + int (length content))
               (chunks + 1) (bytes + int (length content)) k)
             else UploadFail (ContractFailure RawReceipt))))"

definition sameObject :: "string \<Rightarrow> string \<Rightarrow> raw_object \<Rightarrow> bool" where
  "sameObject sourceSessionId objectId o1 \<longleftrightarrow> wo_sourceSessionId o1 = sourceSessionId \<and> wo_sourceObjectId o1 = objectId"

text \<open>A segment the saved progress covers already.\<close>

definition alreadyCommitted :: "raw_segment \<Rightarrow> int \<Rightarrow> raw_object \<Rightarrow> bool" where
  "alreadyCommitted segment sourceEnd o1 \<longleftrightarrow> wo_sourceGeneration o1 = sg_sourceGeneration segment \<and>
     (intValue (sg_sourceOffset segment) < wo_sourceOffset o1 \<or> (wo_finalized o1 \<and> sourceEnd = wo_sourceOffset o1))"

definition replaceFirst :: "('a \<Rightarrow> bool) \<Rightarrow> 'a \<Rightarrow> 'a list \<Rightarrow> 'a list" where
  "replaceFirst P x xs = (case List.find P xs of None \<Rightarrow> xs @ [x]
     | Some _ \<Rightarrow> takeWhile (\<lambda>y. \<not> P y) xs @ x # tl (dropWhile (\<lambda>y. \<not> P y) xs))"

text \<open>The original and redacted segments of one object, in order.\<close>

fun objectUpload :: "upload_context \<Rightarrow> raw_object list \<Rightarrow> (raw_segment \<times> raw_segment) list \<Rightarrow> int \<Rightarrow> int \<Rightarrow> upload" where
  "objectUpload cx objects [] chunks bytes = UploadDone chunks bytes"
| "objectUpload cx objects ((original, segment) # rest) chunks bytes =
     (let mine = sameObject (ux_sourceSessionId cx) (sg_sourceObjectId segment);
          existing = find mine objects;
          sourceEnd = intValue (sg_sourceOffset segment) + int (length (sg_content original)) in
      if pred_option (\<lambda>o1. \<not> alreadyCommitted segment sourceEnd o1) existing then
        (case (nextRawProgress (ux_sourceSessionId cx) segment existing, splitRawTransportChunks (sg_content segment)) of
           (Inl e, _) \<Rightarrow> UploadFail (ContractFailure e)
         | (Inr _, None) \<Rightarrow> UploadFail NeverReturns
         | (Inr _, Some (Inl _)) \<Rightarrow> UploadFail TextDefect
         | (Inr (generation, offset), Some (Inr contents)) \<Rightarrow>
             sendChunks cx segment generation contents offset chunks bytes (\<lambda>serverOffset chunks' bytes'.
               let objects' = replaceFirst mine \<lparr>wo_sourceSessionId = ux_sourceSessionId cx, wo_sourceObjectId = sg_sourceObjectId segment,
                     wo_sourceName = sg_sourceName segment, wo_mediaType = sg_mediaType segment,
                     wo_sourceGeneration = sg_sourceGeneration segment, wo_sourceOffset = sourceEnd, wo_serverGeneration = generation,
                     wo_serverOffset = serverOffset, wo_finalized = sg_final segment, wo_policyId = ux_policyId cx\<rparr> objects
               in UploadPersist objects' (objectUpload cx objects' rest chunks' bytes')))
      else if pred_option (\<lambda>o1. wo_sourceName o1 = sg_sourceName segment \<and> wo_mediaType o1 = sg_mediaType segment \<and>
             sourceEnd \<le> wo_sourceOffset o1) existing
        then objectUpload cx objects rest chunks bytes
      else UploadFail (ContractFailure RawOverlap))"

section \<open>Concurrent uploads\<close>

definition attemptUpload :: "'e legacy_job \<Rightarrow> raw_submission \<Rightarrow> string \<Rightarrow> ('e, transport_error + raw_append_receipt) legacy" where
  "attemptUpload j s key =
     bindA (varL (\<lambda>v. key \<in> set (lv_pendingChunks v))) (\<lambda>uncertain.
     bindA (setL (\<lambda>v. v\<lparr>lv_pendingChunks := List.insert key (lv_pendingChunks v)\<rparr>)) (\<lambda>_.
     bindA (tryA (callL (CallAppend s) TransportFailure (en_append (jb_env j) s))) (\<lambda>r. case r of
       Inr x \<Rightarrow> returnA (Inr x)
     | Inl (TransportFailure e) \<Rightarrow> bindA (whenA (te_reason e = TransportRawDisabled \<and> \<not> uncertain)
         (setL (\<lambda>v. v\<lparr>lv_pendingChunks := removeAll key (lv_pendingChunks v)\<rparr>))) (\<lambda>_. returnA (Inl e))
     | Inl e \<Rightarrow> failA e)))"

text \<open>Under the lock: the changed object replaces its acknowledged progress in one checkpoint.\<close>

definition persistUpload :: "'e legacy_job \<Rightarrow> upload_context \<Rightarrow> string \<Rightarrow> raw_object list \<Rightarrow> ('e, unit) legacy" where
  "persistUpload j cx objectId objects = (case find (sameObject (ux_sourceSessionId cx) objectId) objects of
       None \<Rightarrow> returnA ()
     | Some changed \<Rightarrow>
         bindA (varL (\<lambda>v. v)) (\<lambda>v.
         let acknowledged = filter (\<lambda>o1. \<not> sameObject (wo_sourceSessionId changed) objectId o1) (lv_acknowledged v) @ [changed] in
         bindA (commitCheckpoint j (lv_cursor v) acknowledged (savedVersion j v)) (\<lambda>_.
           setL (\<lambda>v. v\<lparr>lv_acknowledged := acknowledged\<rparr>))))"

fun stepUpload :: "'e legacy_job \<Rightarrow> upload_context \<Rightarrow> string \<Rightarrow> upload \<Rightarrow> ('e, upload) legacy" where
  "stepUpload j cx objectId (UploadDone c b) = returnA (UploadDone c b)"
| "stepUpload j cx objectId (UploadFail e) = failA e"
| "stepUpload j cx objectId (UploadAttempt s key k) = bindA (attemptUpload j s key) (\<lambda>r. returnA (k r))"
| "stepUpload j cx objectId (UploadPause n e u) = bindA (sleepL (jb_env j) n e) (\<lambda>_. returnA u)"
| "stepUpload j cx objectId (UploadSettled key u) =
     bindA (setL (\<lambda>v. v\<lparr>lv_pendingChunks := removeAll key (lv_pendingChunks v)\<rparr>)) (\<lambda>_. returnA u)"
| "stepUpload j cx objectId (UploadPersist objects u) = bindA (persistUpload j cx objectId objects) (\<lambda>_. returnA u)"

primrec runUpload :: "'e legacy_job \<Rightarrow> upload_context \<Rightarrow> string \<Rightarrow> upload \<Rightarrow> ('e, int \<times> int) legacy" where
  "runUpload j cx objectId (UploadDone c b) = returnA (c, b)"
| "runUpload j cx objectId (UploadFail e) = failA e"
| "runUpload j cx objectId (UploadAttempt s key k) = bindA (attemptUpload j s key) (\<lambda>r. runUpload j cx objectId (k r))"
| "runUpload j cx objectId (UploadPause n e u) = bindA (sleepL (jb_env j) n e) (\<lambda>_. runUpload j cx objectId u)"
| "runUpload j cx objectId (UploadSettled key u) =
     bindA (setL (\<lambda>v. v\<lparr>lv_pendingChunks := removeAll key (lv_pendingChunks v)\<rparr>)) (\<lambda>_. runUpload j cx objectId u)"
| "runUpload j cx objectId (UploadPersist objects u) = bindA (persistUpload j cx objectId objects) (\<lambda>_. runUpload j cx objectId u)"

text \<open>Up to three uploads run; the schedule says which of them advances next, and when it is used up the remaining
  ones run in order, so every interleaving is the run of some schedule.  The first failure ends all.\<close>

fun finishUploads :: "'e legacy_job \<Rightarrow> upload_context \<Rightarrow> (string \<times> upload) list \<Rightarrow> int \<Rightarrow> int \<Rightarrow> ('e, int \<times> int) legacy" where
  "finishUploads j cx [] chunks bytes = returnA (chunks, bytes)"
| "finishUploads j cx ((objectId, u) # us) chunks bytes =
     bindA (runUpload j cx objectId u) (\<lambda>(c, b). finishUploads j cx us (chunks + c) (bytes + b))"

fun interleave :: "'e legacy_job \<Rightarrow> upload_context \<Rightarrow> nat list \<Rightarrow> (string \<times> upload) list \<Rightarrow> (string \<times> upload) list \<Rightarrow> int \<Rightarrow> int \<Rightarrow>
    ('e, int \<times> int) legacy" where
  "interleave j cx [] running waiting chunks bytes = finishUploads j cx (running @ waiting) chunks bytes"
| "interleave j cx (i # schedule) running waiting chunks bytes =
     (if running = [] then finishUploads j cx waiting chunks bytes
      else let n = i mod length running; (objectId, u) = running ! n in
        bindA (stepUpload j cx objectId u) (\<lambda>u'. case u' of
          UploadDone c b \<Rightarrow> interleave j cx schedule (take n running @ drop (Suc n) running @ take 1 waiting) (drop 1 waiting) (chunks + c) (bytes + b)
        | _ \<Rightarrow> interleave j cx schedule (running[n := (objectId, u')]) waiting chunks bytes))"

fun groupSegments :: "(raw_segment \<times> raw_segment) list \<Rightarrow> (string \<times> (raw_segment \<times> raw_segment) list) list \<Rightarrow>
    (string \<times> (raw_segment \<times> raw_segment) list) list" where
  "groupSegments [] groups = groups"
| "groupSegments (p # ps) groups = groupSegments ps
     (if sg_sourceObjectId (snd p) \<in> fst ` set groups
      then map (\<lambda>(k, xs). (k, if k = sg_sourceObjectId (snd p) then xs @ [p] else xs)) groups
      else groups @ [(sg_sourceObjectId (snd p), [p])])"

definition appendRawSegments :: "'e legacy_job \<Rightarrow> upload_context \<Rightarrow> raw_segment list \<Rightarrow> raw_segment list \<Rightarrow> raw_object list \<Rightarrow>
    ('e, raw_object list \<times> int \<times> int) legacy" where
  "appendRawSegments j cx original redacted objects =
     (if length original \<noteq> length redacted then failA (ContractFailure RawTopology)
      else let uploads = map (\<lambda>(objectId, segments). (objectId, objectUpload cx objects segments 0 0)) (groupSegments (zip original redacted) []) in
        bindA (setL (\<lambda>v. v\<lparr>lv_acknowledged := objects\<rparr>)) (\<lambda>_.
        bindA (readL (en_schedule (jb_env j))) (\<lambda>schedule.
        bindA (interleave j cx schedule (take 3 uploads) (drop 3 uploads) 0 0) (\<lambda>(chunks, bytes).
        bindA (varL lv_acknowledged) (\<lambda>acknowledged. returnA (acknowledged, chunks, bytes))))))"

end
