(* ===== verification/Utf16.thy ===== *)
theory Utf16
  imports Prelude
begin

text \<open>Truncation of a text to a number of UTF-16 units (String.prototype.slice), shared by the diagnostics of the
  collectors.\<close>

text \<open>The first n UTF-16 units; half of a surrogate pair is left out.\<close>

fun utf16Take :: "nat \<Rightarrow> string \<Rightarrow> string" where
  "utf16Take n [] = []"
| "utf16Take n (c # s) = (if utf16_units c \<le> n then c # utf16Take (n - utf16_units c) s else [])"

end
