(* ===== verification/LegacyCycle.thy ===== *)
theory LegacyCycle
  imports LegacyCollector Utf16
begin

text \<open>The collection cycle of a paged Adapter (packages/application/src/legacyCollector.ts, collectLegacyAdapter): the
  admission of a resumed checkpoint under the current redaction policy, the page loop and its report.\<close>

section \<open>Pages\<close>

definition legacyCheckpoint :: "'e legacy_job \<Rightarrow> state_snapshot \<Rightarrow> collector_checkpoint option" where
  "legacyCheckpoint j sn = (case sn_checkpoint sn of
       None \<Rightarrow> None
     | Some k \<Rightarrow> (if kp_projectCreatedAt k = pj_createdAt (jb_project j) then Some k else None))"

definition collectRequest :: "legacy_vars \<Rightarrow> collect_request" where
  "collectRequest v = \<lparr>cq_rawCaptureEnabled = lv_rawEnabled v, cq_cursor = lv_cursor v, cq_limits = AdapterCollectionLimits,
     cq_rawProgress = map (\<lambda>o1. \<lparr>sp_sourceSessionId = wo_sourceSessionId o1, sp_sourceObjectId = wo_sourceObjectId o1,
       sp_sourceGeneration = wo_sourceGeneration o1, sp_sourceOffset = wo_sourceOffset o1, sp_finalized = wo_finalized o1\<rparr>) (lv_rawObjects v),
     cq_previousAdapterVersion = (case lv_checkpoint v of None \<Rightarrow> None
       | Some k \<Rightarrow> if kp_adapterVersion k = [] then None else Some (kp_adapterVersion k))\<rparr>"

definition failureKey :: "source_failure \<Rightarrow> string" where
  "failureKey f = stringify (obj [(''source'', Some (JStr (sf_source f))), (''reason'', Some (literalsJson failureReasons (sf_reason f)))])"

definition noteFailure :: "redactor \<Rightarrow> source_failure \<Rightarrow> legacy_vars \<Rightarrow> legacy_vars" where
  "noteFailure r f v =
     (if failureKey f \<in> fst ` set (lv_failures v) then v
      else if int (length (lv_failures v)) = MaxSourceFailures then v\<lparr>lv_truncated := True\<rparr>
      else let (masked, n) = rd_redact r (sf_source f) in
        v\<lparr>lv_redactions := lv_redactions v + int n, lv_failures := lv_failures v @ [(failureKey f, f\<lparr>sf_source := utf16Take 4096 masked\<rparr>)]\<rparr>)"

definition notePage :: "redactor \<Rightarrow> collection_page \<Rightarrow> legacy_vars \<Rightarrow> legacy_vars" where
  "notePage r page v = fold (noteFailure r) (case pa_sourceFailures page of None \<Rightarrow> [] | Some fs \<Rightarrow> fs)
     (v\<lparr>lv_progress := map_option (\<lambda>p. p\<lparr>pg_rawCaptureEnabled := Some (lv_rawEnabled v)\<rparr>) (pa_progress page),
        lv_pages := lv_pages v + 1,
        lv_truncated := (lv_truncated v \<or> pa_sourceFailuresTruncated page = Some True)\<rparr>)"

text \<open>An object saved without a policy may have unacknowledged chunks beyond its saved offset.\<close>

definition unversionedSegment :: "raw_object list \<Rightarrow> adapter_observation \<Rightarrow> raw_segment \<Rightarrow> bool" where
  "unversionedSegment objects v segment =
     (case find (sameObject (as_sourceSessionId (ob_session v)) (sg_sourceObjectId segment)) objects of
        None \<Rightarrow> False
      | Some o1 \<Rightarrow> wo_policyId o1 = None \<and> wo_sourceGeneration o1 = sg_sourceGeneration segment \<and>
          \<not> alreadyCommitted segment (intValue (sg_sourceOffset segment) + int (length (sg_content segment))) o1)"

definition guardPage :: "'e legacy_job \<Rightarrow> collection_page \<Rightarrow> ('e, unit) legacy" where
  "guardPage j page = whenA (rd_policyId (jb_redactor j) \<noteq> None)
     (bindA (varL (\<lambda>v. v)) (\<lambda>v.
      if lv_deliveryPending v \<and> pa_observations page = [] then failA (PolicyPause EmptyPendingPage)
      else if lv_rawEnabled v \<and> list_ex (\<lambda>ob. list_ex (unversionedSegment (lv_rawObjects v) ob) (ob_rawSegments ob)) (pa_observations page)
        then failA (PolicyPause UnversionedRawObject)
      else whenA (pa_observations page \<noteq> [])
        (bindA (setL (\<lambda>v. v\<lparr>lv_deliveryPending := True\<rparr>)) (\<lambda>_.
         bindA (varL (\<lambda>v. v)) (\<lambda>v. commitCheckpoint j (lv_cursor v) (lv_rawObjects v) (savedVersion j v))))))"

definition submissionOf :: "'e legacy_job \<Rightarrow> adapter_observation \<Rightarrow> canonical_submission" where
  "submissionOf j v = \<lparr>su_profile = (if jb_profile j \<in> {Profile3, Profile5} then Some (jb_profile j) else None),
     su_installationId = jb_installationId j, su_projectId = pj_id (jb_project j), su_adapterVersion = ad_version (jb_adapter j),
     su_observedAt = ob_observedAt v, su_session = ob_session v, su_threads = ob_threads v, su_events = ob_events v, su_usage = ob_usage v\<rparr>"

text \<open>Raw capture disabled by the server ends the Raw part only when no chunk may have been accepted.\<close>

definition rawDisabled :: "bool \<Rightarrow> legacy_error \<Rightarrow> ('e, raw_object list \<times> int \<times> int) legacy option" where
  "rawDisabled unresolved e = (case e of
       TransportFailure t \<Rightarrow> (if te_reason t \<noteq> TransportRawDisabled then None else Some
         (bindA (varL (\<lambda>v. v)) (\<lambda>v.
          if unresolved \<or> lv_pendingChunks v \<noteq> [] then failA (PolicyPause RawDisabledUncertain)
          else bindA (setL (\<lambda>v. v\<lparr>lv_rawEnabled := False, lv_progress := map_option (\<lambda>p. p\<lparr>pg_rawCaptureEnabled := Some False,
              pg_pendingRawBytes := Some (Whole 0)\<rparr>) (lv_progress v)\<rparr>)) (\<lambda>_.
            returnA (case lv_checkpoint v of None \<Rightarrow> lv_rawObjects v | Some k \<Rightarrow> kp_rawObjects k, 0, 0)))))
     | _ \<Rightarrow> None)"

definition publishObservation :: "'e legacy_job \<Rightarrow> bool \<Rightarrow> adapter_observation \<Rightarrow> ('e, unit) legacy" where
  "publishObservation j unresolved ob =
     bindA (varL lv_rawEnabled) (\<lambda>rawEnabled.
     let original = (if rawEnabled then ob else ob\<lparr>ob_rawSegments := []\<rparr>) in
     bindA (checkA (map_sum ContractFailure (\<lambda>x. x) (prepareCollectedObservation (jb_redactor j) original (jb_profile j)))) (\<lambda>(redacted, n).
     bindA (setL (\<lambda>v. v\<lparr>lv_redactions := lv_redactions v + n\<rparr>)) (\<lambda>_.
     let s = submissionOf j redacted in
     bindA (retryTransport (jb_env j) 3 (callL (CallSubmit s) TransportFailure (en_submit (jb_env j) s))) (\<lambda>sessionId.
     bindA (setL (\<lambda>v. v\<lparr>lv_batches := lv_batches v + 1, lv_published := True, lv_events := lv_events v + int (length (ob_events redacted))\<rparr>)) (\<lambda>_.
     let cx = \<lparr>ux_policyId = rd_policyId (jb_redactor j), ux_installationId = jb_installationId j, ux_adapterVersion = ad_version (jb_adapter j),
           ux_serverSessionId = sessionId, ux_sourceSessionId = as_sourceSessionId (ob_session redacted), ux_observedAt = ob_observedAt redacted\<rparr> in
     bindA (varL lv_rawObjects) (\<lambda>objects.
     bindA (catchA (rawDisabled unresolved) (appendRawSegments j cx (ob_rawSegments original) (ob_rawSegments redacted) objects)) (\<lambda>(objects', chunks, bytes).
       setL (\<lambda>v. v\<lparr>lv_rawObjects := objects', lv_chunks := lv_chunks v + chunks, lv_rawBytes := lv_rawBytes v + bytes,
         lv_observations := lv_observations v + 1\<rparr>))))))))"

definition settlePage :: "'e legacy_job \<Rightarrow> collection_page \<Rightarrow> ('e, bool) legacy" where
  "settlePage j page =
     bindA (setL (\<lambda>v. v\<lparr>lv_deliveryPending := False\<rparr>)) (\<lambda>_.
     bindA (varL (\<lambda>v. v)) (\<lambda>v.
     let needsCommit = (pa_observations page \<noteq> [] \<or> pa_nextCursor page \<noteq> lv_cursor v \<or>
           map_option kp_adapterVersion (lv_checkpoint v) \<noteq> Some (ad_version (jb_adapter j)) \<or>
           (rd_policyId (jb_redactor j) \<noteq> None \<and> Option.bind (lv_checkpoint v) kp_policyId \<noteq> rd_policyId (jb_redactor j))) in
     bindA (whenA needsCommit (commitCheckpoint j (pa_nextCursor page) (lv_rawObjects v) (ad_version (jb_adapter j)))) (\<lambda>_.
     bindA (setL (\<lambda>v. v\<lparr>lv_cursor := pa_nextCursor page, lv_hasMore := pa_hasMore page\<rparr>)) (\<lambda>_. returnA (pa_hasMore page)))))"

definition collectPage :: "'e legacy_job \<Rightarrow> bool \<Rightarrow> ('e, bool) legacy" where
  "collectPage j unresolved =
     bindA (varL (\<lambda>v. v)) (\<lambda>v.
     let request = collectRequest v in
     bindA (callL (CallCollect request) RuntimeFailure (en_collect (jb_env j) request)) (\<lambda>page.
     bindA (checkA (map_sum ContractFailure (\<lambda>x. x) (validatePage (lv_cursor v) page (jb_profile j)))) (\<lambda>_.
     bindA (setL (notePage (jb_redactor j) page)) (\<lambda>_.
     bindA (guardPage j page) (\<lambda>_.
     bindA (eachA (publishObservation j unresolved) (pa_observations page)) (\<lambda>_.
       settlePage j page))))))"

text \<open>The loop counts its pages up to the limit of a cycle.\<close>

fun collectPages :: "'e legacy_job \<Rightarrow> bool \<Rightarrow> nat \<Rightarrow> ('e, unit) legacy" where
  "collectPages j unresolved 0 = returnA ()"
| "collectPages j unresolved (Suc n) = bindA (collectPage j unresolved) (\<lambda>more. if more then collectPages j unresolved n else returnA ())"

section \<open>The cycle\<close>

record collection_report =
  lr_progress :: "collection_progress option"
  lr_canonicalEvents :: int
  lr_rawBytes :: int
  lr_durationMs :: int
  lr_projectId :: string
  lr_adapterId :: string
  lr_pages :: int
  lr_observations :: int
  lr_canonicalBatches :: int
  lr_rawChunks :: int
  lr_redactions :: int
  lr_hasMore :: bool
  lr_sourceFailures :: "source_failure list"
  lr_sourceFailuresTruncated :: bool

definition reportOf :: "'e legacy_job \<Rightarrow> legacy_vars \<Rightarrow> int \<Rightarrow> collection_report" where
  "reportOf j v duration = \<lparr>lr_progress = lv_progress v, lr_canonicalEvents = lv_events v, lr_rawBytes = lv_rawBytes v, lr_durationMs = duration,
     lr_projectId = pj_id (jb_project j), lr_adapterId = ad_adapterId (jb_adapter j), lr_pages = lv_pages v, lr_observations = lv_observations v,
     lr_canonicalBatches = lv_batches v, lr_rawChunks = lv_chunks v, lr_redactions = lv_redactions v, lr_hasMore = lv_hasMore v,
     lr_sourceFailures = map snd (lv_failures v), lr_sourceFailuresTruncated = lv_truncated v\<rparr>"

definition resumePause :: "string option \<Rightarrow> collector_checkpoint option \<Rightarrow> bool \<Rightarrow> policy_pause option" where
  "resumePause policyId checkpoint rawEnabled = (case checkpoint of
       None \<Rightarrow> None
     | Some k \<Rightarrow>
         (if policyId = None \<and> (kp_policyId k \<noteq> None \<or> list_ex (\<lambda>o1. wo_policyId o1 \<noteq> None) (kp_rawObjects k)) then Some UnversionedRedactor
          else if kp_policyId k \<noteq> None \<and> kp_deliveryPending k = None then Some MissingOutcomeMarker
          else if policyId \<noteq> None \<and> kp_deliveryPending k = Some True \<and> kp_policyId k \<noteq> policyId then Some OtherPolicyPending
          else if kp_deliveryPending k = Some True \<and> \<not> rawEnabled then Some RawDisabledPending
          else None))"

definition isPending :: "collector_checkpoint option \<Rightarrow> bool" where
  "isPending c \<longleftrightarrow> Option.bind c kp_deliveryPending = Some True"

definition startVars :: "state_snapshot \<Rightarrow> collector_checkpoint option \<Rightarrow> bool \<Rightarrow> legacy_vars" where
  "startVars sn c rawEnabled = \<lparr>lv_rawEnabled = rawEnabled, lv_checkpoint = c, lv_deliveryPending = isPending c, lv_pendingChunks = [],
     lv_published = (Option.bind c kp_canonicalPublished = Some True), lv_cursor = Option.bind c kp_cursor,
     lv_revision = revisionOf (sn_checkpoint sn), lv_rawObjects = (case c of None \<Rightarrow> [] | Some k \<Rightarrow> kp_rawObjects k), lv_progress = None,
     lv_events = 0, lv_rawBytes = 0, lv_pages = 0, lv_observations = 0, lv_batches = 0, lv_chunks = 0, lv_redactions = 0, lv_hasMore = False,
     lv_failures = [], lv_truncated = False, lv_acknowledged = []\<rparr>"

definition collectLegacyAdapter :: "'e legacy_job \<Rightarrow> state_snapshot \<Rightarrow> ('e, collection_report) legacy" where
  "collectLegacyAdapter j sn =
     (let en = jb_env j; c = legacyCheckpoint j sn in
     bindA (whenA (jb_profile j \<in> {Profile3, Profile5})
       (retryTransport en 3 (callL (CallEnsure (jb_profile j)) TransportFailure (en_ensureProfile en (jb_project j) (jb_profile j))))) (\<lambda>_.
     bindA (retryTransport en 3 (callL CallRawPolicy TransportFailure (en_rawEnabled en (jb_project j)))) (\<lambda>rawEnabled.
     case resumePause (rd_policyId (jb_redactor j)) c rawEnabled of
       Some p \<Rightarrow> failA (PolicyPause p)
     | None \<Rightarrow>
         bindA (setL (\<lambda>_. startVars sn c rawEnabled)) (\<lambda>_.
         bindA (readL (en_now en)) (\<lambda>started.
         bindA (collectPages j (isPending c) (nat (li_pagesPerCycle AdapterCollectionLimits))) (\<lambda>_.
         bindA (varL (\<lambda>v. v)) (\<lambda>v.
         bindA (readL (en_now en)) (\<lambda>finished. returnA (reportOf j v (finished - started))))))))))"

end
