(* ===== verification/LegacySafety.thy ===== *)
theory LegacySafety
  imports LegacyCycle
begin

text \<open>The invariant of a legacy collection cycle under a redaction policy: content leaves only after a checkpoint
  that marks its delivery pending was committed, and the last committed checkpoint is the stored one.
  Each effect of the cycle satisfies a triple over it.\<close>

section \<open>The calls of a cycle\<close>

fun isContent :: "legacy_call \<Rightarrow> bool" where
  "isContent (CallSubmit s) = True"
| "isContent (CallAppend s) = True"
| "isContent _ = False"

fun isCommit :: "legacy_call \<Rightarrow> bool" where
  "isCommit (CallCommit k) = True"
| "isCommit _ = False"

definition pendingUnder :: "string \<Rightarrow> collector_checkpoint option \<Rightarrow> bool" where
  "pendingUnder p c \<longleftrightarrow> Option.bind c kp_policyId = Some p \<and> isPending c"

fun lastCommit :: "collector_checkpoint option \<Rightarrow> legacy_call list \<Rightarrow> collector_checkpoint option" where
  "lastCommit c [] = c"
| "lastCommit c (CallCommit k # xs) = lastCommit (Some k) xs"
| "lastCommit c (x # xs) = lastCommit c xs"

text \<open>Every commit is under the policy, and content follows a commit that marks it pending.\<close>

fun contentGuarded :: "string \<Rightarrow> collector_checkpoint option \<Rightarrow> legacy_call list \<Rightarrow> bool" where
  "contentGuarded p c [] = True"
| "contentGuarded p c (CallCommit k # xs) = (kp_policyId k = Some p \<and> contentGuarded p (Some k) xs)"
| "contentGuarded p c (x # xs) = ((if isContent x then pendingUnder p c else True) \<and> contentGuarded p c xs)"

text \<open>Content was sent that no later commit has settled.\<close>

fun openContent :: "bool \<Rightarrow> legacy_call list \<Rightarrow> bool" where
  "openContent b [] = b"
| "openContent b (CallCommit k # xs) = openContent (b \<and> kp_deliveryPending k = Some True) xs"
| "openContent b (x # xs) = openContent (b \<or> isContent x) xs"

lemma lastCommit_snoc: "lastCommit c (xs @ [x]) = (case x of CallCommit k \<Rightarrow> Some k | _ \<Rightarrow> lastCommit c xs)"
  by (induction c xs rule: lastCommit.induct) (auto split: legacy_call.splits)

lemma contentGuarded_snoc: "contentGuarded p c (xs @ [x]) \<longleftrightarrow> contentGuarded p c xs \<and>
    (case x of CallCommit k \<Rightarrow> kp_policyId k = Some p | _ \<Rightarrow> if isContent x then pendingUnder p (lastCommit c xs) else True)"
  by (induction p c xs rule: contentGuarded.induct) (auto split: legacy_call.splits)

lemma openContent_pending:
  "contentGuarded p c xs \<Longrightarrow> openContent b xs \<Longrightarrow> (b \<Longrightarrow> pendingUnder p c) \<Longrightarrow> pendingUnder p (lastCommit c xs)"
  by (induction p c xs arbitrary: b rule: contentGuarded.induct) (auto simp: pendingUnder_def isPending_def split: if_splits)

section \<open>The invariant\<close>

text \<open>With the flag set the invariant also speaks of the stored state.\<close>

definition guarded :: "string \<Rightarrow> 'e legacy_world \<Rightarrow> bool" where
  "guarded p w \<longleftrightarrow> contentGuarded p None (lw_calls w)"

definition storedAs :: "bool \<Rightarrow> 'e legacy_job \<Rightarrow> 'e legacy_world \<Rightarrow> collector_checkpoint option \<Rightarrow> bool" where
  "storedAs b j w c \<longleftrightarrow> (if b then uniqueCheckpoints (lw_files w) \<and> (c = None \<or> checkpointMap (lw_files w) (projectKey j) = c) else True)"

definition cycleInv :: "bool \<Rightarrow> string \<Rightarrow> 'e legacy_job \<Rightarrow> 'e legacy_world \<Rightarrow> bool" where
  "cycleInv b p j w \<longleftrightarrow> guarded p w \<and> storedAs b j w (lv_checkpoint (lw_vars w)) \<and>
     (lastCommit None (lw_calls w) = None \<or> lastCommit None (lw_calls w) = lv_checkpoint (lw_vars w))"

definition cycleError :: "bool \<Rightarrow> string \<Rightarrow> 'e legacy_job \<Rightarrow> legacy_error \<Rightarrow> 'e legacy_world \<Rightarrow> bool" where
  "cycleError b p j e w \<longleftrightarrow> guarded p w \<and> (case e of StateFailure _ \<Rightarrow> True | _ \<Rightarrow> storedAs b j w (lastCommit None (lw_calls w)))"

definition storeError :: "string \<Rightarrow> legacy_error \<Rightarrow> 'e legacy_world \<Rightarrow> bool" where
  "storeError p e w \<longleftrightarrow> guarded p w \<and> (case e of StateFailure _ \<Rightarrow> True | _ \<Rightarrow> False)"

definition committed :: "string \<Rightarrow> bool \<Rightarrow> string \<Rightarrow> 'e legacy_world \<Rightarrow> bool" where
  "committed p d version w \<longleftrightarrow> lv_deliveryPending (lw_vars w) = d \<and> (\<exists>k. lv_checkpoint (lw_vars w) = Some k \<and>
     lastCommit None (lw_calls w) = Some k \<and> kp_policyId k = Some p \<and> kp_deliveryPending k = Some d \<and> kp_adapterVersion k = version)"

definition publishing :: "bool \<Rightarrow> string \<Rightarrow> 'e legacy_job \<Rightarrow> 'e legacy_world \<Rightarrow> bool" where
  "publishing b p j w \<longleftrightarrow> cycleInv b p j w \<and> (\<exists>v. committed p True v w)"

definition publishError :: "bool \<Rightarrow> string \<Rightarrow> 'e legacy_job \<Rightarrow> legacy_error \<Rightarrow> 'e legacy_world \<Rightarrow> bool" where
  "publishError b p j e w \<longleftrightarrow> (case e of StateFailure _ \<Rightarrow> guarded p w | _ \<Rightarrow> publishing b p j w)"

lemmas cycle_defs = publishing_def cycleInv_def cycleError_def committed_def storedAs_def guarded_def

lemma cycleInv_error: "cycleInv b p j w \<Longrightarrow> cycleError b p j e w"
  by (cases e) (auto simp: cycle_defs)

lemma publishing_error: "publishing b p j w \<Longrightarrow> publishError b p j e w"
  by (cases e) (auto simp: publishError_def cycle_defs)

lemma publishError_cycle: "publishError b p j e w \<Longrightarrow> cycleError b p j e w"
  by (cases e) (auto simp: publishError_def cycle_defs)

lemma storeError_cycle: "storeError p e w \<Longrightarrow> cycleError b p j e w" "storeError p e w \<Longrightarrow> publishError b p j e w"
  by (cases e; simp add: storeError_def publishError_def cycleError_def)+

lemma publishing_pending: "publishing b p j w \<Longrightarrow> pendingUnder p (lastCommit None (lw_calls w))"
  by (auto simp: cycle_defs pendingUnder_def isPending_def)

section \<open>Steps\<close>

text \<open>A predicate the environment cannot touch.\<close>

definition inert :: "('e legacy_world \<Rightarrow> bool) \<Rightarrow> bool" where
  "inert P \<longleftrightarrow> (\<forall>w e. P w \<longrightarrow> P (w\<lparr>lw_env := e\<rparr>))"

lemma inertD: "inert P \<Longrightarrow> P w \<Longrightarrow> P (w\<lparr>lw_env := e\<rparr>)"
  by (simp add: inert_def)

lemma inert_simps [simp]: "inert (cycleInv b p j)" "inert (publishing b p j)" "inert (guarded p)"
  by (simp_all add: inert_def cycle_defs)

lemma ensures_varL: "ensures P (varL f) (\<lambda>x w. P w \<and> x = f (lw_vars w)) E"
  by (simp add: varL_def ensures_get)

lemma keeps_varL: "ensures P (varL f) (\<lambda>_. P) E"
  by (simp add: varL_def ensures_get)

lemma ensures_setL: "(\<And>w. P w \<Longrightarrow> Q (w\<lparr>lw_vars := f (lw_vars w)\<rparr>)) \<Longrightarrow> ensures P (setL f) (\<lambda>_. Q) E"
  by (simp add: setL_def ensures_modify)

lemma ensures_readL: "inert P \<Longrightarrow> ensures P (readL f) (\<lambda>_. P) E"
  by (auto simp: ensures_def readL_def Let_def inertD split: prod.split)

lemma ensures_sleepL: "inert P \<Longrightarrow> ensures P (sleepL en n e) (\<lambda>_. P) E"
  unfolding sleepL_def by (rule ensures_bind[OF ensures_readL]) (auto intro!: ensures_modify simp: inertD)

lemma ensures_callL:
  assumes "\<And>w e. P w \<Longrightarrow> Q (w\<lparr>lw_env := e, lw_calls := lw_calls w @ [c]\<rparr>)"
  shows "ensures P (callL c fail f) (\<lambda>_. Q) (\<lambda>_. Q)"
  using assms by (auto simp: ensures_def callL_def Let_def split: prod.split sum.split)

lemma ensures_retry:
  assumes "inert P" "ensures P m (\<lambda>_. P) E" "\<And>e w. E e w \<Longrightarrow> P w"
  shows "ensures P (retryTransport en n m) (\<lambda>_. P) E"
proof (induction n rule: less_induct)
  case (less n)
  let ?S = "\<lambda>r w. P w \<and> (\<forall>e. r = Inl e \<longrightarrow> E e w)"
  have "ensures (?S r) (case r of Inr x \<Rightarrow> returnA x
      | Inl (TransportFailure e) \<Rightarrow> (if te_retryable e \<and> n > 1 then bindA (sleepL en n e) (\<lambda>_. retryTransport en (n - 1) m)
          else failA (TransportFailure e))
      | Inl e \<Rightarrow> failA e) (\<lambda>_. P) E" for r
  proof (cases "\<exists>e. r = Inl (TransportFailure e) \<and> te_retryable e \<and> n > 1")
    case True
    then obtain e where "r = Inl (TransportFailure e)" "te_retryable e \<and> n > 1" by blast
    then show ?thesis
      using less[of "n - 1"] by (auto intro: ensures_weaken[OF ensures_bind[OF ensures_sleepL[OF assms(1)]]])
  next
    case False
    then show ?thesis
      by (cases r) (auto split: legacy_error.split intro!: ensures_return ensures_fail)
  qed
  note step = this
  show ?case
    unfolding retryTransport.simps[of en n m] by (rule ensures_bind[OF ensures_try[OF assms(2), of ?S]]) (rule step | simp add: assms(3))+
qed

lemma ensures_weaken_error: "ensures P m Q E' \<Longrightarrow> (\<And>e w. E' e w \<Longrightarrow> E e w) \<Longrightarrow> ensures P m Q E"
  by (erule ensures_weaken) auto

section \<open>Commits\<close>

lemma keyOf_nextCheckpoint: "keyOf (nextCheckpoint j v cursor objects version now) = projectKey j"
  by (simp add: nextCheckpoint_def checkpoint_key.defs)

lemma commitL_cases:
  assumes "commitL j expected k w = (w', r)"
  obtains so env files e where
    "commitState so \<lparr>ci_key = projectKey j, ci_expectedRevision = expected, ci_checkpoint = k\<rparr> (lw_files w) = (files, Inl e)"
    "r = Inl (StateFailure e)" "w' = w\<lparr>lw_env := env, lw_files := files\<rparr>"
  | so env files where
    "commitState so \<lparr>ci_key = projectKey j, ci_expectedRevision = expected, ci_checkpoint = k\<rparr> (lw_files w) = (files, Inr ())"
    "r = Inr ()" "w' = w\<lparr>lw_env := env, lw_files := files, lw_calls := lw_calls w @ [CallCommit k]\<rparr>"
proof -
  obtain env so where env: "en_storage (jb_env j) (lw_env w) = (env, so)" by fastforce
  obtain files res where run: "commitState so \<lparr>ci_key = projectKey j, ci_expectedRevision = expected, ci_checkpoint = k\<rparr> (lw_files w) = (files, res)"
    by fastforce
  show ?thesis
    using assms env run that by (cases res) (auto simp: commitL_def bindA_def readL_def)
qed

lemma commitL_triple:
  assumes "kp_policyId k = Some p" "keyOf k = projectKey j"
  shows "ensures (\<lambda>w. cycleInv b p j w \<and> lv_deliveryPending (lw_vars w) = d) (commitL j expected k)
    (\<lambda>_ w. guarded p w \<and> lastCommit None (lw_calls w) = Some k \<and> storedAs b j w (Some k) \<and> lv_deliveryPending (lw_vars w) = d)
    (storeError p)" (is "ensures ?I _ ?Q _")
proof (rule ensuresI)
  fix w assume w: "?I w"
  obtain w' r where run: "commitL j expected k w = (w', r)" by fastforce
  then show "case commitL j expected k w of (w', Inr x) \<Rightarrow> ?Q x w' | (w', Inl e) \<Rightarrow> storeError p e w'"
  proof (cases rule: commitL_cases)
    case 1
    then show ?thesis using run w by (simp add: cycle_defs storeError_def)
  next
    case (2 so env files)
    have "storedAs b j w' (Some k)" if "b"
      using commit_cases[OF _ 2(1)] w 2(3) that by (auto simp: cycle_defs casCommit_Some)
    then have "storedAs b j w' (Some k)" by (cases b) (simp_all add: storedAs_def)
    then show ?thesis using run w assms 2 by (simp add: cycleInv_def guarded_def contentGuarded_snoc lastCommit_snoc)
  qed
qed

lemma commitCheckpoint_triple:
  assumes "rd_policyId (jb_redactor j) = Some p"
  shows "ensures (\<lambda>w. cycleInv b p j w \<and> lv_deliveryPending (lw_vars w) = d) (commitCheckpoint j cursor objects version)
    (\<lambda>_ w. cycleInv b p j w \<and> committed p d version w) (storeError p)" (is "ensures ?I _ ?Q _")
proof -
  let ?k = "\<lambda>v now. nextCheckpoint j v cursor objects version now"
  have "ensures (\<lambda>w. ?I w \<and> v = lw_vars w) (bindA (commitL j (lv_revision v) (?k v now)) (\<lambda>_.
      setL (\<lambda>v'. v'\<lparr>lv_checkpoint := Some (?k v now), lv_revision := kp_revision (?k v now)\<rparr>))) ?Q (storeError p)" for v now
  proof (cases "lv_deliveryPending v = d")
    case True
    have k: "kp_policyId (?k v now) = Some p" "keyOf (?k v now) = projectKey j" "kp_deliveryPending (?k v now) = Some d"
      "kp_adapterVersion (?k v now) = version"
      using assms True by (simp_all add: nextCheckpoint_def checkpoint_key.defs)
    show ?thesis
      by (rule ensures_weaken[OF ensures_bind[OF commitL_triple[OF k(1,2), of b d] ensures_setL[where Q = "?Q ()"]]])
        (auto simp: k cycle_defs)
  next
    case False
    then show ?thesis by (auto simp: ensures_def)
  qed
  moreover have "inert (\<lambda>w. ?I w \<and> v = lw_vars w)" for v by (simp add: inert_def cycle_defs)
  ultimately show ?thesis
    unfolding commitCheckpoint_def Let_def by (intro ensures_bind[OF ensures_varL] ensures_bind[OF ensures_readL])
qed


lemma publishing_commit:
  assumes "rd_policyId (jb_redactor j) = Some p"
  shows "ensures (publishing b p j) (commitCheckpoint j cursor objects version) (\<lambda>_. publishing b p j) (publishError b p j)"
  by (rule ensures_weaken[OF commitCheckpoint_triple[OF assms, of b True]]) (auto simp: publishing_def committed_def intro: storeError_cycle)

section \<open>Uploads\<close>

lemma publishing_set:
  assumes "\<And>v. lv_checkpoint (f v) = lv_checkpoint v \<and> lv_deliveryPending (f v) = lv_deliveryPending v"
  shows "ensures (publishing b p j) (setL f) (\<lambda>_. publishing b p j) E"
  by (rule ensures_setL) (use assms in \<open>auto simp: cycle_defs\<close>)

lemma publishing_call:
  assumes "\<not> isCommit c"
  shows "keeps (publishing b p j) (callL c fail f)"
proof (rule ensures_callL)
  fix w :: "'a legacy_world" and e
  assume w: "publishing b p j w"
  have "contentGuarded p None (lw_calls w @ [c]) \<and> lastCommit None (lw_calls w @ [c]) = lastCommit None (lw_calls w)"
    using publishing_pending[OF w] assms w by (cases c) (auto simp: contentGuarded_snoc lastCommit_snoc cycle_defs)
  with w show "publishing b p j (w\<lparr>lw_env := e, lw_calls := lw_calls w @ [c]\<rparr>)"
    by (auto simp: cycle_defs)
qed

lemma publishing_attempt: "ensures (publishing b p j) (attemptUpload j s key) (\<lambda>_. publishing b p j) (\<lambda>_. publishing b p j)"
  unfolding attemptUpload_def
  by (intro ensures_bind[OF keeps_varL] ensures_bind[OF publishing_set]
      ensures_bind[OF ensures_try[OF publishing_call, where S = "\<lambda>_. publishing b p j"]])
    (auto split: sum.split legacy_error.split intro!: keeps_simple ensures_bind[OF ensures_when[OF publishing_set]])

lemma publishing_persist:
  assumes "rd_policyId (jb_redactor j) = Some p"
  shows "ensures (publishing b p j) (persistUpload j cx objectId objects) (\<lambda>_. publishing b p j) (publishError b p j)"
  unfolding persistUpload_def Let_def
  by (auto split: option.split intro!: keeps_simple ensures_return ensures_bind[OF keeps_varL] ensures_bind[OF publishing_commit[OF assms]] publishing_set)

text \<open>A step of the publishing phase fails in it, except for a failure of the store.\<close>

abbreviation publishes :: "bool \<Rightarrow> string \<Rightarrow> 'e legacy_job \<Rightarrow> ('e, 'a) legacy \<Rightarrow> bool" where
  "publishes b p j m \<equiv> ensures (publishing b p j) m (\<lambda>_. publishing b p j) (publishError b p j)"

lemma publishes_keeps: "keeps (publishing b p j) m \<Longrightarrow> publishes b p j m"
  by (erule ensures_weaken) (auto simp: publishing_error)

lemma publishes_simple: "publishes b p j (returnA x)" "publishes b p j (failA e)" "publishes b p j (checkA c)"
  by (auto intro: publishes_keeps keeps_simple)

lemmas publishes_set = publishing_set[where E = "publishError b p j" for b p j]
lemmas publishes_sleep = ensures_sleepL[OF inert_simps(2), where E = "publishError b p j" for b p j]
lemmas publishes_rules = publishes_simple publishes_set publishes_sleep publishing_persist
  ensures_bind[OF publishes_keeps[OF publishing_attempt]] ensures_bind[OF publishes_set] ensures_bind[OF publishes_sleep]
  ensures_bind[OF publishing_persist]

lemma publishes_runUpload:
  assumes "rd_policyId (jb_redactor j) = Some p"
  shows "publishes b p j (runUpload j cx objectId u)"
  by (induction u) (auto intro!: publishes_rules assms)

lemma publishes_stepUpload:
  assumes "rd_policyId (jb_redactor j) = Some p"
  shows "publishes b p j (stepUpload j cx objectId u)"
  by (cases u) (auto intro!: publishes_rules assms)

lemma publishes_finish:
  assumes "rd_policyId (jb_redactor j) = Some p"
  shows "publishes b p j (finishUploads j cx us chunks bytes)"
  by (induction us arbitrary: chunks bytes)
    (auto intro!: publishes_simple ensures_bind[OF publishes_runUpload] assms split: prod.split)

lemma publishes_interleave:
  assumes "rd_policyId (jb_redactor j) = Some p"
  shows "publishes b p j (interleave j cx schedule running waiting chunks bytes)"
  by (induction schedule arbitrary: running waiting chunks bytes)
    (auto simp: Let_def intro!: publishes_finish ensures_bind[OF publishes_stepUpload] assms split: prod.split upload.split)

lemma publishes_append:
  assumes "rd_policyId (jb_redactor j) = Some p"
  shows "publishes b p j (appendRawSegments j cx original redacted objects)"
  unfolding appendRawSegments_def Let_def
  by (auto split: prod.split intro!: publishes_simple ensures_bind[OF publishes_set] ensures_bind[OF ensures_readL]
      ensures_bind[OF publishes_interleave[OF assms]] ensures_bind[OF keeps_varL])


section \<open>Pages\<close>

lemma publishes_rawDisabled:
  assumes "rawDisabled unresolved e = Some m"
  shows "publishes b p j m"
proof -
  obtain t where "e = TransportFailure t" using assms by (cases e) (auto simp: rawDisabled_def)
  then show ?thesis
    using assms by (auto simp: rawDisabled_def split: if_splits
        intro!: publishes_simple ensures_bind[OF keeps_varL] ensures_bind[OF publishes_set])
qed


lemma publishes_observation:
  assumes "rd_policyId (jb_redactor j) = Some p"
  shows "publishes b p j (publishObservation j unresolved ob)"
proof -
  have submit: "publishes b p j (retryTransport (jb_env j) 3 (callL (CallSubmit s) TransportFailure (en_submit (jb_env j) s)))" for s
    by (rule publishes_keeps, rule ensures_retry, rule inert_simps(2), rule publishing_call) simp_all
  have append: "publishes b p j (catchA (rawDisabled unresolved) (appendRawSegments j cx original redacted objects))" for cx original redacted objects
  proof (rule ensures_catch[OF publishes_append[OF assms]])
    show "ensures (publishError b p j e) m (\<lambda>_. publishing b p j) (publishError b p j)" if m: "rawDisabled unresolved e = Some m" for e m
    proof -
      obtain t where e: "e = TransportFailure t" using m by (cases e) (auto simp: rawDisabled_def)
      show ?thesis by (rule ensures_weaken[OF publishes_rawDisabled[OF m]]) (simp_all add: e publishError_def)
    qed
  qed
  show ?thesis
    unfolding publishObservation_def Let_def
    by (intro ensures_bind[OF keeps_varL] ensures_bind[OF publishes_simple(3)])
      (auto split: prod.split intro!: publishes_set ensures_bind[OF publishes_set] ensures_bind[OF submit] ensures_bind[OF keeps_varL] ensures_bind[OF append])
qed

text \<open>Between pages the checkpoint of the policy says whether delivery is pending.\<close>

definition betweenPages :: "bool \<Rightarrow> string \<Rightarrow> 'e legacy_job \<Rightarrow> 'e legacy_world \<Rightarrow> bool" where
  "betweenPages b p j w \<longleftrightarrow> cycleInv b p j w \<and>
     (\<forall>k. lv_checkpoint (lw_vars w) = Some k \<longrightarrow> kp_policyId k = Some p \<longrightarrow> kp_deliveryPending k = Some (lv_deliveryPending (lw_vars w)))"

definition pageAdmitted :: "bool \<Rightarrow> string \<Rightarrow> 'e legacy_job \<Rightarrow> collection_page \<Rightarrow> 'e legacy_world \<Rightarrow> bool" where
  "pageAdmitted b p j page w \<longleftrightarrow>
     (if pa_observations page = [] then betweenPages b p j w \<and> \<not> lv_deliveryPending (lw_vars w) else publishing b p j w)"

definition settledPage :: "bool \<Rightarrow> string \<Rightarrow> 'e legacy_job \<Rightarrow> 'e legacy_world \<Rightarrow> bool" where
  "settledPage b p j w \<longleftrightarrow> cycleInv b p j w \<and> \<not> lv_deliveryPending (lw_vars w) \<and> (\<exists>k. lv_checkpoint (lw_vars w) = Some k \<and>
     kp_policyId k = Some p \<and> kp_deliveryPending k = Some False \<and> kp_adapterVersion k = ad_version (jb_adapter j))"

lemma betweenPages_error: "betweenPages b p j w \<Longrightarrow> cycleError b p j e w"
  by (simp add: betweenPages_def cycleInv_error)

lemma settledPage_between: "settledPage b p j w \<Longrightarrow> betweenPages b p j w"
  by (auto simp: settledPage_def betweenPages_def)

lemma between_commit:
  assumes "rd_policyId (jb_redactor j) = Some p"
  shows "ensures (\<lambda>w. betweenPages b p j w \<and> lv_deliveryPending (lw_vars w)) (commitCheckpoint j cursor objects version)
    (\<lambda>_. publishing b p j) (cycleError b p j)"
  by (rule ensures_weaken[OF commitCheckpoint_triple[OF assms, of b True]]) (auto simp: publishing_def betweenPages_def storeError_cycle)

lemma guardPage_triple:
  assumes "rd_policyId (jb_redactor j) = Some p"
  shows "ensures (betweenPages b p j) (guardPage j page) (\<lambda>_. pageAdmitted b p j page) (cycleError b p j)"
proof -
  have commit: "ensures (cycleInv b p j) (bindA (setL (\<lambda>v. v\<lparr>lv_deliveryPending := True\<rparr>)) (\<lambda>_.
      bindA (varL (\<lambda>v. v)) (\<lambda>v. commitCheckpoint j (lv_cursor v) (lv_rawObjects v) (savedVersion j v))))
      (\<lambda>_. publishing b p j) (cycleError b p j)"
    by (intro ensures_bind[OF ensures_setL[where Q = "\<lambda>w. cycleInv b p j w \<and> lv_deliveryPending (lw_vars w)"]]
        ensures_bind[OF keeps_varL] ensures_weaken[OF commitCheckpoint_triple[OF assms, of b True]])
      (auto simp: publishing_def cycleInv_def committed_def guarded_def storedAs_def storeError_cycle)
  show ?thesis
    unfolding guardPage_def whenA_def using assms
    by (auto simp: pageAdmitted_def intro!: ensures_bind[OF ensures_varL] ensures_if ensures_fail ensures_return
        intro: betweenPages_error ensures_weaken[OF commit] simp: betweenPages_def)
qed


lemma settlePage_triple:
  assumes "rd_policyId (jb_redactor j) = Some p"
  shows "ensures (pageAdmitted b p j page) (settlePage j page) (\<lambda>_. settledPage b p j) (cycleError b p j)"
proof -
  let ?A = "\<lambda>w. cycleInv b p j w \<and> \<not> lv_deliveryPending (lw_vars w) \<and> (if pa_observations page = [] then betweenPages b p j w else True)"
  have set: "ensures (pageAdmitted b p j page) (setL (\<lambda>v. v\<lparr>lv_deliveryPending := False\<rparr>)) (\<lambda>_. ?A) (cycleError b p j)"
    by (rule ensures_setL) (auto simp: pageAdmitted_def betweenPages_def cycle_defs split: if_splits option.splits)
  have commit: "ensures ?A (commitCheckpoint j cursor objects (ad_version (jb_adapter j))) (\<lambda>_. settledPage b p j) (cycleError b p j)" for cursor objects
    by (rule ensures_weaken[OF commitCheckpoint_triple[OF assms, of b False]]) (auto simp: settledPage_def committed_def storeError_cycle)
  have finish: "ensures (settledPage b p j) (setL (\<lambda>v. v\<lparr>lv_cursor := c, lv_hasMore := m\<rparr>)) (\<lambda>_. settledPage b p j) (cycleError b p j)" for c m
    by (rule ensures_setL) (auto simp: settledPage_def cycle_defs)
  show ?thesis
    unfolding settlePage_def Let_def
    apply (intro ensures_bind[OF set] ensures_bind[OF ensures_varL])
    apply (rule ensures_bind[where R = "\<lambda>_. settledPage b p j"])
     apply (intro ensures_when ensures_weaken[OF commit])
    by (auto simp: settledPage_def betweenPages_def assms split: option.splits intro!: ensures_bind[OF finish] ensures_return)
qed

lemma collectPage_triple:
  assumes "rd_policyId (jb_redactor j) = Some p"
  shows "ensures (betweenPages b p j) (collectPage j unresolved) (\<lambda>_. settledPage b p j) (cycleError b p j)"
proof -
  have call: "ensures (betweenPages b p j) (callL (CallCollect r) f g) (\<lambda>_. betweenPages b p j) (cycleError b p j)" for r f g
    by (rule ensures_weaken_error[OF ensures_callL[where Q = "betweenPages b p j"]])
      (auto simp: betweenPages_error, simp add: betweenPages_def cycle_defs contentGuarded_snoc lastCommit_snoc split: option.split)
  have check: "ensures (betweenPages b p j) (checkA c) (\<lambda>_. betweenPages b p j) (cycleError b p j)" for c
    by (simp add: ensures_check betweenPages_error)
  have note_failure: "lv_checkpoint (noteFailure r f v) = lv_checkpoint v \<and> lv_deliveryPending (noteFailure r f v) = lv_deliveryPending v" for r f v
    by (simp add: noteFailure_def Let_def split: prod.split)
  have note_failures: "lv_checkpoint (fold (noteFailure r) fs v) = lv_checkpoint v \<and> lv_deliveryPending (fold (noteFailure r) fs v) = lv_deliveryPending v" for r fs v
    by (induction fs arbitrary: v) (simp_all add: note_failure)
  have set: "ensures (betweenPages b p j) (setL (notePage r page)) (\<lambda>_. betweenPages b p j) (cycleError b p j)" for r page
    by (rule ensures_setL) (auto simp: notePage_def note_failures betweenPages_def cycle_defs)
  have observe: "ensures (pageAdmitted b p j page) (eachA (publishObservation j unresolved) (pa_observations page)) (\<lambda>_. pageAdmitted b p j page) (cycleError b p j)" for page
  proof (cases "pa_observations page")
    case (Cons x xs)
    have "publishes b p j (eachA (publishObservation j unresolved) (pa_observations page))"
      by (rule ensures_each) (rule publishes_observation[OF assms])
    then show ?thesis by (rule ensures_weaken) (simp_all add: pageAdmitted_def Cons publishError_cycle)
  qed (simp add: ensures_return)
  show ?thesis
    unfolding collectPage_def Let_def
    by (intro ensures_bind[OF keeps_varL] ensures_bind[OF call] ensures_bind[OF check] ensures_bind[OF set]
        ensures_bind[OF guardPage_triple[OF assms]] ensures_bind[OF observe] settlePage_triple[OF assms])
qed

lemma collectPages_triple:
  assumes "rd_policyId (jb_redactor j) = Some p"
  shows "ensures (betweenPages b p j) (collectPages j unresolved (Suc n)) (\<lambda>_. settledPage b p j) (cycleError b p j)"
proof (induction n)
  case 0
  show ?case by (auto intro!: ensures_bind[OF collectPage_triple[OF assms]] ensures_return)
next
  case (Suc n)
  show ?case
    unfolding collectPages.simps(2)[of j unresolved "Suc n"]
    by (auto intro!: ensures_bind[OF collectPage_triple[OF assms]] ensures_return ensures_if
        intro: ensures_weaken[OF Suc] settledPage_between simp del: collectPages.simps)
qed

end
