(* ===== verification/LegacyProperties.thy ===== *)
theory LegacyProperties
  imports LegacySafety
begin

text \<open>The properties of a legacy collection cycle: content follows its pending checkpoint, a finished cycle is
  settled, an interrupted one stays pending, and another policy's pending delivery pauses the cycle.\<close>

section \<open>The start of a cycle\<close>

lemma map_sum_failed: "map_sum f g x = Inl a \<longleftrightarrow> (\<exists>b. x = Inl b \<and> a = f b)"
  by (cases x) auto

text \<open>Before the first page only the admission of the profile and the Raw policy are asked for.\<close>

definition cycleStart :: "bool \<Rightarrow> string \<Rightarrow> 'e legacy_job \<Rightarrow> state_snapshot \<Rightarrow> 'e legacy_world \<Rightarrow> bool" where
  "cycleStart b p j sn w \<longleftrightarrow> guarded p w \<and> lastCommit None (lw_calls w) = None \<and>
     (if b then uniqueCheckpoints (lw_files w) \<and> sn_checkpoint sn = checkpointMap (lw_files w) (projectKey j) else True)"

lemma cycleStart_error: "cycleStart b p j sn w \<Longrightarrow> cycleError b p j e w"
  by (cases e) (auto simp: cycleStart_def cycleError_def storedAs_def)

lemma cycleStart_request:
  assumes "\<not> isContent c" "\<not> isCommit c"
  shows "ensures (cycleStart b p j sn) (retryTransport en n (callL c fail f)) (\<lambda>_. cycleStart b p j sn) (cycleError b p j)"
proof -
  have "keeps (cycleStart b p j sn) (callL c fail f)"
    by (rule ensures_callL) (use assms in \<open>auto simp: cycleStart_def guarded_def contentGuarded_snoc lastCommit_snoc split: legacy_call.splits\<close>)
  moreover have "inert (cycleStart b p j sn)" by (simp add: inert_def cycleStart_def guarded_def)
  ultimately show ?thesis by (intro ensures_weaken_error[OF ensures_retry[where E = "\<lambda>_. cycleStart b p j sn"]]) (auto simp: cycleStart_error)
qed

lemma startVars_between:
  assumes "cycleStart b p j sn w" "resumePause (Some p) (legacyCheckpoint j sn) rawEnabled = None"
  shows "betweenPages b p j (w\<lparr>lw_vars := startVars sn (legacyCheckpoint j sn) rawEnabled\<rparr>)"
proof (cases "legacyCheckpoint j sn")
  case None
  then show ?thesis using assms(1) by (simp add: betweenPages_def cycleInv_def cycleStart_def guarded_def storedAs_def startVars_def)
next
  case (Some k)
  then have "sn_checkpoint sn = Some k" by (auto simp: legacyCheckpoint_def split: option.splits if_splits)
  moreover have "kp_policyId k = Some p \<Longrightarrow> kp_deliveryPending k = Some (isPending (Some k))"
    using assms(2) Some by (auto simp: resumePause_def isPending_def split: if_splits)
  ultimately show ?thesis
    using assms(1) Some by (auto simp: betweenPages_def cycleInv_def cycleStart_def guarded_def storedAs_def startVars_def)
qed

lemma cycle_triple:
  assumes "rd_policyId (jb_redactor j) = Some p"
  shows "ensures (cycleStart b p j sn) (collectLegacyAdapter j sn) (\<lambda>_. settledPage b p j) (cycleError b p j)"
proof -
  obtain n where pages: "nat (li_pagesPerCycle AdapterCollectionLimits) = Suc n" by (simp add: AdapterCollectionLimits_def)
  have clock: "ensures P (readL f) (\<lambda>_. P) (cycleError b p j)" if "P = betweenPages b p j \<or> P = settledPage b p j" for P :: "'a legacy_world \<Rightarrow> bool" and f :: "'a \<Rightarrow> 'a \<times> int"
    using that by (intro ensures_readL) (auto simp: inert_def betweenPages_def settledPage_def cycle_defs)
  have body: "ensures (cycleStart b p j sn) (bindA (setL (\<lambda>_. startVars sn (legacyCheckpoint j sn) rawEnabled)) (\<lambda>_.
         bindA (readL (en_now en)) (\<lambda>started.
         bindA (collectPages j unresolved (Suc n)) (\<lambda>_.
         bindA (varL (\<lambda>v. v)) (\<lambda>v.
         bindA (readL (en_now en)) (\<lambda>finished. returnA (reportOf j v (finished - started)))))))) (\<lambda>_. settledPage b p j) (cycleError b p j)"
    if "resumePause (Some p) (legacyCheckpoint j sn) rawEnabled = None" for rawEnabled en unresolved
    by (intro ensures_bind[OF ensures_setL[where Q = "betweenPages b p j"]] ensures_bind[OF clock] ensures_bind[OF collectPages_triple[OF assms]]
        ensures_bind[OF keeps_varL] ensures_return startVars_between that) simp_all
  show ?thesis
    unfolding collectLegacyAdapter_def Let_def pages assms
    by (intro ensures_bind[OF ensures_when[OF cycleStart_request]] ensures_bind[OF cycleStart_request])
      (auto split: option.split intro!: ensures_fail body cycleStart_error simp del: collectPages.simps)
qed

section \<open>Properties\<close>

text \<open>C26: Under a redaction policy a collection cycle commits checkpoints of that policy only, and every canonical
  submission and Raw append is made while the last committed checkpoint marks the delivery pending: a
  crash at any point after content left finds the mark stored.\<close>
theorem content_waits_for_pending:
  assumes "rd_policyId (jb_redactor j) = Some p" "lw_calls w = []"
  shows "contentGuarded p None (lw_calls (fst (collectLegacyAdapter j sn w)))"
proof -
  have "cycleStart False p j sn w" using assms(2) by (simp add: cycleStart_def guarded_def)
  then show ?thesis
    using cycle_triple[OF assms(1), of False sn] by (cases "collectLegacyAdapter j sn w"; cases "snd (collectLegacyAdapter j sn w)")
      (auto dest: ensuresD ensures_failed simp: settledPage_def cycleInv_def cycleError_def guarded_def)
qed

text \<open>C29: A cycle that reports success has settled its delivery: the stored checkpoint of the project carries the
  current policy and Adapter version with nothing pending, and no content is left without a later settling
  commit.\<close>
theorem finished_cycle_settled:
  assumes "rd_policyId (jb_redactor j) = Some p" "lw_calls w = []"
    "uniqueCheckpoints (lw_files w)" "sn_checkpoint sn = checkpointMap (lw_files w) (projectKey j)"
    "collectLegacyAdapter j sn w = (w', Inr report)"
  shows "(\<exists>k. checkpointMap (lw_files w') (projectKey j) = Some k \<and> kp_policyId k = Some p \<and> kp_deliveryPending k = Some False \<and>
      kp_adapterVersion k = ad_version (jb_adapter j)) \<and> \<not> openContent False (lw_calls w')"
proof -
  have "cycleStart True p j sn w" using assms(2-4) by (simp add: cycleStart_def guarded_def)
  then have s: "settledPage True p j w'" using ensuresD[OF cycle_triple[OF assms(1)] _ assms(5)] by blast
  have "\<not> pendingUnder p (lastCommit None (lw_calls w'))"
    using s by (auto simp: settledPage_def cycleInv_def pendingUnder_def isPending_def)
  then have "\<not> openContent False (lw_calls w')"
    using openContent_pending[of p None "lw_calls w'" False] s by (auto simp: settledPage_def cycleInv_def guarded_def)
  then show ?thesis using s by (auto simp: settledPage_def cycleInv_def storedAs_def)
qed


text \<open>C30: A checkpoint whose delivery is pending under another policy pauses the cycle: no page is collected, no
  content is sent, and the stored state is untouched.\<close>
theorem unresolved_delivery_pauses:
  assumes "rd_policyId (jb_redactor j) = Some p" "sn_checkpoint sn = Some k" "kp_projectCreatedAt k = pj_createdAt (jb_project j)"
    "kp_deliveryPending k = Some True" "kp_policyId k \<noteq> Some p" "collectLegacyAdapter j sn w = (w', r)"
  shows "lw_files w' = lw_files w \<and> (r = Inl (PolicyPause OtherPolicyPending) \<or> (\<exists>e. r = Inl (TransportFailure e))) \<and>
    (\<exists>cs. lw_calls w' = lw_calls w @ cs \<and> set cs \<subseteq> {CallEnsure (jb_profile j), CallRawPolicy})"
proof -
  let ?P = "\<lambda>w'. lw_files w' = lw_files w \<and> (\<exists>cs. lw_calls w' = lw_calls w @ cs \<and> set cs \<subseteq> {CallEnsure (jb_profile j), CallRawPolicy})"
  let ?E = "\<lambda>e w'. ?P w' \<and> (\<exists>t. e = TransportFailure t)"
  have request: "ensures ?P (retryTransport en n (callL c TransportFailure f)) (\<lambda>_. ?P) ?E"
    if "c \<in> {CallEnsure (jb_profile j), CallRawPolicy}" for en n c and f :: "('a, transport_error, 'b) answering"
  proof (rule ensures_retry)
    show "ensures ?P (callL c TransportFailure f) (\<lambda>_. ?P) ?E"
      using that by (auto simp: ensures_def callL_def Let_def map_sum_failed split: prod.split sum.split)
  qed (auto simp: inert_def)
  have pause: "resumePause (Some p) (legacyCheckpoint j sn) rawEnabled = Some OtherPolicyPending" for rawEnabled
    using assms(2-5) by (simp add: legacyCheckpoint_def resumePause_def)
  have "ensures ?P (collectLegacyAdapter j sn) (\<lambda>_ _. False) (\<lambda>e w'. ?P w' \<and> (e = PolicyPause OtherPolicyPending \<or> (\<exists>t. e = TransportFailure t)))"
    unfolding collectLegacyAdapter_def Let_def assms(1) pause option.case
    by (intro ensures_bind[OF ensures_weaken_error[OF ensures_when[OF request]]] ensures_bind[OF ensures_weaken_error[OF request]] ensures_fail) auto
  then show ?thesis
    using assms(6) by (cases r) (auto dest: ensuresD ensures_failed)
qed

end
