(* ===== verification/CheckpointHistory.thy ===== *)
theory CheckpointHistory
  imports CollectorState
begin

text \<open>Histories of the checkpoint store: many writers, each with an environment of its own, commit one after
  another.  The map they refine moves by compare-and-set, and a revision of a checkpoint is won once.\<close>

text \<open>The results of the commits say which of them succeeded.\<close>

primrec commitAll :: "(storage \<times> checkpoint_commit) list \<Rightarrow> state_files \<Rightarrow> state_files \<times> bool list" where
  "commitAll [] files = (files, [])"
| "commitAll (x # xs) files = (case commitState (fst x) (snd x) files of (files', r) \<Rightarrow>
     (case commitAll xs files' of (files'', oks) \<Rightarrow> (files'', (r = Inr ()) # oks)))"

text \<open>The specification: a commit that succeeds is a compare-and-set, one that fails is lost or uncertain.\<close>

inductive casHistory :: "(checkpoint_key \<Rightarrow> collector_checkpoint option) \<Rightarrow> (checkpoint_commit \<times> bool) list \<Rightarrow>
    (checkpoint_key \<Rightarrow> collector_checkpoint option) \<Rightarrow> bool" where
  quiet: "casHistory m [] m"
| won: "casCommit m i = Some m' \<Longrightarrow> casHistory m' h m'' \<Longrightarrow> casHistory m ((i, True) # h) m''"
| lost: "casHistory m h m'' \<Longrightarrow> casHistory m ((i, False) # h) m''"
| uncertain: "casCommit m i = Some m' \<Longrightarrow> casHistory m' h m'' \<Longrightarrow> casHistory m ((i, False) # h) m''"

definition wins :: "(checkpoint_commit \<times> bool) list \<Rightarrow> (checkpoint_key \<times> int) list" where
  "wins h = map (\<lambda>(i, ok). (ci_key i, ci_expectedRevision i)) (filter snd h)"

lemma casCommit_revision:
  assumes "casCommit m i = Some m'"
  shows "revisionOf (m k) \<le> revisionOf (m' k)" "revisionOf (m (ci_key i)) = ci_expectedRevision i"
    "revisionOf (m' (ci_key i)) = ci_expectedRevision i + 1"
  using assms by (auto simp: casCommit_Some)

lemma casHistory_wins:
  "casHistory m h m' \<Longrightarrow> distinct (wins h) \<and> (\<forall>k n. (k, n) \<in> set (wins h) \<longrightarrow> revisionOf (m k) \<le> n)"
proof (induction rule: casHistory.induct)
  case (won m i m' h m'')
  note r = casCommit_revision[OF won.hyps(1)]
  have "(ci_key i, ci_expectedRevision i) \<notin> set (wins h)" using won.IH r(3) by force
  moreover have "revisionOf (m k) \<le> n" if "(k, n) \<in> set (wins h)" for k n
    using won.IH that r(1)[of k] by force
  ultimately show ?case using won.IH r(2) by (auto simp: wins_def)
next
  case (uncertain m i m' h m'')
  have "revisionOf (m k) \<le> n" if "(k, n) \<in> set (wins h)" for k n
    using uncertain.IH that casCommit_revision(1)[OF uncertain.hyps(1), of k] by force
  then show ?case using uncertain.IH by (auto simp: wins_def)
qed (simp_all add: wins_def)

lemma commitAll_history:
  "uniqueCheckpoints files \<Longrightarrow> commitAll ops files = (files', oks) \<Longrightarrow>
    uniqueCheckpoints files' \<and> casHistory (checkpointMap files) (zip (map snd ops) oks) (checkpointMap files')"
proof (induction ops arbitrary: files files' oks)
  case Nil
  then show ?case by (simp add: casHistory.quiet)
next
  case (Cons x xs)
  obtain files1 r where one: "commitState (fst x) (snd x) files = (files1, r)" by fastforce
  obtain files2 oks1 where rest: "commitAll xs files1 = (files2, oks1)" by fastforce
  have u: "uniqueCheckpoints files1" using collector_store.stays_ready[OF Cons.prems(1), of "fst x" "snd x"] one by simp
  have ih: "uniqueCheckpoints files2" "casHistory (checkpointMap files1) (zip (map snd xs) oks1) (checkpointMap files2)"
    using Cons.IH[OF u rest] by simp_all
  have eq: "files' = files2" "oks = (r = Inr ()) # oks1" using Cons.prems(2) one rest by simp_all
  show ?case
  proof (cases r)
    case (Inl e)
    then show ?thesis
      using collector_store.refused[OF Cons.prems(1) one[unfolded Inl]] ih eq by (auto intro: casHistory.lost casHistory.uncertain)
  next
    case (Inr u)
    then show ?thesis
      using collector_store.committed[OF Cons.prems(1)] one ih eq by (auto intro: casHistory.won)
  qed
qed

text \<open>C27: Every history of commits to the checkpoint file, by any writers under any storage behaviour, refines a history
  of the compare-and-set map, and no two commits that succeed name the same checkpoint at the same revision.\<close>
theorem checkpoint_history_refines:
  assumes "uniqueCheckpoints files" "commitAll ops files = (files', oks)"
  shows "uniqueCheckpoints files' \<and> casHistory (checkpointMap files) (zip (map snd ops) oks) (checkpointMap files') \<and>
    distinct (wins (zip (map snd ops) oks))"
  using commitAll_history[OF assms] casHistory_wins by blast

text \<open>Two writers that read the same revision: the second is refused.\<close>

definition demoStorage :: storage where
  "demoStorage = \<lparr>so_admitted = True, so_identity = ''1'', so_outcome = Written, so_collate = \<lambda>_ _. 0\<rparr>"

definition demoKey :: checkpoint_key where
  "demoKey = \<lparr>ck_instanceOrigin = ''o'', ck_userId = ''u'', ck_projectId = ''p'', ck_adapterId = ''a''\<rparr>"

definition demoCommit :: "string \<Rightarrow> checkpoint_commit" where
  "demoCommit cursor = \<lparr>ci_key = demoKey, ci_expectedRevision = 0, ci_checkpoint = checkpoint_key.extend demoKey
     \<lparr>kp_projectCreatedAt = [], kp_adapterVersion = [], kp_revision = 1, kp_cursor = Some cursor, kp_rawObjects = [], kp_canonicalPublished = None,
      kp_policyId = None, kp_deliveryPending = None, kp_updatedAt = []\<rparr>\<rparr>"

definition freshFiles :: state_files where
  "freshFiles = \<lparr>sf_state = None, sf_binding = None, sf_root = False\<rparr>"

lemma demo_commits: "snd (commitAll [(demoStorage, demoCommit ''x''), (demoStorage, demoCommit ''y'')] freshFiles) = [True, False]"
  by (simp add: commitState_def withCollectorState_def readCollectorState_def commitChange_def writeCollectorState_def checkpointAt_def
      freshFiles_def demoStorage_def demoCommit_def demoKey_def emptyCollectorState_def bindE_def revisionOf_def checkpoint_key.defs)

lemma checkpoint_history_refines_witness:
  "casHistory (checkpointMap freshFiles) [(demoCommit ''x'', True), (demoCommit ''y'', False)]
     (checkpointMap (fst (commitAll [(demoStorage, demoCommit ''x''), (demoStorage, demoCommit ''y'')] freshFiles)))"
proof -
  have "uniqueCheckpoints freshFiles" by (simp add: uniqueCheckpoints_def freshFiles_def)
  then show ?thesis
    using checkpoint_history_refines[OF _ prod.collapse[symmetric],
        of freshFiles "[(demoStorage, demoCommit ''x''), (demoStorage, demoCommit ''y'')]"]
    unfolding demo_commits by simp
qed

end
