(* ===== verification/LegacyWitnesses.thy ===== *)
theory LegacyWitnesses
  imports LegacyProperties CheckpointHistory CollectorAdmission
begin

text \<open>Cycles over one page of one observation: the server takes its submission, or refuses it for good.\<close>

definition policyRedactor :: redactor where
  "policyRedactor = demoRedactor\<lparr>rd_policyId := Some ''p''\<rparr>"

definition refusal :: transport_error where
  "refusal = \<lparr>te_reason = TransportRejected, te_retryAfterSeconds = None, te_retryable = False\<rparr>"

definition demoServer :: "transport_error + string \<Rightarrow> unit environment" where
  "demoServer answer = \<lparr>en_ensureProfile = \<lambda>_ _ e. (e, Inr ()), en_rawEnabled = \<lambda>_ e. (e, Inr True), en_submit = \<lambda>_ e. (e, answer),
     en_append = \<lambda>_ e. (e, Inl refusal), en_collect = \<lambda>_ e. (e, Inr demoPage), en_now = \<lambda>e. (e, 0), en_jitter = \<lambda>e. (e, 0),
     en_sleep = \<lambda>_ e. e, en_storage = \<lambda>e. (e, demoStorage), en_schedule = \<lambda>e. (e, [])\<rparr>"

definition demoJob :: "transport_error + string \<Rightarrow> unit legacy_job" where
  "demoJob answer = \<lparr>jb_env = demoServer answer,
     jb_project = \<lparr>pj_instanceOrigin = ''o'', pj_userId = ''u'', pj_id = ''p'', pj_createdAt = ''c''\<rparr>,
     jb_adapter = \<lparr>ad_adapterId = ''a'', ad_version = ''2''\<rparr>, jb_profile = Profile5, jb_redactor = policyRedactor, jb_installationId = ''i''\<rparr>"

definition demoSnapshot :: state_snapshot where
  "demoSnapshot = \<lparr>sn_installationId = ''i'', sn_checkpoint = None\<rparr>"

definition demoWorld :: "unit legacy_world" where
  "demoWorld = \<lparr>lw_env = (), lw_files = freshFiles, lw_calls = [], lw_vars = startVars demoSnapshot None True\<rparr>"

lemma demo_collected: "\<exists>n. prepareCollectedObservation policyRedactor demoObservation Profile5 = Inr (demoMasked, n)"
proof -
  have "\<exists>rep. prepareCanonicalRedaction policyRedactor demoObservation = Inr (demoMasked, rep)"
    by (simp add: prepareCanonicalRedaction_def prepareCanonical_def prepared_def canonicalV_def demoObservation_def demoMasked_def
        policyRedactor_def demoRedactor_def sessionV_def threadV_def eventV_def updateV_def contentV_def refV_def optionV_def bindV_def returnV_def
        textV_plain opensJson_plain code_def compatibleEngine_def freshVisit_def emptyReport_def ContentBytes_def)
  moreover have "list_all (\<lambda>e. validAcpUpdate (ev_update e) Profile5) (ob_events demoMasked)"
    by (simp add: demoMasked_def demoObservation_def validAcpUpdate_def validMessage_def validContentBlock_def text_bounds)
  ultimately show ?thesis by (auto simp: prepareCollectedObservation_def redactContract_def requireC_def)
qed

lemma demo_page: "validatePage None demoPage Profile5 = Inr ()" "pa_observations demoPage = [demoObservation]"
  "pa_hasMore demoPage = False" "pa_nextCursor demoPage = Some ''prepared''" "pa_progress demoPage = None" 
  "pa_sourceFailures demoPage = None" "pa_sourceFailuresTruncated demoPage = None" "ob_rawSegments demoObservation = []" "ob_rawSegments demoMasked = []"
  using demo_slice[of demoObservation None] by (simp_all add: demoPage_def slicePage_def demoObservation_def demoMasked_def)

text \<open>The store holds one checkpoint after each commit.\<close>

definition oneCheckpoint :: "collector_checkpoint \<Rightarrow> state_files" where
  "oneCheckpoint k = freshFiles\<lparr>sf_state := Some \<lparr>st_installationId = ''i_1'', st_checkpoints = [k]\<rparr>\<rparr>"

definition heldRevision :: "'e legacy_world \<Rightarrow> int \<Rightarrow> bool" where
  "heldRevision w n \<longleftrightarrow> lw_files w = freshFiles \<and> n = 0 \<or>
     (\<exists>k. lw_files w = oneCheckpoint k \<and> keyOf k = demoKey \<and> kp_revision k = n)"

lemma demo_commit:
  assumes "heldRevision w n" "kp_revision k = n + 1" "keyOf k = demoKey"
  shows "commitState demoStorage \<lparr>ci_key = demoKey, ci_expectedRevision = n, ci_checkpoint = k\<rparr> (lw_files w) = (oneCheckpoint k, Inr ())"
  using assms by (auto simp: heldRevision_def commitState_def withCollectorState_def readCollectorState_def commitChange_def writeCollectorState_def checkpointAt_def
      demoStorage_def emptyCollectorState_def bindE_def revisionOf_def freshFiles_def oneCheckpoint_def)

lemma demo_job [simp]: "projectKey (demoJob a) = demoKey" "jb_env (demoJob a) = demoServer a"
    "jb_redactor (demoJob a) = policyRedactor" "jb_profile (demoJob a) = Profile5" "jb_installationId (demoJob a) = ''i''"
    "rd_policyId policyRedactor = Some ''p''" "ad_version (jb_adapter (demoJob a)) = ''2''" "pj_createdAt (jb_project (demoJob a)) = ''c''"
  by (simp_all add: projectKey_def demoJob_def policyRedactor_def demoKey_def)

lemma unit_world [simp]: "w\<lparr>lw_env := ()\<rparr> = w" for w :: "unit legacy_world"
  by (cases w) simp

lemma demo_commitCheckpoint:
  assumes "heldRevision w (lv_revision (lw_vars w))" "k = nextCheckpoint (demoJob a) (lw_vars w) cursor objects version 0"
  shows "commitCheckpoint (demoJob a) cursor objects version w = (w\<lparr>lw_files := oneCheckpoint k, lw_calls := lw_calls w @ [CallCommit k],
    lw_vars := (lw_vars w)\<lparr>lv_checkpoint := Some k, lv_revision := lv_revision (lw_vars w) + 1\<rparr>\<rparr>, Inr ())"
proof -
  have k: "kp_revision k = lv_revision (lw_vars w) + 1" "keyOf k = demoKey"
    using assms(2) keyOf_nextCheckpoint by (simp_all add: nextCheckpoint_def checkpoint_key.defs)
  show ?thesis
    using demo_commit[OF assms(1) k] k(1)
    by (simp add: commitCheckpoint_def bindA_def varL_def getA_def readL_def demoServer_def Let_def assms(2)[symmetric] commitL_def setL_def modifyA_def)
qed

lemmas run_steps = bindA_def whenA_def tryA_def returnA_def failA_def callL_def setL_def modifyA_def readL_def varL_def getA_def catchA_def checkA_def Let_def

definition demoStart :: "unit legacy_world" where
  "demoStart = \<lparr>lw_env = (), lw_files = freshFiles, lw_calls = [CallEnsure Profile5, CallRawPolicy], lw_vars = startVars demoSnapshot None True\<rparr>"

lemma demo_started:
  assumes "collectPages (demoJob a) False 20 demoStart = (w, r)"
  shows "collectLegacyAdapter (demoJob a) demoSnapshot demoWorld = (w, map_sum (\<lambda>e. e) (\<lambda>_. reportOf (demoJob a) (lw_vars w) 0) r)"
  using assms
  by (cases r) (simp_all add: run_steps collectLegacyAdapter_def retryTransport.simps demoServer_def legacyCheckpoint_def
    demoSnapshot_def resumePause_def demoWorld_def demoStart_def isPending_def AdapterCollectionLimits_def)

lemma demo_pages:
  "collectPage j u w = (w', Inr False) \<Longrightarrow> collectPages j u 20 w = (w', Inr ())"
  "collectPage j u w = (w', Inl e) \<Longrightarrow> collectPages j u 20 w = (w', Inl e)"
  using collectPages.simps(2)[of j u 19] by (simp_all add: bindA_def returnA_def)

text \<open>The world in which the observation is published, under its pending checkpoint.\<close>

definition demoPublishing :: "transport_error + string \<Rightarrow> unit legacy_world" where
  "demoPublishing a = (let v = (notePage policyRedactor demoPage (startVars demoSnapshot None True))\<lparr>lv_deliveryPending := True\<rparr>;
       k = nextCheckpoint (demoJob a) v None [] ''2'' 0 in
     \<lparr>lw_env = (), lw_files = oneCheckpoint k, lw_calls = [CallEnsure Profile5, CallRawPolicy,
        CallCollect (collectRequest (startVars demoSnapshot None True)), CallCommit k],
      lw_vars = v\<lparr>lv_checkpoint := Some k, lv_revision := 1\<rparr>\<rparr>)"

lemma demo_noted: "notePage policyRedactor demoPage (startVars demoSnapshot None True) =
    (startVars demoSnapshot None True)\<lparr>lv_pages := 1\<rparr>"
  by (simp add: notePage_def demo_page startVars_def demoSnapshot_def isPending_def)

lemma demo_vars: "lv_cursor (startVars demoSnapshot None True) = None" "lv_rawObjects (startVars demoSnapshot None True) = []"
  "lv_revision (startVars demoSnapshot None True) = 0" "lv_checkpoint (startVars demoSnapshot None True) = None"
  "lv_deliveryPending (startVars demoSnapshot None True) = False" "lv_rawEnabled (startVars demoSnapshot None True) = True"
  by (simp_all add: startVars_def demoSnapshot_def isPending_def revisionOf_def)

lemma demo_guarded: "collectPage (demoJob a) False demoStart =
    bindA (publishObservation (demoJob a) False demoObservation) (\<lambda>_. settlePage (demoJob a) demoPage) (demoPublishing a)"
proof -
  show ?thesis
    by (simp add: collectPage_def guardPage_def run_steps demoStart_def demoServer_def demo_page demo_noted demo_vars heldRevision_def
        demo_commitCheckpoint[OF _ refl] savedVersion_def demoPublishing_def split: prod.split sum.split)
qed

lemma demo_refused:
  "\<exists>w s. collectLegacyAdapter (demoJob (Inl refusal)) demoSnapshot demoWorld = (w, Inl (TransportFailure refusal)) \<and>
    lw_calls w = lw_calls (demoPublishing (Inl refusal)) @ [CallSubmit s]"
proof -
  obtain n where n: "prepareCollectedObservation policyRedactor demoObservation Profile5 = Inr (demoMasked, n)" using demo_collected by blast
  obtain w s where "collectPage (demoJob (Inl refusal)) False demoStart = (w, Inl (TransportFailure refusal))"
      "lw_calls w = lw_calls (demoPublishing (Inl refusal)) @ [CallSubmit s]"
    using n unfolding demo_guarded
    by (simp add: publishObservation_def run_steps demoServer_def retryTransport.simps refusal_def demoPublishing_def demo_noted demo_vars)
  then show ?thesis using demo_started[OF demo_pages(2)] by fastforce
qed

lemma demo_empty_raw: "appendRawSegments (demoJob a) cx [] [] [] w = (w\<lparr>lw_vars := (lw_vars w)\<lparr>lv_acknowledged := []\<rparr>\<rparr>, Inr ([], 0, 0))"
  by (simp add: appendRawSegments_def run_steps demoServer_def)

lemma demo_accepted:
  "\<exists>w report. collectLegacyAdapter (demoJob (Inr ''s'')) demoSnapshot demoWorld = (w, Inr report)"
proof -
  obtain n where n: "prepareCollectedObservation policyRedactor demoObservation Profile5 = Inr (demoMasked, n)" using demo_collected by blast
  let ?w = "demoPublishing (Inr ''s'')"
  have vars: "lv_rawEnabled (lw_vars ?w)" "lv_rawObjects (lw_vars ?w) = []" "lv_revision (lw_vars ?w) = 1"
    by (simp_all add: demoPublishing_def demo_noted demo_vars Let_def)
  have held: "heldRevision ?w 1"
    by (auto simp: heldRevision_def demoPublishing_def Let_def demo_noted nextCheckpoint_def demo_vars checkpoint_key.defs)
  obtain w1 where w1: "publishObservation (demoJob (Inr ''s'')) False demoObservation ?w = (w1, Inr ())"
      "lw_files w1 = lw_files ?w" "lv_revision (lw_vars w1) = 1"
    using n vars by (simp add: publishObservation_def run_steps demoServer_def retryTransport.simps demo_page demo_empty_raw)
  then have "heldRevision w1 (lv_revision (lw_vars w1))" using held by (simp add: heldRevision_def)
  then obtain w2 where "settlePage (demoJob (Inr ''s'')) demoPage w1 = (w2, Inr False)"
    by (simp add: settlePage_def run_steps demo_page heldRevision_def demo_commitCheckpoint[OF _ refl])
  then have "collectPage (demoJob (Inr ''s'')) False demoStart = (w2, Inr False)"
    using w1(1) by (simp add: demo_guarded bindA_def)
  then show ?thesis using demo_started[OF demo_pages(1)] by fastforce
qed

section \<open>The properties at these cycles\<close>

lemma demo_premises: "lw_calls demoWorld = []" "uniqueCheckpoints (lw_files demoWorld)"
  "sn_checkpoint demoSnapshot = checkpointMap (lw_files demoWorld) (projectKey (demoJob a))" "rd_policyId (jb_redactor (demoJob a)) = Some ''p''"
  by (simp_all add: demoWorld_def demoSnapshot_def uniqueCheckpoints_def checkpointMap_def freshFiles_def)

lemma content_waits_for_pending_witness:
  "\<exists>w s. collectLegacyAdapter (demoJob (Inl refusal)) demoSnapshot demoWorld = (w, Inl (TransportFailure refusal)) \<and>
    CallSubmit s \<in> set (lw_calls w) \<and> contentGuarded ''p'' None (lw_calls w)"
proof -
  obtain w s where "collectLegacyAdapter (demoJob (Inl refusal)) demoSnapshot demoWorld = (w, Inl (TransportFailure refusal))"
    "CallSubmit s \<in> set (lw_calls w)" using demo_refused by fastforce
  then show ?thesis using content_waits_for_pending[OF demo_premises(4,1), of "Inl refusal" demoSnapshot] by auto
qed

lemma finished_cycle_settled_witness:
  "\<exists>w report k. collectLegacyAdapter (demoJob (Inr ''s'')) demoSnapshot demoWorld = (w, Inr report) \<and>
    checkpointMap (lw_files w) demoKey = Some k \<and> kp_deliveryPending k = Some False"
proof -
  obtain w report where run: "collectLegacyAdapter (demoJob (Inr ''s'')) demoSnapshot demoWorld = (w, Inr report)"
    using demo_accepted by blast
  then show ?thesis using finished_cycle_settled[OF demo_premises(4,1,2,3) run] by auto
qed


definition stalledCheckpoint :: collector_checkpoint where
  "stalledCheckpoint = (nextCheckpoint (demoJob (Inr [])) (startVars demoSnapshot None True) None [] ''2'' 0)\<lparr>kp_policyId := Some ''q'', kp_deliveryPending := Some True\<rparr>"

lemma unresolved_delivery_pauses_witness:
  "\<exists>e. snd (collectLegacyAdapter (demoJob (Inr ''s'')) (demoSnapshot\<lparr>sn_checkpoint := Some stalledCheckpoint\<rparr>) demoWorld) = Inl e \<and>
    lw_files (fst (collectLegacyAdapter (demoJob (Inr ''s'')) (demoSnapshot\<lparr>sn_checkpoint := Some stalledCheckpoint\<rparr>) demoWorld)) = freshFiles"
  using unresolved_delivery_pauses[OF demo_premises(4), of "demoSnapshot\<lparr>sn_checkpoint := Some stalledCheckpoint\<rparr>" stalledCheckpoint "Inr ''s''" demoWorld,
      OF _ _ _ _ prod.collapse[symmetric]]
  by (auto simp: stalledCheckpoint_def nextCheckpoint_def checkpoint_key.defs demoWorld_def demoJob_def)

end
