(* ===== verification/Utf8.thy ===== *)
theory Utf8
  imports WebBytes Json
begin

text \<open>Well-formed UTF-8: its code points, prefixes and concatenations, and the JSON texts made of it.\<close>

section \<open>Code points\<close>

definition codeWidth :: "char \<Rightarrow> nat" where
  "codeWidth c = (if code c < 0x80 then 1 else if code c \<le> 0xDF then 2 else if code c \<le> 0xEF then 3 else 4)"

lemma width_range: "0 < codeWidth c" "codeWidth c \<le> 4"
  by (simp_all add: codeWidth_def)

lemma second_continuation: "secondByte n d \<Longrightarrow> continuation d"
  by (simp add: secondByte_def)

text \<open>The first code point of a valid text.\<close>

lemma valid_first:
  assumes "validUtf8 (c # r)"
  shows "\<not> continuation c \<and> codeWidth c \<le> Suc (length r) \<and> validUtf8 (drop (codeWidth c) (c # r)) \<and>
    (\<forall>i. 0 < i \<and> i < codeWidth c \<longrightarrow> continuation ((c # r) ! i))"
proof -
  have "continuation ((c # r) ! i)" if "0 < i" "i < codeWidth c" for i
  proof -
    have "i = 1 \<or> i = 2 \<or> i = 3" using that width_range(2)[of c] by linarith
    then show ?thesis
      using assms that by (cases r) (auto simp: codeWidth_def Let_def second_continuation numeral_2_eq_2 numeral_3_eq_3 split: if_splits)
  qed
  then show ?thesis
    using assms by (auto simp: codeWidth_def continuation_def Let_def split: if_splits)
qed

text \<open>A prefix that ends at a code point is valid.\<close>

lemma valid_prefix:
  assumes "validUtf8 (c # r)" "codeWidth c \<le> i" "validUtf8 (take (i - codeWidth c) (drop (codeWidth c) (c # r)))"
  shows "validUtf8 (take i (c # r))"
proof -
  obtain k where k: "i = codeWidth c + k" using assms(2) le_Suc_ex by blast
  have eq: "take (codeWidth c + k) (c # r) = c # take (codeWidth c - 1 + k) r"
    by (cases "codeWidth c") (simp_all add: codeWidth_def split: if_splits)
  have rest: "drop (codeWidth c) (c # r) = drop (codeWidth c - 1) r"
    by (cases "codeWidth c") (simp_all add: codeWidth_def split: if_splits)
  show ?thesis
    using assms(1,3) unfolding k eq rest validUtf8.simps(2) Let_def
    by (auto simp: codeWidth_def drop_take hd_take split: if_splits)
qed

definition boundary :: "bytes \<Rightarrow> nat \<Rightarrow> bool" where
  "boundary b i \<longleftrightarrow> i \<le> length b \<and> (if i < length b then \<not> continuation (b ! i) else True)"

lemma boundary_split:
  "validUtf8 b \<Longrightarrow> boundary b i \<Longrightarrow> validUtf8 (take i b) \<and> validUtf8 (drop i b)"
proof (induction "length b" arbitrary: b i rule: less_induct)
  case less
  show ?case
  proof (cases "b = [] \<or> i = 0")
    case True
    then show ?thesis using less.prems by auto
  next
    case False
    then obtain c r where b: "b = c # r" by (cases b) auto
    note first = valid_first[OF less.prems(1)[unfolded b]]
    have i: "codeWidth c \<le> i"
    proof (rule ccontr)
      assume "\<not> codeWidth c \<le> i"
      then have "continuation (b ! i)" "i < length b" using first False by (auto simp: b)
      then show False using less.prems(2) by (simp add: boundary_def)
    qed
    then have "boundary (drop (codeWidth c) b) (i - codeWidth c)" using less.prems(2) by (auto simp: boundary_def split: if_splits)
    then have "validUtf8 (take (i - codeWidth c) (drop (codeWidth c) b)) \<and> validUtf8 (drop (i - codeWidth c) (drop (codeWidth c) b))"
      using less.hyps[of "drop (codeWidth c) b"] first width_range(1)[of c] by (simp add: b)
    then show ?thesis
      using valid_prefix[OF less.prems(1)[unfolded b] i] i by (simp add: b)
  qed
qed

lemma valid_boundary: "validUtf8 (drop i b) \<Longrightarrow> i \<le> length b \<Longrightarrow> boundary b i"
  using valid_first[of "b ! i" "drop (Suc i) b"] by (auto simp: boundary_def Cons_nth_drop_Suc simp del: validUtf8.simps)

section \<open>Concatenation\<close>

lemma valid_step:
  assumes "validUtf8 (c # r)"
  shows "validUtf8 (take (codeWidth c) (c # r)) \<and> validUtf8 (drop (codeWidth c) (c # r))"
  using valid_prefix[OF assms, of "codeWidth c"] valid_first[OF assms] by simp

lemma valid_cons:
  assumes "validUtf8 (take (codeWidth c) (c # r))" "codeWidth c \<le> Suc (length r)"
  shows "validUtf8 (c # r) \<longleftrightarrow> validUtf8 (drop (codeWidth c) (c # r))"
  using assms by (cases r) (auto simp: codeWidth_def Let_def numeral_2_eq_2 numeral_3_eq_3 split: if_splits)


lemma valid_append: "validUtf8 a \<Longrightarrow> validUtf8 b \<Longrightarrow> validUtf8 (a @ b)"
proof (induction "length a" arbitrary: a rule: less_induct)
  case less
  show ?case
  proof (cases a)
    case (Cons c r)
    note first = valid_first[OF less.prems(1)[unfolded Cons]] and step = valid_step[OF less.prems(1)[unfolded Cons]]
    have "validUtf8 (drop (codeWidth c) a @ b)"
      using less.hyps[of "drop (codeWidth c) a"] step less.prems(2) width_range(1)[of c] by (simp add: Cons)
    moreover have "validUtf8 (take (codeWidth c) (c # r @ b))" "drop (codeWidth c) (c # r @ b) = drop (codeWidth c) a @ b"
      using step first by (simp_all add: Cons take_append[of "codeWidth c" "c # r" b, simplified] drop_append[of "codeWidth c" "c # r" b, simplified])
    ultimately show ?thesis using valid_cons[of c "r @ b"] first by (simp add: Cons del: validUtf8.simps)
  qed (simp add: less.prems(2))
qed

lemma valid_ascii: "list_all (\<lambda>c. code c < 0x80) s \<Longrightarrow> validUtf8 s"
  by (induction s) (simp_all add: Let_def)

lemma valid_concat: "list_all validUtf8 ss \<Longrightarrow> validUtf8 (concat ss)"
  by (induction ss) (simp_all add: valid_append del: validUtf8.simps(2))

section \<open>JSON texts\<close>

lemma escape_codes: "code (CHR 0x22) = 34" "code (CHR 0x5C) = 92" "code (CHR 0x08) = 8" "code (CHR 0x09) = 9" "code (CHR 0x0A) = 10"
  "code (CHR 0x0C) = 12" "code (CHR 0x0D) = 13" "code (CHR ''b'') = 98" "code (CHR ''t'') = 116" "code (CHR ''n'') = 110"
  "code (CHR ''f'') = 102" "code (CHR ''r'') = 114" "code (CHR ''u'') = 117" "code (CHR ''0'') = 48" "code (CHR ''-'') = 45" "code (CHR '','') = 44"
  "code (CHR '':'') = 58" "code (CHR ''['') = 91" "code (CHR '']'') = 93" "code (CHR ''{'') = 123" "code (CHR ''}'') = 125" "code (CHR ''e'') = 101"
  by code_simp+

lemma escape_ascii:
  assumes "code c < 0x80"
  shows "list_all (\<lambda>d. code d < 0x80) (escapeChar c)"
proof -
  have "code (hexChar n) < 0x80" if "n < 16" for n using that by (simp add: hexChar_def code_byte)
  then have "code (hexChar (code c mod 16)) < 0x80" "code c < 32 \<Longrightarrow> code (hexChar (code c div 16)) < 0x80" by simp_all
  then show ?thesis using assms unfolding escapeChar_def by (simp add: escape_codes)
qed

lemma escape_high:
  assumes "0x80 \<le> code c"
  shows "escapeChar c = [c]"
proof -
  have "c \<notin> set [CHR 0x22, CHR 0x5C, CHR 0x08, CHR 0x09, CHR 0x0A, CHR 0x0C, CHR 0x0D]"
  proof
    assume "c \<in> set [CHR 0x22, CHR 0x5C, CHR 0x08, CHR 0x09, CHR 0x0A, CHR 0x0C, CHR 0x0D]"
    then have "code c \<in> code ` set [CHR 0x22, CHR 0x5C, CHR 0x08, CHR 0x09, CHR 0x0A, CHR 0x0C, CHR 0x0D]" by (rule imageI)
    then show False using assms by (simp add: escape_codes)
  qed
  then show ?thesis using assms by (simp add: escapeChar_def)
qed

lemma high_bytes:
  assumes "validUtf8 (c # r)" "1 < codeWidth c"
  shows "concat (map escapeChar (take (codeWidth c) (c # r))) = take (codeWidth c) (c # r)"
proof -
  have "0x80 \<le> code d" if d: "d \<in> set (take (codeWidth c) (c # r))" for d
  proof -
    obtain i where i: "i < codeWidth c" "i < length (c # r)" "d = (c # r) ! i" using d by (auto simp: in_set_conv_nth)
    show ?thesis
    proof (cases i)
      case 0
      then show ?thesis using i assms(2) by (auto simp: codeWidth_def split: if_splits)
    next
      case (Suc k)
      then have "continuation d" using valid_first[OF assms(1)] i by auto
      then show ?thesis by (simp add: continuation_def)
    qed
  qed
  then have "map escapeChar (take (codeWidth c) (c # r)) = map (\<lambda>d. [d]) (take (codeWidth c) (c # r))"
    by (intro map_cong refl escape_high)
  then show ?thesis by (simp only: concat_map_singleton) simp
qed

lemma valid_escaped: "validUtf8 s \<Longrightarrow> validUtf8 (concat (map escapeChar s))"
proof (induction "length s" arbitrary: s rule: less_induct)
  case less
  show ?case
  proof (cases s)
    case (Cons c r)
    let ?w = "codeWidth c"
    note step = valid_step[OF less.prems[unfolded Cons]]
    have rest: "validUtf8 (concat (map escapeChar (drop ?w s)))"
      using less.hyps[of "drop ?w s"] step width_range(1)[of c] by (simp add: Cons)
    have "validUtf8 (concat (map escapeChar (take ?w s)))"
    proof (cases "1 < ?w")
      case True
      then show ?thesis using high_bytes[OF less.prems[unfolded Cons] True] step by (simp add: Cons del: validUtf8.simps)
    next
      case False
      then have "?w = 1" "code c < 0x80" using width_range(1)[of c] by (auto simp: codeWidth_def split: if_splits)
      then show ?thesis using valid_ascii[OF escape_ascii[of c]] by (simp add: Cons del: validUtf8.simps)
    qed
    from valid_append[OF this rest] show ?thesis by (metis append_take_drop_id concat_append map_append)
  qed simp
qed

text \<open>A JSON value whose texts are well-formed.\<close>

fun validTexts :: "json \<Rightarrow> bool" where
  "validTexts (JStr s) = validUtf8 s"
| "validTexts (JArr xs) = list_all validTexts xs"
| "validTexts (JObj ms) = list_all (\<lambda>(k, v). validUtf8 k \<and> validTexts v) ms"
| "validTexts _ = True"

lemma valid_digits: "validUtf8 (showNat n)"
  by (rule valid_ascii) (use showNat_digits[of n] in \<open>auto simp: list_all_iff isDigit_def\<close>)

lemma valid_int: "validUtf8 (showInt n)"
  using valid_append[of "''-''"] by (auto simp: showInt_def valid_digits escape_codes)

lemma valid_shown: "validUtf8 s \<Longrightarrow> validUtf8 (showString s)"
  unfolding showString_def using valid_append[of "concat (map escapeChar s)" "[CHR 0x22]"] valid_escaped[of s]
  by (simp add: escape_codes)

lemma valid_stringify:
  "validTexts j \<Longrightarrow> validUtf8 (stringify j)"
  "list_all validTexts xs \<Longrightarrow> validUtf8 (stringifyItems xs)"
  "list_all (\<lambda>(k, v). validUtf8 k \<and> validTexts v) ms \<Longrightarrow> validUtf8 (stringifyMembers ms)"
proof (induction j and xs and ms rule: stringify_stringifyItems_stringifyMembers.induct)
  case 1
  have "validUtf8 ''null''" by code_simp
  then show ?case by (simp del: validUtf8.simps)
next
  case (2 b)
  have "validUtf8 ''true''" "validUtf8 ''false''" by code_simp+
  then show ?case by (simp del: validUtf8.simps)
next
  case (3 m e)
  have "validUtf8 (CHR ''e'' # showInt e)" by (simp add: valid_int escape_codes)
  then show ?case by (simp add: valid_append valid_int del: validUtf8.simps)
qed (auto simp: valid_shown escape_codes valid_append intro!: valid_append)

lemma decode_object:
  assumes "validTexts (JObj ms)"
  shows "decodeUtf8 (stringify (JObj ms)) = Some (stringify (JObj ms))"
proof -
  have "\<not> startsWith (map byte [0xEF, 0xBB, 0xBF]) (CHR ''{'' # t)" for t
  proof
    assume "startsWith (map byte [0xEF, 0xBB, 0xBF]) (CHR ''{'' # t)"
    then have "code (CHR ''{'') = code (byte 0xEF)" by (simp add: startsWith_def)
    then show False by (simp add: escape_codes)
  qed
  then show ?thesis using valid_stringify(1)[OF assms] by (simp add: decodeUtf8_def)
qed

end
