(* ===== verification/TransportChunks.thy ===== *)
theory TransportChunks
  imports LegacyCollector Utf8 "HOL-Library.Sublist"
begin

text \<open>Raw content is cut into transport chunks at code points: the loop ends, the chunks are bounded, and they are
  the content, except that the decoder drops a byte order mark at the start of a chunk.\<close>

section \<open>The chunk end\<close>

lemma backUp_le: "backUp b start e \<le> e"
  by (induction b start e rule: backUp.induct) auto

text \<open>Backing up stops at a code point no further back than the end of the first code point of the chunk.\<close>

lemma backUp_boundary:
  "boundary b s \<Longrightarrow> start < s \<Longrightarrow> s \<le> e \<Longrightarrow> e \<le> length b \<Longrightarrow> boundary b (backUp b start e) \<and> s \<le> backUp b start e"
  by (induction b start e rule: backUp.induct) (auto simp: boundary_def le_Suc_eq split: if_splits)


lemma chunk_end:
  assumes "validUtf8 (drop start b)" "start < length b" "4 \<le> limit"
  shows "let e = backUp b start (min (start + limit) (length b)) in
    start < e \<and> e \<le> start + limit \<and> e \<le> length b \<and> validUtf8 (take (e - start) (drop start b)) \<and> validUtf8 (drop e b)"
proof -
  let ?e = "backUp b start (min (start + limit) (length b))"
  obtain c r where d: "drop start b = c # r" using assms(2) by (cases "drop start b") auto
  note first = valid_first[OF assms(1)[unfolded d]]
  have len: "length b = start + Suc (length r)" using arg_cong[OF d, of length] assms(2) by simp
  have "validUtf8 (drop (start + codeWidth c) b)" using first d by (metis add.commute drop_drop)
  then have s: "boundary b (start + codeWidth c)" using first len by (intro valid_boundary) auto
  have e: "boundary b ?e" "start + codeWidth c \<le> ?e"
    using backUp_boundary[OF s, of start "min (start + limit) (length b)"] width_range[of c] assms(3) first len by auto
  have le: "?e \<le> min (start + limit) (length b)" by (rule backUp_le)
  have "boundary (drop start b) (?e - start)" using e le width_range(1)[of c] by (auto simp: boundary_def split: if_splits)
  from boundary_split[OF assms(1) this] have "validUtf8 (take (?e - start) (drop start b))" "validUtf8 (drop ?e b)"
    using e(2) by simp_all
  then show ?thesis using e(2) le width_range(1)[of c] by (simp add: Let_def)
qed

section \<open>The loop\<close>

definition byteOrderMark :: bytes where
  "byteOrderMark = map byte [0xEF, 0xBB, 0xBF]"

definition withoutMark :: "bytes \<Rightarrow> string" where
  "withoutMark b = (if startsWith byteOrderMark b then drop 3 b else b)"

definition chunksOf :: "nat \<Rightarrow> bytes \<Rightarrow> bytes list \<Rightarrow> bool" where
  "chunksOf limit b ps \<longleftrightarrow> concat ps = b \<and> (\<forall>p \<in> set ps. p \<noteq> [] \<and> length p \<le> limit \<and> validUtf8 p)"

lemma splitLoop_chunks:
  assumes "4 \<le> limit"
  shows "validUtf8 (drop start b) \<Longrightarrow> start \<le> length b \<Longrightarrow>
    \<exists>ps. splitLoop limit b start acc = Some (Inr (acc @ map withoutMark ps)) \<and> chunksOf limit (drop start b) ps"
proof (induction "length b - start" arbitrary: start acc rule: less_induct)
  case less
  show ?case
  proof (cases "start < length b")
    case False
    then show ?thesis by (intro exI[of _ "[]"]) (simp add: splitLoop.simps chunksOf_def)
  next
    case True
    define e where "e = backUp b start (min (start + limit) (length b))"
    let ?p = "take (e - start) (drop start b)"
    have e: "start < e" "e \<le> start + limit" "e \<le> length b" "validUtf8 ?p" "validUtf8 (drop e b)"
      using chunk_end[OF less.prems(1) True assms] by (simp_all add: Let_def e_def)
    obtain ps where ps: "splitLoop limit b e (acc @ [withoutMark ?p]) = Some (Inr ((acc @ [withoutMark ?p]) @ map withoutMark ps))"
      "chunksOf limit (drop e b) ps"
      using less.hyps[of e "acc @ [withoutMark ?p]"] e diff_less_mono2[OF e(1) True] by blast
    have "splitLoop limit b start acc = splitLoop limit b e (acc @ [withoutMark ?p])"
      using True e(4) by (simp add: splitLoop.simps[of limit b start] Let_def e_def[symmetric] decodeUtf8_def withoutMark_def byteOrderMark_def)
    moreover have "?p @ drop e b = drop start b"
      using e(1) by (metis append_take_drop_id drop_drop le_add_diff_inverse2 less_imp_le_nat)
    ultimately show ?thesis
      using ps e by (intro exI[of _ "?p # ps"]) (auto simp: chunksOf_def)
  qed
qed

text \<open>C31: Splitting Raw content for the transport ends without a decoding error: the content is a concatenation of
  nonempty pieces at code points, each within the chunk limit, and the chunks sent are these pieces, each
  without a leading byte order mark; content without byte order marks is sent unchanged.\<close>
theorem transport_chunks_restore:
  assumes "validUtf8 content" "content \<noteq> []"
  shows "\<exists>ps. chunksOf (nat RawTransportChunkBytes) content ps \<and> splitRawTransportChunks content = Some (Inr (map withoutMark ps)) \<and>
    (if sublist byteOrderMark content then True else map withoutMark ps = ps)"
proof -
  have "4 \<le> nat RawTransportChunkBytes" by (simp add: RawTransportChunkBytes_def)
  then obtain ps where ps: "splitLoop (nat RawTransportChunkBytes) content 0 [] = Some (Inr (map withoutMark ps))"
    "chunksOf (nat RawTransportChunkBytes) content ps"
    using splitLoop_chunks[of "nat RawTransportChunkBytes" 0 content "[]"] assms(1) by auto
  have "withoutMark q = q" if q: "q \<in> set ps" and m: "\<not> sublist byteOrderMark content" for q
  proof -
    obtain us vs where "ps = us @ q # vs" using split_list[OF q] by blast
    then have "content = concat us @ q @ concat vs" using ps(2) by (simp add: chunksOf_def)
    then have "\<not> startsWith byteOrderMark q" using m by (auto simp: startsWith_iff sublist_def) blast
    then show ?thesis by (simp add: withoutMark_def)
  qed
  then have "map withoutMark ps = ps" if "\<not> sublist byteOrderMark content" using that by (simp add: map_idI)
  then show ?thesis using ps assms(2) by (auto simp: splitRawTransportChunks_def)
qed

lemma transport_chunks_restore_witness:
  "\<exists>ps. chunksOf (nat RawTransportChunkBytes) ''abc'' ps \<and> splitRawTransportChunks ''abc'' = Some (Inr (map withoutMark ps))"
  using transport_chunks_restore[of "''abc''"] by (auto simp: code_def)

text \<open>A byte order mark at the start of Raw content never reaches the server.\<close>

lemma leading_mark_dropped:
  "splitRawTransportChunks (byteOrderMark @ ''a'') = Some (Inr [''a''])"
proof -
  define limit b where "limit = nat RawTransportChunkBytes" "b = byteOrderMark @ ''a''"
  have limit: "4 \<le> limit" by (simp add: limit_b_def RawTransportChunkBytes_def)
  have b: "decodeUtf8 b = Some ''a''" "backUp b 0 4 = 4" "length b = 4" unfolding limit_b_def by code_simp+
  have "splitLoop limit b 0 [] = Some (Inr [''a''])"
    using limit b by (simp add: splitLoop.simps[of limit b] min_def)
  then show ?thesis by (simp add: splitRawTransportChunks_def limit_b_def byteOrderMark_def)
qed

end
