(* ===== verification/RawPreparation.thy ===== *)
theory RawPreparation
  imports RawDelivery Redaction Actions
begin

text \<open>The preparation of Raw content (packages/application/src/rawPreparation.ts): the admission of its limits, the
  masked identity of a source record, and the packing of records into objects that become the Raw
  units of a capture, with the reuse of units an earlier capture holds.\<close>

section \<open>Failures\<close>

datatype raw_refusal =
    RawLimits | RawSmallTarget | RawIdentity | RawProfileBound | RawMetadataBound | RawMetadataSchema | RawTime
  | RawChunkInvalid | RawOverpacked | RawRepeated

datatype preparation_error =
    ServiceFailure delivery_error
  | RawRefused raw_refusal

type_synonym ('r, 'a) preparing = "('r world, preparation_error, 'a) action"

definition serviceP :: "('r, 'a) effect \<Rightarrow> ('r, 'a) preparing" where
  "serviceP m = mapErrorA ServiceFailure m"

definition requireRaw :: "bool \<Rightarrow> raw_refusal \<Rightarrow> ('r, unit) preparing" where
  "requireRaw ok e = checkA (if ok then Inr () else Inl (RawRefused e))"

section \<open>Admission\<close>

record raw_limits =
  rl_objectBytes :: int
  rl_wireBytes :: int
  rl_targetBytes :: int
  rl_units :: int

record raw_input =
  rp_profile :: string
  rp_sessionId :: string
  rp_head :: string
  rp_authority :: raw_authority
  rp_adapterVersion :: string
  rp_observedAt :: string
  rp_limits :: raw_limits

definition validateRawPreparationLimits :: "raw_limits \<Rightarrow> ('r, unit) preparing" where
  "validateRawPreparationLimits l =
     bindA (requireRaw (list_all (\<lambda>(value, maximum). safe_integer value \<and> 1 \<le> value \<and> value \<le> maximum)
       [(rl_objectBytes l, 3 * 1024 * 1024), (rl_wireBytes l, RawPublicationWireBytes),
        (rl_targetBytes l, max_safe_integer), (rl_units l, 1000000)]) RawLimits) (\<lambda>_.
       requireRaw (rl_targetBytes l \<ge> rl_wireBytes l) RawSmallTarget)"

definition hashJson :: "host \<Rightarrow> json \<Rightarrow> string" where
  "hashJson h j = ho_sha h (stringify j)"

definition encodedSize :: "json \<Rightarrow> int" where
  "encodedSize j = int (length (stringify j))"

definition objectId :: "host \<Rightarrow> string \<Rightarrow> string \<Rightarrow> int \<Rightarrow> string" where
  "objectId h profile cid ordinal = ''r_'' @ hashJson h (JArr [JStr profile, JStr cid, JInt ordinal])"

section \<open>Source records\<close>

record raw_source =
  sr_key :: string
  sr_masked :: "gap_reason + json"
  sr_fingerprint :: string

definition gapName :: "gap_reason \<Rightarrow> string" where
  "gapName g = (case g of GapLimit \<Rightarrow> ''limit'' | GapRedaction \<Rightarrow> ''redaction'')"

definition maskedRow :: "redactor \<Rightarrow> json \<Rightarrow> gap_reason + json" where
  "maskedRow r raw = (case prepareRawRedaction r raw of
       Inl UnsafeLimit \<Rightarrow> Inl GapLimit | Inl UnsafeRedaction \<Rightarrow> Inl GapRedaction | Inr (row, _) \<Rightarrow> Inr row)"

definition maskedJson :: "gap_reason + json \<Rightarrow> json" where
  "maskedJson m = (case m of Inl g \<Rightarrow> JObj [(''gap'', JStr (gapName g))] | Inr row \<Rightarrow> JObj [(''row'', row)])"

definition rawSourceRecord :: "host \<Rightarrow> redactor \<Rightarrow> string \<Rightarrow> json option \<Rightarrow> ('r, raw_source) preparing" where
  "rawSourceRecord h r recordKey raw = (case raw of
       None \<Rightarrow> failA (RawRefused RawIdentity)
     | Some v \<Rightarrow>
         bindA (requireRaw (recordKey \<noteq> [] \<and> CHR 0x00 \<notin> set recordKey \<and> length recordKey \<le> 500) RawIdentity) (\<lambda>_.
         let masked = maskedRow r v in
         returnA \<lparr>sr_key = hashJson h (JStr recordKey), sr_masked = masked, sr_fingerprint = hashJson h (maskedJson masked)\<rparr>))"

section \<open>Objects and chunks\<close>

definition rawProjectionProfile :: "string \<Rightarrow> string" where
  "rawProjectionProfile profile = ''atape.host-raw.v1:'' @ profile"

definition envelopeJson :: "raw_input \<Rightarrow> (string \<times> json) list \<Rightarrow> json" where
  "envelopeJson input entries = JObj [(''profile'', JStr (rawProjectionProfile (rp_profile input))),
     (''observedAt'', JStr (rp_observedAt input)), (''records'', JObj entries)]"

definition preparedChunk :: "host \<Rightarrow> capture_owner \<Rightarrow> raw_input \<Rightarrow> string \<Rightarrow> string \<Rightarrow> string \<Rightarrow> raw_chunk" where
  "preparedChunk h owner input oid sha content =
     \<lparr>rn_sessionId = rp_sessionId input, rn_installationId = bd_installationId (ho_binding h),
      rn_adapterId = cs_adapterId (ow_scope owner), rn_sourceObjectId = oid, rn_sourceChunkId = oid @ ''_0'',
      md_sourceName = ''source-records.json'', md_mediaType = ''application/json'', md_adapterVersion = rp_adapterVersion input,
      md_capturedAt = rp_observedAt input, md_offset = 0, md_sha256 = sha, md_final = True,
      md_publication = \<lparr>pf_head = rp_head input, pf_authority = rp_authority input\<rparr>, ch_contentBase64 = content\<rparr>"

definition zeros64 :: string where
  "zeros64 = replicate 64 (CHR ''0'')"

text \<open>Only the widths of the envelopes enter the admission, not the clock.\<close>

definition rawAdmissionFingerprint :: "host \<Rightarrow> capture_owner \<Rightarrow> raw_input \<Rightarrow> string" where
  "rawAdmissionFingerprint h owner input = (let l = rp_limits input in
     hashJson h (JArr [JInt (rl_objectBytes l), JInt (rl_wireBytes l), JInt (rl_targetBytes l), JInt (rl_units l),
       JInt (encodedSize (envelopeJson input [])),
       JInt (encodedSize (chunkJson (preparedChunk h owner input (''r_'' @ zeros64) zeros64 [])))]))"

section \<open>Packing\<close>

record raw_packing =
  pk_ordinal :: int
  pk_totalBytes :: int
  pk_records :: int
  pk_reused :: int
  pk_gaps :: int
  pk_entries :: "(string \<times> json) list"
  pk_objectId :: string
  pk_contentBytes :: int

record raw_preparation =
  rq_host :: host
  rq_redactor :: redactor
  rq_owner :: capture_owner
  rq_captureId :: string
  rq_input :: raw_input
  rq_admission :: string
  rq_reusable :: "string option"
  rq_wireOverhead :: int

abbreviation rq_profile :: "raw_preparation \<Rightarrow> string" where
  "rq_profile q \<equiv> rawProjectionProfile (rp_profile (rq_input q))"

abbreviation rq_limits :: "raw_preparation \<Rightarrow> raw_limits" where
  "rq_limits q \<equiv> rp_limits (rq_input q)"

definition wireSize :: "raw_preparation \<Rightarrow> int \<Rightarrow> int" where
  "wireSize q bytes = rq_wireOverhead q + 4 * ((bytes + 2) div 3)"

definition metadataTexts :: "raw_chunk \<Rightarrow> string list" where
  "metadataTexts c = [''atape.raw.v1'', rn_sessionId c, rn_installationId c, rn_adapterId c, rn_sourceObjectId c, rn_sourceChunkId c,
     md_sourceName c, md_mediaType c, md_adapterVersion c, md_capturedAt c]"

definition createRawPreparation :: "host \<Rightarrow> redactor \<Rightarrow> capture_owner \<Rightarrow> string \<Rightarrow> raw_input \<Rightarrow>
    ('r, raw_preparation \<times> raw_packing) preparing" where
  "createRawPreparation h r owner cid input =
     bindA (validateRawPreparationLimits (rp_limits input)) (\<lambda>_.
     let profile = rawProjectionProfile (rp_profile input) in
     bindA (requireRaw (length profile \<le> 500) RawProfileBound) (\<lambda>_.
     bindA (serviceP (journalW (coverage owner))) (\<lambda>cov.
     bindA (case cv_observedRawCaptureId cov of
         None \<Rightarrow> returnA None
       | Some previousId \<Rightarrow> bindA (serviceP (inspectW owner previousId Raw False)) (\<lambda>(c, _).
           returnA (if sm_activationReceipt c = None then None else Some previousId))) (\<lambda>reusable.
     let oid = objectId h profile cid 0; c = preparedChunk h owner input oid zeros64 [] in
     bindA (requireRaw (list_all (\<lambda>v. js_trim v \<noteq> [] \<and> CHR 0x00 \<notin> set v \<and> length v \<le> 512) (metadataTexts c)) RawMetadataBound) (\<lambda>_.
     bindA (requireRaw (decodeChunk (chunkJson c) \<noteq> None) RawMetadataSchema) (\<lambda>_.
     bindA (requireRaw (parseMillis (rp_observedAt input) \<noteq> None) RawTime) (\<lambda>_.
       returnA (\<lparr>rq_host = h, rq_redactor = r, rq_owner = owner, rq_captureId = cid, rq_input = input,
           rq_admission = rawAdmissionFingerprint h owner input, rq_reusable = reusable, rq_wireOverhead = encodedSize (chunkJson c)\<rparr>,
         \<lparr>pk_ordinal = 0, pk_totalBytes = 0, pk_records = 0, pk_reused = 0, pk_gaps = 0, pk_entries = [], pk_objectId = oid,
           pk_contentBytes = encodedSize (envelopeJson input [])\<rparr>))))))))"

definition journalP :: "(journal_db \<Rightarrow> 'a work) \<Rightarrow> ('r, 'a) preparing" where
  "journalP f = serviceP (journalW f)"

definition rawKey :: "string \<Rightarrow> record_key" where
  "rawKey key = \<lparr>rk_kind = RawRecord, rk_key = key\<rparr>"

text \<open>The content is the packed envelope; the unit is the chunk that carries it.\<close>

definition packedChunk :: "raw_preparation \<Rightarrow> raw_packing \<Rightarrow> raw_chunk" where
  "packedChunk q pk = (let content = stringify (envelopeJson (rq_input q) (pk_entries pk)) in
     preparedChunk (rq_host q) (rq_owner q) (rq_input q) (pk_objectId pk) (ho_sha (rq_host q) content) (btoa content))"

definition flushRaw :: "raw_preparation \<Rightarrow> raw_packing \<Rightarrow> ('r, raw_packing) preparing" where
  "flushRaw q pk =
     (if pk_entries pk = [] then returnA pk
      else let content = stringify (envelopeJson (rq_input q) (pk_entries pk)); l = rq_limits q in
        bindA (checkA (case decodeChunk (chunkJson (packedChunk q pk)) of None \<Rightarrow> Inl (RawRefused RawChunkInvalid) | Some c \<Rightarrow> Inr c)) (\<lambda>c.
        let bytes = stringify (chunkJson c); size = int (length bytes) in
        bindA (requireRaw (\<not> (int (length content) \<noteq> pk_contentBytes pk \<or> int (length content) > rl_objectBytes l \<or>
            size > rl_wireBytes l \<or> pk_ordinal pk \<ge> rl_units l \<or> size > rl_targetBytes l - pk_totalBytes pk)) RawOverpacked) (\<lambda>_.
        bindA (journalP (appendUnit (ho_sha (rq_host q)) (ho_limits (rq_host q)) (rq_owner q) (rq_captureId q) Raw (pk_ordinal pk) bytes)) (\<lambda>_.
        bindA (eachA (\<lambda>(key, _). journalP (bindRecord (rq_owner q) (rq_captureId q) (rawKey key) (BindUnit (pk_ordinal pk) None))) (pk_entries pk)) (\<lambda>_.
          returnA (pk\<lparr>pk_totalBytes := pk_totalBytes pk + size, pk_ordinal := pk_ordinal pk + 1, pk_entries := [],
            pk_contentBytes := encodedSize (envelopeJson (rq_input q) []),
            pk_objectId := objectId (rq_host q) (rq_profile q) (rq_captureId q) (pk_ordinal pk + 1)\<rparr>))))))"

definition unavailableRaw :: "raw_preparation \<Rightarrow> string \<Rightarrow> gap_reason \<Rightarrow> raw_packing \<Rightarrow> ('r, raw_reference \<times> raw_packing) preparing" where
  "unavailableRaw q key reason pk =
     bindA (journalP (bindRecord (rq_owner q) (rq_captureId q) (rawKey key) (BindUnavailable reason))) (\<lambda>_.
       returnA (RawUnavailable (''Raw '' @ gapName reason @ '' gap''), pk\<lparr>pk_gaps := pk_gaps pk + 1\<rparr>))"

definition recordFragment :: "string \<Rightarrow> string" where
  "recordFragment key = ''/records/'' @ key"

text \<open>A version an earlier activated capture holds is bound to its unit, when that unit is acknowledged or still deliverable
  under the same authority.\<close>

definition sameVersion :: "raw_preparation \<Rightarrow> raw_source \<Rightarrow> record_version \<Rightarrow> record_summary \<Rightarrow> bool" where
  "sameVersion q s allocated prior \<longleftrightarrow> rv_revision prior = rv_revision allocated \<and> ri_fingerprint prior = sr_fingerprint s \<and>
     ri_projectionVersion prior = rq_profile q \<and> rs_disposition prior \<in> {RecAcknowledged, RecPending}"

definition reuseUnit :: "raw_preparation \<Rightarrow> string \<Rightarrow> string \<Rightarrow> string \<Rightarrow> int \<Rightarrow> record_summary \<Rightarrow> ('r, raw_reference option) preparing" where
  "reuseUnit q previousId key unitCapture ordinal p =
     bindA (serviceP (inspectW (rq_owner q) unitCapture Raw False)) (\<lambda>(owning, _).
     bindA (serviceP (captureRawAuthority (rq_host q) (rq_owner q) unitCapture)) (\<lambda>authority.
     if rs_disposition p = RecAcknowledged \<or>
       (sm_rawCancelReason owning = None \<and> (case authority of None \<Rightarrow> False | Some a \<Rightarrow> sameRawAuthority a (rp_authority (rq_input q))))
     then bindA (journalP (bindRecord (rq_owner q) (rq_captureId q) (rawKey key) (BindUnit ordinal (Some previousId)))) (\<lambda>_.
       returnA (Some (RawObject (objectId (rq_host q) (rq_profile q) unitCapture ordinal) (Some (recordFragment key)))))
     else returnA None))"

definition reuseFrom :: "raw_preparation \<Rightarrow> string \<Rightarrow> raw_source \<Rightarrow> record_version \<Rightarrow> ('r, raw_reference option) preparing" where
  "reuseFrom q previousId s allocated =
     bindA (journalP (recordStatus (rq_owner q) previousId (rawKey (sr_key s)))) (\<lambda>prior.
       case Option.bind prior (\<lambda>p. if sameVersion q s allocated p then map_option (Pair p) (rs_unit p) else None) of
         None \<Rightarrow> returnA None
       | Some (p, (unitCapture, ordinal)) \<Rightarrow> reuseUnit q previousId (sr_key s) unitCapture ordinal p)"

definition reuseRaw :: "raw_preparation \<Rightarrow> raw_source \<Rightarrow> record_version \<Rightarrow> ('r, raw_reference option) preparing" where
  "reuseRaw q s allocated = (case rq_reusable q of None \<Rightarrow> returnA None | Some previousId \<Rightarrow> reuseFrom q previousId s allocated)"

definition entryJson :: "record_version \<Rightarrow> json \<Rightarrow> json" where
  "entryJson allocated row = JObj [(''revision'', JInt (rv_revision allocated)), (''row'', row)]"

definition candidateSize :: "raw_packing \<Rightarrow> string \<Rightarrow> json \<Rightarrow> int" where
  "candidateSize pk key entry = pk_contentBytes pk + (encodedSize (JStr key) + 1 + encodedSize entry) + (if pk_entries pk = [] then 0 else 1)"

definition packRaw :: "raw_preparation \<Rightarrow> string \<Rightarrow> json \<Rightarrow> raw_packing \<Rightarrow> ('r, raw_reference \<times> raw_packing) preparing" where
  "packRaw q key entry pk = (let l = rq_limits q in
     bindA (requireRaw (key \<notin> fst ` set (pk_entries pk)) RawRepeated) (\<lambda>_.
     bindA (if length (pk_entries pk) = 100 \<or> candidateSize pk key entry > rl_objectBytes l \<or>
         wireSize q (candidateSize pk key entry) > rl_wireBytes l then flushRaw q pk else returnA pk) (\<lambda>pk'.
     let size = candidateSize pk' key entry in
     if size > rl_objectBytes l \<or> wireSize q size > rl_wireBytes l \<or> pk_ordinal pk' \<ge> rl_units l \<or>
         wireSize q size > rl_targetBytes l - pk_totalBytes pk' then unavailableRaw q key GapLimit pk'
     else returnA (RawObject (pk_objectId pk') (Some (recordFragment key)),
       pk'\<lparr>pk_entries := pk_entries pk' @ [(key, entry)], pk_contentBytes := size\<rparr>))))"

definition recordRaw :: "raw_preparation \<Rightarrow> string \<Rightarrow> json option \<Rightarrow> raw_packing \<Rightarrow> ('r, raw_reference \<times> raw_packing) preparing" where
  "recordRaw q recordKey raw pk =
     bindA (rawSourceRecord (rq_host q) (rq_redactor q) recordKey raw) (\<lambda>s.
     bindA (journalP (recordObservation (ho_limits (rq_host q)) (rq_owner q) (rq_captureId q)
       (record_key.extend (rawKey (sr_key s)) \<lparr>ri_fingerprint = sr_fingerprint s, ri_projectionVersion = rq_profile q, ri_rawReference = None\<rparr>))) (\<lambda>allocated.
     let pk' = pk\<lparr>pk_records := pk_records pk + 1\<rparr> in
     case sr_masked s of
       Inl gap \<Rightarrow> unavailableRaw q (sr_key s) gap pk'
     | Inr row \<Rightarrow>
         bindA (reuseRaw q s allocated) (\<lambda>reused. case reused of
           Some found \<Rightarrow> returnA (found, pk'\<lparr>pk_reused := pk_reused pk' + 1\<rparr>)
         | None \<Rightarrow> packRaw q (sr_key s) (entryJson allocated row) pk')))"

record raw_prepared =
  ra_units :: int
  ra_bytes :: int
  ra_records :: int
  ra_reused :: int
  ra_gaps :: int
  ra_admission :: string

definition finishRaw :: "raw_preparation \<Rightarrow> raw_packing \<Rightarrow> ('r, raw_prepared) preparing" where
  "finishRaw q pk = bindA (flushRaw q pk) (\<lambda>pk'.
     returnA \<lparr>ra_units = pk_ordinal pk', ra_bytes = pk_totalBytes pk', ra_records = pk_records pk', ra_reused = pk_reused pk',
       ra_gaps = pk_gaps pk', ra_admission = rq_admission q\<rparr>)"

text \<open>The records of a source, in order, with the references the projection receives.\<close>

fun recordAll :: "raw_preparation \<Rightarrow> (string \<times> json option) list \<Rightarrow> raw_packing \<Rightarrow> ('r, raw_reference list \<times> raw_packing) preparing" where
  "recordAll q [] pk = returnA ([], pk)"
| "recordAll q ((recordKey, raw) # rest) pk =
     bindA (recordRaw q recordKey raw pk) (\<lambda>(found, pk'). bindA (recordAll q rest pk') (\<lambda>(later, pk''). returnA (found # later, pk'')))"

definition prepareRawAll :: "host \<Rightarrow> redactor \<Rightarrow> capture_owner \<Rightarrow> string \<Rightarrow> raw_input \<Rightarrow> (string \<times> json option) list \<Rightarrow>
    ('r, raw_reference list \<times> raw_prepared) preparing" where
  "prepareRawAll h r owner cid input rows =
     bindA (createRawPreparation h r owner cid input) (\<lambda>(q, pk). bindA (recordAll q rows pk) (\<lambda>(found, pk').
     bindA (finishRaw q pk') (\<lambda>prepared. returnA (found, prepared))))"

end
