(* ===== verification/RawChunks.thy ===== *)
theory RawChunks
  imports RawPreparation RawContent Utf8
begin

text \<open>The texts a Raw packing writes: the sizes of envelopes and of the chunks that carry them, and the
  metadata and contents the chunk schema admits.\<close>

section \<open>Texts without escapes\<close>

definition plain :: "string \<Rightarrow> bool" where
  "plain s \<longleftrightarrow> list_all (\<lambda>c. escapeChar c = [c]) s"

lemma plain_simps [simp]:
  "plain []" "plain (c # s) \<longleftrightarrow> escapeChar c = [c] \<and> plain s" "plain (s @ t) \<longleftrightarrow> plain s \<and> plain t"
  by (simp_all add: plain_def)

lemma shown_plain: "plain s \<Longrightarrow> length (showString s) = length s + 2"
  unfolding showString_def by (induction s) auto

lemma printable_plain:
  assumes "32 \<le> code c" "code c \<noteq> 34" "code c \<noteq> 92"
  shows "escapeChar c = [c]"
proof -
  have "c \<noteq> CHR 0x22" "c \<noteq> CHR 0x5C" "c \<noteq> CHR 0x08" "c \<noteq> CHR 0x09" "c \<noteq> CHR 0x0A" "c \<noteq> CHR 0x0C" "c \<noteq> CHR 0x0D"
    using assms escape_codes(1-7) by (metis, metis, (metis linorder_not_le numeral_less_iff semiring_norm(76,78,81))+)
  then show ?thesis using assms(1) by (simp add: escapeChar_def)
qed

lemma letter_codes: "code (CHR ''='') = 61" "code (CHR ''_'') = 95" "code (CHR ''+'') = 43" "code (CHR ''/'') = 47"
  by code_simp+

definition letter :: "char \<Rightarrow> bool" where
  "letter c \<longleftrightarrow> isHexDigit c \<or> isBase64Char c \<or> c = CHR ''='' \<or> c = CHR ''_''"

lemma letter_range: "letter c \<Longrightarrow> 43 \<le> code c \<and> code c \<le> 122 \<and> code c \<noteq> 92"
  using letter_codes by (auto simp: letter_def isHexDigit_def isBase64Char_def isDigit_def)

lemma letter_plain: "letter c \<Longrightarrow> escapeChar c = [c]"
  by (rule printable_plain) (auto dest: letter_range)

lemma letters_plain: "list_all letter s \<Longrightarrow> plain s"
  by (induction s) (auto intro: letter_plain)

lemma letters_units: "list_all letter s \<Longrightarrow> utf16_length s = length s"
proof (induction s)
  case (Cons c s)
  then have "utf16_units c = 1" using letter_range[of c] by (simp add: utf16_units_def)
  with Cons show ?case by (simp add: utf16_length_def)
qed (simp add: utf16_length_def)

lemma letters_ascii: "list_all letter s \<Longrightarrow> validUtf8 s"
  by (rule valid_ascii) (auto simp: list_all_iff dest!: bspec letter_range)

lemma letters_clean: "list_all letter s \<Longrightarrow> CHR 0x00 \<notin> set s"
proof
  assume s: "list_all letter s" and "CHR 0x00 \<in> set s"
  then have "letter (CHR 0x00)" by (auto simp: list_all_iff)
  moreover have "code (CHR 0x00) = 0" by code_simp
  ultimately show False using letter_range[of "CHR 0x00"] by simp
qed

lemma hex_letters: "isSha256Hex s \<Longrightarrow> list_all letter s \<and> length s = 64"
  by (auto simp: isSha256Hex_def letter_def list_all_iff)

lemma base64_letters: "list_all letter (btoa b)"
  by (induction b rule: btoa.induct) (auto simp: digit_bounds letter_def)

lemma base64_length: "length (btoa b) = 4 * ((length b + 2) div 3)"
proof (induction b rule: btoa.induct)
  case (4 x y z r)
  have "(length (x # y # z # r) + 2) div 3 = Suc ((length r + 2) div 3)"
    by (simp only: list.size)
  then show ?case using 4 by simp
qed simp_all

section \<open>Envelopes\<close>

lemma members_snoc:
  "length (stringifyMembers (ms @ [(k, v)])) =
     length (stringifyMembers ms) + (length (showString k) + 1 + length (stringify v)) + (if ms = [] then 0 else 1)"
  by (induction ms) auto

lemma envelope_snoc:
  "encodedSize (envelopeJson input (es @ [(k, v)])) =
     encodedSize (envelopeJson input es) + (encodedSize (JStr k) + 1 + encodedSize v) + (if es = [] then 0 else 1)"
  by (simp add: encodedSize_def envelopeJson_def members_snoc)

lemma chunk_size:
  assumes "plain oid" "plain oid'" "length oid = length oid'" "plain sha" "plain sha'" "length sha = length sha'" "plain content"
  shows "encodedSize (chunkJson (preparedChunk h owner input oid sha content)) =
    encodedSize (chunkJson (preparedChunk h owner input oid' sha' [])) + int (length content)"
proof -
  have "length (showString (oid @ ''_0'')) = length (showString (oid' @ ''_0''))"
    using assms letter_plain[of "CHR ''_''"] letter_plain[of "CHR ''0''"] by (simp add: shown_plain letter_def isHexDigit_def escape_codes)
  moreover have "length (showString oid) = length (showString oid')" "length (showString sha) = length (showString sha')"
      "length (showString content) = length (showString []) + length content"
    using assms by (simp_all add: shown_plain)
  ultimately show ?thesis
    unfolding encodedSize_def chunkJson_def obj_def metadataMembers_def preparedChunk_def by (simp add: List.map_filter_def del: append_assoc)
qed

section \<open>Chunks\<close>

definition admitsMetadata :: "'a raw_metadata_scheme \<Rightarrow> bool" where
  "admitsMetadata m \<longleftrightarrow> list_all (nameText 512) [rn_sessionId m, rn_installationId m, rn_adapterId m, rn_sourceObjectId m,
     rn_sourceChunkId m, md_sourceName m, md_mediaType m, md_adapterVersion m, pf_head (md_publication m)] \<and>
     rawTimestamp (md_capturedAt m) \<and> 0 \<le> md_offset m \<and> md_offset m \<le> max_safe_integer \<and> isSha256Hex (md_sha256 m) \<and>
     admitsAuthority (pf_authority (md_publication m))"

definition admitsContent :: "string \<Rightarrow> bool" where
  "admitsContent v \<longleftrightarrow> int (utf16_length v) \<le> 4 * 1024 * 1024 \<and> base64Shape v"

lemma decode_authority: "decodeAuthority (authorityJson a) = (if admitsAuthority a then Some a else None)"
  by (simp add: authorityJson_def decodeAuthority_def admitsAuthority_def codec_simps)

lemma decode_proof:
  "decodeProof (proofJson p) = (if nameText 512 (pf_head p) \<and> admitsAuthority (pf_authority p) then Some p else None)"
  by (simp add: proofJson_def decodeProof_def codec_simps decode_authority)

lemma decode_metadata:
  fixes m :: "'a raw_metadata_scheme"
  assumes "distinct (map fst ms)" "set (map fst ms) \<inter> set (map fst (metadataMembers m)) = {}"
  shows "decodeRawMetadata (obj (metadataMembers m @ ms)) = (if admitsMetadata m then Some (raw_metadata.truncate m) else None)"
proof -
  have d: "distinct (map fst (metadataMembers m @ ms))"
    using assms by (simp add: metadataMembers_def)
  show ?thesis unfolding decodeRawMetadata_def required_obj[OF d]
    by (simp add: metadataMembers_def admitsMetadata_def codec_simps decode_proof raw_metadata.defs checkedBy_def)
qed

lemma decode_chunk:
  "decodeChunk (chunkJson c) = (if admitsMetadata c \<and> admitsContent (ch_contentBase64 c) then Some c else None)"
proof -
  let ?ms = "[(''contentBase64'', Some (JStr (ch_contentBase64 c)))]"
  have d: "distinct (map fst (metadataMembers c @ ?ms))" by (simp add: metadataMembers_def)
  have m: "decodeRawMetadata (chunkJson c) = (if admitsMetadata c then Some (raw_metadata.truncate c) else None)"
    unfolding chunkJson_def by (rule decode_metadata) (simp_all add: metadataMembers_def)
  have "map_of (metadataMembers c @ ?ms) ''contentBase64'' = Some (Some (JStr (ch_contentBase64 c)))"
    by (simp add: metadataMembers_def)
  then have "required ''contentBase64'' dec (chunkJson c) = dec (JStr (ch_contentBase64 c))" for dec :: "string decoder"
    unfolding chunkJson_def required_obj[OF d] by simp
  then show ?thesis
    by (simp add: decodeChunk_def m admitsContent_def checkedBy_def raw_metadata.defs raw_chunk.defs)
qed

text \<open>The chunk of an object differs from the chunk the admission checked in its digest, content and identity only.\<close>

lemma prepared_admitted:
  assumes "admitsMetadata (preparedChunk h owner input oid sha x)" "nameText 512 oid'" "nameText 512 (oid' @ ''_0'')" "isSha256Hex sha'"
  shows "admitsMetadata (preparedChunk h owner input oid' sha' y)"
  using assms by (simp add: admitsMetadata_def preparedChunk_def)

lemma base64_admitted: "int (length b) \<le> 3 * 1024 * 1024 \<Longrightarrow> admitsContent (btoa b)"
  unfolding admitsContent_def letters_units[OF base64_letters] base64_length
  by (simp add: btoa_shape)

lemma letters_named: "list_all letter s \<Longrightarrow> s \<noteq> [] \<Longrightarrow> length s \<le> n \<Longrightarrow> nameText n s"
  by (simp add: nameText_def letters_units letters_clean)

end
