(* ===== verification/RawPacking.thy ===== *)
theory RawPacking
  imports RawChunks DeliverySafety
begin

text \<open>The Raw packing: its counters are the sizes of what it holds, so a flush always fits the admitted
  budget, and every unit it adds to the journal is one the Raw delivery accepts.\<close>

section \<open>The counters of a packing\<close>

definition hashesHex :: "host \<Rightarrow> bool" where
  "hashesHex h \<longleftrightarrow> (\<forall>b. isSha256Hex (ho_sha h b))"

text \<open>What the creation of a preparation has checked.\<close>

definition admitted :: "raw_preparation \<Rightarrow> bool" where
  "admitted q \<longleftrightarrow> hashesHex (rq_host q) \<and> (let l = rq_limits q; c = preparedChunk (rq_host q) (rq_owner q) (rq_input q)
       (objectId (rq_host q) (rq_profile q) (rq_captureId q) 0) zeros64 [] in
     rl_objectBytes l \<le> 3 * 1024 * 1024 \<and> rl_wireBytes l \<le> RawPublicationWireBytes \<and> rl_wireBytes l \<le> rl_targetBytes l \<and>
     1 \<le> rl_units l \<and> 1 \<le> rl_wireBytes l \<and> rq_wireOverhead q = encodedSize (chunkJson c) \<and> admitsMetadata c)"

definition contentOf :: "raw_preparation \<Rightarrow> raw_packing \<Rightarrow> string" where
  "contentOf q pk = stringify (envelopeJson (rq_input q) (pk_entries pk))"

definition wireOf :: "raw_preparation \<Rightarrow> raw_packing \<Rightarrow> bytes" where
  "wireOf q pk = stringify (chunkJson (packedChunk q pk))"

definition counted :: "raw_preparation \<Rightarrow> raw_packing \<Rightarrow> bool" where
  "counted q pk \<longleftrightarrow> pk_contentBytes pk = int (length (contentOf q pk)) \<and>
     pk_objectId pk = objectId (rq_host q) (rq_profile q) (rq_captureId q) (pk_ordinal pk) \<and>
     0 \<le> pk_ordinal pk \<and> pk_ordinal pk \<le> rl_units (rq_limits q) \<and> 0 \<le> pk_totalBytes pk \<and> pk_totalBytes pk \<le> rl_targetBytes (rq_limits q) \<and>
     0 \<le> pk_gaps pk \<and> 0 \<le> pk_reused pk \<and> pk_gaps pk + pk_reused pk \<le> pk_records pk"

definition within :: "raw_preparation \<Rightarrow> int \<Rightarrow> raw_packing \<Rightarrow> bool" where
  "within q n pk \<longleftrightarrow> n \<le> rl_objectBytes (rq_limits q) \<and> wireSize q n \<le> rl_wireBytes (rq_limits q) \<and>
     pk_ordinal pk < rl_units (rq_limits q) \<and> wireSize q n \<le> rl_targetBytes (rq_limits q) - pk_totalBytes pk"

definition packed :: "raw_preparation \<Rightarrow> raw_packing \<Rightarrow> bool" where
  "packed q pk \<longleftrightarrow> counted q pk \<and> (pk_entries pk = [] \<or> within q (pk_contentBytes pk) pk)"

lemma object_letters:
  assumes "hashesHex h"
  shows "list_all letter (objectId h profile cid n)" "length (objectId h profile cid n) = 66"
proof -
  have "isSha256Hex (hashJson h j)" for j using assms by (simp add: hashesHex_def hashJson_def)
  note hex = hex_letters[OF this]
  have "letter (CHR ''r'')" "letter (CHR ''_'')" by (code_simp, simp add: letter_def)
  then show "list_all letter (objectId h profile cid n)" "length (objectId h profile cid n) = 66"
    using hex by (simp_all add: objectId_def)
qed

lemma object_named:
  assumes "hashesHex h"
  shows "nameText 512 (objectId h profile cid n)" "nameText 512 (objectId h profile cid n @ ''_0'')"
proof -
  have "objectId h profile cid n \<noteq> []" using object_letters(2)[OF assms, of profile cid n] by auto
  moreover have "list_all letter ''_0''" by (simp add: letter_def isHexDigit_def escape_codes)
  ultimately show "nameText 512 (objectId h profile cid n)" "nameText 512 (objectId h profile cid n @ ''_0'')"
    using object_letters[OF assms, of profile cid n] by (auto intro!: letters_named)
qed

lemma zeros_letters: "list_all letter zeros64" "length zeros64 = 64"
  by (simp_all add: zeros64_def letter_def isHexDigit_def escape_codes list_all_iff)

text \<open>The unit has the size the admission computed.\<close>

lemma wire_exact:
  assumes "admitted q" "counted q pk"
  shows "int (length (wireOf q pk)) = wireSize q (pk_contentBytes pk)"
proof -
  have h: "hashesHex (rq_host q)" using assms(1) by (simp add: admitted_def)
  have sha: "isSha256Hex (ho_sha (rq_host q) (contentOf q pk))" using h by (simp add: hashesHex_def)
  have "encodedSize (chunkJson (packedChunk q pk)) = rq_wireOverhead q + int (length (btoa (contentOf q pk)))"
    using assms chunk_size[OF letters_plain[OF object_letters(1)[OF h]] letters_plain[OF object_letters(1)[OF h]] _ 
        letters_plain[OF hex_letters[OF sha, THEN conjunct1]] letters_plain[OF zeros_letters(1)] _ letters_plain[OF base64_letters]]
    by (simp add: admitted_def counted_def packedChunk_def contentOf_def[symmetric] object_letters(2)[OF h] zeros_letters(2) hex_letters[OF sha] Let_def)
  also have "\<dots> = wireSize q (pk_contentBytes pk)"
    using assms(2) by (simp add: wireSize_def base64_length counted_def zdiv_int)
  finally show ?thesis by (simp add: wireOf_def encodedSize_def)
qed

lemma packed_decodes:
  assumes "admitted q" "counted q pk" "pk_contentBytes pk \<le> rl_objectBytes (rq_limits q)"
  shows "decodeChunk (chunkJson (packedChunk q pk)) = Some (packedChunk q pk)"
proof -
  have h: "hashesHex (rq_host q)" using assms(1) by (simp add: admitted_def)
  have named: "nameText 512 (pk_objectId pk)" "nameText 512 (pk_objectId pk @ ''_0'')"
    using assms(2) object_named[OF h] by (simp_all add: counted_def)
  have checked: "admitsMetadata (preparedChunk (rq_host q) (rq_owner q) (rq_input q)
       (objectId (rq_host q) (rq_profile q) (rq_captureId q) 0) zeros64 [])"
    using assms(1) by (simp add: admitted_def Let_def)
  have "isSha256Hex (ho_sha (rq_host q) b)" for b using h by (simp add: hashesHex_def)
  then have "admitsMetadata (packedChunk q pk)"
    unfolding packedChunk_def Let_def by (intro prepared_admitted[OF checked named])
  moreover have "admitsContent (ch_contentBase64 (packedChunk q pk))"
    using assms base64_admitted[of "contentOf q pk"]
    by (simp add: packedChunk_def preparedChunk_def contentOf_def admitted_def counted_def Let_def)
  ultimately show ?thesis by (simp add: decode_chunk)
qed

section \<open>Units in the journal\<close>

text \<open>Every unit beyond those of the base is a Raw unit of the capture that carries a packing.\<close>

definition carries :: "raw_preparation \<Rightarrow> unit_row \<Rightarrow> bool" where
  "carries q u \<longleftrightarrow> un_capture u = rq_captureId q \<and> un_kind u = Raw \<and> 0 \<le> un_ordinal u \<and> un_ordinal u < rl_units (rq_limits q) \<and>
     (\<exists>pk. un_body u = Some (wireOf q pk) \<and> counted q pk \<and> within q (pk_contentBytes pk) pk \<and> pk_ordinal pk = un_ordinal u)"

definition grown :: "journal_db \<Rightarrow> raw_preparation \<Rightarrow> journal_db \<Rightarrow> bool" where
  "grown base q db \<longleftrightarrow> set (db_units base) \<subseteq> set (db_units db) \<and> (\<forall>u\<in>set (db_units db). u \<in> set (db_units base) \<or> carries q u)"

abbreviation grownW :: "journal_db \<Rightarrow> raw_preparation \<Rightarrow> 'r world \<Rightarrow> bool" where
  "grownW base q w \<equiv> grown base q (wd_journal w)"

lemma grown_units: "db_units db' = db_units db \<Longrightarrow> grown base q db' = grown base q db"
  by (simp add: grown_def)

lemma ensures_journalP:
  assumes "\<And>db db' x. P db \<Longrightarrow> f db = Inr (db', x) \<Longrightarrow> Q x db'" "\<And>e db. P db \<Longrightarrow> E (ServiceFailure (JournalFailure e)) db"
  shows "ensures (\<lambda>w. P (wd_journal w)) (journalP f) (\<lambda>x w. Q x (wd_journal w)) (\<lambda>e w. E e (wd_journal w))"
proof (rule ensuresI)
  fix w :: "'r world" assume "P (wd_journal w)"
  then show "case journalP f w of (w', Inr x) \<Rightarrow> Q x (wd_journal w') | (w', Inl e) \<Rightarrow> E e (wd_journal w')"
    using assms by (cases "f (wd_journal w)") (auto simp: journalP_def serviceP_def mapErrorA_def journalW_def transaction_def Let_def)
qed

lemma record_units: "recordObservation lim owner cid input db = Inr (db', v) \<Longrightarrow> db_units db' = db_units db"
  by (drule recordObservation_effect) (auto simp: storeObservation_def Let_def updateCaptures_def insertMember_def upsertVersion_def)

lemma bind_units: "bindRecord owner cid ident b db = Inr (db', r) \<Longrightarrow> db_units db' = db_units db"
  by (drule bindRecord_effect) (auto simp: updateMembers_def)

lemma status_same: "recordStatus owner cid ident db = Inr (db', v) \<Longrightarrow> db' = db"
  by (auto simp: recordStatus_def bindE_Inr_iff split: option.splits)

lemma coverage_same: "coverage owner db = Inr (db', v) \<Longrightarrow> db' = db"
  by (auto simp: coverage_def bindE_Inr_iff)

lemma append_units:
  assumes "appendUnit sha lim owner cid k n content db = Inr (db', r)"
  shows "\<exists>u\<in>set (db_units db'). un_capture u = cid \<and> un_kind u = k \<and> un_digest u = sha content"
    and "\<exists>key. db_units db' = db_units db \<or> db_units db' = db_units db @ [newUnit sha key cid k n content]"
proof -
  show "\<exists>key. db_units db' = db_units db \<or> db_units db' = db_units db @ [newUnit sha key cid k n content]"
    using appendUnit_effect[OF assms] by (auto simp: addRetained_def updateCaptures_def insertUnit_def)
  show "\<exists>u\<in>set (db_units db'). un_capture u = cid \<and> un_kind u = k \<and> un_digest u = sha content"
    using appendUnit_effect[OF assms]
    by (auto simp: addRetained_def updateCaptures_def insertUnit_def newUnit_def unitIs_def unitKey_def dest!: find_Some_in)
qed

lemma append_grown:
  assumes "appendUnit sha lim (rq_owner q) (rq_captureId q) Raw (pk_ordinal pk) (wireOf q pk) db = Inr (db', r)"
    and "grown base q db" "counted q pk" "within q (pk_contentBytes pk) pk"
  shows "grown base q db'"
proof -
  have "carries q (newUnit sha key (rq_captureId q) Raw (pk_ordinal pk) (wireOf q pk))" for key
    using assms(3,4) unfolding carries_def newUnit_def by (auto simp: within_def counted_def)
  then show ?thesis using append_units(2)[OF assms(1)] assms(2) by (auto simp: grown_def)
qed

text \<open>A record lies in a unit whose digest is that of a chunk of the object its reference names.\<close>

definition stored :: "raw_preparation \<Rightarrow> journal_db \<Rightarrow> string \<Rightarrow> string \<Rightarrow> bool" where
  "stored q db oid key \<longleftrightarrow> (\<exists>u\<in>set (db_units db). \<exists>pk. un_capture u = rq_captureId q \<and> un_kind u = Raw \<and>
     un_digest u = ho_sha (rq_host q) (wireOf q pk) \<and> pk_objectId pk = oid \<and> key \<in> fst ` set (pk_entries pk))"

definition resolves :: "raw_preparation \<Rightarrow> raw_packing \<Rightarrow> journal_db \<Rightarrow> raw_reference \<Rightarrow> bool" where
  "resolves q pk db found \<longleftrightarrow> (case found of RawUnavailable _ \<Rightarrow> True | RawObject oid part \<Rightarrow> rq_reusable q \<noteq> None \<or>
     (\<exists>key. part = Some (recordFragment key) \<and>
        ((oid = pk_objectId pk \<and> key \<in> fst ` set (pk_entries pk)) \<or> stored q db oid key)))"

section \<open>The steps of the packing\<close>

definition sound :: "preparation_error \<Rightarrow> bool" where
  "sound e \<longleftrightarrow> e \<noteq> RawRefused RawOverpacked \<and> e \<noteq> RawRefused RawChunkInvalid"

text \<open>The state between steps: the packing fits, the journal has grown by its units, the references handed out resolve.\<close>

definition holds :: "journal_db \<Rightarrow> raw_preparation \<Rightarrow> raw_reference list \<Rightarrow> raw_packing \<Rightarrow> journal_db \<Rightarrow> bool" where
  "holds base q found pk db \<longleftrightarrow> packed q pk \<and> grown base q db \<and> list_all (resolves q pk db) found"

definition failed :: "journal_db \<Rightarrow> raw_preparation \<Rightarrow> preparation_error \<Rightarrow> journal_db \<Rightarrow> bool" where
  "failed base q e db \<longleftrightarrow> sound e \<and> grown base q db"

abbreviation step :: "journal_db \<Rightarrow> raw_preparation \<Rightarrow> (journal_db \<Rightarrow> bool) \<Rightarrow> ('r, 'a) preparing \<Rightarrow> ('a \<Rightarrow> journal_db \<Rightarrow> bool) \<Rightarrow> bool" where
  "step base q P m Q \<equiv> ensures (\<lambda>w. P (wd_journal w)) m (\<lambda>x w. Q x (wd_journal w)) (\<lambda>e w. failed base q e (wd_journal w))"

lemma service_sound [simp]: "sound (ServiceFailure e)"
  by (simp add: sound_def)

lemma flush_packed:
  assumes "admitted q" "packed q pk" "pk_entries pk \<noteq> []"
  shows "decodeChunk (chunkJson (packedChunk q pk)) = Some (packedChunk q pk)"
    and "int (length (stringify (envelopeJson (rq_input q) (pk_entries pk)))) = pk_contentBytes pk"
    and "int (length (wireOf q pk)) = wireSize q (pk_contentBytes pk)" "within q (pk_contentBytes pk) pk" "counted q pk"
proof -
  show fits: "within q (pk_contentBytes pk) pk" "counted q pk" using assms(2,3) by (simp_all add: packed_def)
  show "decodeChunk (chunkJson (packedChunk q pk)) = Some (packedChunk q pk)"
    using packed_decodes[OF assms(1) fits(2)] fits(1) by (simp add: within_def)
  show "int (length (wireOf q pk)) = wireSize q (pk_contentBytes pk)" by (rule wire_exact[OF assms(1) fits(2)])
  show "int (length (stringify (envelopeJson (rq_input q) (pk_entries pk)))) = pk_contentBytes pk"
    using fits(2) by (simp add: counted_def contentOf_def)
qed

lemma stored_mono: "set (db_units db) \<subseteq> set (db_units db') \<Longrightarrow> stored q db oid key \<Longrightarrow> stored q db' oid key"
  unfolding stored_def by blast

lemma resolves_flushed:
  assumes "resolves q pk db found" "appendUnit (ho_sha (rq_host q)) lim (rq_owner q) (rq_captureId q) Raw n (wireOf q pk) db = Inr (db', r)"
  shows "resolves q pk' db' found"
proof (cases found)
  case (RawObject oid part)
  have mono: "set (db_units db) \<subseteq> set (db_units db')" using append_units(2)[OF assms(2)] by auto
  have new: "stored q db' (pk_objectId pk) key" if "key \<in> fst ` set (pk_entries pk)" for key
    using append_units(1)[OF assms(2)] that unfolding stored_def by blast
  show ?thesis
  proof (cases "rq_reusable q = None")
    case True
    then obtain key where "part = Some (recordFragment key)"
        "(oid = pk_objectId pk \<and> key \<in> fst ` set (pk_entries pk)) \<or> stored q db oid key"
      using assms(1) RawObject unfolding resolves_def by auto
    then have "part = Some (recordFragment key) \<and> stored q db' oid key" using new stored_mono[OF mono] by blast
    then show ?thesis using RawObject unfolding resolves_def by auto
  qed (simp add: RawObject resolves_def)
qed (simp add: resolves_def)

lemma resolves_units: "db_units db' = db_units db \<Longrightarrow> resolves q pk db' found = resolves q pk db found"
  by (simp add: resolves_def stored_def cong: raw_reference.case_cong)

lemma journal_step:
  assumes "\<And>db db' x. P db \<Longrightarrow> f db = Inr (db', x) \<Longrightarrow> Q x db'" "\<And>db. P db \<Longrightarrow> grown base q db"
  shows "step base q P (journalP f) Q"
  by (rule ensures_journalP) (use assms in \<open>auto simp: failed_def\<close>)

text \<open>A call that leaves the units alone.\<close>

definition settledIn :: "journal_db \<Rightarrow> raw_preparation \<Rightarrow> raw_reference list \<Rightarrow> journal_db \<Rightarrow> bool" where
  "settledIn base q found db \<longleftrightarrow> grown base q db \<and> (\<forall>pk. list_all (resolves q pk db) found)"

lemma units_step:
  assumes "\<And>db db' x. f db = Inr (db', x) \<Longrightarrow> db_units db' = db_units db"
  shows "step base q (settledIn base q found) (journalP f) (\<lambda>_. settledIn base q found)"
    and "step base q (holds base q found pk) (journalP f) (\<lambda>_. holds base q found pk)"
proof -
  have same: "grown base q db' = grown base q db \<and> (\<forall>pk found. resolves q pk db' found = resolves q pk db found)"
    if "f db = Inr (db', x)" for db db' x
    using assms[OF that] grown_units resolves_units by blast
  show "step base q (settledIn base q found) (journalP f) (\<lambda>_. settledIn base q found)"
    by (rule journal_step) (auto simp: settledIn_def list_all_iff dest!: same)
  show "step base q (holds base q found pk) (journalP f) (\<lambda>_. holds base q found pk)"
    by (rule journal_step) (auto simp: holds_def list_all_iff dest!: same)
qed

definition sameCounts :: "raw_packing \<Rightarrow> raw_packing \<Rightarrow> bool" where
  "sameCounts pk pk' \<longleftrightarrow> pk_records pk' = pk_records pk \<and> pk_gaps pk' = pk_gaps pk \<and> pk_reused pk' = pk_reused pk"

lemma bind_checked [simp]: "bindA (checkA (Inr x)) k = k x" "bindA (requireRaw True e) n = n ()"
  by (simp_all add: fun_eq_iff bindA_def checkA_def requireRaw_def)

definition flushed :: "raw_preparation \<Rightarrow> raw_packing \<Rightarrow> raw_packing" where
  "flushed q pk = pk\<lparr>pk_totalBytes := pk_totalBytes pk + int (length (wireOf q pk)), pk_ordinal := pk_ordinal pk + 1, pk_entries := [],
      pk_contentBytes := encodedSize (envelopeJson (rq_input q) []),
      pk_objectId := objectId (rq_host q) (rq_profile q) (rq_captureId q) (pk_ordinal pk + 1)\<rparr>"

text \<open>A flush of a packing that fits passes its own checks.\<close>

lemma flush_run:
  assumes "admitted q" "packed q pk" "pk_entries pk \<noteq> []"
  shows "flushRaw q pk =
    bindA (journalP (appendUnit (ho_sha (rq_host q)) (ho_limits (rq_host q)) (rq_owner q) (rq_captureId q) Raw (pk_ordinal pk) (wireOf q pk)))
      (\<lambda>_. bindA (eachA (\<lambda>(key, _). journalP (bindRecord (rq_owner q) (rq_captureId q) (rawKey key) (BindUnit (pk_ordinal pk) None))) (pk_entries pk))
        (\<lambda>_. returnA (flushed q pk)))"
  using assms(3) flush_packed[OF assms] by (simp add: flushRaw_def flushed_def Let_def within_def wireOf_def)

lemma flush_step:
  assumes "admitted q"
  shows "step base q (holds base q found pk) (flushRaw q pk)
    (\<lambda>pk' db. holds base q found pk' db \<and> pk_entries pk' = [] \<and> sameCounts pk pk')"
proof (cases "pk_entries pk = [] \<or> \<not> packed q pk")
  case True
  then show ?thesis unfolding flushRaw_def by (auto simp: holds_def ensures_def returnA_def sameCounts_def)
next
  case False
  then have pk: "packed q pk" "pk_entries pk \<noteq> []" by auto
  note fits = flush_packed[OF assms pk]
  have append: "step base q (holds base q found pk)
      (journalP (appendUnit (ho_sha (rq_host q)) (ho_limits (rq_host q)) (rq_owner q) (rq_captureId q) Raw (pk_ordinal pk) (wireOf q pk)))
      (\<lambda>_. settledIn base q found)"
    by (rule journal_step)
      (use fits append_grown resolves_flushed in \<open>auto simp: holds_def settledIn_def list_all_iff\<close>)
  have bind: "step base q (settledIn base q found) (eachA (\<lambda>(key, _). journalP (bindRecord (rq_owner q) (rq_captureId q) (rawKey key)
      (BindUnit (pk_ordinal pk) None))) (pk_entries pk)) (\<lambda>_. settledIn base q found)"
    by (rule ensures_each[where E = "\<lambda>e w. failed base q e (wd_journal w)"]) (auto intro!: units_step(1) dest: bind_units)
  have "packed q (flushed q pk)" using fits(3-5) pk(2)
    by (auto simp: flushed_def packed_def counted_def within_def contentOf_def encodedSize_def)
  then have result: "step base q (settledIn base q found) (returnA (flushed q pk))
      (\<lambda>pk' db. holds base q found pk' db \<and> pk_entries pk' = [] \<and> sameCounts pk pk')"
    by (intro ensures_return) (simp add: holds_def settledIn_def sameCounts_def flushed_def)
  show ?thesis unfolding flush_run[OF assms pk] by (rule ensures_bind[OF append ensures_bind[OF bind result]])
qed

text \<open>Reads of the journal.\<close>

definition reads :: "('r, 'a) effect \<Rightarrow> bool" where
  "reads m \<longleftrightarrow> (\<forall>w. fst (m w) = w)"

lemma read_step:
  fixes m :: "('r, 'a) effect"
  assumes "reads m" "\<And>db. P db \<Longrightarrow> grown base q db"
  shows "step base q P (serviceP m) (\<lambda>_. P)"
proof (rule ensuresI)
  fix w :: "'r world" assume "P (wd_journal w)"
  moreover obtain r where "m w = (w, r)" using assms(1) unfolding reads_def by (metis prod.collapse)
  ultimately show "case serviceP m w of (w', Inr x) \<Rightarrow> P (wd_journal w') | (w', Inl e) \<Rightarrow> failed base q e (wd_journal w')"
    using assms(2) by (cases r) (auto simp: serviceP_def mapErrorA_def failed_def)
qed

lemma reads_journal: "(\<And>db db' x. f db = Inr (db', x) \<Longrightarrow> db' = db) \<Longrightarrow> reads (journalW f)"
  by (force simp: reads_def journalW_def transaction_def Let_def split: sum.split prod.split)

lemma reads_bind: "reads m \<Longrightarrow> (\<And>x. reads (k x)) \<Longrightarrow> reads (bindW m k)"
  by (auto simp: reads_def bindW_def split: sum.split prod.split) (metis fst_conv)+

lemma reads_simple: "reads (returnW x)" "reads (checkW c)"
  by (simp_all add: reads_def returnW_def checkW_def)

lemma reads_inspect: "reads (inspectW owner cid k p)"
  unfolding inspectW_def by (rule reads_journal) (rule inspect_same)

lemma reads_authority: "reads (captureRawAuthority h owner cid)"
  unfolding captureRawAuthority_def by (auto intro!: reads_bind reads_inspect reads_simple split: prod.split)

section \<open>Records\<close>

lemma resolves_packing:
  "pk_objectId pk' = pk_objectId pk \<Longrightarrow> set (pk_entries pk) \<subseteq> set (pk_entries pk') \<Longrightarrow> resolves q pk db found \<Longrightarrow> resolves q pk' db found"
  by (auto simp: resolves_def split: raw_reference.splits)

text \<open>A packing with a record that is neither a gap nor reused yet.\<close>

definition room :: "raw_packing \<Rightarrow> bool" where
  "room pk \<longleftrightarrow> pk_gaps pk + pk_reused pk < pk_records pk"

lemma holds_counts:
  assumes "holds base q found pk db" "0 \<le> g" "0 \<le> n" "g + n \<le> m" "resolves q pk db r"
  shows "holds base q (r # found) (pk\<lparr>pk_gaps := g, pk_reused := n, pk_records := m\<rparr>) db"
  using assms by (auto simp: holds_def packed_def counted_def within_def contentOf_def list_all_iff intro: resolves_packing[of _ pk])

lemma unavailable_step:
  assumes "room pk"
  shows "step base q (holds base q found pk) (unavailableRaw q key g pk)
    (\<lambda>(r, pk') db. holds base q (r # found) pk' db \<and> pk_records pk' = pk_records pk)"
proof -
  let ?pk = "pk\<lparr>pk_gaps := pk_gaps pk + 1\<rparr>"
  have counts: "?pk = pk\<lparr>pk_gaps := pk_gaps pk + 1, pk_reused := pk_reused pk, pk_records := pk_records pk\<rparr>" by simp
  have "holds base q (RawUnavailable t # found) ?pk db" if "holds base q found pk db" for t db
    by (subst counts) (rule holds_counts[OF that]; use that assms in \<open>simp add: holds_def packed_def counted_def room_def resolves_def\<close>)
  then show ?thesis unfolding unavailableRaw_def
    by (intro ensures_bind[OF units_step(2)] ensures_return) (auto dest: bind_units)
qed

lemma reuse_unit_step:
  assumes "rq_reusable q \<noteq> None"
  shows "step base q (holds base q found pk) (reuseUnit q previous key c n p) (\<lambda>r db. holds base q (case r of None \<Rightarrow> found | Some x \<Rightarrow> x # found) pk db)"
proof -
  have any: "holds base q (x # found) pk db" if "holds base q found pk db" for x db
    using that assms by (simp add: holds_def resolves_def split: raw_reference.split)
  have grows: "holds base q found pk db \<Longrightarrow> grown base q db" for db by (simp add: holds_def)
  note reading = read_step[where P = "holds base q found pk", OF _ grows]
  show ?thesis unfolding reuseUnit_def
    by (intro ensures_bind[OF reading[OF reads_inspect]] ensures_bind[OF reading[OF reads_authority]]
          ensures_bind[OF units_step(2)] ensures_return)
       (auto split: prod.split intro!: ensures_bind[OF reading[OF reads_authority]] ensures_bind[OF units_step(2)] ensures_return any dest: bind_units)
qed

lemma reuse_step:
  "step base q (holds base q found pk) (reuseRaw q s allocated) (\<lambda>r db. holds base q (case r of None \<Rightarrow> found | Some x \<Rightarrow> x # found) pk db)"
proof (cases "rq_reusable q")
  case (Some previous)
  then have reuse: "step base q (holds base q found pk) (reuseUnit q previous key c n p) (\<lambda>r db. holds base q (case r of None \<Rightarrow> found | Some x \<Rightarrow> x # found) pk db)"
    for key c n p by (intro reuse_unit_step) simp
  have "step base q (holds base q found pk) (reuseFrom q previous s allocated) (\<lambda>r db. holds base q (case r of None \<Rightarrow> found | Some x \<Rightarrow> x # found) pk db)"
    unfolding reuseFrom_def
    by (rule ensures_bind[OF units_step(2)])
       (auto intro: ensures_return reuse dest: status_same split: option.split prod.split)
  with Some show ?thesis by (simp add: reuseRaw_def)
qed (simp add: reuseRaw_def ensures_return)

lemma candidate_exact:
  assumes "counted q pk"
  shows "candidateSize pk key entry = int (length (stringify (envelopeJson (rq_input q) (pk_entries pk @ [(key, entry)]))))"
  using assms envelope_snoc[of "rq_input q" "pk_entries pk" key entry]
  by (simp add: candidateSize_def counted_def contentOf_def encodedSize_def)

lemma append_holds:
  assumes "holds base q found pk db" "within q (candidateSize pk key entry) pk"
  shows "holds base q (RawObject (pk_objectId pk) (Some (recordFragment key)) # found)
    (pk\<lparr>pk_entries := pk_entries pk @ [(key, entry)], pk_contentBytes := candidateSize pk key entry\<rparr>) db"
proof -
  let ?pk = "pk\<lparr>pk_entries := pk_entries pk @ [(key, entry)], pk_contentBytes := candidateSize pk key entry\<rparr>"
  have "counted q pk" using assms(1) by (simp add: holds_def packed_def)
  then have "counted q ?pk" "within q (pk_contentBytes ?pk) ?pk"
    using candidate_exact[of q pk key entry] assms(2) by (simp_all add: counted_def within_def contentOf_def)
  moreover have "resolves q ?pk db r" if "resolves q pk db r" for r
    using that by (rule resolves_packing[rotated 2]) auto
  moreover have "resolves q ?pk db (RawObject (pk_objectId pk) (Some (recordFragment key)))"
    by (auto simp: resolves_def)
  ultimately show ?thesis using assms(1) by (auto simp: holds_def packed_def list_all_iff)
qed

lemma requireRaw_step: "sound (RawRefused r) \<Longrightarrow> (\<And>db. P db \<Longrightarrow> grown base q db) \<Longrightarrow> step base q P (requireRaw ok r) (\<lambda>_ db. P db \<and> ok)"
  unfolding requireRaw_def by (rule ensures_check) (auto simp: failed_def split: if_split_asm)

lemma pack_step:
  assumes "admitted q" "room pk"
  shows "step base q (holds base q found pk) (packRaw q key entry pk) (\<lambda>(r, pk') db. holds base q (r # found) pk' db \<and> pk_records pk' = pk_records pk)"
proof -
  let ?Q = "\<lambda>pk' db. holds base q found pk' db \<and> sameCounts pk pk'"
  have grows: "holds base q found pk db \<Longrightarrow> grown base q db" for db by (simp add: holds_def)
  have first: "step base q (holds base q found pk) (requireRaw ok RawRepeated) (\<lambda>_. holds base q found pk)" for ok
    by (rule ensures_weaken[OF requireRaw_step[of _ "holds base q found pk"]]) (auto simp: sound_def grows)
  have flush: "step base q (holds base q found pk) (if b then flushRaw q pk else returnA pk) ?Q" for b
    by (auto simp: sameCounts_def intro!: ensures_return ensures_weaken[OF flush_step[OF assms(1), of base found pk]])
  have gap: "step base q (?Q pk') (unavailableRaw q key GapLimit pk') (\<lambda>(r, pk'') db. holds base q (r # found) pk'' db \<and> pk_records pk'' = pk_records pk)" for pk'
  proof (cases "sameCounts pk pk'")
    case True
    then have "room pk'" using assms(2) by (simp add: room_def sameCounts_def)
    from unavailable_step[OF this, of base q found key GapLimit] show ?thesis
      by (rule ensures_weaken) (use True in \<open>auto simp: sameCounts_def\<close>)
  qed (simp add: ensures_def)
  show ?thesis unfolding packRaw_def Let_def
    by (intro ensures_bind[OF first] ensures_bind[OF flush] ensures_if gap ensures_return)
       (auto simp: within_def sameCounts_def intro!: append_holds)
qed

lemma record_step:
  assumes "admitted q"
  shows "step base q (holds base q found pk) (recordRaw q key raw pk)
    (\<lambda>(r, pk') db. holds base q (r # found) pk' db \<and> pk_records pk' = pk_records pk + 1)"
proof -
  let ?pk = "pk\<lparr>pk_records := pk_records pk + 1\<rparr>"
  let ?Q = "\<lambda>(r, pk') db. holds base q (r # found) pk' db \<and> pk_records pk' = pk_records pk + 1"
  have source: "step base q (holds base q found pk) (rawSourceRecord h r key raw) (\<lambda>_. holds base q found pk)" for h r
    by (auto simp: rawSourceRecord_def Let_def sound_def failed_def holds_def requireRaw_def
        intro!: ensures_fail ensures_return ensures_bind[OF ensures_check[where Q = "\<lambda>_ w. holds base q found pk (wd_journal w)"]] split: option.split if_splits)
  have counts: "holds base q found ?pk db" if "holds base q found pk db" for db
    using that by (auto simp: holds_def packed_def counted_def within_def contentOf_def list_all_iff intro: resolves_packing[of _ pk])
  show ?thesis
  proof (cases "counted q pk")
    case True
    then have room: "room ?pk" by (simp add: room_def counted_def)
    have gap: "step base q (holds base q found pk) (unavailableRaw q k g ?pk) ?Q" for k g
      by (rule ensures_weaken[OF unavailable_step[OF room, of base q found k g]]) (auto intro: counts)
    have reuse: "step base q (holds base q found pk) (reuseRaw q s v) (\<lambda>r db. holds base q (case r of None \<Rightarrow> found | Some x \<Rightarrow> x # found) ?pk db)" for s v
      by (rule ensures_weaken[OF reuse_step[of base q found ?pk s v]]) (auto intro: counts)
    have reused: "holds base q (x # found) (?pk\<lparr>pk_reused := pk_reused pk + 1\<rparr>) db" if "holds base q (x # found) ?pk db" for x db
    proof -
      have counted: "?pk\<lparr>pk_reused := pk_reused pk + 1\<rparr> =
          ?pk\<lparr>pk_gaps := pk_gaps pk, pk_reused := pk_reused pk + 1, pk_records := pk_records pk + 1\<rparr>" by simp
      have x: "holds base q found ?pk db" "resolves q ?pk db x" using that by (simp_all add: holds_def)
      show ?thesis unfolding counted by (rule holds_counts[OF x(1) _ _ _ x(2)]) (use True in \<open>simp_all add: counted_def\<close>)
    qed
    have packing: "step base q (holds base q found ?pk) (packRaw q k e ?pk) ?Q" for k e
      by (rule ensures_weaken[OF pack_step[OF assms room, of base found k e]]) auto
    show ?thesis unfolding recordRaw_def Let_def
      by (rule ensures_bind[OF source], rule ensures_bind[OF units_step(2)], erule record_units)
        (auto split: sum.split option.split intro!: gap ensures_bind[OF reuse] ensures_return packing reused)
  qed (simp add: ensures_def holds_def packed_def)
qed

lemma records_step:
  assumes "admitted q"
  shows "step base q (holds base q found pk) (recordAll q rows pk :: ('r, raw_reference list \<times> raw_packing) preparing)
    (\<lambda>(rs, pk') db. holds base q (rs @ found) pk' db \<and> pk_records pk' = pk_records pk + int (length rows) \<and> length rs = length rows)"
proof (induction rows arbitrary: found pk)
  case (Cons row rows)
  obtain key raw where row: "row = (key, raw)" by fastforce
  have rest: "step base q (\<lambda>db. holds base q (fst x # found) (snd x) db \<and> pk_records (snd x) = pk_records pk + 1)
    (recordAll q rows (snd x) :: ('r, raw_reference list \<times> raw_packing) preparing)
    (\<lambda>(rs, pk') db. holds base q (rs @ fst x # found) pk' db \<and> pk_records pk' = pk_records pk + 1 + int (length rows) \<and> length rs = length rows)" for x
  proof (cases "pk_records (snd x) = pk_records pk + 1")
    case True
    show ?thesis by (rule ensures_weaken[OF Cons.IH[of "fst x # found" "snd x"]]) (use True in auto)
  qed (simp add: ensures_def)
  have move: "holds base q (rs @ r # found) pk' db \<Longrightarrow> holds base q (r # rs @ found) pk' db" for rs r pk' db
    by (simp add: holds_def)
  show ?case unfolding row recordAll.simps
    by (rule ensures_bind[OF record_step[OF assms]])
      (use rest in \<open>force intro!: ensures_bind ensures_return move split: prod.split\<close>)
qed (simp add: ensures_return)

lemma finish_step:
  assumes "admitted q"
  shows "step base q (holds base q found pk) (finishRaw q pk)
    (\<lambda>a db. (\<exists>pk'. holds base q found pk' db \<and> pk_entries pk' = []) \<and> 0 \<le> ra_units a \<and> ra_units a \<le> rl_units (rq_limits q) \<and>
      0 \<le> ra_bytes a \<and> ra_bytes a \<le> rl_targetBytes (rq_limits q) \<and> ra_records a = pk_records pk \<and>
      0 \<le> ra_reused a \<and> 0 \<le> ra_gaps a \<and> ra_reused a + ra_gaps a \<le> ra_records a)"
  unfolding finishRaw_def
  by (rule ensures_bind[OF flush_step[OF assms]], rule ensures_return) (auto simp: sameCounts_def holds_def packed_def counted_def)

end
