(* ===== verification/RawPackingProperties.thy ===== *)
theory RawPackingProperties
  imports RawPacking
begin

text \<open>The promises of the Raw preparation: its budget, the units it freezes and the references it hands out.\<close>

section \<open>A whole preparation\<close>

definition made :: "host \<Rightarrow> capture_owner \<Rightarrow> string \<Rightarrow> raw_input \<Rightarrow> raw_preparation \<Rightarrow> bool" where
  "made h owner cid input q \<longleftrightarrow> admitted q \<and> rq_host q = h \<and> rq_owner q = owner \<and> rq_captureId q = cid \<and> rq_input q = input"

definition observedBefore :: "journal_db \<Rightarrow> capture_owner \<Rightarrow> bool" where
  "observedBefore db owner \<longleftrightarrow> (case ownerScope db owner of Inl _ \<Rightarrow> False | Inr scope \<Rightarrow> sc_observedRaw scope \<noteq> None)"

definition refusedAt :: "journal_db \<Rightarrow> preparation_error \<Rightarrow> 'r world \<Rightarrow> bool" where
  "refusedAt base e w \<longleftrightarrow> sound e \<and> wd_journal w = base"

lemma ensures_require:
  assumes "ok \<Longrightarrow> ensures P (k ()) Q E" "\<And>w. P w \<Longrightarrow> E (RawRefused r) w"
  shows "ensures P (bindA (requireRaw ok r) k) Q E"
  using assms by (cases ok) (simp_all add: ensures_def requireRaw_def bindA_def checkA_def)

lemma ensures_read:
  fixes m :: "('r, 'a) effect"
  assumes "reads m"
    and "\<And>x w. wd_journal w = base \<Longrightarrow> m w = (w, Inr x) \<Longrightarrow> ensures (\<lambda>w. wd_journal w = base) (k x) Q (refusedAt base)"
  shows "ensures (\<lambda>w. wd_journal w = base) (bindA (serviceP m) k) Q (refusedAt base)"
proof (rule ensuresI)
  fix w :: "'r world" assume w: "wd_journal w = base"
  obtain r where m: "m w = (w, r)" using assms(1) unfolding reads_def by (metis prod.collapse)
  show "case bindA (serviceP m) k w of (w', Inr x) \<Rightarrow> Q x w' | (w', Inl e) \<Rightarrow> refusedAt base e w'"
  proof (cases r)
    case (Inl e)
    then show ?thesis using m w by (simp add: bindA_def serviceP_def mapErrorA_def refusedAt_def)
  next
    case (Inr x)
    then show ?thesis using m w assms(2)[of w x] by (simp add: bindA_def serviceP_def mapErrorA_def ensures_def)
  qed
qed

lemma coverage_value:
  "journalW (coverage owner) w = (w, Inr c) \<Longrightarrow> cv_observedRawCaptureId c \<noteq> None \<Longrightarrow> observedBefore (wd_journal w) owner"
  by (auto simp: journalW_def transaction_def coverage_def observedBefore_def bindE_def Let_def split: sum.splits)

lemma limits_checked:
  assumes "list_all (\<lambda>(value, maximum). safe_integer value \<and> 1 \<le> value \<and> value \<le> maximum)
       [(rl_objectBytes l, 3 * 1024 * 1024), (rl_wireBytes l, RawPublicationWireBytes),
        (rl_targetBytes l, max_safe_integer), (rl_units l, 1000000)]" "rl_targetBytes l \<ge> rl_wireBytes l"
  shows "rl_objectBytes l \<le> 3 * 1024 * 1024" "rl_wireBytes l \<le> RawPublicationWireBytes" "rl_wireBytes l \<le> rl_targetBytes l"
    "1 \<le> rl_units l" "1 \<le> rl_wireBytes l"
  using assms by simp_all

lemma ensures_pure: "(F \<Longrightarrow> ensures P m Q E) \<Longrightarrow> ensures (\<lambda>w. P w \<and> F) m Q E"
  by (auto simp: ensures_def)

lemma bind_assoc: "bindA (bindA m k) n = bindA m (\<lambda>x. bindA (k x) n)"
  by (auto simp: fun_eq_iff bindA_def split: prod.split sum.split)

lemma created:
  fixes h r owner cid input base
  defines "Q \<equiv> \<lambda>(q, pk) w. made h owner cid input q \<and> holds base q [] pk (wd_journal w) \<and> pk_records pk = 0 \<and>
      (rq_reusable q \<noteq> None \<longrightarrow> observedBefore base owner)"
  assumes "hashesHex h"
  shows "ensures (\<lambda>w. wd_journal w = base) (createRawPreparation h r owner cid input) Q (refusedAt base)"
proof -
  let ?at = "\<lambda>w. wd_journal w = base"
  let ?profile = "rawProjectionProfile (rp_profile input)" and ?l = "rp_limits input"
  let ?oid = "objectId h ?profile cid 0"
  let ?c = "preparedChunk h owner input ?oid zeros64 []"
  let ?pk = "\<lparr>pk_ordinal = 0, pk_totalBytes = 0, pk_records = 0, pk_reused = 0, pk_gaps = 0, pk_entries = [], pk_objectId = ?oid,
           pk_contentBytes = encodedSize (envelopeJson input [])\<rparr>"
  let ?q = "\<lambda>reusable. \<lparr>rq_host = h, rq_redactor = r, rq_owner = owner, rq_captureId = cid, rq_input = input,
           rq_admission = rawAdmissionFingerprint h owner input, rq_reusable = reusable, rq_wireOverhead = encodedSize (chunkJson ?c)\<rparr>"
  have refused: "refusedAt base (RawRefused v) w" if "v \<noteq> RawOverpacked" "v \<noteq> RawChunkInvalid" "?at w" for v w
    using that by (simp add: refusedAt_def sound_def)
  have earlier: "ensures ?at (case observed of None \<Rightarrow> returnA None
       | Some previousId \<Rightarrow> bindA (serviceP (inspectW owner previousId Raw False)) (\<lambda>(c, _).
           returnA (if sm_activationReceipt c = None then None else Some previousId)))
      (\<lambda>reusable w. ?at w \<and> (reusable \<noteq> None \<longrightarrow> observed \<noteq> None)) (refusedAt base)" for observed
    by (auto split: option.split prod.split intro!: ensures_return ensures_read[OF reads_inspect])
  have result: "Q (?q reusable, ?pk) w"
    if "list_all (\<lambda>(value, maximum). safe_integer value \<and> 1 \<le> value \<and> value \<le> maximum)
       [(rl_objectBytes ?l, 3 * 1024 * 1024), (rl_wireBytes ?l, RawPublicationWireBytes),
        (rl_targetBytes ?l, max_safe_integer), (rl_units ?l, 1000000)]" "rl_targetBytes ?l \<ge> rl_wireBytes ?l"
      "decodeChunk (chunkJson ?c) \<noteq> None" "?at w" "reusable \<noteq> None \<longrightarrow> observedBefore base owner" for reusable w
  proof -
    have c: "admitsMetadata ?c" using that(3) by (simp add: decode_chunk split: if_split_asm)
    note l = limits_checked[OF that(1,2)]
    have "admitted (?q reusable)" using assms(2) l c by (simp add: admitted_def Let_def)
    moreover have "counted (?q reusable) ?pk" using l by (simp add: counted_def contentOf_def encodedSize_def)
    ultimately show ?thesis using that(4,5) by (simp add: Q_def made_def holds_def packed_def grown_def)
  qed
  show ?thesis
    unfolding createRawPreparation_def validateRawPreparationLimits_def Let_def bind_assoc
  proof (intro ensures_require refused ensures_read reads_journal ensures_bind[OF earlier] ensures_pure ensures_return result)
    fix cov :: capture_coverage and w :: "'a world" and reusable :: "string option"
    assume "wd_journal w = base" "journalW (coverage owner) w = (w, Inr cov)" "reusable \<noteq> None \<longrightarrow> cv_observedRawCaptureId cov \<noteq> None"
    then show "reusable \<noteq> None \<longrightarrow> observedBefore base owner" using coverage_value by blast
  qed (simp_all add: coverage_same)
qed

lemma whole_preparation:
  assumes "hashesHex h"
  shows "ensures (\<lambda>w. wd_journal w = base) (prepareRawAll h r owner cid input rows)
    (\<lambda>(found, a) w. (\<exists>q pk. made h owner cid input q \<and> holds base q found pk (wd_journal w) \<and> pk_entries pk = [] \<and>
        (rq_reusable q \<noteq> None \<longrightarrow> observedBefore base owner)) \<and> length found = length rows \<and>
      0 \<le> ra_units a \<and> ra_units a \<le> rl_units (rp_limits input) \<and> 0 \<le> ra_bytes a \<and> ra_bytes a \<le> rl_targetBytes (rp_limits input) \<and>
      ra_records a = int (length rows) \<and> 0 \<le> ra_reused a \<and> 0 \<le> ra_gaps a \<and> ra_reused a + ra_gaps a \<le> ra_records a)
    (\<lambda>e w. sound e \<and> (wd_journal w = base \<or> (\<exists>q. made h owner cid input q \<and> grown base q (wd_journal w))))"
    (is "ensures _ _ ?Q ?E")
proof -
  have rest: "ensures (\<lambda>w. made h owner cid input q \<and> holds base q [] pk (wd_journal w) \<and> pk_records pk = 0 \<and>
       (rq_reusable q \<noteq> None \<longrightarrow> observedBefore base owner))
     (bindA (recordAll q rows pk) (\<lambda>(found, pk'). bindA (finishRaw q pk') (\<lambda>prepared. returnA (found, prepared)))) ?Q ?E" for q pk
  proof (cases "made h owner cid input q \<and> pk_records pk = 0 \<and> (rq_reusable q \<noteq> None \<longrightarrow> observedBefore base owner)")
    case True
    then have q: "admitted q" by (simp add: made_def)
    let ?E' = "\<lambda>e w. failed base q e (wd_journal w)"
    have finish: "ensures (\<lambda>w. holds base q found pk' (wd_journal w) \<and> pk_records pk' = int (length rows) \<and> length found = length rows)
        (bindA (finishRaw q pk') (\<lambda>prepared. returnA (found, prepared))) ?Q ?E'" for found pk'
    proof (cases "pk_records pk' = int (length rows) \<and> length found = length rows")
      case counts: True
      show ?thesis
        by (rule ensures_weaken[OF ensures_bind[OF finish_step[OF q, of base found pk'] ensures_return]]) 
          (use True counts in \<open>auto simp: made_def\<close>)
    qed (auto simp: ensures_def)
    have "ensures (\<lambda>w. holds base q [] pk (wd_journal w))
       (bindA (recordAll q rows pk) (\<lambda>(found, pk'). bindA (finishRaw q pk') (\<lambda>prepared. returnA (found, prepared)))) ?Q ?E'"
      by (rule ensures_bind[OF records_step[OF q]]) (use True in \<open>auto intro!: ensures_weaken[OF finish]\<close>)
    then show ?thesis by (rule ensures_weaken) (use True in \<open>auto simp: failed_def\<close>)
  qed (auto simp: ensures_def)
  have start: "ensures (\<lambda>w. wd_journal w = base) (createRawPreparation h r owner cid input)
      (\<lambda>x w. made h owner cid input (fst x) \<and> holds base (fst x) [] (snd x) (wd_journal w) \<and> pk_records (snd x) = 0 \<and>
        (rq_reusable (fst x) \<noteq> None \<longrightarrow> observedBefore base owner)) ?E"
    by (rule ensures_weaken[OF created[OF assms]]) (auto simp: refusedAt_def)
  show ?thesis unfolding prepareRawAll_def case_prod_beta
    by (rule ensures_bind[OF start rest[unfolded case_prod_beta]])
qed

section \<open>The budget\<close>

text \<open>C33: The size accounting of the Raw packing is exact: whatever the records, a preparation never refuses its own
  packing, neither as over budget nor as an invalid chunk, and a finished one stays within the admitted units and bytes,
  hands out a reference for every record and counts each as a record, at most one of them a gap or a reuse.\<close>
theorem raw_packing_within_budget:
  assumes "\<And>b. isSha256Hex (ho_sha h b)"
  shows "case snd (prepareRawAll h r owner cid input rows w) of
     Inl e \<Rightarrow> e \<noteq> RawRefused RawOverpacked \<and> e \<noteq> RawRefused RawChunkInvalid
   | Inr (found, a) \<Rightarrow> 0 \<le> ra_units a \<and> ra_units a \<le> rl_units (rp_limits input) \<and>
       0 \<le> ra_bytes a \<and> ra_bytes a \<le> rl_targetBytes (rp_limits input) \<and>
       length found = length rows \<and> ra_records a = int (length rows) \<and> ra_reused a + ra_gaps a \<le> ra_records a"
proof -
  have h: "hashesHex h" using assms by (simp add: hashesHex_def)
  obtain w' res where run: "prepareRawAll h r owner cid input rows w = (w', res)" by fastforce
  note whole = whole_preparation[OF h, of "wd_journal w" r owner cid input rows]
  show ?thesis
    using ensuresD[OF whole refl, of w'] ensures_failed[OF whole refl, of w'] run
    by (cases res) (auto simp: sound_def)
qed

section \<open>The units\<close>

definition validMember :: "string \<times> json option \<Rightarrow> bool" where
  "validMember p \<longleftrightarrow> (case snd p of None \<Rightarrow> True | Some j \<Rightarrow> validUtf8 (fst p) \<and> validTexts j)"

lemma valid_members: "validTexts (obj ms) \<longleftrightarrow> list_all validMember ms"
proof (induction ms)
  case (Cons p ms)
  obtain k v where "p = (k, v)" by fastforce
  with Cons show ?case by (cases v) (auto simp: obj_def List.map_filter_def validMember_def)
qed (simp add: obj_def List.map_filter_def)

lemma valid_chunk:
  assumes "hashesHex h" "counted q pk" "rq_host q = h"
    and "list_all validUtf8 [rp_sessionId i, bd_installationId (ho_binding h), cs_adapterId (ow_scope (rq_owner q)), rp_adapterVersion i, rp_observedAt i, rp_head i]"
    and "rq_input q = i"
  shows "validTexts (chunkJson (packedChunk q pk))"
proof -
  have "list_all letter (pk_objectId pk)" using assms(1-3) object_letters by (simp add: counted_def)
  moreover have "list_all letter ''_0''" by (simp add: letter_def isHexDigit_def escape_codes)
  ultimately have oid: "validUtf8 (pk_objectId pk)" "validUtf8 (pk_objectId pk @ ''_0'')" by (simp_all add: letters_ascii)
  have sha: "validUtf8 (ho_sha h b)" for b using hex_letters[of "ho_sha h b"] assms(1) by (simp add: hashesHex_def letters_ascii)
  have plain: "validUtf8 ''sessionId''" "validUtf8 ''installationId''" "validUtf8 ''adapterId''" "validUtf8 ''sourceObjectId''"
      "validUtf8 ''sourceChunkId''" "validUtf8 ''protocolVersion''" "validUtf8 ''sourceName''" "validUtf8 ''mediaType''"
      "validUtf8 ''adapterVersion''" "validUtf8 ''capturedAt''" "validUtf8 ''clientRedacted''" "validUtf8 ''generation''"
      "validUtf8 ''offset''" "validUtf8 ''sha256''" "validUtf8 ''final''" "validUtf8 ''publication''" "validUtf8 ''contentBase64''"
      "validUtf8 ''atape.raw.v1''" "validUtf8 ''source-records.json''" "validUtf8 ''application/json''" "validUtf8 ''head''"
      "validUtf8 ''authority''" "validUtf8 ''protocol''" "validUtf8 ''teamRevision''" "validUtf8 ''userRevision''" "validUtf8 RawPublicationProtocol"
    by code_simp+
  show ?thesis using assms(3-5) oid sha plain letters_ascii[OF base64_letters]
    unfolding chunkJson_def metadataMembers_def proofJson_def authorityJson_def packedChunk_def preparedChunk_def Let_def valid_members
    by (simp add: valid_members validMember_def del: validUtf8.simps)
qed

lemma chunk_object: "\<exists>ms. chunkJson c = JObj ms"
  by (simp add: chunkJson_def obj_def)

lemma parse_unit:
  assumes "validTexts (chunkJson c)" "decodeChunk (chunkJson c) = Some c"
  shows "parseChunk (stringify (chunkJson c)) = Inr c"
proof -
  have "decodeUtf8 (stringify (chunkJson c)) = Some (stringify (chunkJson c))"
    using chunk_object[of c] assms(1) decode_object by auto
  then show ?thesis using assms(2) by (simp add: parseChunk_def decodeText_def parseJson_stringify)
qed

text \<open>C32: What the Raw preparation freezes, the Raw delivery accepts: every unit a preparation adds to the journal, even
  one that fails later, is a Raw unit of its capture within the wire limit, and passes every check a delivery of that
  capture makes before sending it - text encoding, schema, binding, canonical Base64 and digest - with content within
  the object limit.\<close>
theorem prepared_raw_deliverable:
  assumes "\<And>b. isSha256Hex (ho_sha h b)"
    and "list_all validUtf8 [rp_sessionId input, bd_installationId (ho_binding h), cs_adapterId (ow_scope owner),
       rp_adapterVersion input, rp_observedAt input, rp_head input]"
    and "u \<in> set (db_units (wd_journal (fst (prepareRawAll h r owner cid input rows w))))" "u \<notin> set (db_units (wd_journal w))"
    and "rx_host s = h" "rx_owner s = owner" "av_sessionId (rx_activation s) = rp_sessionId input"
    and "av_head (rx_activation s) = rp_head input" "sameRawAuthority (rp_authority input) (rx_authority s)"
  shows "\<exists>b c. un_capture u = cid \<and> un_kind u = Raw \<and> un_body u = Some b \<and> frozenChunk s b = Inr c \<and>
     int (length b) \<le> rl_wireBytes (rp_limits input) \<and> int (length (atob (ch_contentBase64 c))) \<le> rl_objectBytes (rp_limits input)"
proof -
  have h: "hashesHex h" using assms(1) by (simp add: hashesHex_def)
  obtain w' res where run: "prepareRawAll h r owner cid input rows w = (w', res)" by fastforce
  note whole = whole_preparation[OF h, of "wd_journal w" r owner cid input rows]
  have "\<exists>q. made h owner cid input q \<and> grown (wd_journal w) q (wd_journal w')"
    using ensuresD[OF whole refl, of w'] ensures_failed[OF whole refl, of w'] run assms(3,4)
    by (cases res) (auto simp: holds_def)
  then obtain q where q: "made h owner cid input q" "carries q u"
    using assms(3,4) run by (auto simp: grown_def)
  then obtain pk where pk: "un_body u = Some (wireOf q pk)" "counted q pk" "within q (pk_contentBytes pk) pk"
    by (auto simp: carries_def)
  have adm: "admitted q" using q(1) by (simp add: made_def)
  let ?c = "packedChunk q pk"
  have parsed: "parseChunk (wireOf q pk) = Inr ?c" unfolding wireOf_def
  proof (rule parse_unit)
    show "validTexts (chunkJson ?c)" using q(1) assms(2) by (intro valid_chunk[OF h pk(2)]) (auto simp: made_def)
    show "decodeChunk (chunkJson ?c) = Some ?c" using packed_decodes[OF adm pk(2)] pk(3) by (simp add: within_def)
  qed
  have "frozenChunk s (wireOf q pk) = Inr ?c"
    using q(1) assms(5-9) by (simp add: frozenChunk_def parsed requireR_def)
      (simp add: packedChunk_def preparedChunk_def Let_def boundChunk_def canonicalContent_def atob_btoa made_def)
  moreover have "int (length (wireOf q pk)) \<le> rl_wireBytes (rp_limits input)" using wire_exact[OF adm pk(2)] pk(3) q(1) by (simp add: within_def made_def)
  moreover have "int (length (atob (ch_contentBase64 ?c))) \<le> rl_objectBytes (rp_limits input)"
    using pk(2,3) q(1) by (simp add: packedChunk_def preparedChunk_def Let_def atob_btoa counted_def within_def contentOf_def made_def)
  ultimately show ?thesis using q pk(1) by (auto simp: carries_def made_def)
qed

section \<open>The references\<close>

lemma packed_content:
  "Option.bind (parseJson (atob (ch_contentBase64 (packedChunk q pk)))) (field ''records'') = Some (JObj (pk_entries pk))"
proof -
  have "parseJson (atob (ch_contentBase64 (packedChunk q pk))) = Some (envelopeJson (rq_input q) (pk_entries pk))"
    by (simp add: packedChunk_def preparedChunk_def Let_def atob_btoa parseJson_stringify del: stringify.simps)
  then show ?thesis by (simp add: envelopeJson_def field_def)
qed

text \<open>C34: The references a first Raw preparation hands to the projection resolve: an object reference names the chunk of a
  unit that the journal holds for the capture, identified by its digest, and the fragment selects a member of the records
  its content spells out.\<close>
theorem packed_references_resolve:
  assumes "\<And>b. isSha256Hex (ho_sha h b)"
    and "prepareRawAll h r owner cid input rows w = (w', Inr (found, a))"
    and "ownerScope (wd_journal w) owner = Inr scope" "sc_observedRaw scope = None"
    and "RawObject oid part \<in> set found"
  shows "\<exists>u\<in>set (db_units (wd_journal w')). \<exists>c key entries. un_capture u = cid \<and> un_kind u = Raw \<and>
     un_digest u = ho_sha h (stringify (chunkJson c)) \<and> rn_sourceObjectId c = oid \<and> part = Some (recordFragment key) \<and>
     Option.bind (parseJson (atob (ch_contentBase64 c))) (field ''records'') = Some (JObj entries) \<and> key \<in> fst ` set entries"
proof -
  have h: "hashesHex h" using assms(1) by (simp add: hashesHex_def)
  note whole = whole_preparation[OF h, of "wd_journal w" r owner cid input rows]
  obtain q pk where q: "made h owner cid input q" "holds (wd_journal w) q found pk (wd_journal w')" "pk_entries pk = []"
      "rq_reusable q \<noteq> None \<longrightarrow> observedBefore (wd_journal w) owner"
    using ensuresD[OF whole refl assms(2)] by auto
  have none: "rq_reusable q = None" using q(4) assms(3,4) by (auto simp: observedBefore_def)
  have "resolves q pk (wd_journal w') (RawObject oid part)" using q(2) assms(5) by (simp add: holds_def list_all_iff)
  then obtain key where "part = Some (recordFragment key)" "stored q (wd_journal w') oid key"
    using none q(3) by (auto simp: resolves_def)
  then obtain u pk' where u: "u \<in> set (db_units (wd_journal w'))" "un_capture u = cid" "un_kind u = Raw"
      "un_digest u = ho_sha h (stringify (chunkJson (packedChunk q pk')))" "pk_objectId pk' = oid" "key \<in> fst ` set (pk_entries pk')"
      "part = Some (recordFragment key)"
    using q(1) unfolding stored_def made_def wireOf_def by auto
  have "rn_sourceObjectId (packedChunk q pk') = oid" using u(5) by (simp add: packedChunk_def preparedChunk_def Let_def)
  with u packed_content[of q pk'] show ?thesis by blast
qed

end
