(* ===== verification/RawPackingWitnesses.thy ===== *)
theory RawPackingWitnesses
  imports RawPackingProperties
begin

text \<open>A Raw preparation of one record on a concrete journal, and the unit it freezes.\<close>

section \<open>A journal with an open capture\<close>

definition packHost :: host where
  "packHost = \<lparr>ho_sha = (\<lambda>_. zeros64), ho_limits = \<lparr>lim_unitBytes = 4096, lim_targetBytes = 16384, lim_pendingBytes = 65536,
       lim_unitsPerTarget = 4, lim_recordsPerTarget = Some 4, lim_metadataEntries = 64\<rparr>,
     ho_binding = \<lparr>bd_instanceOrigin = ''i'', bd_userId = ''u'', bd_installationId = ''n''\<rparr>, ho_policyId = None\<rparr>"

definition packOwner :: capture_owner where
  "packOwner = \<lparr>ow_scope = \<lparr>cs_projectId = ''p'', cs_adapterId = ''a'', cs_sourceSessionId = ''s'', cs_originKey = ''o''\<rparr>, ow_epoch = 1\<rparr>"

definition packRedactor :: redactor where
  "packRedactor = \<lparr>rd_policyId = None, rd_policy = None, rd_redact = (\<lambda>t. (t, 0))\<rparr>"

definition packInput :: raw_input where
  "packInput = \<lparr>rp_profile = ''v1'', rp_sessionId = ''s'', rp_head = ''h'', rp_authority = \<lparr>ra_teamRevision = 1, ra_userRevision = 0\<rparr>,
     rp_adapterVersion = ''1'', rp_observedAt = ''2024-05-01T10:00:00Z'',
     rp_limits = \<lparr>rl_objectBytes = 1024, rl_wireBytes = 2048, rl_targetBytes = 8192, rl_units = 4\<rparr>\<rparr>"

definition packKey :: string where
  "packKey = stringify (JArr [JStr ''p'', JStr ''a'', JStr ''s''])"

definition packCapture :: capture_row where
  "packCapture = \<lparr>cp_scope = packKey, cp_id = ''c'', cp_expectedCheckpoint = None, cp_beginJson = ''{}'',
     cp_rawEnabled = True, cp_state = Preparing, cp_sealJson = None, cp_activationReceipt = None, cp_rawCancelReason = None,
     cp_rejectionReceipt = None, cp_retainedBytes = 0, cp_purpose = Publication, cp_trackRecords = True, cp_recordCount = 0,
     cp_recordsRetired = False, cp_retainedRecords = 0, cp_sourceMetadata = None, cp_sourceMetadataSha = None, cp_sourceMetadataBytes = 0\<rparr>"

definition packJournal :: journal_db where
  "packJournal = (emptyJournal (ho_binding packHost))\<lparr>db_scopes := [(newScope packKey ''o'')\<lparr>sc_recordsInitialized := True\<rparr>],
     db_captures := [packCapture]\<rparr>"

definition packWorld :: "unit world" where
  "packWorld = \<lparr>wd_journal = packJournal, wd_remote = (), wd_calls = []\<rparr>"

abbreviation packRow :: json where
  "packRow \<equiv> JObj [(''m'', JInt 1)]"

section \<open>The steps of the preparation\<close>

lemma run_bind: "m w = (w', Inr x) \<Longrightarrow> bindA m k w = k x w'"
  by (simp add: bindA_def)

lemma run_journal: "f (wd_journal w) = Inr (db, x) \<Longrightarrow> journalP f w = (w\<lparr>wd_journal := db\<rparr>, Inr x)"
  by (simp add: journalP_def serviceP_def mapErrorA_def journalW_def transaction_def Let_def)

lemma run_require: "ok \<Longrightarrow> bindA (requireRaw ok e) k w = k () w"
  by simp

lemma run_return: "bindA (returnA x) k w = k x w"
  by (simp add: bindA_def returnA_def)

lemma pack_hex: "isSha256Hex (ho_sha packHost b)"
  by (simp add: packHost_def) code_simp

abbreviation packFirst :: raw_chunk where
  "packFirst \<equiv> preparedChunk packHost packOwner packInput (''r_'' @ zeros64) zeros64 []"

definition packQ :: raw_preparation where
  "packQ = \<lparr>rq_host = packHost, rq_redactor = packRedactor, rq_owner = packOwner, rq_captureId = ''c'', rq_input = packInput,
     rq_admission = zeros64, rq_reusable = None, rq_wireOverhead = encodedSize (chunkJson packFirst)\<rparr>"

definition packStart :: raw_packing where
  "packStart = \<lparr>pk_ordinal = 0, pk_totalBytes = 0, pk_records = 0, pk_reused = 0, pk_gaps = 0, pk_entries = [], pk_objectId = ''r_'' @ zeros64,
     pk_contentBytes = encodedSize (envelopeJson packInput [])\<rparr>"

lemma pack_constants: "hashJson packHost j = zeros64" "objectId packHost profile cid n = ''r_'' @ zeros64"
    "rawAdmissionFingerprint packHost packOwner packInput = zeros64"
  by (simp_all add: hashJson_def objectId_def rawAdmissionFingerprint_def packHost_def Let_def)

lemma pack_coverage: "coverage packOwner packJournal =
    Inr (packJournal, \<lparr>cv_canonicalCaptureId = None, cv_observedCanonicalCaptureId = None, cv_observedRawCaptureId = None\<rparr>)"
  by code_simp

lemma pack_created: "createRawPreparation packHost packRedactor packOwner ''c'' packInput packWorld = (packWorld, Inr (packQ, packStart))"
proof -
  have checks: "list_all (\<lambda>(value, maximum). safe_integer value \<and> 1 \<le> value \<and> value \<le> maximum)
       [(rl_objectBytes (rp_limits packInput), 3 * 1024 * 1024), (rl_wireBytes (rp_limits packInput), RawPublicationWireBytes),
        (rl_targetBytes (rp_limits packInput), max_safe_integer), (rl_units (rp_limits packInput), 1000000)]"
      "rl_targetBytes (rp_limits packInput) \<ge> rl_wireBytes (rp_limits packInput)"
      "length (rawProjectionProfile (rp_profile packInput)) \<le> 500"
      "list_all (\<lambda>v. js_trim v \<noteq> [] \<and> CHR 0x00 \<notin> set v \<and> length v \<le> 512) (metadataTexts packFirst)"
      "parseMillis (rp_observedAt packInput) \<noteq> None"
    by code_simp+
  have "admitsMetadata packFirst" "admitsContent []" by code_simp+
  then have decoded: "decodeChunk (chunkJson packFirst) \<noteq> None" by (simp add: decode_chunk preparedChunk_def)
  have cov: "serviceP (journalW (coverage packOwner)) packWorld =
      (packWorld, Inr \<lparr>cv_canonicalCaptureId = None, cv_observedCanonicalCaptureId = None, cv_observedRawCaptureId = None\<rparr>)"
    by (simp add: serviceP_def mapErrorA_def journalW_def transaction_def packWorld_def pack_coverage Let_def)
  note steps = run_require[OF checks(1)] run_require[OF checks(2)] run_require[OF checks(3)]
    run_bind[of "serviceP (journalW (coverage packOwner))" packWorld, OF cov]
    run_require[OF checks(4)] run_require[OF decoded] run_require[OF checks(5)] run_return
  show ?thesis
    unfolding createRawPreparation_def validateRawPreparationLimits_def Let_def bind_assoc pack_constants
    by (simp only: steps capture_coverage.simps option.case) (simp add: returnA_def packQ_def packStart_def)
qed

definition packVersion :: record_version where
  "packVersion = \<lparr>rk_kind = RawRecord, rk_key = zeros64, ri_fingerprint = zeros64, ri_projectionVersion = ''atape.host-raw.v1:v1'',
     ri_rawReference = None, rv_revision = 1\<rparr>"

definition packRecorded :: journal_db where
  "packRecorded = (case recordObservation (ho_limits packHost) packOwner ''c''
      (record_key.extend (rawKey zeros64) \<lparr>ri_fingerprint = zeros64, ri_projectionVersion = ''atape.host-raw.v1:v1'', ri_rawReference = None\<rparr>)
      packJournal of Inl _ \<Rightarrow> packJournal | Inr (db, _) \<Rightarrow> db)"

lemma pack_recorded:
  "recordObservation (ho_limits packHost) packOwner ''c''
      (record_key.extend (rawKey zeros64) \<lparr>ri_fingerprint = zeros64, ri_projectionVersion = ''atape.host-raw.v1:v1'', ri_rawReference = None\<rparr>)
      packJournal = Inr (packRecorded, packVersion)"
  by code_simp

definition packFull :: raw_packing where
  "packFull = packStart\<lparr>pk_records := 1, pk_entries := [(zeros64, entryJson packVersion packRow)],
     pk_contentBytes := candidateSize packStart zeros64 (entryJson packVersion packRow)\<rparr>"

lemma pack_fits: "within packQ (candidateSize packStart zeros64 (entryJson packVersion packRow)) packStart"
  by code_simp

lemma pack_masked: "maskedRow packRedactor packRow = Inr packRow"
  by code_simp

lemma pack_source: "rawSourceRecord packHost packRedactor ''k'' (Some packRow) w =
    (w, Inr \<lparr>sr_key = zeros64, sr_masked = Inr packRow, sr_fingerprint = zeros64\<rparr>)"
proof -
  have "CHR 0x00 \<notin> set ''k''" by code_simp
  then show ?thesis unfolding rawSourceRecord_def by (simp add: pack_masked pack_constants Let_def) (simp add: returnA_def)
qed

abbreviation packReference :: raw_reference where
  "packReference \<equiv> RawObject (''r_'' @ zeros64) (Some (recordFragment zeros64))"

lemma pack_packed:
  "packRaw packQ zeros64 (entryJson packVersion packRow) (packStart\<lparr>pk_records := 1\<rparr>) w = (w, Inr (packReference, packFull))"
  using pack_fits unfolding packRaw_def Let_def
  by (simp add: within_def candidateSize_def run_return packStart_def packFull_def) (simp add: returnA_def)

lemma pack_record:
  "recordRaw packQ ''k'' (Some packRow) packStart packWorld = (packWorld\<lparr>wd_journal := packRecorded\<rparr>, Inr (packReference, packFull))"
proof -
  let ?observe = "journalP (recordObservation (ho_limits packHost) packOwner ''c''
      (record_key.extend (rawKey zeros64) \<lparr>ri_fingerprint = zeros64, ri_projectionVersion = rawProjectionProfile (rp_profile packInput), ri_rawReference = None\<rparr>))"
  have journal: "?observe packWorld = (packWorld\<lparr>wd_journal := packRecorded\<rparr>, Inr packVersion)"
    by (rule run_journal) (simp add: packWorld_def pack_recorded packInput_def rawProjectionProfile_def)
  note steps = run_bind[of "rawSourceRecord packHost packRedactor ''k'' (Some packRow)" packWorld, OF pack_source] run_bind[of ?observe packWorld, OF journal]
  have reuse: "reuseRaw packQ src v = returnA None" for src v by (simp add: reuseRaw_def packQ_def)
  have one: "packStart\<lparr>pk_records := pk_records packStart + 1\<rparr> = packStart\<lparr>pk_records := 1\<rparr>" by (simp add: packStart_def)
  have fields: "rq_host packQ = packHost" "rq_redactor packQ = packRedactor" "rq_owner packQ = packOwner" "rq_captureId packQ = ''c''"
    "rq_input packQ = packInput" by (simp_all add: packQ_def)
  show ?thesis unfolding recordRaw_def fields
    by (simp only: steps raw_source.simps Let_def sum.case reuse run_return option.case one pack_packed)
qed

section \<open>The unit\<close>

lemma pack_made: "made packHost packOwner ''c'' packInput packQ" "packed packQ packStart" "packed packQ packFull"
proof -
  have "hashesHex packHost" by (simp add: hashesHex_def pack_hex)
  note run = ensuresD[OF created[OF this, of packJournal packRedactor packOwner "''c''" packInput] _ pack_created]
  have start: "made packHost packOwner ''c'' packInput packQ" "holds packJournal packQ [] packStart packJournal"
    using run by (simp_all add: packWorld_def)
  then show "made packHost packOwner ''c'' packInput packQ" "packed packQ packStart" by (simp_all add: holds_def)
  have "admitted packQ" using start(1) by (simp add: made_def)
  from ensuresD[OF record_step[OF this, of packJournal "[]" packStart "''k''" "Some packRow"] _ pack_record]
  show "packed packQ packFull" using start(2) by (simp add: packWorld_def holds_def)
qed

definition packUnit :: unit_row where
  "packUnit = newUnit (ho_sha packHost) packKey ''c'' Raw 0 (wireOf packQ packFull)"

lemma pack_size: "1 \<le> length (wireOf packQ packFull)" "int (length (wireOf packQ packFull)) \<le> 2048"
proof -
  have "admitted packQ" "counted packQ packFull" using pack_made by (simp_all add: made_def packed_def)
  then have exact: "int (length (wireOf packQ packFull)) = wireSize packQ (pk_contentBytes packFull)" by (rule wire_exact)
  have "1 \<le> wireSize packQ (pk_contentBytes packFull) \<and> wireSize packQ (pk_contentBytes packFull) \<le> 2048" by code_simp
  with exact show "1 \<le> length (wireOf packQ packFull)" "int (length (wireOf packQ packFull)) \<le> 2048" by linarith+
qed

definition packHeld :: journal_db where
  "packHeld = addRetained (int (length (wireOf packQ packFull)))
     (updateCaptures (captureIs packKey ''c'') (\<lambda>r. r\<lparr>cp_retainedBytes := cp_retainedBytes r + int (length (wireOf packQ packFull))\<rparr>)
       (insertUnit packUnit packRecorded))"

lemma pack_appended:
  "appendUnit (ho_sha packHost) (ho_limits packHost) packOwner ''c'' Raw 0 (wireOf packQ packFull) packRecorded = Inr (packHeld, ())"
proof -
  have facts: "ownerScope packRecorded packOwner = Inr ((newScope packKey ''o'')\<lparr>sc_recordsInitialized := True\<rparr>)"
    "captureRow packRecorded packKey ''c'' = Inr (packCapture\<lparr>cp_recordCount := 1, cp_retainedRecords := 1\<rparr>)"
    "find (unitIs packKey ''c'' Raw 0) (db_units packRecorded) = None" "nextOrdinal packRecorded packKey ''c'' Canonical = 0"
    "nextOrdinal packRecorded packKey ''c'' Raw = 0" "db_retainedBytes packRecorded + db_metadataBytes packRecorded = 0"
    "admitMetadata (ho_limits packHost) 1 packRecorded = Inr ()"
    by code_simp+
  have "wireOf packQ packFull \<noteq> []" using pack_size(1) by auto
  then show ?thesis using pack_size facts
    by (simp add: appendUnit_def newScope_def Let_def packHost_def packCapture_def journalInteger_def safe_integer_def max_safe_integer_def
        packHeld_def packUnit_def)
qed

definition packMember :: member_row where
  "packMember = \<lparr>rr_kind = RawRecord, rr_key = zeros64, rr_fingerprint = zeros64, rr_projectionVersion = ''atape.host-raw.v1:v1'',
     rr_revision = 1, rr_rawReference = None, rr_versionCapture = ''c'', mb_scope = packKey, mb_capture = ''c'', mb_unitCapture = None,
     mb_unitKind = None, mb_unitOrdinal = None, mb_unavailableReason = None\<rparr>"

lemma pack_tables: "db_scopes packRecorded = [(newScope packKey ''o'')\<lparr>sc_recordsInitialized := True\<rparr>]" "db_units packRecorded = []"
    "db_captures packRecorded = [packCapture\<lparr>cp_recordCount := 1, cp_retainedRecords := 1\<rparr>]" "db_members packRecorded = [packMember]"
  by code_simp+

definition packBound :: journal_db where
  "packBound = updateMembers (memberIs packKey ''c'' RawRecord zeros64)
     (\<lambda>m. m\<lparr>mb_unitCapture := Some ''c'', mb_unitKind := Some Raw, mb_unitOrdinal := Some 0, mb_unavailableReason := None\<rparr>) packHeld"

lemma pack_bound: "bindRecord packOwner ''c'' (rawKey zeros64) (BindUnit 0 None) packHeld = Inr (packBound, ())"
proof -
  have key: "scopeKey (ow_scope packOwner) = Inr packKey" "journalText zeros64 = Inr zeros64" "journalText ''c'' = Inr ''c''"
      "ow_epoch packOwner = 1" "cs_originKey (ow_scope packOwner) = ''o''" "journalInteger 0 0 1000000 = Inr 0"
    by code_simp+
  let ?row = "packCapture\<lparr>cp_recordCount := 1, cp_retainedRecords := 1, cp_retainedBytes := int (length (wireOf packQ packFull))\<rparr>"
  have tables: "db_scopes packHeld = [(newScope packKey ''o'')\<lparr>sc_recordsInitialized := True\<rparr>]" "db_units packHeld = [packUnit]"
      "db_captures packHeld = [?row]" "db_members packHeld = [packMember]"
    by (simp_all add: packHeld_def addRetained_def updateCaptures_def insertUnit_def pack_tables updateWhere_def captureIs_def captureKey_def packCapture_def)
  have owner: "ownerScope packHeld packOwner = Inr ((newScope packKey ''o'')\<lparr>sc_recordsInitialized := True\<rparr>)"
    by (simp add: ownerScope_def key tables scopeIs_def newScope_def)
  have row: "captureRow packHeld packKey ''c'' = Inr ?row"
    by (simp add: captureRow_def key tables captureIs_def captureKey_def packCapture_def)
  have bindable: "getRecord packHeld packKey ''c'' RawRecord zeros64 = Inr packMember"
    by (simp add: getRecord_def row key retainedMembership_def tables memberIs_def memberKey_def packMember_def packCapture_def)
  have target: "bindingTarget packHeld packKey ''c'' packMember (BindUnit 0 None) = Inr (Some ''c'', Some Raw, Some 0, None)"
    by (simp add: bindingTarget_def resolveUnit_def key packMember_def tables unitIs_def unitKey_def packUnit_def newUnit_def unitKindFor_def Let_def)
  show ?thesis
    by (simp add: bindRecord_def owner newScope_def row bindable rawKey_def target Let_def packBound_def)
      (simp add: packMember_def packCapture_def)
qed

section \<open>The whole run\<close>

abbreviation packRows :: "(string \<times> json option) list" where
  "packRows \<equiv> [(''k'', Some packRow)]"

definition packDone :: "unit world" where
  "packDone = packWorld\<lparr>wd_journal := packBound\<rparr>"

definition packPrepared :: raw_prepared where
  "packPrepared = \<lparr>ra_units = 1, ra_bytes = int (length (wireOf packQ packFull)), ra_records = 1, ra_reused = 0, ra_gaps = 0, ra_admission = zeros64\<rparr>"

lemma pack_run: "prepareRawAll packHost packRedactor packOwner ''c'' packInput packRows packWorld = (packDone, Inr ([packReference], packPrepared))"
proof -
  let ?w1 = "packWorld\<lparr>wd_journal := packRecorded\<rparr>"
  have full: "admitted packQ" "packed packQ packFull" "pk_entries packFull \<noteq> []"
    using pack_made by (simp_all add: made_def packFull_def)
  have fields: "rq_host packQ = packHost" "rq_owner packQ = packOwner" "rq_captureId packQ = ''c''" "pk_ordinal packFull = 0"
      "pk_entries packFull = [(zeros64, entryJson packVersion packRow)]"
    by (simp_all add: packQ_def packFull_def packStart_def)
  have append: "journalP (appendUnit (ho_sha packHost) (ho_limits packHost) packOwner ''c'' Raw 0 (wireOf packQ packFull)) ?w1 =
      (packWorld\<lparr>wd_journal := packHeld\<rparr>, Inr ())"
    using run_journal[of "appendUnit (ho_sha packHost) (ho_limits packHost) packOwner ''c'' Raw 0 (wireOf packQ packFull)" ?w1] pack_appended by simp
  have bind: "journalP (bindRecord packOwner ''c'' (rawKey zeros64) (BindUnit 0 None)) (packWorld\<lparr>wd_journal := packHeld\<rparr>) = (packDone, Inr ())"
    using run_journal[of "bindRecord packOwner ''c'' (rawKey zeros64) (BindUnit 0 None)" "packWorld\<lparr>wd_journal := packHeld\<rparr>"] pack_bound
    by (simp add: packDone_def)
  have flush: "flushRaw packQ packFull ?w1 = (packDone, Inr (flushed packQ packFull))"
    unfolding flush_run[OF full] fields by (simp add: bindA_def append bind) (simp add: returnA_def)
  have counts: "pk_ordinal (flushed packQ packFull) = 1" "pk_totalBytes (flushed packQ packFull) = int (length (wireOf packQ packFull))"
      "pk_records (flushed packQ packFull) = 1" "pk_reused (flushed packQ packFull) = 0" "pk_gaps (flushed packQ packFull) = 0"
      "rq_admission packQ = zeros64"
    by (simp_all add: flushed_def packFull_def packStart_def) (simp add: packQ_def)
  note runs = run_bind[of "createRawPreparation packHost packRedactor packOwner ''c'' packInput" packWorld, OF pack_created]
    run_bind[of "recordRaw packQ ''k'' (Some packRow) packStart" packWorld, OF pack_record] run_bind[of "flushRaw packQ packFull" ?w1, OF flush]
  show ?thesis unfolding prepareRawAll_def finishRaw_def recordAll.simps
    by (simp only: bind_assoc runs run_return case_prod_conv counts) (simp add: returnA_def packPrepared_def)
qed

section \<open>The promises on the run\<close>

lemma raw_packing_within_budget_witness:
  "\<exists>found a. snd (prepareRawAll packHost packRedactor packOwner ''c'' packInput packRows packWorld) = Inr (found, a) \<and>
     ra_units a = 1 \<and> 0 < ra_bytes a \<and> ra_bytes a \<le> 8192 \<and> length found = 1"
proof -
  have "ra_bytes packPrepared \<le> rl_targetBytes (rp_limits packInput)"
    using raw_packing_within_budget[OF pack_hex, where r = packRedactor and owner = packOwner and cid = "''c''" and input = packInput and rows = packRows and w = packWorld] by (simp add: pack_run)
  moreover have "0 < ra_bytes packPrepared" "ra_units packPrepared = 1" using pack_size(1) by (auto simp: packPrepared_def)
  moreover have "rl_targetBytes (rp_limits packInput) = 8192" by (simp add: packInput_def)
  ultimately show ?thesis by (auto simp: pack_run)
qed

definition packActivation :: publication_activation where
  "packActivation = \<lparr>av_head = ''h'', av_sessionId = ''s'', av_captureId = ''c'', av_baseHead = [], av_fence = 1, av_transformVersion = ''t'',
     av_manifest = \<lparr>pm_parts = 1, pm_bytes = 2, pm_sha256 = zeros64\<rparr>, av_activatedAt = ''2024-05-01T10:00:00Z''\<rparr>"

definition silentRemote :: "unit transport" where
  "silentRemote = \<lparr>tr_capabilities = (\<lambda>b r. (r, Inl PNetwork)), tr_reserve = (\<lambda>b s r. (r, Inl PNetwork)), tr_adoptLegacy = (\<lambda>b s r. (r, Inl PNetwork)),
     tr_begin = (\<lambda>b g r. (r, Inl PNetwork)), tr_status = (\<lambda>b i r. (r, Inl PNetwork)), tr_put = (\<lambda>b i p c r. (r, Inl PNetwork)),
     tr_seal = (\<lambda>b i m r. (r, Inl PNetwork)), tr_validate = (\<lambda>b i r. (r, Inl PNetwork)), tr_renew = (\<lambda>b i r. (r, Inl PNetwork)),
     tr_reject = (\<lambda>b i r. (r, Inl PNetwork)), tr_activate = (\<lambda>b i r. (r, Inl PNetwork)), tr_policy = (\<lambda>b i r. (r, Inl RNetwork)),
     tr_receipt = (\<lambda>b i r. (r, Inl RNetwork)), tr_append = (\<lambda>b i r. (r, Inl RNetwork))\<rparr>"

definition packSlice :: "unit raw_slice" where
  "packSlice = \<lparr>rx_host = packHost, rx_remote = silentRemote, rx_owner = packOwner, rx_id = ''c'', rx_activation = packActivation,
     rx_authority = rp_authority packInput, rx_transform = ''t'', rx_budget = 8\<rparr>"

lemma pack_unit_new: "packUnit \<in> set (db_units (wd_journal packDone))" "packUnit \<notin> set (db_units (wd_journal packWorld))"
  by (simp_all add: packDone_def packBound_def updateMembers_def packHeld_def addRetained_def updateCaptures_def insertUnit_def
      packWorld_def packJournal_def emptyJournal_def)

lemma prepared_raw_deliverable_witness: "\<exists>b c. un_body packUnit = Some b \<and> frozenChunk packSlice b = Inr c \<and> int (length b) \<le> 2048"
proof -
  have texts: "list_all validUtf8 [rp_sessionId packInput, bd_installationId (ho_binding packHost), cs_adapterId (ow_scope packOwner),
       rp_adapterVersion packInput, rp_observedAt packInput, rp_head packInput]" by code_simp
  have new: "packUnit \<in> set (db_units (wd_journal (fst (prepareRawAll packHost packRedactor packOwner ''c'' packInput packRows packWorld))))"
    using pack_unit_new(1) by (simp add: pack_run)
  have slice: "rx_host packSlice = packHost" "rx_owner packSlice = packOwner" "av_sessionId (rx_activation packSlice) = rp_sessionId packInput"
      "av_head (rx_activation packSlice) = rp_head packInput" "sameRawAuthority (rp_authority packInput) (rx_authority packSlice)"
    by (simp_all add: packSlice_def packActivation_def packInput_def sameRawAuthority_def)
  have "rl_wireBytes (rp_limits packInput) = 2048" by (simp add: packInput_def)
  with prepared_raw_deliverable[OF pack_hex texts new pack_unit_new(2) slice] show ?thesis by auto
qed

lemma packed_references_resolve_witness:
  "\<exists>u\<in>set (db_units (wd_journal packDone)). \<exists>c. un_capture u = ''c'' \<and> un_digest u = ho_sha packHost (stringify (chunkJson c)) \<and>
     rn_sourceObjectId c = ''r_'' @ zeros64"
proof -
  have scope: "ownerScope (wd_journal packWorld) packOwner = Inr ((newScope packKey ''o'')\<lparr>sc_recordsInitialized := True\<rparr>)"
    by code_simp
  then show ?thesis
    using packed_references_resolve[OF pack_hex pack_run scope _ list.set_intros(1)] by (auto simp: newScope_def)
qed

end
