(* ===== verification/CanonicalProjection.thy ===== *)
theory CanonicalProjection
  imports CollectorPreparation
begin

text \<open>The projection of prepared observations to the Canonical batches of the wire
  (packages/application/src/canonicalProjection.ts, with the batch of packages/domain/src/collector.ts): the kind,
  author and text of every ACP update, and the bound on what the Server materializes of a batch.\<close>

section \<open>Batches\<close>

datatype event_kind = KindMessage | KindThought | KindToolCall | KindToolResult | KindArtifact | KindSpawn | KindLifecycle

definition eventKinds :: "(string \<times> event_kind) list" where
  "eventKinds = [(''message'', KindMessage), (''thought'', KindThought), (''tool_call'', KindToolCall), (''tool_result'', KindToolResult),
     (''artifact'', KindArtifact), (''spawn'', KindSpawn), (''lifecycle'', KindLifecycle)]"

record canonical_source =
  so_adapterId :: string
  so_adapterVersion :: string
  so_installationId :: string

record canonical_event =
  ce_sourceEventId :: string
  ce_sourceThreadId :: string
  ce_revision :: number
  ce_projectionRevision :: number
  ce_sourceOrder :: number
  ce_eventIndex :: number
  ce_orderFidelity :: order_fidelity
  ce_fidelity :: fidelity
  ce_rawRef :: adapter_raw_ref
  ce_kind :: event_kind
  ce_author :: string
  ce_occurredAt :: "string option"
  ce_text :: string
  ce_toolLabel :: "string option"
  ce_toolUpdateJson :: "string option"
  ce_childSourceThreadId :: "string option"

record canonical_draft =
  cn_profile :: canonical_profile
  cn_observedAt :: string
  cn_source :: canonical_source
  cn_projectId :: string
  cn_session :: adapter_session
  cn_threads :: "adapter_thread list"
  cn_events :: "canonical_event list"
  cn_usage :: "adapter_usage list option"

record canonical_batch = canonical_draft +
  cn_batchId :: string

definition CanonicalIngestionProtocolVersion :: string where
  "CanonicalIngestionProtocolVersion = ''atape.canonical.v1''"

definition canonicalRefJson :: "adapter_raw_ref \<Rightarrow> json" where
  "canonicalRefJson r = (case r of
       ObjectRef i f \<Rightarrow> obj [(''type'', Some (JStr ''object'')), (''sourceObjectId'', Some (JStr i)), (''fragment'', map_option JStr f)]
     | UnavailableRef w \<Rightarrow> obj [(''type'', Some (JStr ''unavailable'')), (''reason'', Some (JStr w))])"

definition canonicalEventJson :: "canonical_event \<Rightarrow> json" where
  "canonicalEventJson e = obj [(''sourceEventId'', Some (JStr (ce_sourceEventId e))), (''sourceThreadId'', Some (JStr (ce_sourceThreadId e))),
     (''revision'', Some (numberJson (ce_revision e))), (''projectionRevision'', Some (numberJson (ce_projectionRevision e))),
     (''sourceOrder'', Some (numberJson (ce_sourceOrder e))), (''eventIndex'', Some (numberJson (ce_eventIndex e))),
     (''orderFidelity'', Some (literalsJson orderFidelities (ce_orderFidelity e))),
     (''fidelity'', Some (literalsJson fidelities (ce_fidelity e))), (''rawRef'', Some (canonicalRefJson (ce_rawRef e))),
     (''kind'', Some (literalsJson eventKinds (ce_kind e))), (''author'', Some (JStr (ce_author e))),
     (''occurredAt'', Some (nullOrJson JStr (ce_occurredAt e))), (''text'', Some (JStr (ce_text e))),
     (''toolLabel'', map_option JStr (ce_toolLabel e)), (''toolUpdateJson'', map_option JStr (ce_toolUpdateJson e)),
     (''childSourceThreadId'', map_option JStr (ce_childSourceThreadId e))]"

definition sourceJsonOf :: "canonical_source \<Rightarrow> json" where
  "sourceJsonOf s = obj [(''adapterId'', Some (JStr (so_adapterId s))), (''adapterVersion'', Some (JStr (so_adapterVersion s))),
     (''installationId'', Some (JStr (so_installationId s)))]"

definition draftMembers :: "'a canonical_draft_scheme \<Rightarrow> (string \<times> json option) list" where
  "draftMembers d = [(''protocolVersion'', Some (JStr CanonicalIngestionProtocolVersion)),
     (''canonicalProfileVersion'', Some (literalsJson canonicalProfiles (cn_profile d))),
     (''observedAt'', Some (JStr (cn_observedAt d))), (''source'', Some (sourceJsonOf (cn_source d))),
     (''projectId'', Some (JStr (cn_projectId d))), (''session'', Some (sessionJson (cn_session d))),
     (''threads'', Some (arrayJson threadJson (cn_threads d))), (''events'', Some (arrayJson canonicalEventJson (cn_events d))),
     (''usage'', map_option (arrayJson usageJson) (cn_usage d))]"

text \<open>The batch id is added to a projected batch, so it is printed last.\<close>

definition batchJson :: "canonical_batch \<Rightarrow> json" where
  "batchJson b = obj (draftMembers b @ [(''batchId'', Some (JStr (cn_batchId b)))])"

section \<open>Updates\<close>

definition middleDot :: string where
  "middleDot = [byte 0xC2, byte 0xB7]"

definition dotted :: "string \<Rightarrow> string \<Rightarrow> string" where
  "dotted a b = a @ '' '' @ middleDot @ '' '' @ b"

text \<open>A missing, null or empty text gives way to the other one.\<close>

definition textOr :: "string option option \<Rightarrow> string \<Rightarrow> string" where
  "textOr v other = (case v of Some (Some t) \<Rightarrow> (if t = [] then other else t) | _ \<Rightarrow> other)"

definition toolStatusText :: "tool_status \<Rightarrow> string" where
  "toolStatusText s = (case s of TPending \<Rightarrow> ''pending'' | TInProgress \<Rightarrow> ''in_progress'' | TCompleted \<Rightarrow> ''completed'' | TFailed \<Rightarrow> ''failed'')"

record projected_update =
  pu_kind :: event_kind
  pu_author :: string
  pu_text :: string
  pu_toolLabel :: "string option"

definition projectAcpContent :: "acp_content \<Rightarrow> string" where
  "projectAcpContent c = (case c of
       TextContent t \<Rightarrow> t
     | ImageContent d m u \<Rightarrow> ''[Image: '' @ m @ '']''
     | AudioContent d m \<Rightarrow> ''[Audio: '' @ m @ '']''
     | LinkContent l \<Rightarrow> dotted (textOr (rl_title l) (rl_name l)) (rl_uri l)
     | EmbeddedResource (TextResource u t m) \<Rightarrow> t
     | EmbeddedResource (BlobResource u b m) \<Rightarrow> ''[Resource: '' @ u @ '']'')"

definition projectAcpUpdate :: "acp_update \<Rightarrow> adapter_actor \<Rightarrow> projected_update" where
  "projectAcpUpdate u actor = (case u of
       UserMessageChunk c m \<Rightarrow> \<lparr>pu_kind = KindMessage, pu_author = ac_name actor, pu_text = projectAcpContent c, pu_toolLabel = None\<rparr>
     | AgentMessageChunk c m \<Rightarrow> \<lparr>pu_kind = KindMessage, pu_author = ac_harness actor, pu_text = projectAcpContent c, pu_toolLabel = None\<rparr>
     | AgentThoughtChunk c m \<Rightarrow> \<lparr>pu_kind = KindThought, pu_author = ac_harness actor, pu_text = projectAcpContent c, pu_toolLabel = None\<rparr>
     | ToolCall t \<Rightarrow> \<lparr>pu_kind = KindToolCall, pu_author = ac_harness actor,
         pu_text = (case tc_status t of Some s \<Rightarrow> dotted (tc_title t) (toolStatusText s) | None \<Rightarrow> tc_title t), pu_toolLabel = Some (tc_title t)\<rparr>
     | ToolCallUpdate t \<Rightarrow>
         (let label = textOr (tu_title t) (tu_toolCallId t);
              status = (case tu_status t of Some (Some s) \<Rightarrow> toolStatusText s | _ \<Rightarrow> ''updated'')
          in \<lparr>pu_kind = (if status = ''completed'' \<or> status = ''failed'' then KindToolResult else KindToolCall), pu_author = ac_harness actor,
               pu_text = dotted label status, pu_toolLabel = Some label\<rparr>))"

definition isToolUpdate :: "acp_update \<Rightarrow> bool" where
  "isToolUpdate u = (case u of ToolCall _ \<Rightarrow> True | ToolCallUpdate _ \<Rightarrow> True | _ \<Rightarrow> False)"

section \<open>Submissions\<close>

record source_submission =
  sj_profile :: "canonical_profile option"
  sj_instanceOrigin :: string
  sj_installationId :: string
  sj_projectId :: string
  sj_adapterId :: string
  sj_adapterVersion :: string
  sj_observedAt :: string
  sj_session :: adapter_session
  sj_threads :: "adapter_thread list"
  sj_events :: "adapter_event list"
  sj_usage :: "adapter_usage list option"

definition projectEvent :: "adapter_actor \<Rightarrow> adapter_event \<Rightarrow> canonical_event" where
  "projectEvent actor e = (let p = projectAcpUpdate (ev_update e) actor in
     \<lparr>ce_sourceEventId = ev_sourceEventId e, ce_sourceThreadId = ev_sourceThreadId e, ce_revision = ev_revision e,
       ce_projectionRevision = ev_projectionRevision e, ce_sourceOrder = ev_sourceOrder e, ce_eventIndex = ev_eventIndex e,
       ce_orderFidelity = ev_orderFidelity e, ce_fidelity = ev_fidelity e, ce_rawRef = ev_rawRef e,
       ce_kind = (if ev_childSourceThreadId e = None then pu_kind p else KindSpawn), ce_author = pu_author p,
       ce_occurredAt = ev_occurredAt e, ce_text = pu_text p, ce_toolLabel = pu_toolLabel p,
       ce_toolUpdateJson = (if isToolUpdate (ev_update e) then Some (stringify (updateJson (ev_update e))) else None),
       ce_childSourceThreadId = ev_childSourceThreadId e\<rparr>)"

definition submissionProfile :: "source_submission \<Rightarrow> canonical_profile option \<Rightarrow> canonical_profile" where
  "submissionProfile v profile = (case profile of Some p \<Rightarrow> p | None \<Rightarrow> (case sj_profile v of Some p \<Rightarrow> p | None \<Rightarrow> Profile2))"

definition projectCanonicalSubmission :: "source_submission \<Rightarrow> canonical_profile option \<Rightarrow> canonical_draft" where
  "projectCanonicalSubmission v profile =
     \<lparr>cn_profile = submissionProfile v profile, cn_observedAt = sj_observedAt v,
       cn_source = \<lparr>so_adapterId = sj_adapterId v, so_adapterVersion = sj_adapterVersion v, so_installationId = sj_installationId v\<rparr>,
       cn_projectId = sj_projectId v, cn_session = sj_session v, cn_threads = sj_threads v,
       cn_events = map (projectEvent (as_actor (sj_session v))) (sj_events v), cn_usage = sj_usage v\<rparr>"

section \<open>The materialization bound\<close>

text \<open>Go's encoder also escapes the characters of HTML and the separators U+2028 and U+2029.\<close>

definition goCharacter :: "char \<Rightarrow> string" where
  "goCharacter c =
     (if c = CHR ''<'' then CHR 0x5C # ''u003c'' else if c = CHR ''>'' then CHR 0x5C # ''u003e''
      else if c = CHR ''&'' then CHR 0x5C # ''u0026'' else [c])"

fun goEscape :: "string \<Rightarrow> string" where
  "goEscape (c # d # e # r) =
     (if code c = 0xE2 \<and> code d = 0x80 \<and> code e = 0xA8 then CHR 0x5C # ''u2028'' @ goEscape r
      else if code c = 0xE2 \<and> code d = 0x80 \<and> code e = 0xA9 then CHR 0x5C # ''u2029'' @ goEscape r
      else goCharacter c @ goEscape (d # e # r))"
| "goEscape [c, d] = goCharacter c @ goCharacter d"
| "goEscape [c] = goCharacter c"
| "goEscape [] = []"

definition goJsonBytes :: "json \<Rightarrow> int" where
  "goJsonBytes j = int (length (goEscape (stringify j)))"

definition scopeText :: "canonical_batch \<Rightarrow> string \<Rightarrow> string" where
  "scopeText b userId = concat (map (\<lambda>v. showInt (int (length v)) @ '':'' @ v)
     [cn_projectId b, userId, so_installationId (cn_source b), so_adapterId (cn_source b), as_sourceSessionId (cn_session b)])"

definition batchRecords :: "canonical_batch \<Rightarrow> int" where
  "batchRecords b = int (length (cn_threads b)) + int (length (cn_events b)) + (case cn_usage b of None \<Rightarrow> 0 | Some us \<Rightarrow> int (length us))"

definition canonicalMaterializationBound :: "canonical_batch \<Rightarrow> string \<Rightarrow> int" where
  "canonicalMaterializationBound b userId =
     goJsonBytes (batchJson b) + 4096 + (batchRecords b + 2) * goJsonBytes (JStr (scopeText b userId)) + batchRecords b * 2048"

lemma goEscape_longer: "length s \<le> length (goEscape s)"
  by (induction s rule: goEscape.induct) (auto simp: goCharacter_def)

lemma goJson_bytes: "int (length (stringify j)) \<le> goJsonBytes j"
  by (simp add: goJsonBytes_def goEscape_longer)

lemma bound_bytes: "int (length (stringify (batchJson b))) + 4096 \<le> canonicalMaterializationBound b userId"
proof -
  have "0 \<le> batchRecords b" by (simp add: batchRecords_def split: option.split)
  moreover have "0 \<le> goJsonBytes j" for j by (simp add: goJsonBytes_def)
  ultimately have "0 \<le> (batchRecords b + 2) * goJsonBytes (JStr (scopeText b userId)) + batchRecords b * 2048" by simp
  then show ?thesis using goJson_bytes[of "batchJson b"] by (simp add: canonicalMaterializationBound_def)
qed

end
