(* ===== verification/SourceProjection.thy ===== *)
theory SourceProjection
  imports CanonicalProjection PublicationService RawPreparation
begin

text \<open>The projection of a complete source (packages/application/src/canonicalSourceProjection.ts), shared by the
  preparation of a publication and the comparison with a published one: the source's view, its profile identity, the
  checks of its origin and target, and the frames it yields, each validated, masked and fingerprinted.

  A source is external: its view is data and the n-th page it returns is the value of a function, absent when the
  source fails.\<close>

section \<open>Views\<close>

record draft_frame =
  fr_recordKey :: string
  fr_events :: "adapter_event list"
  fr_usage :: "adapter_usage list"
  fr_raw :: "json option"

record draft_page =
  dp_frames :: "draft_frame list"
  dp_done :: bool

record draft_target =
  dt_events :: number
  dt_usage :: number
  dt_threads :: number
  dt_retained :: "string list option"

text \<open>The session, threads, events and usage of a source carry no revision: the one they have here is overwritten.\<close>

record draft_view =
  dv_profile :: string
  dv_canonicalProfile :: "string option"
  dv_sourceId :: string
  dv_originKey :: string
  dv_session :: adapter_session
  dv_threads :: "adapter_thread list"
  dv_target :: draft_target
  dv_checkpoint :: "string option"
  dv_failures :: "source_failure list option"
  dv_truncated :: "bool option"
  dv_read :: "nat \<Rightarrow> draft_page option"

datatype preparation_reason = PrepInvalid | PrepBinding | PrepCapacity | PrepUnsupported | PrepConflict

datatype draft_error =
    DraftRefused preparation_reason
  | DraftContract contract_error

type_synonym 'a drafted = "draft_error + 'a"

definition requireD :: "bool \<Rightarrow> preparation_reason \<Rightarrow> unit drafted" where
  "requireD ok e = (if ok then Inr () else Inl (DraftRefused e))"

section \<open>Identity\<close>

definition positiveCount :: "number \<Rightarrow> int \<Rightarrow> bool" where
  "positiveCount n minimum \<longleftrightarrow> isSafeInteger n \<and> intValue n \<ge> minimum"

definition PublicationPreparationVersion :: string where
  "PublicationPreparationVersion = ''atape.host-canonical.v1''"

definition viewProfile :: "draft_view \<Rightarrow> string" where
  "viewProfile v = (case dv_canonicalProfile v of Some p \<Rightarrow> p | None \<Rightarrow> ''atape.acp-centered.v2'')"

definition hostCanonical :: "canonical_profile \<Rightarrow> string" where
  "hostCanonical p = (case p of Profile5 \<Rightarrow> ''atape.host-canonical.v4'' | Profile4 \<Rightarrow> ''atape.host-canonical.v3''
     | Profile3 \<Rightarrow> ''atape.host-canonical.v2'' | Profile2 \<Rightarrow> PublicationPreparationVersion)"

definition sourceProjectionProfile :: "draft_view \<Rightarrow> string \<Rightarrow> (canonical_profile \<times> string) drafted" where
  "sourceProjectionProfile v transformVersion =
     bindE (fromOption (DraftRefused PrepInvalid) (literalsOf canonicalProfiles (JStr (viewProfile v)))) (\<lambda>canonical.
     bindE (requireD (dv_profile v \<noteq> [] \<and> utf16_length (dv_profile v) \<le> 500) PrepInvalid) (\<lambda>_.
     let profile = hostCanonical canonical @ '':'' @ transformVersion @ '':'' @ dv_profile v in
     bindE (requireD (utf16_length profile \<le> 500) PrepInvalid) (\<lambda>_. Inr (canonical, profile))))"

definition validateCanonicalSourceMetadata :: "host \<Rightarrow> capture_owner \<Rightarrow> string \<Rightarrow> unit drafted" where
  "validateCanonicalSourceMetadata h owner adapterVersion =
     requireD (list_all (\<lambda>(value, maximum). js_trim value \<noteq> [] \<and> CHR 0x00 \<notin> set value \<and> int (length value) \<le> maximum)
       [(adapterVersion, 100), (cs_adapterId (ow_scope owner), 200), (cs_projectId (ow_scope owner), 200),
        (bd_installationId (ho_binding h), 200)]) PrepInvalid"

section \<open>Projections\<close>

record projection_input =
  ji_captureId :: string
  ji_observedAt :: string
  ji_adapterVersion :: string
  ji_transformVersion :: string

record source_projection =
  prj_host :: host
  prj_redactor :: redactor
  prj_owner :: capture_owner
  prj_view :: draft_view
  prj_input :: projection_input
  prj_profile :: string
  prj_canonicalProfile :: canonical_profile
  prj_masked :: adapter_observation

record projection_counts =
  pn_events :: int
  pn_usage :: int
  pn_lastOrder :: int

definition retainedIds :: "draft_view \<Rightarrow> string list" where
  "retainedIds v = (case dt_retained (dv_target v) of None \<Rightarrow> [] | Some ids \<Rightarrow> ids)"

definition placeholderRef :: adapter_raw_ref where
  "placeholderRef = UnavailableRef ''Raw capture disabled''"

definition draftObservation :: "draft_view \<Rightarrow> projection_input \<Rightarrow> adapter_event list \<Rightarrow> adapter_usage list \<Rightarrow> adapter_observation" where
  "draftObservation v input es us =
     \<lparr>ob_observationId = ji_captureId input, ob_observedAt = ji_observedAt input, ob_session = (dv_session v)\<lparr>as_revision := Whole 1\<rparr>,
       ob_threads = map (\<lambda>t. t\<lparr>at_revision := Whole 1\<rparr>) (dv_threads v), ob_events = es, ob_usage = Some us, ob_rawSegments = []\<rparr>"

definition prepareDraft :: "redactor \<Rightarrow> adapter_observation \<Rightarrow> canonical_profile \<Rightarrow> adapter_observation drafted" where
  "prepareDraft r ob profile = (case prepareCanonicalSlice r (observationJson ob) profile of
       Inl e \<Rightarrow> Inl (DraftContract e) | Inr (w, _) \<Rightarrow> Inr w)"

definition boundOrigin :: "capture_owner \<Rightarrow> draft_view \<Rightarrow> bool" where
  "boundOrigin owner v \<longleftrightarrow> dv_sourceId v = cs_sourceSessionId (ow_scope owner) \<and> dv_originKey v = cs_originKey (ow_scope owner) \<and>
     as_sourceSessionId (dv_session v) = cs_sourceSessionId (ow_scope owner)"

definition consistentTarget :: "draft_view \<Rightarrow> bool" where
  "consistentTarget v \<longleftrightarrow> (let t = dv_target v in
     positiveCount (dt_events t) 0 \<and> positiveCount (dt_usage t) 0 \<and> positiveCount (dt_threads t) 1 \<and>
     intValue (dt_threads t) = int (length (dv_threads v)) \<and>
     wholeOf (as_reportedEventCount (dv_session v)) = Some (intValue (dt_events t)))"

definition consistentRetained :: "draft_view \<Rightarrow> bool" where
  "consistentRetained v \<longleftrightarrow> distinct (retainedIds v) \<and> length (retainedIds v) \<le> 1000 \<and>
     list_all (\<lambda>i. list_ex (\<lambda>t. at_sourceThreadId t = i \<and> at_parent t \<noteq> None) (dv_threads v)) (retainedIds v)"

definition startCounts :: projection_counts where
  "startCounts = \<lparr>pn_events = 0, pn_usage = 0, pn_lastOrder = -1\<rparr>"

definition canonicalSourceProjection :: "host \<Rightarrow> redactor \<Rightarrow> capture_owner \<Rightarrow> draft_view \<Rightarrow> projection_input \<Rightarrow> source_projection drafted" where
  "canonicalSourceProjection h r owner v input =
     bindE (sourceProjectionProfile v (ji_transformVersion input)) (\<lambda>(canonical, profile).
     bindE (requireD (boundOrigin owner v) PrepBinding) (\<lambda>_.
     bindE (requireD (consistentTarget v) PrepInvalid) (\<lambda>_.
     bindE (requireD (consistentRetained v) PrepInvalid) (\<lambda>_.
     bindE (prepareDraft r (draftObservation v input [] []) canonical) (\<lambda>masked.
       Inr \<lparr>prj_host = h, prj_redactor = r, prj_owner = owner, prj_view = v, prj_input = input, prj_profile = profile,
         prj_canonicalProfile = canonical, prj_masked = masked\<rparr>)))))"

section \<open>Fingerprints\<close>

definition dropMembers :: "string list \<Rightarrow> json \<Rightarrow> json" where
  "dropMembers ks j = (case j of JObj ms \<Rightarrow> JObj (filter (\<lambda>(k, _). k \<notin> set ks) ms) | _ \<Rightarrow> j)"

definition projectDraft :: "source_projection \<Rightarrow> adapter_event list \<Rightarrow> canonical_draft" where
  "projectDraft p es = (let owner = prj_owner p; b = ho_binding (prj_host p); masked = prj_masked p in
     projectCanonicalSubmission \<lparr>sj_profile = None, sj_instanceOrigin = bd_instanceOrigin b, sj_installationId = bd_installationId b,
       sj_projectId = cs_projectId (ow_scope owner), sj_adapterId = cs_adapterId (ow_scope owner),
       sj_adapterVersion = ji_adapterVersion (prj_input p), sj_observedAt = ji_observedAt (prj_input p),
       sj_session = ob_session masked, sj_threads = ob_threads masked, sj_events = es, sj_usage = Some []\<rparr>
       (Some (prj_canonicalProfile p)))"

definition eventFingerprint :: "source_projection \<Rightarrow> adapter_event \<Rightarrow> string" where
  "eventFingerprint p e = hashJson (prj_host p) (dropMembers [''revision'', ''projectionRevision'', ''rawRef'']
     (canonicalEventJson (hd (cn_events (projectDraft p [e])))))"

definition usageFingerprint :: "source_projection \<Rightarrow> adapter_usage \<Rightarrow> string" where
  "usageFingerprint p u = hashJson (prj_host p) (dropMembers [''revision''] (usageJson u))"

definition sessionFingerprint :: "source_projection \<Rightarrow> string" where
  "sessionFingerprint p = hashJson (prj_host p) (dropMembers [''revision''] (sessionJson (ob_session (prj_masked p))))"

definition threadFingerprint :: "source_projection \<Rightarrow> adapter_thread \<Rightarrow> string" where
  "threadFingerprint p t = hashJson (prj_host p) (dropMembers [''revision''] (threadJson t))"

section \<open>Frames\<close>

record 'a projected =
  pd_value :: 'a
  pd_key :: string
  pd_fingerprint :: string

text \<open>The count of the pages so far bounds the reading of a source.\<close>

definition projectPage :: "draft_page \<Rightarrow> nat \<Rightarrow> nat drafted" where
  "projectPage page pages =
     bindE (requireD (pages + 1 \<le> 1000001 \<and> length (dp_frames page) \<le> 100 \<and> (dp_done page \<or> dp_frames page \<noteq> [])) PrepCapacity) (\<lambda>_.
       Inr (pages + 1))"

lemma projectPage_bound: "projectPage page pages = Inr later \<Longrightarrow> later = pages + 1 \<and> pages \<le> 1000000"
  by (auto simp: projectPage_def requireD_def bindE_def split: if_split_asm)

definition frameObservation :: "source_projection \<Rightarrow> draft_frame \<Rightarrow> adapter_observation" where
  "frameObservation p f = draftObservation (prj_view p) (prj_input p)
     (map (\<lambda>e. e\<lparr>ev_revision := Whole 1, ev_projectionRevision := Whole 1, ev_rawRef := placeholderRef\<rparr>) (fr_events f))
     (map (\<lambda>u. u\<lparr>us_revision := Whole 1\<rparr>) (fr_usage f))"

definition projectedEvent :: "source_projection \<Rightarrow> adapter_event \<Rightarrow> adapter_event projected" where
  "projectedEvent p e = \<lparr>pd_value = e, pd_key = hashJson (prj_host p) (JArr [JStr (ev_sourceThreadId e), JStr (ev_sourceEventId e)]),
     pd_fingerprint = eventFingerprint p e\<rparr>"

definition projectedUsage :: "source_projection \<Rightarrow> adapter_usage \<Rightarrow> adapter_usage projected" where
  "projectedUsage p u = \<lparr>pd_value = u, pd_key = hashJson (prj_host p) (JArr [JStr (us_sourceThreadId u), JStr (us_sourceUsageId u)]),
     pd_fingerprint = usageFingerprint p u\<rparr>"

definition countEvent :: "source_projection \<Rightarrow> projection_counts \<Rightarrow> adapter_event \<Rightarrow> projection_counts drafted" where
  "countEvent p n e =
     bindE (requireD (ev_sourceThreadId e \<notin> set (retainedIds (prj_view p))) PrepInvalid) (\<lambda>_.
     bindE (requireD (intValue (ev_eventIndex e) = pn_events n \<and> pn_lastOrder n < intValue (ev_sourceOrder e) \<and>
       pn_events n + 1 \<le> intValue (dt_events (dv_target (prj_view p)))) PrepInvalid) (\<lambda>_.
       Inr (n\<lparr>pn_events := pn_events n + 1, pn_lastOrder := intValue (ev_sourceOrder e)\<rparr>)))"

definition countUsage :: "source_projection \<Rightarrow> projection_counts \<Rightarrow> adapter_usage \<Rightarrow> projection_counts drafted" where
  "countUsage p n u =
     bindE (requireD (us_sourceThreadId u \<notin> set (retainedIds (prj_view p))) PrepInvalid) (\<lambda>_.
     bindE (requireD (pn_usage n + 1 \<le> intValue (dt_usage (dv_target (prj_view p)))) PrepInvalid) (\<lambda>_.
       Inr (n\<lparr>pn_usage := pn_usage n + 1\<rparr>)))"

definition usageOf :: "adapter_observation \<Rightarrow> adapter_usage list" where
  "usageOf v = (case ob_usage v of None \<Rightarrow> [] | Some us \<Rightarrow> us)"

definition projectFrame :: "source_projection \<Rightarrow> draft_frame \<Rightarrow> projection_counts \<Rightarrow>
    ((adapter_event projected list \<times> adapter_usage projected list) \<times> projection_counts) drafted" where
  "projectFrame p f n =
     bindE (requireD (length (fr_events f) \<le> 500 \<and> length (fr_usage f) \<le> 500) PrepCapacity) (\<lambda>_.
     if fr_events f = [] \<and> fr_usage f = [] then Inr (([], []), n)
     else
     bindE (prepareDraft (prj_redactor p) (frameObservation p f) (prj_canonicalProfile p)) (\<lambda>ready.
     bindE (foldE (countEvent p) n (ob_events ready)) (\<lambda>n.
     bindE (foldE (countUsage p) n (usageOf ready)) (\<lambda>n.
       Inr ((map (projectedEvent p) (ob_events ready), map (projectedUsage p) (usageOf ready)), n)))))"

definition finishProjection :: "source_projection \<Rightarrow> projection_counts \<Rightarrow> record_counts drafted" where
  "finishProjection p n =
     bindE (requireD (pn_events n = intValue (dt_events (dv_target (prj_view p))) \<and> pn_usage n = intValue (dt_usage (dv_target (prj_view p)))) PrepInvalid) (\<lambda>_.
       Inr \<lparr>rc_session = 1, rc_thread = int (length (ob_threads (prj_masked p))), rc_event = pn_events n, rc_usage = pn_usage n\<rparr>)"

end
