(* ===== verification/SourceMetadata.thy ===== *)
theory SourceMetadata
  imports SourceProjection Utf16
begin

text \<open>The frozen metadata of a source (packages/application/src/sourceMetadata.ts): its schema, the masked diagnostics it
  carries and the text a capture stores, read back by the next preparation and comparison.\<close>

section \<open>Metadata\<close>

record prior_thread =
  pth_sourceThreadId :: string
  pth_parent :: "string option"
  pth_label :: string
  pth_summary :: string
  pth_captureStatus :: capture_status

definition decodePriorThread :: "prior_thread decoder" where
  "decodePriorThread j =
     Option.bind (required ''sourceThreadId'' asString j) (\<lambda>i.
     Option.bind (optionalKey ''parentSourceThreadId'' asString j) (\<lambda>p.
     Option.bind (required ''label'' asString j) (\<lambda>l.
     Option.bind (required ''summary'' asString j) (\<lambda>s.
     Option.bind (required ''captureStatus'' (literalsOf captureStatuses) j) (\<lambda>c.
       Some \<lparr>pth_sourceThreadId = i, pth_parent = p, pth_label = l, pth_summary = s, pth_captureStatus = c\<rparr>)))))"

record source_metadata =
  sd_threads :: "prior_thread list"
  sd_profile :: "canonical_profile option"
  sd_checkpoint :: "string option"
  sd_retained :: "string list option"
  sd_failures :: "source_failure list option"
  sd_truncated :: "bool option"

definition emptyMetadata :: source_metadata where
  "emptyMetadata = \<lparr>sd_threads = [], sd_profile = None, sd_checkpoint = None, sd_retained = None, sd_failures = None, sd_truncated = None\<rparr>"

definition checkpointText :: "string decoder" where
  "checkpointText = checkedBy (\<lambda>v. 1 \<le> utf16_length v \<and> int (utf16_length v) \<le> 1024 * 1024) asString"

text \<open>The fourth profile is stored as a marker beside the third, which earlier versions accept.\<close>

definition decodeSourceStruct :: "source_metadata decoder" where
  "decodeSourceStruct j =
     Option.bind (required ''threads'' (checkedBy (\<lambda>ts. length ts \<le> 1000) (arrayOf decodePriorThread)) j) (\<lambda>ts.
     Option.bind (optionalKey ''canonicalProfileVersion'' (literalsOf canonicalProfiles) j) (\<lambda>p.
     Option.bind (optionalKey ''canonicalProfileV4'' (checkedBy (\<lambda>q. q = Profile4) (literalsOf canonicalProfiles)) j) (\<lambda>v4.
     Option.bind (optionalKey ''sourceCheckpoint'' checkpointText j) (\<lambda>c.
     Option.bind (optionalKey ''retainedThreadIds'' (checkedBy (\<lambda>ids. length ids \<le> 1000) (arrayOf asString)) j) (\<lambda>ids.
     Option.bind (optionalKey ''sourceFailures'' (checkedBy (\<lambda>fs. length fs \<le> 32) (arrayOf decodeSourceFailure)) j) (\<lambda>fs.
     Option.bind (optionalKey ''sourceFailuresTruncated'' asBool j) (\<lambda>t.
       if v4 = None \<or> p = Some Profile3
       then Some \<lparr>sd_threads = ts, sd_profile = (if v4 = None then p else Some Profile4), sd_checkpoint = c, sd_retained = ids,
         sd_failures = fs, sd_truncated = t\<rparr> else None)))))))"

definition decodeSourceMetadata :: "string option \<Rightarrow> source_metadata drafted" where
  "decodeSourceMetadata stored = (case stored of
       None \<Rightarrow> Inr emptyMetadata
     | Some t \<Rightarrow> (if int (length t) > 2 * 1024 * 1024 then Inl (DraftRefused PrepInvalid)
         else fromOption (DraftRefused PrepInvalid) (decodeText decodeSourceStruct t)))"

section \<open>Diagnostics\<close>

text \<open>The redactors of redaction.ts mask a diagnostic with the function that masks any text.\<close>

definition maskSourceFailures :: "redactor \<Rightarrow> source_failure list \<Rightarrow> source_failure list" where
  "maskSourceFailures r fs = map (\<lambda>f. f\<lparr>sf_source := utf16Take 4096 (fst (rd_redact r (sf_source f)))\<rparr>) fs"

definition sourceFailureJson :: "source_failure \<Rightarrow> json" where
  "sourceFailureJson f = obj [(''source'', Some (JStr (sf_source f))), (''reason'', Some (literalsJson failureReasons (sf_reason f)))]"

definition viewFailures :: "redactor \<Rightarrow> draft_view \<Rightarrow> source_failure list" where
  "viewFailures r v = maskSourceFailures r (case dv_failures v of None \<Rightarrow> [] | Some fs \<Rightarrow> fs)"

definition viewTruncated :: "draft_view \<Rightarrow> bool" where
  "viewTruncated v \<longleftrightarrow> dv_truncated v = Some True"

section \<open>The stored text\<close>

definition profileMembers :: "string option \<Rightarrow> (string \<times> json option) list" where
  "profileMembers p = (if p = Some ''atape.acp-centered.v4''
     then [(''canonicalProfileVersion'', Some (JStr ''atape.acp-centered.v3'')), (''canonicalProfileV4'', Some (JStr ''atape.acp-centered.v4''))]
     else [(''canonicalProfileVersion'', map_option JStr p)])"

definition checkpointMembers :: "redactor \<Rightarrow> draft_view \<Rightarrow> (string \<times> json option) list" where
  "checkpointMembers r v = (case dv_checkpoint v of None \<Rightarrow> [] | Some c \<Rightarrow>
     [(''sourceCheckpoint'', Some (JStr c)), (''retainedThreadIds'', Some (arrayJson JStr (retainedIds v))),
      (''sourceFailures'', Some (arrayJson sourceFailureJson (viewFailures r v))),
      (''sourceFailuresTruncated'', Some (JBool (viewTruncated v)))])"

definition sourceMetadataJson :: "redactor \<Rightarrow> draft_view \<Rightarrow> adapter_thread list \<Rightarrow> string" where
  "sourceMetadataJson r v ts = stringify (obj ((''threads'', Some (arrayJson threadJson ts)) #
     profileMembers (dv_canonicalProfile v) @ checkpointMembers r v))"

section \<open>Reading back\<close>

definition priorThread :: "adapter_thread \<Rightarrow> prior_thread" where
  "priorThread t = \<lparr>pth_sourceThreadId = at_sourceThreadId t, pth_parent = at_parent t, pth_label = at_label t,
     pth_summary = at_summary t, pth_captureStatus = at_captureStatus t\<rparr>"

lemma prior_thread_read: "decodePriorThread (threadJson t) = Some (priorThread t)"
  by (simp add: decodePriorThread_def threadJson_def priorThread_def codec_simps)

lemma prior_threads: "arrayOf decodePriorThread (arrayJson threadJson ts) = Some (map priorThread ts)"
  by (simp add: arrayOf_def arrayJson_def, induction ts) (simp_all add: prior_thread_read)

lemma failure_literals [simp]: "literalsOf failureReasons (literalsJson failureReasons x) = Some x"
  by (cases x; simp add: literalsOf_def literalsJson_def failureReasons_def)

lemma profile_literals [simp]: "literalsOf canonicalProfiles (literalsJson canonicalProfiles x) = Some x"
  by (cases x; simp add: literalsOf_def literalsJson_def canonicalProfiles_def)

interpretation failure_codec: codec sourceFailureJson decodeSourceFailure "\<lambda>_. True"
  by unfold_locales (simp add: sourceFailureJson_def decodeSourceFailure_def codec_simps)

text \<open>What a preparation freezes of its source.\<close>

definition frozenMetadata :: "redactor \<Rightarrow> draft_view \<Rightarrow> canonical_profile option \<Rightarrow> adapter_thread list \<Rightarrow> source_metadata" where
  "frozenMetadata r v p ts = \<lparr>sd_threads = map priorThread ts, sd_profile = p, sd_checkpoint = dv_checkpoint v,
     sd_retained = (if dv_checkpoint v = None then None else Some (retainedIds v)),
     sd_failures = (if dv_checkpoint v = None then None else Some (viewFailures r v)),
     sd_truncated = (if dv_checkpoint v = None then None else Some (viewTruncated v))\<rparr>"

definition profileText :: "canonical_profile \<Rightarrow> string" where
  "profileText p = (case p of Profile2 \<Rightarrow> ''atape.acp-centered.v2'' | Profile3 \<Rightarrow> ''atape.acp-centered.v3''
     | Profile4 \<Rightarrow> ''atape.acp-centered.v4'' | Profile5 \<Rightarrow> ''atape.acp-centered.v5'')"

lemma text_profile [simp]: "literalsOf canonicalProfiles (JStr (profileText p)) = Some p"
  by (cases p) (simp_all add: literalsOf_def canonicalProfiles_def profileText_def)

lemma checkpoint_text [codec_simps]:
  "checkpointText (JStr c) = (if 1 \<le> utf16_length c \<and> int (utf16_length c) \<le> 1048576 then Some c else None)"
  by (simp add: checkpointText_def checkedBy_def)

lemma failure_count: "length (viewFailures r v) = length (case dv_failures v of None \<Rightarrow> [] | Some fs \<Rightarrow> fs)"
  by (simp add: viewFailures_def maskSourceFailures_def)

lemma struct_roundtrip:
  assumes "dv_canonicalProfile v = map_option profileText p" "length ts \<le> 1000"
    and "\<And>c. dv_checkpoint v = Some c \<Longrightarrow> 1 \<le> utf16_length c \<and> int (utf16_length c) \<le> 1048576"
    and "length (retainedIds v) \<le> 1000" "length (viewFailures r v) \<le> 32"
  shows "decodeSourceStruct (obj ((''threads'', Some (arrayJson threadJson ts)) # profileMembers (dv_canonicalProfile v) @ checkpointMembers r v)) =
    Some (frozenMetadata r v p ts)"
proof -
  note evaluate = decodeSourceStruct_def codec_simps profileMembers_def checkpointMembers_def prior_threads checkedBy_def frozenMetadata_def assms(1,2)
    flag_codec.decode_encode text_codec.array_roundtrip failure_codec.array_roundtrip
  show ?thesis
  proof (cases "dv_checkpoint v")
    case None
    then show ?thesis by (cases p; cases "the p") (simp_all add: evaluate profileText_def literalsOf_def canonicalProfiles_def)
  next
    case (Some c)
    then show ?thesis using assms(3)[OF Some] assms(4,5)
      by (cases p; cases "the p") (simp_all add: evaluate profileText_def literalsOf_def canonicalProfiles_def)
  qed
qed

text \<open>C15: What a preparation freezes of its source reads back as it is: threads, profile (the fourth one behind its marker),
  checkpoint, retained threads and masked diagnostics, whenever the view is within the bounds of the schema.\<close>
theorem source_metadata_roundtrip:
  assumes "dv_canonicalProfile v = map_option profileText p" "length ts \<le> 1000"
    and "\<And>c. dv_checkpoint v = Some c \<Longrightarrow> 1 \<le> utf16_length c \<and> int (utf16_length c) \<le> 1024 * 1024"
    and "length (retainedIds v) \<le> 1000" "length (case dv_failures v of None \<Rightarrow> [] | Some fs \<Rightarrow> fs) \<le> 32"
    and "int (length (sourceMetadataJson r v ts)) \<le> 2 * 1024 * 1024"
  shows "decodeSourceMetadata (Some (sourceMetadataJson r v ts)) = Inr (frozenMetadata r v p ts)"
proof -
  have "length (viewFailures r v) \<le> 32" using assms(5) by (simp add: failure_count)
  from struct_roundtrip[OF assms(1,2) _ assms(4) this] assms(3)
  have "decodeText decodeSourceStruct (sourceMetadataJson r v ts) = Some (frozenMetadata r v p ts)"
    by (simp add: decodeText_def sourceMetadataJson_def parseJson_stringify del: stringify.simps)
  then show ?thesis using assms(6) by (simp add: decodeSourceMetadata_def)
qed

end
