(* ===== verification/PublicationPreparation.thy ===== *)
theory PublicationPreparation
  imports SourceMetadata
begin

text \<open>The preparation of a publication (packages/application/src/publicationPreparation.ts): the complete Canonical
  replacement of a source, cut into parts within the negotiated limits, with the Raw archive beside it, and
  the fresh Raw observation of a published source.\<close>

section \<open>Effects\<close>

datatype publish_error =
    Prepared preparation_error
  | Drafted draft_error
  | SourceFailed
  | UndefinedReference

type_synonym ('r, 'a) publish = "('r world, publish_error, 'a) action"

definition rawP :: "('r, 'a) preparing \<Rightarrow> ('r, 'a) publish" where
  "rawP m = mapErrorA Prepared m"

definition localP :: "('r, 'a) effect \<Rightarrow> ('r, 'a) publish" where
  "localP m = rawP (serviceP m)"

definition storeP :: "(journal_db \<Rightarrow> 'a work) \<Rightarrow> ('r, 'a) publish" where
  "storeP f = rawP (journalP f)"

definition draftP :: "'a drafted \<Rightarrow> ('r, 'a) publish" where
  "draftP c = checkA (map_sum Drafted (\<lambda>x. x) c)"

definition requirePrep :: "bool \<Rightarrow> preparation_reason \<Rightarrow> ('r, unit) publish" where
  "requirePrep ok e = draftP (requireD ok e)"

fun foldA :: "('s \<Rightarrow> 'a \<Rightarrow> ('w, 'e, 's) action) \<Rightarrow> 's \<Rightarrow> 'a list \<Rightarrow> ('w, 'e, 's) action" where
  "foldA f s [] = returnA s"
| "foldA f s (x # xs) = bindA (f s x) (\<lambda>t. foldA f t xs)"

section \<open>References\<close>

definition adapterRef :: "raw_reference \<Rightarrow> adapter_raw_ref" where
  "adapterRef r = (case r of RawUnavailable w \<Rightarrow> UnavailableRef w | RawObject i f \<Rightarrow> ObjectRef i f)"

definition placeholderReference :: raw_reference where
  "placeholderReference = RawUnavailable ''Raw capture disabled''"

section \<open>Parts\<close>

record open_target =
  pq_projection :: source_projection
  pq_limits :: publication_limits
  pq_target :: target_profile
  pq_session :: adapter_session
  pq_threads :: "adapter_thread list"
  pq_batchKey :: string

abbreviation pq_host :: "open_target \<Rightarrow> host" where
  "pq_host q \<equiv> prj_host (pq_projection q)"

abbreviation pq_owner :: "open_target \<Rightarrow> capture_owner" where
  "pq_owner q \<equiv> prj_owner (pq_projection q)"

abbreviation pq_captureId :: "open_target \<Rightarrow> string" where
  "pq_captureId q \<equiv> ji_captureId (prj_input (pq_projection q))"

definition targetProfileOf :: "draft_view \<Rightarrow> target_profile" where
  "targetProfileOf v =
     (if dv_canonicalProfile v = Some ''atape.acp-centered.v5'' then Target5
      else if dv_canonicalProfile v = Some ''atape.acp-centered.v4'' then Target4
      else if dv_canonicalProfile v = Some ''atape.acp-centered.v3'' then Target3
      else if dv_checkpoint v = None then Target1 else Target2)"

definition projectPart :: "open_target \<Rightarrow> adapter_event list \<Rightarrow> adapter_usage list \<Rightarrow> canonical_draft" where
  "projectPart q es us = (let p = pq_projection q; owner = prj_owner p; b = ho_binding (prj_host p) in
     projectCanonicalSubmission \<lparr>sj_profile = None, sj_instanceOrigin = bd_instanceOrigin b, sj_installationId = bd_installationId b,
       sj_projectId = cs_projectId (ow_scope owner), sj_adapterId = cs_adapterId (ow_scope owner),
       sj_adapterVersion = ji_adapterVersion (prj_input p), sj_observedAt = ji_observedAt (prj_input p),
       sj_session = pq_session q, sj_threads = pq_threads q, sj_events = es, sj_usage = Some us\<rparr> (Some (prj_canonicalProfile p)))"

definition partBatch :: "open_target \<Rightarrow> adapter_event list \<Rightarrow> adapter_usage list \<Rightarrow> int \<Rightarrow> canonical_batch" where
  "partBatch q es us ordinal = canonical_draft.extend (projectPart q es us)
     (canonical_batch.fields (''p_'' @ pq_batchKey q @ ''_'' @ showInt ordinal))"

definition targetJson :: "open_target \<Rightarrow> json" where
  "targetJson q = (let t = dv_target (prj_view (pq_projection q)) in
     obj [(''profile'', Some (literalsJson targetProfiles (pq_target q))), (''events'', Some (numberJson (dt_events t))),
       (''threads'', Some (numberJson (dt_threads t))), (''usage'', Some (numberJson (dt_usage t))),
       (''retainedThreadIds'', if pq_target q = Target1 then None else Some (arrayJson JStr (retainedIds (prj_view (pq_projection q)))))])"

definition partWire :: "open_target \<Rightarrow> adapter_event list \<Rightarrow> adapter_usage list \<Rightarrow> int \<Rightarrow> json" where
  "partWire q es us ordinal = obj [(''target'', Some (targetJson q)), (''batch'', Some (batchJson (partBatch q es us ordinal)))]"

definition partText :: "open_target \<Rightarrow> adapter_event list \<Rightarrow> adapter_usage list \<Rightarrow> int \<Rightarrow> bytes" where
  "partText q es us ordinal = stringify (partWire q es us ordinal)"

definition partBound :: "open_target \<Rightarrow> adapter_event list \<Rightarrow> adapter_usage list \<Rightarrow> int \<Rightarrow> int" where
  "partBound q es us ordinal = canonicalMaterializationBound (partBatch q es us ordinal) (bd_userId (ho_binding (pq_host q)))"

record drafting =
  df_events :: "adapter_event list"
  df_usage :: "adapter_usage list"
  df_bindings :: "record_key list"
  df_ordinal :: int
  df_totalBytes :: int
  df_materialized :: int
  df_counts :: projection_counts
  df_raw :: "(raw_preparation \<times> raw_packing) option"

definition startDrafting :: "(raw_preparation \<times> raw_packing) option \<Rightarrow> drafting" where
  "startDrafting raw = \<lparr>df_events = [], df_usage = [], df_bindings = [], df_ordinal = 0, df_totalBytes = 0, df_materialized = 0,
     df_counts = startCounts, df_raw = raw\<rparr>"

definition partFull :: "open_target \<Rightarrow> adapter_event list \<Rightarrow> adapter_usage list \<Rightarrow> int \<Rightarrow> bool" where
  "partFull q es us ordinal \<longleftrightarrow> int (length (partText q es us ordinal)) > pl_partBytes (pq_limits q) \<or>
     partBound q es us ordinal > pl_partBytes (pq_limits q)"

definition partAdmitted :: "open_target \<Rightarrow> drafting \<Rightarrow> bool" where
  "partAdmitted q d \<longleftrightarrow> (let l = pq_limits q; size = int (length (partText q (df_events d) (df_usage d) (df_ordinal d)));
       bound = partBound q (df_events d) (df_usage d) (df_ordinal d) in
     \<not> (size > pl_partBytes l \<or> bound > pl_partBytes l \<or> df_ordinal d \<ge> pl_parts l \<or>
       size > pl_targetBytes l - df_totalBytes d \<or> bound > pl_targetBytes l - df_materialized d))"

definition bindPart :: "open_target \<Rightarrow> int \<Rightarrow> record_key \<Rightarrow> ('r, unit) publish" where
  "bindPart q ordinal key = storeP (bindRecord (pq_owner q) (pq_captureId q) key (BindUnit ordinal None))"

definition headKeys :: "open_target \<Rightarrow> record_key list" where
  "headKeys q = \<lparr>rk_kind = SessionRecord, rk_key = as_sourceSessionId (pq_session q)\<rparr> #
     map (\<lambda>t. \<lparr>rk_kind = ThreadRecord, rk_key = at_sourceThreadId t\<rparr>) (pq_threads q)"

definition flushedPart :: "open_target \<Rightarrow> drafting \<Rightarrow> drafting" where
  "flushedPart q d = d\<lparr>df_totalBytes := df_totalBytes d + int (length (partText q (df_events d) (df_usage d) (df_ordinal d))),
     df_materialized := df_materialized d + partBound q (df_events d) (df_usage d) (df_ordinal d),
     df_ordinal := df_ordinal d + 1, df_events := [], df_usage := [], df_bindings := []\<rparr>"

definition flushPart :: "open_target \<Rightarrow> drafting \<Rightarrow> ('r, drafting) publish" where
  "flushPart q d =
     bindA (requirePrep (partAdmitted q d) PrepCapacity) (\<lambda>_.
     bindA (storeP (appendUnit (ho_sha (pq_host q)) (ho_limits (pq_host q)) (pq_owner q) (pq_captureId q) Canonical (df_ordinal d)
       (partText q (df_events d) (df_usage d) (df_ordinal d)))) (\<lambda>_.
     bindA (whenA (df_ordinal d = 0) (eachA (bindPart q (df_ordinal d)) (headKeys q))) (\<lambda>_.
     bindA (eachA (bindPart q (df_ordinal d)) (df_bindings d)) (\<lambda>_.
       returnA (flushedPart q d)))))"

section \<open>Records\<close>

definition versionP :: "source_projection \<Rightarrow> record_kind \<Rightarrow> string \<Rightarrow> string \<Rightarrow> raw_reference option \<Rightarrow> ('r, record_version) publish" where
  "versionP p k key fingerprint ref = storeP (recordObservation (ho_limits (prj_host p)) (prj_owner p) (ji_captureId (prj_input p))
     (record_key.extend \<lparr>rk_kind = k, rk_key = key\<rparr> \<lparr>ri_fingerprint = fingerprint, ri_projectionVersion = prj_profile p, ri_rawReference = ref\<rparr>))"

definition versionedEvent :: "adapter_event \<Rightarrow> int \<Rightarrow> raw_reference \<Rightarrow> adapter_event" where
  "versionedEvent e revision ref = e\<lparr>ev_revision := Whole revision, ev_projectionRevision := Whole revision, ev_rawRef := adapterRef ref\<rparr>"

definition pushEvent :: "open_target \<Rightarrow> adapter_event \<Rightarrow> drafting \<Rightarrow> ('r, drafting) publish" where
  "pushEvent q e d =
     bindA (if length (df_events d @ [e]) > 500 \<or> partFull q (df_events d @ [e]) (df_usage d) (df_ordinal d) then flushPart q d else returnA d) (\<lambda>d.
       returnA (d\<lparr>df_events := df_events d @ [e]\<rparr>))"

definition pushUsage :: "open_target \<Rightarrow> adapter_usage \<Rightarrow> drafting \<Rightarrow> ('r, drafting) publish" where
  "pushUsage q u d =
     bindA (if length (df_usage d @ [u]) > 500 \<or> partFull q (df_events d) (df_usage d @ [u]) (df_ordinal d) then flushPart q d else returnA d) (\<lambda>d.
       returnA (d\<lparr>df_usage := df_usage d @ [u]\<rparr>))"

definition noteBinding :: "record_kind \<Rightarrow> string \<Rightarrow> drafting \<Rightarrow> drafting" where
  "noteBinding k key d = d\<lparr>df_bindings := df_bindings d @ [\<lparr>rk_kind = k, rk_key = key\<rparr>]\<rparr>"

definition eventStep :: "open_target \<Rightarrow> raw_reference \<Rightarrow> drafting \<Rightarrow> adapter_event projected \<Rightarrow> ('r, drafting) publish" where
  "eventStep q ref d x =
     bindA (versionP (pq_projection q) EventRecord (pd_key x) (pd_fingerprint x) (Some ref)) (\<lambda>allocated.
     bindA (checkA (fromOption UndefinedReference (ri_rawReference allocated))) (\<lambda>found.
     bindA (pushEvent q (versionedEvent (pd_value x) (rv_revision allocated) found) d) (\<lambda>d.
       returnA (noteBinding EventRecord (pd_key x) d))))"

definition usageStep :: "open_target \<Rightarrow> drafting \<Rightarrow> adapter_usage projected \<Rightarrow> ('r, drafting) publish" where
  "usageStep q d x =
     bindA (versionP (pq_projection q) UsageRecord (pd_key x) (pd_fingerprint x) None) (\<lambda>allocated.
     bindA (pushUsage q ((pd_value x)\<lparr>us_revision := Whole (rv_revision allocated)\<rparr>) d) (\<lambda>d.
       returnA (noteBinding UsageRecord (pd_key x) d)))"

definition archiveFrame :: "draft_frame \<Rightarrow> drafting \<Rightarrow> ('r, raw_reference \<times> drafting) publish" where
  "archiveFrame f d = (case df_raw d of
       None \<Rightarrow> returnA (placeholderReference, d)
     | Some (rq, pk) \<Rightarrow> bindA (rawP (recordRaw rq (fr_recordKey f) (fr_raw f) pk)) (\<lambda>(ref, pk). returnA (ref, d\<lparr>df_raw := Some (rq, pk)\<rparr>)))"

definition frameStep :: "open_target \<Rightarrow> drafting \<Rightarrow> draft_frame \<Rightarrow> ('r, drafting) publish" where
  "frameStep q d f =
     bindA (requirePrep (df_raw d \<noteq> None \<or> fr_raw f = None) PrepInvalid) (\<lambda>_.
     bindA (archiveFrame f d) (\<lambda>(ref, d).
     bindA (draftP (projectFrame (pq_projection q) f (df_counts d))) (\<lambda>((es, us), n).
     bindA (foldA (eventStep q ref) (d\<lparr>df_counts := n\<rparr>) es) (\<lambda>d.
       foldA (usageStep q) d us))))"

section \<open>The pages of a source\<close>

text \<open>The loop ends because the projection admits at most 1000001 pages.\<close>

function readSource :: "open_target \<Rightarrow> nat \<Rightarrow> drafting \<Rightarrow> ('r, drafting) publish" where
  "readSource q pages d = (case dv_read (prj_view (pq_projection q)) pages of
       None \<Rightarrow> failA SourceFailed
     | Some page \<Rightarrow> (case projectPage page pages of
         Inl e \<Rightarrow> failA (Drafted e)
       | Inr later \<Rightarrow> bindA (foldA (frameStep q) d (dp_frames page)) (\<lambda>d.
           if dp_done page then returnA d else readSource q later d)))"
  by pat_completeness auto
termination
  by (relation "measure (\<lambda>(q, pages, d). 1000001 - pages)") (auto dest: projectPage_bound)

declare readSource.simps [simp del]

section \<open>The selected metadata\<close>

definition currentSourceMetadata :: "host \<Rightarrow> capture_owner \<Rightarrow> ('r, source_metadata) publish" where
  "currentSourceMetadata h owner =
     bindA (storeP (coverage owner)) (\<lambda>current.
     bindA (storeP (sourceMetadata (ho_sha h) owner (cv_canonicalCaptureId current))) (\<lambda>stored.
       draftP (decodeSourceMetadata stored)))"

section \<open>A whole preparation\<close>

record publication_input =
  pi_adapterVersion :: string
  pi_observedAt :: string
  pi_nextCheckpoint :: string
  pi_rawLimits :: "raw_limits option"
  pi_source :: "draft_view option"

record prepared_publication =
  pe_units :: int
  pe_bytes :: int
  pe_materialized :: int
  pe_raw :: "raw_prepared option"
  pe_failures :: "source_failure list"
  pe_truncated :: bool
  pe_records :: record_manifest

definition admitRaw :: "bool \<Rightarrow> raw_limits option \<Rightarrow> ('r, unit) publish" where
  "admitRaw rawEnabled limits =
     bindA (requirePrep (rawEnabled \<longrightarrow> limits \<noteq> None) PrepUnsupported) (\<lambda>_.
     bindA (requirePrep (\<not> rawEnabled \<longrightarrow> limits = None) PrepInvalid) (\<lambda>_.
       case limits of None \<Rightarrow> returnA () | Some l \<Rightarrow> rawP (validateRawPreparationLimits l)))"

text \<open>A Raw-enabled capture without a frozen authority fails the schema of its first chunk.\<close>

definition openArchive :: "source_projection \<Rightarrow> publication_intent \<Rightarrow> raw_limits option \<Rightarrow> ('r, (raw_preparation \<times> raw_packing) option) publish" where
  "openArchive p i limits = (case limits of
       None \<Rightarrow> returnA None
     | Some l \<Rightarrow> (case in_rawAuthority i of
         None \<Rightarrow> failA (Prepared (RawRefused RawMetadataSchema))
       | Some authority \<Rightarrow> bindA (rawP (createRawPreparation (prj_host p) (prj_redactor p) (prj_owner p) (ji_captureId (prj_input p))
           \<lparr>rp_profile = prj_profile p, rp_sessionId = in_sessionId i, rp_head = pb_reservationId (in_begin i), rp_authority = authority,
             rp_adapterVersion = ji_adapterVersion (prj_input p), rp_observedAt = ji_observedAt (prj_input p), rp_limits = l\<rparr>)) (\<lambda>x.
           returnA (Some x))))"

definition versionThread :: "source_projection \<Rightarrow> adapter_thread list \<Rightarrow> adapter_thread \<Rightarrow> ('r, adapter_thread list) publish" where
  "versionThread p ts t =
     bindA (versionP p ThreadRecord (at_sourceThreadId t) (threadFingerprint p t) None) (\<lambda>allocated.
       returnA (ts @ [t\<lparr>at_revision := Whole (rv_revision allocated)\<rparr>]))"

definition freezeMetadata :: "source_projection \<Rightarrow> ('r, unit) publish" where
  "freezeMetadata p = whenA (dv_checkpoint (prj_view p) \<noteq> None \<or> prj_canonicalProfile p \<noteq> Profile2)
     (storeP (setSourceMetadata (ho_sha (prj_host p)) (ho_limits (prj_host p)) (prj_owner p) (ji_captureId (prj_input p))
       (sourceMetadataJson (prj_redactor p) (prj_view p) (ob_threads (prj_masked p)))))"

text \<open>The records of the session and its threads are versioned before the source is read.\<close>

definition openTarget :: "source_projection \<Rightarrow> publication_intent \<Rightarrow> target_profile \<Rightarrow> raw_limits option \<Rightarrow> ('r, open_target \<times> drafting) publish" where
  "openTarget p i target limits = (let masked = ob_session (prj_masked p) in
     bindA (freezeMetadata p) (\<lambda>_.
     bindA (versionP p SessionRecord (as_sourceSessionId masked) (sessionFingerprint p) None) (\<lambda>allocated.
     bindA (openArchive p i limits) (\<lambda>raw.
     bindA (foldA (versionThread p) [] (ob_threads (prj_masked p))) (\<lambda>ts.
       returnA (\<lparr>pq_projection = p, pq_limits = cb_limits (in_capabilities i), pq_target = target,
           pq_session = masked\<lparr>as_revision := Whole (rv_revision allocated)\<rparr>, pq_threads = ts,
           pq_batchKey = hashJson (prj_host p) (JArr [JStr PublicationPreparationVersion, JStr (ji_captureId (prj_input p))])\<rparr>,
         startDrafting raw))))))"

definition closeArchive :: "drafting \<Rightarrow> ('r, raw_prepared option) publish" where
  "closeArchive d = (case df_raw d of
       None \<Rightarrow> returnA None
     | Some (rq, pk) \<Rightarrow> bindA (rawP (finishRaw rq pk)) (\<lambda>a. returnA (Some a)))"

definition archiveManifest :: "raw_prepared \<Rightarrow> raw_manifest" where
  "archiveManifest a = \<lparr>rw_records = ra_records a, rw_scopeComplete = True, rw_admission = Some (ra_admission a)\<rparr>"

definition closeTarget :: "open_target \<Rightarrow> drafting \<Rightarrow> ('r, prepared_publication) publish" where
  "closeTarget q d = (let p = pq_projection q in
     bindA (draftP (finishProjection p (df_counts d))) (\<lambda>counts.
     bindA (if df_events d \<noteq> [] \<or> df_usage d \<noteq> [] \<or> df_ordinal d = 0 then flushPart q d else returnA d) (\<lambda>d.
     bindA (closeArchive d) (\<lambda>archive.
       returnA \<lparr>pe_units = df_ordinal d, pe_bytes = df_totalBytes d, pe_materialized = df_materialized d, pe_raw = archive,
         pe_failures = viewFailures (prj_redactor p) (prj_view p), pe_truncated = viewTruncated (prj_view p),
         pe_records = \<lparr>rm_canonical = Some counts, rm_raw = map_option archiveManifest archive\<rparr>\<rparr>))))"

definition fillTarget :: "open_target \<Rightarrow> drafting \<Rightarrow> ('r, prepared_publication) publish" where
  "fillTarget q d = bindA (readSource q 0 d) (closeTarget q)"

definition openSource :: "draft_view option \<Rightarrow> ('r, draft_view) publish" where
  "openSource v = checkA (fromOption SourceFailed v)"

definition prepareTarget :: "host \<Rightarrow> redactor \<Rightarrow> capture_owner \<Rightarrow> string \<Rightarrow> publication_input \<Rightarrow> preparation_context \<Rightarrow>
    ('r, prepared_publication) publish" where
  "prepareTarget h r owner cid input context = (let i = pc_intent context in
     bindA (admitRaw (pc_rawEnabled context) (pi_rawLimits input)) (\<lambda>_.
     bindA (openSource (pi_source input)) (\<lambda>v.
     let target = targetProfileOf v in
     bindA (requirePrep (target = Target1 \<or> target \<in> set (pc_targetProfiles context)) PrepUnsupported) (\<lambda>_.
     bindA (draftP (canonicalSourceProjection h r owner v \<lparr>ji_captureId = cid, ji_observedAt = pi_observedAt input,
       ji_adapterVersion = pi_adapterVersion input, ji_transformVersion = pb_transformVersion (in_begin i)\<rparr>)) (\<lambda>p.
     bindA (openTarget p i target (pi_rawLimits input)) (\<lambda>(q, d). fillTarget q d))))))"

definition preparePublicationCanonical :: "host \<Rightarrow> 'r transport \<Rightarrow> redactor \<Rightarrow> capture_owner \<Rightarrow> string \<Rightarrow> publication_input \<Rightarrow>
    ('r, prepared_publication) publish" where
  "preparePublicationCanonical h tr r owner cid input =
     bindA (draftP (validateCanonicalSourceMetadata h owner (pi_adapterVersion input))) (\<lambda>_.
     bindA (localP (publicationPreparationContext h owner cid)) (\<lambda>context.
     bindA (prepareTarget h r owner cid input context) (\<lambda>prepared.
     bindA (localP (sealPublicationCapture h tr owner cid \<lparr>si_nextCheckpoint = pi_nextCheckpoint input,
       si_rawUnits = (case pe_raw prepared of None \<Rightarrow> 0 | Some a \<Rightarrow> ra_units a), si_records = Some (pe_records prepared)\<rparr>)) (\<lambda>_.
       returnA prepared))))"

section \<open>Fresh Raw observations\<close>

record observation_input =
  vi_adapterVersion :: string
  vi_observedAt :: string
  vi_limits :: raw_limits
  vi_source :: "draft_view option"

definition archiveOnly :: "raw_preparation \<Rightarrow> raw_packing \<Rightarrow> draft_frame \<Rightarrow> ('r, raw_packing) publish" where
  "archiveOnly rq pk f = bindA (rawP (recordRaw rq (fr_recordKey f) (fr_raw f) pk)) (\<lambda>(_, pk). returnA pk)"

function readArchive :: "draft_view \<Rightarrow> raw_preparation \<Rightarrow> nat \<Rightarrow> raw_packing \<Rightarrow> ('r, raw_packing) publish" where
  "readArchive v rq pages pk = (case dv_read v pages of
       None \<Rightarrow> failA SourceFailed
     | Some page \<Rightarrow> (case projectPage page pages of
         Inl e \<Rightarrow> failA (Drafted e)
       | Inr later \<Rightarrow> bindA (foldA (archiveOnly rq) pk (dp_frames page)) (\<lambda>pk.
           if dp_done page then returnA pk else readArchive v rq later pk)))"
  by pat_completeness auto
termination
  by (relation "measure (\<lambda>(v, rq, pages, pk). 1000001 - pages)") (auto dest: projectPage_bound)

declare readArchive.simps [simp del]

definition sameSource :: "canonical_profile \<Rightarrow> string \<Rightarrow> draft_view \<Rightarrow> source_metadata \<Rightarrow> record_summary option \<Rightarrow> bool" where
  "sameSource canonical profile v prior session \<longleftrightarrow>
     canonical = (case sd_profile prior of None \<Rightarrow> Profile2 | Some p \<Rightarrow> p) \<and>
     (case session of None \<Rightarrow> False | Some s \<Rightarrow> rs_disposition s = RecPublished \<and> ri_projectionVersion s = profile) \<and>
     dv_checkpoint v = sd_checkpoint prior"

definition observeSource :: "host \<Rightarrow> redactor \<Rightarrow> capture_owner \<Rightarrow> string \<Rightarrow> observation_input \<Rightarrow> observation_intent \<Rightarrow> ('r, raw_prepared) publish" where
  "observeSource h r owner observationId input context = (let receipt = pv_receipt (ro_canonical context) in
     bindA (openSource (vi_source input)) (\<lambda>v.
     bindA (draftP (sourceProjectionProfile v (transformOf (pv_intent (ro_canonical context))))) (\<lambda>(canonical, profile).
     bindA (requirePrep (boundOrigin owner v) PrepBinding) (\<lambda>_.
     bindA (storeP (sourceMetadata (ho_sha h) owner (Some (av_captureId receipt)))) (\<lambda>stored.
     bindA (draftP (decodeSourceMetadata stored)) (\<lambda>prior.
     bindA (storeP (recordStatus owner (av_captureId receipt) \<lparr>rk_kind = SessionRecord, rk_key = as_sourceSessionId (dv_session v)\<rparr>)) (\<lambda>session.
     bindA (requirePrep (sameSource canonical profile v prior session) PrepConflict) (\<lambda>_.
     bindA (rawP (createRawPreparation h r owner observationId \<lparr>rp_profile = profile, rp_sessionId = av_sessionId receipt,
       rp_head = av_head receipt, rp_authority = ro_rawAuthority context, rp_adapterVersion = vi_adapterVersion input,
       rp_observedAt = vi_observedAt input, rp_limits = vi_limits input\<rparr>)) (\<lambda>(rq, pk).
     bindA (readArchive v rq 0 pk) (\<lambda>pk. rawP (finishRaw rq pk)))))))))))"

definition prepareRawObservation :: "host \<Rightarrow> redactor \<Rightarrow> capture_owner \<Rightarrow> string \<Rightarrow> observation_input \<Rightarrow> ('r, raw_prepared) publish" where
  "prepareRawObservation h r owner observationId input =
     bindA (localP (rawObservationPreparationContext h owner observationId)) (\<lambda>context.
     bindA (rawP (validateRawPreparationLimits (vi_limits input))) (\<lambda>_.
     bindA (observeSource h r owner observationId input context) (\<lambda>a.
     bindA (localP (sealRawObservation h owner observationId (ra_units a)
       (Some \<lparr>rm_canonical = None, rm_raw = Some (archiveManifest a)\<rparr>))) (\<lambda>_.
       returnA a))))"

end
