(* ===== verification/SourceComparison.thy ===== *)
theory SourceComparison
  imports PublicationPreparation
begin

text \<open>The read-only comparison of a source with its published baseline
  (packages/application/src/sourceComparison.ts): whether the Canonical target changed and whether a fresh Raw
  archive is required.\<close>

section \<open>Effects\<close>

datatype comparison_reason = CompareInvalid | CompareCapacity | CompareDeadline | CompareConflict

datatype comparison_error =
    Compared comparison_reason
  | Publishing publish_error

type_synonym ('r, 'a) comparing = "('r world, comparison_error, 'a) action"

definition liftX :: "('r, 'a) publish \<Rightarrow> ('r, 'a) comparing" where
  "liftX m = mapErrorA Publishing m"

definition requireX :: "bool \<Rightarrow> comparison_reason \<Rightarrow> ('r, unit) comparing" where
  "requireX ok e = checkA (if ok then Inr () else Inl (Compared e))"

section \<open>Inputs and results\<close>

record comparison_input =
  xi_adapterVersion :: string
  xi_observedAt :: string
  xi_transformVersion :: string
  xi_records :: int
  xi_durationMs :: int
  xi_raw :: "(raw_authority \<times> raw_limits) option"
  xi_source :: "draft_view option"

datatype raw_comparison = RawRequired | RawUnchanged | RawDisabled

record comparison_result =
  xr_changed :: bool
  xr_raw :: raw_comparison
  xr_failures :: "source_failure list option"
  xr_truncated :: "bool option"

record baseline_check =
  xb_host :: host
  xb_redactor :: redactor
  xb_owner :: capture_owner
  xb_input :: comparison_input
  xb_context :: comparison_context
  xb_projection :: source_projection

abbreviation xb_captureId :: "baseline_check \<Rightarrow> string" where
  "xb_captureId x \<equiv> sm_id (cx_capture (xb_context x))"

definition changedResult :: "redactor \<Rightarrow> comparison_input \<Rightarrow> draft_view option \<Rightarrow> comparison_result" where
  "changedResult r input v = (let diagnosed = (case v of None \<Rightarrow> None | Some v \<Rightarrow> if dv_checkpoint v = None then None else Some v) in
     \<lparr>xr_changed = True, xr_raw = (if xi_raw input = None then RawDisabled else RawRequired),
       xr_failures = map_option (viewFailures r) diagnosed, xr_truncated = map_option viewTruncated diagnosed\<rparr>)"

section \<open>Admission\<close>

definition admitComparison :: "host \<Rightarrow> capture_owner \<Rightarrow> comparison_input \<Rightarrow> ('r, unit) comparing" where
  "admitComparison h owner input =
     bindA (liftX (draftP (validateCanonicalSourceMetadata h owner (xi_adapterVersion input)))) (\<lambda>_.
     bindA (liftX (localP (checkW (admitRedactionTransform h (xi_transformVersion input))))) (\<lambda>_.
     bindA (requireX (safe_integer (xi_records input) \<and> 1 \<le> xi_records input \<and> xi_records input \<le> 1000000 \<and>
       safe_integer (xi_durationMs input) \<and> 1 \<le> xi_durationMs input \<and> xi_durationMs input \<le> 300000) CompareInvalid) (\<lambda>_.
     bindA (requireX (xi_transformVersion input \<noteq> [] \<and> utf16_length (xi_transformVersion input) \<le> 200) CompareInvalid) (\<lambda>_.
       case xi_raw input of
         None \<Rightarrow> returnA ()
       | Some (authority, limits) \<Rightarrow> bindA (liftX (rawP (validateRawPreparationLimits limits))) (\<lambda>_.
           requireX (decodeAuthority (authorityJson authority) \<noteq> None) CompareInvalid)))))"

section \<open>Records\<close>

definition kindText :: "record_kind \<Rightarrow> string" where
  "kindText k = (case k of EventRecord \<Rightarrow> ''event'' | RawRecord \<Rightarrow> ''raw'' | SessionRecord \<Rightarrow> ''session''
     | ThreadRecord \<Rightarrow> ''thread'' | UsageRecord \<Rightarrow> ''usage'')"

definition recordIdentity :: "host \<Rightarrow> record_key \<Rightarrow> string" where
  "recordIdentity h k = hashJson h (JArr [JStr (kindText (rk_kind k)), JStr (rk_key k)])"

definition uniqueRecord :: "baseline_check \<Rightarrow> string list \<Rightarrow> record_key \<Rightarrow> ('r, string list) comparing" where
  "uniqueRecord x seen key =
     bindA (requireX (int (length seen) < xi_records (xb_input x)) CompareCapacity) (\<lambda>_.
     bindA (requireX (recordIdentity (xb_host x) key \<notin> set seen) CompareInvalid) (\<lambda>_.
       returnA (recordIdentity (xb_host x) key # seen)))"

definition publishedAs :: "string \<Rightarrow> string \<Rightarrow> record_summary option \<Rightarrow> bool" where
  "publishedAs profile fingerprint prior = (case prior of None \<Rightarrow> False
     | Some p \<Rightarrow> rs_disposition p = RecPublished \<and> ri_fingerprint p = fingerprint \<and> ri_projectionVersion p = profile)"

text \<open>Comparing stops at the first record that differs: the identities seen so far, or none.\<close>

definition matchRecord :: "baseline_check \<Rightarrow> string list \<Rightarrow> record_key \<times> string \<Rightarrow> ('r, string list option) comparing" where
  "matchRecord x seen entry =
     bindA (uniqueRecord x seen (fst entry)) (\<lambda>seen.
     bindA (liftX (storeP (recordStatus (xb_owner x) (xb_captureId x) (fst entry)))) (\<lambda>prior.
       returnA (if publishedAs (prj_profile (xb_projection x)) (snd entry) prior then Some seen else None)))"

fun matchAll :: "baseline_check \<Rightarrow> string list \<Rightarrow> (record_key \<times> string) list \<Rightarrow> ('r, string list option) comparing" where
  "matchAll x seen [] = returnA (Some seen)"
| "matchAll x seen (entry # entries) = bindA (matchRecord x seen entry) (\<lambda>matched. case matched of
     None \<Rightarrow> returnA None | Some seen \<Rightarrow> matchAll x seen entries)"

definition headEntries :: "source_projection \<Rightarrow> (record_key \<times> string) list" where
  "headEntries p = (\<lparr>rk_kind = SessionRecord, rk_key = as_sourceSessionId (ob_session (prj_masked p))\<rparr>, sessionFingerprint p) #
     map (\<lambda>t. (\<lparr>rk_kind = ThreadRecord, rk_key = at_sourceThreadId t\<rparr>, threadFingerprint p t)) (ob_threads (prj_masked p))"

definition frameEntries :: "adapter_event projected list \<times> adapter_usage projected list \<Rightarrow> (record_key \<times> string) list" where
  "frameEntries ready =
     map (\<lambda>e. (\<lparr>rk_kind = EventRecord, rk_key = pd_key e\<rparr>, pd_fingerprint e)) (fst ready) @
     map (\<lambda>u. (\<lparr>rk_kind = UsageRecord, rk_key = pd_key u\<rparr>, pd_fingerprint u)) (snd ready)"

section \<open>Raw records\<close>

definition pendingChanged :: "baseline_check \<Rightarrow> raw_authority \<Rightarrow> string \<Rightarrow> ('r, bool) comparing" where
  "pendingChanged x authority unitCapture =
     bindA (liftX (localP (inspectW (xb_owner x) unitCapture Raw False))) (\<lambda>(owning, _).
     bindA (liftX (localP (captureRawAuthority (xb_host x) (xb_owner x) unitCapture))) (\<lambda>held.
       returnA (sm_rawCancelReason owning \<noteq> None \<or> (case held of None \<Rightarrow> True | Some a \<Rightarrow> \<not> sameRawAuthority a authority))))"

definition rawRecordChanged :: "baseline_check \<Rightarrow> raw_authority \<Rightarrow> raw_source \<Rightarrow> record_summary option \<Rightarrow> ('r, bool) comparing" where
  "rawRecordChanged x authority s prior = (case prior of
       None \<Rightarrow> returnA True
     | Some p \<Rightarrow>
         if ri_fingerprint p \<noteq> sr_fingerprint s \<or> ri_projectionVersion p \<noteq> rawProjectionProfile (prj_profile (xb_projection x)) then returnA True
         else if rs_disposition p = RecUnavailable then
           returnA (case sr_masked s of Inl g \<Rightarrow> rs_unavailableReason p \<noteq> Some g | Inr _ \<Rightarrow> rs_unavailableReason p \<noteq> Some GapLimit)
         else (case (rs_disposition p, rs_unit p) of
             (RecPending, Some (unitCapture, _)) \<Rightarrow> pendingChanged x authority unitCapture
           | (d, _) \<Rightarrow> returnA (d \<noteq> RecAcknowledged)))"

record comparison_state =
  xs_seen :: "string list"
  xs_counts :: projection_counts
  xs_frames :: int
  xs_rawChanged :: bool
  xs_rawCount :: int

definition compareRaw :: "baseline_check \<Rightarrow> draft_frame \<Rightarrow> comparison_state \<Rightarrow> ('r, comparison_state) comparing" where
  "compareRaw x f s = (case xi_raw (xb_input x) of
       None \<Rightarrow> returnA s
     | Some (authority, _) \<Rightarrow>
         bindA (liftX (rawP (rawSourceRecord (xb_host x) (xb_redactor x) (fr_recordKey f) (fr_raw f)))) (\<lambda>found.
         bindA (uniqueRecord x (xs_seen s) (rawKey (sr_key found))) (\<lambda>seen.
         let s = s\<lparr>xs_seen := seen, xs_rawCount := xs_rawCount s + 1\<rparr> in
         case (xs_rawChanged s, cx_raw (xb_context x)) of
           (False, Some raw) \<Rightarrow>
             bindA (liftX (storeP (recordStatus (xb_owner x) (sm_id raw) (rawKey (sr_key found))))) (\<lambda>prior.
             bindA (rawRecordChanged x authority found prior) (\<lambda>changed.
               returnA (s\<lparr>xs_rawChanged := changed\<rparr>)))
         | _ \<Rightarrow> returnA s)))"

section \<open>Frames and pages\<close>

definition compareFrame :: "baseline_check \<Rightarrow> comparison_state \<Rightarrow> draft_frame \<Rightarrow> ('r, comparison_state option) comparing" where
  "compareFrame x s f =
     bindA (requireX (xs_frames s + 1 \<le> xi_records (xb_input x)) CompareCapacity) (\<lambda>_.
     bindA (requireX (xi_raw (xb_input x) \<noteq> None \<or> fr_raw f = None) CompareInvalid) (\<lambda>_.
     bindA (liftX (draftP (projectFrame (xb_projection x) f (xs_counts s)))) (\<lambda>(ready, n).
     bindA (matchAll x (xs_seen s) (frameEntries ready)) (\<lambda>matched. case matched of
         None \<Rightarrow> returnA None
       | Some seen \<Rightarrow> bindA (compareRaw x f (s\<lparr>xs_seen := seen, xs_counts := n, xs_frames := xs_frames s + 1\<rparr>)) (\<lambda>s. returnA (Some s))))))"

fun compareFrames :: "baseline_check \<Rightarrow> comparison_state \<Rightarrow> draft_frame list \<Rightarrow> ('r, comparison_state option) comparing" where
  "compareFrames x s [] = returnA (Some s)"
| "compareFrames x s (f # fs) = bindA (compareFrame x s f) (\<lambda>compared. case compared of
     None \<Rightarrow> returnA None | Some s \<Rightarrow> compareFrames x s fs)"

function compareSource :: "baseline_check \<Rightarrow> nat \<Rightarrow> comparison_state \<Rightarrow> ('r, comparison_state option) comparing" where
  "compareSource x pages s = (case dv_read (prj_view (xb_projection x)) pages of
       None \<Rightarrow> failA (Publishing SourceFailed)
     | Some page \<Rightarrow> (case projectPage page pages of
         Inl e \<Rightarrow> failA (Publishing (Drafted e))
       | Inr later \<Rightarrow> bindA (compareFrames x s (dp_frames page)) (\<lambda>compared. case compared of
           None \<Rightarrow> returnA None
         | Some s \<Rightarrow> if dp_done page then returnA (Some s) else compareSource x later s)))"
  by pat_completeness auto
termination
  by (relation "measure (\<lambda>(x, pages, s). 1000001 - pages)") (auto dest: projectPage_bound)

declare compareSource.simps [simp del]

section \<open>A whole comparison\<close>

definition sameHeader :: "redactor \<Rightarrow> draft_view \<Rightarrow> source_metadata \<Rightarrow> bool" where
  "sameHeader r v prior \<longleftrightarrow>
     viewProfile v = (case sd_profile prior of None \<Rightarrow> ''atape.acp-centered.v2'' | Some p \<Rightarrow> profileText p) \<and>
     (dv_checkpoint v \<noteq> None \<longrightarrow> sd_checkpoint prior = dv_checkpoint v \<and>
       arrayJson sourceFailureJson (case sd_failures prior of None \<Rightarrow> [] | Some fs \<Rightarrow> fs) = arrayJson sourceFailureJson (viewFailures r v) \<and>
       (sd_truncated prior = Some True) = viewTruncated v)"

definition sortedTexts :: "string list \<Rightarrow> string list" where
  "sortedTexts ts = sort_key (\<lambda>t. map code t) ts"

definition sameTarget :: "record_counts \<Rightarrow> draft_view \<Rightarrow> source_metadata \<Rightarrow> bool" where
  "sameTarget expected v prior \<longleftrightarrow> (let t = dv_target v in
     rc_session expected = 1 \<and> rc_thread expected = intValue (dt_threads t) \<and> rc_event expected = intValue (dt_events t) \<and>
     rc_usage expected = intValue (dt_usage t) \<and>
     sortedTexts (case sd_retained prior of None \<Rightarrow> [] | Some ids \<Rightarrow> ids) = sortedTexts (retainedIds v))"

definition rawManifestOf :: "comparison_context \<Rightarrow> raw_manifest option" where
  "rawManifestOf c = Option.bind (cx_raw c) (\<lambda>r. Option.bind (sm_seal r) (\<lambda>s. Option.bind (sl_records s) rm_raw))"

text \<open>Whether the archive of the baseline already differs before any record is read.\<close>

definition archiveChanged :: "baseline_check \<Rightarrow> bool" where
  "archiveChanged x = (let c = xb_context x; p = xb_projection x; input = xb_input x; receipt = cx_receipt c in
     case xi_raw input of
       None \<Rightarrow> False
     | Some (authority, limits) \<Rightarrow>
         \<not> (case (cx_raw c, rawManifestOf c) of
             (Some raw, Some manifest) \<Rightarrow> sm_activationReceipt raw \<noteq> None \<and> rw_scopeComplete manifest \<and>
               rw_admission manifest = Some (rawAdmissionFingerprint (xb_host x) (xb_owner x)
                 \<lparr>rp_profile = prj_profile p, rp_sessionId = av_sessionId receipt, rp_head = av_head receipt, rp_authority = authority,
                   rp_adapterVersion = xi_adapterVersion input, rp_observedAt = xi_observedAt input, rp_limits = limits\<rparr>)
           | _ \<Rightarrow> False))"

definition sameCoverage :: "comparison_context \<Rightarrow> capture_coverage \<Rightarrow> bool" where
  "sameCoverage c current \<longleftrightarrow> cv_canonicalCaptureId current = cv_canonicalCaptureId (cx_coverage c) \<and>
     cv_observedRawCaptureId current = cv_observedRawCaptureId (cx_coverage c)"

definition unchangedResult :: "baseline_check \<Rightarrow> comparison_state \<Rightarrow> comparison_result" where
  "unchangedResult x s = (let v = prj_view (xb_projection x) in
     \<lparr>xr_changed = False,
       xr_raw = (if xi_raw (xb_input x) = None then RawDisabled
         else if xs_rawChanged s \<or> map_option rw_records (rawManifestOf (xb_context x)) \<noteq> Some (xs_rawCount s) then RawRequired else RawUnchanged),
       xr_failures = (if dv_checkpoint v = None then None else Some (viewFailures (xb_redactor x) v)),
       xr_truncated = (if dv_checkpoint v = None then None else Some (viewTruncated v))\<rparr>)"

definition compareRecords :: "baseline_check \<Rightarrow> ('r, comparison_result option) comparing" where
  "compareRecords x =
     bindA (matchAll x [] (headEntries (xb_projection x))) (\<lambda>matched. case matched of
       None \<Rightarrow> returnA None
     | Some seen \<Rightarrow>
         bindA (compareSource x 0 \<lparr>xs_seen = seen, xs_counts = startCounts, xs_frames = 0, xs_rawChanged = archiveChanged x, xs_rawCount = 0\<rparr>)
           (\<lambda>compared. case compared of
             None \<Rightarrow> returnA None
           | Some s \<Rightarrow>
               bindA (liftX (draftP (finishProjection (xb_projection x) (xs_counts s)))) (\<lambda>_.
               bindA (liftX (storeP (coverage (xb_owner x)))) (\<lambda>current.
               bindA (requireX (sameCoverage (xb_context x) current) CompareConflict) (\<lambda>_.
                 returnA (Some (unchangedResult x s)))))))"

definition compareBaseline :: "host \<Rightarrow> redactor \<Rightarrow> capture_owner \<Rightarrow> comparison_input \<Rightarrow> comparison_context \<Rightarrow> ('r, comparison_result) comparing" where
  "compareBaseline h r owner input c =
     bindA (liftX (openSource (xi_source input))) (\<lambda>v.
     bindA (liftX (storeP (sourceMetadata (ho_sha h) owner (Some (sm_id (cx_capture c)))))) (\<lambda>stored.
     bindA (liftX (draftP (decodeSourceMetadata stored))) (\<lambda>prior.
     let changed = changedResult r input (Some v) in
     if \<not> sameHeader r v prior then returnA changed
     else
     bindA (liftX (draftP (canonicalSourceProjection h r owner v \<lparr>ji_captureId = ''source-comparison'', ji_observedAt = xi_observedAt input,
       ji_adapterVersion = xi_adapterVersion input, ji_transformVersion = xi_transformVersion input\<rparr>))) (\<lambda>p.
     if \<not> (case canonicalRecords (cx_capture c) of None \<Rightarrow> False | Some expected \<Rightarrow> sameTarget expected v prior) then returnA changed
     else
     bindA (compareRecords \<lparr>xb_host = h, xb_redactor = r, xb_owner = owner, xb_input = input, xb_context = c, xb_projection = p\<rparr>) (\<lambda>result.
       returnA (case result of None \<Rightarrow> changed | Some v \<Rightarrow> v))))))"

text \<open>The clock may end the comparison anywhere; since it never writes, expiry only replaces its result.\<close>

definition comparePublicationSource :: "host \<Rightarrow> redactor \<Rightarrow> capture_owner \<Rightarrow> comparison_input \<Rightarrow> bool \<Rightarrow> ('r, comparison_result) comparing" where
  "comparePublicationSource h r owner input expired =
     bindA (admitComparison h owner input) (\<lambda>_.
     if expired then failA (Compared CompareDeadline)
     else bindA (liftX (localP (sourceComparisonContext h owner))) (\<lambda>baseline. case baseline of
         None \<Rightarrow> returnA (changedResult r input None)
       | Some c \<Rightarrow> compareBaseline h r owner input c))"

end
