(* ===== verification/PublicationParts.thy ===== *)
theory PublicationParts
  imports PublicationPreparation RawPacking
begin

text \<open>The parts of a prepared publication: the Canonical units of the journal are exactly the parts flushed so far, and
  the parts with what is still buffered are exactly the projection of the frames read so far.\<close>

section \<open>The parts in the journal\<close>

definition canonicals :: "journal_db \<Rightarrow> unit_row list" where
  "canonicals db = filter (\<lambda>u. un_kind u = Canonical) (db_units db)"

abbreviation canonicalsW :: "'r world \<Rightarrow> unit_row list" where
  "canonicalsW w \<equiv> canonicals (wd_journal w)"

type_synonym part = "adapter_event list \<times> adapter_usage list"

definition ownerKey :: "capture_owner \<Rightarrow> string" where
  "ownerKey owner = (case scopeKey (ow_scope owner) of Inl _ \<Rightarrow> [] | Inr key \<Rightarrow> key)"

definition partUnit :: "open_target \<Rightarrow> int \<Rightarrow> part \<Rightarrow> unit_row" where
  "partUnit q n p = newUnit (ho_sha (pq_host q)) (ownerKey (pq_owner q)) (pq_captureId q) Canonical n (partText q (fst p) (snd p) n)"

fun partUnits :: "open_target \<Rightarrow> int \<Rightarrow> part list \<Rightarrow> unit_row list" where
  "partUnits q n [] = []"
| "partUnits q n (p # ps) = partUnit q n p # partUnits q (n + 1) ps"

fun partSum :: "(adapter_event list \<Rightarrow> adapter_usage list \<Rightarrow> int \<Rightarrow> int) \<Rightarrow> int \<Rightarrow> part list \<Rightarrow> int" where
  "partSum f n [] = 0"
| "partSum f n (p # ps) = f (fst p) (snd p) n + partSum f (n + 1) ps"

abbreviation partSize :: "open_target \<Rightarrow> adapter_event list \<Rightarrow> adapter_usage list \<Rightarrow> int \<Rightarrow> int" where
  "partSize q es us n \<equiv> int (length (partText q es us n))"

definition admittedPart :: "open_target \<Rightarrow> int \<Rightarrow> part \<Rightarrow> bool" where
  "admittedPart q n p \<longleftrightarrow> partSize q (fst p) (snd p) n \<le> pl_partBytes (pq_limits q) \<and>
     partBound q (fst p) (snd p) n \<le> pl_partBytes (pq_limits q) \<and> n < pl_parts (pq_limits q) \<and>
     length (fst p) \<le> 500 \<and> length (snd p) \<le> 500"

fun admittedParts :: "open_target \<Rightarrow> int \<Rightarrow> part list \<Rightarrow> bool" where
  "admittedParts q n [] = True"
| "admittedParts q n (p # ps) = (admittedPart q n p \<and> admittedParts q (n + 1) ps)"

lemma parts_snoc [simp]:
  "partUnits q n (ps @ [p]) = partUnits q n ps @ [partUnit q (n + int (length ps)) p]"
  "partSum f n (ps @ [p]) = partSum f n ps + f (fst p) (snd p) (n + int (length ps))"
  "admittedParts q n (ps @ [p]) \<longleftrightarrow> admittedParts q n ps \<and> admittedPart q (n + int (length ps)) p"
  by (induction ps arbitrary: n) (simp_all add: algebra_simps)

lemma partUnits_ordinals: "u \<in> set (partUnits q n ps) \<Longrightarrow> n \<le> un_ordinal u \<and> un_ordinal u < n + int (length ps)"
  by (induction ps arbitrary: n) (force simp: partUnit_def newUnit_def)+

definition written :: "open_target \<Rightarrow> unit_row list \<Rightarrow> part list \<Rightarrow> unit_row list \<Rightarrow> bool" where
  "written q base ps cs \<longleftrightarrow> cs = base @ partUnits q 0 ps \<and> admittedParts q 0 ps \<and>
     (ps \<noteq> [] \<longrightarrow> partSum (partSize q) 0 ps \<le> pl_targetBytes (pq_limits q) \<and> partSum (partBound q) 0 ps \<le> pl_targetBytes (pq_limits q))"

text \<open>No Canonical unit of the capture existed before.\<close>

definition freshFor :: "capture_owner \<Rightarrow> string \<Rightarrow> unit_row list \<Rightarrow> bool" where
  "freshFor owner cid base \<longleftrightarrow> (\<forall>u\<in>set base. unitOf (ownerKey owner) cid u \<longrightarrow> un_ordinal u < 0)"

lemma append_part:
  assumes "appendUnit (ho_sha (pq_host q)) lim (pq_owner q) (pq_captureId q) Canonical (int (length ps)) (partText q es us (int (length ps))) db = Inr (db', r)"
    and "canonicals db = base @ partUnits q 0 ps" "freshFor (pq_owner q) (pq_captureId q) base"
  shows "canonicals db' = base @ partUnits q 0 (ps @ [(es, us)])"
proof -
  let ?n = "int (length ps)" and ?content = "partText q es us (int (length ps))"
  obtain scope where scope: "ownerScope db (pq_owner q) = Inr scope"
      "(db' = db \<and> (\<exists>u. find (unitIs (sc_key scope) (pq_captureId q) Canonical ?n) (db_units db) = Some u)) \<or>
       db_units db' = db_units db @ [newUnit (ho_sha (pq_host q)) (sc_key scope) (pq_captureId q) Canonical ?n ?content]"
    using appendUnit_effect[OF assms(1)] by (force simp: addRetained_def updateCaptures_def insertUnit_def)
  have key: "sc_key scope = ownerKey (pq_owner q)" using scope(1) by (simp add: ownerScope_Inr ownerKey_def)
  have "find (unitIs (sc_key scope) (pq_captureId q) Canonical ?n) (db_units db) \<noteq> Some u" for u
  proof
    assume "find (unitIs (sc_key scope) (pq_captureId q) Canonical ?n) (db_units db) = Some u"
    then have u: "u \<in> set (db_units db)" "unitOf (ownerKey (pq_owner q)) (pq_captureId q) u" "un_kind u = Canonical" "un_ordinal u = ?n"
      using find_Some_in key by (fastforce simp: unitIs_def unitKey_def unitOf_def)+
    then have "u \<in> set (canonicals db)" by (simp add: canonicals_def)
    then consider "u \<in> set base" | "u \<in> set (partUnits q 0 ps)" using assms(2) by auto
    then show False using assms(3) u partUnits_ordinals[of u q 0 ps] by cases (auto simp: freshFor_def)
  qed
  then have "db_units db' = db_units db @ [newUnit (ho_sha (pq_host q)) (sc_key scope) (pq_captureId q) Canonical ?n ?content]"
    using scope(2) by auto
  then show ?thesis using assms(2) key by (simp add: canonicals_def partUnit_def) (simp add: newUnit_def)
qed

section \<open>The state of the preparation\<close>

definition bareEvent :: "adapter_event \<Rightarrow> adapter_event" where
  "bareEvent e = e\<lparr>ev_revision := Whole 0, ev_projectionRevision := Whole 0, ev_rawRef := placeholderRef\<rparr>"

definition bareUsage :: "adapter_usage \<Rightarrow> adapter_usage" where
  "bareUsage u = u\<lparr>us_revision := Whole 0\<rparr>"

text \<open>The parts hold the events and usage up to the versions the journal allocated.\<close>

definition splitInto :: "adapter_event list \<Rightarrow> adapter_usage list \<Rightarrow> part list \<Rightarrow> bool" where
  "splitInto es us ps \<longleftrightarrow> map bareEvent (concat (map fst ps)) = map bareEvent es \<and> map bareUsage (concat (map snd ps)) = map bareUsage us"

definition drafts :: "open_target \<Rightarrow> unit_row list \<Rightarrow> adapter_event list \<Rightarrow> adapter_usage list \<Rightarrow> drafting \<Rightarrow> unit_row list \<Rightarrow> bool" where
  "drafts q base es us d cs \<longleftrightarrow> (\<exists>ps. written q base ps cs \<and> df_ordinal d = int (length ps) \<and>
     df_totalBytes d = partSum (partSize q) 0 ps \<and> df_materialized d = partSum (partBound q) 0 ps \<and>
     splitInto es us (ps @ [(df_events d, df_usage d)]) \<and> length (df_events d) \<le> 500 \<and> length (df_usage d) \<le> 500)"

definition broken :: "open_target \<Rightarrow> unit_row list \<Rightarrow> unit_row list \<Rightarrow> bool" where
  "broken q base cs \<longleftrightarrow> (\<exists>ps. written q base ps cs)"

lemma drafts_broken: "drafts q base es us d cs \<Longrightarrow> broken q base cs"
  by (auto simp: drafts_def broken_def)

abbreviation advances :: "open_target \<Rightarrow> unit_row list \<Rightarrow> (unit_row list \<Rightarrow> bool) \<Rightarrow> ('r, 'a) publish \<Rightarrow> ('a \<Rightarrow> unit_row list \<Rightarrow> bool) \<Rightarrow> bool" where
  "advances q base P m Q \<equiv> ensures (\<lambda>w. P (canonicalsW w)) m (\<lambda>x w. Q x (canonicalsW w)) (\<lambda>_ w. broken q base (canonicalsW w))"

lemma ensures_storeP:
  assumes "\<And>db db' x. P db \<Longrightarrow> f db = Inr (db', x) \<Longrightarrow> Q x db'" "\<And>db. P db \<Longrightarrow> E db"
  shows "ensures (\<lambda>w. P (wd_journal w)) (storeP f) (\<lambda>x w. Q x (wd_journal w)) (\<lambda>_ w. E (wd_journal w))"
  unfolding storeP_def rawP_def by (rule ensures_mapError, rule ensures_journalP) (use assms in auto)

lemma store_step:
  assumes "\<And>db db' x. f db = Inr (db', x) \<Longrightarrow> canonicals db' = canonicals db" "\<And>cs. P cs \<Longrightarrow> broken q base cs"
  shows "advances q base P (storeP f) (\<lambda>_. P)"
  by (rule ensures_storeP[where P = "\<lambda>db. P (canonicals db)"]) (use assms in auto)

lemma canonicals_units: "db_units db' = db_units db \<Longrightarrow> canonicals db' = canonicals db"
  by (simp add: canonicals_def)

lemma bind_step: "(\<And>cs. P cs \<Longrightarrow> broken q base cs) \<Longrightarrow> advances q base P (bindPart q n key) (\<lambda>_. P)"
  unfolding bindPart_def by (rule store_step) (auto dest: bind_units intro: canonicals_units)

lemma version_step: "(\<And>cs. P cs \<Longrightarrow> broken q base cs) \<Longrightarrow> advances q base P (versionP p k key fp ref) (\<lambda>_. P)"
  unfolding versionP_def by (rule store_step) (auto dest: record_units intro: canonicals_units)

lemma require_step:
  assumes "ok \<Longrightarrow> ensures P (k ()) Q E" "\<And>w. P w \<Longrightarrow> E (Drafted (DraftRefused r)) w"
  shows "ensures P (bindA (requirePrep ok r) k) Q E"
  using assms by (cases ok) (simp_all add: ensures_def requirePrep_def draftP_def requireD_def bindA_def checkA_def)

lemma flush_written:
  assumes "drafts q base es us d cs" "partAdmitted q d" "cs' = base @ partUnits q 0 (ps @ [(df_events d, df_usage d)])"
    and "written q base ps cs" "df_ordinal d = int (length ps)" "df_totalBytes d = partSum (partSize q) 0 ps"
    and "df_materialized d = partSum (partBound q) 0 ps" "splitInto es us (ps @ [(df_events d, df_usage d)])"
  shows "drafts q base es us (flushedPart q d) cs'"
proof -
  let ?ps = "ps @ [(df_events d, df_usage d)]"
  have small: "length (df_events d) \<le> 500" "length (df_usage d) \<le> 500" using assms(1) by (auto simp: drafts_def)
  have "written q base ?ps cs'"
    using assms(2-7) small by (simp add: written_def admittedPart_def partAdmitted_def Let_def)
  moreover have "splitInto es us (?ps @ [([], [])])" using assms(8) by (simp add: splitInto_def)
  ultimately show ?thesis using assms(5-7) unfolding drafts_def
    by (intro exI[of _ ?ps]) (simp add: flushedPart_def)
qed

lemma flush_part:
  assumes "freshFor (pq_owner q) (pq_captureId q) base"
  shows "advances q base (drafts q base es us d) (flushPart q d) (\<lambda>d' cs. drafts q base es us d' cs \<and> d' = flushedPart q d)"
  unfolding flushPart_def
proof (rule require_step)
  let ?D = "drafts q base es us (flushedPart q d)"
  note broke = drafts_broken[of q base es us "flushedPart q d"]
  assume admitted: "partAdmitted q d"
  have append: "advances q base (drafts q base es us d) (storeP (appendUnit (ho_sha (pq_host q)) (ho_limits (pq_host q)) (pq_owner q)
      (pq_captureId q) Canonical (df_ordinal d) (partText q (df_events d) (df_usage d) (df_ordinal d)))) (\<lambda>_. ?D)"
  proof (rule ensures_storeP[where P = "\<lambda>db. drafts q base es us d (canonicals db)"])
    fix db db' x
    assume state: "drafts q base es us d (canonicals db)"
      and run: "appendUnit (ho_sha (pq_host q)) (ho_limits (pq_host q)) (pq_owner q) (pq_captureId q) Canonical (df_ordinal d)
        (partText q (df_events d) (df_usage d) (df_ordinal d)) db = Inr (db', x)"
    from state obtain ps where ps: "written q base ps (canonicals db)" "df_ordinal d = int (length ps)" "df_totalBytes d = partSum (partSize q) 0 ps"
        "df_materialized d = partSum (partBound q) 0 ps" "splitInto es us (ps @ [(df_events d, df_usage d)])"
      by (auto simp: drafts_def)
    have "canonicals db' = base @ partUnits q 0 (ps @ [(df_events d, df_usage d)])"
      using append_part[OF _ _ assms, of _ ps] run ps(1,2) by (simp add: written_def del: parts_snoc)
    then show "?D (canonicals db')" by (rule flush_written[OF state admitted _ ps])
  qed (rule drafts_broken)
  have binds: "advances q base ?D (eachA (bindPart q n) keys) (\<lambda>_. ?D)" for n keys
    by (rule ensures_weaken[OF ensures_each[where E = "\<lambda>_ w. broken q base (canonicalsW w)", OF bind_step[OF broke]]]) auto
  have heads: "advances q base ?D (whenA b (eachA (bindPart q n) keys)) (\<lambda>_. ?D)" for b n keys
    using binds by (auto simp: whenA_def intro: ensures_return)
  show "advances q base (drafts q base es us d) (bindA (storeP (appendUnit (ho_sha (pq_host q)) (ho_limits (pq_host q)) (pq_owner q)
      (pq_captureId q) Canonical (df_ordinal d) (partText q (df_events d) (df_usage d) (df_ordinal d)))) (\<lambda>_.
     bindA (whenA (df_ordinal d = 0) (eachA (bindPart q (df_ordinal d)) (headKeys q))) (\<lambda>_.
     bindA (eachA (bindPart q (df_ordinal d)) (df_bindings d)) (\<lambda>_. returnA (flushedPart q d)))))
     (\<lambda>d' cs. drafts q base es us d' cs \<and> d' = flushedPart q d)"
    by (rule ensures_bind[OF append ensures_bind[OF heads ensures_bind[OF binds ensures_return]]]) simp
qed (rule drafts_broken)

end
