(* ===== verification/PublicationFilling.thy ===== *)
theory PublicationFilling
  imports PublicationParts
begin

text \<open>The preparation of a publication, step by step: records, frames, pages and the whole target, each keeping the
  relation between the parts and the projection of the source.\<close>

section \<open>Records\<close>

definition sameRest :: "drafting \<Rightarrow> drafting \<Rightarrow> bool" where
  "sameRest d d' \<longleftrightarrow> df_counts d' = df_counts d \<and> df_raw d' = df_raw d"

lemma sameRest_simps [simp]:
  "sameRest d d" "sameRest d (d'\<lparr>df_events := es\<rparr>) = sameRest d d'" "sameRest d (d'\<lparr>df_usage := us\<rparr>) = sameRest d d'"
  by (simp_all add: sameRest_def)

lemma drafts_changed:
  assumes "drafts q base es us d cs" "df_events d' = df_events d" "df_usage d' = df_usage d" "df_ordinal d' = df_ordinal d"
    "df_totalBytes d' = df_totalBytes d" "df_materialized d' = df_materialized d"
  shows "drafts q base es us d' cs"
  using assms by (simp add: drafts_def)

lemma drafts_event:
  assumes "drafts q base es us d cs" "length (df_events d @ [e]) \<le> 500" "bareEvent e = bareEvent e'"
  shows "drafts q base (es @ [e']) us (d\<lparr>df_events := df_events d @ [e]\<rparr>) cs"
  using assms unfolding drafts_def splitInto_def by fastforce

lemma drafts_usage:
  assumes "drafts q base es us d cs" "length (df_usage d @ [u]) \<le> 500" "bareUsage u = bareUsage u'"
  shows "drafts q base es (us @ [u']) (d\<lparr>df_usage := df_usage d @ [u]\<rparr>) cs"
  using assms unfolding drafts_def splitInto_def by fastforce

lemma flush_rest: "sameRest d (flushedPart q d)" "df_events (flushedPart q d) = []" "df_usage (flushedPart q d) = []"
  by (simp_all add: sameRest_def flushedPart_def)

lemma push_event:
  assumes "freshFor (pq_owner q) (pq_captureId q) base" "bareEvent e = bareEvent e'"
  shows "advances q base (drafts q base es us d) (pushEvent q e d) (\<lambda>d' cs. drafts q base (es @ [e']) us d' cs \<and> sameRest d d')"
proof -
  have flush: "advances q base (drafts q base es us d) (if b then flushPart q d else returnA d)
      (\<lambda>d' cs. drafts q base es us d' cs \<and> sameRest d d' \<and> (b \<longrightarrow> df_events d' = []) \<and> (\<not> b \<longrightarrow> d' = d))" for b
    by (cases b) (auto intro!: ensures_return ensures_weaken[OF flush_part[OF assms(1)]] simp: flush_rest)
  show ?thesis unfolding pushEvent_def
    by (rule ensures_bind[OF flush ensures_return]) (auto intro!: drafts_event[OF _ _ assms(2)])
qed

lemma push_usage:
  assumes "freshFor (pq_owner q) (pq_captureId q) base" "bareUsage u = bareUsage u'"
  shows "advances q base (drafts q base es us d) (pushUsage q u d) (\<lambda>d' cs. drafts q base es (us @ [u']) d' cs \<and> sameRest d d')"
proof -
  have flush: "advances q base (drafts q base es us d) (if b then flushPart q d else returnA d)
      (\<lambda>d' cs. drafts q base es us d' cs \<and> sameRest d d' \<and> (b \<longrightarrow> df_usage d' = []) \<and> (\<not> b \<longrightarrow> d' = d))" for b
    by (cases b) (auto intro!: ensures_return ensures_weaken[OF flush_part[OF assms(1)]] simp: flush_rest)
  show ?thesis unfolding pushUsage_def
    by (rule ensures_bind[OF flush ensures_return]) (auto intro!: drafts_usage[OF _ _ assms(2)])
qed

lemma noted: "drafts q base es us (noteBinding k key d) cs = drafts q base es us d cs" "sameRest d (noteBinding k key d') = sameRest d d'"
  by (simp_all add: drafts_def noteBinding_def sameRest_def)

lemma check_step: "(\<And>cs. P cs \<Longrightarrow> broken q base cs) \<Longrightarrow> advances q base P (checkA c) (\<lambda>_. P)"
  by (rule ensures_check) auto

lemma event_step:
  assumes "freshFor (pq_owner q) (pq_captureId q) base"
  shows "advances q base (drafts q base es us d) (eventStep q ref d x) (\<lambda>d' cs. drafts q base (es @ [pd_value x]) us d' cs \<and> sameRest d d')"
proof -
  have bare: "bareEvent (versionedEvent (pd_value x) n found) = bareEvent (pd_value x)" for n found
    by (simp add: bareEvent_def versionedEvent_def)
  show ?thesis unfolding eventStep_def
    by (intro ensures_bind[OF version_step] ensures_bind[OF check_step] ensures_bind[OF push_event[OF assms bare]] ensures_return)
       (auto simp: noted intro: drafts_broken)
qed

lemma usage_step:
  assumes "freshFor (pq_owner q) (pq_captureId q) base"
  shows "advances q base (drafts q base es us d) (usageStep q d x) (\<lambda>d' cs. drafts q base es (us @ [pd_value x]) d' cs \<and> sameRest d d')"
proof -
  have bare: "bareUsage ((pd_value x)\<lparr>us_revision := Whole n\<rparr>) = bareUsage (pd_value x)" for n
    by (simp add: bareUsage_def)
  show ?thesis unfolding usageStep_def
    by (intro ensures_bind[OF version_step] ensures_bind[OF push_usage[OF assms bare]] ensures_return)
       (auto simp: noted intro: drafts_broken)
qed

lemma sameRest_trans: "sameRest d d' \<Longrightarrow> sameRest d' d'' \<Longrightarrow> sameRest d d''"
  by (simp add: sameRest_def)

lemma event_steps:
  assumes "freshFor (pq_owner q) (pq_captureId q) base"
  shows "advances q base (drafts q base es us d) (foldA (eventStep q ref) d xs :: ('r, drafting) publish) (\<lambda>d' cs. drafts q base (es @ map pd_value xs) us d' cs \<and> sameRest d d')"
proof (induction xs arbitrary: es d)
  case (Cons x xs)
  have rest: "advances q base (\<lambda>cs. drafts q base (es @ [pd_value x]) us t cs \<and> sameRest d t) (foldA (eventStep q ref) t xs :: ('r, drafting) publish)
      (\<lambda>d' cs. drafts q base (es @ map pd_value (x # xs)) us d' cs \<and> sameRest d d')" for t
  proof (cases "sameRest d t")
    case True
    show ?thesis by (rule ensures_weaken[OF Cons.IH[of "es @ [pd_value x]" t]]) (auto intro: sameRest_trans[OF True])
  qed (simp add: ensures_def)
  show ?case unfolding foldA.simps by (rule ensures_bind[OF event_step[OF assms] rest])
qed (auto intro: ensures_return)

lemma usage_steps:
  assumes "freshFor (pq_owner q) (pq_captureId q) base"
  shows "advances q base (drafts q base es us d) (foldA (usageStep q) d xs :: ('r, drafting) publish) (\<lambda>d' cs. drafts q base es (us @ map pd_value xs) d' cs \<and> sameRest d d')"
proof (induction xs arbitrary: us d)
  case (Cons x xs)
  have rest: "advances q base (\<lambda>cs. drafts q base es (us @ [pd_value x]) t cs \<and> sameRest d t) (foldA (usageStep q) t xs :: ('r, drafting) publish)
      (\<lambda>d' cs. drafts q base es (us @ map pd_value (x # xs)) d' cs \<and> sameRest d d')" for t
  proof (cases "sameRest d t")
    case True
    show ?thesis by (rule ensures_weaken[OF Cons.IH[of "us @ [pd_value x]" t]]) (auto intro: sameRest_trans[OF True])
  qed (simp add: ensures_def)
  show ?case unfolding foldA.simps by (rule ensures_bind[OF usage_step[OF assms] rest])
qed (auto intro: ensures_return)

section \<open>The archive beside\<close>

text \<open>The Raw packing writes no Canonical unit.\<close>

lemma journal_canonicals:
  assumes "\<And>db db' x. f db = Inr (db', x) \<Longrightarrow> canonicals db' = canonicals db"
  shows "keeps (\<lambda>w. P (canonicalsW w)) (journalP f)"
  by (rule ensures_journalP[where P = "\<lambda>db. P (canonicals db)" and Q = "\<lambda>_ db. P (canonicals db)" and E = "\<lambda>_ db. P (canonicals db)"])
    (use assms in auto)

lemma raw_append: "appendUnit sha lim owner cid Raw n content db = Inr (db', r) \<Longrightarrow> canonicals db' = canonicals db"
  using append_units(2)[of sha lim owner cid Raw n content db db' r] by (auto simp: canonicals_def newUnit_def)

lemma reads_canonicals: "reads m \<Longrightarrow> keeps (\<lambda>w. P (canonicalsW w)) (serviceP m)"
  by (auto simp: reads_def ensures_def serviceP_def mapErrorA_def split: prod.split sum.split) (metis fst_conv)+

lemmas archive_units = journal_canonicals[OF raw_append] journal_canonicals[OF canonicals_units[OF bind_units]]
  journal_canonicals[OF canonicals_units[OF record_units]] journal_canonicals[OF canonicals_units[OF arg_cong[OF status_same]]]
  reads_canonicals[OF reads_inspect] reads_canonicals[OF reads_authority]

lemma require_raw_keeps: "keeps P (requireRaw ok e)"
  unfolding requireRaw_def by (rule keeps_simple)

lemma flushRaw_canonicals: "keeps (\<lambda>w. P (canonicalsW w)) (flushRaw q pk)"
  unfolding flushRaw_def Let_def
  by (intro ensures_if ensures_bind[OF keeps_simple(3)] ensures_bind[OF require_raw_keeps] ensures_bind[OF archive_units(1)]
      ensures_bind[OF ensures_each] keeps_simple) (auto intro: archive_units)

lemma unavailable_canonicals: "keeps (\<lambda>w. P (canonicalsW w)) (unavailableRaw q key g pk)"
  unfolding unavailableRaw_def by (intro ensures_bind[OF archive_units(2)] keeps_simple)

lemma pack_canonicals: "keeps (\<lambda>w. P (canonicalsW w)) (packRaw q key entry pk)"
proof -
  have full: "keeps (\<lambda>w. P (canonicalsW w)) (if b then flushRaw q pk else returnA pk)" for b
    by (intro ensures_if flushRaw_canonicals keeps_simple)
  show ?thesis unfolding packRaw_def Let_def
    by (intro ensures_bind[OF require_raw_keeps] ensures_bind[OF full]) (auto intro: unavailable_canonicals keeps_simple)
qed

lemma reuse_canonicals: "keeps (\<lambda>w. P (canonicalsW w)) (reuseRaw q s allocated)"
proof -
  have reuse: "keeps (\<lambda>w. P (canonicalsW w)) (reuseUnit q previous key c n p)" for previous key c n p
    unfolding reuseUnit_def
    by (auto intro!: ensures_bind[OF archive_units(5)] ensures_bind[OF archive_units(6)] ensures_bind[OF archive_units(2)] keeps_simple split: prod.split)
  show ?thesis unfolding reuseRaw_def reuseFrom_def
    by (auto intro!: ensures_bind[OF archive_units(4)] keeps_simple reuse split: option.split prod.split)
qed

lemma recordRaw_canonicals: "keeps (\<lambda>w. P (canonicalsW w)) (recordRaw q key raw pk)"
proof -
  have source: "keeps (\<lambda>w. P (canonicalsW w)) (rawSourceRecord h r key raw)" for h r
    unfolding rawSourceRecord_def Let_def
    by (auto intro!: ensures_bind[OF require_raw_keeps] keeps_simple split: option.split)
  show ?thesis unfolding recordRaw_def Let_def
    by (auto intro!: ensures_bind[OF source] ensures_bind[OF archive_units(3)] ensures_bind[OF reuse_canonicals]
        unavailable_canonicals pack_canonicals keeps_simple split: sum.split option.split)
qed

lemma archive_step:
  assumes "\<And>cs. P cs \<Longrightarrow> broken q base cs"
  shows "advances q base P (archiveFrame f d) (\<lambda>(ref, d') cs. P cs \<and> (\<exists>raw. d' = d\<lparr>df_raw := raw\<rparr>))"
proof (cases "df_raw d")
  case None
  then show ?thesis by (auto simp: archiveFrame_def intro!: ensures_return exI[of _ "df_raw d"])
next
  case (Some raw)
  obtain rq pk where raw: "raw = (rq, pk)" by fastforce
  have "keeps (\<lambda>w. P (canonicalsW w)) (rawP (recordRaw rq (fr_recordKey f) (fr_raw f) pk) :: ('r, raw_reference \<times> raw_packing) publish)"
    unfolding rawP_def by (intro ensures_mapError recordRaw_canonicals)
  then have archived: "advances q base P (rawP (recordRaw rq (fr_recordKey f) (fr_raw f) pk)) (\<lambda>_. P)"
    by (rule ensures_weaken) (auto intro: assms)
  show ?thesis unfolding archiveFrame_def Some raw option.case prod.case
    by (rule ensures_bind[OF archived]) (auto intro!: ensures_return split: prod.split)
qed

end
