(* ===== verification/PublicationTarget.thy ===== *)
theory PublicationTarget
  imports PublicationFilling
begin

text \<open>The whole preparation of a publication as a refinement of the projection of its source: every frame of every page
  read, in order, with nothing lost between the parts.\<close>

section \<open>The projection of all frames\<close>

type_synonym projection = "(adapter_event projected list \<times> adapter_usage projected list) \<times> projection_counts"

definition joinFrame :: "source_projection \<Rightarrow> projection \<Rightarrow> draft_frame \<Rightarrow> projection drafted" where
  "joinFrame p acc f = (case acc of ((es, us), n) \<Rightarrow>
     bindE (projectFrame p f n) (\<lambda>((es', us'), m). Inr ((es @ es', us @ us'), m)))"

definition projectFrames :: "source_projection \<Rightarrow> draft_frame list \<Rightarrow> projection drafted" where
  "projectFrames p fs = foldE (joinFrame p) (([], []), startCounts) fs"

definition framesOf :: "draft_view \<Rightarrow> nat \<Rightarrow> draft_frame list" where
  "framesOf v n = concat (map (\<lambda>i. case dv_read v i of None \<Rightarrow> [] | Some page \<Rightarrow> dp_frames page) [0..<n])"

text \<open>The source ended with its page k: the pages before are there and are not the last.\<close>

definition unfinished :: "draft_view \<Rightarrow> nat \<Rightarrow> bool" where
  "unfinished v k \<longleftrightarrow> (\<forall>i<k. \<exists>page. dv_read v i = Some page \<and> \<not> dp_done page)"

definition finishedAt :: "draft_view \<Rightarrow> nat \<Rightarrow> bool" where
  "finishedAt v k \<longleftrightarrow> unfinished v k \<and> k \<le> 1000000 \<and> (\<exists>page. dv_read v k = Some page \<and> dp_done page)"

lemma projectFrames_snoc:
  "projectFrames p (fs @ [f]) = bindE (projectFrames p fs) (\<lambda>acc. joinFrame p acc f)"
  by (simp add: projectFrames_def foldE_append bindE_def split: sum.split)

lemma framesOf_Suc: "dv_read v n = Some page \<Longrightarrow> framesOf v (Suc n) = framesOf v n @ dp_frames page"
  by (simp add: framesOf_def)

section \<open>Frames and pages\<close>

definition filled :: "open_target \<Rightarrow> unit_row list \<Rightarrow> draft_frame list \<Rightarrow> drafting \<Rightarrow> unit_row list \<Rightarrow> bool" where
  "filled q base fs d cs \<longleftrightarrow> (\<exists>es us. projectFrames (pq_projection q) fs = Inr ((es, us), df_counts d) \<and>
     drafts q base (map pd_value es) (map pd_value us) d cs)"

lemma filled_broken: "filled q base fs d cs \<Longrightarrow> broken q base cs"
  by (auto simp: filled_def drafts_broken)

lemma filled_raw: "filled q base fs (d\<lparr>df_raw := raw\<rparr>) cs = filled q base fs d cs"
  by (simp add: filled_def drafts_def)

lemma draftP_cases: "draftP (Inl e) = failA (Drafted e)" "draftP (Inr x) = returnA x" "bindA (returnA y) k = k y" "bindA (failA r) j = failA r"
  by (simp_all add: fun_eq_iff draftP_def checkA_def failA_def returnA_def bindA_def)

lemma project_step:
  assumes "freshFor (pq_owner q) (pq_captureId q) base"
  shows "advances q base (filled q base fs d)
    (bindA (draftP (projectFrame (pq_projection q) f (df_counts d))) (\<lambda>((es, us), n).
       bindA (foldA (eventStep q ref) (d\<lparr>df_counts := n\<rparr>) es) (\<lambda>d. foldA (usageStep q) d us)))
    (filled q base (fs @ [f]))"
proof (cases "projectFrame (pq_projection q) f (df_counts d)")
  case (Inl e)
  then show ?thesis by (auto simp: draftP_cases intro!: ensures_fail intro: filled_broken)
next
  case (Inr result)
  obtain es' us' n where result: "result = ((es', us'), n)" by (metis prod.collapse)
  let ?d = "d\<lparr>df_counts := n\<rparr>"
  show ?thesis
  proof (cases "\<exists>es us. projectFrames (pq_projection q) fs = Inr ((es, us), df_counts d)")
    case True
    then obtain es us where known: "projectFrames (pq_projection q) fs = Inr ((es, us), df_counts d)" by blast
    have after: "projectFrames (pq_projection q) (fs @ [f]) = Inr ((es @ es', us @ us'), n)"
      using known Inr result by (simp add: projectFrames_snoc joinFrame_def)
    let ?E = "map pd_value es" and ?U = "map pd_value us"
    have events: "advances q base (filled q base fs d) (foldA (eventStep q ref) ?d es')
        (\<lambda>d' cs. drafts q base (?E @ map pd_value es') ?U d' cs \<and> sameRest ?d d')"
      by (rule ensures_weaken[OF event_steps[OF assms]]) (use known in \<open>auto simp: filled_def drafts_def\<close>)
    have usage: "advances q base (\<lambda>cs. drafts q base (?E @ map pd_value es') ?U d' cs \<and> sameRest ?d d') (foldA (usageStep q) d' us')
        (filled q base (fs @ [f]))" for d'
    proof (cases "sameRest ?d d'")
      case True
      show ?thesis by (rule ensures_weaken[OF usage_steps[OF assms]])
        (use True after in \<open>auto simp: filled_def sameRest_def\<close>)
    qed (simp add: ensures_def)
    show ?thesis unfolding Inr result draftP_cases prod.case by (rule ensures_bind[OF events usage])
  next
    case False
    then have "\<not> filled q base fs d cs" for cs by (auto simp: filled_def)
    then show ?thesis by (simp add: ensures_def)
  qed
qed

lemma frame_step:
  assumes "freshFor (pq_owner q) (pq_captureId q) base"
  shows "advances q base (filled q base fs d) (frameStep q d f) (filled q base (fs @ [f]))"
  unfolding frameStep_def
proof (rule require_step)
  have rest: "advances q base (\<lambda>cs. filled q base fs d cs \<and> (\<exists>raw. d' = d\<lparr>df_raw := raw\<rparr>))
      (bindA (draftP (projectFrame (pq_projection q) f (df_counts d'))) (\<lambda>((es, us), n).
       bindA (foldA (eventStep q ref) (d'\<lparr>df_counts := n\<rparr>) es) (\<lambda>d. foldA (usageStep q) d us)))
      (filled q base (fs @ [f]))" for ref d'
    by (rule ensures_weaken[OF project_step[OF assms]]) (auto simp: filled_raw)
  show "advances q base (filled q base fs d) (bindA (archiveFrame f d) (\<lambda>(ref, d). bindA (draftP (projectFrame (pq_projection q) f (df_counts d)))
      (\<lambda>((es, us), n). bindA (foldA (eventStep q ref) (d\<lparr>df_counts := n\<rparr>) es) (\<lambda>d. foldA (usageStep q) d us))))
      (filled q base (fs @ [f]))"
    by (rule ensures_bind[OF archive_step[where P = "filled q base fs d", OF filled_broken]]) (auto split: prod.split intro: rest)
qed (rule filled_broken)

lemma frame_steps:
  assumes "freshFor (pq_owner q) (pq_captureId q) base"
  shows "advances q base (filled q base fs d) (foldA (frameStep q) d gs :: ('r, drafting) publish) (filled q base (fs @ gs))"
proof (induction gs arbitrary: fs d)
  case (Cons g gs)
  show ?case unfolding foldA.simps
    by (rule ensures_bind[OF frame_step[OF assms]]) (use Cons.IH[of "fs @ [g]"] in simp)
qed (auto intro: ensures_return)

lemma unfinished_Suc: "unfinished v n \<Longrightarrow> dv_read v n = Some page \<Longrightarrow> \<not> dp_done page \<Longrightarrow> unfinished v (Suc n)"
  by (auto simp: unfinished_def less_Suc_eq)

lemma read_steps:
  assumes "freshFor (pq_owner q) (pq_captureId q) base" "unfinished (prj_view (pq_projection q)) pages"
  shows "advances q base (filled q base (framesOf (prj_view (pq_projection q)) pages) d) (readSource q pages d :: ('r, drafting) publish)
    (\<lambda>d' cs. \<exists>k. finishedAt (prj_view (pq_projection q)) k \<and> filled q base (framesOf (prj_view (pq_projection q)) (Suc k)) d' cs)"
  using assms
proof (induction q pages d rule: readSource.induct)
  case (1 q pages d)
  let ?v = "prj_view (pq_projection q)"
  show ?case
  proof (cases "dv_read ?v pages")
    case None
    then show ?thesis by (subst readSource.simps) (auto intro!: ensures_fail intro: filled_broken)
  next
    case (Some page)
    note read = Some
    show ?thesis
    proof (cases "projectPage page pages")
      case (Inl e)
      with read show ?thesis by (subst readSource.simps) (auto intro!: ensures_fail intro: filled_broken)
    next
      case (Inr later)
      then have later: "later = Suc pages" "pages \<le> 1000000" using projectPage_bound by fastforce+
      have more: "advances q base (filled q base (framesOf ?v (Suc pages)) t)
          (if dp_done page then returnA t else readSource q later t :: ('r, drafting) publish)
          (\<lambda>d' cs. \<exists>k. finishedAt ?v k \<and> filled q base (framesOf ?v (Suc k)) d' cs)" for t
      proof (cases "dp_done page")
        case True
        then have "finishedAt ?v pages" using "1.prems"(2) read later(2) by (simp add: finishedAt_def)
        then show ?thesis using True by (auto intro!: ensures_return)
      next
        case False
        then have "unfinished ?v (Suc pages)" using unfinished_Suc[OF "1.prems"(2) read] by simp
        with "1.IH"[OF read Inr False "1.prems"(1)] False later(1) show ?thesis by simp
      qed
      show ?thesis
        by (subst readSource.simps, unfold read Inr option.case sum.case,
            rule ensures_bind[OF frame_steps[OF "1.prems"(1)]], unfold framesOf_Suc[OF read, symmetric], rule more)
    qed
  qed
qed

section \<open>Closing\<close>

lemma finish_canonicals: "keeps (\<lambda>w. P (canonicalsW w)) (closeArchive d)"
proof -
  have finish: "keeps (\<lambda>w. P (canonicalsW w)) (rawP (finishRaw rq pk))" for rq pk
    unfolding rawP_def finishRaw_def
    by (intro ensures_mapError ensures_bind[OF flushRaw_canonicals] keeps_simple)
  show ?thesis unfolding closeArchive_def
    by (auto intro!: ensures_bind[OF finish] keeps_simple split: option.split prod.split)
qed

text \<open>What a finished preparation of the Canonical target has written.\<close>

definition covers :: "open_target \<Rightarrow> unit_row list \<Rightarrow> nat \<Rightarrow> prepared_publication \<Rightarrow> unit_row list \<Rightarrow> bool" where
  "covers q base k a cs \<longleftrightarrow> (\<exists>ps es us n counts. written q base ps cs \<and> ps \<noteq> [] \<and> pe_units a = int (length ps) \<and>
     pe_bytes a = partSum (partSize q) 0 ps \<and> pe_materialized a = partSum (partBound q) 0 ps \<and>
     projectFrames (pq_projection q) (framesOf (prj_view (pq_projection q)) (Suc k)) = Inr ((es, us), n) \<and>
     splitInto (map pd_value es) (map pd_value us) ps \<and>
     finishProjection (pq_projection q) n = Inr counts \<and> rm_canonical (pe_records a) = Some counts)"

lemma split_drop: "splitInto es us (ps @ [([], [])]) = splitInto es us ps"
  by (simp add: splitInto_def)

lemma drafts_closed:
  assumes "drafts q base es us d cs" "df_events d = []" "df_usage d = []" "df_ordinal d \<noteq> 0"
  shows "\<exists>ps. written q base ps cs \<and> ps \<noteq> [] \<and> df_ordinal d = int (length ps) \<and> df_totalBytes d = partSum (partSize q) 0 ps \<and>
     df_materialized d = partSum (partBound q) 0 ps \<and> splitInto es us ps"
  using assms by (auto simp: drafts_def split_drop)

lemma drafts_ordinal: "drafts q base es us d cs \<Longrightarrow> 0 \<le> df_ordinal d"
  by (auto simp: drafts_def)

lemma last_flush:
  assumes "freshFor (pq_owner q) (pq_captureId q) base"
  shows "advances q base (drafts q base es us d) (if df_events d \<noteq> [] \<or> df_usage d \<noteq> [] \<or> df_ordinal d = 0 then flushPart q d else returnA d)
    (\<lambda>d' cs. drafts q base es us d' cs \<and> df_events d' = [] \<and> df_usage d' = [] \<and> df_ordinal d' \<noteq> 0)"
proof (cases "0 \<le> df_ordinal d")
  case True
  then have "df_ordinal (flushedPart q d) \<noteq> 0" by (simp add: flushedPart_def)
  then have "advances q base (drafts q base es us d) (flushPart q d)
      (\<lambda>d' cs. drafts q base es us d' cs \<and> df_events d' = [] \<and> df_usage d' = [] \<and> df_ordinal d' \<noteq> 0)"
    by (intro ensures_weaken[OF flush_part[OF assms]]) (auto simp: flush_rest)
  then show ?thesis by (intro ensures_if) (auto intro: ensures_return)
next
  case False
  then have "\<not> drafts q base es us d cs" for cs using drafts_ordinal by blast
  then show ?thesis by (simp add: ensures_def)
qed

lemma close_step:
  assumes "freshFor (pq_owner q) (pq_captureId q) base"
  shows "advances q base (filled q base (framesOf (prj_view (pq_projection q)) (Suc k)) d) (closeTarget q d) (covers q base k)"
proof (cases "finishProjection (pq_projection q) (df_counts d)")
  case (Inl e)
  then show ?thesis by (simp add: closeTarget_def draftP_cases Let_def) (auto intro!: ensures_fail intro: filled_broken)
next
  case (Inr counts)
  let ?fs = "framesOf (prj_view (pq_projection q)) (Suc k)"
  show ?thesis
  proof (cases "\<exists>es us. projectFrames (pq_projection q) ?fs = Inr ((es, us), df_counts d)")
    case True
    then obtain es us where known: "projectFrames (pq_projection q) ?fs = Inr ((es, us), df_counts d)" by blast
    let ?D = "\<lambda>d' cs. drafts q base (map pd_value es) (map pd_value us) d' cs \<and> df_events d' = [] \<and> df_usage d' = [] \<and> df_ordinal d' \<noteq> 0"
    have archive: "advances q base (?D d') (closeArchive d') (\<lambda>_. ?D d')" for d'
      by (rule ensures_weaken[OF finish_canonicals[where P = "?D d'"]]) (auto intro: drafts_broken)
    have covered: "covers q base k a cs" if "?D d' cs" "pe_units a = df_ordinal d'" "pe_bytes a = df_totalBytes d'"
      "pe_materialized a = df_materialized d'" "rm_canonical (pe_records a) = Some counts" for d' a cs
    proof -
      have d': "drafts q base (map pd_value es) (map pd_value us) d' cs" "df_events d' = []" "df_usage d' = []" "df_ordinal d' \<noteq> 0"
        using that(1) by auto
      from drafts_closed[OF d'] obtain ps where "written q base ps cs" "ps \<noteq> []" "df_ordinal d' = int (length ps)"
          "df_totalBytes d' = partSum (partSize q) 0 ps" "df_materialized d' = partSum (partBound q) 0 ps"
          "splitInto (map pd_value es) (map pd_value us) ps" by blast
      then show ?thesis unfolding covers_def using known Inr that(2-5)
        by (intro exI[of _ ps] exI[of _ es] exI[of _ us] exI[of _ "df_counts d"] exI[of _ counts]) simp
    qed
    have "advances q base (drafts q base (map pd_value es) (map pd_value us) d) (closeTarget q d) (covers q base k)"
      unfolding closeTarget_def Inr draftP_cases Let_def
      by (rule ensures_bind[OF last_flush[OF assms] ensures_bind[OF archive ensures_return]]) (rule covered, auto)
    then show ?thesis by (rule ensures_weaken) (use known in \<open>auto simp: filled_def\<close>)
  next
    case False
    then have "\<not> filled q base ?fs d cs" for cs by (auto simp: filled_def)
    then show ?thesis by (simp add: ensures_def)
  qed
qed

end
