(* ===== verification/PublicationWhole.thy ===== *)
theory PublicationWhole
  imports PublicationTarget
begin

text \<open>A whole publication preparation: opening its target, reading its source and sealing the capture, from the admission
  of its context to its result or its failure.\<close>

section \<open>Opening\<close>

definition projectionInput :: "string \<Rightarrow> publication_input \<Rightarrow> publication_intent \<Rightarrow> projection_input" where
  "projectionInput cid input i = \<lparr>ji_captureId = cid, ji_observedAt = pi_observedAt input, ji_adapterVersion = pi_adapterVersion input,
     ji_transformVersion = pb_transformVersion (in_begin i)\<rparr>"

definition attached :: "host \<Rightarrow> capture_owner \<Rightarrow> string \<Rightarrow> publication_intent \<Rightarrow> open_target \<Rightarrow> bool" where
  "attached h owner cid i q \<longleftrightarrow> pq_host q = h \<and> pq_owner q = owner \<and> pq_captureId q = cid \<and> pq_limits q = cb_limits (in_capabilities i)"

text \<open>The target carries the masked session and threads, up to the revisions the journal allocated.\<close>

definition bareThread :: "adapter_thread \<Rightarrow> adapter_thread" where
  "bareThread t = t\<lparr>at_revision := Whole 0\<rparr>"

definition opened :: "host \<Rightarrow> redactor \<Rightarrow> capture_owner \<Rightarrow> string \<Rightarrow> publication_input \<Rightarrow> publication_intent \<Rightarrow> draft_view \<Rightarrow> open_target \<Rightarrow> bool" where
  "opened h r owner cid input i v q \<longleftrightarrow> canonicalSourceProjection h r owner v (projectionInput cid input i) = Inr (pq_projection q) \<and>
     attached h owner cid i q \<and> pq_target q = targetProfileOf v \<and>
     (\<exists>n. pq_session q = (ob_session (prj_masked (pq_projection q)))\<lparr>as_revision := Whole n\<rparr>) \<and>
     map bareThread (pq_threads q) = map bareThread (ob_threads (prj_masked (pq_projection q)))"

lemma projection_fields:
  assumes "canonicalSourceProjection h r owner v input = Inr p"
  shows "prj_host p = h" "prj_owner p = owner" "prj_view p = v" "prj_input p = input" "boundOrigin owner v" "consistentTarget v" "consistentRetained v"
  using assms by (auto simp: canonicalSourceProjection_def bindE_Inr_iff requireD_def split: if_split_asm)

abbreviation still :: "unit_row list \<Rightarrow> ('r, 'a) publish \<Rightarrow> bool" where
  "still base m \<equiv> keeps (\<lambda>w. canonicalsW w = base) m"

lemma still_store:
  assumes "\<And>db db' x. f db = Inr (db', x) \<Longrightarrow> canonicals db' = canonicals db"
  shows "still base (storeP f)"
  unfolding storeP_def rawP_def by (rule ensures_mapError, rule journal_canonicals, rule assms)

lemma still_simple: "still base (returnA x)" "still base (failA e)" "still base (checkA c)" "still base (requirePrep ok r)" "still base (draftP d)"
  by (simp_all add: keeps_simple requirePrep_def draftP_def)

lemma still_version: "still base (versionP p k key fp ref)"
  unfolding versionP_def by (rule still_store) (auto dest: record_units intro: canonicals_units)

lemma metadata_units: "setSourceMetadata sha lim owner cid v db = Inr (db', r) \<Longrightarrow> db_units db' = db_units db"
  by (drule setSourceMetadata_effect) (auto simp: updateCaptures_def)

lemma still_freeze: "still base (freezeMetadata p)"
  unfolding freezeMetadata_def whenA_def
  by (auto intro!: still_store still_simple canonicals_units dest: metadata_units)

lemma still_validate: "keeps P (validateRawPreparationLimits l)"
  unfolding validateRawPreparationLimits_def by (intro ensures_bind[OF require_raw_keeps] require_raw_keeps)

lemma still_create: "keeps (\<lambda>w. P (canonicalsW w)) (createRawPreparation h r owner cid input)"
proof -
  have earlier: "keeps (\<lambda>w. P (canonicalsW w)) (case observed of None \<Rightarrow> returnA None
       | Some previousId \<Rightarrow> bindA (serviceP (inspectW owner previousId Raw False)) (\<lambda>(c, _).
           returnA (if sm_activationReceipt c = None then None else Some previousId)))" for observed
    by (auto split: option.split prod.split intro!: keeps_simple ensures_bind[OF archive_units(5)])
  have cov: "keeps (\<lambda>w. P (canonicalsW w)) (serviceP (journalW (coverage owner)))"
    by (rule reads_canonicals, rule reads_journal, rule coverage_same)
  show ?thesis unfolding createRawPreparation_def Let_def
    by (intro ensures_bind[OF still_validate] ensures_bind[OF require_raw_keeps] ensures_bind[OF cov] ensures_bind[OF earlier] keeps_simple)
qed

lemma still_archive: "still base (openArchive p i limits)"
proof -
  have create: "still base (rawP (createRawPreparation h r owner cid input))" for h r owner cid input
    unfolding rawP_def by (rule ensures_mapError, rule still_create)
  show ?thesis unfolding openArchive_def
    by (auto intro!: still_simple ensures_bind[OF create] split: option.split)
qed

lemma bareThread_revision [simp]: "bareThread (t\<lparr>at_revision := n\<rparr>) = bareThread t"
  by (simp add: bareThread_def)

lemma still_threads:
  "ensures (\<lambda>w. canonicalsW w = base) (foldA (versionThread p) acc ts :: ('r, adapter_thread list) publish)
     (\<lambda>ts' w. canonicalsW w = base \<and> map bareThread ts' = map bareThread (acc @ ts)) (\<lambda>_ w. canonicalsW w = base)"
proof (induction ts arbitrary: acc)
  case (Cons t ts)
  have one: "ensures (\<lambda>w. canonicalsW w = base) (versionThread p acc t :: ('r, adapter_thread list) publish)
      (\<lambda>acc' w. canonicalsW w = base \<and> (\<exists>n. acc' = acc @ [t\<lparr>at_revision := Whole n\<rparr>])) (\<lambda>_ w. canonicalsW w = base)"
    unfolding versionThread_def by (rule ensures_bind[OF still_version]) (auto intro: ensures_return)
  have rest: "ensures (\<lambda>w. canonicalsW w = base \<and> (\<exists>n. acc' = acc @ [t\<lparr>at_revision := Whole n\<rparr>]))
      (foldA (versionThread p) acc' ts :: ('r, adapter_thread list) publish)
     (\<lambda>ts' w. canonicalsW w = base \<and> map bareThread ts' = map bareThread (acc @ t # ts)) (\<lambda>_ w. canonicalsW w = base)" for acc'
  proof (cases "\<exists>n. acc' = acc @ [t\<lparr>at_revision := Whole n\<rparr>]")
    case True
    show ?thesis by (rule ensures_weaken[OF Cons.IH[of acc']]) (use True in auto)
  qed (simp add: ensures_def)
  show ?case unfolding foldA.simps by (rule ensures_bind[OF one rest])
qed (auto intro: ensures_return)

lemma open_step:
  assumes "canonicalSourceProjection h r owner v (projectionInput cid input i) = Inr p"
  shows "ensures (\<lambda>w. canonicalsW w = base) (openTarget p i (targetProfileOf v) limits)
    (\<lambda>(q, d) w. opened h r owner cid input i v q \<and> filled q base [] d (canonicalsW w)) (\<lambda>_ w. canonicalsW w = base)"
proof -
  have start: "filled q base [] (startDrafting raw) base" for q raw
    by (auto simp: filled_def projectFrames_def drafts_def startDrafting_def startCounts_def written_def splitInto_def)
  note fields = projection_fields[OF assms]
  let ?q = "\<lambda>n ts. \<lparr>pq_projection = p, pq_limits = cb_limits (in_capabilities i), pq_target = targetProfileOf v,
      pq_session = (ob_session (prj_masked p))\<lparr>as_revision := Whole n\<rparr>, pq_threads = ts,
      pq_batchKey = hashJson (prj_host p) (JArr [JStr PublicationPreparationVersion, JStr (ji_captureId (prj_input p))])\<rparr>"
  have result: "opened h r owner cid input i v (?q n ts)" if "map bareThread ts = map bareThread (ob_threads (prj_masked p))" for n ts
    using assms fields that by (auto simp: opened_def attached_def projectionInput_def)
  show ?thesis unfolding openTarget_def Let_def
    by (rule ensures_bind[OF still_freeze ensures_bind[OF still_version ensures_bind[OF still_archive ensures_bind[OF still_threads ensures_return]]]])
      (use result start in auto)
qed

section \<open>The target\<close>

definition completed :: "host \<Rightarrow> redactor \<Rightarrow> capture_owner \<Rightarrow> string \<Rightarrow> publication_input \<Rightarrow> publication_intent \<Rightarrow> unit_row list \<Rightarrow>
    prepared_publication \<Rightarrow> unit_row list \<Rightarrow> bool" where
  "completed h r owner cid input i base a cs \<longleftrightarrow> (\<exists>v q k. pi_source input = Some v \<and> opened h r owner cid input i v q \<and>
     finishedAt v k \<and> covers q base k a cs)"

definition stopped :: "host \<Rightarrow> capture_owner \<Rightarrow> string \<Rightarrow> publication_intent \<Rightarrow> unit_row list \<Rightarrow> unit_row list \<Rightarrow> bool" where
  "stopped h owner cid i base cs \<longleftrightarrow> cs = base \<or> (\<exists>q. attached h owner cid i q \<and> broken q base cs)"

lemma ensures_some:
  "(\<And>k. ensures (P k) m (Q k) E) \<Longrightarrow> ensures (\<lambda>w. \<exists>k. P k w) m (\<lambda>x w. \<exists>k. Q k x w) E"
  by (fastforce simp: ensures_def split: prod.splits sum.splits)

lemma fill_step:
  assumes "freshFor owner cid base" "opened h r owner cid input i v q" "pi_source input = Some v"
  shows "ensures (\<lambda>w. filled q base [] d (canonicalsW w)) (fillTarget q d)
    (\<lambda>a w. completed h r owner cid input i base a (canonicalsW w)) (\<lambda>_ w. stopped h owner cid i base (canonicalsW w))"
proof -
  have fresh: "freshFor (pq_owner q) (pq_captureId q) base" and v: "prj_view (pq_projection q) = v"
    using assms(1,2) projection_fields(3) by (auto simp: opened_def attached_def)
  have close: "advances q base (\<lambda>cs. \<exists>k. finishedAt v k \<and> filled q base (framesOf v (Suc k)) d' cs) (closeTarget q d')
      (\<lambda>a cs. \<exists>k. finishedAt v k \<and> covers q base k a cs)" for d'
  proof -
    have one: "advances q base (\<lambda>cs. filled q base (framesOf v (Suc k)) d' cs) (closeTarget q d') (covers q base k)" for k
      using close_step[OF fresh, of k d'] v by simp
    have "advances q base (\<lambda>cs. finishedAt v k \<and> filled q base (framesOf v (Suc k)) d' cs) (closeTarget q d')
        (\<lambda>a cs. finishedAt v k \<and> covers q base k a cs)" for k
      using one[of k] by (cases "finishedAt v k") (simp_all add: ensures_def)
    then show ?thesis by (rule ensures_some)
  qed
  have read: "advances q base (filled q base [] d) (readSource q 0 d)
      (\<lambda>d' cs. \<exists>k. finishedAt v k \<and> filled q base (framesOf v (Suc k)) d' cs)"
    using read_steps[OF fresh, of 0 d] v by (simp add: unfinished_def framesOf_def)
  show ?thesis unfolding fillTarget_def
    by (rule ensures_weaken[OF ensures_bind[OF read close]])
      (use assms(2,3) in \<open>auto simp: completed_def stopped_def opened_def\<close>)
qed

lemma prepare_step:
  assumes "freshFor owner cid base"
  shows "ensures (\<lambda>w. canonicalsW w = base) (prepareTarget h r owner cid input context :: ('r, prepared_publication) publish)
    (\<lambda>a w. completed h r owner cid input (pc_intent context) base a (canonicalsW w))
    (\<lambda>_ w. stopped h owner cid (pc_intent context) base (canonicalsW w))"
    (is "ensures ?B _ ?Q ?E")
proof -
  let ?i = "pc_intent context"
  have quiet: "ensures ?B m (\<lambda>_. ?B) ?E" if "still base m" for m :: "('r, 'b) publish"
    using that by (rule ensures_weaken) (auto simp: stopped_def)
  have admit: "still base (admitRaw enabled limits)" for enabled limits
    unfolding admitRaw_def rawP_def
    by (intro ensures_bind[OF still_simple(4)]) (auto intro!: still_simple ensures_mapError still_validate split: option.split)
  have project: "ensures ?B (bindA (draftP (canonicalSourceProjection h r owner v (projectionInput cid input ?i))) (\<lambda>p.
      bindA (openTarget p ?i (targetProfileOf v) (pi_rawLimits input)) (\<lambda>(q, d). fillTarget q d))) ?Q ?E" if "pi_source input = Some v" for v
  proof (cases "canonicalSourceProjection h r owner v (projectionInput cid input ?i)")
    case (Inl e)
    then show ?thesis by (auto simp: draftP_cases stopped_def intro: ensures_fail)
  next
    case (Inr p)
    have begun: "ensures ?B (openTarget p ?i (targetProfileOf v) (pi_rawLimits input))
        (\<lambda>x w. opened h r owner cid input ?i v (fst x) \<and> filled (fst x) base [] (snd x) (canonicalsW w)) ?E"
      by (rule ensures_weaken[OF open_step[OF Inr]]) (auto simp: stopped_def)
    have fill: "ensures (\<lambda>w. opened h r owner cid input ?i v (fst x) \<and> filled (fst x) base [] (snd x) (canonicalsW w))
        (fillTarget (fst x) (snd x)) ?Q ?E" for x
    proof (cases "opened h r owner cid input ?i v (fst x)")
      case True
      show ?thesis by (rule ensures_weaken[OF fill_step[OF assms True that]]) auto
    qed (simp add: ensures_def)
    show ?thesis unfolding Inr draftP_cases case_prod_beta by (rule ensures_bind[OF begun fill])
  qed
  show ?thesis
  proof (cases "pi_source input")
    case None
    then show ?thesis unfolding prepareTarget_def Let_def openSource_def
      by (intro ensures_bind[OF quiet[OF admit]]) (auto simp: ensures_def bindA_def checkA_def fromOption_def stopped_def)
  next
    case (Some v)
    have source: "bindA (openSource (Some v)) k = k v" for k :: "draft_view \<Rightarrow> ('r, 'b) publish"
      by (simp add: fun_eq_iff openSource_def bindA_def checkA_def fromOption_def)
    show ?thesis unfolding prepareTarget_def Let_def Some source projectionInput_def[symmetric]
      by (intro ensures_bind[OF quiet[OF admit]] ensures_bind[OF quiet[OF still_simple(4)]] project[OF Some])
  qed
qed

end
