(* ===== verification/PublicationTheorems.thy ===== *)
theory PublicationTheorems
  imports PublicationWhole
begin

text \<open>The promises of the publication preparation: its parts refine the projection of the source, are complete and
  ordered, and stay within the negotiated limits.\<close>

section \<open>Context and seal\<close>

interpretation canonical: world_relation "\<lambda>v w. canonicalsW v = canonicalsW w"
  by unfold_locales auto

lemma sealWork_units: "db_units (sealWork key cid encoded recs db) = db_units db"
  by (simp add: sealWork_def updateCaptures_def updateScopes_def Let_def split: option.split)

lemma seal_units: "seal lim owner cid manifest db = Inr (db', r) \<Longrightarrow> db_units db' = db_units db"
  using seal_effect[of lim owner cid manifest db db' r] sealWork_units by metis

lemma seal_canonicals: "always (\<lambda>v w. canonicalsW v = canonicalsW w) (sealPublicationCapture h tr owner cid input)"
proof -
  have sealing: "always (\<lambda>v w. canonicalsW v = canonicalsW w) (journalW (seal lim owner cid m))" for lim m
    by (auto simp: always_def journalW_def transaction_def Let_def canonicals_def dest: seal_units split: sum.split)
  have inspecting: "always (\<lambda>v w. canonicalsW v = canonicalsW w) (inspectW owner cid k p)" for k p
    unfolding inspectW_def by (rule canonical.always_local) (rule inspect_same)
  have other: "always (\<lambda>v w. canonicalsW v = canonicalsW w) (localW f)" "always (\<lambda>v w. canonicalsW v = canonicalsW w) (remoteW e c s)" for f e c s
    by (auto simp: always_def localW_def remoteW_def split: prod.split)
  show ?thesis unfolding sealPublicationCapture_def Let_def
    by (auto intro!: canonical.always_bind inspecting sealing other canonical.always_check split: prod.split option.split)
qed

lemma context_reads: "reads (publicationPreparationContext h owner cid)"
proof -
  have listing: "reads (journalW (records owner cid SessionRecord None (Some 1)))"
    by (rule reads_journal) (auto simp: records_def bindE_Inr_iff)
  show ?thesis unfolding publicationPreparationContext_def
    by (auto intro!: reads_bind reads_inspect reads_simple listing split: prod.split)
qed

lemma context_fresh:
  assumes "publicationPreparationContext h owner cid w = (w', Inr context)"
  shows "freshFor owner cid (canonicalsW w)"
proof -
  obtain c where c: "inspectW owner cid Canonical False w = (w, Inr (c, []))"
  proof -
    obtain res where res: "inspectW owner cid Canonical False w = (w, res)"
      using reads_inspect[of owner cid Canonical False] unfolding reads_def by (metis prod.collapse)
    with assms have "\<exists>c. res = Inr (c, [])"
      by (auto simp: publicationPreparationContext_def bindW_def checkW_def requireP_def split: sum.splits prod.splits if_split_asm)
    with res that show ?thesis by blast
  qed
  then obtain db' where "inspect owner cid Canonical None (Some 1) False (wd_journal w) = Inr (db', (c, []))"
    by (cases "inspect owner cid Canonical None (Some 1) False (wd_journal w)") (auto simp: inspectW_def journalW_def transaction_def Let_def)
  then obtain scope where scope: "ownerScope (wd_journal w) owner = Inr scope"
      "selectAll (\<lambda>u. unitOf (sc_key scope) cid u \<and> un_kind u = Canonical \<and> -1 < un_ordinal u) un_ordinal 1 (db_units (wd_journal w)) = []"
    unfolding inspect_def bindE_Inr_iff journalInteger_Inr by (clarsimp simp: map_is_Nil_conv)
  have key: "sc_key scope = ownerKey owner" using scope(1) by (simp add: ownerScope_Inr ownerKey_def)
  have "filter (\<lambda>u. unitOf (sc_key scope) cid u \<and> un_kind u = Canonical \<and> -1 < un_ordinal u) (db_units (wd_journal w)) = []"
    using arg_cong[OF scope(2), of length] by (simp add: selectAll_def min_def del: filter_empty_conv split: if_split_asm)
  then show ?thesis using key by (auto simp: freshFor_def canonicals_def filter_empty_conv)
qed

lemma whole_publication:
  assumes "publicationPreparationContext h owner cid w = (w, Inr context)"
  shows "case preparePublicationCanonical h tr r owner cid input w of
     (w', Inl e) \<Rightarrow> stopped h owner cid (pc_intent context) (canonicalsW w) (canonicalsW w') \<or>
       (\<exists>a. completed h r owner cid input (pc_intent context) (canonicalsW w) a (canonicalsW w'))
   | (w', Inr a) \<Rightarrow> completed h r owner cid input (pc_intent context) (canonicalsW w) a (canonicalsW w')"
proof -
  let ?base = "canonicalsW w"
  note fresh = context_fresh[OF assms]
  obtain w1 res where run: "prepareTarget h r owner cid input context w = (w1, res)" by fastforce
  note target = prepare_step[OF fresh, of h r input "context"]
  have run_context: "localP (publicationPreparationContext h owner cid) w = (w, Inr context)"
    using assms by (simp add: localP_def rawP_def serviceP_def mapErrorA_def)
  show ?thesis
  proof (cases "validateCanonicalSourceMetadata h owner (pi_adapterVersion input)")
    case (Inl e)
    then show ?thesis by (simp add: preparePublicationCanonical_def draftP_cases failA_def) (simp add: stopped_def)
  next
    case (Inr u)
    show ?thesis
    proof (cases res)
      case (Inl e)
      then have "stopped h owner cid (pc_intent context) ?base (canonicalsW w1)" using ensures_failed[OF target refl] run by simp
      then show ?thesis using Inr Inl run run_context
        by (simp add: preparePublicationCanonical_def draftP_cases bindA_def returnA_def)
    next
      case prepared: (Inr a)
      then have filled: "completed h r owner cid input (pc_intent context) ?base a (canonicalsW w1)" using ensuresD[OF target refl] run by simp
      let ?seal = "sealPublicationCapture h tr owner cid \<lparr>si_nextCheckpoint = pi_nextCheckpoint input,
         si_rawUnits = (case pe_raw a of None \<Rightarrow> 0 | Some a \<Rightarrow> ra_units a), si_records = Some (pe_records a)\<rparr>"
      obtain w2 sealed where seal: "?seal w1 = (w2, sealed)" by fastforce
      then have "canonicalsW w2 = canonicalsW w1" using seal_canonicals unfolding always_def by (metis fst_conv)
      then show ?thesis using Inr prepared run run_context seal filled
        by (cases sealed) (auto simp: preparePublicationCanonical_def draftP_cases bindA_def returnA_def localP_def rawP_def serviceP_def mapErrorA_def)
    qed
  qed
qed

section \<open>The order of the projection\<close>

definition ordered :: "source_projection \<Rightarrow> projection_counts \<Rightarrow> projection_counts \<Rightarrow> adapter_event list \<Rightarrow> bool" where
  "ordered p n m es \<longleftrightarrow> pn_events m = pn_events n + int (length es) \<and>
     map (intValue \<circ> ev_eventIndex) es = map (\<lambda>i. pn_events n + int i) [0..<length es] \<and>
     sorted_wrt (<) (pn_lastOrder n # map (intValue \<circ> ev_sourceOrder) es) \<and>
     pn_lastOrder m = last (pn_lastOrder n # map (intValue \<circ> ev_sourceOrder) es) \<and>
     (\<forall>e\<in>set es. ev_sourceThreadId e \<notin> set (retainedIds (prj_view p)))"

definition metered :: "source_projection \<Rightarrow> projection_counts \<Rightarrow> projection_counts \<Rightarrow> adapter_usage list \<Rightarrow> bool" where
  "metered p n m us \<longleftrightarrow> pn_usage m = pn_usage n + int (length us) \<and>
     (\<forall>u\<in>set us. us_sourceThreadId u \<notin> set (retainedIds (prj_view p)))"

lemma requireD_Inr [success_simps]: "requireD ok e = Inr x \<longleftrightarrow> ok"
  by (simp add: requireD_def)

lemma upto_shift: "map (\<lambda>i. k + int i) [0..<Suc n] = k # map (\<lambda>i. (k + 1) + int i) [0..<n]"
  by (simp add: map_upt_Suc algebra_simps del: upt_Suc)

lemma count_events:
  "foldE (countEvent p) n es = Inr m \<Longrightarrow> ordered p n m es \<and> pn_usage m = pn_usage n"
proof (induction es arbitrary: n)
  case (Cons e es)
  then obtain t where t: "countEvent p n e = Inr t" "foldE (countEvent p) t es = Inr m" by (auto simp: success_simps)
  then have e: "ev_sourceThreadId e \<notin> set (retainedIds (prj_view p))" "intValue (ev_eventIndex e) = pn_events n"
      "pn_lastOrder n < intValue (ev_sourceOrder e)" "t = n\<lparr>pn_events := pn_events n + 1, pn_lastOrder := intValue (ev_sourceOrder e)\<rparr>"
    by (auto simp: countEvent_def success_simps)
  have "ordered p t m es" "pn_usage m = pn_usage t" using Cons.IH[OF t(2)] by auto
  then show ?case using e by (auto simp: ordered_def upto_shift simp del: upt_Suc intro: less_trans)
qed (simp add: ordered_def)

lemma count_usage:
  "foldE (countUsage p) n us = Inr m \<Longrightarrow> metered p n m us \<and> pn_events m = pn_events n \<and> pn_lastOrder m = pn_lastOrder n"
  by (induction us arbitrary: n) (auto simp: success_simps metered_def countUsage_def)

lemma projectedEvent_value: "map (pd_value \<circ> projectedEvent p) es = es" "map (pd_value \<circ> projectedUsage p) us = us"
  by (simp_all add: map_idI projectedEvent_def projectedUsage_def)

lemma frame_counts:
  assumes "projectFrame p f n = Inr ((es, us), m)"
  shows "ordered p n m (map pd_value es)" "metered p n m (map pd_value us)"
proof -
  consider "es = []" "us = []" "m = n" | ready t where "foldE (countEvent p) n (ob_events ready) = Inr t" "foldE (countUsage p) t (usageOf ready) = Inr m"
      "es = map (projectedEvent p) (ob_events ready)" "us = map (projectedUsage p) (usageOf ready)"
    using assms by (auto simp: projectFrame_def success_simps split: if_split_asm)
  then show "ordered p n m (map pd_value es)" "metered p n m (map pd_value us)"
    by (cases; use count_events count_usage in \<open>fastforce simp: ordered_def metered_def projectedEvent_value\<close>)+
qed

lemma sorted_to_last: "sorted_wrt (<) xs \<Longrightarrow> x \<in> set xs \<Longrightarrow> x \<le> last xs" for xs :: "int list"
  by (induction xs) (auto simp: less_imp_le)

lemma sorted_joined:
  fixes as bs :: "int list"
  assumes "sorted_wrt (<) (k # as)" "sorted_wrt (<) (last (k # as) # bs)"
  shows "sorted_wrt (<) (k # as @ bs)" "last (k # as @ bs) = last (last (k # as) # bs)"
proof -
  have "a < b" if "a \<in> set (k # as)" "b \<in> set bs" for a b
    using sorted_to_last[OF assms(1) that(1)] assms(2) that(2) by fastforce
  then have "sorted_wrt (<) ((k # as) @ bs)" using assms unfolding sorted_wrt_append by simp
  then show "sorted_wrt (<) (k # as @ bs)" by simp
  show "last (k # as @ bs) = last (last (k # as) # bs)" by simp
qed

lemma upto_joined: "map (\<lambda>i. k + int i) [0..<a] @ map (\<lambda>i. (k + int a) + int i) [0..<b] = map (\<lambda>i. k + int i) [0..<a + b]"
proof -
  have "map (\<lambda>i. (k + int a) + int i) [0..<b] = map (\<lambda>i. k + int i) (map (\<lambda>i. i + a) [0..<b])" by simp
  also have "map (\<lambda>i. i + a) [0..<b] = [a..<a + b]" by (simp add: map_add_upt add.commute)
  finally show ?thesis by (simp add: upt_add_eq_append[of 0 a b, simplified])
qed

lemma ordered_append:
  assumes "ordered p n m es" "ordered p m k fs"
  shows "ordered p n k (es @ fs)"
proof -
  let ?I = "map (intValue \<circ> ev_eventIndex)" and ?O = "map (intValue \<circ> ev_sourceOrder)"
  have m: "pn_events m = pn_events n + int (length es)" "pn_lastOrder m = last (pn_lastOrder n # ?O es)"
    and es: "?I es = map (\<lambda>i. pn_events n + int i) [0..<length es]" "sorted_wrt (<) (pn_lastOrder n # ?O es)"
    using assms(1) by (simp_all add: ordered_def)
  have fs: "?I fs = map (\<lambda>i. (pn_events n + int (length es)) + int i) [0..<length fs]" "sorted_wrt (<) (last (pn_lastOrder n # ?O es) # ?O fs)"
      "pn_lastOrder k = last (last (pn_lastOrder n # ?O es) # ?O fs)" "pn_events k = pn_events m + int (length fs)"
    using assms(2) m by (simp_all only: ordered_def)
  have "?I (es @ fs) = map (\<lambda>i. pn_events n + int i) [0..<length (es @ fs)]"
    using es(1) fs(1) by (simp only: map_append length_append upto_joined)
  moreover have "sorted_wrt (<) (pn_lastOrder n # ?O (es @ fs))" "pn_lastOrder k = last (pn_lastOrder n # ?O (es @ fs))"
    using sorted_joined[OF es(2) fs(2)] fs(3) by (simp_all only: map_append)
  moreover have "\<forall>e\<in>set (es @ fs). ev_sourceThreadId e \<notin> set (retainedIds (prj_view p))"
    using assms by (auto simp: ordered_def)
  ultimately show ?thesis using fs(4) m(1) by (simp only: ordered_def) simp
qed

lemma metered_append: "metered p n m us \<Longrightarrow> metered p m k vs \<Longrightarrow> metered p n k (us @ vs)"
  by (auto simp: metered_def)

lemma frames_counts:
  assumes "projectFrames p fs = Inr ((es, us), n)"
  shows "ordered p startCounts n (map pd_value es)" "metered p startCounts n (map pd_value us)"
proof -
  have "ordered p startCounts n (map pd_value es) \<and> metered p startCounts n (map pd_value us)" using assms
  proof (induction fs arbitrary: es us n rule: rev_induct)
    case Nil
    then show ?case by (simp add: projectFrames_def ordered_def metered_def)
  next
    case (snoc f fs)
    then obtain es1 us1 t es2 us2 where step: "projectFrames p fs = Inr ((es1, us1), t)" "projectFrame p f t = Inr ((es2, us2), n)"
        "es = es1 @ es2" "us = us1 @ us2"
      by (auto simp: projectFrames_snoc joinFrame_def success_simps)
    show ?case using snoc.IH[OF step(1)] frame_counts[OF step(2)] unfolding step(3,4) map_append
      by (blast intro: ordered_append metered_append)
  qed
  then show "ordered p startCounts n (map pd_value es)" "metered p startCounts n (map pd_value us)" by simp_all
qed

section \<open>The promises\<close>

lemma finished_publication:
  assumes "preparePublicationCanonical h tr r owner cid input w = (w', Inr a)"
  shows "\<exists>i v q k ps es us n counts. pi_source input = Some v \<and> opened h r owner cid input i v q \<and> finishedAt v k \<and>
     canonicalsW w' = canonicalsW w @ partUnits q 0 ps \<and> pe_units a = int (length ps) \<and>
     projectFrames (pq_projection q) (framesOf v (Suc k)) = Inr ((es, us), n) \<and>
     splitInto (map pd_value es) (map pd_value us) ps \<and>
     finishProjection (pq_projection q) n = Inr counts \<and> rm_canonical (pe_records a) = Some counts"
proof -
  obtain cx where cx: "publicationPreparationContext h owner cid w = (w, Inr cx)"
  proof -
    obtain res where res: "publicationPreparationContext h owner cid w = (w, res)"
      using context_reads unfolding reads_def by (metis prod.collapse)
    with assms have "\<exists>cx. res = Inr cx"
      by (cases res) (auto simp: preparePublicationCanonical_def bindA_def draftP_def checkA_def localP_def rawP_def serviceP_def mapErrorA_def
          split: sum.splits prod.splits)
    with res that show ?thesis by blast
  qed
  have "completed h r owner cid input (pc_intent cx) (canonicalsW w) a (canonicalsW w')"
    using whole_publication[OF cx, where tr = tr and r = r and input = input] assms by simp
  then obtain v q k ps es us n counts where whole: "pi_source input = Some v" "opened h r owner cid input (pc_intent cx) v q" "finishedAt v k"
      "written q (canonicalsW w) ps (canonicalsW w')" "pe_units a = int (length ps)"
      "projectFrames (pq_projection q) (framesOf (prj_view (pq_projection q)) (Suc k)) = Inr ((es, us), n)"
      "splitInto (map pd_value es) (map pd_value us) ps" "finishProjection (pq_projection q) n = Inr counts" "rm_canonical (pe_records a) = Some counts"
    unfolding completed_def covers_def by blast
  have v: "prj_view (pq_projection q) = v" using whole(2) projection_fields(3) by (auto simp: opened_def)
  have "canonicalsW w' = canonicalsW w @ partUnits q 0 ps" using whole(4) by (simp add: written_def)
  with whole(1-3,5,7-9) whole(6)[unfolded v] show ?thesis by blast
qed


lemma bare_map: "map bareEvent es = map bareEvent fs \<Longrightarrow> (\<And>e. g (bareEvent e) = g e) \<Longrightarrow> map g es = map g fs"
  using map_map[of g bareEvent] by (metis comp_apply ext)

lemma bare_usage_map: "map bareUsage es = map bareUsage fs \<Longrightarrow> (\<And>e. g (bareUsage e) = g e) \<Longrightarrow> map g es = map g fs"
  using map_map[of g bareUsage] by (metis comp_apply ext)

text \<open>C11: A published target is complete and in order: over all parts together the events are numbered from zero without
  a gap, their source order rises strictly, there are exactly as many events and usage samples as the source's header
  declares, and none of them belongs to a thread the header retains from before.\<close>
theorem publication_complete_and_ordered:
  assumes "preparePublicationCanonical h tr r owner cid input w = (w', Inr a)"
  shows "\<exists>i v q ps. pi_source input = Some v \<and> opened h r owner cid input i v q \<and> canonicalsW w' = canonicalsW w @ partUnits q 0 ps \<and>
     (let es = concat (map fst ps); us = concat (map snd ps); kept = set (retainedIds v) in
      int (length es) = intValue (dt_events (dv_target v)) \<and> int (length us) = intValue (dt_usage (dv_target v)) \<and>
      map (intValue \<circ> ev_eventIndex) es = map int [0..<length es] \<and> sorted_wrt (<) (map (intValue \<circ> ev_sourceOrder) es) \<and>
      ev_sourceThreadId ` set es \<inter> kept = {} \<and> us_sourceThreadId ` set us \<inter> kept = {})"
proof -
  obtain i v q k ps es us n counts where run: "pi_source input = Some v" "opened h r owner cid input i v q"
      "canonicalsW w' = canonicalsW w @ partUnits q 0 ps" "projectFrames (pq_projection q) (framesOf v (Suc k)) = Inr ((es, us), n)"
      "splitInto (map pd_value es) (map pd_value us) ps" "finishProjection (pq_projection q) n = Inr counts"
    using finished_publication[OF assms] by blast
  have v: "prj_view (pq_projection q) = v" using run(2) projection_fields(3) by (auto simp: opened_def)
  let ?es = "concat (map fst ps)" and ?us = "concat (map snd ps)"
  have split: "map bareEvent ?es = map bareEvent (map pd_value es)" "map bareUsage ?us = map bareUsage (map pd_value us)"
    using run(5) by (simp_all add: splitInto_def)
  have same: "map (intValue \<circ> ev_eventIndex) ?es = map (intValue \<circ> ev_eventIndex) (map pd_value es)"
      "map (intValue \<circ> ev_sourceOrder) ?es = map (intValue \<circ> ev_sourceOrder) (map pd_value es)"
      "map ev_sourceThreadId ?es = map ev_sourceThreadId (map pd_value es)" "map us_sourceThreadId ?us = map us_sourceThreadId (map pd_value us)"
    by (rule bare_map[OF split(1)] bare_usage_map[OF split(2)]; simp add: bareEvent_def bareUsage_def)+
  have lengths: "length ?es = length es" "length ?us = length us" using arg_cong[OF split(1), of length] arg_cong[OF split(2), of length] by simp_all
  note counts = frames_counts[OF run(4)]
  have threads: "ev_sourceThreadId ` set ?es = ev_sourceThreadId ` set (map pd_value es)" "us_sourceThreadId ` set ?us = us_sourceThreadId ` set (map pd_value us)"
    using arg_cong[OF same(3), of set] arg_cong[OF same(4), of set] by (simp_all add: image_image)
  have "map (intValue \<circ> ev_eventIndex) ?es = map int [0..<length ?es]" "sorted_wrt (<) (map (intValue \<circ> ev_sourceOrder) ?es)"
    using counts(1) unfolding same(1,2) lengths by (simp_all add: ordered_def startCounts_def)
  moreover have "int (length ?es) = intValue (dt_events (dv_target v))" "int (length ?us) = intValue (dt_usage (dv_target v))"
    using run(6) counts unfolding lengths by (simp_all add: finishProjection_def success_simps v ordered_def metered_def startCounts_def)
  moreover have "ev_sourceThreadId ` set ?es \<inter> set (retainedIds v) = {}" "us_sourceThreadId ` set ?us \<inter> set (retainedIds v) = {}"
    using counts v unfolding threads by (auto simp: ordered_def metered_def)
  ultimately show ?thesis using run(1-3) by (auto simp: Let_def)
qed

section \<open>The limits\<close>

lemma admitted_sizes:
  "admittedParts q n ps \<Longrightarrow> u \<in> set (partUnits q n ps) \<Longrightarrow>
     un_capture u = pq_captureId q \<and> (\<exists>b. un_body u = Some b \<and> int (length b) \<le> pl_partBytes (pq_limits q)) \<and>
     un_ordinal u < pl_parts (pq_limits q) \<and> un_byteCount u \<le> pl_partBytes (pq_limits q)"
  by (induction ps arbitrary: n) (auto simp: partUnit_def newUnit_def admittedPart_def)

lemma partUnits_sum: "sum_list (map un_byteCount (partUnits q n ps)) = partSum (partSize q) n ps"
  by (induction ps arbitrary: n) (simp_all add: partUnit_def newUnit_def)

lemma partUnits_numbers: "map un_ordinal (partUnits q n ps) = map (\<lambda>i. n + int i) [0..<length ps]"
  by (induction ps arbitrary: n) (simp_all add: upto_shift partUnit_def newUnit_def del: upt_Suc)

text \<open>C12: Whatever happens, also when the preparation fails midway, the Canonical units it adds are numbered from zero, belong to
  its capture and stay within the negotiated limits of its context: each part within the part bytes, no more
  parts than admitted, and all together within the target bytes.\<close>
theorem publication_within_limits:
  assumes "publicationPreparationContext h owner cid w = (w, Inr cx)"
  defines "l \<equiv> cb_limits (in_capabilities (pc_intent cx))"
  shows "\<exists>us. canonicalsW (fst (preparePublicationCanonical h tr r owner cid input w)) = canonicalsW w @ us \<and>
     map un_ordinal us = map int [0..<length us] \<and>
     list_all (\<lambda>u. un_capture u = cid \<and> un_ordinal u < pl_parts l \<and>
       (case un_body u of None \<Rightarrow> False | Some b \<Rightarrow> int (length b) \<le> pl_partBytes l)) us \<and>
     (us = [] \<or> sum_list (map un_byteCount us) \<le> pl_targetBytes l)"
proof -
  let ?i = "pc_intent cx"
  obtain w' res where run: "preparePublicationCanonical h tr r owner cid input w = (w', res)" by fastforce
  have "stopped h owner cid ?i (canonicalsW w) (canonicalsW w')"
    using whole_publication[OF assms(1), where tr = tr and r = r and input = input] run
    by (cases res) (auto simp: completed_def covers_def stopped_def broken_def opened_def)
  then consider "canonicalsW w' = canonicalsW w" | q ps where "attached h owner cid ?i q" "written q (canonicalsW w) ps (canonicalsW w')"
    by (auto simp: stopped_def broken_def)
  then show ?thesis
  proof cases
    case 1
    then show ?thesis using run by (intro exI[of _ "[]"]) simp
  next
    case 2
    have len: "length (partUnits q 0 ps) = length ps" by (metis length_map length_upt minus_nat.diff_0 partUnits_numbers)
    have "pq_captureId q = cid" "pq_limits q = l" using 2(1) by (auto simp: attached_def l_def)
    then have "list_all (\<lambda>u. un_capture u = cid \<and> un_ordinal u < pl_parts l \<and>
       (case un_body u of None \<Rightarrow> False | Some b \<Rightarrow> int (length b) \<le> pl_partBytes l)) (partUnits q 0 ps)"
      using 2(2) admitted_sizes[of q 0 ps] by (fastforce simp: list_all_iff written_def)
    moreover have "map un_ordinal (partUnits q 0 ps) = map int [0..<length (partUnits q 0 ps)]"
      using partUnits_numbers[of q 0 ps] len by simp
    moreover have "partUnits q 0 ps = [] \<or> sum_list (map un_byteCount (partUnits q 0 ps)) \<le> pl_targetBytes l"
      using 2(2) \<open>pq_limits q = l\<close> by (cases "ps = []") (simp_all add: partUnits_sum written_def)
    ultimately show ?thesis using run 2(2) by (auto simp: written_def)
  qed
qed

end
