(* ===== verification/SourceComparisonProperties.thy ===== *)
theory SourceComparisonProperties
  imports SourceComparison PublicationTheorems
begin

text \<open>The comparison of a source with its published baseline never writes, and when it finds the source unchanged, every
  record of the fresh projection is published as it is.\<close>

section \<open>Reading only\<close>

definition inert :: "('w, 'e, 'a) action \<Rightarrow> bool" where
  "inert m \<longleftrightarrow> (\<forall>w. fst (m w) = w)"

lemma inert_simple: "inert (returnA x)" "inert (failA e)" "inert (checkA c)" "inert (requireX ok r)" "inert (draftP d)"
  by (simp_all add: inert_def returnA_def failA_def checkA_def requireX_def draftP_def)

lemma inert_bind: "inert m \<Longrightarrow> (\<And>x. inert (k x)) \<Longrightarrow> inert (bindA m k)"
  unfolding inert_def bindA_def by (auto split: prod.split sum.split) (metis fst_conv)+

lemma inert_lift: "inert m \<Longrightarrow> inert (liftX m)" "inert n \<Longrightarrow> inert (rawP n)"
  by (auto simp: inert_def liftX_def rawP_def mapErrorA_def split: prod.split) (metis fst_conv)+

lemma inert_local: "reads m \<Longrightarrow> inert (localP m)"
  unfolding localP_def by (rule inert_lift(2)) (auto simp: inert_def reads_def serviceP_def mapErrorA_def split: prod.split, metis fst_conv)

lemma inert_store: "(\<And>db db' x. f db = Inr (db', x) \<Longrightarrow> db' = db) \<Longrightarrow> inert (storeP f)"
  using inert_local[OF reads_journal] unfolding localP_def storeP_def journalP_def by blast

lemma metadata_same: "sourceMetadata sha owner cid db = Inr (db', x) \<Longrightarrow> db' = db"
  by (auto simp: sourceMetadata_def bindE_Inr_iff split: option.splits)

lemma inert_reads:
  "inert (storeP (recordStatus owner cid key))" "inert (storeP (coverage owner))" "inert (storeP (sourceMetadata sha owner at))"
  "inert (localP (inspectW owner cid k pendingOnly))" "inert (localP (captureRawAuthority h owner cid))"
  by (auto intro!: inert_store inert_local reads_inspect reads_authority dest: status_same coverage_same metadata_same)

lemma inert_validate: "inert (rawP (validateRawPreparationLimits l))"
proof -
  have "inert (requireRaw ok r)" for ok r by (simp add: inert_def requireRaw_def checkA_def)
  then show ?thesis unfolding validateRawPreparationLimits_def by (intro inert_lift inert_bind)
qed

lemma inert_source: "inert (rawP (rawSourceRecord h r key raw))"
proof -
  have "inert (requireRaw ok r)" for ok r by (simp add: inert_def requireRaw_def checkA_def)
  then show ?thesis unfolding rawSourceRecord_def Let_def
    by (auto intro!: inert_lift inert_bind inert_simple split: option.split)
qed

lemma inert_admit: "inert (admitComparison h owner input)"
  unfolding admitComparison_def
  by (auto intro!: inert_bind inert_lift(1) inert_simple inert_validate inert_local reads_simple split: option.split)

lemma inert_unique: "inert (uniqueRecord x seen key)"
  unfolding uniqueRecord_def by (intro inert_bind inert_simple)

lemma inert_match: "inert (matchRecord x seen e)"
  unfolding matchRecord_def by (intro inert_bind inert_unique inert_lift(1) inert_reads inert_simple)

lemma inert_all: "inert (matchAll x seen es)"
  by (induction es arbitrary: seen) (auto intro!: inert_simple inert_bind inert_match split: option.split)

lemma inert_changed: "inert (rawRecordChanged x a found prior)"
proof -
  have pending: "inert (pendingChanged x a c)" for a c
    unfolding pendingChanged_def by (auto intro!: inert_bind inert_lift(1) inert_reads inert_simple split: prod.split)
  show ?thesis unfolding rawRecordChanged_def
    by (auto intro!: inert_simple pending split: option.split record_disposition.split prod.split)
qed

lemma inert_raw: "inert (compareRaw x f s)"
  unfolding compareRaw_def Let_def
  by (auto intro!: inert_bind inert_lift(1) inert_source inert_unique inert_reads inert_changed inert_simple split: option.split bool.split prod.split)

lemma inert_frame: "inert (compareFrame x s f)"
  unfolding compareFrame_def
  by (auto intro!: inert_bind inert_lift(1) inert_simple inert_all inert_raw split: option.split prod.split)

lemma inert_frames: "inert (compareFrames x s fs)"
  by (induction fs arbitrary: s) (auto intro!: inert_simple inert_bind inert_frame split: option.split)

lemma inert_pages: "inert (compareSource x pages s :: ('r, comparison_state option) comparing)"
proof (induction x pages s rule: compareSource.induct)
  case (1 x pages s)
  show ?case
    by (subst compareSource.simps)
      (auto intro!: inert_simple inert_bind inert_frames 1 split: option.split sum.split)
qed

lemma inert_records: "inert (compareRecords x)"
  unfolding compareRecords_def
  by (auto intro!: inert_bind inert_all inert_pages inert_lift(1) inert_reads inert_simple split: option.split)

lemma reads_failure: "reads (failW e)"
  by (simp add: reads_def failW_def)

lemma inert_context: "reads (sourceComparisonContext h owner)"
  unfolding sourceComparisonContext_def
  by (auto intro!: reads_bind reads_inspect reads_simple reads_failure reads_journal split: option.split prod.split dest: coverage_same)

lemma inert_baseline: "inert (compareBaseline h r owner input c)"
  unfolding compareBaseline_def Let_def openSource_def
  by (auto intro!: inert_bind inert_lift(1) inert_reads inert_simple inert_records)

lemma inert_comparison: "inert (comparePublicationSource h r owner input expired)"
  unfolding comparePublicationSource_def
  by (auto intro!: inert_bind inert_admit inert_simple inert_lift(1) inert_local inert_context inert_baseline split: option.split)

text \<open>C14: The comparison of a source is read-only: whatever it finds, also when it fails or its deadline expires, the journal, the remote
  services and the record of remote calls are as before.\<close>
theorem comparison_is_read_only:
  "fst (comparePublicationSource h r owner input expired w) = w"
  using inert_comparison unfolding inert_def by blast

section \<open>Unchanged sources\<close>

text \<open>The capture holds the record as published, with the fingerprint and under the profile of the fresh projection.\<close>

definition publishedIn :: "capture_owner \<Rightarrow> string \<Rightarrow> string \<Rightarrow> journal_db \<Rightarrow> record_key \<times> string \<Rightarrow> bool" where
  "publishedIn owner cid profile db entry \<longleftrightarrow> (\<exists>prior. recordStatus owner cid (fst entry) db = Inr (db, prior) \<and>
     publishedAs profile (snd entry) prior)"

abbreviation matched :: "baseline_check \<Rightarrow> 'r world \<Rightarrow> record_key \<times> string \<Rightarrow> bool" where
  "matched x w \<equiv> publishedIn (xb_owner x) (xb_captureId x) (prj_profile (xb_projection x)) (wd_journal w)"

definition results :: "('w \<Rightarrow> 'w \<times> ('e + 'a)) \<Rightarrow> 'w \<Rightarrow> 'a \<Rightarrow> bool" where
  "results m w v \<longleftrightarrow> snd (m w) = Inr v"

lemma results_bind:
  assumes "inert m"
  shows "results (bindA m k) w v \<longleftrightarrow> (\<exists>y. results m w y \<and> results (k y) w v)"
proof -
  obtain res where m: "m w = (w, res)" using assms unfolding inert_def by (metis prod.collapse)
  then show ?thesis by (cases res) (auto simp: results_def bindA_def)
qed

lemma results_simple [simp]:
  "results (returnA y) w v \<longleftrightarrow> y = v" "results (failA e) w v \<longleftrightarrow> False" "results (requireX ok r) w u \<longleftrightarrow> ok"
  "results (liftX (draftP d)) w v \<longleftrightarrow> d = Inr v"
  by (auto simp: results_def returnA_def failA_def requireX_def checkA_def liftX_def mapErrorA_def draftP_def) (cases d; simp)+

lemma results_status: "results (liftX (storeP (recordStatus owner cid key))) w prior \<Longrightarrow> recordStatus owner cid key (wd_journal w) = Inr (wd_journal w, prior)"
  by (cases "recordStatus owner cid key (wd_journal w)")
    (auto simp: results_def liftX_def storeP_def rawP_def journalP_def serviceP_def mapErrorA_def journalW_def transaction_def Let_def dest: status_same)

lemma matched_one:
  assumes "results (matchRecord x seen e) w (Some seen')"
  shows "matched x w e"
proof -
  obtain prior where "results (liftX (storeP (recordStatus (xb_owner x) (xb_captureId x) (fst e)))) w prior"
      "publishedAs (prj_profile (xb_projection x)) (snd e) prior"
    using assms by (auto simp: matchRecord_def results_bind inert_unique inert_lift(1) inert_reads(1) split: if_split_asm)
  then show ?thesis using results_status unfolding publishedIn_def by blast
qed

lemma matched_all:
  "results (matchAll x seen es) w (Some seen') \<Longrightarrow> list_all (matched x w) es"
proof (induction es arbitrary: seen)
  case (Cons e es)
  then show ?case by (auto simp: results_bind[OF inert_match] split: option.splits dest: matched_one[of x seen e])
qed simp

lemma raw_counts:
  assumes "results (compareRaw x f s) w s'"
  shows "xs_counts s' = xs_counts s"
  using assms
  by (auto simp: compareRaw_def results_bind inert_lift(1) inert_source inert_unique inert_reads inert_changed Let_def
      split: option.splits prod.splits bool.splits)

lemma compared_frame:
  assumes "results (compareFrame x s f) w (Some s')"
  shows "\<exists>ready. projectFrame (xb_projection x) f (xs_counts s) = Inr (ready, xs_counts s') \<and> list_all (matched x w) (frameEntries ready)"
proof -
  obtain ready n seen where *: "projectFrame (xb_projection x) f (xs_counts s) = Inr (ready, n)"
      "results (matchAll x (xs_seen s) (frameEntries ready)) w (Some seen)"
      "results (compareRaw x f (s\<lparr>xs_seen := seen, xs_counts := n, xs_frames := xs_frames s + 1\<rparr>)) w s'"
    using assms by (auto simp: compareFrame_def results_bind inert_simple inert_lift(1) inert_all inert_raw split: option.splits prod.splits)
  have "xs_counts s' = n" using raw_counts[OF *(3)] by simp
  then show ?thesis using *(1) matched_all[OF *(2)] by blast
qed

text \<open>The frames compared so far, all published.\<close>

definition comparedTo :: "baseline_check \<Rightarrow> journal_db \<Rightarrow> draft_frame list \<Rightarrow> projection_counts \<Rightarrow> bool" where
  "comparedTo x db fs n \<longleftrightarrow> (\<exists>es us. projectFrames (xb_projection x) fs = Inr ((es, us), n) \<and>
     list_all (publishedIn (xb_owner x) (xb_captureId x) (prj_profile (xb_projection x)) db) (frameEntries (es, us)))"

lemma compared_snoc:
  assumes "comparedTo x db fs n" "projectFrame (xb_projection x) f n = Inr (ready, m)" "list_all (publishedIn (xb_owner x) (xb_captureId x) (prj_profile (xb_projection x)) db) (frameEntries ready)"
  shows "comparedTo x db (fs @ [f]) m"
  using assms by (cases ready) (auto simp: comparedTo_def projectFrames_snoc joinFrame_def frameEntries_def)

lemma compared_frames:
  "results (compareFrames x s gs) w (Some s') \<Longrightarrow> comparedTo x (wd_journal w) fs (xs_counts s) \<Longrightarrow>
     comparedTo x (wd_journal w) (fs @ gs) (xs_counts s')"
proof (induction gs arbitrary: s fs)
  case (Cons g gs)
  then obtain t where t: "results (compareFrame x s g) w (Some t)" "results (compareFrames x t gs) w (Some s')"
    by (auto simp: results_bind[OF inert_frame] split: option.splits)
  have "comparedTo x (wd_journal w) (fs @ [g]) (xs_counts t)"
    using compared_frame[OF t(1)] compared_snoc[OF Cons.prems(2)] by blast
  from Cons.IH[OF t(2) this] show ?case by simp
qed simp

lemma compared_pages:
  fixes w :: "'r world"
  assumes "results (compareSource x pages s) w (Some s')" "unfinished (prj_view (xb_projection x)) pages"
    "comparedTo x (wd_journal w) (framesOf (prj_view (xb_projection x)) pages) (xs_counts s)"
  shows "\<exists>k. finishedAt (prj_view (xb_projection x)) k \<and> comparedTo x (wd_journal w) (framesOf (prj_view (xb_projection x)) (Suc k)) (xs_counts s')"
  using assms
proof (induction x pages s rule: compareSource.induct)
  case (1 x pages s)
  let ?v = "prj_view (xb_projection x)"
  from "1.prems"(1) obtain page later t where step: "dv_read ?v pages = Some page" "projectPage page pages = Inr later"
      "results (compareFrames x s (dp_frames page)) w (Some t)"
      "results (if dp_done page then returnA (Some t) else compareSource x later t :: ('r, comparison_state option) comparing) w (Some s')"
    by (subst (asm) compareSource.simps) (auto simp: results_bind[OF inert_frames] split: option.splits sum.splits)
  have later: "later = Suc pages" "pages \<le> 1000000" using projectPage_bound[OF step(2)] by auto
  have now: "comparedTo x (wd_journal w) (framesOf ?v (Suc pages)) (xs_counts t)"
    using compared_frames[OF step(3) "1.prems"(3)] framesOf_Suc[OF step(1)] by simp
  show ?case
  proof (cases "dp_done page")
    case True
    then show ?thesis using step now later "1.prems"(2) by (auto simp: finishedAt_def)
  next
    case False
    then show ?thesis using "1.IH"[OF step(1,2) refl False] step(4) now later unfinished_Suc[OF "1.prems"(2) step(1)] by simp
  qed
qed

section \<open>The promise\<close>

lemma results_local:
  assumes "reads m"
  shows "results (liftX (localP m)) w v \<longleftrightarrow> m w = (w, Inr v)"
proof -
  obtain res where "m w = (w, res)" using assms unfolding reads_def by (metis prod.collapse)
  then show ?thesis by (cases res) (simp_all add: results_def liftX_def localP_def rawP_def serviceP_def mapErrorA_def)
qed

lemma results_draft [simp]: "results (liftX (openSource v)) w y \<longleftrightarrow> v = Some y"
  by (cases v) (auto simp: results_def liftX_def openSource_def checkA_def fromOption_def mapErrorA_def)

lemma inert_opening: "inert (openSource v)"
  by (cases v) (simp_all add: inert_def openSource_def checkA_def fromOption_def)

lemma changed_result [simp]: "xr_changed (changedResult r input v)"
  by (simp add: changedResult_def Let_def)

lemma unchanged_records:
  fixes w :: "'r world"
  assumes "results (compareRecords x) w (Some result)"
  shows "list_all (matched x w) (headEntries (xb_projection x))"
    "\<exists>k n counts. finishedAt (prj_view (xb_projection x)) k \<and>
       comparedTo x (wd_journal w) (framesOf (prj_view (xb_projection x)) (Suc k)) n \<and> finishProjection (xb_projection x) n = Inr counts"
proof -
  let ?start = "\<lparr>xs_seen = [], xs_counts = startCounts, xs_frames = 0, xs_rawChanged = archiveChanged x, xs_rawCount = 0\<rparr>"
  obtain seen s counts where run: "results (matchAll x [] (headEntries (xb_projection x))) w (Some seen)"
      "results (compareSource x 0 (?start\<lparr>xs_seen := seen\<rparr>) :: ('r, comparison_state option) comparing) w (Some s)"
      "finishProjection (xb_projection x) (xs_counts s) = Inr counts"
    using assms by (auto simp: compareRecords_def results_bind inert_all inert_pages inert_lift(1) inert_reads inert_simple split: option.splits)
  show "list_all (matched x w) (headEntries (xb_projection x))" using matched_all[OF run(1)] .
  have "comparedTo x (wd_journal w) (framesOf (prj_view (xb_projection x)) 0) startCounts"
    by (simp add: comparedTo_def projectFrames_def framesOf_def frameEntries_def)
  moreover have "unfinished (prj_view (xb_projection x)) 0" by (simp add: unfinished_def)
  ultimately show "\<exists>k n counts. finishedAt (prj_view (xb_projection x)) k \<and>
       comparedTo x (wd_journal w) (framesOf (prj_view (xb_projection x)) (Suc k)) n \<and> finishProjection (xb_projection x) n = Inr counts"
    using compared_pages[OF run(2)] run(3) by auto
qed

lemma unchanged_baseline:
  fixes w :: "'r world"
  assumes "results (comparePublicationSource h r owner input expired) w result" "\<not> xr_changed result"
  shows "\<exists>c v prior p expected x. sourceComparisonContext h owner w = (w, Inr (Some c)) \<and> xi_source input = Some v \<and>
     canonicalSourceProjection h r owner v \<lparr>ji_captureId = ''source-comparison'', ji_observedAt = xi_observedAt input,
       ji_adapterVersion = xi_adapterVersion input, ji_transformVersion = xi_transformVersion input\<rparr> = Inr p \<and>
     canonicalRecords (cx_capture c) = Some expected \<and> sameTarget expected v prior \<and>
     xb_owner x = owner \<and> xb_context x = c \<and> xb_projection x = p \<and> results (compareRecords x) w (Some result)"
proof -
  obtain c where c: "sourceComparisonContext h owner w = (w, Inr (Some c))" "results (compareBaseline h r owner input c) w result"
    using assms by (auto simp: comparePublicationSource_def results_bind inert_simple inert_admit inert_lift(1) inert_local inert_context
        results_local split: option.splits if_split_asm)
  from c(2) assms(2) obtain v prior p out where run: "xi_source input = Some v"
     "canonicalSourceProjection h r owner v \<lparr>ji_captureId = ''source-comparison'', ji_observedAt = xi_observedAt input,
       ji_adapterVersion = xi_adapterVersion input, ji_transformVersion = xi_transformVersion input\<rparr> = Inr p"
     "case canonicalRecords (cx_capture c) of None \<Rightarrow> False | Some expected \<Rightarrow> sameTarget expected v prior"
     "results (compareRecords \<lparr>xb_host = h, xb_redactor = r, xb_owner = owner, xb_input = input, xb_context = c, xb_projection = p\<rparr>) w out"
     "result = (case out of None \<Rightarrow> changedResult r input (Some v) | Some v \<Rightarrow> v)"
    by (auto simp: compareBaseline_def Let_def results_bind inert_simple inert_lift(1) inert_reads inert_records inert_opening split: if_split_asm)
  have "out = Some result" using run(5) assms(2) by (cases out) auto
  obtain expected where "canonicalRecords (cx_capture c) = Some expected" "sameTarget expected v prior"
    using run(3) by (auto split: option.splits)
  then show ?thesis using c(1) run(1,2,4) \<open>out = Some result\<close>
    by (intro exI[of _ c] exI[of _ v] exI[of _ prior] exI[of _ p] exI[of _ expected]
        exI[of _ "\<lparr>xb_host = h, xb_redactor = r, xb_owner = owner, xb_input = input, xb_context = c, xb_projection = p\<rparr>"]) simp
qed

text \<open>C13: A source found unchanged is published as it is: the baseline of the comparison is an activated capture, the fresh projection of
  the source was read to its last page, and its session, its threads and every event and usage of its frames are
  recorded in that capture as published, with the fingerprint and profile they have now; the capture counts
  exactly as many records of each kind.\<close>
theorem comparison_unchanged_is_published:
  assumes "snd (comparePublicationSource h r owner input expired w) = Inr result" "\<not> xr_changed result"
  shows "\<exists>c v p k es us n expected. sourceComparisonContext h owner w = (w, Inr (Some c)) \<and> xi_source input = Some v \<and>
     canonicalSourceProjection h r owner v \<lparr>ji_captureId = ''source-comparison'', ji_observedAt = xi_observedAt input,
       ji_adapterVersion = xi_adapterVersion input, ji_transformVersion = xi_transformVersion input\<rparr> = Inr p \<and>
     finishedAt v k \<and> projectFrames p (framesOf v (Suc k)) = Inr ((es, us), n) \<and>
     list_all (publishedIn owner (sm_id (cx_capture c)) (prj_profile p) (wd_journal w)) (headEntries p @ frameEntries (es, us)) \<and>
     canonicalRecords (cx_capture c) = Some expected \<and> rc_session expected = 1 \<and> rc_thread expected = int (length (dv_threads v)) \<and>
     rc_event expected = int (length es) \<and> rc_usage expected = int (length us)"
proof -
  have "results (comparePublicationSource h r owner input expired) w result" using assms(1) by (simp add: results_def)
  from unchanged_baseline[OF this assms(2)] obtain c v prior p x expected where run:
      "sourceComparisonContext h owner w = (w, Inr (Some c))" "xi_source input = Some v"
      "canonicalSourceProjection h r owner v \<lparr>ji_captureId = ''source-comparison'', ji_observedAt = xi_observedAt input,
       ji_adapterVersion = xi_adapterVersion input, ji_transformVersion = xi_transformVersion input\<rparr> = Inr p"
      "canonicalRecords (cx_capture c) = Some expected" "sameTarget expected v prior"
      "xb_owner x = owner" "xb_context x = c" "xb_projection x = p" "results (compareRecords x) w (Some result)"
    by blast
  have v: "prj_view p = v" using projection_fields(3)[OF run(3)] .
  obtain k es us n counts where ends: "finishedAt v k" "projectFrames p (framesOf v (Suc k)) = Inr ((es, us), n)"
      "list_all (publishedIn owner (sm_id (cx_capture c)) (prj_profile p) (wd_journal w)) (frameEntries (es, us))"
      "finishProjection p n = Inr counts"
    using unchanged_records(2)[OF run(9)] run(6-8) v by (auto simp: comparedTo_def)
  have lengths: "int (length es) = intValue (dt_events (dv_target v))" "int (length us) = intValue (dt_usage (dv_target v))"
    using ends(4) frames_counts[OF ends(2)] by (simp_all add: finishProjection_def success_simps v ordered_def metered_def startCounts_def)
  have "consistentTarget v" using run(3) by (auto simp: canonicalSourceProjection_def success_simps)
  then have "rc_session expected = 1 \<and> rc_thread expected = int (length (dv_threads v)) \<and>
     rc_event expected = int (length es) \<and> rc_usage expected = int (length us)"
    using run(5) lengths by (simp add: sameTarget_def consistentTarget_def Let_def)
  then show ?thesis using run ends unchanged_records(1)[OF run(9)] by auto
qed

end
