(* ===== verification/PublicationWitnesses.thy ===== *)
theory PublicationWitnesses
  imports SourceComparisonProperties DeliveryWitnesses CollectorAdmission
begin

text \<open>A source of one event, prepared for publication on a concrete journal, and compared with its published baseline.\<close>

section \<open>The source\<close>

definition pubHost :: host where
  "pubHost = (demoHost ''p'')\<lparr>ho_limits := \<lparr>lim_unitBytes = 65536, lim_targetBytes = 262144, lim_pendingBytes = 1048576,
     lim_unitsPerTarget = 4, lim_recordsPerTarget = Some 8, lim_metadataEntries = 64\<rparr>\<rparr>"

definition pubRedactor :: redactor where
  "pubRedactor = \<lparr>rd_policyId = None, rd_policy = None, rd_redact = (\<lambda>t. (t, 0))\<rparr>"

definition pubEvent :: adapter_event where
  "pubEvent = \<lparr>ev_sourceEventId = ''e'', ev_sourceThreadId = ''t'', ev_revision = Whole 1, ev_projectionRevision = Whole 1,
     ev_sourceOrder = Whole 0, ev_eventIndex = Whole 0, ev_orderFidelity = OrderNative, ev_fidelity = FidelityNative,
     ev_rawRef = placeholderRef, ev_occurredAt = Some ''2024-05-01T10:00:00Z'',
     ev_update = UserMessageChunk (TextContent ''hi'') None, ev_childSourceThreadId = None\<rparr>"

definition pubFrame :: draft_frame where
  "pubFrame = \<lparr>fr_recordKey = ''k'', fr_events = [pubEvent], fr_usage = [], fr_raw = None\<rparr>"

definition pubView :: draft_view where
  "pubView = \<lparr>dv_profile = ''d'', dv_canonicalProfile = None, dv_sourceId = ''se'', dv_originKey = ''or'',
     dv_session = \<lparr>as_sourceSessionId = ''se'', as_revision = Whole 1, as_title = ''x'', as_summary = [], as_insight = [],
       as_actor = \<lparr>ac_name = ''v'', ac_harness = ''w''\<rparr>, as_branch = ''b'', as_status = SessionActive,
       as_captureStatus = CaptureHealthy, as_updatedAt = Some ''2024-05-01T10:00:00Z'', as_reportedEventCount = Whole 1\<rparr>,
     dv_threads = [\<lparr>at_sourceThreadId = ''t'', at_parent = None, at_revision = Whole 1, at_label = ''l'', at_summary = [],
       at_captureStatus = CaptureHealthy\<rparr>],
     dv_target = \<lparr>dt_events = Whole 1, dt_usage = Whole 0, dt_threads = Whole 1, dt_retained = None\<rparr>,
     dv_checkpoint = None, dv_failures = None, dv_truncated = None,
     dv_read = (\<lambda>_. Some \<lparr>dp_frames = [pubFrame], dp_done = True\<rparr>)\<rparr>"

section \<open>Its projection\<close>

definition pubProjecting :: "string \<Rightarrow> projection_input" where
  "pubProjecting i = \<lparr>ji_captureId = i, ji_observedAt = ''2024-05-01T10:00:00Z'', ji_adapterVersion = ''1'', ji_transformVersion = demoTransform\<rparr>"

definition pubProjectionOf :: "host \<Rightarrow> string \<Rightarrow> source_projection" where
  "pubProjectionOf h i = \<lparr>prj_host = h, prj_redactor = pubRedactor, prj_owner = demoOwner, prj_view = pubView, prj_input = pubProjecting i,
     prj_profile = ''atape.host-canonical.v1:atape.host-redaction.v2:p:d'', prj_canonicalProfile = Profile2,
     prj_masked = draftObservation pubView (pubProjecting i) [] []\<rparr>"

abbreviation pubObserved :: "string \<Rightarrow> adapter_event list \<Rightarrow> adapter_observation" where
  "pubObserved i es \<equiv> draftObservation pubView (pubProjecting i) es []"

lemma pub_observation:
  "pubObserved i es = \<lparr>ob_observationId = i, ob_observedAt = ''2024-05-01T10:00:00Z'', ob_session = dv_session pubView,
     ob_threads = dv_threads pubView, ob_events = es, ob_usage = Some [], ob_rawSegments = []\<rparr>"
  by (simp add: draftObservation_def pubView_def pubProjecting_def)

lemma pub_bytes:
  "length (stringify (canonicalJson (pubObserved ''c1'' []))) \<le> 1024" "length (stringify (canonicalJson (pubObserved ''c1'' [pubEvent]))) \<le> 1024"
  "length (stringify (canonicalJson (pubObserved ''source-comparison'' []))) \<le> 1024"
  "length (stringify (canonicalJson (pubObserved ''source-comparison'' [pubEvent]))) \<le> 1024"
  by code_simp+

lemma pub_valid: "validateObservation Profile2 [] (pubObserved i es) = Inr [i]" if "i = ''c1'' \<or> i = ''source-comparison''" "es = [] \<or> es = [pubEvent]"
  using that pub_bytes unfolding pub_observation
  by (auto simp: validateObservation_def requireC_def pubView_def pubEvent_def placeholderRef_def text_bounds demo_clock
      validSourceTimestamp_def hasNullableSourceClocks_def validSession_def positiveInteger_def nonNegativeInteger_def
      AdapterCollectionLimits_def validTopology_def validThread_def hasThreadCycle_def parentPairs_def keyed_def
      validEvent_def validAcpUpdate_def validMessage_def validContentBlock_def validRawRef_def safe_integer_def max_safe_integer_def)

lemma pub_prepared: "prepareDraft pubRedactor (pubObserved i es) Profile2 = Inr (pubObserved i es)" if "i = ''c1'' \<or> i = ''source-comparison''" "es = [] \<or> es = [pubEvent]"
proof -
  have "admittedObservation (pubObserved i es)"
    using that unfolding pub_observation by (auto simp: admittedObservation_def pubView_def pubEvent_def admittedUpdate_def)
  then have "decodeObservation (observationJson (pubObserved i es)) = Some (pubObserved i es)" by (rule observation_codec.decode_encode)
  moreover have "validatePage None (slicePage (pubObserved i es)) Profile2 = Inr ()"
    using pub_valid[OF that] by (simp add: validatePage_def slicePage_def requireC_def validCursor_def AdapterCollectionLimits_def
        MaxSourceFailures_def utf16_length_def utf16_units_def code_def Let_def)
  moreover have "\<exists>rep. prepareCanonicalRedaction pubRedactor (pubObserved i es) = Inr (pubObserved i es, rep)"
    using that unfolding pub_observation
    by (auto simp: prepareCanonicalRedaction_def prepareCanonical_def prepared_def canonicalV_def pubView_def pubEvent_def placeholderRef_def
        pubRedactor_def sessionV_def threadV_def eventV_def updateV_def contentV_def refV_def optionV_def bindV_def returnV_def
        textV_plain opensJson_plain code_def compatibleEngine_def metadataChanged_def updateMeta_def freshVisit_def emptyReport_def ContentBytes_def)
  moreover have "ob_rawSegments (pubObserved i es) = []" by (simp add: pub_observation)
  ultimately show ?thesis by (auto simp: prepareDraft_def prepareCanonicalSlice_def redactContract_def requireC_def)
qed

lemma pub_projection:
  assumes "i = ''c1'' \<or> i = ''source-comparison''"
  shows "canonicalSourceProjection h pubRedactor demoOwner pubView (pubProjecting i) = Inr (pubProjectionOf h i)"
proof -
  have "sourceProjectionProfile pubView demoTransform = Inr (Profile2, ''atape.host-canonical.v1:atape.host-redaction.v2:p:d'')"
    "boundOrigin demoOwner pubView" "consistentTarget pubView" "consistentRetained pubView"
    by code_simp+
  then show ?thesis using pub_prepared[OF assms, of "[]"]
    by (simp add: canonicalSourceProjection_def requireD_def pubProjectionOf_def) (simp add: pubProjecting_def)
qed

abbreviation pubProjection :: source_projection where
  "pubProjection \<equiv> pubProjectionOf pubHost ''c1''"

definition pubCounts :: projection_counts where
  "pubCounts = \<lparr>pn_events = 1, pn_usage = 0, pn_lastOrder = 0\<rparr>"

definition pubReady :: "adapter_event projected" where
  "pubReady = \<lparr>pd_value = pubEvent, pd_key = demoSha, pd_fingerprint = demoSha\<rparr>"

lemma pub_sha: "hashJson pubHost j = demoSha"
  by (simp add: hashJson_def pubHost_def demoHost_def Let_def)

lemma pub_frame_projected:
  assumes "i = ''c1'' \<or> i = ''source-comparison''"
  shows "projectFrame (pubProjectionOf h i) pubFrame startCounts = Inr (([projectedEvent (pubProjectionOf h i) pubEvent], []), pubCounts)"
proof -
  have observed: "frameObservation (pubProjectionOf h i) pubFrame = pubObserved i [pubEvent]"
    by (simp add: frameObservation_def pubProjectionOf_def pubFrame_def pubEvent_def)
  have counts: "countEvent (pubProjectionOf h i) startCounts pubEvent = Inr pubCounts"
    by (simp add: countEvent_def requireD_def pubProjectionOf_def pubView_def retainedIds_def pubEvent_def startCounts_def pubCounts_def)
  have fields: "prj_redactor (pubProjectionOf h i) = pubRedactor" "prj_canonicalProfile (pubProjectionOf h i) = Profile2"
    "fr_events pubFrame = [pubEvent]" "fr_usage pubFrame = []" "ob_events (pubObserved i [pubEvent]) = [pubEvent]" "usageOf (pubObserved i [pubEvent]) = []"
    by (simp_all add: pubProjectionOf_def pubFrame_def pub_observation usageOf_def)
  show ?thesis using pub_prepared[OF assms, of "[pubEvent]"] counts
    by (simp add: projectFrame_def requireD_def fields observed)
qed

lemma pub_frame: "projectFrame pubProjection pubFrame startCounts = Inr (([pubReady], []), pubCounts)"
proof -
  have "projectedEvent pubProjection pubEvent = pubReady"
    by (simp add: projectedEvent_def pubReady_def eventFingerprint_def pubProjectionOf_def pub_sha)
  then show ?thesis using pub_frame_projected[of "''c1''" pubHost] by simp
qed

section \<open>The metadata reads back\<close>

lemma source_metadata_roundtrip_witness:
  "\<exists>t. t = sourceMetadataJson pubRedactor (pubView\<lparr>dv_checkpoint := Some ''c''\<rparr>) (dv_threads pubView) \<and>
     decodeSourceMetadata (Some t) = Inr (frozenMetadata pubRedactor (pubView\<lparr>dv_checkpoint := Some ''c''\<rparr>) None (dv_threads pubView))"
proof -
  let ?v = "pubView\<lparr>dv_checkpoint := Some ''c''\<rparr>"
  have "dv_canonicalProfile ?v = map_option profileText None" "length (dv_threads pubView) \<le> 1000"
    "length (retainedIds ?v) \<le> 1000" "length (case dv_failures ?v of None \<Rightarrow> [] | Some fs \<Rightarrow> fs) \<le> 32"
    by (simp_all add: pubView_def retainedIds_def)
  moreover have "1 \<le> utf16_length c \<and> int (utf16_length c) \<le> 1024 * 1024" if "dv_checkpoint ?v = Some c" for c
    using that by (auto simp: utf16_length_def utf16_units_def code_def)
  moreover have "int (length (sourceMetadataJson pubRedactor ?v (dv_threads pubView))) \<le> 2 * 1024 * 1024"
    by code_simp
  ultimately show ?thesis using source_metadata_roundtrip[of ?v None] by simp
qed

end
