(* ===== verification/PublicationRun.thy ===== *)
theory PublicationRun
  imports PublicationWitnesses
begin

text \<open>The preparation of the demonstration source runs to its end: its context, its one part and its seal.\<close>

section \<open>The open capture\<close>

definition pubLimits :: publication_limits where
  "pubLimits = \<lparr>pl_partBytes = 16384, pl_targetBytes = 65536, pl_userPendingBytes = 65536, pl_parts = 4, pl_reservations = 1,
     pl_reservationLifetimeMs = 1, pl_leaseLifetimeMs = 1\<rparr>"

definition pubIntent :: publication_intent where
  "pubIntent = demoIntent\<lparr>in_capabilities := \<lparr>cb_targetProfiles = None, cb_legacyAdoption = None, cb_limits = pubLimits\<rparr>\<rparr>"

text \<open>The journal with the first records of the source versioned, a part in it and the first records bound to the part.\<close>

definition pubKey :: string where
  "pubKey = [CHR ''['', CHR 0x22, CHR ''p'', CHR ''r'', CHR 0x22, CHR '','', CHR 0x22, CHR ''a'', CHR ''d'', CHR 0x22, CHR '','', CHR 0x22, CHR ''s'', CHR ''e'', CHR 0x22, CHR '']'']"

definition pubPlaceholder :: string where
  "pubPlaceholder = [CHR ''{'', CHR 0x22, CHR ''_'', CHR ''t'', CHR ''a'', CHR ''g'', CHR 0x22, CHR '':'', CHR 0x22, CHR ''u'', CHR ''n'', CHR ''a'', CHR ''v'', CHR ''a'', CHR ''i'', CHR ''l'', CHR ''a'', CHR ''b'', CHR ''l'', CHR ''e'', CHR 0x22,
     CHR '','', CHR 0x22, CHR ''r'', CHR ''e'', CHR ''a'', CHR ''s'', CHR ''o'', CHR ''n'', CHR 0x22, CHR '':'', CHR 0x22, CHR ''R'', CHR ''a'', CHR ''w'', CHR '' '', CHR ''c'', CHR ''a'', CHR ''p'', CHR ''t'', CHR ''u'', CHR ''r'',
     CHR ''e'', CHR '' '', CHR ''d'', CHR ''i'', CHR ''s'', CHR ''a'', CHR ''b'', CHR ''l'', CHR ''e'', CHR ''d'', CHR 0x22, CHR ''}'']"

definition pubRows :: "(record_kind \<times> string \<times> string option) list" where
  "pubRows = [(SessionRecord, ''se'', None), (ThreadRecord, ''t'', None), (EventRecord, demoSha, Some pubPlaceholder)]"

definition pubMember :: "bool \<Rightarrow> record_kind \<times> string \<times> string option \<Rightarrow> member_row" where
  "pubMember bound r = \<lparr>rr_kind = fst r, rr_key = fst (snd r), rr_fingerprint = demoSha,
     rr_projectionVersion = ''atape.host-canonical.v1:atape.host-redaction.v2:p:d'', rr_revision = 1, rr_rawReference = snd (snd r),
     rr_versionCapture = ''c1'', mb_scope = pubKey, mb_capture = ''c1'', mb_unitCapture = (if bound then Some ''c1'' else None),
     mb_unitKind = (if bound then Some Canonical else None), mb_unitOrdinal = (if bound then Some 0 else None), mb_unavailableReason = None\<rparr>"

definition pubVersionRow :: "record_kind \<times> string \<times> string option \<Rightarrow> version_row" where
  "pubVersionRow r = \<lparr>rr_kind = fst r, rr_key = fst (snd r), rr_fingerprint = demoSha,
     rr_projectionVersion = ''atape.host-canonical.v1:atape.host-redaction.v2:p:d'', rr_revision = 1, rr_rawReference = snd (snd r),
     rr_versionCapture = ''c1'', vr_scope = pubKey, vr_comparisonCapture = None\<rparr>"

definition pubUnit :: "string \<Rightarrow> unit_row" where
  "pubUnit t = \<lparr>un_scope = pubKey, un_capture = ''c1'', un_kind = Canonical, un_ordinal = 0, un_byteCount = 1042, un_digest = demoSha,
     un_body = Some t, un_disposition = Pending, un_receiptJson = None\<rparr>"

definition pubCapture :: "string \<Rightarrow> int \<Rightarrow> int \<Rightarrow> capture_row" where
  "pubCapture begins n retained = \<lparr>cp_scope = pubKey, cp_id = ''c1'', cp_expectedCheckpoint = None, cp_beginJson = begins,
     cp_rawEnabled = False, cp_state = Preparing, cp_sealJson = None, cp_activationReceipt = None, cp_rawCancelReason = None,
     cp_rejectionReceipt = None, cp_retainedBytes = retained, cp_purpose = Publication, cp_trackRecords = True, cp_recordCount = n,
     cp_recordsRetired = False, cp_retainedRecords = n, cp_sourceMetadata = None, cp_sourceMetadataSha = None, cp_sourceMetadataBytes = 0\<rparr>"

definition pubScope :: scope_row where
  "pubScope = (newScope pubKey ''or'')\<lparr>sc_recordsInitialized := True\<rparr>"

definition pubJournal :: "string \<Rightarrow> nat \<Rightarrow> string option \<Rightarrow> nat \<Rightarrow> journal_db" where
  "pubJournal begins n part m = \<lparr>db_identity = ''i'', db_retainedBytes = (if part = None then 0 else 1042),
     db_metadataEntries = 2 * int n + (if part = None then 0 else 1), db_metadataBytes = 0, db_scopes = [pubScope],
     db_captures = [pubCapture begins (int n) (if part = None then 0 else 1042)],
     db_units = (case part of None \<Rightarrow> [] | Some t \<Rightarrow> [pubUnit t]), db_versions = map pubVersionRow (take n pubRows),
     db_members = map (pubMember True) (take m pubRows) @ map (pubMember False) (drop m (take n pubRows)), db_migrations = []\<rparr>"

definition pubAttempt :: publication_attempt where
  "pubAttempt = demoAttempt\<lparr>tt_state := AttemptOpen, tt_parts := 0, tt_seal := None, tt_validatedParts := 0, tt_activation := None\<rparr>"

definition pubRemote :: "unit transport" where
  "pubRemote = demoRemote\<lparr>tr_status := (\<lambda>b i r. (r, Inr pubAttempt))\<rparr>"

definition pubWorld :: "journal_db \<Rightarrow> unit world" where
  "pubWorld db = \<lparr>wd_journal = db, wd_remote = (), wd_calls = []\<rparr>"

definition pubBegin :: string where
  "pubBegin = stringify (intentJson pubIntent)"

definition pubSummary :: "int \<Rightarrow> capture_summary" where
  "pubSummary n = (demoSummary Preparing)\<lparr>sm_trackRecords := True, sm_beginJson := pubBegin, sm_retainedBytes := n\<rparr>"

lemma pub_intent: "boundIntent pubHost demoOwner (pubSummary n) = Inr pubIntent"
proof -
  have "admitsIntent pubIntent"
    by (simp add: admitsIntent_def pubIntent_def demoIntent_def admitsBinding_def admitsScope_def admitsBegin_def admitsCapabilities_def
        admitsLimits_def pubLimits_def demoHost_def publicationScope_def demoOwner_def demoTransform_def nameText_def utf16_length_def utf16_units_def code_def)
  from parseP_text[OF intent_codec.text_roundtrip[OF this]] show ?thesis
    by (simp add: boundIntent_def pubSummary_def demoSummary_def pubBegin_def requireP_def checkIntentBinding_def)
      (simp add: pubIntent_def demoIntent_def pubHost_def demoHost_def demoOwner_def publicationScope_def)
qed

definition pubContext :: preparation_context where
  "pubContext = \<lparr>pc_intent = pubIntent, pc_rawEnabled = False, pc_targetProfiles = [Target1, Target5]\<rparr>"

lemma run_inspect: "inspect owner cid k None (Some 1) p (wd_journal w) = Inr (wd_journal w, x) \<Longrightarrow> inspectW owner cid k p w = (w, Inr x)"
  by (simp add: inspectW_def journalW_def transaction_def Let_def)

lemma pub_scopes: "db_scopes db = [pubScope] \<Longrightarrow> ownerScope db demoOwner = Inr pubScope"
proof -
  have "scopeKey (ow_scope demoOwner) = Inr pubKey" "ow_epoch demoOwner = 1" "cs_originKey (ow_scope demoOwner) = ''or''"
    by code_simp+
  then show "db_scopes db = [pubScope] \<Longrightarrow> ownerScope db demoOwner = Inr pubScope"
    by (simp add: ownerScope_def pubScope_def newScope_def scopeIs_def)
qed

lemma pub_scope: "ownerScope (pubJournal b n t m) demoOwner = Inr pubScope"
  by (rule pub_scopes) (simp add: pubJournal_def)

lemma pub_context: "publicationPreparationContext pubHost demoOwner ''c1'' (pubWorld (pubJournal pubBegin 0 None 0)) = (pubWorld (pubJournal pubBegin 0 None 0), Inr pubContext)"
proof -
  have scope: "ownerScope (pubJournal pubBegin 0 None 0) demoOwner = Inr (pubScope)"
    by (rule pub_scope)
  have "inspect demoOwner ''c1'' Canonical None (Some 1) False (pubJournal pubBegin 0 None 0) = Inr (pubJournal pubBegin 0 None 0, (pubSummary 0, []))"
    by (simp add: inspect_def scope)
      (simp add: captureRow_def journalText_def boundedText_def pubJournal_def pubCapture_def newScope_def captureIs_def captureKey_def
        journalInteger_def safe_integer_def max_safe_integer_def captureSummary_def pubSummary_def demoSummary_def selectAll_def pubScope_def)
  then have inspected: "inspectW demoOwner ''c1'' Canonical False (pubWorld (pubJournal pubBegin 0 None 0)) = (pubWorld (pubJournal pubBegin 0 None 0), Inr (pubSummary 0, []))"
    using run_inspect[where w = "pubWorld (pubJournal pubBegin 0 None 0)"] by (simp add: pubWorld_def)
  have listed: "records demoOwner ''c1'' SessionRecord None (Some 1) (pubJournal pubBegin 0 None 0) = Inr (pubJournal pubBegin 0 None 0, [])"
    by (simp add: records_def scope)
      (simp add: captureRow_def journalText_def boundedText_def pubJournal_def pubCapture_def newScope_def captureIs_def captureKey_def
        journalInteger_def safe_integer_def max_safe_integer_def retainedMembership_def selectAll_def pubScope_def)
  have transform: "admitRedactionTransform pubHost (pb_transformVersion (in_begin pubIntent)) = Inr ()" by code_simp
  have "sm_state (pubSummary 0) = Preparing" "sm_trackRecords (pubSummary 0)" "sm_rawEnabled (pubSummary 0) = False"
    by (simp_all add: pubSummary_def demoSummary_def)
  moreover have "contextProfiles pubIntent = [Target1, Target5]" by code_simp
  ultimately show ?thesis using inspected listed transform
    by (simp add: publicationPreparationContext_def bindW_def checkW_def pub_intent requireP_def journalW_def transaction_def pubWorld_def
        returnW_def pubContext_def Let_def)
qed

definition pubInput :: publication_input where
  "pubInput = \<lparr>pi_adapterVersion = ''1'', pi_observedAt = ''2024-05-01T10:00:00Z'', pi_nextCheckpoint = ''n'', pi_rawLimits = None,
     pi_source = Some pubView\<rparr>"

lemma publication_within_limits_witness:
  "\<exists>us. canonicalsW (fst (preparePublicationCanonical pubHost pubRemote pubRedactor demoOwner ''c1'' pubInput (pubWorld (pubJournal pubBegin 0 None 0)))) = us \<and>
     length us \<le> 4 \<and> sum_list (map un_byteCount us) \<le> 65536"
proof -
  have "cb_limits (in_capabilities (pc_intent pubContext)) = pubLimits" "canonicalsW (pubWorld (pubJournal pubBegin 0 None 0)) = []"
    by (simp_all add: pubContext_def pubIntent_def pubWorld_def pubJournal_def canonicals_def)
  with publication_within_limits[OF pub_context, of pubRemote pubRedactor pubInput] obtain us where us:
      "canonicalsW (fst (preparePublicationCanonical pubHost pubRemote pubRedactor demoOwner ''c1'' pubInput (pubWorld (pubJournal pubBegin 0 None 0)))) = us"
      "map un_ordinal us = map int [0..<length us]" "list_all (\<lambda>u. un_ordinal u < pl_parts pubLimits) us"
      "us = [] \<or> sum_list (map un_byteCount us) \<le> pl_targetBytes pubLimits"
    by (auto simp: list_all_iff)
  have "length us \<le> 4"
  proof (rule ccontr)
    assume "\<not> length us \<le> 4"
    then have "un_ordinal (us ! 4) = 4" "us ! 4 \<in> set us" using arg_cong[OF us(2), of "\<lambda>xs. xs ! 4"] by simp_all
    then show False using us(3) by (auto simp: list_all_iff pubLimits_def)
  qed
  then show ?thesis using us by (auto simp: pubLimits_def)
qed

section \<open>The records of the source\<close>

abbreviation pubInputOf :: "record_kind \<Rightarrow> string \<Rightarrow> raw_reference option \<Rightarrow> record_input" where
  "pubInputOf k key ref \<equiv> record_key.extend \<lparr>rk_kind = k, rk_key = key\<rparr> \<lparr>ri_fingerprint = demoSha,
     ri_projectionVersion = prj_profile pubProjection, ri_rawReference = ref\<rparr>"

abbreviation pubVersion :: "record_kind \<Rightarrow> string \<Rightarrow> raw_reference option \<Rightarrow> record_version" where
  "pubVersion k key ref \<equiv> \<lparr>rk_kind = k, rk_key = key, ri_fingerprint = demoSha, ri_projectionVersion = prj_profile pubProjection,
     ri_rawReference = ref, rv_revision = 1\<rparr>"

lemma pub_versions:
  "recordObservation (ho_limits pubHost) demoOwner ''c1'' (pubInputOf SessionRecord ''se'' None) (pubJournal b 0 None 0) =
     Inr (pubJournal b 1 None 0, pubVersion SessionRecord ''se'' None)"
  "recordObservation (ho_limits pubHost) demoOwner ''c1'' (pubInputOf ThreadRecord ''t'' None) (pubJournal b 1 None 0) =
     Inr (pubJournal b 2 None 0, pubVersion ThreadRecord ''t'' None)"
  "recordObservation (ho_limits pubHost) demoOwner ''c1'' (pubInputOf EventRecord demoSha (Some placeholderReference)) (pubJournal b 2 None 0) =
     Inr (pubJournal b 3 None 0, pubVersion EventRecord demoSha (Some placeholderReference))"
  by code_simp+

end
