(* ===== verification/PublicationPart.thy ===== *)
theory PublicationPart
  imports PublicationRun
begin

text \<open>The one part of the demonstration source, appended and bound, and the capture sealed.\<close>

section \<open>The part\<close>

definition pubTarget :: open_target where
  "pubTarget = \<lparr>pq_projection = pubProjection, pq_limits = pubLimits, pq_target = Target1, pq_session = dv_session pubView,
     pq_threads = dv_threads pubView, pq_batchKey = demoSha\<rparr>"

definition pubText :: string where
  "pubText = partText pubTarget [pubEvent] [] 0"

lemma pub_length: "length pubText = 1042"
  by code_simp

lemma goEscape_shorter: "length (goEscape s) \<le> 6 * length s"
  by (induction s rule: goEscape.induct) (auto simp: goCharacter_def)

lemma pub_bound: "partBound pubTarget [pubEvent] [] 0 \<le> 16384"
proof -
  let ?b = "partBatch pubTarget [pubEvent] [] 0"
  have "length (stringify (batchJson ?b)) \<le> length pubText"
    by (simp add: pubText_def partText_def partWire_def obj_def Let_def)
  then have "goJsonBytes (batchJson ?b) \<le> 6 * 1042"
    using goEscape_shorter[of "stringify (batchJson ?b)"] pub_length by (simp add: goJsonBytes_def)
  moreover have "batchRecords ?b = 2" "goJsonBytes (JStr (scopeText ?b (bd_userId (ho_binding (pq_host pubTarget))))) \<le> 64"
    by code_simp+
  ultimately show ?thesis by (simp add: partBound_def canonicalMaterializationBound_def)
qed

lemma pub_appended:
  assumes "length t = 1042"
  shows "appendUnit (ho_sha pubHost) (ho_limits pubHost) demoOwner ''c1'' Canonical 0 t (pubJournal b 3 None 0) = Inr (pubJournal b 3 (Some t) 0, ())"
proof -
  have facts: "captureRow (pubJournal b 3 None 0) pubKey ''c1'' = Inr (pubCapture b 3 0)"
    "find (unitIs pubKey ''c1'' Canonical 0) (db_units (pubJournal b 3 None 0)) = None" "nextOrdinal (pubJournal b 3 None 0) pubKey ''c1'' Canonical = 0"
    "nextOrdinal (pubJournal b 3 None 0) pubKey ''c1'' Raw = 0" "admitMetadata (ho_limits pubHost) 1 (pubJournal b 3 None 0) = Inr ()"
    by code_simp+
  have "t \<noteq> []" using assms by auto
  then show ?thesis using assms facts
    by (simp add: appendUnit_def pub_scope Let_def)
      (simp add: pubScope_def newScope_def pubHost_def pubCapture_def journalInteger_def safe_integer_def max_safe_integer_def pubJournal_def
        newUnit_def demoHost_def pubUnit_def addRetained_def updateCaptures_def insertUnit_def updateWhere_def captureIs_def captureKey_def)
qed

definition pubBinding :: "record_kind \<Rightarrow> string \<Rightarrow> journal_db \<Rightarrow> unit work" where
  "pubBinding k key = bindRecord demoOwner ''c1'' \<lparr>rk_kind = k, rk_key = key\<rparr> (BindUnit 0 None)"

lemma pub_bindings:
  "pubBinding SessionRecord ''se'' (pubJournal b 3 (Some t) 0) = Inr (pubJournal b 3 (Some t) 1, ())"
  "pubBinding ThreadRecord ''t'' (pubJournal b 3 (Some t) 1) = Inr (pubJournal b 3 (Some t) 2, ())"
  "pubBinding EventRecord demoSha (pubJournal b 3 (Some t) 2) = Inr (pubJournal b 3 (Some t) 3, ())"
  by code_simp+

section \<open>The seal\<close>

definition pubManifest :: record_manifest where
  "pubManifest = \<lparr>rm_canonical = Some \<lparr>rc_session = 1, rc_thread = 1, rc_event = 1, rc_usage = 0\<rparr>, rm_raw = None\<rparr>"

definition pubPublicationSeal :: publication_seal where
  "pubPublicationSeal = \<lparr>ps_fence = 1, ps_manifest = \<lparr>pm_parts = 1, pm_bytes = 1042, pm_sha256 = demoSha\<rparr>\<rparr>"

definition pubSeal :: "string \<Rightarrow> capture_seal" where
  "pubSeal m = \<lparr>sl_records = Some pubManifest, sl_canonicalUnits = 1, sl_rawUnits = 0, sl_nextCheckpoint = ''n'', sl_manifestJson = m\<rparr>"

lemma pub_recordManifest: "recordManifest (ho_limits pubHost) (pubJournal b 3 (Some t) 3) pubKey ''c1'' (pubCapture b 3 1042) (Some pubManifest) = Inr (Some pubManifest)"
  by code_simp

lemma pub_sealText: "stringify (publicationSealJson pubPublicationSeal) \<noteq> []" "int (length (stringify (publicationSealJson pubPublicationSeal))) \<le> MetadataBytes"
    "CHR 0x00 \<notin> set (stringify (publicationSealJson pubPublicationSeal))"
  by code_simp+

lemma pub_sealed:
  "\<exists>db. seal (ho_limits pubHost) demoOwner ''c1'' (pubSeal (stringify (publicationSealJson pubPublicationSeal))) (pubJournal b 3 (Some t) 3) = Inr (db, ())"
proof -
  have facts: "captureRow (pubJournal b 3 (Some t) 3) pubKey ''c1'' = Inr (pubCapture b 3 1042)"
    "unitCount (pubJournal b 3 (Some t) 3) pubKey ''c1'' Canonical = 1" "unitCount (pubJournal b 3 (Some t) 3) pubKey ''c1'' Raw = 0"
    "journalInteger 1 1 (lim_unitsPerTarget (ho_limits pubHost)) = Inr 1" "journalInteger 0 0 (lim_unitsPerTarget (ho_limits pubHost)) = Inr 0"
    "boundedText MetadataBytes ''n'' = Inr ''n''"
    by code_simp+
  have "journalJson (stringify (publicationSealJson pubPublicationSeal)) = Inr (stringify (publicationSealJson pubPublicationSeal))"
    using pub_sealText by (simp add: journalJson_def boundedText_def parseJson_stringify)
  moreover have "sc_key pubScope = pubKey" by (simp add: pubScope_def newScope_def)
  ultimately show ?thesis using facts pub_recordManifest[of b t]
    by (simp add: seal_def pub_scope pubSeal_def Let_def) (simp add: pubCapture_def)
qed

end
