(* ===== verification/PublicationEnd.thy ===== *)
theory PublicationEnd
  imports PublicationPart
begin

text \<open>The whole preparation of the demonstration source, and the promises of the preparation on it.\<close>

section \<open>The steps\<close>

definition runs :: "('w, 'e, 'a) action \<Rightarrow> 'w \<Rightarrow> 'w \<Rightarrow> 'a \<Rightarrow> bool" where
  "runs m w w' x \<longleftrightarrow> m w = (w', Inr x)"

lemma runs_bind: "runs m w v y \<Longrightarrow> runs (k y) v w' x \<Longrightarrow> runs (bindA m k) w w' x"
  by (simp add: runs_def bindA_def)

lemma runs_fold: "runs (f s x) w v t \<Longrightarrow> runs (foldA f t xs) v w' u \<Longrightarrow> runs (foldA f s (x # xs)) w w' u"
  by (simp add: runs_bind)

lemma runs_simple: "runs (returnA x) w w x" "ok \<Longrightarrow> runs (requirePrep ok e) w w ()" "d = Inr y \<Longrightarrow> runs (draftP d) w w y"
    "v = Some z \<Longrightarrow> runs (checkA (fromOption e' v)) w w z" "runs (foldA f s []) w w s"
  by (simp_all add: runs_def returnA_def requirePrep_def requireD_def draftP_def checkA_def fromOption_def)

lemma runs_store: "f db = Inr (db', x) \<Longrightarrow> runs (storeP f) (pubWorld db) (pubWorld db') x"
  by (simp add: runs_def storeP_def rawP_def journalP_def serviceP_def mapErrorA_def journalW_def transaction_def Let_def pubWorld_def)

lemma pub_fields [simp]:
  "prj_host pubProjection = pubHost" "prj_owner pubProjection = demoOwner" "prj_view pubProjection = pubView" "prj_input pubProjection = pubProjecting ''c1''"
  "prj_canonicalProfile pubProjection = Profile2" "ji_captureId (pubProjecting ''c1'') = ''c1''" "pq_projection pubTarget = pubProjection"
  "pq_limits pubTarget = pubLimits" "pq_session pubTarget = dv_session pubView" "pq_threads pubTarget = dv_threads pubView"
  by (simp_all add: pubProjectionOf_def pubProjecting_def pubTarget_def)

definition pubThread :: adapter_thread where
  "pubThread = \<lparr>at_sourceThreadId = ''t'', at_parent = None, at_revision = Whole 1, at_label = ''l'', at_summary = [],
       at_captureStatus = CaptureHealthy\<rparr>"

lemma pub_head: "as_sourceSessionId (dv_session pubView) = ''se''" "dv_threads pubView = [pubThread]" "dv_checkpoint pubView = None"
    "(dv_session pubView)\<lparr>as_revision := Whole 1\<rparr> = dv_session pubView" "at_sourceThreadId pubThread = ''t''" "pubThread\<lparr>at_revision := Whole 1\<rparr> = pubThread"
  by (simp_all add: pubView_def pubThread_def)

lemma pub_masked: "ob_session (prj_masked pubProjection) = dv_session pubView" "ob_threads (prj_masked pubProjection) = [pubThread]"
  by (simp_all add: pubProjectionOf_def draftObservation_def pub_head)

lemma pub_fingerprints: "sessionFingerprint pubProjection = demoSha" "threadFingerprint pubProjection x = demoSha"
  by (simp_all add: sessionFingerprint_def threadFingerprint_def pub_sha)

lemma pub_versioned:
  "runs (versionP pubProjection SessionRecord ''se'' demoSha None) (pubWorld (pubJournal b 0 None 0)) (pubWorld (pubJournal b 1 None 0))
     (pubVersion SessionRecord ''se'' None)"
  "runs (versionP pubProjection ThreadRecord ''t'' demoSha None) (pubWorld (pubJournal b 1 None 0)) (pubWorld (pubJournal b 2 None 0))
     (pubVersion ThreadRecord ''t'' None)"
  "runs (versionP pubProjection EventRecord demoSha demoSha (Some placeholderReference)) (pubWorld (pubJournal b 2 None 0))
     (pubWorld (pubJournal b 3 None 0)) (pubVersion EventRecord demoSha (Some placeholderReference))"
  unfolding versionP_def pub_fields by (rule runs_store, rule pub_versions)+

lemma pub_opened:
  "runs (openTarget pubProjection pubIntent Target1 None) (pubWorld (pubJournal b 0 None 0)) (pubWorld (pubJournal b 2 None 0))
     (pubTarget, startDrafting None)"
proof -
  have freeze: "freezeMetadata pubProjection = returnA ()" by (simp add: freezeMetadata_def whenA_def pub_head)
  have thread: "runs (versionThread pubProjection [] pubThread) (pubWorld (pubJournal b 1 None 0)) (pubWorld (pubJournal b 2 None 0)) [pubThread]"
    unfolding versionThread_def pub_head pub_fingerprints by (rule runs_bind, rule pub_versioned) (simp add: pub_head runs_simple)
  have target: "\<lparr>pq_projection = pubProjection, pq_limits = pubLimits, pq_target = Target1,
           pq_session = (dv_session pubView)\<lparr>as_revision := Whole 1\<rparr>, pq_threads = [pubThread],
           pq_batchKey = hashJson pubHost (JArr [JStr PublicationPreparationVersion, JStr ''c1''])\<rparr> = pubTarget"
    unfolding pub_sha pub_head by (simp add: pubTarget_def pub_head)
  have limits: "cb_limits (in_capabilities pubIntent) = pubLimits" by (simp add: pubIntent_def)
  show ?thesis
    unfolding openTarget_def Let_def pub_masked pub_head pub_fingerprints freeze openArchive_def option.case
    by (rule runs_bind, rule runs_simple, rule runs_bind, rule pub_versioned, rule runs_bind, rule runs_simple, rule runs_bind, rule runs_fold,
        rule thread, rule runs_simple) (simp add: limits target runs_simple)
qed

section \<open>The frame\<close>

definition pubDraft :: drafting where
  "pubDraft = (startDrafting None)\<lparr>df_events := [pubEvent], df_bindings := [\<lparr>rk_kind = EventRecord, rk_key = demoSha\<rparr>], df_counts := pubCounts\<rparr>"

lemma pub_notFull: "\<not> partFull pubTarget [pubEvent] [] 0"
  using pub_length pub_bound by (simp add: partFull_def pubText_def pubLimits_def)

lemma pub_pushed: "runs (pushEvent pubTarget pubEvent ((startDrafting None)\<lparr>df_counts := pubCounts\<rparr>)) w w
    ((startDrafting None)\<lparr>df_counts := pubCounts, df_events := [pubEvent]\<rparr>)"
  by (simp add: pushEvent_def startDrafting_def pub_notFull) (rule runs_bind, rule runs_simple, simp add: runs_simple)

lemma pub_versionedEvent: "versionedEvent pubEvent 1 placeholderReference = pubEvent"
  by (simp add: versionedEvent_def pubEvent_def adapterRef_def placeholderReference_def placeholderRef_def)

lemma pub_stepped:
  "runs (eventStep pubTarget placeholderReference ((startDrafting None)\<lparr>df_counts := pubCounts\<rparr>) pubReady)
     (pubWorld (pubJournal b 2 None 0)) (pubWorld (pubJournal b 3 None 0)) pubDraft"
proof -
  have noted: "noteBinding EventRecord demoSha ((startDrafting None)\<lparr>df_counts := pubCounts, df_events := [pubEvent]\<rparr>) = pubDraft"
    by (simp add: noteBinding_def pubDraft_def startDrafting_def)
  have ready: "pd_key pubReady = demoSha" "pd_fingerprint pubReady = demoSha" "pd_value pubReady = pubEvent" by (simp_all add: pubReady_def)
  show ?thesis unfolding eventStep_def pub_fields ready
    by (rule runs_bind, rule pub_versioned, rule runs_bind, rule runs_simple, simp, rule runs_bind, simp add: pub_versionedEvent, rule pub_pushed)
      (simp add: noted runs_simple)
qed

lemma pub_framed: "runs (frameStep pubTarget (startDrafting None) pubFrame) (pubWorld (pubJournal b 2 None 0)) (pubWorld (pubJournal b 3 None 0)) pubDraft"
proof -
  have start: "df_raw (startDrafting None) = None" "df_counts (startDrafting None) = startCounts" by (simp_all add: startDrafting_def)
  have raw: "fr_raw pubFrame = None" by (simp add: pubFrame_def)
  show ?thesis unfolding frameStep_def archiveFrame_def start raw pub_fields option.case
    by (rule runs_bind, rule runs_simple(2), simp, rule runs_bind, rule runs_simple(1), unfold case_prod_conv start, rule runs_bind,
        rule runs_simple(3), rule pub_frame, unfold case_prod_conv, rule runs_bind, rule runs_fold, rule pub_stepped, rule runs_simple, rule runs_simple)
qed

lemma pub_read: "runs (readSource pubTarget 0 (startDrafting None)) (pubWorld (pubJournal b 2 None 0)) (pubWorld (pubJournal b 3 None 0)) pubDraft"
proof -
  have "dv_read pubView 0 = Some \<lparr>dp_frames = [pubFrame], dp_done = True\<rparr>" by (simp add: pubView_def)
  moreover have "projectPage \<lparr>dp_frames = [pubFrame], dp_done = True\<rparr> 0 = Inr 1" by (simp add: projectPage_def requireD_def)
  ultimately show ?thesis
    by (subst readSource.simps) (simp, rule runs_bind, rule runs_bind, rule pub_framed, rule runs_simple, rule runs_simple)
qed

section \<open>The last part\<close>

definition pubFlushed :: drafting where
  "pubFlushed = flushedPart pubTarget pubDraft"

lemma runs_each: "runs (f x) w v () \<Longrightarrow> runs (eachA f xs) v w' () \<Longrightarrow> runs (eachA f (x # xs)) w w' ()"
  by (simp add: runs_bind)

lemma pub_draft: "df_events pubDraft = [pubEvent]" "df_usage pubDraft = []" "df_ordinal pubDraft = 0" "df_totalBytes pubDraft = 0"
    "df_materialized pubDraft = 0" "df_bindings pubDraft = [\<lparr>rk_kind = EventRecord, rk_key = demoSha\<rparr>]" "df_counts pubDraft = pubCounts"
    "df_raw pubDraft = None"
  by (simp_all add: pubDraft_def startDrafting_def)

lemma pub_bound_part:
  "pubBinding k key db = Inr (db', ()) \<Longrightarrow> runs (bindPart pubTarget 0 \<lparr>rk_kind = k, rk_key = key\<rparr>) (pubWorld db) (pubWorld db') ()"
  unfolding bindPart_def pub_fields pubBinding_def by (rule runs_store)

lemma pub_flushed:
  "runs (flushPart pubTarget pubDraft) (pubWorld (pubJournal b 3 None 0)) (pubWorld (pubJournal b 3 (Some pubText) 3)) pubFlushed"
proof -
  have admitted: "partAdmitted pubTarget pubDraft"
    using pub_length pub_bound by (simp add: partAdmitted_def pub_draft Let_def pubText_def) (simp add: pubLimits_def)
  have keys: "headKeys pubTarget = [\<lparr>rk_kind = SessionRecord, rk_key = ''se''\<rparr>, \<lparr>rk_kind = ThreadRecord, rk_key = ''t''\<rparr>]"
    by (simp add: headKeys_def pub_head)
  show ?thesis unfolding flushPart_def pub_draft keys whenA_def if_P[OF refl] pubText_def[symmetric] pub_fields
    by (rule runs_bind, rule runs_simple(2), rule admitted, rule runs_bind, rule runs_store, rule pub_appended, rule pub_length,
        rule runs_bind, rule runs_each, rule pub_bound_part, rule pub_bindings, rule runs_each, rule pub_bound_part, rule pub_bindings,
        simp only: eachA.simps, rule runs_simple(1), rule runs_bind, rule runs_each, rule pub_bound_part, rule pub_bindings,
        simp only: eachA.simps, rule runs_simple(1), unfold pubFlushed_def, rule runs_simple(1))
qed

definition pubPrepared :: prepared_publication where
  "pubPrepared = \<lparr>pe_units = 1, pe_bytes = 1042, pe_materialized = partBound pubTarget [pubEvent] [] 0, pe_raw = None, pe_failures = [], pe_truncated = False,
     pe_records = pubManifest\<rparr>"

lemma pub_closed:
  "runs (closeTarget pubTarget pubDraft) (pubWorld (pubJournal b 3 None 0)) (pubWorld (pubJournal b 3 (Some pubText) 3)) pubPrepared"
proof -
  have counts: "finishProjection pubProjection pubCounts = Inr \<lparr>rc_session = 1, rc_thread = 1, rc_event = 1, rc_usage = 0\<rparr>"
    using pub_masked(2) by (simp add: finishProjection_def requireD_def pubCounts_def pubView_def)
  have flushed: "df_raw pubFlushed = None" "df_ordinal pubFlushed = 1" "df_totalBytes pubFlushed = 1042" "df_materialized pubFlushed = partBound pubTarget [pubEvent] [] 0"
    using pub_length pub_bound by (simp_all add: pubFlushed_def flushedPart_def pub_draft pubText_def)
  have view: "viewFailures (prj_redactor pubProjection) pubView = []" "viewTruncated pubView = False"
    by (simp_all add: viewFailures_def maskSourceFailures_def viewTruncated_def pubView_def)
  have some: "df_events pubDraft \<noteq> [] \<or> df_usage pubDraft \<noteq> [] \<or> df_ordinal pubDraft = 0" by (simp add: pub_draft)
  show ?thesis unfolding closeTarget_def Let_def if_P[OF some] pub_fields pub_draft(7)
    by (rule runs_bind, rule runs_simple(3), rule counts, rule runs_bind, rule pub_flushed, rule runs_bind, simp only: closeArchive_def flushed option.case,
        rule runs_simple(1)) (simp add: flushed view pubPrepared_def pubManifest_def runs_simple)
qed

section \<open>The seal of the capture\<close>

lemma pub_inspected:
  assumes "afterOrdinal = None \<or> afterOrdinal = Some (-1)" "1 \<le> n" "n \<le> 100"
  shows "inspect demoOwner ''c1'' Canonical afterOrdinal (Some n) False (pubJournal pubBegin 3 (Some t) 3) =
    Inr (pubJournal pubBegin 3 (Some t) 3, (pubSummary 1042, [unitSummary (pubUnit t)]))"
proof -
  have row: "captureRow (pubJournal pubBegin 3 (Some t) 3) pubKey ''c1'' = Inr (pubCapture pubBegin 3 1042)"
    by (simp add: captureRow_def journalText_def boundedText_def pubJournal_def pubCapture_def captureIs_def captureKey_def)
  have summary: "captureSummary (pubCapture pubBegin 3 1042) = Inr (pubSummary 1042)"
    by (simp add: captureSummary_def pubCapture_def pubSummary_def demoSummary_def)
  have units: "db_units (pubJournal pubBegin 3 (Some t) 3) = [pubUnit t]" "sc_key pubScope = pubKey"
    by (simp_all add: pubJournal_def pubScope_def newScope_def)
  have here: "selectAll (\<lambda>u. unitOf pubKey ''c1'' u \<and> un_kind u = Canonical \<and> -1 < un_ordinal u) un_ordinal (nat n) [pubUnit t] = [pubUnit t]"
    using assms(2) by (simp add: selectAll_def pubUnit_def unitOf_def captureKey_def take_Cons')
  show ?thesis using assms row summary units here
    by (auto simp: inspect_def pub_scope journalInteger_def safe_integer_def max_safe_integer_def)
qed

lemma pub_seal_run:
  "\<exists>w'. sealPublicationCapture pubHost pubRemote demoOwner ''c1'' \<lparr>si_nextCheckpoint = ''n'', si_rawUnits = 0, si_records = Some pubManifest\<rparr>
     (pubWorld (pubJournal pubBegin 3 (Some t) 3)) = (w', Inr ())"
proof -
  let ?db = "pubJournal pubBegin 3 (Some t) 3" and ?m = "ps_manifest pubPublicationSeal"
  have inspected: "inspectW demoOwner ''c1'' Canonical False (pubWorld ?db) = (pubWorld ?db, Inr (pubSummary 1042, [unitSummary (pubUnit t)]))"
    using run_inspect[where w = "pubWorld ?db"] pub_inspected[of None 1 t] by (simp add: pubWorld_def)
  have page: "readPage demoOwner ''c1'' Canonical ?db 0 = Inr [unitSummary (pubUnit t)]"
    using pub_inspected[of "Some (-1)" 100 t] by (simp add: readPage_def)
  let ?l = "\<lparr>ml_unitBytes = 16384, ml_units = 4, ml_targetBytes = 65536\<rparr>"
  have prepared: "preparedManifest pubHost demoOwner ''c1'' Canonical ?l ?db = Inr ?m"
    by (simp add: preparedManifest_def manifestPages.simps[of _ _ _ _ _ _ "(0, 0, [])"] page manifestUnit_def unitSummary_def pubUnit_def
        chainDigest_def pubPublicationSeal_def pubHost_def demoHost_def)
  have "admitsManifest ?m" by code_simp
  then have decoded: "decodeP decodeManifest (manifestJson ?m) = Inr ?m"
    by (simp add: decodeP_def manifest_codec.decode_encode)
  have attempt: "checkAttempt pubIntent None pubAttempt = Inr pubAttempt"
    by (simp add: checkAttempt_def requireP_def sameAttempt_def consistentAttempt_def pubAttempt_def demoAttempt_def pubIntent_def demoIntent_def)
  obtain db where "seal (ho_limits pubHost) demoOwner ''c1'' (pubSeal (stringify (publicationSealJson pubPublicationSeal))) ?db = Inr (db, ())"
    using pub_sealed by blast
  moreover have "\<lparr>ps_fence = 1, ps_manifest = ?m\<rparr> = pubPublicationSeal" "pm_parts ?m = 1" by (simp_all add: pubPublicationSeal_def)
  moreover have "sm_state (pubSummary 1042) = Preparing" "sm_seal (pubSummary 1042) = None" by (simp_all add: pubSummary_def demoSummary_def)
  moreover have "tt_state pubAttempt = AttemptOpen" "tt_parts pubAttempt = 0" "tt_fence pubAttempt = 1" by (simp_all add: pubAttempt_def demoAttempt_def)
  moreover have "cb_limits (in_capabilities pubIntent) = pubLimits" by (simp add: pubIntent_def)
  moreover have "pl_partBytes pubLimits = 16384" "pl_parts pubLimits = 4" "pl_targetBytes pubLimits = 65536" by (simp_all add: pubLimits_def)
  ultimately show ?thesis
    by (simp add: sealPublicationCapture_def bindW_def checkW_def inspected pub_intent requireP_def localW_def prepared decoded
        remoteW_def attempt journalW_def transaction_def Let_def pubRemote_def pubSeal_def) (simp add: pubWorld_def prepared decoded attempt)
qed

section \<open>The whole preparation\<close>

lemma pub_target_prepared:
  "runs (prepareTarget pubHost pubRedactor demoOwner ''c1'' pubInput pubContext) (pubWorld (pubJournal b 0 None 0))
     (pubWorld (pubJournal b 3 (Some pubText) 3)) pubPrepared"
proof -
  have raw: "runs (admitRaw False None) w w ()" for w :: "unit world"
    unfolding admitRaw_def by (rule runs_bind, rule runs_simple(2), simp, rule runs_bind, rule runs_simple(2), simp, simp, rule runs_simple(1))
  have source: "runs (openSource (Some pubView)) w w pubView" for w :: "unit world"
    unfolding openSource_def by (rule runs_simple(4)) simp
  have transform: "pb_transformVersion (in_begin pubIntent) = demoTransform" by (simp add: pubIntent_def demoIntent_def)
  have projecting: "\<lparr>ji_captureId = ''c1'', ji_observedAt = ''2024-05-01T10:00:00Z'', ji_adapterVersion = ''1'', ji_transformVersion = demoTransform\<rparr> = pubProjecting ''c1''"
    by (simp add: pubProjecting_def)
  have profile: "targetProfileOf pubView = Target1" by (simp add: targetProfileOf_def pubView_def)
  have input: "pi_rawLimits pubInput = None" "pi_source pubInput = Some pubView" "pi_observedAt pubInput = ''2024-05-01T10:00:00Z''"
      "pi_adapterVersion pubInput = ''1''" by (simp_all add: pubInput_def)
  have admitted: "pc_rawEnabled pubContext = False" "pc_intent pubContext = pubIntent" by (simp_all add: pubContext_def)
  show ?thesis unfolding prepareTarget_def Let_def input admitted transform projecting
    by (rule runs_bind, rule raw, rule runs_bind, rule source, unfold profile, rule runs_bind, rule runs_simple(2), simp, rule runs_bind,
        rule runs_simple(3), rule pub_projection, simp, rule runs_bind, rule pub_opened, unfold case_prod_conv fillTarget_def, rule runs_bind, rule pub_read,
        rule pub_closed)
qed

lemma pub_run:
  "\<exists>w'. preparePublicationCanonical pubHost pubRemote pubRedactor demoOwner ''c1'' pubInput (pubWorld (pubJournal pubBegin 0 None 0)) = (w', Inr pubPrepared)"
proof -
  have valid: "validateCanonicalSourceMetadata pubHost demoOwner ''1'' = Inr ()" by code_simp
  have first: "runs (localP (publicationPreparationContext pubHost demoOwner ''c1'')) (pubWorld (pubJournal pubBegin 0 None 0))
      (pubWorld (pubJournal pubBegin 0 None 0)) pubContext"
    by (simp add: runs_def localP_def rawP_def serviceP_def mapErrorA_def pub_context)
  obtain w' where seal: "sealPublicationCapture pubHost pubRemote demoOwner ''c1'' \<lparr>si_nextCheckpoint = ''n'', si_rawUnits = 0,
     si_records = Some pubManifest\<rparr> (pubWorld (pubJournal pubBegin 3 (Some pubText) 3)) = (w', Inr ())"
    using pub_seal_run by blast
  have "runs (localP (sealPublicationCapture pubHost pubRemote demoOwner ''c1'' \<lparr>si_nextCheckpoint = ''n'', si_rawUnits = 0,
     si_records = Some pubManifest\<rparr>)) (pubWorld (pubJournal pubBegin 3 (Some pubText) 3)) w' ()"
    by (simp add: runs_def localP_def rawP_def serviceP_def mapErrorA_def seal)
  then have last: "runs (localP (sealPublicationCapture pubHost pubRemote demoOwner ''c1'' \<lparr>si_nextCheckpoint = pi_nextCheckpoint pubInput,
     si_rawUnits = (case pe_raw pubPrepared of None \<Rightarrow> 0 | Some a \<Rightarrow> ra_units a), si_records = Some (pe_records pubPrepared)\<rparr>))
       (pubWorld (pubJournal pubBegin 3 (Some pubText) 3)) w' ()"
    by (simp add: pubInput_def pubPrepared_def)
  have adapter: "pi_adapterVersion pubInput = ''1''" by (simp add: pubInput_def)
  have "runs (preparePublicationCanonical pubHost pubRemote pubRedactor demoOwner ''c1'' pubInput) (pubWorld (pubJournal pubBegin 0 None 0)) w' pubPrepared"
    unfolding preparePublicationCanonical_def adapter
    by (rule runs_bind, rule runs_simple(3), rule valid, rule runs_bind, rule first, rule runs_bind, rule pub_target_prepared, rule runs_bind, rule last,
        rule runs_simple(1))
  then show ?thesis by (auto simp: runs_def)
qed

section \<open>The promises on the run\<close>


lemma publication_complete_and_ordered_witness:
  "\<exists>w' q ps. canonicalsW w' = canonicalsW (pubWorld (pubJournal pubBegin 0 None 0)) @ partUnits q 0 ps \<and>
     map (intValue \<circ> ev_eventIndex) (concat (map fst ps)) = [0] \<and>
     preparePublicationCanonical pubHost pubRemote pubRedactor demoOwner ''c1'' pubInput (pubWorld (pubJournal pubBegin 0 None 0)) = (w', Inr pubPrepared)"
proof -
  obtain w' where run: "preparePublicationCanonical pubHost pubRemote pubRedactor demoOwner ''c1'' pubInput (pubWorld (pubJournal pubBegin 0 None 0)) = (w', Inr pubPrepared)"
    using pub_run by blast
  from publication_complete_and_ordered[OF run] obtain v q ps where found: "pi_source pubInput = Some v"
    "canonicalsW w' = canonicalsW (pubWorld (pubJournal pubBegin 0 None 0)) @ partUnits q 0 ps"
    "int (length (concat (map fst ps))) = intValue (dt_events (dv_target v))"
    "map (intValue \<circ> ev_eventIndex) (concat (map fst ps)) = map int [0..<length (concat (map fst ps))]"
    unfolding Let_def by blast
  have one: "length (concat (map fst ps)) = 1" using found(1,3) by (auto simp: pubInput_def pubView_def)
  have numbered: "map (intValue \<circ> ev_eventIndex) (concat (map fst ps)) = [0]" unfolding found(4) one by simp
  show ?thesis by (intro exI conjI) (rule found(2), rule numbered, rule run)
qed

end
