(* ===== verification/ComparisonWitnesses.thy ===== *)
theory ComparisonWitnesses
  imports PublicationEnd
begin

text \<open>The demonstration source compared with its published baseline is unchanged.\<close>

section \<open>The baseline\<close>

text \<open>A digest that tells the identities of the three records apart.\<close>

definition cmpHost :: host where
  "cmpHost = pubHost\<lparr>ho_sha := (\<lambda>b. if take 5 b = [CHR ''['', CHR 0x22, CHR ''s'', CHR ''e'', CHR ''s''] then replicate 64 (CHR ''1'')
     else if take 5 b = [CHR ''['', CHR 0x22, CHR ''t'', CHR ''h'', CHR ''r''] then replicate 64 (CHR ''2'') else demoSha)\<rparr>"

definition cmpActivation :: publication_activation where
  "cmpActivation = demoActivation\<lparr>av_manifest := ps_manifest pubPublicationSeal\<rparr>"

definition cmpSeal :: capture_seal where
  "cmpSeal = pubSeal (stringify (publicationSealJson pubPublicationSeal))"

definition cmpCapture :: "string \<Rightarrow> string \<Rightarrow> string \<Rightarrow> capture_row" where
  "cmpCapture b s a = (pubCapture b 3 1042)\<lparr>cp_state := Activated, cp_sealJson := Some s, cp_activationReceipt := Some a\<rparr>"

definition cmpScope :: scope_row where
  "cmpScope = pubScope\<lparr>sc_canonicalCoverage := Some ''c1'', sc_observedCanonical := Some ''c1''\<rparr>"

definition cmpJournal :: "string \<Rightarrow> string \<Rightarrow> string \<Rightarrow> string \<Rightarrow> journal_db" where
  "cmpJournal b s a t = (pubJournal b 3 (Some t) 3)\<lparr>db_scopes := [cmpScope], db_captures := [cmpCapture b s a]\<rparr>"

abbreviation cmpDb :: journal_db where
  "cmpDb \<equiv> cmpJournal pubBegin (stringify (sealJson cmpSeal)) (stringify (activationJson cmpActivation)) pubText"

definition cmpSummary :: capture_summary where
  "cmpSummary = (pubSummary 1042)\<lparr>sm_state := Activated, sm_seal := Some cmpSeal, sm_activationReceipt := Some (stringify (activationJson cmpActivation))\<rparr>"

definition cmpContext :: comparison_context where
  "cmpContext = \<lparr>cx_coverage = \<lparr>cv_canonicalCaptureId = Some ''c1'', cv_observedCanonicalCaptureId = Some ''c1'', cv_observedRawCaptureId = None\<rparr>,
     cx_capture = cmpSummary, cx_intent = pubIntent, cx_receipt = cmpActivation, cx_raw = None\<rparr>"

definition cmpInput :: comparison_input where
  "cmpInput = \<lparr>xi_adapterVersion = ''1'', xi_observedAt = ''2024-05-01T10:00:00Z'', xi_transformVersion = demoTransform, xi_records = 8,
     xi_durationMs = 1, xi_raw = None, xi_source = Some pubView\<rparr>"

lemma cmp_scope: "ownerScope (cmpJournal b s a t) demoOwner = Inr cmpScope"
proof -
  have "scopeKey (ow_scope demoOwner) = Inr pubKey" "ow_epoch demoOwner = 1" "cs_originKey (ow_scope demoOwner) = ''or''"
    by code_simp+
  then show ?thesis by (simp add: ownerScope_def cmpJournal_def cmpScope_def pubScope_def newScope_def scopeIs_def)
qed

lemma cmp_coverage: "coverage demoOwner (cmpJournal b s a t) = Inr (cmpJournal b s a t, cx_coverage cmpContext)"
  by (simp add: coverage_def cmp_scope) (simp add: cmpScope_def pubScope_def newScope_def cmpContext_def)

lemma cmp_sealText: "parsedSeal (stringify (sealJson cmpSeal)) = Inr cmpSeal"
  by (simp add: parsedSeal_def parseJson_stringify)
    (simp add: cmpSeal_def pubSeal_def sealJson_def pubManifest_def recordManifestJson_def countsJson_def decodeSeal_def decodeRecordManifest_def
      decodeCounts_def isObject_def reqField_def optField_def field_def optMember_def)

lemma cmp_row: "captureRow (cmpJournal b s a t) pubKey ''c1'' = Inr (cmpCapture b s a)"
  by (simp add: captureRow_def journalText_def boundedText_def cmpJournal_def cmpCapture_def pubCapture_def captureIs_def captureKey_def)

lemma cmp_key: "sc_key cmpScope = pubKey"
  by (simp add: cmpScope_def pubScope_def newScope_def)

lemma cmp_inspected: "inspectW demoOwner ''c1'' Canonical False (pubWorld cmpDb) = (pubWorld cmpDb, Inr (cmpSummary, [unitSummary (pubUnit pubText)]))"
proof -
  have summary: "captureSummary (cmpCapture pubBegin (stringify (sealJson cmpSeal)) (stringify (activationJson cmpActivation))) = Inr cmpSummary"
    by (simp add: captureSummary_def cmpCapture_def cmp_sealText) (simp add: pubCapture_def cmpSummary_def pubSummary_def demoSummary_def)
  have "db_units (cmpJournal b s a t) = [pubUnit t]" for b s a t by (simp add: cmpJournal_def pubJournal_def)
  then have "inspect demoOwner ''c1'' Canonical None (Some 1) False cmpDb = Inr (cmpDb, (cmpSummary, [unitSummary (pubUnit pubText)]))"
    by (simp add: inspect_def cmp_scope cmp_row cmp_key summary journalInteger_def safe_integer_def max_safe_integer_def selectAll_def pubUnit_def
        unitOf_def captureKey_def)
  then show ?thesis using run_inspect[where w = "pubWorld cmpDb"] by (simp add: pubWorld_def)
qed

lemma cmp_context: "sourceComparisonContext cmpHost demoOwner (pubWorld cmpDb) = (pubWorld cmpDb, Inr (Some cmpContext))"
proof -
  have intent: "boundIntent cmpHost demoOwner cmpSummary = Inr pubIntent"
    using pub_intent[of 1042] by (simp add: boundIntent_def cmpSummary_def checkIntentBinding_def cmpHost_def)
  have "admitsSeal pubPublicationSeal" "admitsActivation cmpActivation" by code_simp+
  then have "parseP decodePublicationSeal (sl_manifestJson cmpSeal) = Inr pubPublicationSeal"
      "parseP decodeActivation (stringify (activationJson cmpActivation)) = Inr cmpActivation"
    using parseP_text[OF publication_seal_codec.text_roundtrip] parseP_text[OF activation_codec.text_roundtrip]
    by (simp_all add: cmpSeal_def pubSeal_def)
  then have saved: "savedActivation pubIntent cmpSeal (stringify (activationJson cmpActivation)) = Inr (pubPublicationSeal, cmpActivation)"
    by (simp add: savedActivation_def checkActivation_def requireP_def)
      (simp add: provesCapture_def pubIntent_def demoIntent_def pubPublicationSeal_def cmpActivation_def demoActivation_def)
  have held: "sm_seal cmpSummary = Some cmpSeal" "sm_activationReceipt cmpSummary = Some (stringify (activationJson cmpActivation))"
      "sm_trackRecords cmpSummary" "canonicalRecords cmpSummary \<noteq> None"
    by (simp_all add: cmpSummary_def pubSummary_def canonicalRecords_def cmpSeal_def pubSeal_def pubManifest_def)
  have "journalW (coverage demoOwner) (pubWorld cmpDb) = (pubWorld cmpDb, Inr (cx_coverage cmpContext))"
    by (simp add: journalW_def transaction_def Let_def pubWorld_def cmp_coverage)
  moreover have "cv_canonicalCaptureId (cx_coverage cmpContext) = Some ''c1''" "cv_observedRawCaptureId (cx_coverage cmpContext) = None"
    by (simp_all add: cmpContext_def)
  ultimately show ?thesis using held
    by (simp add: sourceComparisonContext_def bindW_def checkW_def cmp_inspected intent requireP_def saved returnW_def) (simp add: cmpContext_def)
qed

section \<open>The records\<close>

definition cmpPrior :: "record_kind \<Rightarrow> string \<Rightarrow> raw_reference option \<Rightarrow> record_summary" where
  "cmpPrior k key ref = record_version.extend (pubVersion k key ref) (record_summary.fields RecPublished (Some (''c1'', 0)) None)"

lemma cmp_status:
  "recordStatus demoOwner ''c1'' \<lparr>rk_kind = SessionRecord, rk_key = ''se''\<rparr> (cmpJournal b s a t) =
     Inr (cmpJournal b s a t, Some (cmpPrior SessionRecord ''se'' None))"
  "recordStatus demoOwner ''c1'' \<lparr>rk_kind = ThreadRecord, rk_key = ''t''\<rparr> (cmpJournal b s a t) =
     Inr (cmpJournal b s a t, Some (cmpPrior ThreadRecord ''t'' None))"
  "recordStatus demoOwner ''c1'' \<lparr>rk_kind = EventRecord, rk_key = demoSha\<rparr> (cmpJournal b s a t) =
     Inr (cmpJournal b s a t, Some (cmpPrior EventRecord demoSha (Some placeholderReference)))"
  by code_simp+

section \<open>The comparison\<close>

abbreviation cmpProjection :: source_projection where
  "cmpProjection \<equiv> pubProjectionOf cmpHost ''source-comparison''"

definition cmpCheck :: baseline_check where
  "cmpCheck = \<lparr>xb_host = cmpHost, xb_redactor = pubRedactor, xb_owner = demoOwner, xb_input = cmpInput, xb_context = cmpContext,
     xb_projection = cmpProjection\<rparr>"

lemma cmp_fields: "xb_host cmpCheck = cmpHost" "xb_owner cmpCheck = demoOwner" "xb_input cmpCheck = cmpInput" "xb_context cmpCheck = cmpContext"
    "xb_projection cmpCheck = cmpProjection" "xb_redactor cmpCheck = pubRedactor" "sm_id (cx_capture cmpContext) = ''c1''"
    "prj_view cmpProjection = pubView" "xi_records cmpInput = 8" "xi_raw cmpInput = None" "xi_source cmpInput = Some pubView"
  by (simp_all add: cmpCheck_def cmpContext_def cmpSummary_def pubSummary_def demoSummary_def pubProjectionOf_def cmpInput_def)

lemma cmp_simple: "ok \<Longrightarrow> runs (requireX ok e) w w ()" "runs m w w' x \<Longrightarrow> runs (liftX m) w w' x"
  by (simp_all add: runs_def requireX_def checkA_def liftX_def mapErrorA_def)

lemma cmp_identities:
  "recordIdentity cmpHost \<lparr>rk_kind = SessionRecord, rk_key = ''se''\<rparr> = replicate 64 (CHR ''1'')"
  "recordIdentity cmpHost \<lparr>rk_kind = ThreadRecord, rk_key = ''t''\<rparr> = replicate 64 (CHR ''2'')"
  "recordIdentity cmpHost \<lparr>rk_kind = EventRecord, rk_key = demoSha\<rparr> = demoSha"
  by code_simp+

lemma cmp_fingerprints:
  "sessionFingerprint cmpProjection = demoSha" "threadFingerprint cmpProjection pubThread = demoSha"
  "projectedEvent cmpProjection pubEvent = pubReady"
proof -
  have object: "hashJson cmpHost (JObj ms) = demoSha" for ms
    by (simp add: hashJson_def cmpHost_def Let_def)
  show "sessionFingerprint cmpProjection = demoSha" "threadFingerprint cmpProjection pubThread = demoSha"
    by (simp_all add: sessionFingerprint_def threadFingerprint_def pubProjectionOf_def sessionJson_def threadJson_def obj_def dropMembers_def object)
  have "hashJson cmpHost (JArr [JStr ''t'', JStr ''e'']) = demoSha" by code_simp
  then show "projectedEvent cmpProjection pubEvent = pubReady"
    by (simp add: projectedEvent_def pubReady_def eventFingerprint_def pubProjectionOf_def canonicalEventJson_def obj_def dropMembers_def object
        pubEvent_def projectDraft_def)
qed

lemma cmp_matched:
  assumes "recordStatus demoOwner ''c1'' key cmpDb = Inr (cmpDb, Some (cmpPrior k v ref))" "recordIdentity cmpHost key \<notin> set seen" "length seen < 8"
  shows "runs (matchRecord cmpCheck seen (key, demoSha)) (pubWorld cmpDb) (pubWorld cmpDb) (Some (recordIdentity cmpHost key # seen))"
proof -
  have published: "publishedAs (prj_profile cmpProjection) demoSha (Some (cmpPrior k v ref))"
    by (simp add: publishedAs_def cmpPrior_def record_version.defs record_summary.defs pubProjectionOf_def)
  show ?thesis unfolding matchRecord_def uniqueRecord_def cmp_fields fst_conv snd_conv
    by (rule runs_bind, rule runs_bind, rule cmp_simple, simp add: assms(3), rule runs_bind, rule cmp_simple, rule assms(2), rule runs_simple(1),
        rule runs_bind, rule cmp_simple, rule runs_store, rule assms(1)) (simp only: published if_True runs_simple)
qed

lemma cmp_all: "runs (matchRecord x seen e) w w (Some seen') \<Longrightarrow> runs (matchAll x seen' es) w w r \<Longrightarrow> runs (matchAll x seen (e # es)) w w r"
  by (simp add: runs_bind)

lemma cmp_unmatched: "runs (matchAll x seen []) w w (Some seen)"
  by (simp add: runs_simple)

lemma cmp_head: "headEntries cmpProjection = [(\<lparr>rk_kind = SessionRecord, rk_key = ''se''\<rparr>, demoSha), (\<lparr>rk_kind = ThreadRecord, rk_key = ''t''\<rparr>, demoSha)]"
proof -
  have "ob_session (prj_masked cmpProjection) = dv_session pubView" "ob_threads (prj_masked cmpProjection) = [pubThread]"
    by (simp_all add: pubProjectionOf_def draftObservation_def pub_head)
  then show ?thesis by (simp add: headEntries_def cmp_fingerprints pub_head)
qed

lemma cmp_distinct: "replicate 64 (CHR ''2'') \<noteq> replicate 64 (CHR ''1'')" "demoSha \<noteq> replicate 64 (CHR ''1'')" "demoSha \<noteq> replicate 64 (CHR ''2'')"
  by (simp_all add: demoSha_def)

lemma cmp_heads: "runs (matchAll cmpCheck [] (headEntries cmpProjection)) (pubWorld cmpDb) (pubWorld cmpDb)
    (Some [replicate 64 (CHR ''2''), replicate 64 (CHR ''1'')])"
  unfolding cmp_head
  by (rule cmp_all, rule cmp_matched, rule cmp_status, simp, simp, rule cmp_all, rule cmp_matched, rule cmp_status,
      simp only: cmp_identities, simp only: cmp_distinct list.set insert_iff empty_iff simp_thms, simp, unfold cmp_identities, rule cmp_unmatched)

definition cmpStart :: comparison_state where
  "cmpStart = \<lparr>xs_seen = [replicate 64 (CHR ''2''), replicate 64 (CHR ''1'')], xs_counts = startCounts, xs_frames = 0, xs_rawChanged = False, xs_rawCount = 0\<rparr>"

definition cmpEnd :: comparison_state where
  "cmpEnd = \<lparr>xs_seen = [demoSha, replicate 64 (CHR ''2''), replicate 64 (CHR ''1'')], xs_counts = pubCounts, xs_frames = 1, xs_rawChanged = False, xs_rawCount = 0\<rparr>"

lemma cmp_framed: "runs (compareFrame cmpCheck cmpStart pubFrame) (pubWorld cmpDb) (pubWorld cmpDb) (Some cmpEnd)"
proof -
  have entries: "frameEntries ([pubReady], []) = [(\<lparr>rk_kind = EventRecord, rk_key = demoSha\<rparr>, demoSha)]"
    by (simp add: frameEntries_def pubReady_def)
  have start: "xs_frames cmpStart = 0" "xs_counts cmpStart = startCounts" "xs_seen cmpStart = [replicate 64 (CHR ''2''), replicate 64 (CHR ''1'')]"
    by (simp_all add: cmpStart_def)
  have projected: "projectFrame cmpProjection pubFrame startCounts = Inr (([pubReady], []), pubCounts)"
    using pub_frame_projected[of "''source-comparison''" cmpHost] by (simp add: cmp_fingerprints)
  have state: "cmpStart\<lparr>xs_seen := [demoSha, replicate 64 (CHR ''2''), replicate 64 (CHR ''1'')], xs_counts := pubCounts, xs_frames := 0 + 1\<rparr> = cmpEnd"
    by (simp add: cmpStart_def cmpEnd_def)
  have raw: "fr_raw pubFrame = None" by (simp add: pubFrame_def)
  show ?thesis unfolding compareFrame_def compareRaw_def cmp_fields raw start option.case
    by (rule runs_bind, rule cmp_simple, simp, rule runs_bind, rule cmp_simple, simp, rule runs_bind, rule cmp_simple, rule runs_simple(3),
        rule projected, unfold case_prod_conv entries, rule runs_bind, rule cmp_all, rule cmp_matched, rule cmp_status,
        simp only: cmp_identities cmp_distinct list.set insert_iff empty_iff simp_thms, simp, unfold cmp_identities, rule cmp_unmatched,
        unfold option.case state, rule runs_bind, rule runs_simple(1), rule runs_simple(1))
qed

lemma cmp_source: "runs (compareSource cmpCheck 0 cmpStart) (pubWorld cmpDb) (pubWorld cmpDb) (Some cmpEnd)"
proof -
  have page: "dv_read pubView 0 = Some \<lparr>dp_frames = [pubFrame], dp_done = True\<rparr>" by (simp add: pubView_def)
  have later: "projectPage \<lparr>dp_frames = [pubFrame], dp_done = True\<rparr> 0 = Inr 1" by (simp add: projectPage_def requireD_def)
  show ?thesis
    by (subst compareSource.simps, unfold cmp_fields page option.case later sum.case draft_page.simps compareFrames.simps, rule runs_bind,
        rule runs_bind, rule cmp_framed, unfold option.case, rule runs_simple(1)) (simp add: runs_simple)
qed

lemma cmp_records: "runs (compareRecords cmpCheck) (pubWorld cmpDb) (pubWorld cmpDb) (Some (unchangedResult cmpCheck cmpEnd))"
proof -
  have start: "\<lparr>xs_seen = [replicate 64 (CHR ''2''), replicate 64 (CHR ''1'')], xs_counts = startCounts, xs_frames = 0,
      xs_rawChanged = archiveChanged cmpCheck, xs_rawCount = 0\<rparr> = cmpStart"
    by (simp add: cmpStart_def archiveChanged_def cmp_fields Let_def)
  have finished: "finishProjection cmpProjection (xs_counts cmpEnd) = Inr \<lparr>rc_session = 1, rc_thread = 1, rc_event = 1, rc_usage = 0\<rparr>"
    by (simp add: finishProjection_def requireD_def cmpEnd_def pubCounts_def pubProjectionOf_def draftObservation_def pub_head) (simp add: pubView_def)
  have covered: "sameCoverage cmpContext (cx_coverage cmpContext)" by (simp add: sameCoverage_def)
  show ?thesis unfolding compareRecords_def cmp_fields
    by (rule runs_bind, rule cmp_heads, unfold option.case start, rule runs_bind, rule cmp_source, unfold option.case, rule runs_bind, rule cmp_simple,
        rule runs_simple(3), rule finished, rule runs_bind, rule cmp_simple, rule runs_store, rule cmp_coverage, rule runs_bind, rule cmp_simple,
        rule covered, rule runs_simple(1))
qed

lemma cmp_baseline:
  "runs (compareBaseline cmpHost pubRedactor demoOwner cmpInput cmpContext) (pubWorld cmpDb) (pubWorld cmpDb) (unchangedResult cmpCheck cmpEnd)"
proof -
  have source: "runs (liftX (openSource (Some pubView))) w w pubView" for w :: "unit world"
    by (rule cmp_simple) (simp add: openSource_def runs_def checkA_def)
  have metadata: "sourceMetadata (ho_sha cmpHost) demoOwner (Some ''c1'') cmpDb = Inr (cmpDb, None)"
    by (simp add: sourceMetadata_def cmp_scope cmp_key cmp_row) (simp add: cmpCapture_def pubCapture_def storedMetadata_def)
  have decoded: "decodeSourceMetadata None = Inr emptyMetadata" by (simp add: decodeSourceMetadata_def)
  have header: "sameHeader pubRedactor pubView emptyMetadata"
    by (simp add: sameHeader_def emptyMetadata_def viewProfile_def pubView_def)
  have target: "case canonicalRecords (cx_capture cmpContext) of None \<Rightarrow> False | Some expected \<Rightarrow> sameTarget expected pubView emptyMetadata"
    by (simp add: cmpContext_def cmpSummary_def canonicalRecords_def cmpSeal_def pubSeal_def pubManifest_def sameTarget_def emptyMetadata_def
        pubView_def retainedIds_def)
  have input: "\<lparr>ji_captureId = ''source-comparison'', ji_observedAt = xi_observedAt cmpInput, ji_adapterVersion = xi_adapterVersion cmpInput,
      ji_transformVersion = xi_transformVersion cmpInput\<rparr> = pubProjecting ''source-comparison''"
    by (simp add: cmpInput_def pubProjecting_def)
  have check: "\<lparr>xb_host = cmpHost, xb_redactor = pubRedactor, xb_owner = demoOwner, xb_input = cmpInput, xb_context = cmpContext,
      xb_projection = cmpProjection\<rparr> = cmpCheck" by (simp add: cmpCheck_def)
  show ?thesis unfolding compareBaseline_def Let_def cmp_fields input
    by (rule runs_bind, rule source, rule runs_bind, rule cmp_simple, rule runs_store, rule metadata, rule runs_bind, rule cmp_simple, rule runs_simple(3),
        rule decoded, simp only: header target not_True_eq_False if_False, rule runs_bind, rule cmp_simple, rule runs_simple(3), rule pub_projection, simp,
        unfold check, rule runs_bind, rule cmp_records, unfold option.case, rule runs_simple(1))
qed

lemma cmp_run:
  "runs (comparePublicationSource cmpHost pubRedactor demoOwner cmpInput False) (pubWorld cmpDb) (pubWorld cmpDb) (unchangedResult cmpCheck cmpEnd)"
proof -
  have valid: "validateCanonicalSourceMetadata cmpHost demoOwner (xi_adapterVersion cmpInput) = Inr ()" by code_simp
  have admits: "admitRedactionTransform cmpHost (xi_transformVersion cmpInput) = Inr ()" by code_simp
  have transform: "runs (liftX (localP (checkW (admitRedactionTransform cmpHost (xi_transformVersion cmpInput))))) w w ()" for w :: "unit world"
    by (rule cmp_simple) (simp add: runs_def localP_def rawP_def serviceP_def mapErrorA_def checkW_def admits)
  have bounds: "safe_integer (xi_records cmpInput) \<and> 1 \<le> xi_records cmpInput \<and> xi_records cmpInput \<le> 1000000 \<and>
       safe_integer (xi_durationMs cmpInput) \<and> 1 \<le> xi_durationMs cmpInput \<and> xi_durationMs cmpInput \<le> 300000"
      "xi_transformVersion cmpInput \<noteq> [] \<and> utf16_length (xi_transformVersion cmpInput) \<le> 200"
    by code_simp+
  have admitted: "runs (admitComparison cmpHost demoOwner cmpInput) w w ()" for w :: "unit world"
    unfolding admitComparison_def cmp_fields(10) option.case
    by (rule runs_bind, rule cmp_simple, rule runs_simple(3), rule valid, rule runs_bind, rule transform, rule runs_bind, rule cmp_simple, rule bounds,
        rule runs_bind, rule cmp_simple, rule bounds, rule runs_simple(1))
  have found: "runs (liftX (localP (sourceComparisonContext cmpHost demoOwner))) (pubWorld cmpDb) (pubWorld cmpDb) (Some cmpContext)"
    by (rule cmp_simple) (simp add: runs_def localP_def rawP_def serviceP_def mapErrorA_def cmp_context)
  show ?thesis unfolding comparePublicationSource_def if_False
    by (rule runs_bind, rule admitted, rule runs_bind, rule found, unfold option.case, rule cmp_baseline)
qed

section \<open>The promise on the run\<close>

lemma comparison_unchanged_is_published_witness:
  "\<exists>p es us. list_all (publishedIn demoOwner ''c1'' (prj_profile p) cmpDb) (headEntries p @ frameEntries (es, us)) \<and> length es = 1 \<and> length us = 0 \<and>
     \<not> xr_changed (unchangedResult cmpCheck cmpEnd)"
proof -
  have run: "snd (comparePublicationSource cmpHost pubRedactor demoOwner cmpInput False (pubWorld cmpDb)) = Inr (unchangedResult cmpCheck cmpEnd)"
    using cmp_run by (simp add: runs_def)
  have unchanged: "\<not> xr_changed (unchangedResult cmpCheck cmpEnd)" by (simp add: unchangedResult_def Let_def)
  from comparison_unchanged_is_published[OF run unchanged] obtain c p es us expected where found:
      "sourceComparisonContext cmpHost demoOwner (pubWorld cmpDb) = (pubWorld cmpDb, Inr (Some c))"
      "list_all (publishedIn demoOwner (sm_id (cx_capture c)) (prj_profile p) (wd_journal (pubWorld cmpDb))) (headEntries p @ frameEntries (es, us))"
      "canonicalRecords (cx_capture c) = Some expected" "rc_event expected = int (length es)" "rc_usage expected = int (length us)"
    by blast
  have c: "c = cmpContext" using found(1) cmp_context by simp
  have "expected = \<lparr>rc_session = 1, rc_thread = 1, rc_event = 1, rc_usage = 0\<rparr>"
    using found(3) by (simp add: c cmpContext_def cmpSummary_def canonicalRecords_def cmpSeal_def pubSeal_def pubManifest_def)
  then have "length es = 1" "length us = 0" using found(4,5) by simp_all
  moreover have "list_all (publishedIn demoOwner ''c1'' (prj_profile p) cmpDb) (headEntries p @ frameEntries (es, us))"
    using found(2) unfolding c cmp_fields by (simp add: pubWorld_def)
  ultimately show ?thesis using unchanged by blast
qed

end
