(* ===== verification/Spec2Isabelle.thy ===== *)
theory Spec2Isabelle
  imports JournalProperties RedactionPolicy CollectorAdmission RawWitnesses RawContent ReleaseWitnesses LegacyWitnesses TransportChunks RawPackingWitnesses ComparisonWitnesses
begin

text \<open>
  Verification library of ATape: the collector of a developer's machine.  The collector reads coding-agent
  conversations through Adapters, masks secrets, stores what it captured in a durable journal and delivers it to
  a server in bounded slices; a release catalog tells the CLI which bundle to update to.  The library models the
  decision logic of these parts in TypeScript and proves what it promises.

  Parts and how they interact.  An Adapter hands over pages of observations.  collectorPreparation.ts admits a
  page and masks it with the redaction engine under a compiled policy.  A legacy Adapter is paged
  (legacyCollector.ts): its observations go to the server directly, with the progress in checkpoints of the
  collector state file (collectorState.ts).  A source Adapter is published: a fresh source is compared with the
  baseline published last (sourceComparison.ts) and, when it changed, prepared (publicationPreparation.ts): its
  observations become units of a capture in the SQLite journal (captureJournal.ts), the capture is sealed, and
  delivery slices (publicationDelivery.ts) send it and settle each outcome with its proof.  releaseCatalog.ts is separate: the pure rules
  of release catalogs.

  Theories, by part of src/.

  The shared vocabulary.  Prelude: results with errors as values (bindE, requireC and the checks), JavaScript texts.
  Table: the SQL the journal uses, over lists of rows.  Json: JSON values, JSON.stringify and JSON.parse.
  Schema: Effect schemas as decoders.  WebBytes: UTF-8 decoding, atob and btoa.  JsTime: Date.parse.
  Utf8: well-formed UTF-8 and JSON texts.  Utf16: truncation of a text.  StableSort: Array.prototype.sort.  Actions: effects over a state, and triples for them.

  apps/cli/src/runtime/captureJournal.ts and packages/application/src/captureJournal.ts.  CaptureTypes holds the
  rows, CaptureJournal the checks and shared steps, JournalOperations, JournalRecords and JournalDelivery one
  function per operation of the service; the state journal_db is the record of the tables.  JournalEffects inverts
  each operation, JournalInvariant and JournalSafety show that each is a sequence of primitive changes that keep
  the invariant, JournalHistory defines histories of calls, and JournalProperties proves the promises over every
  history from a created journal: consistency and budgets, fencing of superseded owners, frozen seals,
  surviving receipts, checkpoints moved by activation only, monotone revisions, safe pruning and reclaiming.

  packages/domain/src/collector.ts and toolValues.ts.  CollectorDomain: the types, profiles and limits;
  CollectorSchemas: the schemas, each proved a codec of the values it admits.

  packages/application/src/redaction.ts and redaction/.  RedactionCatalog: the patterns; RedactionEngine: rules,
  Aho-Corasick scan, spans and masking; Redaction: the bounded traversal and the canonical observation;
  RedactionPolicy: compilation and identity of a policy.  RedactionLiterals proves the automaton exact,
  RedactionMasking that every secret value is masked, RedactionProperties what a masked observation keeps.

  packages/application/src/collectorPreparation.ts.  CollectorPreparation: page admission and preparation, a refusal
  for each check; CollectorAdmission: what admission guarantees.

  packages/domain/src/publication.ts, publicationProfiles.ts, rawPublication.ts and
  packages/application/src/publicationDelivery.ts.  Publication and PublicationCodecs: the protocol's data and
  codecs; PublicationService: journal, remote and current policy as one state; PublicationCapture: reserve, prepare
  and seal; PublicationDelivery and RawDelivery: the delivery loops.  DeliverySafety, DeliveryProperties,
  RawProperties and RawContent prove what a slice may do; DeliveryWitnesses and RawWitnesses run it.

  packages/application/src/rawPreparation.ts.  RawPreparation: the packing of masked source records into the Raw units
  of a capture; RawChunks and RawPacking prove its size accounting exact and each step's triple, RawPackingProperties
  that the units fit the budget, that the Raw delivery accepts them and that the references resolve;
  RawPackingWitnesses runs one preparation.

  packages/application/src/canonicalProjection.ts, canonicalSourceProjection.ts, sourceMetadata.ts and
  publicationPreparation.ts.  CanonicalProjection: the batch of the wire, the text of every ACP update and the bound on
  what the server materializes; SourceProjection: the view of a source and the checked, masked and fingerprinted
  projection of its frames; SourceMetadata: the metadata frozen with a capture, proved to read back;
  PublicationPreparation: the complete preparation, one function per closure of the code, over the state drafting.
  PublicationParts, PublicationFilling, PublicationTarget and PublicationWhole give each step its triple,
  PublicationTheorems proves that the parts refine the projection, are complete and ordered, and stay within the
  negotiated limits.  PublicationWitnesses, PublicationRun, PublicationPart and PublicationEnd run one preparation.

  packages/application/src/sourceComparison.ts.  SourceComparison: the comparison of a source with its published
  baseline; SourceComparisonProperties: it is read-only, and a source found unchanged is published record by
  record; ComparisonWitnesses runs one comparison.

  packages/domain/src/releaseCatalog.ts.  ReleaseCatalog and ReleaseRouting: the three catalogs; ReleaseOrder,
  ReleaseProperties, ReleaseText and ReleaseSection: version order, merges, fingerprints, body sections.

  apps/cli/src/runtime/collectorState.ts.  CollectorState: the checkpoint store, with its contract as the locale
  checkpoint_store; CheckpointHistory: every history of writers refines a compare-and-set map.

  packages/application/src/legacyCollector.ts.  LegacyCollector: retries, checkpoints, transport chunks and the
  concurrent upload of Raw objects; LegacyCycle: pages and the cycle.  LegacySafety gives each effect its triple,
  LegacyProperties proves what a cycle promises, TransportChunks the cutting of content.

  How effects are modelled.  Every service call is explicit: a remote, an Adapter, a clock, a random source and the
  storage are functions over a state of their own type, given as arguments; theorems hold for all of them, so for
  every answer and every failure.  Errors are values of a sum type, one constructor per refusal of the code.  A
  transaction of the journal discards its changes when it fails.  The uploads that run concurrently in a legacy cycle
  advance one step at a time in the order of a schedule, which is an argument too: each interleaving of three
  uploads is the run of some schedule, and the remaining steps run in order when the schedule is used up.

  Bounds and fuel.  JSON values are parsed with fuel of twice the length of the text plus one, enough for every
  text the library prints (proved in Json, ReleaseText and ReleaseSection).  Delivery loops are total: each
  continuing turn uses an operation of the budget.  The loop over the pages of a source ends because the code admits
  at most 1000001 of them.  Retries are structural in the
  attempts left, page loops in the pages left.  The chunk loop is a partial function and proved to return.

  Conventions that depart from the code.  A JavaScript string is the list of its UTF-8 bytes, with lengths in UTF-16
  units written out where the code counts them; lone surrogates do not occur.  Numbers are exact; the checks
  of safe integers are the code's own.  Error messages are dropped, their reason kept.  Member order of objects
  is insertion order.

  Parameters, code that is not in the repository or not pure.  SHA-256 and HMAC-SHA-256, RE2 matching, the
  collation of localeCompare, the remote transports, clocks and random sources, and the Adapters: a source is its view
  and the function from page numbers to pages, absent where the source fails.  Its session, threads, events and usage
  carry no revision in the code; the revision they have in the model is overwritten before it is read.

  Not modelled.  SQLite DDL and upgrades of old databases, file modes and locks between processes, HTTP
  transports, processes and update installers, the Adapters' archive parsers, the terminal and browser
  interfaces, and the Go server, which is another language.  The orchestration of many sources
  (sourceCollector.ts, collectionJob.ts, collectorDaemon.ts) runs over fibers, scopes and timers of the Effect library and
  is left out; what it calls for one source is modelled.  What collectorContracts.ts and collector.ts
  declare for these parts (daemon status, plans of source capture, sessions of newSession.ts) are left out
  with them.
\<close>

end
